(* ===== verification/Prelude.thy ===== *)
theory Prelude
  imports Main "HOL-Library.Multiset" "HOL-Library.Word" "HOL-Library.Finite_Map" "HOL-Library.Char_ord"
    "HOL-Library.List_Lexorder"
begin

text \<open>
  What every component of the route service shares: the result type standing for
  \<^verbatim>\<open>std::expected\<close>, the byte strings standing for \<^verbatim>\<open>std::string\<close> and
  \<^verbatim>\<open>std::string_view\<close>, the finite maps standing for the standard library's maps, the
  effects a component leaves behind, and the collections of rewrite rules the component
  theories use.

  Conventions. A C++ map is a value of type \<^typ>\<open>('k, 'v) fmap\<close>; where the code iterates over an
  unordered map, the order is an argument of the definition (a list that enumerates the keys),
  so a theorem holds for every order the standard library may choose. A time point is an
  \<^typ>\<open>int\<close> counting nanoseconds. A field of a C++ struct is named by the struct's
  abbreviation and the field's name, because Isabelle's record fields share one name space.
\<close>

named_theorems outcome \<open>equations and inversions for results of fallible operations\<close>
named_theorems text_simps \<open>equations that evaluate string operations\<close>
named_theorems fm_simps \<open>equations on sizes and updates of finite maps\<close>

subsection \<open>Results of fallible operations\<close>

type_synonym ('e, 'a) expected = "'e + 'a"

fun bindE :: "'e + 'a \<Rightarrow> ('a \<Rightarrow> 'e + 'b) \<Rightarrow> 'e + 'b" where
  "bindE (Inl e) f = Inl e"
| "bindE (Inr a) f = f a"

definition require :: "bool \<Rightarrow> 'e \<Rightarrow> 'e + unit" where
  "require c e = (if c then Inr () else Inl e)"

primrec has_value :: "'e + 'a \<Rightarrow> bool" where
  "has_value (Inl e) = False"
| "has_value (Inr a) = True"

lemma bindE_eq_Inr_iff [outcome]: "bindE x f = Inr b \<longleftrightarrow> (\<exists>a. x = Inr a \<and> f a = Inr b)"
  by (cases x) auto

lemma bindE_eq_Inl_iff [outcome]:
  "bindE x f = Inl e \<longleftrightarrow> x = Inl e \<or> (\<exists>a. x = Inr a \<and> f a = Inl e)"
  by (cases x) auto

lemma require_eq_Inr_iff [outcome]: "require c e = Inr u \<longleftrightarrow> c"
  by (simp add: require_def)

lemma require_eq_Inl_iff [outcome]: "require c e = Inl d \<longleftrightarrow> \<not> c \<and> d = e"
  by (auto simp: require_def)

lemma require_simps [simp]: "require True e = Inr ()" "require False e = Inl e"
  by (simp_all add: require_def)

lemma has_value_iff: "has_value x \<longleftrightarrow> (\<exists>a. x = Inr a)"
  by (cases x) auto

subsection \<open>Byte strings\<close>

text \<open>
  Literals of the source that are not ASCII are written by their UTF-8 bytes.
\<close>

definition utf8 :: "nat list \<Rightarrow> string" where
  "utf8 bs = map char_of bs"

definition code :: "char \<Rightarrow> nat" where
  "code c = of_char c"

definition starts_with :: "string \<Rightarrow> string \<Rightarrow> bool" where
  "starts_with s p \<longleftrightarrow> take (length p) s = p"

definition ends_with :: "string \<Rightarrow> string \<Rightarrow> bool" where
  "ends_with s q \<longleftrightarrow> length q \<le> length s \<and> drop (length s - length q) s = q"

text \<open>\<^verbatim>\<open>s.substr(pos, n)\<close> for a position within the string.\<close>

definition substr :: "string \<Rightarrow> nat \<Rightarrow> nat \<Rightarrow> string" where
  "substr s pos n = take n (drop pos s)"

text \<open>\<^verbatim>\<open>s.find(c)\<close>: the index of the first occurrence, \<^const>\<open>None\<close> for \<^verbatim>\<open>npos\<close>.\<close>

fun find_char :: "char \<Rightarrow> string \<Rightarrow> nat option" where
  "find_char c [] = None"
| "find_char c (x # xs) = (if x = c then Some 0 else map_option Suc (find_char c xs))"

text \<open>\<^verbatim>\<open>s.find(t) != npos\<close> for a string argument.\<close>

fun find_substring :: "string \<Rightarrow> string \<Rightarrow> bool" where
  "find_substring t [] = (t = [])"
| "find_substring t (x # xs) = (starts_with (x # xs) t \<or> find_substring t xs)"

definition is_digit :: "char \<Rightarrow> bool" where
  "is_digit c \<longleftrightarrow> CHR ''0'' \<le> c \<and> c \<le> CHR ''9''"

definition is_upper :: "char \<Rightarrow> bool" where
  "is_upper c \<longleftrightarrow> CHR ''A'' \<le> c \<and> c \<le> CHR ''Z''"

definition is_lower :: "char \<Rightarrow> bool" where
  "is_lower c \<longleftrightarrow> CHR ''a'' \<le> c \<and> c \<le> CHR ''z''"

text \<open>\<^verbatim>\<open>std::isalnum\<close> in the "C" locale, which the service never changes.\<close>

definition is_alnum :: "char \<Rightarrow> bool" where
  "is_alnum c \<longleftrightarrow> is_digit c \<or> is_upper c \<or> is_lower c"

lemmas char_class_defs = is_digit_def is_upper_def is_lower_def is_alnum_def

lemma find_char_None_iff: "find_char c s = None \<longleftrightarrow> c \<notin> set s"
  by (induction s) auto

lemma find_char_append:
  "find_char c (s @ t) =
     (case find_char c s of Some i \<Rightarrow> Some i | None \<Rightarrow> map_option (\<lambda>i. i + length s) (find_char c t))"
  by (induction s) (auto simp: option.map_comp comp_def option.map_ident split: option.splits
      intro!: option.map_cong)

lemma find_char_sep: "c \<notin> set s \<Longrightarrow> find_char c (s @ c # t) = Some (length s)"
  by (simp add: find_char_append find_char_None_iff [THEN iffD2])

lemma find_char_SomeD:
  "find_char c s = Some i \<Longrightarrow> i < length s \<and> s = take i s @ c # drop (Suc i) s \<and> c \<notin> set (take i s)"
proof (induction s arbitrary: i)
  case Nil
  then show ?case by simp
next
  case (Cons x s)
  then show ?case by (cases i) (fastforce split: if_splits)+
qed

lemma starts_with_append [text_simps]: "starts_with (p @ s) p"
  by (simp add: starts_with_def)

lemma starts_withD: "starts_with s p \<Longrightarrow> s = p @ drop (length p) s"
  by (metis append_take_drop_id starts_with_def)

lemma starts_with_iff: "starts_with s p \<longleftrightarrow> (\<exists>t. s = p @ t)"
  by (metis starts_withD starts_with_append)

lemma ends_with_append [text_simps]: "ends_with (s @ q) q"
  by (simp add: ends_with_def)

lemma ends_with_iff: "ends_with s q \<longleftrightarrow> (\<exists>t. s = t @ q)"
  by (metis append_take_drop_id ends_with_append ends_with_def)

lemma find_substring_iff: "find_substring t s \<longleftrightarrow> (\<exists>a b. s = a @ t @ b)"
proof (induction s)
  case Nil
  show ?case by auto
next
  case (Cons x s)
  have "(\<exists>a b. x # s = a @ t @ b) \<longleftrightarrow> (\<exists>b. x # s = t @ b) \<or> (\<exists>a b. s = a @ t @ b)"
    by (metis append_Cons append_Nil list.exhaust list.inject)
  then show ?case by (simp add: Cons.IH starts_with_iff)
qed

subsection \<open>Finite maps\<close>

definition fmsize :: "('k, 'v) fmap \<Rightarrow> nat" where
  "fmsize m = fcard (fmdom m)"

text \<open>\<^term>\<open>enumerates ks m\<close>: the list is one of the orders in which the map may be iterated.\<close>

definition enumerates :: "'k list \<Rightarrow> ('k, 'v) fmap \<Rightarrow> bool" where
  "enumerates ks m \<longleftrightarrow> distinct ks \<and> set ks = fmdom' m"

lemma fmsize_empty [simp, fm_simps]: "fmsize fmempty = 0"
  by (simp add: fmsize_def)

lemma fmsize_card: "fmsize m = card (fmdom' m)"
  by (simp add: fmsize_def fcard.rep_eq fmdom'_alt_def)

lemma fmsize_upd [fm_simps]:
  "fmsize (fmupd k v m) = (if fmlookup m k = None then Suc (fmsize m) else fmsize m)"
  by (auto simp: fmsize_card card_insert_if fmlookup_dom'_iff)

lemma fmsize_drop [fm_simps]:
  "fmsize (fmdrop k m) = (if fmlookup m k = None then fmsize m else fmsize m - 1)"
  by (auto simp: fmsize_card fmlookup_dom'_iff card_Diff_singleton_if)

lemma fmsize_drop_le: "fmsize (fmdrop k m) \<le> fmsize m"
  by (simp add: fmsize_drop)

lemma fmsize_0_iff: "fmsize m = 0 \<longleftrightarrow> m = fmempty"
proof
  assume "fmsize m = 0"
  then have "fmdom' m = {}" by (simp add: fmsize_card)
  then have "fmlookup m x = None" for x by auto
  then show "m = fmempty" by (intro fmap_ext) simp
qed simp

lemma fmdom'_lookup: "k \<in> fmdom' m \<longleftrightarrow> fmlookup m k \<noteq> None"
  by (auto simp: fmlookup_dom'_iff)

lemma enumerates_length: "enumerates ks m \<Longrightarrow> length ks = fmsize m"
  by (auto simp: enumerates_def fmsize_card distinct_card [symmetric])

lemma enumerates_lookup: "enumerates ks m \<Longrightarrow> k \<in> set ks \<longleftrightarrow> fmlookup m k \<noteq> None"
  by (auto simp: enumerates_def fmlookup_dom'_iff)

lemma enumerates_empty [simp]: "enumerates [] fmempty"
  by (simp add: enumerates_def)

text \<open>\<^verbatim>\<open>m.emplace(k, v)\<close> leaves an existing entry alone.\<close>

definition emplace :: "'k \<Rightarrow> 'v \<Rightarrow> ('k, 'v) fmap \<Rightarrow> ('k, 'v) fmap" where
  "emplace k v m = (if fmlookup m k = None then fmupd k v m else m)"

end
