(* ===== verification/Json_Value.thy ===== *)
theory Json_Value
  imports Prelude
begin

text \<open>
  JSON documents as the service sees them through \<^verbatim>\<open>nlohmann::json\<close>. The library itself
  is not part of the sources: the value tree is a datatype with the library's value types
  (signed, unsigned and floating numbers are distinct, objects are maps from keys), the
  inspection functions read that tree, and the three algorithms of the library the service
  relies on, parsing, serialising and \<^verbatim>\<open>operator==\<close>, are a parameter of type
  \<open>json_lib\<close> of the definitions that use them.
\<close>

datatype json =
    JNull
  | JBool bool
  | JInteger "64 word"   \<comment> \<open>\<^verbatim>\<open>number_integer\<close>, an \<^verbatim>\<open>int64_t\<close>\<close>
  | JUnsigned "64 word"  \<comment> \<open>\<^verbatim>\<open>number_unsigned\<close>, a \<^verbatim>\<open>uint64_t\<close>\<close>
  | JFloat "64 word"     \<comment> \<open>\<^verbatim>\<open>number_float\<close>, the bits of a double; never inspected\<close>
  | JString string
  | JArray "json list"
  | JObject "(string, json) fmap"

record json_lib =
  jparse :: "string \<Rightarrow> json option"   \<comment> \<open>\<^const>\<open>None\<close>: \<^verbatim>\<open>parse_error\<close> or a discarded value\<close>
  jdump :: "json \<Rightarrow> string"
  jeq :: "json \<Rightarrow> json \<Rightarrow> bool"

subsection \<open>Inspection\<close>

fun is_object :: "json \<Rightarrow> bool" where
  "is_object (JObject m) = True"
| "is_object _ = False"

fun is_array :: "json \<Rightarrow> bool" where
  "is_array (JArray xs) = True"
| "is_array _ = False"

fun is_string :: "json \<Rightarrow> bool" where
  "is_string (JString s) = True"
| "is_string _ = False"

fun is_boolean :: "json \<Rightarrow> bool" where
  "is_boolean (JBool b) = True"
| "is_boolean _ = False"

fun is_null :: "json \<Rightarrow> bool" where
  "is_null JNull = True"
| "is_null _ = False"

text \<open>\<^verbatim>\<open>is_number_integer()\<close> holds of both integer types, as the library documents.\<close>

fun is_number_integer :: "json \<Rightarrow> bool" where
  "is_number_integer (JInteger w) = True"
| "is_number_integer (JUnsigned w) = True"
| "is_number_integer _ = False"

fun is_number_unsigned :: "json \<Rightarrow> bool" where
  "is_number_unsigned (JUnsigned w) = True"
| "is_number_unsigned _ = False"

text \<open>
  \<^verbatim>\<open>get<std::int64_t>()\<close> and \<^verbatim>\<open>get<std::uint64_t>()\<close> of an integer value convert
  between the two 64-bit types, which keeps the bits.
\<close>

fun get_bits :: "json \<Rightarrow> 64 word" where
  "get_bits (JInteger w) = w"
| "get_bits (JUnsigned w) = w"
| "get_bits _ = 0"

definition get_int64 :: "json \<Rightarrow> int" where
  "get_int64 j = sint (get_bits j)"

definition get_uint64 :: "json \<Rightarrow> nat" where
  "get_uint64 j = unat (get_bits j)"

fun jfind :: "json \<Rightarrow> string \<Rightarrow> json option" where
  "jfind (JObject m) k = fmlookup m k"
| "jfind _ k = None"

definition contains :: "json \<Rightarrow> string \<Rightarrow> bool" where
  "contains j k \<longleftrightarrow> jfind j k \<noteq> None"

fun jsize :: "json \<Rightarrow> nat" where
  "jsize JNull = 0"
| "jsize (JArray xs) = length xs"
| "jsize (JObject m) = fmsize m"
| "jsize _ = 1"

text \<open>The keys of an object in the order of \<^verbatim>\<open>items()\<close>, which is ascending.\<close>

fun jkeys :: "json \<Rightarrow> string list" where
  "jkeys (JObject m) = sorted_list_of_fset (fmdom m)"
| "jkeys _ = []"

definition only_fields :: "json \<Rightarrow> string list \<Rightarrow> bool" where
  "only_fields j allowed \<longleftrightarrow> list_all (\<lambda>k. k \<in> set allowed) (jkeys j)"

subsection \<open>Construction\<close>

text \<open>
  An initializer list of pairs builds an object. Where a key occurs twice the library keeps
  the first pair, as \<^const>\<open>fmap_of_list\<close> does; the sources never repeat a key.
\<close>

definition jobject :: "(string \<times> json) list \<Rightarrow> json" where
  "jobject kvs = JObject (fmap_of_list kvs)"

fun jset :: "json \<Rightarrow> string \<Rightarrow> json \<Rightarrow> json" where
  "jset (JObject m) k v = JObject (fmupd k v m)"
| "jset j k v = j"

definition jint :: "int \<Rightarrow> json" where
  "jint i = JInteger (word_of_int i)"

definition juint :: "'a::len word \<Rightarrow> json" where
  "juint w = JUnsigned (ucast w)"

definition jopt :: "('a \<Rightarrow> json) \<Rightarrow> 'a option \<Rightarrow> json" where
  "jopt f v = (case v of None \<Rightarrow> JNull | Some x \<Rightarrow> f x)"

subsection \<open>Lemmas\<close>

lemma jfind_jobject [simp]: "jfind (jobject kvs) k = map_of kvs k"
  by (simp add: jobject_def fmlookup_of_list)

lemma jfind_jset [simp]:
  "is_object j \<Longrightarrow> jfind (jset j k v) k' = (if k' = k then Some v else jfind j k')"
  by (cases j) auto

lemma is_object_jobject [simp]: "is_object (jobject kvs)"
  by (simp add: jobject_def)

lemma is_object_jset [simp]: "is_object (jset j k v) = is_object j"
  by (cases j) auto

lemma only_fields_iff: "only_fields j allowed \<longleftrightarrow> (\<forall>k. contains j k \<longrightarrow> k \<in> set allowed)"
  by (cases j) (auto simp: only_fields_def contains_def list_all_iff fmlookup_dom_iff)

lemma get_uint64_bound: "get_uint64 j < 2 ^ 64"
  using unsigned_less [of "get_bits j", where ?'a = nat] by (simp add: get_uint64_def)

lemma int_mod_shift:
  "0 \<le> u \<Longrightarrow> u < 2 ^ 64 \<Longrightarrow>
     (u + 2 ^ 63) mod 2 ^ 64 - 2 ^ 63 = (if u < 2 ^ 63 then u else u - 2 ^ 64)" for u :: int
proof -
  assume u: "0 \<le> u" "u < 2 ^ 64"
  have "(u + 2 ^ 63) mod 2 ^ 64 = u - 2 ^ 63" if "\<not> u < 2 ^ 63"
  proof -
    have "(u + 2 ^ 63) mod 2 ^ 64 = (u - 2 ^ 63 + 2 ^ 64) mod 2 ^ 64" by (simp add: add.commute)
    also have "\<dots> = (u - 2 ^ 63) mod 2 ^ 64" by (rule mod_add_self2)
    also have "\<dots> = u - 2 ^ 63" using u that by (intro mod_pos_pos_trivial) simp_all
    finally show ?thesis .
  qed
  with u show ?thesis by (simp add: mod_pos_pos_trivial)
qed

lemma get_int64_cases:
  "get_int64 j = (if get_uint64 j < 2 ^ 63 then int (get_uint64 j) else int (get_uint64 j) - 2 ^ 64)"
proof -
  have u: "int (get_uint64 j) = uint (get_bits j)"
    by (simp add: get_uint64_def)
  have "get_int64 j = (uint (get_bits j) + 2 ^ 63) mod 2 ^ 64 - 2 ^ 63"
    by (simp add: get_int64_def sint_uint signed_take_bit_eq_take_bit_shift take_bit_eq_mod)
  also have "\<dots> = (if uint (get_bits j) < 2 ^ 63 then uint (get_bits j) else uint (get_bits j) - 2 ^ 64)"
    using get_uint64_bound [of j] by (intro int_mod_shift) (simp_all add: u [symmetric])
  finally show ?thesis by (simp add: u [symmetric])
qed

lemma get_int64_nonneg: "0 \<le> get_int64 j \<Longrightarrow> get_int64 j = int (get_uint64 j)"
  using get_uint64_bound [of j] by (simp add: get_int64_cases split: if_splits)

end
