(* ===== verification/Bounded_Queue.thy ===== *)
theory Bounded_Queue
  imports Prelude
begin

text \<open>
  \<^verbatim>\<open>core/queue/bounded_queue.hpp\<close>: the queue between the MQTT callback threads and the
  business thread. Every method of the class runs under one mutex, so a method is one atomic
  step on the state; \<^verbatim>\<open>WaitPop\<close> blocks, that is, has no step, while the queue is open and
  empty. Interleavings of producers and consumers are sequences of such steps.
\<close>

record 'a BoundedQueue =
  bq_capacity :: nat
  bq_queue :: "'a list"
  bq_closed :: bool

datatype queue_error = InvalidArgument

definition BoundedQueue_new :: "nat \<Rightarrow> queue_error + 'a BoundedQueue" where
  "BoundedQueue_new capacity =
     (if capacity = 0 then Inl InvalidArgument
      else Inr \<lparr>bq_capacity = capacity, bq_queue = [], bq_closed = False\<rparr>)"

definition TryPush :: "'a \<Rightarrow> 'a BoundedQueue \<Rightarrow> bool \<times> 'a BoundedQueue" where
  "TryPush value q =
     (if bq_closed q \<or> length (bq_queue q) \<ge> bq_capacity q then (False, q)
      else (True, q\<lparr>bq_queue := bq_queue q @ [value]\<rparr>))"

text \<open>\<^const>\<open>None\<close>: the caller keeps waiting on the condition variable.\<close>

definition WaitPop :: "'a BoundedQueue \<Rightarrow> ('a option \<times> 'a BoundedQueue) option" where
  "WaitPop q =
     (if \<not> (bq_closed q \<or> bq_queue q \<noteq> []) then None
      else (case bq_queue q of
              [] \<Rightarrow> Some (None, q)
            | value # rest \<Rightarrow> Some (Some value, q\<lparr>bq_queue := rest\<rparr>)))"

definition Close :: "'a BoundedQueue \<Rightarrow> 'a BoundedQueue" where
  "Close q = q\<lparr>bq_closed := True\<rparr>"

definition Size :: "'a BoundedQueue \<Rightarrow> nat" where
  "Size q = length (bq_queue q)"

definition IsClosed :: "'a BoundedQueue \<Rightarrow> bool" where
  "IsClosed q = bq_closed q"

text \<open>The loop \<^verbatim>\<open>while (queue.Size() != 0) if (auto m = queue.WaitPop()) \<dots>\<close> of a consumer.\<close>

function drain :: "'a BoundedQueue \<Rightarrow> 'a list \<times> 'a BoundedQueue" where
  "drain q =
     (if Size q = 0 then ([], q)
      else (case WaitPop q of
              Some (Some value, q') \<Rightarrow> (let (vs, q'') = drain q' in (value # vs, q''))
            | _ \<Rightarrow> ([], q)))"
  by pat_completeness auto
termination
  by (relation "measure Size") (auto simp: Size_def WaitPop_def split: if_splits list.splits)

subsection \<open>Interleavings\<close>

datatype 'a queue_event = Pushed 'a | Refused 'a | Popped 'a | Finished | Closed

inductive queue_step :: "'a BoundedQueue \<Rightarrow> 'a queue_event \<Rightarrow> 'a BoundedQueue \<Rightarrow> bool" where
  push_ok: "TryPush v q = (True, q') \<Longrightarrow> queue_step q (Pushed v) q'"
| push_refused: "TryPush v q = (False, q') \<Longrightarrow> queue_step q (Refused v) q'"
| pop_value: "WaitPop q = Some (Some v, q') \<Longrightarrow> queue_step q (Popped v) q'"
| pop_end: "WaitPop q = Some (None, q') \<Longrightarrow> queue_step q Finished q'"
| close: "queue_step q Closed (Close q)"

inductive queue_run :: "'a BoundedQueue \<Rightarrow> 'a queue_event list \<Rightarrow> 'a BoundedQueue \<Rightarrow> bool" where
  run_nil: "queue_run q [] q"
| run_snoc: "queue_run q es q' \<Longrightarrow> queue_step q' e q'' \<Longrightarrow> queue_run q (es @ [e]) q''"

fun pushed :: "'a queue_event list \<Rightarrow> 'a list" where
  "pushed [] = []"
| "pushed (Pushed v # es) = v # pushed es"
| "pushed (e # es) = pushed es"

fun popped :: "'a queue_event list \<Rightarrow> 'a list" where
  "popped [] = []"
| "popped (Popped v # es) = v # popped es"
| "popped (e # es) = popped es"

definition queue_ok :: "'a BoundedQueue \<Rightarrow> bool" where
  "queue_ok q \<longleftrightarrow> 0 < bq_capacity q \<and> length (bq_queue q) \<le> bq_capacity q"

inductive_cases queue_stepE:
  "queue_step q (Pushed v) q'" "queue_step q (Refused v) q'" "queue_step q (Popped v) q'"
  "queue_step q Finished q'" "queue_step q Closed q'"

lemmas queue_defs = TryPush_def WaitPop_def Close_def Size_def IsClosed_def

subsection \<open>Lemmas\<close>

lemma TryPush_True_iff:
  "TryPush v q = (True, q') \<longleftrightarrow>
     \<not> bq_closed q \<and> length (bq_queue q) < bq_capacity q \<and> q' = q\<lparr>bq_queue := bq_queue q @ [v]\<rparr>"
  by (auto simp: TryPush_def)

lemma TryPush_False_iff:
  "TryPush v q = (False, q') \<longleftrightarrow> (bq_closed q \<or> bq_capacity q \<le> length (bq_queue q)) \<and> q' = q"
  by (auto simp: TryPush_def)

lemma WaitPop_Some_iff:
  "WaitPop q = Some (Some v, q') \<longleftrightarrow> (\<exists>rest. bq_queue q = v # rest \<and> q' = q\<lparr>bq_queue := rest\<rparr>)"
  by (auto simp: WaitPop_def split: list.splits)

lemma WaitPop_end_iff: "WaitPop q = Some (None, q') \<longleftrightarrow> bq_closed q \<and> bq_queue q = [] \<and> q' = q"
  by (auto simp: WaitPop_def split: list.splits)

lemma WaitPop_blocks_iff: "WaitPop q = None \<longleftrightarrow> \<not> bq_closed q \<and> bq_queue q = []"
  by (auto simp: WaitPop_def split: list.splits)

lemmas queue_op_iffs =
  TryPush_True_iff TryPush_False_iff WaitPop_Some_iff WaitPop_end_iff WaitPop_blocks_iff

lemma queue_step_ok: "queue_step q e q' \<Longrightarrow> queue_ok q \<Longrightarrow> queue_ok q'"
  by (induction rule: queue_step.induct) (auto simp: queue_ok_def queue_op_iffs Close_def)

lemma queue_step_closed: "queue_step q e q' \<Longrightarrow> bq_closed q \<Longrightarrow> bq_closed q'"
  by (induction rule: queue_step.induct) (auto simp: queue_op_iffs Close_def)

lemma queue_step_capacity: "queue_step q e q' \<Longrightarrow> bq_capacity q' = bq_capacity q"
  by (induction rule: queue_step.induct) (auto simp: queue_op_iffs Close_def)

lemma pushed_append [simp]: "pushed (es @ fs) = pushed es @ pushed fs"
  by (induction es rule: pushed.induct) auto

lemma popped_append [simp]: "popped (es @ fs) = popped es @ popped fs"
  by (induction es rule: popped.induct) auto

lemma queue_step_contents:
  "queue_step q e q' \<Longrightarrow> bq_queue q @ pushed [e] = popped [e] @ bq_queue q'"
  by (induction rule: queue_step.induct) (auto simp: queue_op_iffs Close_def)

lemma queue_run_contents: "queue_run q es q' \<Longrightarrow> bq_queue q @ pushed es = popped es @ bq_queue q'"
proof (induction rule: queue_run.induct)
  case (run_nil q)
  show ?case by simp
next
  case (run_snoc q es q' e q'')
  have "bq_queue q @ pushed (es @ [e]) = popped es @ bq_queue q' @ pushed [e]"
    using run_snoc.IH by (metis append_assoc pushed_append)
  also have "\<dots> = popped (es @ [e]) @ bq_queue q''"
    using queue_step_contents [OF run_snoc.hyps(2)] by simp
  finally show ?case .
qed

lemma queue_run_ok: "queue_run q es q' \<Longrightarrow> queue_ok q \<Longrightarrow> queue_ok q'"
  by (induction rule: queue_run.induct) (auto intro: queue_step_ok)

lemma queue_run_closed: "queue_run q es q' \<Longrightarrow> bq_closed q \<Longrightarrow> bq_closed q' \<and> pushed es = []"
proof (induction rule: queue_run.induct)
  case (run_snoc q es q' e q'')
  then have "bq_closed q'" by simp
  with run_snoc.hyps(2) have "pushed [e] = []"
    by (induction rule: queue_step.induct) (auto simp: queue_op_iffs)
  with run_snoc show ?case by (auto intro: queue_step_closed)
qed simp

declare drain.simps [simp del]

lemma drain_all: "drain q = (bq_queue q, q\<lparr>bq_queue := []\<rparr>)"
proof (induction q rule: drain.induct)
  case (1 q)
  show ?case
  proof (cases "bq_queue q")
    case Nil
    then show ?thesis by (subst drain.simps) (simp add: Size_def)
  next
    case (Cons v rest)
    then have pop: "WaitPop q = Some (Some v, q\<lparr>bq_queue := rest\<rparr>)"
      by (simp add: WaitPop_Some_iff)
    have "drain (q\<lparr>bq_queue := rest\<rparr>) = (rest, q\<lparr>bq_queue := []\<rparr>)"
      using 1 [OF _ pop refl refl] Cons by (simp add: Size_def)
    then show ?thesis using Cons by (subst drain.simps) (simp add: Size_def pop)
  qed
qed

subsection \<open>The interface the services rely on\<close>

text \<open>
  What a client may assume of an inbound queue: pushes are all-or-nothing and never exceed a
  capacity, and draining delivers what was accepted, once, in order.
\<close>

locale inbound_queue =
  fixes push :: "'a \<Rightarrow> 'q \<Rightarrow> bool \<times> 'q"
    and take_all :: "'q \<Rightarrow> 'a list \<times> 'q"
    and contents :: "'q \<Rightarrow> 'a list"
    and room :: "'q \<Rightarrow> bool"
  assumes push_room: "room q \<Longrightarrow> fst (push v q) \<and> contents (snd (push v q)) = contents q @ [v]"
    and push_full: "\<not> room q \<Longrightarrow> push v q = (False, q)"
    and take_all_contents: "fst (take_all q) = contents q \<and> contents (snd (take_all q)) = []"
begin

fun push_all :: "'a list \<Rightarrow> 'q \<Rightarrow> 'a list \<times> 'q" where
  "push_all [] q = ([], q)"
| "push_all (v # vs) q =
     (case push v q of (ok, q') \<Rightarrow>
        (case push_all vs q' of (acc, q'') \<Rightarrow> (if ok then v # acc else acc, q'')))"

lemma push_all_contents: "push_all vs q = (acc, q') \<Longrightarrow> contents q' = contents q @ acc"
proof (induction vs arbitrary: q acc)
  case Nil
  then show ?case by simp
next
  case (Cons v vs)
  then show ?case
    using push_room [of q v] push_full [of q v]
    by (cases "room q") (fastforce split: prod.splits if_splits)+
qed

lemma push_all_delivered:
  "push_all vs q = (acc, q') \<Longrightarrow> contents q = [] \<Longrightarrow> fst (take_all q') = acc"
  using push_all_contents take_all_contents by fastforce

end

interpretation bq: inbound_queue TryPush drain bq_queue
  "\<lambda>q. \<not> bq_closed q \<and> length (bq_queue q) < bq_capacity q"
  by unfold_locales (auto simp: TryPush_def drain_all)

end
