(* ===== verification/Messages.thy ===== *)
theory Messages
  imports Prelude
begin

text \<open>
  The literals of the route service's diagnostics and error messages. They are Chinese text in the
  sources and are given here by the bytes of their UTF-8 encoding; the service compares and
  concatenates them as byte strings, so nothing else about them matters.
\<close>

definition msg_device_topic_format :: string  \<comment> \<open>the device topic is malformed\<close>
  where "msg_device_topic_format = utf8
    [0xE8, 0xAE, 0xBE, 0xE5, 0xA4, 0x87, 0x20, 0x74, 0x6F, 0x70, 0x69, 0x63, 0x20, 0xE6, 0xA0,
     0xBC, 0xE5, 0xBC, 0x8F, 0xE6, 0x97, 0xA0, 0xE6, 0x95, 0x88]"

definition msg_device_id_invalid :: string  \<comment> \<open>device\_id is invalid\<close>
  where "msg_device_id_invalid = utf8
    [0x64, 0x65, 0x76, 0x69, 0x63, 0x65, 0x5F, 0x69, 0x64, 0x20, 0xE6, 0x97, 0xA0, 0xE6, 0x95,
     0x88]"

definition msg_device_message_kind :: string  \<comment> \<open>the kind of device message is invalid\<close>
  where "msg_device_message_kind = utf8
    [0xE8, 0xAE, 0xBE, 0xE5, 0xA4, 0x87, 0xE6, 0xB6, 0x88, 0xE6, 0x81, 0xAF, 0xE7, 0xB1, 0xBB,
     0xE5, 0x9E, 0x8B, 0xE6, 0x97, 0xA0, 0xE6, 0x95, 0x88]"

definition msg_json_syntax :: string  \<comment> \<open>invalid JSON syntax\<close>
  where "msg_json_syntax = utf8
    [0x4A, 0x53, 0x4F, 0x4E, 0x20, 0xE8, 0xAF, 0xAD, 0xE6, 0xB3, 0x95, 0xE6, 0x97, 0xA0, 0xE6,
     0x95, 0x88]"

definition msg_json_root :: string  \<comment> \<open>the JSON root must be an object\<close>
  where "msg_json_root = utf8
    [0x4A, 0x53, 0x4F, 0x4E, 0x20, 0xE6, 0xA0, 0xB9, 0xE8, 0x8A, 0x82, 0xE7, 0x82, 0xB9, 0xE5,
     0xBF, 0x85, 0xE9, 0xA1, 0xBB, 0xE6, 0x98, 0xAF, 0x20, 0x6F, 0x62, 0x6A, 0x65, 0x63, 0x74]"

definition msg_nonempty_string :: string  \<comment> \<open>must be a non-empty string\<close>
  where "msg_nonempty_string = utf8
    [0x20, 0xE5, 0xBF, 0x85, 0xE9, 0xA1, 0xBB, 0xE6, 0x98, 0xAF, 0xE9, 0x9D, 0x9E, 0xE7, 0xA9,
     0xBA, 0xE5, 0xAD, 0x97, 0xE7, 0xAC, 0xA6, 0xE4, 0xB8, 0xB2]"

definition msg_device_type_invalid :: string  \<comment> \<open>device\_type is invalid\<close>
  where "msg_device_type_invalid = utf8
    [0x64, 0x65, 0x76, 0x69, 0x63, 0x65, 0x5F, 0x74, 0x79, 0x70, 0x65, 0x20, 0xE6, 0x97, 0xA0,
     0xE6, 0x95, 0x88]"

definition msg_string_array :: string  \<comment> \<open>must be an array of strings\<close>
  where "msg_string_array = utf8
    [0x20, 0xE5, 0xBF, 0x85, 0xE9, 0xA1, 0xBB, 0xE6, 0x98, 0xAF, 0xE5, 0xAD, 0x97, 0xE7, 0xAC,
     0xA6, 0xE4, 0xB8, 0xB2, 0xE6, 0x95, 0xB0, 0xE7, 0xBB, 0x84]"

definition msg_must_be_object :: string  \<comment> \<open>must be an object\<close>
  where "msg_must_be_object = utf8
    [0x20, 0xE5, 0xBF, 0x85, 0xE9, 0xA1, 0xBB, 0xE6, 0x98, 0xAF, 0x20, 0x6F, 0x62, 0x6A, 0x65,
     0x63, 0x74]"

definition msg_removed_field :: string  \<comment> \<open>was removed in schema v3\<close>
  where "msg_removed_field = utf8
    [0x20, 0xE5, 0xB7, 0xB2, 0xE4, 0xBB, 0x8E, 0x20, 0x73, 0x63, 0x68, 0x65, 0x6D, 0x61, 0x20,
     0x76, 0x33, 0x20, 0xE5, 0x88, 0xA0, 0xE9, 0x99, 0xA4]"

definition msg_device_id_topic :: string  \<comment> \<open>device\_id differs from the topic\<close>
  where "msg_device_id_topic = utf8
    [0x64, 0x65, 0x76, 0x69, 0x63, 0x65, 0x5F, 0x69, 0x64, 0x20, 0xE4, 0xB8, 0x8E, 0x20, 0x74,
     0x6F, 0x70, 0x69, 0x63, 0x20, 0xE4, 0xB8, 0x8D, 0xE4, 0xB8, 0x80, 0xE8, 0x87, 0xB4]"

definition msg_schema_version_3 :: string  \<comment> \<open>schema\_version must be the integer 3\<close>
  where "msg_schema_version_3 = utf8
    [0x73, 0x63, 0x68, 0x65, 0x6D, 0x61, 0x5F, 0x76, 0x65, 0x72, 0x73, 0x69, 0x6F, 0x6E, 0x20,
     0xE5, 0xBF, 0x85, 0xE9, 0xA1, 0xBB, 0xE6, 0x98, 0xAF, 0xE6, 0x95, 0xB4, 0xE6, 0x95, 0xB0,
     0x20, 0x33]"

definition msg_status_invalid :: string  \<comment> \<open>status is invalid\<close>
  where "msg_status_invalid = utf8
    [0x73, 0x74, 0x61, 0x74, 0x75, 0x73, 0x20, 0xE6, 0x97, 0xA0, 0xE6, 0x95, 0x88]"

definition msg_missing_school :: string  \<comment> \<open>an online registration of a cns\_box lacks school\_name\<close>
  where "msg_missing_school = utf8
    [0x63, 0x6E, 0x73, 0x5F, 0x62, 0x6F, 0x78, 0x20, 0x6F, 0x6E, 0x6C, 0x69, 0x6E, 0x65, 0x20,
     0x72, 0x65, 0x67, 0x69, 0x73, 0x74, 0x72, 0x61, 0x74, 0x69, 0x6F, 0x6E, 0x20, 0xE7, 0xBC,
     0xBA, 0xE5, 0xB0, 0x91, 0x20, 0x73, 0x63, 0x68, 0x6F, 0x6F, 0x6C, 0x5F, 0x6E, 0x61, 0x6D,
     0x65]"

definition msg_telemetry_schema_version :: string  \<comment> \<open>the schema\_version of telemetry must be the integer 3\<close>
  where "msg_telemetry_schema_version = utf8
    [0x74, 0x65, 0x6C, 0x65, 0x6D, 0x65, 0x74, 0x72, 0x79, 0x20, 0x73, 0x63, 0x68, 0x65, 0x6D,
     0x61, 0x5F, 0x76, 0x65, 0x72, 0x73, 0x69, 0x6F, 0x6E, 0x20, 0xE5, 0xBF, 0x85, 0xE9, 0xA1,
     0xBB, 0xE6, 0x98, 0xAF, 0xE6, 0x95, 0xB4, 0xE6, 0x95, 0xB0, 0x20, 0x33]"

definition msg_telemetry_object :: string  \<comment> \<open>telemetry must be an object\<close>
  where "msg_telemetry_object = utf8
    [0x74, 0x65, 0x6C, 0x65, 0x6D, 0x65, 0x74, 0x72, 0x79, 0x20, 0xE5, 0xBF, 0x85, 0xE9, 0xA1,
     0xBB, 0xE6, 0x98, 0xAF, 0x20, 0x6F, 0x62, 0x6A, 0x65, 0x63, 0x74]"

definition msg_drone_id_object :: string  \<comment> \<open>drone\_id must be an object\<close>
  where "msg_drone_id_object = utf8
    [0x64, 0x72, 0x6F, 0x6E, 0x65, 0x5F, 0x69, 0x64, 0x20, 0xE5, 0xBF, 0x85, 0xE9, 0xA1, 0xBB,
     0xE6, 0x98, 0xAF, 0x20, 0x6F, 0x62, 0x6A, 0x65, 0x63, 0x74]"

definition msg_basic_id_object :: string  \<comment> \<open>drone\_id.basic\_id must be an object\<close>
  where "msg_basic_id_object = utf8
    [0x64, 0x72, 0x6F, 0x6E, 0x65, 0x5F, 0x69, 0x64, 0x2E, 0x62, 0x61, 0x73, 0x69, 0x63, 0x5F,
     0x69, 0x64, 0x20, 0xE5, 0xBF, 0x85, 0xE9, 0xA1, 0xBB, 0xE6, 0x98, 0xAF, 0x20, 0x6F, 0x62,
     0x6A, 0x65, 0x63, 0x74]"

definition msg_uas_id_removed :: string  \<comment> \<open>uas\_id was removed in schema v3\<close>
  where "msg_uas_id_removed = utf8
    [0x64, 0x72, 0x6F, 0x6E, 0x65, 0x5F, 0x69, 0x64, 0x2E, 0x62, 0x61, 0x73, 0x69, 0x63, 0x5F,
     0x69, 0x64, 0x2E, 0x75, 0x61, 0x73, 0x5F, 0x69, 0x64, 0x20, 0xE5, 0xB7, 0xB2, 0xE4, 0xBB,
     0x8E, 0x20, 0x73, 0x63, 0x68, 0x65, 0x6D, 0x61, 0x20, 0x76, 0x33, 0x20, 0xE5, 0x88, 0xA0,
     0xE9, 0x99, 0xA4]"

definition msg_separator :: string  \<comment> \<open>separator of appended diagnostics\<close>
  where "msg_separator = utf8
    [0xEF, 0xBC, 0x9B]"

definition msg_load_duplicate_id :: string  \<comment> \<open>duplicate device\_id while loading the device directory:\<close>
  where "msg_load_duplicate_id = utf8
    [0xE5, 0x8A, 0xA0, 0xE8, 0xBD, 0xBD, 0xE8, 0xAE, 0xBE, 0xE5, 0xA4, 0x87, 0xE7, 0x9B, 0xAE,
     0xE5, 0xBD, 0x95, 0xE5, 0x8F, 0x91, 0xE7, 0x8E, 0xB0, 0xE9, 0x87, 0x8D, 0xE5, 0xA4, 0x8D,
     0x20, 0x64, 0x65, 0x76, 0x69, 0x63, 0x65, 0x5F, 0x69, 0x64, 0x3A, 0x20]"

definition msg_load_role_conflict :: string  \<comment> \<open>role conflict within a school while loading the device directory:\<close>
  where "msg_load_role_conflict = utf8
    [0xE5, 0x8A, 0xA0, 0xE8, 0xBD, 0xBD, 0xE8, 0xAE, 0xBE, 0xE5, 0xA4, 0x87, 0xE7, 0x9B, 0xAE,
     0xE5, 0xBD, 0x95, 0xE5, 0x8F, 0x91, 0xE7, 0x8E, 0xB0, 0xE5, 0x90, 0x8C, 0xE6, 0xA0, 0xA1,
     0xE8, 0xA7, 0x92, 0xE8, 0x89, 0xB2, 0xE5, 0x8F, 0xB7, 0xE5, 0x86, 0xB2, 0xE7, 0xAA, 0x81,
     0x3A, 0x20]"

definition msg_unknown_device :: string  \<comment> \<open>unknown device:\<close>
  where "msg_unknown_device = utf8
    [0xE6, 0x9C, 0xAA, 0xE7, 0x9F, 0xA5, 0xE8, 0xAE, 0xBE, 0xE5, 0xA4, 0x87, 0x3A, 0x20]"

definition msg_device_type_mismatch :: string  \<comment> \<open>device\_type differs from the provisioned device\<close>
  where "msg_device_type_mismatch = utf8
    [0x64, 0x65, 0x76, 0x69, 0x63, 0x65, 0x5F, 0x74, 0x79, 0x70, 0x65, 0x20, 0xE4, 0xB8, 0x8E,
     0xE5, 0xB7, 0xB2, 0xE5, 0xBB, 0xBA, 0xE6, 0xA1, 0xA3, 0xE8, 0xAE, 0xBE, 0xE5, 0xA4, 0x87,
     0xE4, 0xB8, 0x8D, 0xE4, 0xB8, 0x80, 0xE8, 0x87, 0xB4]"

definition msg_refuse_school_move :: string  \<comment> \<open>refused to move the device to another school\<close>
  where "msg_refuse_school_move = utf8
    [0xE6, 0x8B, 0x92, 0xE7, 0xBB, 0x9D, 0xE8, 0xAE, 0xBE, 0xE5, 0xA4, 0x87, 0xE8, 0x87, 0xAA,
     0xE5, 0x8A, 0xA8, 0xE8, 0xBF, 0x81, 0xE7, 0xA7, 0xBB, 0xE5, 0xAD, 0xA6, 0xE6, 0xA0, 0xA1]"

definition msg_refuse_role :: string  \<comment> \<open>refused a role already used in the school\<close>
  where "msg_refuse_role = utf8
    [0xE6, 0x8B, 0x92, 0xE7, 0xBB, 0x9D, 0xE5, 0x90, 0x8C, 0xE6, 0xA0, 0xA1, 0xE5, 0x86, 0xB2,
     0xE7, 0xAA, 0x81, 0xE8, 0xA7, 0x92, 0xE8, 0x89, 0xB2, 0xE5, 0x8F, 0xB7]"

definition msg_duplicate_id :: string  \<comment> \<open>duplicate device\_id:\<close>
  where "msg_duplicate_id = utf8
    [0xE9, 0x87, 0x8D, 0xE5, 0xA4, 0x8D, 0x20, 0x64, 0x65, 0x76, 0x69, 0x63, 0x65, 0x5F, 0x69,
     0x64, 0x3A, 0x20]"

definition msg_role_conflict :: string  \<comment> \<open>role conflict within a school:\<close>
  where "msg_role_conflict = utf8
    [0xE5, 0x90, 0x8C, 0xE6, 0xA0, 0xA1, 0xE8, 0xA7, 0x92, 0xE8, 0x89, 0xB2, 0xE5, 0x8F, 0xB7,
     0xE5, 0x86, 0xB2, 0xE7, 0xAA, 0x81, 0x3A, 0x20]"

definition msg_command_type_unknown :: string  \<comment> \<open>unknown command type\<close>
  where "msg_command_type_unknown = utf8
    [0xE6, 0x9C, 0xAA, 0xE7, 0x9F, 0xA5, 0xE5, 0x91, 0xBD, 0xE4, 0xBB, 0xA4, 0xE7, 0xB1, 0xBB,
     0xE5, 0x9E, 0x8B]"

definition msg_control_uncertain :: string  \<comment> \<open>after recovery it is not known whether the control command was carried out\<close>
  where "msg_control_uncertain = utf8
    [0xE6, 0x9C, 0x8D, 0xE5, 0x8A, 0xA1, 0xE6, 0x81, 0xA2, 0xE5, 0xA4, 0x8D, 0xE5, 0x90, 0x8E,
     0xE6, 0x97, 0xA0, 0xE6, 0xB3, 0x95, 0xE7, 0xA1, 0xAE, 0xE8, 0xAE, 0xA4, 0xE9, 0xA3, 0x9E,
     0xE6, 0x8E, 0xA7, 0xE5, 0x91, 0xBD, 0xE4, 0xBB, 0xA4, 0xE6, 0x98, 0xAF, 0xE5, 0x90, 0xA6,
     0xE5, 0xB7, 0xB2, 0xE7, 0xBB, 0x8F, 0xE6, 0x89, 0xA7, 0xE8, 0xA1, 0x8C]"

definition msg_source_id_empty :: string  \<comment> \<open>the identifier of a command source must not be empty\<close>
  where "msg_source_id_empty = utf8
    [0xE5, 0x91, 0xBD, 0xE4, 0xBB, 0xA4, 0xE6, 0x9D, 0xA5, 0xE6, 0xBA, 0x90, 0xE6, 0xA0, 0x87,
     0xE8, 0xAF, 0x86, 0xE4, 0xB8, 0x8D, 0xE8, 0x83, 0xBD, 0xE4, 0xB8, 0xBA, 0xE7, 0xA9, 0xBA]"

definition msg_source_device_missing :: string  \<comment> \<open>a device source lacks its device\<close>
  where "msg_source_device_missing = utf8
    [0xE8, 0xAE, 0xBE, 0xE5, 0xA4, 0x87, 0xE6, 0x9D, 0xA5, 0xE6, 0xBA, 0x90, 0xE7, 0xBC, 0xBA,
     0xE5, 0xB0, 0x91, 0xE5, 0x85, 0xB3, 0xE8, 0x81, 0x94, 0xE8, 0xAE, 0xBE, 0xE5, 0xA4, 0x87]"

definition msg_source_id_not_device :: string  \<comment> \<open>the identifier of a device source must be that of its device\<close>
  where "msg_source_id_not_device = utf8
    [0xE8, 0xAE, 0xBE, 0xE5, 0xA4, 0x87, 0xE6, 0x9D, 0xA5, 0xE6, 0xBA, 0x90, 0xE6, 0xA0, 0x87,
     0xE8, 0xAF, 0x86, 0xE5, 0xBF, 0x85, 0xE9, 0xA1, 0xBB, 0xE7, 0xAD, 0x89, 0xE4, 0xBA, 0x8E,
     0xE5, 0x85, 0xB3, 0xE8, 0x81, 0x94, 0xE8, 0xAE, 0xBE, 0xE5, 0xA4, 0x87, 0xE6, 0xA0, 0x87,
     0xE8, 0xAF, 0x86]"

definition msg_source_device_extra :: string  \<comment> \<open>a source that is no device must not name one\<close>
  where "msg_source_device_extra = utf8
    [0xE9, 0x9D, 0x9E, 0xE8, 0xAE, 0xBE, 0xE5, 0xA4, 0x87, 0xE6, 0x9D, 0xA5, 0xE6, 0xBA, 0x90,
     0xE4, 0xB8, 0x8D, 0xE5, 0xBE, 0x97, 0xE5, 0x85, 0xB3, 0xE8, 0x81, 0x94, 0xE8, 0xAE, 0xBE,
     0xE5, 0xA4, 0x87]"

definition msg_source_id_duplicate :: string  \<comment> \<open>duplicate source identifier\<close>
  where "msg_source_id_duplicate = utf8
    [0xE5, 0x91, 0xBD, 0xE4, 0xBB, 0xA4, 0xE6, 0x9D, 0xA5, 0xE6, 0xBA, 0x90, 0xE6, 0xA0, 0x87,
     0xE8, 0xAF, 0x86, 0xE9, 0x87, 0x8D, 0xE5, 0xA4, 0x8D, 0x3A, 0x20]"

definition msg_device_source_target :: string  \<comment> \<open>a device source may only address by the label within its school\<close>
  where "msg_device_source_target = utf8
    [0xE8, 0xAE, 0xBE, 0xE5, 0xA4, 0x87, 0xE6, 0x9D, 0xA5, 0xE6, 0xBA, 0x90, 0xE5, 0x8F, 0xAA,
     0xE8, 0x83, 0xBD, 0xE4, 0xBD, 0xBF, 0xE7, 0x94, 0xA8, 0xE5, 0x90, 0x8C, 0xE6, 0xA0, 0xA1,
     0xE8, 0xA7, 0x92, 0xE8, 0x89, 0xB2, 0xE5, 0x8F, 0xB7, 0xE5, 0xAF, 0xBB, 0xE5, 0x9D, 0x80]"

definition msg_source_device_unknown :: string  \<comment> \<open>the source device is not in the directory\<close>
  where "msg_source_device_unknown = utf8
    [0xE6, 0x9D, 0xA5, 0xE6, 0xBA, 0x90, 0xE8, 0xAE, 0xBE, 0xE5, 0xA4, 0x87, 0xE4, 0xB8, 0x8D,
     0xE5, 0x9C, 0xA8, 0xE8, 0xAE, 0xBE, 0xE5, 0xA4, 0x87, 0xE7, 0x9B, 0xAE, 0xE5, 0xBD, 0x95,
     0xE4, 0xB8, 0xAD]"

definition msg_source_device_offline :: string  \<comment> \<open>the source device is offline\<close>
  where "msg_source_device_offline = utf8
    [0xE6, 0x9D, 0xA5, 0xE6, 0xBA, 0x90, 0xE8, 0xAE, 0xBE, 0xE5, 0xA4, 0x87, 0xE5, 0xBD, 0x93,
     0xE5, 0x89, 0x8D, 0xE7, 0xA6, 0xBB, 0xE7, 0xBA, 0xBF]"

definition msg_target_ambiguous :: string  \<comment> \<open>school name and label match several devices\<close>
  where "msg_target_ambiguous = utf8
    [0xE5, 0xAD, 0xA6, 0xE6, 0xA0, 0xA1, 0xE5, 0x90, 0x8D, 0xE5, 0x92, 0x8C, 0xE8, 0xA7, 0x92,
     0xE8, 0x89, 0xB2, 0xE5, 0x8F, 0xB7, 0xE5, 0xAF, 0xB9, 0xE5, 0xBA, 0x94, 0xE5, 0xA4, 0x9A,
     0xE4, 0xB8, 0xAA, 0xE8, 0xAE, 0xBE, 0xE5, 0xA4, 0x87]"

definition msg_target_form :: string  \<comment> \<open>the source may not use this form of target\<close>
  where "msg_target_form = utf8
    [0xE5, 0x91, 0xBD, 0xE4, 0xBB, 0xA4, 0xE6, 0x9D, 0xA5, 0xE6, 0xBA, 0x90, 0xE4, 0xB8, 0x8D,
     0xE8, 0x83, 0xBD, 0xE4, 0xBD, 0xBF, 0xE7, 0x94, 0xA8, 0xE8, 0xAF, 0xA5, 0xE7, 0x9B, 0xAE,
     0xE6, 0xA0, 0x87, 0xE5, 0xBD, 0xA2, 0xE5, 0xBC, 0x8F]"

definition msg_target_not_found :: string  \<comment> \<open>the target device does not exist\<close>
  where "msg_target_not_found = utf8
    [0xE7, 0x9B, 0xAE, 0xE6, 0xA0, 0x87, 0xE8, 0xAE, 0xBE, 0xE5, 0xA4, 0x87, 0xE4, 0xB8, 0x8D,
     0xE5, 0xAD, 0x98, 0xE5, 0x9C, 0xA8]"

definition msg_unsupported_device_type :: string  \<comment> \<open>flight controllers do not take control commands\<close>
  where "msg_unsupported_device_type = utf8
    [0xE7, 0x9C, 0x9F, 0xE5, 0xAE, 0x9E, 0xE9, 0xA3, 0x9E, 0xE6, 0x8E, 0xA7, 0xE5, 0xBD, 0x93,
     0xE5, 0x89, 0x8D, 0xE5, 0x8F, 0xAA, 0xE6, 0x8E, 0xA5, 0xE6, 0x94, 0xB6, 0xE9, 0x81, 0xA5,
     0xE6, 0xB5, 0x8B, 0xE4, 0xB8, 0x8E, 0x20, 0x52, 0x65, 0x6D, 0x6F, 0x74, 0x65, 0x20, 0x49,
     0x44, 0xEF, 0xBC, 0x8C, 0xE4, 0xB8, 0x8D, 0xE6, 0x94, 0xAF, 0xE6, 0x8C, 0x81, 0xE4, 0xB8,
     0xBB, 0xE6, 0x8E, 0xA7, 0xE7, 0xAE, 0xB1, 0xE7, 0xA7, 0x81, 0xE6, 0x9C, 0x89, 0xE6, 0x8E,
     0xA7, 0xE5, 0x88, 0xB6, 0xE5, 0x91, 0xBD, 0xE4, 0xBB, 0xA4]"

definition msg_config_ack_json :: string  \<comment> \<open>the config ACK is no JSON\<close>
  where "msg_config_ack_json = utf8
    [0xE8, 0xAE, 0xBE, 0xE5, 0xA4, 0x87, 0xE9, 0x85, 0x8D, 0xE7, 0xBD, 0xAE, 0x41, 0x43, 0x4B,
     0xE4, 0xB8, 0x8D, 0xE6, 0x98, 0xAF, 0xE5, 0x90, 0x88, 0xE6, 0xB3, 0x95, 0x4A, 0x53, 0x4F,
     0x4E]"

definition msg_config_ack_object :: string  \<comment> \<open>the config ACK must be an object\<close>
  where "msg_config_ack_object = utf8
    [0xE8, 0xAE, 0xBE, 0xE5, 0xA4, 0x87, 0xE9, 0x85, 0x8D, 0xE7, 0xBD, 0xAE, 0x41, 0x43, 0x4B,
     0xE5, 0xBF, 0x85, 0xE9, 0xA1, 0xBB, 0xE6, 0x98, 0xAF, 0x4A, 0x53, 0x4F, 0x4E, 0xE5, 0xAF,
     0xB9, 0xE8, 0xB1, 0xA1]"

definition msg_ack_command_id :: string  \<comment> \<open>command\_id is missing or invalid\<close>
  where "msg_ack_command_id = utf8
    [0x63, 0x6F, 0x6D, 0x6D, 0x61, 0x6E, 0x64, 0x5F, 0x69, 0x64, 0xE7, 0xBC, 0xBA, 0xE5, 0xA4,
     0xB1, 0xE6, 0x88, 0x96, 0xE9, 0x9D, 0x9E, 0xE6, 0xB3, 0x95]"

definition msg_ack_status :: string  \<comment> \<open>status is missing or invalid\<close>
  where "msg_ack_status = utf8
    [0x73, 0x74, 0x61, 0x74, 0x75, 0x73, 0xE7, 0xBC, 0xBA, 0xE5, 0xA4, 0xB1, 0xE6, 0x88, 0x96,
     0xE9, 0x9D, 0x9E, 0xE6, 0xB3, 0x95]"

definition msg_config_ack_status :: string  \<comment> \<open>the status of the config ACK is invalid\<close>
  where "msg_config_ack_status = utf8
    [0xE8, 0xAE, 0xBE, 0xE5, 0xA4, 0x87, 0xE9, 0x85, 0x8D, 0xE7, 0xBD, 0xAE, 0x41, 0x43, 0x4B,
     0xE7, 0x8A, 0xB6, 0xE6, 0x80, 0x81, 0xE9, 0x9D, 0x9E, 0xE6, 0xB3, 0x95]"

definition msg_ack_restart :: string  \<comment> \<open>restart\_required is missing or invalid\<close>
  where "msg_ack_restart = utf8
    [0x72, 0x65, 0x73, 0x74, 0x61, 0x72, 0x74, 0x5F, 0x72, 0x65, 0x71, 0x75, 0x69, 0x72, 0x65,
     0x64, 0xE7, 0xBC, 0xBA, 0xE5, 0xA4, 0xB1, 0xE6, 0x88, 0x96, 0xE9, 0x9D, 0x9E, 0xE6, 0xB3,
     0x95]"

definition msg_ack_rejected_code :: string  \<comment> \<open>a rejection needs a valid error\_code\<close>
  where "msg_ack_rejected_code = utf8
    [0x72, 0x65, 0x6A, 0x65, 0x63, 0x74, 0x65, 0x64, 0x20, 0x41, 0x43, 0x4B, 0xE7, 0xBC, 0xBA,
     0xE5, 0xB0, 0x91, 0xE5, 0x90, 0x88, 0xE6, 0xB3, 0x95, 0x65, 0x72, 0x72, 0x6F, 0x72, 0x5F,
     0x63, 0x6F, 0x64, 0x65]"

definition msg_ack_success_code :: string  \<comment> \<open>a success must not have an error\_code\<close>
  where "msg_ack_success_code = utf8
    [0xE6, 0x88, 0x90, 0xE5, 0x8A, 0x9F, 0x41, 0x43, 0x4B, 0xE4, 0xB8, 0x8D, 0xE5, 0xBE, 0x97,
     0xE5, 0x8C, 0x85, 0xE5, 0x90, 0xAB, 0x65, 0x72, 0x72, 0x6F, 0x72, 0x5F, 0x63, 0x6F, 0x64,
     0x65]"

definition msg_ack_message :: string  \<comment> \<open>message has the wrong type\<close>
  where "msg_ack_message = utf8
    [0x6D, 0x65, 0x73, 0x73, 0x61, 0x67, 0x65, 0xE7, 0xB1, 0xBB, 0xE5, 0x9E, 0x8B, 0xE9, 0x9D,
     0x9E, 0xE6, 0xB3, 0x95]"

definition msg_control_ack_json :: string  \<comment> \<open>the control ACK is no JSON\<close>
  where "msg_control_ack_json = utf8
    [0xE8, 0xAE, 0xBE, 0xE5, 0xA4, 0x87, 0xE9, 0xA3, 0x9E, 0xE6, 0x8E, 0xA7, 0x41, 0x43, 0x4B,
     0xE4, 0xB8, 0x8D, 0xE6, 0x98, 0xAF, 0xE5, 0x90, 0x88, 0xE6, 0xB3, 0x95, 0x4A, 0x53, 0x4F,
     0x4E]"

definition msg_control_ack_object :: string  \<comment> \<open>the control ACK must be an object\<close>
  where "msg_control_ack_object = utf8
    [0xE8, 0xAE, 0xBE, 0xE5, 0xA4, 0x87, 0xE9, 0xA3, 0x9E, 0xE6, 0x8E, 0xA7, 0x41, 0x43, 0x4B,
     0xE5, 0xBF, 0x85, 0xE9, 0xA1, 0xBB, 0xE6, 0x98, 0xAF, 0x4A, 0x53, 0x4F, 0x4E, 0xE5, 0xAF,
     0xB9, 0xE8, 0xB1, 0xA1]"

definition msg_ack_command :: string  \<comment> \<open>command is missing or invalid\<close>
  where "msg_ack_command = utf8
    [0x63, 0x6F, 0x6D, 0x6D, 0x61, 0x6E, 0x64, 0xE7, 0xBC, 0xBA, 0xE5, 0xA4, 0xB1, 0xE6, 0x88,
     0x96, 0xE9, 0x9D, 0x9E, 0xE6, 0xB3, 0x95]"

definition msg_ack_command_unsupported :: string  \<comment> \<open>command is not supported\<close>
  where "msg_ack_command_unsupported = utf8
    [0x63, 0x6F, 0x6D, 0x6D, 0x61, 0x6E, 0x64, 0xE4, 0xB8, 0x8D, 0xE5, 0x8F, 0x97, 0xE6, 0x94,
     0xAF, 0xE6, 0x8C, 0x81]"

definition msg_control_ack_status :: string  \<comment> \<open>the status of the control ACK is invalid\<close>
  where "msg_control_ack_status = utf8
    [0xE8, 0xAE, 0xBE, 0xE5, 0xA4, 0x87, 0xE9, 0xA3, 0x9E, 0xE6, 0x8E, 0xA7, 0x41, 0x43, 0x4B,
     0xE7, 0x8A, 0xB6, 0xE6, 0x80, 0x81, 0xE9, 0x9D, 0x9E, 0xE6, 0xB3, 0x95]"

definition msg_control_ack_types :: string  \<comment> \<open>a field of the control ACK has the wrong type\<close>
  where "msg_control_ack_types = utf8
    [0xE8, 0xAE, 0xBE, 0xE5, 0xA4, 0x87, 0xE9, 0xA3, 0x9E, 0xE6, 0x8E, 0xA7, 0x41, 0x43, 0x4B,
     0xE5, 0xAD, 0x97, 0xE6, 0xAE, 0xB5, 0xE7, 0xB1, 0xBB, 0xE5, 0x9E, 0x8B, 0xE9, 0x9D, 0x9E,
     0xE6, 0xB3, 0x95]"

definition msg_ack_mavlink :: string  \<comment> \<open>mavlink\_command does not match command\<close>
  where "msg_ack_mavlink = utf8
    [0x6D, 0x61, 0x76, 0x6C, 0x69, 0x6E, 0x6B, 0x5F, 0x63, 0x6F, 0x6D, 0x6D, 0x61, 0x6E, 0x64,
     0xE4, 0xB8, 0x8E, 0x63, 0x6F, 0x6D, 0x6D, 0x61, 0x6E, 0x64, 0xE4, 0xB8, 0x8D, 0xE5, 0x8C,
     0xB9, 0xE9, 0x85, 0x8D]"

definition msg_ack_error_code :: string  \<comment> \<open>error\_code is invalid\<close>
  where "msg_ack_error_code = utf8
    [0x65, 0x72, 0x72, 0x6F, 0x72, 0x5F, 0x63, 0x6F, 0x64, 0x65, 0xE9, 0x9D, 0x9E, 0xE6, 0xB3,
     0x95]"

definition msg_ack_accepted :: string  \<comment> \<open>invalid combination of fields in an accepted ACK\<close>
  where "msg_ack_accepted = utf8
    [0x61, 0x63, 0x63, 0x65, 0x70, 0x74, 0x65, 0x64, 0x20, 0x41, 0x43, 0x4B, 0xE5, 0xAD, 0x97,
     0xE6, 0xAE, 0xB5, 0xE7, 0xBB, 0x84, 0xE5, 0x90, 0x88, 0xE9, 0x9D, 0x9E, 0xE6, 0xB3, 0x95]"

definition msg_ack_in_progress :: string  \<comment> \<open>invalid combination of fields in an in\_progress ACK\<close>
  where "msg_ack_in_progress = utf8
    [0x69, 0x6E, 0x5F, 0x70, 0x72, 0x6F, 0x67, 0x72, 0x65, 0x73, 0x73, 0x20, 0x41, 0x43, 0x4B,
     0xE5, 0xAD, 0x97, 0xE6, 0xAE, 0xB5, 0xE7, 0xBB, 0x84, 0xE5, 0x90, 0x88, 0xE9, 0x9D, 0x9E,
     0xE6, 0xB3, 0x95]"

definition msg_ack_pending :: string  \<comment> \<open>invalid combination of fields in a pending ACK\<close>
  where "msg_ack_pending = utf8
    [0x70, 0x65, 0x6E, 0x64, 0x69, 0x6E, 0x67, 0x20, 0x41, 0x43, 0x4B, 0xE5, 0xAD, 0x97, 0xE6,
     0xAE, 0xB5, 0xE7, 0xBB, 0x84, 0xE5, 0x90, 0x88, 0xE9, 0x9D, 0x9E, 0xE6, 0xB3, 0x95]"

definition msg_ack_progress :: string  \<comment> \<open>invalid combination of fields in a progress ACK\<close>
  where "msg_ack_progress = utf8
    [0x4D, 0x41, 0x56, 0x4C, 0x69, 0x6E, 0x6B, 0xE8, 0xBF, 0x9B, 0xE5, 0xBA, 0xA6, 0x41, 0x43,
     0x4B, 0xE5, 0xAD, 0x97, 0xE6, 0xAE, 0xB5, 0xE7, 0xBB, 0x84, 0xE5, 0x90, 0x88, 0xE9, 0x9D,
     0x9E, 0xE6, 0xB3, 0x95]"

definition msg_ack_mavlink_rejected :: string  \<comment> \<open>invalid combination of fields in a MAVLink rejection\<close>
  where "msg_ack_mavlink_rejected = utf8
    [0x4D, 0x41, 0x56, 0x4C, 0x69, 0x6E, 0x6B, 0xE6, 0x8B, 0x92, 0xE7, 0xBB, 0x9D, 0x41, 0x43,
     0x4B, 0xE5, 0xAD, 0x97, 0xE6, 0xAE, 0xB5, 0xE7, 0xBB, 0x84, 0xE5, 0x90, 0x88, 0xE9, 0x9D,
     0x9E, 0xE6, 0xB3, 0x95]"

definition msg_ack_local_rejected :: string  \<comment> \<open>a local rejection lacks error\_code\<close>
  where "msg_ack_local_rejected = utf8
    [0xE6, 0x9C, 0xAC, 0xE5, 0x9C, 0xB0, 0xE6, 0x8B, 0x92, 0xE7, 0xBB, 0x9D, 0x41, 0x43, 0x4B,
     0xE7, 0xBC, 0xBA, 0xE5, 0xB0, 0x91, 0x65, 0x72, 0x72, 0x6F, 0x72, 0x5F, 0x63, 0x6F, 0x64,
     0x65]"

definition msg_ack_timeout :: string  \<comment> \<open>invalid combination of fields in a timeout ACK\<close>
  where "msg_ack_timeout = utf8
    [0x74, 0x69, 0x6D, 0x65, 0x6F, 0x75, 0x74, 0x20, 0x41, 0x43, 0x4B, 0xE5, 0xAD, 0x97, 0xE6,
     0xAE, 0xB5, 0xE7, 0xBB, 0x84, 0xE5, 0x90, 0x88, 0xE9, 0x9D, 0x9E, 0xE6, 0xB3, 0x95]"

definition msg_parameters_nonempty :: string  \<comment> \<open>parameters must be a non-empty object\<close>
  where "msg_parameters_nonempty = utf8
    [0x70, 0x61, 0x72, 0x61, 0x6D, 0x65, 0x74, 0x65, 0x72, 0x73, 0xE5, 0xBF, 0x85, 0xE9, 0xA1,
     0xBB, 0xE6, 0x98, 0xAF, 0xE9, 0x9D, 0x9E, 0xE7, 0xA9, 0xBA, 0xE5, 0xAF, 0xB9, 0xE8, 0xB1,
     0xA1]"

definition msg_parameters_unknown :: string  \<comment> \<open>parameters has an unknown field\<close>
  where "msg_parameters_unknown = utf8
    [0x70, 0x61, 0x72, 0x61, 0x6D, 0x65, 0x74, 0x65, 0x72, 0x73, 0xE5, 0x8C, 0x85, 0xE5, 0x90,
     0xAB, 0xE6, 0x9C, 0xAA, 0xE7, 0x9F, 0xA5, 0xE5, 0xAD, 0x97, 0xE6, 0xAE, 0xB5]"

definition msg_parameters_range :: string  \<comment> \<open>type or range of a parameter is invalid\<close>
  where "msg_parameters_range = utf8
    [0xE9, 0x85, 0x8D, 0xE7, 0xBD, 0xAE, 0xE5, 0x8F, 0x82, 0xE6, 0x95, 0xB0, 0xE7, 0xB1, 0xBB,
     0xE5, 0x9E, 0x8B, 0xE6, 0x88, 0x96, 0xE8, 0x8C, 0x83, 0xE5, 0x9B, 0xB4, 0xE9, 0x9D, 0x9E,
     0xE6, 0xB3, 0x95]"

definition msg_parameters_reconnect :: string  \<comment> \<open>the first reconnect delay must not exceed the maximum\<close>
  where "msg_parameters_reconnect = utf8
    [0x4D, 0x51, 0x54, 0x54, 0xE9, 0x87, 0x8D, 0xE8, 0xBF, 0x9E, 0xE5, 0x88, 0x9D, 0xE5, 0x80,
     0xBC, 0xE4, 0xB8, 0x8D, 0xE5, 0xBE, 0x97, 0xE5, 0xA4, 0xA7, 0xE4, 0xBA, 0x8E, 0xE6, 0x9C,
     0x80, 0xE5, 0xA4, 0xA7, 0xE5, 0x80, 0xBC]"

definition msg_target_object :: string  \<comment> \<open>target must be an object\<close>
  where "msg_target_object = utf8
    [0x74, 0x61, 0x72, 0x67, 0x65, 0x74, 0xE5, 0xBF, 0x85, 0xE9, 0xA1, 0xBB, 0xE6, 0x98, 0xAF,
     0xE5, 0xAF, 0xB9, 0xE8, 0xB1, 0xA1]"

definition msg_target_label_only :: string  \<comment> \<open>a device source addresses by label only\<close>
  where "msg_target_label_only = utf8
    [0xE8, 0xAE, 0xBE, 0xE5, 0xA4, 0x87, 0xE6, 0x9D, 0xA5, 0xE6, 0xBA, 0x90, 0xE5, 0x8F, 0xAA,
     0xE8, 0x83, 0xBD, 0xE6, 0x8C, 0x89, 0xE5, 0x90, 0x8C, 0xE6, 0xA0, 0xA1, 0xE8, 0xA7, 0x92,
     0xE8, 0x89, 0xB2, 0xE5, 0x8F, 0xB7, 0xE5, 0xAF, 0xBB, 0xE5, 0x9D, 0x80]"

definition msg_target_mixed :: string  \<comment> \<open>the form of the target is invalid or mixed\<close>
  where "msg_target_mixed = utf8
    [0xE9, 0x9D, 0x9E, 0xE8, 0xAE, 0xBE, 0xE5, 0xA4, 0x87, 0xE6, 0x9D, 0xA5, 0xE6, 0xBA, 0x90,
     0xE7, 0x9B, 0xAE, 0xE6, 0xA0, 0x87, 0xE5, 0xBD, 0xA2, 0xE5, 0xBC, 0x8F, 0xE9, 0x9D, 0x9E,
     0xE6, 0xB3, 0x95, 0xE6, 0x88, 0x96, 0xE6, 0xB7, 0xB7, 0xE7, 0x94, 0xA8]"

definition msg_topic_format :: string  \<comment> \<open>the topic is malformed\<close>
  where "msg_topic_format = utf8
    [0x74, 0x6F, 0x70, 0x69, 0x63, 0xE6, 0xA0, 0xBC, 0xE5, 0xBC, 0x8F, 0xE6, 0x97, 0xA0, 0xE6,
     0x95, 0x88]"

definition msg_topic_source_id :: string  \<comment> \<open>source\_id is invalid\<close>
  where "msg_topic_source_id = utf8
    [0x73, 0x6F, 0x75, 0x72, 0x63, 0x65, 0x5F, 0x69, 0x64, 0xE6, 0x97, 0xA0, 0xE6, 0x95, 0x88]"

definition msg_ack_topic_format :: string  \<comment> \<open>the ACK topic is malformed\<close>
  where "msg_ack_topic_format = utf8
    [0x20, 0x74, 0x6F, 0x70, 0x69, 0x63, 0xE6, 0xA0, 0xBC, 0xE5, 0xBC, 0x8F, 0xE6, 0x97, 0xA0,
     0xE6, 0x95, 0x88]"

definition msg_topic_device_id :: string  \<comment> \<open>device\_id is invalid\<close>
  where "msg_topic_device_id = utf8
    [0x64, 0x65, 0x76, 0x69, 0x63, 0x65, 0x5F, 0x69, 0x64, 0xE6, 0x97, 0xA0, 0xE6, 0x95, 0x88]"

definition msg_command_missing :: string  \<comment> \<open>command is missing or invalid\<close>
  where "msg_command_missing = utf8
    [0x63, 0x6F, 0x6D, 0x6D, 0x61, 0x6E, 0x64, 0xE7, 0xBC, 0xBA, 0xE5, 0xA4, 0xB1, 0xE6, 0x88,
     0x96, 0xE9, 0x9D, 0x9E, 0xE6, 0xB3, 0x95]"

definition msg_command_unsupported :: string  \<comment> \<open>the control command is not supported\<close>
  where "msg_command_unsupported = utf8
    [0xE4, 0xB8, 0x8D, 0xE6, 0x94, 0xAF, 0xE6, 0x8C, 0x81, 0xE7, 0x9A, 0x84, 0xE9, 0xA3, 0x9E,
     0xE6, 0x8E, 0xA7, 0xE5, 0x91, 0xBD, 0xE4, 0xBB, 0xA4]"

definition msg_parameters_object :: string  \<comment> \<open>parameters must be an object\<close>
  where "msg_parameters_object = utf8
    [0x70, 0x61, 0x72, 0x61, 0x6D, 0x65, 0x74, 0x65, 0x72, 0x73, 0xE5, 0xBF, 0x85, 0xE9, 0xA1,
     0xBB, 0xE6, 0x98, 0xAF, 0xE5, 0xAF, 0xB9, 0xE8, 0xB1, 0xA1]"

definition msg_parameters_none :: string  \<comment> \<open>the command takes no parameters\<close>
  where "msg_parameters_none = utf8
    [0xE8, 0xAF, 0xA5, 0xE9, 0xA3, 0x9E, 0xE6, 0x8E, 0xA7, 0xE5, 0x91, 0xBD, 0xE4, 0xBB, 0xA4,
     0xE4, 0xB8, 0x8D, 0xE6, 0x8E, 0xA5, 0xE5, 0x8F, 0x97, 0xE5, 0x8F, 0x82, 0xE6, 0x95, 0xB0]"

definition msg_parameters_pwm :: string  \<comment> \<open>set\_motor\_pwm takes four values of pwm\_us only\<close>
  where "msg_parameters_pwm = utf8
    [0x73, 0x65, 0x74, 0x5F, 0x6D, 0x6F, 0x74, 0x6F, 0x72, 0x5F, 0x70, 0x77, 0x6D, 0xE5, 0x8F,
     0xAA, 0xE6, 0x8E, 0xA5, 0xE5, 0x8F, 0x97, 0xE5, 0x9B, 0x9B, 0xE8, 0xB7, 0xAF, 0x70, 0x77,
     0x6D, 0x5F, 0x75, 0x73]"

definition msg_pwm_range :: string  \<comment> \<open>PWM must be an integer from 1000 to 2000\<close>
  where "msg_pwm_range = utf8
    [0x50, 0x57, 0x4D, 0xE5, 0xBF, 0x85, 0xE9, 0xA1, 0xBB, 0xE6, 0x98, 0xAF, 0x31, 0x30, 0x30,
     0x30, 0xE5, 0x88, 0xB0, 0x32, 0x30, 0x30, 0x30, 0xE7, 0x9A, 0x84, 0xE6, 0x95, 0xB4, 0xE6,
     0x95, 0xB0]"

definition msg_describe_config_request :: string  \<comment> \<open>a source's config request\<close>
  where "msg_describe_config_request = utf8
    [0xE6, 0x9D, 0xA5, 0xE6, 0xBA, 0x90, 0xE9, 0x85, 0x8D, 0xE7, 0xBD, 0xAE, 0xE8, 0xAF, 0xB7,
     0xE6, 0xB1, 0x82]"

definition msg_describe_config_ack :: string  \<comment> \<open>a device's config ACK\<close>
  where "msg_describe_config_ack = utf8
    [0xE8, 0xAE, 0xBE, 0xE5, 0xA4, 0x87, 0xE9, 0x85, 0x8D, 0xE7, 0xBD, 0xAE, 0x41, 0x43, 0x4B]"

definition msg_describe_control_request :: string  \<comment> \<open>a source's control request\<close>
  where "msg_describe_control_request = utf8
    [0xE6, 0x9D, 0xA5, 0xE6, 0xBA, 0x90, 0xE9, 0xA3, 0x9E, 0xE6, 0x8E, 0xA7, 0xE8, 0xAF, 0xB7,
     0xE6, 0xB1, 0x82]"

definition msg_describe_control_ack :: string  \<comment> \<open>a device's control ACK\<close>
  where "msg_describe_control_ack = utf8
    [0xE8, 0xAE, 0xBE, 0xE5, 0xA4, 0x87, 0xE9, 0xA3, 0x9E, 0xE6, 0x8E, 0xA7, 0x41, 0x43, 0x4B]"

definition msg_request_json :: string  \<comment> \<open>the request is no JSON\<close>
  where "msg_request_json = utf8
    [0xE6, 0x9D, 0xA5, 0xE6, 0xBA, 0x90, 0xE8, 0xAF, 0xB7, 0xE6, 0xB1, 0x82, 0xE4, 0xB8, 0x8D,
     0xE6, 0x98, 0xAF, 0xE5, 0x90, 0x88, 0xE6, 0xB3, 0x95, 0x4A, 0x53, 0x4F, 0x4E]"

definition msg_request_object :: string  \<comment> \<open>the request must be an object\<close>
  where "msg_request_object = utf8
    [0xE6, 0x9D, 0xA5, 0xE6, 0xBA, 0x90, 0xE8, 0xAF, 0xB7, 0xE6, 0xB1, 0x82, 0xE5, 0xBF, 0x85,
     0xE9, 0xA1, 0xBB, 0xE6, 0x98, 0xAF, 0x4A, 0x53, 0x4F, 0x4E, 0xE5, 0xAF, 0xB9, 0xE8, 0xB1,
     0xA1]"

definition msg_request_id :: string  \<comment> \<open>request\_id is missing or invalid\<close>
  where "msg_request_id = utf8
    [0x72, 0x65, 0x71, 0x75, 0x65, 0x73, 0x74, 0x5F, 0x69, 0x64, 0xE7, 0xBC, 0xBA, 0xE5, 0xA4,
     0xB1, 0xE6, 0x88, 0x96, 0xE9, 0x9D, 0x9E, 0xE6, 0xB3, 0x95]"

definition msg_request_unknown :: string  \<comment> \<open>the request has an unknown field\<close>
  where "msg_request_unknown = utf8
    [0xE6, 0x9D, 0xA5, 0xE6, 0xBA, 0x90, 0xE8, 0xAF, 0xB7, 0xE6, 0xB1, 0x82, 0xE5, 0x8C, 0x85,
     0xE5, 0x90, 0xAB, 0xE6, 0x9C, 0xAA, 0xE7, 0x9F, 0xA5, 0xE5, 0xAD, 0x97, 0xE6, 0xAE, 0xB5]"

definition msg_request_schema :: string  \<comment> \<open>only schema\_version 1 is supported\<close>
  where "msg_request_schema = utf8
    [0xE5, 0x8F, 0xAA, 0xE6, 0x94, 0xAF, 0xE6, 0x8C, 0x81, 0x73, 0x63, 0x68, 0x65, 0x6D, 0x61,
     0x5F, 0x76, 0x65, 0x72, 0x73, 0x69, 0x6F, 0x6E, 0x3D, 0x31]"

definition msg_request_no_target :: string  \<comment> \<open>target is missing\<close>
  where "msg_request_no_target = utf8
    [0xE7, 0xBC, 0xBA, 0xE5, 0xB0, 0x91, 0x74, 0x61, 0x72, 0x67, 0x65, 0x74]"

definition msg_request_no_parameters :: string  \<comment> \<open>parameters is missing\<close>
  where "msg_request_no_parameters = utf8
    [0xE7, 0xBC, 0xBA, 0xE5, 0xB0, 0x91, 0x70, 0x61, 0x72, 0x61, 0x6D, 0x65, 0x74, 0x65, 0x72,
     0x73]"

definition txt_unknown_school :: string  \<comment> \<open>unknown school\<close>
  where "txt_unknown_school = utf8
    [0xE6, 0x9C, 0xAA, 0xE7, 0x9F, 0xA5, 0xE5, 0xAD, 0xA6, 0xE6, 0xA0, 0xA1]"

definition txt_no_label :: string  \<comment> \<open>no label registered\<close>
  where "txt_no_label = utf8
    [0xE6, 0x9C, 0xAA, 0xE7, 0x99, 0xBB, 0xE8, 0xAE, 0xB0, 0xE7, 0xBC, 0x96, 0xE5, 0x8F, 0xB7]"

definition txt_open_paren :: string  \<comment> \<open>opening parenthesis\<close>
  where "txt_open_paren = utf8
    [0xEF, 0xBC, 0x88]"

definition txt_close_paren :: string  \<comment> \<open>closing parenthesis\<close>
  where "txt_close_paren = utf8
    [0xEF, 0xBC, 0x89]"

definition txt_comma :: string  \<comment> \<open>comma\<close>
  where "txt_comma = utf8
    [0xEF, 0xBC, 0x8C]"

definition txt_config_command :: string  \<comment> \<open>config command\<close>
  where "txt_config_command = utf8
    [0xE9, 0x85, 0x8D, 0xE7, 0xBD, 0xAE, 0xE5, 0x91, 0xBD, 0xE4, 0xBB, 0xA4, 0x20]"

definition txt_control_command :: string  \<comment> \<open>control command\<close>
  where "txt_control_command = utf8
    [0xE9, 0xA3, 0x9E, 0xE6, 0x8E, 0xA7, 0xE5, 0x91, 0xBD, 0xE4, 0xBB, 0xA4, 0x20]"

definition txt_unknown_command :: string  \<comment> \<open>unknown command\<close>
  where "txt_unknown_command = utf8
    [0xE6, 0x9C, 0xAA, 0xE7, 0x9F, 0xA5, 0xE5, 0x91, 0xBD, 0xE4, 0xBB, 0xA4]"

definition msg_active_limit :: string  \<comment> \<open>more active commands than configured\<close>
  where "msg_active_limit = utf8
    [0xE6, 0xB4, 0xBB, 0xE5, 0x8A, 0xA8, 0xE5, 0x91, 0xBD, 0xE4, 0xBB, 0xA4, 0xE6, 0x95, 0xB0,
     0xE9, 0x87, 0x8F, 0xE8, 0xB6, 0x85, 0xE8, 0xBF, 0x87, 0xE9, 0x85, 0x8D, 0xE7, 0xBD, 0xAE,
     0xE4, 0xB8, 0x8A, 0xE9, 0x99, 0x90]"

definition msg_source_unregistered :: string  \<comment> \<open>the source is not registered\<close>
  where "msg_source_unregistered = utf8
    [0xE5, 0x91, 0xBD, 0xE4, 0xBB, 0xA4, 0xE6, 0x9D, 0xA5, 0xE6, 0xBA, 0x90, 0xE6, 0x9C, 0xAA,
     0xE7, 0x99, 0xBB, 0xE8, 0xAE, 0xB0]"

definition msg_source_disabled :: string  \<comment> \<open>the source is disabled\<close>
  where "msg_source_disabled = utf8
    [0xE5, 0x91, 0xBD, 0xE4, 0xBB, 0xA4, 0xE6, 0x9D, 0xA5, 0xE6, 0xBA, 0x90, 0xE5, 0xB7, 0xB2,
     0xE7, 0xA6, 0x81, 0xE7, 0x94, 0xA8]"

definition msg_mqtt_unavailable :: string  \<comment> \<open>MQTT is not available\<close>
  where "msg_mqtt_unavailable = utf8
    [0x4D, 0x51, 0x54, 0x54, 0xE5, 0xBD, 0x93, 0xE5, 0x89, 0x8D, 0xE4, 0xB8, 0x8D, 0xE5, 0x8F,
     0xAF, 0xE7, 0x94, 0xA8]"

definition msg_database_unavailable :: string  \<comment> \<open>the database is not available\<close>
  where "msg_database_unavailable = utf8
    [0xE6, 0x95, 0xB0, 0xE6, 0x8D, 0xAE, 0xE5, 0xBA, 0x93, 0xE5, 0xBD, 0x93, 0xE5, 0x89, 0x8D,
     0xE4, 0xB8, 0x8D, 0xE5, 0x8F, 0xAF, 0xE7, 0x94, 0xA8]"

definition msg_server_busy :: string  \<comment> \<open>the capacity for commands is used up\<close>
  where "msg_server_busy = utf8
    [0xE6, 0x9C, 0x8D, 0xE5, 0x8A, 0xA1, 0xE5, 0x99, 0xA8, 0xE5, 0x91, 0xBD, 0xE4, 0xBB, 0xA4,
     0xE5, 0xAE, 0xB9, 0xE9, 0x87, 0x8F, 0xE5, 0xB7, 0xB2, 0xE6, 0xBB, 0xA1]"

definition msg_database_failed :: string  \<comment> \<open>a command database operation failed\<close>
  where "msg_database_failed = utf8
    [0xE5, 0x91, 0xBD, 0xE4, 0xBB, 0xA4, 0xE6, 0x95, 0xB0, 0xE6, 0x8D, 0xAE, 0xE5, 0xBA, 0x93,
     0xE6, 0x93, 0x8D, 0xE4, 0xBD, 0x9C, 0xE5, 0xA4, 0xB1, 0xE8, 0xB4, 0xA5, 0xEF, 0xBC, 0x9A]"

definition msg_cleanup_type :: string  \<comment> \<open>clean-up returned a value of the wrong type\<close>
  where "msg_cleanup_type = utf8
    [0xE5, 0x91, 0xBD, 0xE4, 0xBB, 0xA4, 0xE6, 0xB8, 0x85, 0xE7, 0x90, 0x86, 0xE8, 0xBF, 0x94,
     0xE5, 0x9B, 0x9E, 0xE7, 0xB1, 0xBB, 0xE5, 0x9E, 0x8B, 0xE5, 0xBC, 0x82, 0xE5, 0xB8, 0xB8]"

definition msg_find_id_type :: string  \<comment> \<open>query by identifier returned a value of the wrong type\<close>
  where "msg_find_id_type = utf8
    [0xE5, 0x91, 0xBD, 0xE4, 0xBB, 0xA4, 0xE6, 0x8C, 0x89, 0x49, 0x44, 0xE6, 0x9F, 0xA5, 0xE8,
     0xAF, 0xA2, 0xE8, 0xBF, 0x94, 0xE5, 0x9B, 0x9E, 0xE7, 0xB1, 0xBB, 0xE5, 0x9E, 0x8B, 0xE5,
     0xBC, 0x82, 0xE5, 0xB8, 0xB8]"

definition msg_record_gone :: string  \<comment> \<open>no record found after the status changed\<close>
  where "msg_record_gone = utf8
    [0xE5, 0x91, 0xBD, 0xE4, 0xBB, 0xA4, 0xE7, 0x8A, 0xB6, 0xE6, 0x80, 0x81, 0xE5, 0x8F, 0x98,
     0xE5, 0x8C, 0x96, 0xE5, 0x90, 0x8E, 0xE6, 0x9C, 0xAA, 0xE6, 0x89, 0xBE, 0xE5, 0x88, 0xB0,
     0xE5, 0xBD, 0x93, 0xE5, 0x89, 0x8D, 0xE5, 0x91, 0xBD, 0xE4, 0xBB, 0xA4, 0xE8, 0xAE, 0xB0,
     0xE5, 0xBD, 0x95]"

definition msg_find_type :: string  \<comment> \<open>query returned a value of the wrong type\<close>
  where "msg_find_type = utf8
    [0xE5, 0x91, 0xBD, 0xE4, 0xBB, 0xA4, 0xE6, 0x9F, 0xA5, 0xE8, 0xAF, 0xA2, 0xE8, 0xBF, 0x94,
     0xE5, 0x9B, 0x9E, 0xE7, 0xB1, 0xBB, 0xE5, 0x9E, 0x8B, 0xE5, 0xBC, 0x82, 0xE5, 0xB8, 0xB8]"

definition msg_idempotency :: string  \<comment> \<open>same request identifier with different content\<close>
  where "msg_idempotency = utf8
    [0xE5, 0x90, 0x8C, 0xE4, 0xB8, 0x80, 0xE8, 0xAF, 0xB7, 0xE6, 0xB1, 0x82, 0xE5, 0x8F, 0xB7,
     0xE7, 0x9A, 0x84, 0xE5, 0x86, 0x85, 0xE5, 0xAE, 0xB9, 0xE4, 0xB8, 0x8D, 0xE4, 0xB8, 0x80,
     0xE8, 0x87, 0xB4]"

definition msg_request_type :: string  \<comment> \<open>the kind of request is invalid\<close>
  where "msg_request_type = utf8
    [0xE5, 0x91, 0xBD, 0xE4, 0xBB, 0xA4, 0xE8, 0xAF, 0xB7, 0xE6, 0xB1, 0x82, 0xE7, 0xB1, 0xBB,
     0xE5, 0x9E, 0x8B, 0xE9, 0x9D, 0x9E, 0xE6, 0xB3, 0x95]"

definition msg_target_offline :: string  \<comment> \<open>the target device is offline\<close>
  where "msg_target_offline = utf8
    [0xE7, 0x9B, 0xAE, 0xE6, 0xA0, 0x87, 0xE8, 0xAE, 0xBE, 0xE5, 0xA4, 0x87, 0xE5, 0xBD, 0x93,
     0xE5, 0x89, 0x8D, 0xE7, 0xA6, 0xBB, 0xE7, 0xBA, 0xBF]"

definition msg_write_type :: string  \<comment> \<open>write returned a value of the wrong type\<close>
  where "msg_write_type = utf8
    [0xE5, 0x91, 0xBD, 0xE4, 0xBB, 0xA4, 0xE5, 0x86, 0x99, 0xE5, 0x85, 0xA5, 0xE8, 0xBF, 0x94,
     0xE5, 0x9B, 0x9E, 0xE7, 0xB1, 0xBB, 0xE5, 0x9E, 0x8B, 0xE5, 0xBC, 0x82, 0xE5, 0xB8, 0xB8]"

definition txt_received_from :: string  \<comment> \<open>received from\<close>
  where "txt_received_from = utf8
    [0xE6, 0x94, 0xB6, 0xE5, 0x88, 0xB0, 0xE6, 0x9D, 0xA5, 0xE8, 0x87, 0xAA, 0x20]"

definition txt_of :: string  \<comment> \<open>of\<close>
  where "txt_of = utf8
    [0x20, 0xE7, 0x9A, 0x84]"

definition txt_routed_to :: string  \<comment> \<open>routed to device\<close>
  where "txt_routed_to = utf8
    [0xEF, 0xBC, 0x8C, 0xE5, 0xB7, 0xB2, 0xE8, 0xB7, 0xAF, 0xE7, 0x94, 0xB1, 0xE8, 0x87, 0xB3,
     0xE8, 0xAE, 0xBE, 0xE5, 0xA4, 0x87, 0x20]"

definition txt_received_device :: string  \<comment> \<open>received from device\<close>
  where "txt_received_device = utf8
    [0xE6, 0x94, 0xB6, 0xE5, 0x88, 0xB0, 0xE6, 0x9D, 0xA5, 0xE8, 0x87, 0xAA, 0xE8, 0xAE, 0xBE,
     0xE5, 0xA4, 0x87, 0x20]"

definition txt_answer :: string  \<comment> \<open>its answer\<close>
  where "txt_answer = utf8
    [0xE7, 0x9A, 0x84, 0xE5, 0xBA, 0x94, 0xE7, 0xAD, 0x94, 0x20]"

definition txt_forwarded_to :: string  \<comment> \<open>forwarded to\<close>
  where "txt_forwarded_to = utf8
    [0xEF, 0xBC, 0x8C, 0xE5, 0xB7, 0xB2, 0xE8, 0xBD, 0xAC, 0xE5, 0x8F, 0x91, 0xE8, 0x87, 0xB3,
     0x20]"

definition msg_control_publish_failed :: string  \<comment> \<open>publishing the control command failed\<close>
  where "msg_control_publish_failed = utf8
    [0xE8, 0xAE, 0xBE, 0xE5, 0xA4, 0x87, 0xE9, 0xA3, 0x9E, 0xE6, 0x8E, 0xA7, 0xE5, 0x91, 0xBD,
     0xE4, 0xBB, 0xA4, 0xE5, 0x8F, 0x91, 0xE5, 0xB8, 0x83, 0xE5, 0xA4, 0xB1, 0xE8, 0xB4, 0xA5]"

definition msg_config_publish_failed :: string  \<comment> \<open>publishing the config command failed\<close>
  where "msg_config_publish_failed = utf8
    [0xE8, 0xAE, 0xBE, 0xE5, 0xA4, 0x87, 0xE9, 0x85, 0x8D, 0xE7, 0xBD, 0xAE, 0xE5, 0x91, 0xBD,
     0xE4, 0xBB, 0xA4, 0xE5, 0x8F, 0x91, 0xE5, 0xB8, 0x83, 0xE5, 0xA4, 0xB1, 0xE8, 0xB4, 0xA5]"

definition msg_control_ack_malformed :: string  \<comment> \<open>malformed control ACK\<close>
  where "msg_control_ack_malformed = utf8
    [0xE8, 0xAE, 0xBE, 0xE5, 0xA4, 0x87, 0xE9, 0xA3, 0x9E, 0xE6, 0x8E, 0xA7, 0x41, 0x43, 0x4B,
     0xE6, 0xA0, 0xBC, 0xE5, 0xBC, 0x8F, 0xE9, 0x9D, 0x9E, 0xE6, 0xB3, 0x95]"

definition msg_config_ack_malformed :: string  \<comment> \<open>malformed config ACK\<close>
  where "msg_config_ack_malformed = utf8
    [0xE8, 0xAE, 0xBE, 0xE5, 0xA4, 0x87, 0xE9, 0x85, 0x8D, 0xE7, 0xBD, 0xAE, 0x41, 0x43, 0x4B,
     0xE6, 0xA0, 0xBC, 0xE5, 0xBC, 0x8F, 0xE9, 0x9D, 0x9E, 0xE6, 0xB3, 0x95]"

definition txt_late_unrelated :: string  \<comment> \<open>late or unrelated answer\<close>
  where "txt_late_unrelated = utf8
    [0xE7, 0x9A, 0x84, 0xE8, 0xBF, 0x9F, 0xE5, 0x88, 0xB0, 0xE6, 0x88, 0x96, 0xE6, 0x97, 0xA0,
     0xE6, 0xB3, 0x95, 0xE5, 0x85, 0xB3, 0xE8, 0x81, 0x94, 0xE5, 0xBA, 0x94, 0xE7, 0xAD, 0x94,
     0x20]"

definition txt_not_reversed :: string  \<comment> \<open>the result is not reversed\<close>
  where "txt_not_reversed = utf8
    [0xEF, 0xBC, 0x8C, 0xE6, 0x9C, 0xAA, 0xE5, 0x8F, 0x8D, 0xE8, 0xBD, 0xAC, 0xE7, 0xBB, 0x93,
     0xE6, 0x9E, 0x9C]"

definition txt_received_unknown :: string  \<comment> \<open>received from unknown device\<close>
  where "txt_received_unknown = utf8
    [0xE6, 0x94, 0xB6, 0xE5, 0x88, 0xB0, 0xE6, 0x9D, 0xA5, 0xE8, 0x87, 0xAA, 0xE6, 0x9C, 0xAA,
     0xE7, 0x9F, 0xA5, 0xE8, 0xAE, 0xBE, 0xE5, 0xA4, 0x87, 0x20]"

definition msg_ack_command_mismatch :: string  \<comment> \<open>the command of the ACK is not that of the active command\<close>
  where "msg_ack_command_mismatch = utf8
    [0xE8, 0xAE, 0xBE, 0xE5, 0xA4, 0x87, 0xE9, 0xA3, 0x9E, 0xE6, 0x8E, 0xA7, 0x41, 0x43, 0x4B,
     0xE7, 0x9A, 0x84, 0x63, 0x6F, 0x6D, 0x6D, 0x61, 0x6E, 0x64, 0xE4, 0xB8, 0x8E, 0xE6, 0xB4,
     0xBB, 0xE5, 0x8A, 0xA8, 0xE5, 0x91, 0xBD, 0xE4, 0xBB, 0xA4, 0xE4, 0xB8, 0x8D, 0xE5, 0x8C,
     0xB9, 0xE9, 0x85, 0x8D]"

definition msg_not_control :: string  \<comment> \<open>not a control command\<close>
  where "msg_not_control = utf8
    [0xE4, 0xB8, 0x8D, 0xE6, 0x98, 0xAF, 0xE9, 0xA3, 0x9E, 0xE6, 0x8E, 0xA7, 0xE5, 0x91, 0xBD,
     0xE4, 0xBB, 0xA4]"

definition msg_early_ack_conflict :: string  \<comment> \<open>conflicting control ACKs before the publish was confirmed\<close>
  where "msg_early_ack_conflict = utf8
    [0xE8, 0xAE, 0xBE, 0xE5, 0xA4, 0x87, 0xE9, 0xA3, 0x9E, 0xE6, 0x8E, 0xA7, 0x41, 0x43, 0x4B,
     0xE5, 0x9C, 0xA8, 0xE5, 0x8F, 0x91, 0xE5, 0xB8, 0x83, 0xE7, 0xA1, 0xAE, 0xE8, 0xAE, 0xA4,
     0xE5, 0x89, 0x8D, 0xE5, 0x8F, 0x91, 0xE7, 0x94, 0x9F, 0xE5, 0x86, 0xB2, 0xE7, 0xAA, 0x81]"

definition msg_control_rejected :: string  \<comment> \<open>the device rejected the control command\<close>
  where "msg_control_rejected = utf8
    [0xE8, 0xAE, 0xBE, 0xE5, 0xA4, 0x87, 0xE6, 0x8B, 0x92, 0xE7, 0xBB, 0x9D, 0xE9, 0xA3, 0x9E,
     0xE6, 0x8E, 0xA7, 0xE5, 0x91, 0xBD, 0xE4, 0xBB, 0xA4]"

definition msg_config_rejected :: string  \<comment> \<open>the device rejected the config command\<close>
  where "msg_config_rejected = utf8
    [0xE8, 0xAE, 0xBE, 0xE5, 0xA4, 0x87, 0xE6, 0x8B, 0x92, 0xE7, 0xBB, 0x9D, 0xE9, 0x85, 0x8D,
     0xE7, 0xBD, 0xAE, 0xE5, 0x91, 0xBD, 0xE4, 0xBB, 0xA4]"

definition msg_device_timeout :: string  \<comment> \<open>the device reports a timeout\<close>
  where "msg_device_timeout = utf8
    [0xE8, 0xAE, 0xBE, 0xE5, 0xA4, 0x87, 0xE6, 0x8A, 0xA5, 0xE5, 0x91, 0x8A, 0xE9, 0xA3, 0x9E,
     0xE6, 0x8E, 0xA7, 0xE5, 0x91, 0xBD, 0xE4, 0xBB, 0xA4, 0xE8, 0xB6, 0x85, 0xE6, 0x97, 0xB6]"

definition msg_cleanup :: string  \<comment> \<open>clean-up of terminal commands\<close>
  where "msg_cleanup = utf8
    [0xE7, 0xBB, 0x88, 0xE6, 0x80, 0x81, 0xE6, 0xB8, 0x85, 0xE7, 0x90, 0x86]"

definition msg_control_timeout :: string  \<comment> \<open>the control command timed out\<close>
  where "msg_control_timeout = utf8
    [0xE8, 0xAE, 0xBE, 0xE5, 0xA4, 0x87, 0xE9, 0xA3, 0x9E, 0xE6, 0x8E, 0xA7, 0xE5, 0x91, 0xBD,
     0xE4, 0xBB, 0xA4, 0xE8, 0xB6, 0x85, 0xE6, 0x97, 0xB6]"

definition msg_config_timeout :: string  \<comment> \<open>the config command timed out\<close>
  where "msg_config_timeout = utf8
    [0xE8, 0xAE, 0xBE, 0xE5, 0xA4, 0x87, 0xE9, 0x85, 0x8D, 0xE7, 0xBD, 0xAE, 0xE5, 0x91, 0xBD,
     0xE4, 0xBB, 0xA4, 0xE8, 0xB6, 0x85, 0xE6, 0x97, 0xB6]"

definition msg_control_unconfirmed :: string  \<comment> \<open>delivery of the control command is not confirmed\<close>
  where "msg_control_unconfirmed = utf8
    [0xE9, 0xA3, 0x9E, 0xE6, 0x8E, 0xA7, 0xE5, 0x91, 0xBD, 0xE4, 0xBB, 0xA4, 0xE5, 0x8F, 0x91,
     0xE5, 0xB8, 0x83, 0xE5, 0x90, 0x8E, 0xE6, 0x97, 0xA0, 0xE6, 0xB3, 0x95, 0xE7, 0xA1, 0xAE,
     0xE8, 0xAE, 0xA4, 0xE6, 0x98, 0xAF, 0xE5, 0x90, 0xA6, 0xE9, 0x80, 0x81, 0xE8, 0xBE, 0xBE]"

definition txt_state_changed :: string  \<comment> \<open>the status has changed\<close>
  where "txt_state_changed = utf8
    [0xE7, 0x8A, 0xB6, 0xE6, 0x80, 0x81, 0xE5, 0xB7, 0xB2, 0xE5, 0x8F, 0x98, 0xE5, 0x8C, 0x96]"

definition txt_late_answer :: string  \<comment> \<open>late answer\<close>
  where "txt_late_answer = utf8
    [0xE7, 0x9A, 0x84, 0xE8, 0xBF, 0x9F, 0xE5, 0x88, 0xB0, 0xE5, 0xBA, 0x94, 0xE7, 0xAD, 0x94,
     0x20]"

definition txt_command_is :: string  \<comment> \<open>the command already is\<close>
  where "txt_command_is = utf8
    [0xEF, 0xBC, 0x8C, 0xE5, 0x91, 0xBD, 0xE4, 0xBB, 0xA4, 0xE5, 0xB7, 0xB2, 0xE6, 0x98, 0xAF,
     0x20]"

definition msg_converge_unavailable :: string  \<comment> \<open>query after a status change failed, no database\<close>
  where "msg_converge_unavailable = utf8
    [0xE5, 0x91, 0xBD, 0xE4, 0xBB, 0xA4, 0xE7, 0x8A, 0xB6, 0xE6, 0x80, 0x81, 0xE5, 0x8F, 0x98,
     0xE5, 0x8C, 0x96, 0xE5, 0x90, 0x8E, 0xE6, 0x9F, 0xA5, 0xE8, 0xAF, 0xA2, 0xE5, 0xBD, 0x93,
     0xE5, 0x89, 0x8D, 0xE7, 0x8A, 0xB6, 0xE6, 0x80, 0x81, 0xE5, 0xA4, 0xB1, 0xE8, 0xB4, 0xA5,
     0xEF, 0xBC, 0x9A, 0xE6, 0x95, 0xB0, 0xE6, 0x8D, 0xAE, 0xE5, 0xBA, 0x93, 0xE5, 0xBD, 0x93,
     0xE5, 0x89, 0x8D, 0xE4, 0xB8, 0x8D, 0xE5, 0x8F, 0xAF, 0xE7, 0x94, 0xA8]"

definition msg_ack_callback :: string  \<comment> \<open>the callback for source ACKs threw\<close>
  where "msg_ack_callback = utf8
    [0xE6, 0x9D, 0xA5, 0xE6, 0xBA, 0x90, 0xE9, 0x85, 0x8D, 0xE7, 0xBD, 0xAE, 0x41, 0x43, 0x4B,
     0xE5, 0x8F, 0x91, 0xE5, 0xB8, 0x83, 0xE5, 0x9B, 0x9E, 0xE8, 0xB0, 0x83, 0xE5, 0xBC, 0x82,
     0xE5, 0xB8, 0xB8]"

definition txt_unnumbered :: string  \<comment> \<open>unnumbered\<close>
  where "txt_unnumbered = utf8
    [0xE6, 0x9C, 0xAA, 0xE7, 0xBC, 0x96, 0xE5, 0x8F, 0xB7]"

definition msg_clock_init :: string  \<comment> \<open>the clock port failed at start\<close>
  where "msg_clock_init = utf8
    [0xE8, 0xAE, 0xBE, 0xE5, 0xA4, 0x87, 0xE6, 0x97, 0xB6, 0xE9, 0x92, 0x9F, 0xE7, 0xAB, 0xAF,
     0xE5, 0x8F, 0xA3, 0xE5, 0x88, 0x9D, 0xE5, 0xA7, 0x8B, 0xE5, 0x8C, 0x96, 0xE5, 0xBC, 0x82,
     0xE5, 0xB8, 0xB8]"

definition msg_clock_init_unknown :: string  \<comment> \<open>the clock port failed at start for an unknown reason\<close>
  where "msg_clock_init_unknown = utf8
    [0xE8, 0xAE, 0xBE, 0xE5, 0xA4, 0x87, 0xE6, 0x97, 0xB6, 0xE9, 0x92, 0x9F, 0xE7, 0xAB, 0xAF,
     0xE5, 0x8F, 0xA3, 0xE5, 0x88, 0x9D, 0xE5, 0xA7, 0x8B, 0xE5, 0x8C, 0x96, 0xE5, 0x8F, 0x91,
     0xE7, 0x94, 0x9F, 0xE6, 0x9C, 0xAA, 0xE7, 0x9F, 0xA5, 0xE5, 0xBC, 0x82, 0xE5, 0xB8, 0xB8]"

definition msg_provision_closed :: string  \<comment> \<open>the port for provisioning is closed\<close>
  where "msg_provision_closed = utf8
    [0xE6, 0x95, 0xB0, 0xE6, 0x8D, 0xAE, 0xE5, 0xBA, 0x93, 0xE5, 0xBB, 0xBA, 0xE6, 0xA1, 0xA3,
     0xE6, 0x8F, 0x90, 0xE4, 0xBA, 0xA4, 0xE7, 0xAB, 0xAF, 0xE5, 0x8F, 0xA3, 0xE5, 0xB7, 0xB2,
     0xE5, 0x85, 0xB3, 0xE9, 0x97, 0xAD]"

definition msg_provision_threw :: string  \<comment> \<open>the provisioning callback threw\<close>
  where "msg_provision_threw = utf8
    [0xE6, 0x95, 0xB0, 0xE6, 0x8D, 0xAE, 0xE5, 0xBA, 0x93, 0xE5, 0xBB, 0xBA, 0xE6, 0xA1, 0xA3,
     0xE6, 0x8F, 0x90, 0xE4, 0xBA, 0xA4, 0xE5, 0x9B, 0x9E, 0xE8, 0xB0, 0x83, 0xE5, 0xBC, 0x82,
     0xE5, 0xB8, 0xB8]"

definition msg_provision_threw_unknown :: string  \<comment> \<open>the provisioning callback threw an unknown exception\<close>
  where "msg_provision_threw_unknown = utf8
    [0xE6, 0x95, 0xB0, 0xE6, 0x8D, 0xAE, 0xE5, 0xBA, 0x93, 0xE5, 0xBB, 0xBA, 0xE6, 0xA1, 0xA3,
     0xE6, 0x8F, 0x90, 0xE4, 0xBA, 0xA4, 0xE5, 0x9B, 0x9E, 0xE8, 0xB0, 0x83, 0xE5, 0x8F, 0x91,
     0xE7, 0x94, 0x9F, 0xE6, 0x9C, 0xAA, 0xE7, 0x9F, 0xA5, 0xE5, 0xBC, 0x82, 0xE5, 0xB8, 0xB8]"

definition msg_database_degraded :: string  \<comment> \<open>the database is unavailable, device states are degraded\<close>
  where "msg_database_degraded = utf8
    [0xE6, 0x95, 0xB0, 0xE6, 0x8D, 0xAE, 0xE5, 0xBA, 0x93, 0xE6, 0x9A, 0x82, 0xE4, 0xB8, 0x8D,
     0xE5, 0x8F, 0xAF, 0xE7, 0x94, 0xA8, 0xEF, 0xBC, 0x8C, 0xE8, 0xAE, 0xBE, 0xE5, 0xA4, 0x87,
     0xE7, 0x8A, 0xB6, 0xE6, 0x80, 0x81, 0xE8, 0xBF, 0x9B, 0xE5, 0x85, 0xA5, 0xE9, 0x99, 0x8D,
     0xE7, 0xBA, 0xA7, 0xE6, 0xA8, 0xA1, 0xE5, 0xBC, 0x8F]"

definition msg_database_permanent :: string  \<comment> \<open>a database operation failed for good\<close>
  where "msg_database_permanent = utf8
    [0xE6, 0x95, 0xB0, 0xE6, 0x8D, 0xAE, 0xE5, 0xBA, 0x93, 0xE6, 0x93, 0x8D, 0xE4, 0xBD, 0x9C,
     0xE6, 0xB0, 0xB8, 0xE4, 0xB9, 0x85, 0xE5, 0xA4, 0xB1, 0xE8, 0xB4, 0xA5, 0xEF, 0xBC, 0x8C,
     0xE5, 0xB7, 0xB2, 0xE6, 0x8B, 0x92, 0xE7, 0xBB, 0x9D, 0xE7, 0x9B, 0xB8, 0xE5, 0x85, 0xB3,
     0xE5, 0xBE, 0x85, 0xE5, 0xA4, 0x84, 0xE7, 0x90, 0x86, 0xE6, 0x93, 0x8D, 0xE4, 0xBD, 0x9C]"

definition txt_device_online :: string  \<comment> \<open>device online:\<close>
  where "txt_device_online = utf8
    [0xE8, 0xAE, 0xBE, 0xE5, 0xA4, 0x87, 0xE4, 0xB8, 0x8A, 0xE7, 0xBA, 0xBF, 0xEF, 0xBC, 0x9A]"

definition txt_device_offline :: string  \<comment> \<open>device offline:\<close>
  where "txt_device_offline = utf8
    [0xE8, 0xAE, 0xBE, 0xE5, 0xA4, 0x87, 0xE7, 0xA6, 0xBB, 0xE7, 0xBA, 0xBF, 0xEF, 0xBC, 0x9A]"

definition msg_write_closed :: string  \<comment> \<open>the port for writes is closed\<close>
  where "msg_write_closed = utf8
    [0xE6, 0x95, 0xB0, 0xE6, 0x8D, 0xAE, 0xE5, 0xBA, 0x93, 0xE5, 0x86, 0x99, 0xE5, 0x85, 0xA5,
     0xE6, 0x8F, 0x90, 0xE4, 0xBA, 0xA4, 0xE7, 0xAB, 0xAF, 0xE5, 0x8F, 0xA3, 0xE5, 0xB7, 0xB2,
     0xE5, 0x85, 0xB3, 0xE9, 0x97, 0xAD]"

definition msg_write_threw :: string  \<comment> \<open>the write callback threw\<close>
  where "msg_write_threw = utf8
    [0xE6, 0x95, 0xB0, 0xE6, 0x8D, 0xAE, 0xE5, 0xBA, 0x93, 0xE5, 0x86, 0x99, 0xE5, 0x85, 0xA5,
     0xE6, 0x8F, 0x90, 0xE4, 0xBA, 0xA4, 0xE5, 0x9B, 0x9E, 0xE8, 0xB0, 0x83, 0xE5, 0xBC, 0x82,
     0xE5, 0xB8, 0xB8]"

definition msg_write_threw_unknown :: string  \<comment> \<open>the write callback threw an unknown exception\<close>
  where "msg_write_threw_unknown = utf8
    [0xE6, 0x95, 0xB0, 0xE6, 0x8D, 0xAE, 0xE5, 0xBA, 0x93, 0xE5, 0x86, 0x99, 0xE5, 0x85, 0xA5,
     0xE6, 0x8F, 0x90, 0xE4, 0xBA, 0xA4, 0xE5, 0x9B, 0x9E, 0xE8, 0xB0, 0x83, 0xE5, 0x8F, 0x91,
     0xE7, 0x94, 0x9F, 0xE6, 0x9C, 0xAA, 0xE7, 0x9F, 0xA5, 0xE5, 0xBC, 0x82, 0xE5, 0xB8, 0xB8]"

definition msg_event_threw :: string  \<comment> \<open>the event callback threw\<close>
  where "msg_event_threw = utf8
    [0xE7, 0x8A, 0xB6, 0xE6, 0x80, 0x81, 0xE4, 0xBA, 0x8B, 0xE4, 0xBB, 0xB6, 0xE5, 0x8F, 0x91,
     0xE5, 0xB8, 0x83, 0xE5, 0x9B, 0x9E, 0xE8, 0xB0, 0x83, 0xE5, 0xBC, 0x82, 0xE5, 0xB8, 0xB8]"

definition msg_event_threw_unknown :: string  \<comment> \<open>the event callback threw an unknown exception\<close>
  where "msg_event_threw_unknown = utf8
    [0xE7, 0x8A, 0xB6, 0xE6, 0x80, 0x81, 0xE4, 0xBA, 0x8B, 0xE4, 0xBB, 0xB6, 0xE5, 0x8F, 0x91,
     0xE5, 0xB8, 0x83, 0xE5, 0x9B, 0x9E, 0xE8, 0xB0, 0x83, 0xE5, 0x8F, 0x91, 0xE7, 0x94, 0x9F,
     0xE6, 0x9C, 0xAA, 0xE7, 0x9F, 0xA5, 0xE5, 0xBC, 0x82, 0xE5, 0xB8, 0xB8]"

definition msg_snapshot_threw :: string  \<comment> \<open>the snapshot callback threw\<close>
  where "msg_snapshot_threw = utf8
    [0xE8, 0xAE, 0xBE, 0xE5, 0xA4, 0x87, 0xE5, 0x85, 0xA8, 0xE9, 0x87, 0x8F, 0xE5, 0xBF, 0xAB,
     0xE7, 0x85, 0xA7, 0xE5, 0x8F, 0x91, 0xE5, 0xB8, 0x83, 0xE5, 0x9B, 0x9E, 0xE8, 0xB0, 0x83,
     0xE5, 0xBC, 0x82, 0xE5, 0xB8, 0xB8]"

definition msg_snapshot_threw_unknown :: string  \<comment> \<open>the snapshot callback threw an unknown exception\<close>
  where "msg_snapshot_threw_unknown = utf8
    [0xE8, 0xAE, 0xBE, 0xE5, 0xA4, 0x87, 0xE5, 0x85, 0xA8, 0xE9, 0x87, 0x8F, 0xE5, 0xBF, 0xAB,
     0xE7, 0x85, 0xA7, 0xE5, 0x8F, 0x91, 0xE5, 0xB8, 0x83, 0xE5, 0x9B, 0x9E, 0xE8, 0xB0, 0x83,
     0xE5, 0x8F, 0x91, 0xE7, 0x94, 0x9F, 0xE6, 0x9C, 0xAA, 0xE7, 0x9F, 0xA5, 0xE5, 0xBC, 0x82,
     0xE5, 0xB8, 0xB8]"

definition msg_reconnect_unavailable :: string  \<comment> \<open>reconnecting to the database is not possible now\<close>
  where "msg_reconnect_unavailable = utf8
    [0xE6, 0x95, 0xB0, 0xE6, 0x8D, 0xAE, 0xE5, 0xBA, 0x93, 0xE9, 0x87, 0x8D, 0xE8, 0xBF, 0x9E,
     0xE6, 0x9A, 0x82, 0xE4, 0xB8, 0x8D, 0xE5, 0x8F, 0xAF, 0xE7, 0x94, 0xA8]"

definition msg_migration_permanent :: string  \<comment> \<open>the migration check failed for good\<close>
  where "msg_migration_permanent = utf8
    [0xE6, 0x95, 0xB0, 0xE6, 0x8D, 0xAE, 0xE5, 0xBA, 0x93, 0xE8, 0xBF, 0x81, 0xE7, 0xA7, 0xBB,
     0xE7, 0x89, 0x88, 0xE6, 0x9C, 0xAC, 0xE6, 0xA0, 0xA1, 0xE9, 0xAA, 0x8C, 0xE6, 0xB0, 0xB8,
     0xE4, 0xB9, 0x85, 0xE5, 0xA4, 0xB1, 0xE8, 0xB4, 0xA5]"

definition msg_provision_unavailable :: string  \<comment> \<open>provisioning is not possible now\<close>
  where "msg_provision_unavailable = utf8
    [0xE6, 0x95, 0xB0, 0xE6, 0x8D, 0xAE, 0xE5, 0xBA, 0x93, 0xE5, 0xBB, 0xBA, 0xE6, 0xA1, 0xA3,
     0xE6, 0x9A, 0x82, 0xE4, 0xB8, 0x8D, 0xE5, 0x8F, 0xAF, 0xE7, 0x94, 0xA8]"

definition msg_provision_permanent :: string  \<comment> \<open>provisioning failed for good\<close>
  where "msg_provision_permanent = utf8
    [0xE6, 0x95, 0xB0, 0xE6, 0x8D, 0xAE, 0xE5, 0xBA, 0x93, 0xE5, 0xBB, 0xBA, 0xE6, 0xA1, 0xA3,
     0xE6, 0xB0, 0xB8, 0xE4, 0xB9, 0x85, 0xE5, 0xA4, 0xB1, 0xE8, 0xB4, 0xA5]"

definition msg_write_unavailable :: string  \<comment> \<open>writing is not possible now\<close>
  where "msg_write_unavailable = utf8
    [0xE6, 0x95, 0xB0, 0xE6, 0x8D, 0xAE, 0xE5, 0xBA, 0x93, 0xE5, 0x86, 0x99, 0xE5, 0x85, 0xA5,
     0xE6, 0x9A, 0x82, 0xE4, 0xB8, 0x8D, 0xE5, 0x8F, 0xAF, 0xE7, 0x94, 0xA8]"

definition msg_write_permanent :: string  \<comment> \<open>writing failed for good\<close>
  where "msg_write_permanent = utf8
    [0xE6, 0x95, 0xB0, 0xE6, 0x8D, 0xAE, 0xE5, 0xBA, 0x93, 0xE5, 0x86, 0x99, 0xE5, 0x85, 0xA5,
     0xE6, 0xB0, 0xB8, 0xE4, 0xB9, 0x85, 0xE5, 0xA4, 0xB1, 0xE8, 0xB4, 0xA5]"

definition msg_reconnect_threw :: string  \<comment> \<open>the reconnection port threw\<close>
  where "msg_reconnect_threw = utf8
    [0xE6, 0x95, 0xB0, 0xE6, 0x8D, 0xAE, 0xE5, 0xBA, 0x93, 0xE9, 0x87, 0x8D, 0xE8, 0xBF, 0x9E,
     0xE6, 0xA0, 0xA1, 0xE9, 0xAA, 0x8C, 0xE7, 0xAB, 0xAF, 0xE5, 0x8F, 0xA3, 0xE5, 0xBC, 0x82,
     0xE5, 0xB8, 0xB8]"

definition msg_reconnect_threw_unknown :: string  \<comment> \<open>the reconnection port threw an unknown exception\<close>
  where "msg_reconnect_threw_unknown = utf8
    [0xE6, 0x95, 0xB0, 0xE6, 0x8D, 0xAE, 0xE5, 0xBA, 0x93, 0xE9, 0x87, 0x8D, 0xE8, 0xBF, 0x9E,
     0xE6, 0xA0, 0xA1, 0xE9, 0xAA, 0x8C, 0xE5, 0x8F, 0x91, 0xE7, 0x94, 0x9F, 0xE6, 0x9C, 0xAA,
     0xE7, 0x9F, 0xA5, 0xE5, 0xBC, 0x82, 0xE5, 0xB8, 0xB8]"

definition msg_replay_threw :: string  \<comment> \<open>the replay callback threw\<close>
  where "msg_replay_threw = utf8
    [0x72, 0x65, 0x67, 0x69, 0x73, 0x74, 0x72, 0x61, 0x74, 0x69, 0x6F, 0x6E, 0x20, 0x72, 0x65,
     0x74, 0x61, 0x69, 0x6E, 0x65, 0x64, 0x20, 0x72, 0x65, 0x70, 0x6C, 0x61, 0x79, 0x20, 0xE5,
     0x9B, 0x9E, 0xE8, 0xB0, 0x83, 0xE5, 0xBC, 0x82, 0xE5, 0xB8, 0xB8]"

definition msg_replay_threw_unknown :: string  \<comment> \<open>the replay callback threw an unknown exception\<close>
  where "msg_replay_threw_unknown = utf8
    [0x72, 0x65, 0x67, 0x69, 0x73, 0x74, 0x72, 0x61, 0x74, 0x69, 0x6F, 0x6E, 0x20, 0x72, 0x65,
     0x74, 0x61, 0x69, 0x6E, 0x65, 0x64, 0x20, 0x72, 0x65, 0x70, 0x6C, 0x61, 0x79, 0x20, 0xE5,
     0x9B, 0x9E, 0xE8, 0xB0, 0x83, 0xE5, 0x8F, 0x91, 0xE7, 0x94, 0x9F, 0xE6, 0x9C, 0xAA, 0xE7,
     0x9F, 0xA5, 0xE5, 0xBC, 0x82, 0xE5, 0xB8, 0xB8]"

definition msg_command_threw :: string  \<comment> \<open>the command port threw\<close>
  where "msg_command_threw = utf8
    [0xE6, 0x95, 0xB0, 0xE6, 0x8D, 0xAE, 0xE5, 0xBA, 0x93, 0xE5, 0x91, 0xBD, 0xE4, 0xBB, 0xA4,
     0xE7, 0xAB, 0xAF, 0xE5, 0x8F, 0xA3, 0xE5, 0xBC, 0x82, 0xE5, 0xB8, 0xB8]"

definition msg_command_threw_unknown :: string  \<comment> \<open>the command port threw an unknown exception\<close>
  where "msg_command_threw_unknown = utf8
    [0xE6, 0x95, 0xB0, 0xE6, 0x8D, 0xAE, 0xE5, 0xBA, 0x93, 0xE5, 0x91, 0xBD, 0xE4, 0xBB, 0xA4,
     0xE7, 0xAB, 0xAF, 0xE5, 0x8F, 0xA3, 0xE5, 0x8F, 0x91, 0xE7, 0x94, 0x9F, 0xE6, 0x9C, 0xAA,
     0xE7, 0x9F, 0xA5, 0xE5, 0xBC, 0x82, 0xE5, 0xB8, 0xB8]"

definition msg_command_unavailable :: string  \<comment> \<open>command operations are not possible now\<close>
  where "msg_command_unavailable = utf8
    [0xE6, 0x95, 0xB0, 0xE6, 0x8D, 0xAE, 0xE5, 0xBA, 0x93, 0xE5, 0x91, 0xBD, 0xE4, 0xBB, 0xA4,
     0xE6, 0x93, 0x8D, 0xE4, 0xBD, 0x9C, 0xE6, 0x9A, 0x82, 0xE4, 0xB8, 0x8D, 0xE5, 0x8F, 0xAF,
     0xE7, 0x94, 0xA8]"

definition msg_provision_port_threw :: string  \<comment> \<open>the provisioning port threw\<close>
  where "msg_provision_port_threw = utf8
    [0xE6, 0x95, 0xB0, 0xE6, 0x8D, 0xAE, 0xE5, 0xBA, 0x93, 0xE5, 0xBB, 0xBA, 0xE6, 0xA1, 0xA3,
     0xE7, 0xAB, 0xAF, 0xE5, 0x8F, 0xA3, 0xE5, 0xBC, 0x82, 0xE5, 0xB8, 0xB8]"

definition msg_provision_port_threw_unknown :: string  \<comment> \<open>the provisioning port threw an unknown exception\<close>
  where "msg_provision_port_threw_unknown = utf8
    [0xE6, 0x95, 0xB0, 0xE6, 0x8D, 0xAE, 0xE5, 0xBA, 0x93, 0xE5, 0xBB, 0xBA, 0xE6, 0xA1, 0xA3,
     0xE5, 0x8F, 0x91, 0xE7, 0x94, 0x9F, 0xE6, 0x9C, 0xAA, 0xE7, 0x9F, 0xA5, 0xE5, 0xBC, 0x82,
     0xE5, 0xB8, 0xB8]"

definition msg_write_port_threw :: string  \<comment> \<open>the write port threw\<close>
  where "msg_write_port_threw = utf8
    [0xE6, 0x95, 0xB0, 0xE6, 0x8D, 0xAE, 0xE5, 0xBA, 0x93, 0xE5, 0x86, 0x99, 0xE5, 0x85, 0xA5,
     0xE7, 0xAB, 0xAF, 0xE5, 0x8F, 0xA3, 0xE5, 0xBC, 0x82, 0xE5, 0xB8, 0xB8]"

definition msg_write_port_threw_unknown :: string  \<comment> \<open>the write port threw an unknown exception\<close>
  where "msg_write_port_threw_unknown = utf8
    [0xE6, 0x95, 0xB0, 0xE6, 0x8D, 0xAE, 0xE5, 0xBA, 0x93, 0xE5, 0x86, 0x99, 0xE5, 0x85, 0xA5,
     0xE5, 0x8F, 0x91, 0xE7, 0x94, 0x9F, 0xE6, 0x9C, 0xAA, 0xE7, 0x9F, 0xA5, 0xE5, 0xBC, 0x82,
     0xE5, 0xB8, 0xB8]"

definition msg_worker_threw :: string  \<comment> \<open>the worker thread failed\<close>
  where "msg_worker_threw = utf8
    [0x50, 0x6F, 0x73, 0x74, 0x67, 0x72, 0x65, 0x53, 0x51, 0x4C, 0x20, 0xE5, 0xB7, 0xA5, 0xE4,
     0xBD, 0x9C, 0xE7, 0xBA, 0xBF, 0xE7, 0xA8, 0x8B, 0xE7, 0xAB, 0xAF, 0xE5, 0x8F, 0xA3, 0xE5,
     0xBC, 0x82, 0xE5, 0xB8, 0xB8]"

definition msg_worker_exit :: string  \<comment> \<open>the worker thread ends on an exception\<close>
  where "msg_worker_exit = utf8
    [0x50, 0x6F, 0x73, 0x74, 0x67, 0x72, 0x65, 0x53, 0x51, 0x4C, 0x20, 0xE5, 0xB7, 0xA5, 0xE4,
     0xBD, 0x9C, 0xE7, 0xBA, 0xBF, 0xE7, 0xA8, 0x8B, 0xE5, 0xBC, 0x82, 0xE5, 0xB8, 0xB8, 0xE9,
     0x80, 0x80, 0xE5, 0x87, 0xBA]"

definition msg_worker_threw_unknown :: string  \<comment> \<open>the worker thread failed for an unknown reason\<close>
  where "msg_worker_threw_unknown = utf8
    [0x50, 0x6F, 0x73, 0x74, 0x67, 0x72, 0x65, 0x53, 0x51, 0x4C, 0x20, 0xE5, 0xB7, 0xA5, 0xE4,
     0xBD, 0x9C, 0xE7, 0xBA, 0xBF, 0xE7, 0xA8, 0x8B, 0xE5, 0x8F, 0x91, 0xE7, 0x94, 0x9F, 0xE6,
     0x9C, 0xAA, 0xE7, 0x9F, 0xA5, 0xE5, 0xBC, 0x82, 0xE5, 0xB8, 0xB8]"

definition msg_worker_exit_unknown :: string  \<comment> \<open>the worker thread ends on an unknown exception\<close>
  where "msg_worker_exit_unknown = utf8
    [0x50, 0x6F, 0x73, 0x74, 0x67, 0x72, 0x65, 0x53, 0x51, 0x4C, 0x20, 0xE5, 0xB7, 0xA5, 0xE4,
     0xBD, 0x9C, 0xE7, 0xBA, 0xBF, 0xE7, 0xA8, 0x8B, 0xE5, 0x8F, 0x91, 0xE7, 0x94, 0x9F, 0xE6,
     0x9C, 0xAA, 0xE7, 0x9F, 0xA5, 0xE5, 0xBC, 0x82, 0xE5, 0xB8, 0xB8, 0xE5, 0xB9, 0xB6, 0xE9,
     0x80, 0x80, 0xE5, 0x87, 0xBA]"

definition msg_result_threw :: string  \<comment> \<open>the result callback threw\<close>
  where "msg_result_threw = utf8
    [0xE6, 0x95, 0xB0, 0xE6, 0x8D, 0xAE, 0xE5, 0xBA, 0x93, 0xE7, 0xBB, 0x93, 0xE6, 0x9E, 0x9C,
     0xE5, 0x9B, 0x9E, 0xE8, 0xB0, 0x83, 0xE5, 0xBC, 0x82, 0xE5, 0xB8, 0xB8]"

definition msg_result_threw_unknown :: string  \<comment> \<open>the result callback threw an unknown exception\<close>
  where "msg_result_threw_unknown = utf8
    [0xE6, 0x95, 0xB0, 0xE6, 0x8D, 0xAE, 0xE5, 0xBA, 0x93, 0xE7, 0xBB, 0x93, 0xE6, 0x9E, 0x9C,
     0xE5, 0x9B, 0x9E, 0xE8, 0xB0, 0x83, 0xE5, 0x8F, 0x91, 0xE7, 0x94, 0x9F, 0xE6, 0x9C, 0xAA,
     0xE7, 0x9F, 0xA5, 0xE5, 0xBC, 0x82, 0xE5, 0xB8, 0xB8]"

definition msg_command_result_threw :: string  \<comment> \<open>the command result callback threw\<close>
  where "msg_command_result_threw = utf8
    [0xE6, 0x95, 0xB0, 0xE6, 0x8D, 0xAE, 0xE5, 0xBA, 0x93, 0xE5, 0x91, 0xBD, 0xE4, 0xBB, 0xA4,
     0xE7, 0xBB, 0x93, 0xE6, 0x9E, 0x9C, 0xE5, 0x9B, 0x9E, 0xE8, 0xB0, 0x83, 0xE5, 0xBC, 0x82,
     0xE5, 0xB8, 0xB8]"

definition msg_command_result_threw_unknown :: string  \<comment> \<open>the command result callback threw an unknown exception\<close>
  where "msg_command_result_threw_unknown = utf8
    [0xE6, 0x95, 0xB0, 0xE6, 0x8D, 0xAE, 0xE5, 0xBA, 0x93, 0xE5, 0x91, 0xBD, 0xE4, 0xBB, 0xA4,
     0xE7, 0xBB, 0x93, 0xE6, 0x9E, 0x9C, 0xE5, 0x9B, 0x9E, 0xE8, 0xB0, 0x83, 0xE5, 0x8F, 0x91,
     0xE7, 0x94, 0x9F, 0xE6, 0x9C, 0xAA, 0xE7, 0x9F, 0xA5, 0xE5, 0xBC, 0x82, 0xE5, 0xB8, 0xB8]"

definition msg_cfg_colon :: string  \<comment> \<open>a colon\<close>
  where "msg_cfg_colon = utf8
    [0xEF, 0xBC, 0x9A]"

definition msg_cfg_missing :: string  \<comment> \<open>a mandatory field is missing\<close>
  where "msg_cfg_missing = utf8
    [0xE7, 0xBC, 0xBA, 0xE5, 0xB0, 0x91, 0xE5, 0xBF, 0x85, 0xE5, 0xA1, 0xAB, 0xE5, 0xAD, 0x97,
     0xE6, 0xAE, 0xB5]"

definition msg_cfg_object :: string  \<comment> \<open>must be an object\<close>
  where "msg_cfg_object = utf8
    [0xE5, 0xBF, 0x85, 0xE9, 0xA1, 0xBB, 0xE6, 0x98, 0xAF, 0xE5, 0xAF, 0xB9, 0xE8, 0xB1, 0xA1]"

definition msg_cfg_unknown :: string  \<comment> \<open>unknown field\<close>
  where "msg_cfg_unknown = utf8
    [0xE6, 0x9C, 0xAA, 0xE7, 0x9F, 0xA5, 0xE5, 0xAD, 0x97, 0xE6, 0xAE, 0xB5]"

definition msg_cfg_string :: string  \<comment> \<open>must be a string\<close>
  where "msg_cfg_string = utf8
    [0xE5, 0xBF, 0x85, 0xE9, 0xA1, 0xBB, 0xE6, 0x98, 0xAF, 0xE5, 0xAD, 0x97, 0xE7, 0xAC, 0xA6,
     0xE4, 0xB8, 0xB2]"

definition msg_cfg_integer :: string  \<comment> \<open>must be an integer\<close>
  where "msg_cfg_integer = utf8
    [0xE5, 0xBF, 0x85, 0xE9, 0xA1, 0xBB, 0xE6, 0x98, 0xAF, 0xE6, 0x95, 0xB4, 0xE6, 0x95, 0xB0]"

definition msg_cfg_range :: string  \<comment> \<open>the number is out of range\<close>
  where "msg_cfg_range = utf8
    [0xE6, 0x95, 0xB0, 0xE5, 0x80, 0xBC, 0xE8, 0xB6, 0x85, 0xE5, 0x87, 0xBA, 0xE5, 0x85, 0x81,
     0xE8, 0xAE, 0xB8, 0xE8, 0x8C, 0x83, 0xE5, 0x9B, 0xB4]"

definition msg_cfg_root :: string  \<comment> \<open>the configuration\<close>
  where "msg_cfg_root = utf8
    [0xE9, 0x85, 0x8D, 0xE7, 0xBD, 0xAE]"

definition msg_cfg_root_object :: string  \<comment> \<open>the top level must be an object\<close>
  where "msg_cfg_root_object = utf8
    [0xE9, 0xA1, 0xB6, 0xE5, 0xB1, 0x82, 0xE5, 0xBF, 0x85, 0xE9, 0xA1, 0xBB, 0xE6, 0x98, 0xAF,
     0xE5, 0xAF, 0xB9, 0xE8, 0xB1, 0xA1]"

definition msg_cfg_empty :: string  \<comment> \<open>must not be empty\<close>
  where "msg_cfg_empty = utf8
    [0xE4, 0xB8, 0x8D, 0xE8, 0x83, 0xBD, 0xE4, 0xB8, 0xBA, 0xE7, 0xA9, 0xBA]"

definition msg_cfg_password_without_user :: string  \<comment> \<open>the password must be empty if the user name is\<close>
  where "msg_cfg_password_without_user = utf8
    [0xE7, 0x94, 0xA8, 0xE6, 0x88, 0xB7, 0xE5, 0x90, 0x8D, 0xE4, 0xB8, 0xBA, 0xE7, 0xA9, 0xBA,
     0xE6, 0x97, 0xB6, 0xE5, 0xAF, 0x86, 0xE7, 0xA0, 0x81, 0xE4, 0xB9, 0x9F, 0xE5, 0xBF, 0x85,
     0xE9, 0xA1, 0xBB, 0xE4, 0xB8, 0xBA, 0xE7, 0xA9, 0xBA]"

definition msg_cfg_delay_order :: string  \<comment> \<open>must not exceed mqtt.reconnect_delay_max_seconds\<close>
  where "msg_cfg_delay_order = utf8
    [0xE4, 0xB8, 0x8D, 0xE5, 0xBE, 0x97, 0xE5, 0xA4, 0xA7, 0xE4, 0xBA, 0x8E, 0x20, 0x6D, 0x71,
     0x74, 0x74, 0x2E, 0x72, 0x65, 0x63, 0x6F, 0x6E, 0x6E, 0x65, 0x63, 0x74, 0x5F, 0x64, 0x65,
     0x6C, 0x61, 0x79, 0x5F, 0x6D, 0x61, 0x78, 0x5F, 0x73, 0x65, 0x63, 0x6F, 0x6E, 0x64, 0x73]"

definition msg_cfg_namespace :: string  \<comment> \<open>must be one non-empty legal topic segment\<close>
  where "msg_cfg_namespace = utf8
    [0xE5, 0xBF, 0x85, 0xE9, 0xA1, 0xBB, 0xE6, 0x98, 0xAF, 0xE5, 0x8D, 0x95, 0xE4, 0xB8, 0xAA,
     0xE9, 0x9D, 0x9E, 0xE7, 0xA9, 0xBA, 0xE5, 0x90, 0x88, 0xE6, 0xB3, 0x95, 0x20, 0x74, 0x6F,
     0x70, 0x69, 0x63, 0x20, 0xE6, 0xAE, 0xB5]"

definition msg_cfg_offline :: string  \<comment> \<open>must be greater than mqtt.keepalive_seconds\<close>
  where "msg_cfg_offline = utf8
    [0xE5, 0xBF, 0x85, 0xE9, 0xA1, 0xBB, 0xE4, 0xB8, 0xA5, 0xE6, 0xA0, 0xBC, 0xE5, 0xA4, 0xA7,
     0xE4, 0xBA, 0x8E, 0x20, 0x6D, 0x71, 0x74, 0x74, 0x2E, 0x6B, 0x65, 0x65, 0x70, 0x61, 0x6C,
     0x69, 0x76, 0x65, 0x5F, 0x73, 0x65, 0x63, 0x6F, 0x6E, 0x64, 0x73]"

definition msg_cfg_level :: string  \<comment> \<open>only debug, info, warn or error\<close>
  where "msg_cfg_level = utf8
    [0xE5, 0x8F, 0xAA, 0xE6, 0x8E, 0xA5, 0xE5, 0x8F, 0x97, 0x20, 0x64, 0x65, 0x62, 0x75, 0x67,
     0xE3, 0x80, 0x81, 0x69, 0x6E, 0x66, 0x6F, 0xE3, 0x80, 0x81, 0x77, 0x61, 0x72, 0x6E, 0x20,
     0xE6, 0x88, 0x96, 0x20, 0x65, 0x72, 0x72, 0x6F, 0x72]"

definition msg_cfg_array :: string  \<comment> \<open>must be an array\<close>
  where "msg_cfg_array = utf8
    [0xE5, 0xBF, 0x85, 0xE9, 0xA1, 0xBB, 0xE6, 0x98, 0xAF, 0xE6, 0x95, 0xB0, 0xE7, 0xBB, 0x84]"

definition msg_cfg_source_id :: string  \<comment> \<open>must match [A-Za-z0-9._-]+ with at most 64 characters\<close>
  where "msg_cfg_source_id = utf8
    [0xE5, 0xBF, 0x85, 0xE9, 0xA1, 0xBB, 0xE5, 0x8C, 0xB9, 0xE9, 0x85, 0x8D, 0x5B, 0x41, 0x2D,
     0x5A, 0x61, 0x2D, 0x7A, 0x30, 0x2D, 0x39, 0x2E, 0x5F, 0x2D, 0x5D, 0x2B, 0xE4, 0xB8, 0x94,
     0xE9, 0x95, 0xBF, 0xE5, 0xBA, 0xA6, 0xE4, 0xB8, 0x8D, 0xE8, 0xB6, 0x85, 0xE8, 0xBF, 0x87,
     0x36, 0x34]"

definition msg_cfg_source_dup :: string  \<comment> \<open>source_id must not be repeated\<close>
  where "msg_cfg_source_dup = utf8
    [0x73, 0x6F, 0x75, 0x72, 0x63, 0x65, 0x5F, 0x69, 0x64, 0xE4, 0xB8, 0x8D, 0xE5, 0xBE, 0x97,
     0xE9, 0x87, 0x8D, 0xE5, 0xA4, 0x8D]"

definition msg_cfg_source_kind :: string  \<comment> \<open>only host_app or control_center\<close>
  where "msg_cfg_source_kind = utf8
    [0xE5, 0x8F, 0xAA, 0xE6, 0x8E, 0xA5, 0xE5, 0x8F, 0x97, 0x68, 0x6F, 0x73, 0x74, 0x5F, 0x61,
     0x70, 0x70, 0xE6, 0x88, 0x96, 0x63, 0x6F, 0x6E, 0x74, 0x72, 0x6F, 0x6C, 0x5F, 0x63, 0x65,
     0x6E, 0x74, 0x65, 0x72]"

definition msg_cfg_file :: string  \<comment> \<open>the configuration file\<close>
  where "msg_cfg_file = utf8
    [0xE9, 0x85, 0x8D, 0xE7, 0xBD, 0xAE, 0xE6, 0x96, 0x87, 0xE4, 0xBB, 0xB6]"

definition msg_cfg_open :: string  \<comment> \<open>cannot be opened\<close>
  where "msg_cfg_open = utf8
    [0xE6, 0x97, 0xA0, 0xE6, 0xB3, 0x95, 0xE6, 0x89, 0x93, 0xE5, 0xBC, 0x80]"

definition msg_cfg_json :: string  \<comment> \<open>malformed JSON\<close>
  where "msg_cfg_json = utf8
    [0x4A, 0x53, 0x4F, 0x4E, 0x20, 0xE6, 0xA0, 0xBC, 0xE5, 0xBC, 0x8F, 0xE9, 0x94, 0x99, 0xE8,
     0xAF, 0xAF]"

definition msg_cfg_read :: string  \<comment> \<open>reading or parsing failed\<close>
  where "msg_cfg_read = utf8
    [0xE8, 0xAF, 0xBB, 0xE5, 0x8F, 0x96, 0xE6, 0x88, 0x96, 0xE8, 0xA7, 0xA3, 0xE6, 0x9E, 0x90,
     0xE5, 0xA4, 0xB1, 0xE8, 0xB4, 0xA5]"

definition msg_mig_filename :: string  \<comment> \<open>malformed name of a migration file\<close>
  where "msg_mig_filename = utf8
    [0xE8, 0xBF, 0x81, 0xE7, 0xA7, 0xBB, 0x20, 0x53, 0x51, 0x4C, 0x20, 0xE6, 0x96, 0x87, 0xE4,
     0xBB, 0xB6, 0xE5, 0x90, 0x8D, 0xE6, 0xA0, 0xBC, 0xE5, 0xBC, 0x8F, 0xE9, 0x9D, 0x9E, 0xE6,
     0xB3, 0x95, 0xEF, 0xBC, 0x9A]"

definition msg_mig_zero :: string  \<comment> \<open>the version must be positive\<close>
  where "msg_mig_zero = utf8
    [0xE8, 0xBF, 0x81, 0xE7, 0xA7, 0xBB, 0xE7, 0x89, 0x88, 0xE6, 0x9C, 0xAC, 0xE5, 0xBF, 0x85,
     0xE9, 0xA1, 0xBB, 0xE5, 0xA4, 0xA7, 0xE4, 0xBA, 0x8E, 0xE9, 0x9B, 0xB6, 0xEF, 0xBC, 0x9A]"

definition msg_mig_name :: string  \<comment> \<open>the name must not be empty\<close>
  where "msg_mig_name = utf8
    [0xE8, 0xBF, 0x81, 0xE7, 0xA7, 0xBB, 0xE5, 0x90, 0x8D, 0xE7, 0xA7, 0xB0, 0xE4, 0xB8, 0x8D,
     0xE8, 0x83, 0xBD, 0xE4, 0xB8, 0xBA, 0xE7, 0xA9, 0xBA, 0xEF, 0xBC, 0x9A]"

definition msg_mig_regular :: string  \<comment> \<open>not a regular file\<close>
  where "msg_mig_regular = utf8
    [0xE8, 0xBF, 0x81, 0xE7, 0xA7, 0xBB, 0x20, 0x53, 0x51, 0x4C, 0x20, 0xE8, 0xB7, 0xAF, 0xE5,
     0xBE, 0x84, 0xE4, 0xB8, 0x8D, 0xE6, 0x98, 0xAF, 0xE6, 0x99, 0xAE, 0xE9, 0x80, 0x9A, 0xE6,
     0x96, 0x87, 0xE4, 0xBB, 0xB6, 0xEF, 0xBC, 0x9A]"

definition msg_mig_directory :: string  \<comment> \<open>the migration directory does not exist or is not a directory\<close>
  where "msg_mig_directory = utf8
    [0xE8, 0xBF, 0x81, 0xE7, 0xA7, 0xBB, 0xE7, 0x9B, 0xAE, 0xE5, 0xBD, 0x95, 0xE4, 0xB8, 0x8D,
     0xE5, 0xAD, 0x98, 0xE5, 0x9C, 0xA8, 0xE6, 0x88, 0x96, 0xE4, 0xB8, 0x8D, 0xE6, 0x98, 0xAF,
     0xE7, 0x9B, 0xAE, 0xE5, 0xBD, 0x95, 0xEF, 0xBC, 0x9A]"

definition msg_mig_none :: string  \<comment> \<open>migration 001 is missing\<close>
  where "msg_mig_none = utf8
    [0xE8, 0xBF, 0x81, 0xE7, 0xA7, 0xBB, 0xE7, 0x9B, 0xAE, 0xE5, 0xBD, 0x95, 0xE4, 0xB8, 0xAD,
     0xE7, 0xBC, 0xBA, 0xE5, 0xB0, 0x91, 0x20, 0x30, 0x30, 0x31, 0x20, 0xE8, 0xBF, 0x81, 0xE7,
     0xA7, 0xBB, 0xE6, 0x96, 0x87, 0xE4, 0xBB, 0xB6]"

definition msg_mig_duplicate :: string  \<comment> \<open>a version occurs twice\<close>
  where "msg_mig_duplicate = utf8
    [0xE8, 0xBF, 0x81, 0xE7, 0xA7, 0xBB, 0xE7, 0x89, 0x88, 0xE6, 0x9C, 0xAC, 0xE9, 0x87, 0x8D,
     0xE5, 0xA4, 0x8D, 0xEF, 0xBC, 0x9A]"

definition msg_mig_gap :: string  \<comment> \<open>versions are not consecutive, expected\<close>
  where "msg_mig_gap = utf8
    [0xE8, 0xBF, 0x81, 0xE7, 0xA7, 0xBB, 0xE7, 0x89, 0x88, 0xE6, 0x9C, 0xAC, 0xE4, 0xB8, 0x8D,
     0xE8, 0xBF, 0x9E, 0xE7, 0xBB, 0xAD, 0xEF, 0xBC, 0x8C, 0xE6, 0x9C, 0x9F, 0xE6, 0x9C, 0x9B,
     0x20]"

definition msg_mig_actual :: string  \<comment> \<open>actual\<close>
  where "msg_mig_actual = utf8
    [0xEF, 0xBC, 0x8C, 0xE5, 0xAE, 0x9E, 0xE9, 0x99, 0x85, 0x20]"

definition msg_mig_read :: string  \<comment> \<open>the migration directory cannot be read\<close>
  where "msg_mig_read = utf8
    [0xE8, 0xAF, 0xBB, 0xE5, 0x8F, 0x96, 0xE8, 0xBF, 0x81, 0xE7, 0xA7, 0xBB, 0xE7, 0x9B, 0xAE,
     0xE5, 0xBD, 0x95, 0xE5, 0xA4, 0xB1, 0xE8, 0xB4, 0xA5, 0xEF, 0xBC, 0x9A]"

definition msg_plan_directory :: string  \<comment> \<open>the directory\<close>
  where "msg_plan_directory = utf8
    [0xE7, 0x9B, 0xAE, 0xE5, 0xBD, 0x95]"

definition msg_plan_database :: string  \<comment> \<open>the database\<close>
  where "msg_plan_database = utf8
    [0xE6, 0x95, 0xB0, 0xE6, 0x8D, 0xAE, 0xE5, 0xBA, 0x93]"

definition msg_plan_gap :: string  \<comment> \<open>versions are not consecutive, expected\<close>
  where "msg_plan_gap = utf8
    [0xE8, 0xBF, 0x81, 0xE7, 0xA7, 0xBB, 0xE7, 0x89, 0x88, 0xE6, 0x9C, 0xAC, 0xE4, 0xB8, 0x8D,
     0xE8, 0xBF, 0x9E, 0xE7, 0xBB, 0xAD, 0xEF, 0xBC, 0x8C, 0xE6, 0x9C, 0x9F, 0xE6, 0x9C, 0x9B,
     0x20]"

definition msg_plan_actual :: string  \<comment> \<open>actual\<close>
  where "msg_plan_actual = utf8
    [0xEF, 0xBC, 0x8C, 0xE5, 0xAE, 0x9E, 0xE9, 0x99, 0x85, 0x20]"

definition msg_plan_migration :: string  \<comment> \<open>migration\<close>
  where "msg_plan_migration = utf8
    [0xE8, 0xBF, 0x81, 0xE7, 0xA7, 0xBB, 0x20]"

definition msg_plan_mismatch :: string  \<comment> \<open>is named differently in the directory and in the database\<close>
  where "msg_plan_mismatch = utf8
    [0x20, 0xE7, 0x9A, 0x84, 0xE7, 0x9B, 0xAE, 0xE5, 0xBD, 0x95, 0xE5, 0x90, 0x8D, 0xE7, 0xA7,
     0xB0, 0xE4, 0xB8, 0x8E, 0xE6, 0x95, 0xB0, 0xE6, 0x8D, 0xAE, 0xE5, 0xBA, 0x93, 0xE8, 0xAE,
     0xB0, 0xE5, 0xBD, 0x95, 0xE4, 0xB8, 0x8D, 0xE4, 0xB8, 0x80, 0xE8, 0x87, 0xB4]"

definition msg_plan_unknown :: string  \<comment> \<open>the database holds a version the program does not know\<close>
  where "msg_plan_unknown = utf8
    [0xE6, 0x95, 0xB0, 0xE6, 0x8D, 0xAE, 0xE5, 0xBA, 0x93, 0xE5, 0x8C, 0x85, 0xE5, 0x90, 0xAB,
     0xE7, 0xA8, 0x8B, 0xE5, 0xBA, 0x8F, 0xE6, 0x9C, 0xAA, 0xE7, 0x9F, 0xA5, 0xE7, 0x9A, 0x84,
     0xE8, 0xBF, 0x81, 0xE7, 0xA7, 0xBB, 0xE7, 0x89, 0x88, 0xE6, 0x9C, 0xAC, 0xEF, 0xBC, 0x9A]"

definition msg_plan_pending :: string  \<comment> \<open>there is a pending migration\<close>
  where "msg_plan_pending = utf8
    [0xE5, 0xAD, 0x98, 0xE5, 0x9C, 0xA8, 0xE5, 0xBE, 0x85, 0xE6, 0x89, 0xA7, 0xE8, 0xA1, 0x8C,
     0xE8, 0xBF, 0x81, 0xE7, 0xA7, 0xBB, 0x20]"

definition msg_plan_run :: string  \<comment> \<open>run the migration mode\<close>
  where "msg_plan_run = utf8
    [0xEF, 0xBC, 0x8C, 0xE8, 0xAF, 0xB7, 0xE6, 0x98, 0xBE, 0xE5, 0xBC, 0x8F, 0xE8, 0xBF, 0x90,
     0xE8, 0xA1, 0x8C, 0xE8, 0xBF, 0x81, 0xE7, 0xA7, 0xBB, 0xE6, 0xA8, 0xA1, 0xE5, 0xBC, 0x8F]"

definition msg_cli_path :: string  \<comment> \<open>lacks a non-empty path\<close>
  where "msg_cli_path = utf8
    [0x20, 0xE7, 0xBC, 0xBA, 0xE5, 0xB0, 0x91, 0xE9, 0x9D, 0x9E, 0xE7, 0xA9, 0xBA, 0xE8, 0xB7,
     0xAF, 0xE5, 0xBE, 0x84, 0xE5, 0x80, 0xBC]"

definition msg_cli_dup_config :: string  \<comment> \<open>--config is repeated\<close>
  where "msg_cli_dup_config = utf8
    [0xE9, 0x87, 0x8D, 0xE5, 0xA4, 0x8D, 0xE5, 0x8F, 0x82, 0xE6, 0x95, 0xB0, 0xEF, 0xBC, 0x9A,
     0x2D, 0x2D, 0x63, 0x6F, 0x6E, 0x66, 0x69, 0x67]"

definition msg_cli_dup_migrations :: string  \<comment> \<open>--migrations is repeated\<close>
  where "msg_cli_dup_migrations = utf8
    [0xE9, 0x87, 0x8D, 0xE5, 0xA4, 0x8D, 0xE5, 0x8F, 0x82, 0xE6, 0x95, 0xB0, 0xEF, 0xBC, 0x9A,
     0x2D, 0x2D, 0x6D, 0x69, 0x67, 0x72, 0x61, 0x74, 0x69, 0x6F, 0x6E, 0x73]"

definition msg_cli_dup_migrate_only :: string  \<comment> \<open>--migrate-only is repeated\<close>
  where "msg_cli_dup_migrate_only = utf8
    [0xE9, 0x87, 0x8D, 0xE5, 0xA4, 0x8D, 0xE5, 0x8F, 0x82, 0xE6, 0x95, 0xB0, 0xEF, 0xBC, 0x9A,
     0x2D, 0x2D, 0x6D, 0x69, 0x67, 0x72, 0x61, 0x74, 0x65, 0x2D, 0x6F, 0x6E, 0x6C, 0x79]"

definition msg_cli_dup_help :: string  \<comment> \<open>--help is repeated\<close>
  where "msg_cli_dup_help = utf8
    [0xE9, 0x87, 0x8D, 0xE5, 0xA4, 0x8D, 0xE5, 0x8F, 0x82, 0xE6, 0x95, 0xB0, 0xEF, 0xBC, 0x9A,
     0x2D, 0x2D, 0x68, 0x65, 0x6C, 0x70]"

definition msg_cli_dup_version :: string  \<comment> \<open>--version is repeated\<close>
  where "msg_cli_dup_version = utf8
    [0xE9, 0x87, 0x8D, 0xE5, 0xA4, 0x8D, 0xE5, 0x8F, 0x82, 0xE6, 0x95, 0xB0, 0xEF, 0xBC, 0x9A,
     0x2D, 0x2D, 0x76, 0x65, 0x72, 0x73, 0x69, 0x6F, 0x6E]"

definition msg_cli_unknown :: string  \<comment> \<open>unknown argument\<close>
  where "msg_cli_unknown = utf8
    [0xE6, 0x9C, 0xAA, 0xE7, 0x9F, 0xA5, 0xE5, 0x8F, 0x82, 0xE6, 0x95, 0xB0, 0xEF, 0xBC, 0x9A]"

definition msg_cli_alone :: string  \<comment> \<open>--help and --version stand alone\<close>
  where "msg_cli_alone = utf8
    [0x2D, 0x2D, 0x68, 0x65, 0x6C, 0x70, 0x20, 0xE5, 0x92, 0x8C, 0x20, 0x2D, 0x2D, 0x76, 0x65,
     0x72, 0x73, 0x69, 0x6F, 0x6E, 0x20, 0xE5, 0x8F, 0xAA, 0xE8, 0x83, 0xBD, 0xE5, 0x8D, 0x95,
     0xE7, 0x8B, 0xAC, 0xE4, 0xBD, 0xBF, 0xE7, 0x94, 0xA8]"

definition msg_cli_no_config :: string  \<comment> \<open>--config is mandatory\<close>
  where "msg_cli_no_config = utf8
    [0xE7, 0xBC, 0xBA, 0xE5, 0xB0, 0x91, 0xE5, 0xBF, 0x85, 0xE9, 0x9C, 0x80, 0xE5, 0x8F, 0x82,
     0xE6, 0x95, 0xB0, 0xEF, 0xBC, 0x9A, 0x2D, 0x2D, 0x63, 0x6F, 0x6E, 0x66, 0x69, 0x67]"

definition msg_cli_no_migrations :: string  \<comment> \<open>--migrations is mandatory\<close>
  where "msg_cli_no_migrations = utf8
    [0xE7, 0xBC, 0xBA, 0xE5, 0xB0, 0x91, 0xE5, 0xBF, 0x85, 0xE9, 0x9C, 0x80, 0xE5, 0x8F, 0x82,
     0xE6, 0x95, 0xB0, 0xEF, 0xBC, 0x9A, 0x2D, 0x2D, 0x6D, 0x69, 0x67, 0x72, 0x61, 0x74, 0x69,
     0x6F, 0x6E, 0x73]"

definition msg_run_start_failed :: string  \<comment> \<open>starting the device runtime failed\<close>
  where "msg_run_start_failed = utf8
    [0xE5, 0x90, 0xAF, 0xE5, 0x8A, 0xA8, 0xE8, 0xAE, 0xBE, 0xE5, 0xA4, 0x87, 0xE8, 0xBF, 0x90,
     0xE8, 0xA1, 0x8C, 0xE6, 0x97, 0xB6, 0xE5, 0xA4, 0xB1, 0xE8, 0xB4, 0xA5]"

definition msg_run_start_unknown :: string  \<comment> \<open>unknown exception while starting the device runtime\<close>
  where "msg_run_start_unknown = utf8
    [0xE5, 0x90, 0xAF, 0xE5, 0x8A, 0xA8, 0xE8, 0xAE, 0xBE, 0xE5, 0xA4, 0x87, 0xE8, 0xBF, 0x90,
     0xE8, 0xA1, 0x8C, 0xE6, 0x97, 0xB6, 0xE5, 0x8F, 0x91, 0xE7, 0x94, 0x9F, 0xE6, 0x9C, 0xAA,
     0xE7, 0x9F, 0xA5, 0xE5, 0xBC, 0x82, 0xE5, 0xB8, 0xB8]"

definition msg_run_thread_started :: string  \<comment> \<open>the thread is already running\<close>
  where "msg_run_thread_started = utf8
    [0xE8, 0xBF, 0x90, 0xE8, 0xA1, 0x8C, 0xE6, 0x97, 0xB6, 0xE7, 0xBA, 0xBF, 0xE7, 0xA8, 0x8B,
     0xE5, 0xB7, 0xB2, 0xE7, 0xBB, 0x8F, 0xE5, 0x90, 0xAF, 0xE5, 0x8A, 0xA8]"

definition msg_run_migrated :: string  \<comment> \<open>the migration is complete\<close>
  where "msg_run_migrated = utf8
    [0xE6, 0x95, 0xB0, 0xE6, 0x8D, 0xAE, 0xE5, 0xBA, 0x93, 0xE8, 0xBF, 0x81, 0xE7, 0xA7, 0xBB,
     0xE5, 0xAE, 0x8C, 0xE6, 0x88, 0x90]"

definition msg_run_started :: string  \<comment> \<open>the service has started\<close>
  where "msg_run_started = utf8
    [0xE8, 0xB7, 0xAF, 0xE7, 0x94, 0xB1, 0xE6, 0x9C, 0x8D, 0xE5, 0x8A, 0xA1, 0xE5, 0xB7, 0xB2,
     0xE5, 0x90, 0xAF, 0xE5, 0x8A, 0xA8]"

definition msg_run_mqtt_failure :: string  \<comment> \<open>terminal failure of the MQTT background thread\<close>
  where "msg_run_mqtt_failure = utf8
    [0x4D, 0x51, 0x54, 0x54, 0xE5, 0x90, 0x8E, 0xE5, 0x8F, 0xB0, 0xE8, 0xBF, 0x90, 0xE8, 0xA1,
     0x8C, 0xE5, 0x8F, 0x91, 0xE7, 0x94, 0x9F, 0xE7, 0xBB, 0x88, 0xE6, 0xAD, 0xA2, 0xE6, 0x80,
     0xA7, 0xE5, 0xA4, 0xB1, 0xE8, 0xB4, 0xA5]"

definition msg_run_stopped :: string  \<comment> \<open>the service has stopped\<close>
  where "msg_run_stopped = utf8
    [0xE8, 0xB7, 0xAF, 0xE7, 0x94, 0xB1, 0xE6, 0x9C, 0x8D, 0xE5, 0x8A, 0xA1, 0xE5, 0xB7, 0xB2,
     0xE5, 0x81, 0x9C, 0xE6, 0xAD, 0xA2]"

definition msg_ingress_rejected :: string  \<comment> \<open>the inbound command queue is closed or full\<close>
  where "msg_ingress_rejected = utf8
    [0xE5, 0x91, 0xBD, 0xE4, 0xBB, 0xA4, 0x4D, 0x51, 0x54, 0x54, 0xE5, 0x85, 0xA5, 0xE7, 0xAB,
     0x99, 0xE9, 0x98, 0x9F, 0xE5, 0x88, 0x97, 0xE5, 0xB7, 0xB2, 0xE5, 0x85, 0xB3, 0xE9, 0x97,
     0xAD, 0xE6, 0x88, 0x96, 0xE5, 0xAE, 0xB9, 0xE9, 0x87, 0x8F, 0xE5, 0xB7, 0xB2, 0xE6, 0xBB,
     0xA1]"

definition msg_ingress_full :: string  \<comment> \<open>the device queue is full, rejected messages, count\<close>
  where "msg_ingress_full = utf8
    [0x4D, 0x51, 0x54, 0x54, 0xE8, 0xAE, 0xBE, 0xE5, 0xA4, 0x87, 0xE6, 0xB6, 0x88, 0xE6, 0x81,
     0xAF, 0xE9, 0x98, 0x9F, 0xE5, 0x88, 0x97, 0xE5, 0xB7, 0xB2, 0xE6, 0xBB, 0xA1, 0xEF, 0xBC,
     0x8C, 0xE5, 0xB7, 0xB2, 0xE6, 0x8B, 0x92, 0xE7, 0xBB, 0x9D, 0xE6, 0xB6, 0x88, 0xE6, 0x81,
     0xAF, 0xEF, 0xBC, 0x8C, 0xE6, 0xAC, 0xA1, 0xE6, 0x95, 0xB0, 0x3D]"

definition msg_ingress_bytes :: string  \<comment> \<open>bytes\<close>
  where "msg_ingress_bytes = utf8
    [0xEF, 0xBC, 0x8C, 0xE5, 0xAD, 0x97, 0xE8, 0x8A, 0x82, 0xE6, 0x95, 0xB0, 0x3D]"

definition msg_main_error :: string  \<comment> \<open>error\<close>
  where "msg_main_error = utf8
    [0xE9, 0x94, 0x99, 0xE8, 0xAF, 0xAF, 0xEF, 0xBC, 0x9A]"

definition msg_main_exception :: string  \<comment> \<open>unexpected exception\<close>
  where "msg_main_exception = utf8
    [0xE9, 0x94, 0x99, 0xE8, 0xAF, 0xAF, 0xEF, 0xBC, 0x9A, 0xE8, 0xB7, 0xAF, 0xE7, 0x94, 0xB1,
     0xE6, 0x9C, 0x8D, 0xE5, 0x8A, 0xA1, 0xE5, 0x8F, 0x91, 0xE7, 0x94, 0x9F, 0xE6, 0x9C, 0xAA,
     0xE9, 0xA2, 0x84, 0xE6, 0x9C, 0x9F, 0xE5, 0xBC, 0x82, 0xE5, 0xB8, 0xB8]"

definition msg_main_unknown :: string  \<comment> \<open>unknown exception\<close>
  where "msg_main_unknown = utf8
    [0xE9, 0x94, 0x99, 0xE8, 0xAF, 0xAF, 0xEF, 0xBC, 0x9A, 0xE8, 0xB7, 0xAF, 0xE7, 0x94, 0xB1,
     0xE6, 0x9C, 0x8D, 0xE5, 0x8A, 0xA1, 0xE5, 0x8F, 0x91, 0xE7, 0x94, 0x9F, 0xE6, 0x9C, 0xAA,
     0xE7, 0x9F, 0xA5, 0xE5, 0xBC, 0x82, 0xE5, 0xB8, 0xB8]"

definition msg_cli_usage :: string  \<comment> \<open>usage\<close>
  where "msg_cli_usage = utf8
    [0xE7, 0x94, 0xA8, 0xE6, 0xB3, 0x95, 0xEF, 0xBC, 0x9A]"

definition msg_cli_usage_config :: string  \<comment> \<open>the line of the usage with all options\<close>
  where "msg_cli_usage_config = utf8
    [0x20, 0x20, 0x72, 0x6F, 0x75, 0x74, 0x65, 0x5F, 0x73, 0x65, 0x72, 0x76, 0x69, 0x63, 0x65,
     0x20, 0x2D, 0x2D, 0x63, 0x6F, 0x6E, 0x66, 0x69, 0x67, 0x20, 0x3C, 0xE9, 0x85, 0x8D, 0xE7,
     0xBD, 0xAE, 0xE6, 0x96, 0x87, 0xE4, 0xBB, 0xB6, 0xE8, 0xB7, 0xAF, 0xE5, 0xBE, 0x84, 0x3E,
     0x20, 0x2D, 0x2D, 0x6D, 0x69, 0x67, 0x72, 0x61, 0x74, 0x69, 0x6F, 0x6E, 0x73, 0x20, 0x3C,
     0xE8, 0xBF, 0x81, 0xE7, 0xA7, 0xBB, 0xE7, 0x9B, 0xAE, 0xE5, 0xBD, 0x95, 0x3E, 0x20, 0x5B,
     0x2D, 0x2D, 0x6D, 0x69, 0x67, 0x72, 0x61, 0x74, 0x65, 0x2D, 0x6F, 0x6E, 0x6C, 0x79, 0x5D]"

definition msg_mq_failed :: string  \<comment> \<open>failed, error code\<close>
  where "msg_mq_failed = utf8
    [0xE5, 0xA4, 0xB1, 0xE8, 0xB4, 0xA5, 0xEF, 0xBC, 0x8C, 0xE9, 0x94, 0x99, 0xE8, 0xAF, 0xAF,
     0xE7, 0xA0, 0x81, 0x3D]"

definition msg_mq_reason :: string  \<comment> \<open>reason\<close>
  where "msg_mq_reason = utf8
    [0xEF, 0xBC, 0x8C, 0xE5, 0x8E, 0x9F, 0xE5, 0x9B, 0xA0, 0x3D]"

definition msg_mq_disconnected :: string  \<comment> \<open>the connection was lost and will be restored, error code\<close>
  where "msg_mq_disconnected = utf8
    [0x4D, 0x51, 0x54, 0x54, 0xE8, 0xBF, 0x9E, 0xE6, 0x8E, 0xA5, 0xE4, 0xB8, 0xAD, 0xE6, 0x96,
     0xAD, 0xEF, 0xBC, 0x8C, 0xE5, 0xB0, 0x86, 0xE8, 0x87, 0xAA, 0xE5, 0x8A, 0xA8, 0xE9, 0x87,
     0x8D, 0xE8, 0xBF, 0x9E, 0xEF, 0xBC, 0x8C, 0xE9, 0x94, 0x99, 0xE8, 0xAF, 0xAF, 0xE7, 0xA0,
     0x81, 0x3D]"

definition msg_mq_connected :: string  \<comment> \<open>the connection is restored\<close>
  where "msg_mq_connected = utf8
    [0x4D, 0x51, 0x54, 0x54, 0xE8, 0xBF, 0x9E, 0xE6, 0x8E, 0xA5, 0xE5, 0xB7, 0xB2, 0xE6, 0x81,
     0xA2, 0xE5, 0xA4, 0x8D]"

definition msg_mq_sub_registration :: string  \<comment> \<open>subscribing to registrations\<close>
  where "msg_mq_sub_registration = utf8
    [0xE8, 0xAE, 0xA2, 0xE9, 0x98, 0x85, 0x72, 0x65, 0x67, 0x69, 0x73, 0x74, 0x72, 0x61, 0x74,
     0x69, 0x6F, 0x6E, 0xE6, 0xB6, 0x88, 0xE6, 0x81, 0xAF]"

definition msg_mq_sub_telemetry :: string  \<comment> \<open>subscribing to telemetry\<close>
  where "msg_mq_sub_telemetry = utf8
    [0xE8, 0xAE, 0xA2, 0xE9, 0x98, 0x85, 0x74, 0x65, 0x6C, 0x65, 0x6D, 0x65, 0x74, 0x72, 0x79,
     0xE6, 0xB6, 0x88, 0xE6, 0x81, 0xAF]"

definition msg_mq_sub_config_request :: string  \<comment> \<open>subscribing to configuration requests\<close>
  where "msg_mq_sub_config_request = utf8
    [0xE8, 0xAE, 0xA2, 0xE9, 0x98, 0x85, 0xE9, 0x85, 0x8D, 0xE7, 0xBD, 0xAE, 0xE5, 0x91, 0xBD,
     0xE4, 0xBB, 0xA4, 0xE8, 0xAF, 0xB7, 0xE6, 0xB1, 0x82]"

definition msg_mq_sub_config_ack :: string  \<comment> \<open>subscribing to configuration acknowledgements\<close>
  where "msg_mq_sub_config_ack = utf8
    [0xE8, 0xAE, 0xA2, 0xE9, 0x98, 0x85, 0xE8, 0xAE, 0xBE, 0xE5, 0xA4, 0x87, 0xE9, 0x85, 0x8D,
     0xE7, 0xBD, 0xAE, 0x41, 0x43, 0x4B]"

definition msg_mq_sub_control_request :: string  \<comment> \<open>subscribing to control requests\<close>
  where "msg_mq_sub_control_request = utf8
    [0xE8, 0xAE, 0xA2, 0xE9, 0x98, 0x85, 0xE9, 0xA3, 0x9E, 0xE6, 0x8E, 0xA7, 0xE5, 0x91, 0xBD,
     0xE4, 0xBB, 0xA4, 0xE8, 0xAF, 0xB7, 0xE6, 0xB1, 0x82]"

definition msg_mq_sub_control_ack :: string  \<comment> \<open>subscribing to control acknowledgements\<close>
  where "msg_mq_sub_control_ack = utf8
    [0xE8, 0xAE, 0xA2, 0xE9, 0x98, 0x85, 0xE8, 0xAE, 0xBE, 0xE5, 0xA4, 0x87, 0xE9, 0xA3, 0x9E,
     0xE6, 0x8E, 0xA7, 0x41, 0x43, 0x4B]"

definition msg_mq_subscribed :: string  \<comment> \<open>the subscriptions are restored\<close>
  where "msg_mq_subscribed = utf8
    [0x4D, 0x51, 0x54, 0x54, 0xE4, 0xB8, 0x9A, 0xE5, 0x8A, 0xA1, 0xE8, 0xAE, 0xA2, 0xE9, 0x98,
     0x85, 0xE5, 0xB7, 0xB2, 0xE6, 0x81, 0xA2, 0xE5, 0xA4, 0x8D]"

definition msg_mq_too_large :: string  \<comment> \<open>the payload is too large and was rejected\<close>
  where "msg_mq_too_large = utf8
    [0x4D, 0x51, 0x54, 0x54, 0xE6, 0xB6, 0x88, 0xE6, 0x81, 0xAF, 0x70, 0x61, 0x79, 0x6C, 0x6F,
     0x61, 0x64, 0xE8, 0xB6, 0x85, 0xE8, 0xBF, 0x87, 0xE5, 0xA4, 0xA7, 0xE5, 0xB0, 0x8F, 0xE9,
     0x99, 0x90, 0xE5, 0x88, 0xB6, 0xEF, 0xBC, 0x8C, 0xE5, 0xB7, 0xB2, 0xE6, 0x8B, 0x92, 0xE7,
     0xBB, 0x9D]"

definition msg_mq_handler :: string  \<comment> \<open>exception in the message handler\<close>
  where "msg_mq_handler = utf8
    [0x4D, 0x51, 0x54, 0x54, 0xE4, 0xB8, 0x9A, 0xE5, 0x8A, 0xA1, 0xE6, 0xB6, 0x88, 0xE6, 0x81,
     0xAF, 0xE5, 0xA4, 0x84, 0xE7, 0x90, 0x86, 0xE5, 0x99, 0xA8, 0xE5, 0xBC, 0x82, 0xE5, 0xB8,
     0xB8]"

definition msg_mq_init :: string  \<comment> \<open>initialising the library\<close>
  where "msg_mq_init = utf8
    [0xE5, 0x88, 0x9D, 0xE5, 0xA7, 0x8B, 0xE5, 0x8C, 0x96, 0x4D, 0x51, 0x54, 0x54, 0xE5, 0xBA,
     0x93]"

definition msg_mq_create :: string  \<comment> \<open>creating the client failed\<close>
  where "msg_mq_create = utf8
    [0xE5, 0x88, 0x9B, 0xE5, 0xBB, 0xBA, 0x4D, 0x51, 0x54, 0x54, 0xE5, 0xAE, 0xA2, 0xE6, 0x88,
     0xB7, 0xE7, 0xAB, 0xAF, 0xE5, 0xA4, 0xB1, 0xE8, 0xB4, 0xA5]"

definition msg_mq_credentials :: string  \<comment> \<open>setting the credentials\<close>
  where "msg_mq_credentials = utf8
    [0xE8, 0xAE, 0xBE, 0xE7, 0xBD, 0xAE, 0x4D, 0x51, 0x54, 0x54, 0xE8, 0xAE, 0xA4, 0xE8, 0xAF,
     0x81, 0xE4, 0xBF, 0xA1, 0xE6, 0x81, 0xAF]"

definition msg_mq_reconnect :: string  \<comment> \<open>setting the reconnect parameters\<close>
  where "msg_mq_reconnect = utf8
    [0xE8, 0xAE, 0xBE, 0xE7, 0xBD, 0xAE, 0x4D, 0x51, 0x54, 0x54, 0xE9, 0x87, 0x8D, 0xE8, 0xBF,
     0x9E, 0xE5, 0x8F, 0x82, 0xE6, 0x95, 0xB0]"

definition msg_mq_stop_pending :: string  \<comment> \<open>a callback asked for a stop, call Stop first\<close>
  where "msg_mq_stop_pending = utf8
    [0x4D, 0x51, 0x54, 0x54, 0xE5, 0x9B, 0x9E, 0xE8, 0xB0, 0x83, 0xE5, 0xB7, 0xB2, 0xE8, 0xAF,
     0xB7, 0xE6, 0xB1, 0x82, 0xE5, 0x81, 0x9C, 0xE6, 0xAD, 0xA2, 0xEF, 0xBC, 0x8C, 0xE8, 0xAF,
     0xB7, 0xE5, 0x85, 0x88, 0xE7, 0x94, 0xB1, 0xE5, 0xA4, 0x96, 0xE9, 0x83, 0xA8, 0xE7, 0xBA,
     0xBF, 0xE7, 0xA8, 0x8B, 0xE8, 0xB0, 0x83, 0xE7, 0x94, 0xA8, 0x53, 0x74, 0x6F, 0x70]"

definition msg_mq_connect_async :: string  \<comment> \<open>starting the asynchronous connection\<close>
  where "msg_mq_connect_async = utf8
    [0xE5, 0x90, 0xAF, 0xE5, 0x8A, 0xA8, 0x4D, 0x51, 0x54, 0x54, 0xE5, 0xBC, 0x82, 0xE6, 0xAD,
     0xA5, 0xE8, 0xBF, 0x9E, 0xE6, 0x8E, 0xA5]"

definition msg_mq_retry_thread :: string  \<comment> \<open>starting the retry thread failed\<close>
  where "msg_mq_retry_thread = utf8
    [0xE5, 0x90, 0xAF, 0xE5, 0x8A, 0xA8, 0x4D, 0x51, 0x54, 0x54, 0xE8, 0xBF, 0x9E, 0xE6, 0x8E,
     0xA5, 0xE9, 0x87, 0x8D, 0xE8, 0xAF, 0x95, 0xE7, 0xBA, 0xBF, 0xE7, 0xA8, 0x8B, 0xE5, 0xA4,
     0xB1, 0xE8, 0xB4, 0xA5, 0xEF, 0xBC, 0x9A]"

definition msg_mq_loop_start :: string  \<comment> \<open>starting the network thread\<close>
  where "msg_mq_loop_start = utf8
    [0xE5, 0x90, 0xAF, 0xE5, 0x8A, 0xA8, 0x4D, 0x51, 0x54, 0x54, 0xE7, 0xBD, 0x91, 0xE7, 0xBB,
     0x9C, 0xE7, 0xBA, 0xBF, 0xE7, 0xA8, 0x8B]"

definition msg_mq_disconnect :: string  \<comment> \<open>requesting the disconnection\<close>
  where "msg_mq_disconnect = utf8
    [0xE8, 0xAF, 0xB7, 0xE6, 0xB1, 0x82, 0x4D, 0x51, 0x54, 0x54, 0xE6, 0x96, 0xAD, 0xE5, 0xBC,
     0x80]"

definition msg_mq_loop_stop :: string  \<comment> \<open>stopping the network thread\<close>
  where "msg_mq_loop_stop = utf8
    [0xE5, 0x81, 0x9C, 0xE6, 0xAD, 0xA2, 0x4D, 0x51, 0x54, 0x54, 0xE7, 0xBD, 0x91, 0xE7, 0xBB,
     0x9C, 0xE7, 0xBA, 0xBF, 0xE7, 0xA8, 0x8B]"

definition msg_mq_payload_limit :: string  \<comment> \<open>the payload limit must be positive\<close>
  where "msg_mq_payload_limit = utf8
    [0x4D, 0x51, 0x54, 0x54, 0x20, 0x70, 0x61, 0x79, 0x6C, 0x6F, 0x61, 0x64, 0xE5, 0xA4, 0xA7,
     0xE5, 0xB0, 0x8F, 0xE9, 0x99, 0x90, 0xE5, 0x88, 0xB6, 0xE5, 0xBF, 0x85, 0xE9, 0xA1, 0xBB,
     0xE5, 0xA4, 0xA7, 0xE4, 0xBA, 0x8E, 0xE9, 0x9B, 0xB6]"

definition msg_mq_namespace :: string  \<comment> \<open>the topic namespace must not be empty\<close>
  where "msg_mq_namespace = utf8
    [0x4D, 0x51, 0x54, 0x54, 0x20, 0x74, 0x6F, 0x70, 0x69, 0x63, 0xE5, 0x91, 0xBD, 0xE5, 0x90,
     0x8D, 0xE7, 0xA9, 0xBA, 0xE9, 0x97, 0xB4, 0xE4, 0xB8, 0x8D, 0xE8, 0x83, 0xBD, 0xE4, 0xB8,
     0xBA, 0xE7, 0xA9, 0xBA]"

definition msg_mq_unsub_registration :: string  \<comment> \<open>cancelling the subscription to registrations\<close>
  where "msg_mq_unsub_registration = utf8
    [0xE5, 0x8F, 0x96, 0xE6, 0xB6, 0x88, 0x72, 0x65, 0x67, 0x69, 0x73, 0x74, 0x72, 0x61, 0x74,
     0x69, 0x6F, 0x6E, 0xE8, 0xAE, 0xA2, 0xE9, 0x98, 0x85]"

definition msg_mq_resub_registration :: string  \<comment> \<open>restoring the subscription to registrations\<close>
  where "msg_mq_resub_registration = utf8
    [0xE6, 0x81, 0xA2, 0xE5, 0xA4, 0x8D, 0x72, 0x65, 0x67, 0x69, 0x73, 0x74, 0x72, 0x61, 0x74,
     0x69, 0x6F, 0x6E, 0xE8, 0xAE, 0xA2, 0xE9, 0x98, 0x85]"

definition msg_mq_capacity :: string  \<comment> \<open>the capacity must be positive\<close>
  where "msg_mq_capacity = utf8
    [0x4D, 0x51, 0x54, 0x54, 0xE5, 0x91, 0xBD, 0xE4, 0xBB, 0xA4, 0xE5, 0x8F, 0x91, 0xE5, 0xB8,
     0x83, 0xE5, 0xAE, 0xB9, 0xE9, 0x87, 0x8F, 0xE5, 0xBF, 0x85, 0xE9, 0xA1, 0xBB, 0xE5, 0xA4,
     0xA7, 0xE4, 0xBA, 0x8E, 0xE9, 0x9B, 0xB6]"

definition msg_mq_topic :: string  \<comment> \<open>the topic must not be empty\<close>
  where "msg_mq_topic = utf8
    [0x4D, 0x51, 0x54, 0x54, 0xE5, 0x8F, 0x91, 0xE5, 0xB8, 0x83, 0x74, 0x6F, 0x70, 0x69, 0x63,
     0xE4, 0xB8, 0x8D, 0xE8, 0x83, 0xBD, 0xE4, 0xB8, 0xBA, 0xE7, 0xA9, 0xBA]"

definition msg_mq_payload :: string  \<comment> \<open>the payload is too large\<close>
  where "msg_mq_payload = utf8
    [0x4D, 0x51, 0x54, 0x54, 0xE5, 0x8F, 0x91, 0xE5, 0xB8, 0x83, 0x70, 0x61, 0x79, 0x6C, 0x6F,
     0x61, 0x64, 0xE8, 0xBF, 0x87, 0xE5, 0xA4, 0xA7]"

definition msg_mq_no_handler :: string  \<comment> \<open>no completion handler is configured\<close>
  where "msg_mq_no_handler = utf8
    [0x4D, 0x51, 0x54, 0x54, 0xE5, 0x91, 0xBD, 0xE4, 0xBB, 0xA4, 0xE5, 0x8F, 0x91, 0xE5, 0xB8,
     0x83, 0xE5, 0xA4, 0x84, 0xE7, 0x90, 0x86, 0xE5, 0x99, 0xA8, 0xE6, 0x9C, 0xAA, 0xE9, 0x85,
     0x8D, 0xE7, 0xBD, 0xAE]"

definition msg_mq_token :: string  \<comment> \<open>the token is in flight\<close>
  where "msg_mq_token = utf8
    [0x4D, 0x51, 0x54, 0x54, 0xE5, 0x91, 0xBD, 0xE4, 0xBB, 0xA4, 0xE5, 0x8F, 0x91, 0xE5, 0xB8,
     0x83, 0x74, 0x6F, 0x6B, 0x65, 0x6E, 0xE5, 0xB7, 0xB2, 0xE5, 0x9C, 0xA8, 0xE9, 0x80, 0x94]"

definition msg_mq_full :: string  \<comment> \<open>the capacity is exhausted\<close>
  where "msg_mq_full = utf8
    [0x4D, 0x51, 0x54, 0x54, 0xE5, 0x91, 0xBD, 0xE4, 0xBB, 0xA4, 0xE5, 0x8F, 0x91, 0xE5, 0xB8,
     0x83, 0xE5, 0xAE, 0xB9, 0xE9, 0x87, 0x8F, 0xE5, 0xB7, 0xB2, 0xE6, 0xBB, 0xA1]"

definition msg_mq_publish_command :: string  \<comment> \<open>publishing a command\<close>
  where "msg_mq_publish_command = utf8
    [0xE5, 0x8F, 0x91, 0xE5, 0xB8, 0x83, 0xE8, 0xAE, 0xBE, 0xE5, 0xA4, 0x87, 0xE5, 0x91, 0xBD,
     0xE4, 0xBB, 0xA4]"

definition msg_mq_publish_ack :: string  \<comment> \<open>publishing an acknowledgement\<close>
  where "msg_mq_publish_ack = utf8
    [0xE5, 0x8F, 0x91, 0xE5, 0xB8, 0x83, 0xE6, 0x9D, 0xA5, 0xE6, 0xBA, 0x90, 0xE5, 0x91, 0xBD,
     0xE4, 0xBB, 0xA4, 0x41, 0x43, 0x4B]"

definition msg_mq_publish_state :: string  \<comment> \<open>publishing a state event\<close>
  where "msg_mq_publish_state = utf8
    [0xE5, 0x8F, 0x91, 0xE5, 0xB8, 0x83, 0xE8, 0xAE, 0xBE, 0xE5, 0xA4, 0x87, 0xE5, 0xBD, 0x93,
     0xE5, 0x89, 0x8D, 0xE7, 0x8A, 0xB6, 0xE6, 0x80, 0x81, 0xE5, 0xBF, 0xAB, 0xE7, 0x85, 0xA7]"

definition msg_mq_subscribe_failed :: string  \<comment> \<open>subscribing failed\<close>
  where "msg_mq_subscribe_failed = utf8
    [0x4D, 0x51, 0x54, 0x54, 0xE4, 0xB8, 0x9A, 0xE5, 0x8A, 0xA1, 0xE8, 0xAE, 0xA2, 0xE9, 0x98,
     0x85, 0xE5, 0xA4, 0xB1, 0xE8, 0xB4, 0xA5, 0xEF, 0xBC, 0x9A]"

definition msg_mq_connection_lost :: string  \<comment> \<open>the connection was lost\<close>
  where "msg_mq_connection_lost = utf8
    [0x4D, 0x51, 0x54, 0x54, 0xE8, 0xBF, 0x9E, 0xE6, 0x8E, 0xA5, 0xE5, 0xB7, 0xB2, 0xE6, 0x96,
     0xAD, 0xE5, 0xBC, 0x80]"

definition msg_mq_unknown_mid :: string  \<comment> \<open>completion of an unknown or repeated publication\<close>
  where "msg_mq_unknown_mid = utf8
    [0x4D, 0x51, 0x54, 0x54, 0xE6, 0x94, 0xB6, 0xE5, 0x88, 0xB0, 0xE6, 0x9C, 0xAA, 0xE7, 0x9F,
     0xA5, 0xE6, 0x88, 0x96, 0xE9, 0x87, 0x8D, 0xE5, 0xA4, 0x8D, 0xE7, 0x9A, 0x84, 0xE5, 0x8F,
     0x91, 0xE5, 0xB8, 0x83, 0xE5, 0xAE, 0x8C, 0xE6, 0x88, 0x90, 0x4D, 0x49, 0x44]"

definition msg_mq_publish_callback :: string  \<comment> \<open>exception in the completion callback\<close>
  where "msg_mq_publish_callback = utf8
    [0x4D, 0x51, 0x54, 0x54, 0xE5, 0x8F, 0x91, 0xE5, 0xB8, 0x83, 0xE5, 0xAE, 0x8C, 0xE6, 0x88,
     0x90, 0xE5, 0x9B, 0x9E, 0xE8, 0xB0, 0x83, 0xE5, 0xBC, 0x82, 0xE5, 0xB8, 0xB8]"

definition msg_mq_library_error :: string  \<comment> \<open>the library reports an error\<close>
  where "msg_mq_library_error = utf8
    [0x4D, 0x51, 0x54, 0x54, 0xE5, 0xBA, 0x93, 0xE6, 0x8A, 0xA5, 0xE5, 0x91, 0x8A, 0xE9, 0x94,
     0x99, 0xE8, 0xAF, 0xAF, 0xE4, 0xBA, 0x8B, 0xE4, 0xBB, 0xB6]"

definition msg_mq_library_warning :: string  \<comment> \<open>the library reports a warning\<close>
  where "msg_mq_library_warning = utf8
    [0x4D, 0x51, 0x54, 0x54, 0xE5, 0xBA, 0x93, 0xE6, 0x8A, 0xA5, 0xE5, 0x91, 0x8A, 0xE8, 0xAD,
     0xA6, 0xE5, 0x91, 0x8A, 0xE4, 0xBA, 0x8B, 0xE4, 0xBB, 0xB6]"

definition msg_mq_retry_connect :: string  \<comment> \<open>retrying the asynchronous connection\<close>
  where "msg_mq_retry_connect = utf8
    [0xE9, 0x87, 0x8D, 0xE8, 0xAF, 0x95, 0x4D, 0x51, 0x54, 0x54, 0xE5, 0xBC, 0x82, 0xE6, 0xAD,
     0xA5, 0xE8, 0xBF, 0x9E, 0xE6, 0x8E, 0xA5]"

definition msg_pg_migration_version :: string  \<comment> \<open>migration version\<close>
  where "msg_pg_migration_version = utf8
    [0xE8, 0xBF, 0x81, 0xE7, 0xA7, 0xBB, 0xE7, 0x89, 0x88, 0xE6, 0x9C, 0xAC, 0x20]"

definition msg_pg_open_paren :: string  \<comment> \<open>opening parenthesis\<close>
  where "msg_pg_open_paren = utf8
    [0xEF, 0xBC, 0x88]"

definition msg_pg_close_paren :: string  \<comment> \<open>closing parenthesis\<close>
  where "msg_pg_close_paren = utf8
    [0xEF, 0xBC, 0x89]"

definition msg_pg_read_device :: string  \<comment> \<open>reading a device failed:\<close>
  where "msg_pg_read_device = utf8
    [0xE8, 0xAF, 0xBB, 0xE5, 0x8F, 0x96, 0x20, 0x50, 0x6F, 0x73, 0x74, 0x67, 0x72, 0x65, 0x53,
     0x51, 0x4C, 0x20, 0xE8, 0xAE, 0xBE, 0xE5, 0xA4, 0x87, 0xE5, 0xA4, 0xB1, 0xE8, 0xB4, 0xA5,
     0xEF, 0xBC, 0x9A]"

definition msg_pg_must_be_object :: string  \<comment> \<open> must be an object\<close>
  where "msg_pg_must_be_object = utf8
    [0x20, 0xE5, 0xBF, 0x85, 0xE9, 0xA1, 0xBB, 0xE4, 0xB8, 0xBA, 0xE5, 0xAF, 0xB9, 0xE8, 0xB1,
     0xA1]"

definition msg_pg_json_invalid :: string  \<comment> \<open> is invalid JSON\<close>
  where "msg_pg_json_invalid = utf8
    [0x20, 0x4A, 0x53, 0x4F, 0x4E, 0x20, 0xE6, 0x97, 0xA0, 0xE6, 0x95, 0x88]"

definition msg_pg_capabilities :: string  \<comment> \<open>capabilities must be an array of strings\<close>
  where "msg_pg_capabilities = utf8
    [0xE8, 0xAF, 0xBB, 0xE5, 0x8F, 0x96, 0x20, 0x50, 0x6F, 0x73, 0x74, 0x67, 0x72, 0x65, 0x53,
     0x51, 0x4C, 0x20, 0xE8, 0xAE, 0xBE, 0xE5, 0xA4, 0x87, 0xE5, 0xA4, 0xB1, 0xE8, 0xB4, 0xA5,
     0xEF, 0xBC, 0x9A, 0x63, 0x61, 0x70, 0x61, 0x62, 0x69, 0x6C, 0x69, 0x74, 0x69, 0x65, 0x73,
     0x20, 0xE5, 0xBF, 0x85, 0xE9, 0xA1, 0xBB, 0xE4, 0xB8, 0xBA, 0xE5, 0xAD, 0x97, 0xE7, 0xAC,
     0xA6, 0xE4, 0xB8, 0xB2, 0xE6, 0x95, 0xB0, 0xE7, 0xBB, 0x84]"

definition msg_pg_status :: string  \<comment> \<open>the status of a command is not supported\<close>
  where "msg_pg_status = utf8
    [0xE8, 0xAF, 0xBB, 0xE5, 0x8F, 0x96, 0x20, 0x50, 0x6F, 0x73, 0x74, 0x67, 0x72, 0x65, 0x53,
     0x51, 0x4C, 0x20, 0xE5, 0x91, 0xBD, 0xE4, 0xBB, 0xA4, 0xE5, 0xA4, 0xB1, 0xE8, 0xB4, 0xA5,
     0xEF, 0xBC, 0x9A, 0xE7, 0x8A, 0xB6, 0xE6, 0x80, 0x81, 0xE4, 0xB8, 0x8D, 0xE5, 0x8F, 0x97,
     0xE6, 0x94, 0xAF, 0xE6, 0x8C, 0x81]"

definition msg_pg_command_json :: string  \<comment> \<open>the JSON of a command is invalid\<close>
  where "msg_pg_command_json = utf8
    [0xE8, 0xAF, 0xBB, 0xE5, 0x8F, 0x96, 0x20, 0x50, 0x6F, 0x73, 0x74, 0x67, 0x72, 0x65, 0x53,
     0x51, 0x4C, 0x20, 0xE5, 0x91, 0xBD, 0xE4, 0xBB, 0xA4, 0xE5, 0xA4, 0xB1, 0xE8, 0xB4, 0xA5,
     0xEF, 0xBC, 0x9A, 0x4A, 0x53, 0x4F, 0x4E, 0x20, 0xE6, 0x97, 0xA0, 0xE6, 0x95, 0x88]"

definition msg_pg_command_type :: string  \<comment> \<open>the type of a command is not supported\<close>
  where "msg_pg_command_type = utf8
    [0xE8, 0xAF, 0xBB, 0xE5, 0x8F, 0x96, 0x20, 0x50, 0x6F, 0x73, 0x74, 0x67, 0x72, 0x65, 0x53,
     0x51, 0x4C, 0x20, 0xE5, 0x91, 0xBD, 0xE4, 0xBB, 0xA4, 0xE5, 0xA4, 0xB1, 0xE8, 0xB4, 0xA5,
     0xEF, 0xBC, 0x9A, 0xE5, 0x91, 0xBD, 0xE4, 0xBB, 0xA4, 0xE7, 0xB1, 0xBB, 0xE5, 0x9E, 0x8B,
     0xE4, 0xB8, 0x8D, 0xE5, 0x8F, 0x97, 0xE6, 0x94, 0xAF, 0xE6, 0x8C, 0x81]"

definition msg_pg_command_time :: string  \<comment> \<open>a time of a command is invalid\<close>
  where "msg_pg_command_time = utf8
    [0xE8, 0xAF, 0xBB, 0xE5, 0x8F, 0x96, 0x20, 0x50, 0x6F, 0x73, 0x74, 0x67, 0x72, 0x65, 0x53,
     0x51, 0x4C, 0x20, 0xE5, 0x91, 0xBD, 0xE4, 0xBB, 0xA4, 0xE5, 0xA4, 0xB1, 0xE8, 0xB4, 0xA5,
     0xEF, 0xBC, 0x9A, 0xE6, 0x97, 0xB6, 0xE9, 0x97, 0xB4, 0xE6, 0x97, 0xA0, 0xE6, 0x95, 0x88]"

definition msg_pg_write_telemetry :: string  \<comment> \<open>telemetry to write must be an object\<close>
  where "msg_pg_write_telemetry = utf8
    [0xE5, 0x86, 0x99, 0xE5, 0x85, 0xA5, 0x20, 0x50, 0x6F, 0x73, 0x74, 0x67, 0x72, 0x65, 0x53,
     0x51, 0x4C, 0x20, 0xE8, 0xAE, 0xBE, 0xE5, 0xA4, 0x87, 0xE7, 0x8A, 0xB6, 0xE6, 0x80, 0x81,
     0xE5, 0xA4, 0xB1, 0xE8, 0xB4, 0xA5, 0xEF, 0xBC, 0x9A, 0xE9, 0x81, 0xA5, 0xE6, 0xB5, 0x8B,
     0xE5, 0xBF, 0x85, 0xE9, 0xA1, 0xBB, 0xE4, 0xB8, 0xBA, 0xE5, 0xAF, 0xB9, 0xE8, 0xB1, 0xA1]"

definition msg_pg_telemetry_object :: string  \<comment> \<open>telemetry must be an object\<close>
  where "msg_pg_telemetry_object = utf8
    [0xE8, 0xAF, 0xBB, 0xE5, 0x8F, 0x96, 0x20, 0x50, 0x6F, 0x73, 0x74, 0x67, 0x72, 0x65, 0x53,
     0x51, 0x4C, 0x20, 0xE8, 0xAE, 0xBE, 0xE5, 0xA4, 0x87, 0xE5, 0xA4, 0xB1, 0xE8, 0xB4, 0xA5,
     0xEF, 0xBC, 0x9A, 0xE9, 0x81, 0xA5, 0xE6, 0xB5, 0x8B, 0xE5, 0xBF, 0x85, 0xE9, 0xA1, 0xBB,
     0xE4, 0xB8, 0xBA, 0xE5, 0xAF, 0xB9, 0xE8, 0xB1, 0xA1]"

definition msg_pg_telemetry_json :: string  \<comment> \<open>telemetry is invalid JSON\<close>
  where "msg_pg_telemetry_json = utf8
    [0xE8, 0xAF, 0xBB, 0xE5, 0x8F, 0x96, 0x20, 0x50, 0x6F, 0x73, 0x74, 0x67, 0x72, 0x65, 0x53,
     0x51, 0x4C, 0x20, 0xE8, 0xAE, 0xBE, 0xE5, 0xA4, 0x87, 0xE5, 0xA4, 0xB1, 0xE8, 0xB4, 0xA5,
     0xEF, 0xBC, 0x9A, 0xE9, 0x81, 0xA5, 0xE6, 0xB5, 0x8B, 0x20, 0x4A, 0x53, 0x4F, 0x4E, 0x20,
     0xE6, 0x97, 0xA0, 0xE6, 0x95, 0x88]"

definition msg_pg_time_range :: string  \<comment> \<open>a time is out of the range of the system clock\<close>
  where "msg_pg_time_range = utf8
    [0x50, 0x6F, 0x73, 0x74, 0x67, 0x72, 0x65, 0x53, 0x51, 0x4C, 0x20, 0xE8, 0xAE, 0xBE, 0xE5,
     0xA4, 0x87, 0xE6, 0x97, 0xB6, 0xE9, 0x97, 0xB4, 0xE8, 0xB6, 0x85, 0xE5, 0x87, 0xBA, 0xE7,
     0xB3, 0xBB, 0xE7, 0xBB, 0x9F, 0xE6, 0x97, 0xB6, 0xE9, 0x92, 0x9F, 0xE8, 0x8C, 0x83, 0xE5,
     0x9B, 0xB4]"

definition msg_pg_connected :: string  \<comment> \<open>connected:\<close>
  where "msg_pg_connected = utf8
    [0xE5, 0xB7, 0xB2, 0xE8, 0xBF, 0x9E, 0xE6, 0x8E, 0xA5, 0x20, 0x50, 0x6F, 0x73, 0x74, 0x67,
     0x72, 0x65, 0x53, 0x51, 0x4C, 0xEF, 0xBC, 0x9A]"

definition msg_pg_connect_failed :: string  \<comment> \<open>connecting failed:\<close>
  where "msg_pg_connect_failed = utf8
    [0xE8, 0xBF, 0x9E, 0xE6, 0x8E, 0xA5, 0x20, 0x50, 0x6F, 0x73, 0x74, 0x67, 0x72, 0x65, 0x53,
     0x51, 0x4C, 0x20, 0xE5, 0xA4, 0xB1, 0xE8, 0xB4, 0xA5, 0xEF, 0xBC, 0x9A]"

definition msg_pg_read_migrations :: string  \<comment> \<open>reading the migration versions failed\<close>
  where "msg_pg_read_migrations = utf8
    [0xE8, 0xAF, 0xBB, 0xE5, 0x8F, 0x96, 0x20, 0x50, 0x6F, 0x73, 0x74, 0x67, 0x72, 0x65, 0x53,
     0x51, 0x4C, 0x20, 0xE8, 0xBF, 0x81, 0xE7, 0xA7, 0xBB, 0xE7, 0x89, 0x88, 0xE6, 0x9C, 0xAC,
     0xE5, 0xA4, 0xB1, 0xE8, 0xB4, 0xA5]"

definition msg_pg_read_prefix :: string  \<comment> \<open>reading\<close>
  where "msg_pg_read_prefix = utf8
    [0xE8, 0xAF, 0xBB, 0xE5, 0x8F, 0x96]"

definition msg_pg_file_failed :: string  \<comment> \<open>the file failed\<close>
  where "msg_pg_file_failed = utf8
    [0xE6, 0x96, 0x87, 0xE4, 0xBB, 0xB6, 0xE5, 0xA4, 0xB1, 0xE8, 0xB4, 0xA5]"

definition msg_pg_applied :: string  \<comment> \<open>executed\<close>
  where "msg_pg_applied = utf8
    [0xE5, 0xB7, 0xB2, 0xE6, 0x89, 0xA7, 0xE8, 0xA1, 0x8C]"

definition msg_pg_execute :: string  \<comment> \<open>executing\<close>
  where "msg_pg_execute = utf8
    [0xE6, 0x89, 0xA7, 0xE8, 0xA1, 0x8C]"

definition msg_pg_failed :: string  \<comment> \<open>failed\<close>
  where "msg_pg_failed = utf8
    [0xE5, 0xA4, 0xB1, 0xE8, 0xB4, 0xA5]"

definition msg_pg_load_devices :: string  \<comment> \<open>reading the devices failed\<close>
  where "msg_pg_load_devices = utf8
    [0xE8, 0xAF, 0xBB, 0xE5, 0x8F, 0x96, 0x20, 0x50, 0x6F, 0x73, 0x74, 0x67, 0x72, 0x65, 0x53,
     0x51, 0x4C, 0x20, 0xE8, 0xAE, 0xBE, 0xE5, 0xA4, 0x87, 0xE5, 0xA4, 0xB1, 0xE8, 0xB4, 0xA5]"

definition msg_pg_no_school :: string  \<comment> \<open>a device without a school\<close>
  where "msg_pg_no_school = utf8
    [0xE5, 0xBB, 0xBA, 0xE6, 0xA1, 0xA3, 0xE8, 0xAE, 0xBE, 0xE5, 0xA4, 0x87, 0xE7, 0xBC, 0xBA,
     0xE5, 0xB0, 0x91, 0xE5, 0xAD, 0xA6, 0xE6, 0xA0, 0xA1]"

definition msg_pg_provision :: string  \<comment> \<open>creating the device failed\<close>
  where "msg_pg_provision = utf8
    [0x50, 0x6F, 0x73, 0x74, 0x67, 0x72, 0x65, 0x53, 0x51, 0x4C, 0x20, 0xE8, 0xAE, 0xBE, 0xE5,
     0xA4, 0x87, 0xE5, 0xBB, 0xBA, 0xE6, 0xA1, 0xA3, 0xE5, 0xA4, 0xB1, 0xE8, 0xB4, 0xA5]"

definition msg_pg_write :: string  \<comment> \<open>writing the device state failed\<close>
  where "msg_pg_write = utf8
    [0xE5, 0x86, 0x99, 0xE5, 0x85, 0xA5, 0x20, 0x50, 0x6F, 0x73, 0x74, 0x67, 0x72, 0x65, 0x53,
     0x51, 0x4C, 0x20, 0xE8, 0xAE, 0xBE, 0xE5, 0xA4, 0x87, 0xE7, 0x8A, 0xB6, 0xE6, 0x80, 0x81,
     0xE5, 0xA4, 0xB1, 0xE8, 0xB4, 0xA5]"

definition msg_pg_source_conflict :: string  \<comment> \<open>conflicting kind of a command source\<close>
  where "msg_pg_source_conflict = utf8
    [0xE5, 0x90, 0x8C, 0xE6, 0xAD, 0xA5, 0x20, 0x50, 0x6F, 0x73, 0x74, 0x67, 0x72, 0x65, 0x53,
     0x51, 0x4C, 0x20, 0xE5, 0x91, 0xBD, 0xE4, 0xBB, 0xA4, 0xE6, 0x9D, 0xA5, 0xE6, 0xBA, 0x90,
     0xE5, 0xA4, 0xB1, 0xE8, 0xB4, 0xA5, 0xEF, 0xBC, 0x9A, 0xE6, 0x9D, 0xA5, 0xE6, 0xBA, 0x90,
     0xE7, 0xB1, 0xBB, 0xE5, 0x9E, 0x8B, 0xE5, 0x86, 0xB2, 0xE7, 0xAA, 0x81]"

definition msg_pg_source_kind :: string  \<comment> \<open>invalid kind of a command source\<close>
  where "msg_pg_source_kind = utf8
    [0xE8, 0xAF, 0xBB, 0xE5, 0x8F, 0x96, 0x20, 0x50, 0x6F, 0x73, 0x74, 0x67, 0x72, 0x65, 0x53,
     0x51, 0x4C, 0x20, 0xE5, 0x91, 0xBD, 0xE4, 0xBB, 0xA4, 0xE6, 0x9D, 0xA5, 0xE6, 0xBA, 0x90,
     0xE5, 0xA4, 0xB1, 0xE8, 0xB4, 0xA5, 0xEF, 0xBC, 0x9A, 0xE6, 0x9D, 0xA5, 0xE6, 0xBA, 0x90,
     0xE7, 0xB1, 0xBB, 0xE5, 0x9E, 0x8B, 0xE6, 0x97, 0xA0, 0xE6, 0x95, 0x88]"

definition msg_pg_sync_sources :: string  \<comment> \<open>synchronising the command sources failed\<close>
  where "msg_pg_sync_sources = utf8
    [0xE5, 0x90, 0x8C, 0xE6, 0xAD, 0xA5, 0x20, 0x50, 0x6F, 0x73, 0x74, 0x67, 0x72, 0x65, 0x53,
     0x51, 0x4C, 0x20, 0xE5, 0x91, 0xBD, 0xE4, 0xBB, 0xA4, 0xE6, 0x9D, 0xA5, 0xE6, 0xBA, 0x90,
     0xE5, 0xA4, 0xB1, 0xE8, 0xB4, 0xA5]"

definition msg_pg_active_range :: string  \<comment> \<open>number of active commands out of range\<close>
  where "msg_pg_active_range = utf8
    [0xE8, 0xAF, 0xBB, 0xE5, 0x8F, 0x96, 0x20, 0x50, 0x6F, 0x73, 0x74, 0x67, 0x72, 0x65, 0x53,
     0x51, 0x4C, 0x20, 0xE6, 0xB4, 0xBB, 0xE5, 0x8A, 0xA8, 0xE5, 0x91, 0xBD, 0xE4, 0xBB, 0xA4,
     0xE5, 0xA4, 0xB1, 0xE8, 0xB4, 0xA5, 0xEF, 0xBC, 0x9A, 0xE6, 0x95, 0xB0, 0xE9, 0x87, 0x8F,
     0xE8, 0xB6, 0x85, 0xE5, 0x87, 0xBA, 0xE8, 0x8C, 0x83, 0xE5, 0x9B, 0xB4]"

definition msg_pg_active :: string  \<comment> \<open>reading the active commands failed\<close>
  where "msg_pg_active = utf8
    [0xE8, 0xAF, 0xBB, 0xE5, 0x8F, 0x96, 0x20, 0x50, 0x6F, 0x73, 0x74, 0x67, 0x72, 0x65, 0x53,
     0x51, 0x4C, 0x20, 0xE6, 0xB4, 0xBB, 0xE5, 0x8A, 0xA8, 0xE5, 0x91, 0xBD, 0xE4, 0xBB, 0xA4,
     0xE5, 0xA4, 0xB1, 0xE8, 0xB4, 0xA5]"

definition msg_pg_recover_range :: string  \<comment> \<open>number of commands to recover out of range\<close>
  where "msg_pg_recover_range = utf8
    [0xE6, 0x81, 0xA2, 0xE5, 0xA4, 0x8D, 0x20, 0x50, 0x6F, 0x73, 0x74, 0x67, 0x72, 0x65, 0x53,
     0x51, 0x4C, 0x20, 0xE9, 0xA3, 0x9E, 0xE6, 0x8E, 0xA7, 0xE5, 0x91, 0xBD, 0xE4, 0xBB, 0xA4,
     0xE5, 0xA4, 0xB1, 0xE8, 0xB4, 0xA5, 0xEF, 0xBC, 0x9A, 0xE6, 0x95, 0xB0, 0xE9, 0x87, 0x8F,
     0xE8, 0xB6, 0x85, 0xE5, 0x87, 0xBA, 0xE8, 0x8C, 0x83, 0xE5, 0x9B, 0xB4]"

definition msg_pg_recover :: string  \<comment> \<open>recovering the control commands failed\<close>
  where "msg_pg_recover = utf8
    [0xE6, 0x81, 0xA2, 0xE5, 0xA4, 0x8D, 0x20, 0x50, 0x6F, 0x73, 0x74, 0x67, 0x72, 0x65, 0x53,
     0x51, 0x4C, 0x20, 0xE9, 0xA3, 0x9E, 0xE6, 0x8E, 0xA7, 0xE5, 0x91, 0xBD, 0xE4, 0xBB, 0xA4,
     0xE5, 0xA4, 0xB1, 0xE8, 0xB4, 0xA5]"

definition msg_pg_recovered :: string  \<comment> \<open>it is unknown whether the control command was executed\<close>
  where "msg_pg_recovered = utf8
    [0xE6, 0x9C, 0x8D, 0xE5, 0x8A, 0xA1, 0xE6, 0x81, 0xA2, 0xE5, 0xA4, 0x8D, 0xE5, 0x90, 0x8E,
     0xE6, 0x97, 0xA0, 0xE6, 0xB3, 0x95, 0xE7, 0xA1, 0xAE, 0xE8, 0xAE, 0xA4, 0xE9, 0xA3, 0x9E,
     0xE6, 0x8E, 0xA7, 0xE5, 0x91, 0xBD, 0xE4, 0xBB, 0xA4, 0xE6, 0x98, 0xAF, 0xE5, 0x90, 0xA6,
     0xE5, 0xB7, 0xB2, 0xE7, 0xBB, 0x8F, 0xE6, 0x89, 0xA7, 0xE8, 0xA1, 0x8C]"

definition msg_pg_find :: string  \<comment> \<open>reading the command failed\<close>
  where "msg_pg_find = utf8
    [0xE8, 0xAF, 0xBB, 0xE5, 0x8F, 0x96, 0x20, 0x50, 0x6F, 0x73, 0x74, 0x67, 0x72, 0x65, 0x53,
     0x51, 0x4C, 0x20, 0xE5, 0x91, 0xBD, 0xE4, 0xBB, 0xA4, 0xE5, 0xA4, 0xB1, 0xE8, 0xB4, 0xA5]"

definition msg_pg_insert :: string  \<comment> \<open>writing the command failed\<close>
  where "msg_pg_insert = utf8
    [0xE5, 0x86, 0x99, 0xE5, 0x85, 0xA5, 0x20, 0x50, 0x6F, 0x73, 0x74, 0x67, 0x72, 0x65, 0x53,
     0x51, 0x4C, 0x20, 0xE5, 0x91, 0xBD, 0xE4, 0xBB, 0xA4, 0xE5, 0xA4, 0xB1, 0xE8, 0xB4, 0xA5]"

definition msg_pg_illegal :: string  \<comment> \<open>illegal transition\<close>
  where "msg_pg_illegal = utf8
    [0xE8, 0xBD, 0xAC, 0xE6, 0x8D, 0xA2, 0x20, 0x50, 0x6F, 0x73, 0x74, 0x67, 0x72, 0x65, 0x53,
     0x51, 0x4C, 0x20, 0xE5, 0x91, 0xBD, 0xE4, 0xBB, 0xA4, 0xE7, 0x8A, 0xB6, 0xE6, 0x80, 0x81,
     0xE5, 0xA4, 0xB1, 0xE8, 0xB4, 0xA5, 0xEF, 0xBC, 0x9A, 0xE7, 0x8A, 0xB6, 0xE6, 0x80, 0x81,
     0xE8, 0xBF, 0x81, 0xE7, 0xA7, 0xBB, 0xE9, 0x9D, 0x9E, 0xE6, 0xB3, 0x95]"

definition msg_pg_changed :: string  \<comment> \<open>the status has changed\<close>
  where "msg_pg_changed = utf8
    [0xE8, 0xBD, 0xAC, 0xE6, 0x8D, 0xA2, 0x20, 0x50, 0x6F, 0x73, 0x74, 0x67, 0x72, 0x65, 0x53,
     0x51, 0x4C, 0x20, 0xE5, 0x91, 0xBD, 0xE4, 0xBB, 0xA4, 0xE7, 0x8A, 0xB6, 0xE6, 0x80, 0x81,
     0xE5, 0xA4, 0xB1, 0xE8, 0xB4, 0xA5, 0xEF, 0xBC, 0x9A, 0xE7, 0x8A, 0xB6, 0xE6, 0x80, 0x81,
     0xE5, 0xB7, 0xB2, 0xE5, 0x8F, 0x98, 0xE5, 0x8C, 0x96]"

definition msg_pg_transition :: string  \<comment> \<open>the transition failed\<close>
  where "msg_pg_transition = utf8
    [0xE8, 0xBD, 0xAC, 0xE6, 0x8D, 0xA2, 0x20, 0x50, 0x6F, 0x73, 0x74, 0x67, 0x72, 0x65, 0x53,
     0x51, 0x4C, 0x20, 0xE5, 0x91, 0xBD, 0xE4, 0xBB, 0xA4, 0xE7, 0x8A, 0xB6, 0xE6, 0x80, 0x81,
     0xE5, 0xA4, 0xB1, 0xE8, 0xB4, 0xA5]"

definition msg_pg_cleanup_range :: string  \<comment> \<open>number of commands to delete out of range\<close>
  where "msg_pg_cleanup_range = utf8
    [0xE6, 0xB8, 0x85, 0xE7, 0x90, 0x86, 0x20, 0x50, 0x6F, 0x73, 0x74, 0x67, 0x72, 0x65, 0x53,
     0x51, 0x4C, 0x20, 0xE5, 0x91, 0xBD, 0xE4, 0xBB, 0xA4, 0xE5, 0xA4, 0xB1, 0xE8, 0xB4, 0xA5,
     0xEF, 0xBC, 0x9A, 0xE6, 0x95, 0xB0, 0xE9, 0x87, 0x8F, 0xE8, 0xB6, 0x85, 0xE5, 0x87, 0xBA,
     0xE8, 0x8C, 0x83, 0xE5, 0x9B, 0xB4]"

definition msg_pg_cleanup :: string  \<comment> \<open>deleting commands failed\<close>
  where "msg_pg_cleanup = utf8
    [0xE6, 0xB8, 0x85, 0xE7, 0x90, 0x86, 0x20, 0x50, 0x6F, 0x73, 0x74, 0x67, 0x72, 0x65, 0x53,
     0x51, 0x4C, 0x20, 0xE5, 0x91, 0xBD, 0xE4, 0xBB, 0xA4, 0xE5, 0xA4, 0xB1, 0xE8, 0xB4, 0xA5]"

definition msg_env_provision :: string  \<comment> \<open>creating a device failed\<close>
  where "msg_env_provision = utf8
    [0xE6, 0x95, 0xB0, 0xE6, 0x8D, 0xAE, 0xE5, 0xBA, 0x93, 0xE5, 0xBB, 0xBA, 0xE6, 0xA1, 0xA3,
     0xE5, 0xA4, 0xB1, 0xE8, 0xB4, 0xA5]"

definition msg_env_write :: string  \<comment> \<open>writing a device state failed\<close>
  where "msg_env_write = utf8
    [0xE6, 0x95, 0xB0, 0xE6, 0x8D, 0xAE, 0xE5, 0xBA, 0x93, 0xE7, 0x8A, 0xB6, 0xE6, 0x80, 0x81,
     0xE5, 0x86, 0x99, 0xE5, 0x85, 0xA5, 0xE5, 0xA4, 0xB1, 0xE8, 0xB4, 0xA5]"

definition msg_env_find :: string  \<comment> \<open>querying a command failed\<close>
  where "msg_env_find = utf8
    [0xE6, 0x95, 0xB0, 0xE6, 0x8D, 0xAE, 0xE5, 0xBA, 0x93, 0xE5, 0x91, 0xBD, 0xE4, 0xBB, 0xA4,
     0xE6, 0x9F, 0xA5, 0xE8, 0xAF, 0xA2, 0xE5, 0xA4, 0xB1, 0xE8, 0xB4, 0xA5]"

definition msg_env_insert :: string  \<comment> \<open>writing a command failed\<close>
  where "msg_env_insert = utf8
    [0xE6, 0x95, 0xB0, 0xE6, 0x8D, 0xAE, 0xE5, 0xBA, 0x93, 0xE5, 0x91, 0xBD, 0xE4, 0xBB, 0xA4,
     0xE5, 0x86, 0x99, 0xE5, 0x85, 0xA5, 0xE5, 0xA4, 0xB1, 0xE8, 0xB4, 0xA5]"

definition msg_env_transition :: string  \<comment> \<open>a transition of a command failed\<close>
  where "msg_env_transition = utf8
    [0xE6, 0x95, 0xB0, 0xE6, 0x8D, 0xAE, 0xE5, 0xBA, 0x93, 0xE5, 0x91, 0xBD, 0xE4, 0xBB, 0xA4,
     0xE7, 0x8A, 0xB6, 0xE6, 0x80, 0x81, 0xE8, 0xBD, 0xAC, 0xE6, 0x8D, 0xA2, 0xE5, 0xA4, 0xB1,
     0xE8, 0xB4, 0xA5]"

definition msg_env_cleanup :: string  \<comment> \<open>deleting commands failed\<close>
  where "msg_env_cleanup = utf8
    [0xE6, 0x95, 0xB0, 0xE6, 0x8D, 0xAE, 0xE5, 0xBA, 0x93, 0xE5, 0x91, 0xBD, 0xE4, 0xBB, 0xA4,
     0xE6, 0xB8, 0x85, 0xE7, 0x90, 0x86, 0xE5, 0xA4, 0xB1, 0xE8, 0xB4, 0xA5]"

definition msg_env_recover :: string  \<comment> \<open>recovering control commands failed\<close>
  where "msg_env_recover = utf8
    [0xE6, 0x95, 0xB0, 0xE6, 0x8D, 0xAE, 0xE5, 0xBA, 0x93, 0xE9, 0xA3, 0x9E, 0xE6, 0x8E, 0xA7,
     0xE5, 0x91, 0xBD, 0xE4, 0xBB, 0xA4, 0xE6, 0x81, 0xA2, 0xE5, 0xA4, 0x8D, 0xE5, 0xA4, 0xB1,
     0xE8, 0xB4, 0xA5]"

definition msg_env_reconnect :: string  \<comment> \<open>reconnecting failed\<close>
  where "msg_env_reconnect = utf8
    [0xE6, 0x95, 0xB0, 0xE6, 0x8D, 0xAE, 0xE5, 0xBA, 0x93, 0xE9, 0x87, 0x8D, 0xE8, 0xBF, 0x9E,
     0xE5, 0xA4, 0xB1, 0xE8, 0xB4, 0xA5]"

definition msg_env_reconnect_read :: string  \<comment> \<open>reading the migrations after a reconnection failed\<close>
  where "msg_env_reconnect_read = utf8
    [0xE6, 0x95, 0xB0, 0xE6, 0x8D, 0xAE, 0xE5, 0xBA, 0x93, 0xE9, 0x87, 0x8D, 0xE8, 0xBF, 0x9E,
     0xE5, 0x90, 0x8E, 0xE8, 0xAF, 0xBB, 0xE5, 0x8F, 0x96, 0xE8, 0xBF, 0x81, 0xE7, 0xA7, 0xBB,
     0xE7, 0x89, 0x88, 0xE6, 0x9C, 0xAC, 0xE5, 0xA4, 0xB1, 0xE8, 0xB4, 0xA5]"

definition msg_env_reconnect_plan :: string  \<comment> \<open>the migrations do not match\<close>
  where "msg_env_reconnect_plan = utf8
    [0xE6, 0x95, 0xB0, 0xE6, 0x8D, 0xAE, 0xE5, 0xBA, 0x93, 0xE8, 0xBF, 0x81, 0xE7, 0xA7, 0xBB,
     0xE7, 0x89, 0x88, 0xE6, 0x9C, 0xAC, 0xE6, 0xA0, 0xA1, 0xE9, 0xAA, 0x8C, 0xE5, 0xA4, 0xB1,
     0xE8, 0xB4, 0xA5]"

definition msg_env_publish_state :: string  \<comment> \<open>publishing a state event failed\<close>
  where "msg_env_publish_state = utf8
    [0xE5, 0x8F, 0x91, 0xE5, 0xB8, 0x83, 0xE8, 0xAE, 0xBE, 0xE5, 0xA4, 0x87, 0xE5, 0xBD, 0x93,
     0xE5, 0x89, 0x8D, 0xE7, 0x8A, 0xB6, 0xE6, 0x80, 0x81, 0xE5, 0xBF, 0xAB, 0xE7, 0x85, 0xA7,
     0xE5, 0xA4, 0xB1, 0xE8, 0xB4, 0xA5]"

definition msg_env_publish_directory :: string  \<comment> \<open>publishing the directory failed\<close>
  where "msg_env_publish_directory = utf8
    [0xE5, 0x8F, 0x91, 0xE5, 0xB8, 0x83, 0xE5, 0x85, 0xA8, 0xE9, 0x87, 0x8F, 0xE8, 0xAE, 0xBE,
     0xE5, 0xA4, 0x87, 0xE7, 0x9B, 0xAE, 0xE5, 0xBD, 0x95, 0xE5, 0xA4, 0xB1, 0xE8, 0xB4, 0xA5]"

definition msg_env_publish_exception :: string  \<comment> \<open>exception while publishing a state\<close>
  where "msg_env_publish_exception = utf8
    [0xE5, 0x8F, 0x91, 0xE5, 0xB8, 0x83, 0xE8, 0xAE, 0xBE, 0xE5, 0xA4, 0x87, 0xE5, 0xAF, 0xB9,
     0xE5, 0xA4, 0x96, 0xE5, 0xBF, 0xAB, 0xE7, 0x85, 0xA7, 0xE5, 0x8F, 0x91, 0xE7, 0x94, 0x9F,
     0xE5, 0xBC, 0x82, 0xE5, 0xB8, 0xB8]"

definition msg_env_snapshot_exception :: string  \<comment> \<open>exception while publishing all states\<close>
  where "msg_env_snapshot_exception = utf8
    [0xE5, 0x8F, 0x91, 0xE5, 0xB8, 0x83, 0xE8, 0xAE, 0xBE, 0xE5, 0xA4, 0x87, 0xE5, 0x85, 0xA8,
     0xE9, 0x87, 0x8F, 0xE5, 0xAF, 0xB9, 0xE5, 0xA4, 0x96, 0xE5, 0xBF, 0xAB, 0xE7, 0x85, 0xA7,
     0xE5, 0x8F, 0x91, 0xE7, 0x94, 0x9F, 0xE5, 0xBC, 0x82, 0xE5, 0xB8, 0xB8]"

definition msg_env_replay :: string  \<comment> \<open>replaying registrations failed\<close>
  where "msg_env_replay = utf8
    [0xE9, 0x87, 0x8D, 0xE6, 0x94, 0xBE, 0xE8, 0xAE, 0xBE, 0xE5, 0xA4, 0x87, 0xE6, 0xB3, 0xA8,
     0xE5, 0x86, 0x8C, 0xE6, 0xB6, 0x88, 0xE6, 0x81, 0xAF, 0xE5, 0xA4, 0xB1, 0xE8, 0xB4, 0xA5]"

definition msg_env_bridge :: string  \<comment> \<open>the MQTT bridge is gone\<close>
  where "msg_env_bridge = utf8
    [0x4D, 0x51, 0x54, 0x54, 0xE6, 0xA1, 0xA5, 0xE5, 0xB7, 0xB2, 0xE5, 0xA4, 0xB1, 0xE6, 0x95,
     0x88]"

definition msg_env_active_limit :: string  \<comment> \<open>more active commands than configured\<close>
  where "msg_env_active_limit = utf8
    [0xE6, 0xB4, 0xBB, 0xE5, 0x8A, 0xA8, 0xE5, 0x91, 0xBD, 0xE4, 0xBB, 0xA4, 0xE6, 0x95, 0xB0,
     0xE9, 0x87, 0x8F, 0xE8, 0xB6, 0x85, 0xE8, 0xBF, 0x87, 0xE9, 0x85, 0x8D, 0xE7, 0xBD, 0xAE,
     0xE4, 0xB8, 0x8A, 0xE9, 0x99, 0x90]"

definition msg_env_signals :: string  \<comment> \<open>installing signal handlers failed\<close>
  where "msg_env_signals = utf8
    [0xE5, 0xAE, 0x89, 0xE8, 0xA3, 0x85, 0xE9, 0x80, 0x80, 0xE5, 0x87, 0xBA, 0xE4, 0xBF, 0xA1,
     0xE5, 0x8F, 0xB7, 0xE5, 0xA4, 0x84, 0xE7, 0x90, 0x86, 0xE5, 0x99, 0xA8, 0xE5, 0xA4, 0xB1,
     0xE8, 0xB4, 0xA5]"

definition msg_env_runtime :: string  \<comment> \<open>starting the device runtime failed\<close>
  where "msg_env_runtime = utf8
    [0xE5, 0x90, 0xAF, 0xE5, 0x8A, 0xA8, 0xE8, 0xAE, 0xBE, 0xE5, 0xA4, 0x87, 0xE8, 0xBF, 0x90,
     0xE8, 0xA1, 0x8C, 0xE6, 0x97, 0xB6, 0xE5, 0xA4, 0xB1, 0xE8, 0xB4, 0xA5]"

definition msg_env_runtime_unknown :: string  \<comment> \<open>unknown exception while starting the device runtime\<close>
  where "msg_env_runtime_unknown = utf8
    [0xE5, 0x90, 0xAF, 0xE5, 0x8A, 0xA8, 0xE8, 0xAE, 0xBE, 0xE5, 0xA4, 0x87, 0xE8, 0xBF, 0x90,
     0xE8, 0xA1, 0x8C, 0xE6, 0x97, 0xB6, 0xE5, 0x8F, 0x91, 0xE7, 0x94, 0x9F, 0xE6, 0x9C, 0xAA,
     0xE7, 0x9F, 0xA5, 0xE5, 0xBC, 0x82, 0xE5, 0xB8, 0xB8]"

definition msg_env_stop_accepting :: string  \<comment> \<open>stopping the reception of messages failed\<close>
  where "msg_env_stop_accepting = utf8
    [0xE5, 0x81, 0x9C, 0xE6, 0xAD, 0xA2, 0xE6, 0x8E, 0xA5, 0xE6, 0x94, 0xB6, 0xE8, 0xAE, 0xBE,
     0xE5, 0xA4, 0x87, 0xE6, 0xB6, 0x88, 0xE6, 0x81, 0xAF, 0xE5, 0xA4, 0xB1, 0xE8, 0xB4, 0xA5]"

definition msg_env_drain_timeout :: string  \<comment> \<open>draining the database timed out, devices not persisted:\<close>
  where "msg_env_drain_timeout = utf8
    [0xE6, 0x95, 0xB0, 0xE6, 0x8D, 0xAE, 0xE5, 0xBA, 0x93, 0xE6, 0x8E, 0x92, 0xE7, 0xA9, 0xBA,
     0xE8, 0xB6, 0x85, 0xE6, 0x97, 0xB6, 0xEF, 0xBC, 0x8C, 0xE6, 0x9C, 0xAA, 0xE6, 0x8C, 0x81,
     0xE4, 0xB9, 0x85, 0xE5, 0x8C, 0x96, 0xE8, 0xAE, 0xBE, 0xE5, 0xA4, 0x87, 0xE6, 0x95, 0xB0,
     0xE9, 0x87, 0x8F, 0xEF, 0xBC, 0x9A]"

definition msg_env_not_started :: string  \<comment> \<open>the device runtime is not started\<close>
  where "msg_env_not_started = utf8
    [0xE8, 0xAE, 0xBE, 0xE5, 0xA4, 0x87, 0xE8, 0xBF, 0x90, 0xE8, 0xA1, 0x8C, 0xE6, 0x97, 0xB6,
     0xE5, 0xB0, 0x9A, 0xE6, 0x9C, 0xAA, 0xE5, 0x90, 0xAF, 0xE5, 0x8A, 0xA8]"

definition msg_env_subscribe_retry :: string  \<comment> \<open>renewing the subscriptions failed:\<close>
  where "msg_env_subscribe_retry = utf8
    [0x4D, 0x51, 0x54, 0x54, 0xE4, 0xB8, 0x9A, 0xE5, 0x8A, 0xA1, 0xE8, 0xAE, 0xA2, 0xE9, 0x98,
     0x85, 0xE9, 0x87, 0x8D, 0xE8, 0xAF, 0x95, 0xE5, 0xA4, 0xB1, 0xE8, 0xB4, 0xA5, 0xEF, 0xBC,
     0x9A]"

definition msg_env_error :: string  \<comment> \<open>error:\<close>
  where "msg_env_error = utf8
    [0xE9, 0x94, 0x99, 0xE8, 0xAF, 0xAF, 0xEF, 0xBC, 0x9A]"

end
