(* ===== verification/Device_Topic.thy ===== *)
theory Device_Topic
  imports Messages
begin

text \<open>
  \<^verbatim>\<open>core/mqtt_topic/device_topic.cpp\<close>: the MQTT topics devices publish on and the
  service publishes to.
\<close>

datatype DeviceMessageKind = KRegistration | KTelemetry

record ParsedDeviceTopic =
  pt_device_id :: string
  pt_kind :: DeviceMessageKind

definition device_id_char :: "char \<Rightarrow> bool" where
  "device_id_char c \<longleftrightarrow>
     (CHR ''0'' \<le> c \<and> c \<le> CHR ''9'') \<or> (CHR ''A'' \<le> c \<and> c \<le> CHR ''Z'') \<or>
     (CHR ''a'' \<le> c \<and> c \<le> CHR ''z'') \<or> c = CHR ''.'' \<or> c = CHR ''_'' \<or> c = CHR '':'' \<or>
     c = CHR ''-''"

definition IsValidDeviceId :: "string \<Rightarrow> bool" where
  "IsValidDeviceId device_id \<longleftrightarrow>
     device_id \<noteq> [] \<and> length device_id \<le> 20 \<and> list_all device_id_char device_id"

text \<open>\<^verbatim>\<open>topic.find('/', pos)\<close>\<close>

definition find_char_from :: "char \<Rightarrow> string \<Rightarrow> nat \<Rightarrow> nat option" where
  "find_char_from c s pos = map_option (\<lambda>i. pos + i) (find_char c (drop pos s))"

definition ParseDeviceTopic :: "string \<Rightarrow> string \<Rightarrow> string + ParsedDeviceTopic" where
  "ParseDeviceTopic topic_namespace topic =
     (case find_char CHR ''/'' topic of
        None \<Rightarrow> Inl msg_device_topic_format
      | Some first \<Rightarrow>
          (case find_char_from CHR ''/'' topic (first + 1) of
             None \<Rightarrow> Inl msg_device_topic_format
           | Some device_id_end \<Rightarrow>
               if substr topic 0 first \<noteq> topic_namespace then Inl msg_device_topic_format
               else
                 let device_id = substr topic (first + 1) (device_id_end - first - 1);
                     suffix = drop (device_id_end + 1) topic
                 in if \<not> IsValidDeviceId device_id then Inl msg_device_id_invalid
                    else if suffix = ''registration''
                    then Inr \<lparr>pt_device_id = device_id, pt_kind = KRegistration\<rparr>
                    else if suffix = ''telemetry/snapshot/v1''
                    then Inr \<lparr>pt_device_id = device_id, pt_kind = KTelemetry\<rparr>
                    else Inl msg_device_message_kind))"

definition RegistrationFilter :: "string \<Rightarrow> string" where
  "RegistrationFilter topic_namespace = topic_namespace @ ''/+/registration''"

definition TelemetryFilter :: "string \<Rightarrow> string" where
  "TelemetryFilter topic_namespace = topic_namespace @ ''/+/telemetry/snapshot/v1''"

definition DeviceDirectoryTopic :: "string \<Rightarrow> string" where
  "DeviceDirectoryTopic topic_namespace = topic_namespace @ ''/events/devices/directory''"

definition StateEventTopic :: "string \<Rightarrow> string \<Rightarrow> string" where
  "StateEventTopic topic_namespace device_id =
     topic_namespace @ ''/events/devices/'' @ device_id @ ''/state''"

text \<open>The topic a device publishes a message of the given kind on (the protocol's grammar).\<close>

definition device_topic :: "string \<Rightarrow> ParsedDeviceTopic \<Rightarrow> string" where
  "device_topic topic_namespace p =
     topic_namespace @ ''/'' @ pt_device_id p @ ''/'' @
     (case pt_kind p of KRegistration \<Rightarrow> ''registration'' | KTelemetry \<Rightarrow> ''telemetry/snapshot/v1'')"

subsection \<open>Lemmas\<close>

lemma device_id_char_not_slash: "device_id_char c \<Longrightarrow> c \<noteq> CHR ''/''"
  by (auto simp: device_id_char_def less_eq_char_def)

lemma IsValidDeviceId_no_slash: "IsValidDeviceId d \<Longrightarrow> CHR ''/'' \<notin> set d"
  by (auto simp: IsValidDeviceId_def list_all_iff dest: device_id_char_not_slash)

lemma ParseDeviceTopic_sound:
  assumes "ParseDeviceTopic ns t = Inr p"
  shows "CHR ''/'' \<notin> set ns \<and> IsValidDeviceId (pt_device_id p) \<and> t = device_topic ns p"
proof -
  from assms obtain i j where i: "find_char CHR ''/'' t = Some i"
    and j: "find_char CHR ''/'' (drop (i + 1) t) = Some j" and ns: "take i t = ns"
    and body: "(let device_id = take j (drop (i + 1) t); suffix = drop (i + 1 + j + 1) t
       in if \<not> IsValidDeviceId device_id then Inl msg_device_id_invalid
          else if suffix = ''registration''
          then Inr \<lparr>pt_device_id = device_id, pt_kind = KRegistration\<rparr>
          else if suffix = ''telemetry/snapshot/v1''
          then Inr \<lparr>pt_device_id = device_id, pt_kind = KTelemetry\<rparr>
          else Inl msg_device_message_kind) = Inr p"
    by (auto simp: ParseDeviceTopic_def find_char_from_def substr_def Let_def
        split: option.splits if_splits)
  from i have t: "t = ns @ CHR ''/'' # drop (i + 1) t" "CHR ''/'' \<notin> set ns"
    using find_char_SomeD [OF i] ns by auto
  from find_char_SomeD [OF j]
  have d: "drop (i + 1) t = take j (drop (i + 1) t) @ CHR ''/'' # drop (i + 1 + j + 1) t"
    by (simp add: add.commute add.left_commute)
  define dd suf where "dd = take j (drop (i + 1) t)" and "suf = drop (i + 1 + j + 1) t"
  have "t = ns @ CHR ''/'' # dd @ CHR ''/'' # suf"
    using t(1) d unfolding dd_def suf_def by metis
  then show ?thesis
    using body t(2) unfolding dd_def [symmetric] suf_def [symmetric]
    by (auto simp: device_topic_def Let_def split: if_splits)
qed

lemma ParseDeviceTopic_complete:
  assumes "CHR ''/'' \<notin> set ns" "IsValidDeviceId (pt_device_id p)"
  shows "ParseDeviceTopic ns (device_topic ns p) = Inr p"
proof -
  obtain d k where p: "p = \<lparr>pt_device_id = d, pt_kind = k\<rparr>" by (cases p)
  define suf where
    "suf = (case k of KRegistration \<Rightarrow> ''registration'' | KTelemetry \<Rightarrow> ''telemetry/snapshot/v1'')"
  have t: "device_topic ns p = ns @ CHR ''/'' # d @ CHR ''/'' # suf"
    by (simp add: device_topic_def p suf_def)
  have first: "find_char CHR ''/'' (ns @ CHR ''/'' # d @ CHR ''/'' # suf) = Some (length ns)"
    using assms(1) by (rule find_char_sep)
  have "find_char CHR ''/'' (d @ CHR ''/'' # suf) = Some (length d)"
    using assms(2) by (intro find_char_sep IsValidDeviceId_no_slash) (simp add: p)
  with first show ?thesis
    using assms(2) unfolding t
    by (cases k) (simp_all add: ParseDeviceTopic_def find_char_from_def substr_def p suf_def)
qed

end
