(* ===== verification/Device_Message.thy ===== *)
theory Device_Message
  imports Json_Value Device_Topic
begin

text \<open>
  \<^verbatim>\<open>core/protocol/device_message.cpp\<close>: parsing and validation of the registration and
  telemetry messages of schema version 3.
\<close>

datatype RegistrationStatus = RegOnline | RegOffline

datatype DeviceType = CnsBox | FlightController

record Registration =
  reg_device_id :: string
  reg_status :: RegistrationStatus
  reg_school_name :: "string option"
  reg_dcdw_label :: "string option"
  reg_device_type :: DeviceType
  reg_capabilities :: "string list option"
  reg_product :: "json option"
  reg_version :: "json option"

record Telemetry =
  tel_payload :: json
  tel_dcdw_label :: "string option"
  tel_device_type :: "DeviceType option"

definition ParseObject :: "json_lib \<Rightarrow> string \<Rightarrow> string + json" where
  "ParseObject lib payload =
     (case jparse lib payload of
        None \<Rightarrow> Inl msg_json_syntax
      | Some value \<Rightarrow> if \<not> is_object value then Inl msg_json_root else Inr value)"

definition RequiredString :: "json \<Rightarrow> string \<Rightarrow> string + string" where
  "RequiredString obj key =
     (case jfind obj key of
        Some (JString s) \<Rightarrow> if s = [] then Inl (key @ msg_nonempty_string) else Inr s
      | _ \<Rightarrow> Inl (key @ msg_nonempty_string))"

definition OptionalString :: "json \<Rightarrow> string \<Rightarrow> string + string option" where
  "OptionalString obj key =
     (case jfind obj key of
        None \<Rightarrow> Inr None
      | Some JNull \<Rightarrow> Inr None
      | Some (JString s) \<Rightarrow> if s = [] then Inl (key @ msg_nonempty_string) else Inr (Some s)
      | Some _ \<Rightarrow> Inl (key @ msg_nonempty_string))"

definition ParseDeviceType :: "json \<Rightarrow> string + DeviceType" where
  "ParseDeviceType obj =
     bindE (RequiredString obj ''device_type'') (\<lambda>value.
       if value = ''cns_box'' then Inr CnsBox
       else if value = ''flight_controller'' then Inr FlightController
       else Inl msg_device_type_invalid)"

fun nonempty_string :: "json \<Rightarrow> bool" where
  "nonempty_string (JString s) = (s \<noteq> [])"
| "nonempty_string _ = False"

definition ValidateOptionalStringArray :: "json \<Rightarrow> string \<Rightarrow> string + unit" where
  "ValidateOptionalStringArray obj key =
     (case jfind obj key of
        None \<Rightarrow> Inr ()
      | Some (JArray xs) \<Rightarrow> require (list_all nonempty_string xs) (key @ msg_string_array)
      | Some _ \<Rightarrow> Inl (key @ msg_string_array))"

definition ValidateOptionalObject :: "json \<Rightarrow> string \<Rightarrow> string + unit" where
  "ValidateOptionalObject obj key =
     (case jfind obj key of
        None \<Rightarrow> Inr ()
      | Some v \<Rightarrow> require (is_object v) (key @ msg_must_be_object))"

definition removed_fields :: "string list" where
  "removed_fields = [''vendor_id'', ''remote_id'', ''uid'', ''uid2'', ''gateway_id'', ''rpi_serial'',
     ''endpoint'', ''identity'']"

fun reject_fields :: "json \<Rightarrow> string list \<Rightarrow> string + unit" where
  "reject_fields obj [] = Inr ()"
| "reject_fields obj (f # fs) =
     (if contains obj f then Inl (f @ msg_removed_field) else reject_fields obj fs)"

definition RejectRemovedFields :: "json \<Rightarrow> string + unit" where
  "RejectRemovedFields obj = reject_fields obj removed_fields"

definition ValidateDeviceId :: "string \<Rightarrow> string \<Rightarrow> string + unit" where
  "ValidateDeviceId device_id topic_device_id =
     require (IsValidDeviceId device_id \<and> device_id = topic_device_id) msg_device_id_topic"

definition DeviceType_ToString :: "DeviceType \<Rightarrow> string" where
  "DeviceType_ToString type = (if type = CnsBox then ''cns_box'' else ''flight_controller'')"

text \<open>\<^verbatim>\<open>version == end() || !version->is_number_integer() || *version != 3\<close>, negated.\<close>

definition schema_version_is :: "json \<Rightarrow> 64 word \<Rightarrow> bool" where
  "schema_version_is obj n =
     (case jfind obj ''schema_version'' of
        None \<Rightarrow> False
      | Some v \<Rightarrow> is_number_integer v \<and> get_bits v = n)"

text \<open>\<^verbatim>\<open>get<std::vector<std::string>>()\<close> of a validated array.\<close>

fun get_string :: "json \<Rightarrow> string" where
  "get_string (JString s) = s"
| "get_string _ = []"

fun get_strings :: "json \<Rightarrow> string list" where
  "get_strings (JArray xs) = map get_string xs"
| "get_strings _ = []"

definition ParseRegistration :: "json_lib \<Rightarrow> string \<Rightarrow> string \<Rightarrow> string + Registration" where
  "ParseRegistration lib payload topic_device_id =
     bindE (ParseObject lib payload) (\<lambda>root.
     bindE (require (schema_version_is root 3) msg_schema_version_3) (\<lambda>_.
     bindE (RejectRemovedFields root) (\<lambda>_.
     bindE (RequiredString root ''device_id'') (\<lambda>device_id.
     bindE (ValidateDeviceId device_id topic_device_id) (\<lambda>_.
     bindE (ParseDeviceType root) (\<lambda>device_type.
     bindE (RequiredString root ''status'') (\<lambda>status.
     bindE (require (status = ''online'' \<or> status = ''offline'') msg_status_invalid) (\<lambda>_.
     bindE (OptionalString root ''school_name'') (\<lambda>school.
     bindE (OptionalString root ''dcdw_label'') (\<lambda>label.
     bindE (ValidateOptionalStringArray root ''capabilities'') (\<lambda>_.
     bindE (ValidateOptionalObject root ''product'') (\<lambda>_.
     bindE (ValidateOptionalObject root ''version'') (\<lambda>_.
     bindE (require (\<not> (status = ''online'' \<and> device_type = CnsBox \<and> school = None))
              msg_missing_school) (\<lambda>_.
     Inr \<lparr>reg_device_id = device_id,
          reg_status = (if status = ''online'' then RegOnline else RegOffline),
          reg_school_name = school,
          reg_dcdw_label = label,
          reg_device_type = device_type,
          reg_capabilities = map_option get_strings (jfind root ''capabilities''),
          reg_product = jfind root ''product'',
          reg_version = jfind root ''version''\<rparr>))))))))))))))"

definition ParseTelemetry :: "json_lib \<Rightarrow> string \<Rightarrow> string \<Rightarrow> string + Telemetry" where
  "ParseTelemetry lib payload topic_device_id =
     bindE (ParseObject lib payload) (\<lambda>root.
     bindE (require (schema_version_is root 3) msg_telemetry_schema_version) (\<lambda>_.
     bindE (RejectRemovedFields root) (\<lambda>_.
     bindE (RequiredString root ''device_id'') (\<lambda>device_id.
     bindE (ValidateDeviceId device_id topic_device_id) (\<lambda>_.
     bindE (ParseDeviceType root) (\<lambda>device_type.
     bindE (RequiredString root ''sent_at'') (\<lambda>_.
     (case jfind root ''telemetry'' of
        Some (JObject _) \<Rightarrow>
          (case jfind root ''drone_id'' of
             Some (JObject d) \<Rightarrow>
               (case jfind (JObject d) ''basic_id'' of
                  Some (JObject b) \<Rightarrow>
                    if contains (JObject b) ''uas_id'' then Inl msg_uas_id_removed
                    else Inr \<lparr>tel_payload = root, tel_dcdw_label = None,
                              tel_device_type = Some device_type\<rparr>
                | _ \<Rightarrow> Inl msg_basic_id_object)
           | _ \<Rightarrow> Inl msg_drone_id_object)
      | _ \<Rightarrow> Inl msg_telemetry_object))))))))"

subsection \<open>What a well-formed registration is, and its rendering as a document\<close>

definition registration_wf :: "Registration \<Rightarrow> bool" where
  "registration_wf r \<longleftrightarrow>
     IsValidDeviceId (reg_device_id r) \<and>
     reg_school_name r \<noteq> Some [] \<and> reg_dcdw_label r \<noteq> Some [] \<and>
     (case reg_capabilities r of None \<Rightarrow> True | Some cs \<Rightarrow> [] \<notin> set cs) \<and>
     (case reg_product r of None \<Rightarrow> True | Some p \<Rightarrow> is_object p) \<and>
     (case reg_version r of None \<Rightarrow> True | Some v \<Rightarrow> is_object v) \<and>
     (reg_status r = RegOnline \<and> reg_device_type r = CnsBox \<longrightarrow> reg_school_name r \<noteq> None)"

definition opt_field :: "string \<Rightarrow> ('a \<Rightarrow> json) \<Rightarrow> 'a option \<Rightarrow> (string \<times> json) list" where
  "opt_field k f v = (case v of None \<Rightarrow> [] | Some x \<Rightarrow> [(k, f x)])"

definition registration_json :: "Registration \<Rightarrow> json" where
  "registration_json r = jobject (
     [(''schema_version'', JUnsigned 3),
      (''device_id'', JString (reg_device_id r)),
      (''device_type'', JString (DeviceType_ToString (reg_device_type r))),
      (''status'', JString (if reg_status r = RegOnline then ''online'' else ''offline''))] @
     opt_field ''school_name'' JString (reg_school_name r) @
     opt_field ''dcdw_label'' JString (reg_dcdw_label r) @
     opt_field ''capabilities'' (\<lambda>cs. JArray (map JString cs)) (reg_capabilities r) @
     opt_field ''product'' id (reg_product r) @
     opt_field ''version'' id (reg_version r))"

subsection \<open>Lemmas\<close>

lemma ParseObject_Inr [outcome]:
  "ParseObject lib payload = Inr root \<longleftrightarrow> jparse lib payload = Some root \<and> is_object root"
  by (auto simp: ParseObject_def split: option.splits)

lemma RequiredString_Inr [outcome]:
  "RequiredString obj k = Inr s \<longleftrightarrow> jfind obj k = Some (JString s) \<and> s \<noteq> []"
  by (auto simp: RequiredString_def split: option.splits json.splits)

lemma OptionalString_Inr [outcome]:
  "OptionalString obj k = Inr v \<longleftrightarrow>
     (case v of None \<Rightarrow> jfind obj k = None \<or> jfind obj k = Some JNull
              | Some s \<Rightarrow> jfind obj k = Some (JString s) \<and> s \<noteq> [])"
  by (auto simp: OptionalString_def split: option.splits json.splits)

lemma reject_fields_Inr: "reject_fields obj fs = Inr u \<longleftrightarrow> (\<forall>f \<in> set fs. \<not> contains obj f)"
  by (induction fs) auto

lemma RejectRemovedFields_Inr [outcome]:
  "RejectRemovedFields obj = Inr u \<longleftrightarrow> (\<forall>f \<in> set removed_fields. \<not> contains obj f)"
  by (simp add: RejectRemovedFields_def reject_fields_Inr)

lemma RequiredString_eval:
  "jfind obj k = Some (JString s) \<Longrightarrow> s \<noteq> [] \<Longrightarrow> RequiredString obj k = Inr s"
  by (simp add: RequiredString_Inr)

lemma DeviceType_ToString_simps [simp]:
  "DeviceType_ToString CnsBox = ''cns_box''"
  "DeviceType_ToString FlightController = ''flight_controller''"
  by (simp_all add: DeviceType_ToString_def)

lemma ParseDeviceType_Inr [outcome]:
  "ParseDeviceType obj = Inr t \<longleftrightarrow> jfind obj ''device_type'' = Some (JString (DeviceType_ToString t))"
proof
  assume "ParseDeviceType obj = Inr t"
  then obtain s where "jfind obj ''device_type'' = Some (JString s)"
    "(if s = ''cns_box'' then Inr CnsBox
      else if s = ''flight_controller'' then Inr FlightController
      else Inl msg_device_type_invalid) = Inr t"
    unfolding ParseDeviceType_def bindE_eq_Inr_iff RequiredString_Inr by blast
  then show "jfind obj ''device_type'' = Some (JString (DeviceType_ToString t))"
    by (simp split: if_splits)
next
  assume "jfind obj ''device_type'' = Some (JString (DeviceType_ToString t))"
  then show "ParseDeviceType obj = Inr t"
    by (cases t) (simp_all add: ParseDeviceType_def RequiredString_eval)
qed

lemma nonempty_string_iff: "nonempty_string v \<longleftrightarrow> (\<exists>s. v = JString s \<and> s \<noteq> [])"
  by (cases v) auto

lemma nonempty_strings_iff:
  "list_all nonempty_string xs \<longleftrightarrow> (\<exists>cs. xs = map JString cs \<and> [] \<notin> set cs)"
proof
  show "list_all nonempty_string xs \<Longrightarrow> \<exists>cs. xs = map JString cs \<and> [] \<notin> set cs"
  proof (induction xs)
    case (Cons x xs)
    then obtain s cs where "x = JString s" "s \<noteq> []" "xs = map JString cs" "[] \<notin> set cs"
      by (auto simp: nonempty_string_iff)
    then show ?case by (intro exI [of _ "s # cs"]) simp
  qed simp
next
  show "\<exists>cs. xs = map JString cs \<and> [] \<notin> set cs \<Longrightarrow> list_all nonempty_string xs"
    by (auto simp: list_all_iff)
qed

lemma ValidateOptionalStringArray_Inr [outcome]:
  "ValidateOptionalStringArray obj k = Inr u \<longleftrightarrow>
     (jfind obj k = None \<or> (\<exists>cs. jfind obj k = Some (JArray (map JString cs)) \<and> [] \<notin> set cs))"
  by (simp add: ValidateOptionalStringArray_def require_eq_Inr_iff nonempty_strings_iff
      split: option.split json.split)

lemma ValidateOptionalObject_Inr [outcome]:
  "ValidateOptionalObject obj k = Inr u \<longleftrightarrow> (case jfind obj k of None \<Rightarrow> True | Some v \<Rightarrow> is_object v)"
  by (auto simp: ValidateOptionalObject_def outcome split: option.splits)

lemma get_strings_JString [simp]: "get_strings (JArray (map JString cs)) = cs"
  by (simp add: comp_def)

lemma ParseRegistrationE:
  assumes "ParseRegistration lib payload topic_id = Inr r"
  obtains root where "jparse lib payload = Some root" "is_object root" "schema_version_is root 3"
    "\<forall>f \<in> set removed_fields. \<not> contains root f"
    "jfind root ''device_id'' = Some (JString topic_id)"
    "jfind root ''device_type'' = Some (JString (DeviceType_ToString (reg_device_type r)))"
    "reg_device_id r = topic_id" "registration_wf r"
proof -
  from assms obtain root device_id device_type status school label u1 u2 u3 u4 u5 where
    root: "ParseObject lib payload = Inr root" "schema_version_is root 3"
      "RejectRemovedFields root = Inr u1"
    and id: "RequiredString root ''device_id'' = Inr device_id"
      "ValidateDeviceId device_id topic_id = Inr u2"
    and type: "ParseDeviceType root = Inr device_type"
    and opts: "OptionalString root ''school_name'' = Inr school"
      "OptionalString root ''dcdw_label'' = Inr label"
    and objs: "ValidateOptionalStringArray root ''capabilities'' = Inr u3"
      "ValidateOptionalObject root ''product'' = Inr u4"
      "ValidateOptionalObject root ''version'' = Inr u5"
    and need: "\<not> (status = ''online'' \<and> device_type = CnsBox \<and> school = None)"
    and r: "\<lparr>reg_device_id = device_id,
          reg_status = (if status = ''online'' then RegOnline else RegOffline),
          reg_school_name = school, reg_dcdw_label = label, reg_device_type = device_type,
          reg_capabilities = map_option get_strings (jfind root ''capabilities''),
          reg_product = jfind root ''product'', reg_version = jfind root ''version''\<rparr> = r"
    unfolding ParseRegistration_def bindE_eq_Inr_iff require_eq_Inr_iff sum.inject
    by (elim exE conjE) (rule that; assumption)
  have dev: "IsValidDeviceId device_id" "device_id = topic_id"
    using id(2) by (auto simp: ValidateDeviceId_def require_eq_Inr_iff)
  have strs: "school \<noteq> Some []" "label \<noteq> Some []"
    using opts by (auto simp: OptionalString_Inr split: option.splits)
  have caps: "case map_option get_strings (jfind root ''capabilities'') of None \<Rightarrow> True | Some cs \<Rightarrow> [] \<notin> set cs"
    using objs(1) by (auto simp: ValidateOptionalStringArray_Inr comp_def)
  have "registration_wf r"
    using dev(1) strs caps objs(2,3) need
    by (simp add: registration_wf_def r [symmetric] ValidateOptionalObject_Inr split: if_splits option.splits)
  then show thesis
    using root id(1) type dev
    by (intro that [of root])
       (simp_all add: r [symmetric] ParseObject_Inr RejectRemovedFields_Inr RequiredString_Inr ParseDeviceType_Inr)
qed

lemma opt_field_map_of [simp]:
  "map_of (opt_field k f v) k' = (if k' = k then map_option f v else None)"
  by (simp add: opt_field_def split: option.split)

lemma opt_field_keys: "fst ` set (opt_field k f v) \<subseteq> {k}"
  by (auto simp: opt_field_def split: option.split)

lemma registration_json_find:
  "jfind (registration_json r) ''schema_version'' = Some (JUnsigned 3)"
  "jfind (registration_json r) ''device_id'' = Some (JString (reg_device_id r))"
  "jfind (registration_json r) ''device_type'' = Some (JString (DeviceType_ToString (reg_device_type r)))"
  "jfind (registration_json r) ''status'' =
     Some (JString (if reg_status r = RegOnline then ''online'' else ''offline''))"
  "jfind (registration_json r) ''school_name'' = map_option JString (reg_school_name r)"
  "jfind (registration_json r) ''dcdw_label'' = map_option JString (reg_dcdw_label r)"
  "jfind (registration_json r) ''capabilities'' =
     map_option (\<lambda>cs. JArray (map JString cs)) (reg_capabilities r)"
  "jfind (registration_json r) ''product'' = reg_product r"
  "jfind (registration_json r) ''version'' = reg_version r"
  by (simp_all add: registration_json_def map_add_def option.map_id split: option.split)

lemma registration_json_removed:
  "f \<in> set removed_fields \<Longrightarrow> \<not> contains (registration_json r) f"
  unfolding removed_fields_def list.set insert_iff empty_iff
  by (elim disjE) (simp_all add: registration_json_def contains_def map_add_def)

lemma OptionalString_eval:
  "jfind obj k = map_option JString v \<Longrightarrow> v \<noteq> Some [] \<Longrightarrow> OptionalString obj k = Inr v"
  by (cases v) (simp_all add: OptionalString_Inr)

lemma ParseRegistration_json:
  assumes "registration_wf r" "jparse lib payload = Some (registration_json r)"
  shows "ParseRegistration lib payload (reg_device_id r) = Inr r"
proof -
  let ?j = "registration_json r"
  have nonempty: "reg_device_id r \<noteq> []"
    using assms(1) by (simp add: registration_wf_def IsValidDeviceId_def)
  have 1: "ParseObject lib payload = Inr ?j" "schema_version_is ?j 3" "RejectRemovedFields ?j = Inr ()"
    using assms(2) registration_json_removed [of _ r]
    by (simp_all add: ParseObject_Inr RejectRemovedFields_Inr schema_version_is_def
        registration_json_find) (simp add: registration_json_def)
  have 2: "RequiredString ?j ''device_id'' = Inr (reg_device_id r)"
      "ValidateDeviceId (reg_device_id r) (reg_device_id r) = Inr ()"
      "ParseDeviceType ?j = Inr (reg_device_type r)"
    using assms(1) nonempty
    by (simp_all add: RequiredString_Inr registration_json_find ValidateDeviceId_def
        ParseDeviceType_Inr registration_wf_def)
  have 3: "RequiredString ?j ''status'' = Inr (if reg_status r = RegOnline then ''online'' else ''offline'')"
      "OptionalString ?j ''school_name'' = Inr (reg_school_name r)"
      "OptionalString ?j ''dcdw_label'' = Inr (reg_dcdw_label r)"
    using assms(1)
    by (simp_all add: RequiredString_Inr registration_json_find OptionalString_eval registration_wf_def)
  have 4: "ValidateOptionalStringArray ?j ''capabilities'' = Inr ()"
      "ValidateOptionalObject ?j ''product'' = Inr ()" "ValidateOptionalObject ?j ''version'' = Inr ()"
    using assms(1)
    by (auto simp: ValidateOptionalStringArray_Inr ValidateOptionalObject_Inr registration_json_find
        registration_wf_def split: option.splits)
  have 5: "map_option get_strings (map_option (\<lambda>cs. JArray (map JString cs)) (reg_capabilities r)) =
      reg_capabilities r"
    by (simp add: option.map_comp comp_def option.map_ident)
  have 6: "(if reg_status r = RegOnline then ''online'' else ''offline'') = ''online'' \<longleftrightarrow>
      reg_status r = RegOnline"
    "(if reg_status r = RegOnline then RegOnline else RegOffline) = reg_status r"
    by (cases "reg_status r"; simp)+
  have 7: "\<not> (reg_status r = RegOnline \<and> reg_device_type r = CnsBox \<and> reg_school_name r = None)"
    using assms(1) by (auto simp: registration_wf_def)
  have "ParseRegistration lib payload (reg_device_id r) =
      Inr \<lparr>reg_device_id = reg_device_id r, reg_status = reg_status r,
           reg_school_name = reg_school_name r, reg_dcdw_label = reg_dcdw_label r,
           reg_device_type = reg_device_type r, reg_capabilities = reg_capabilities r,
           reg_product = reg_product r, reg_version = reg_version r\<rparr>"
    unfolding ParseRegistration_def 1 2 3 4 bindE.simps registration_json_find
    using 7 1(2) by (simp add: 5 6)
  then show ?thesis by simp
qed

lemma ParseTelemetryE:
  assumes "ParseTelemetry lib payload topic_id = Inr t"
  obtains device_type where "jparse lib payload = Some (tel_payload t)" "is_object (tel_payload t)"
    "schema_version_is (tel_payload t) 3" "\<forall>f \<in> set removed_fields. \<not> contains (tel_payload t) f"
    "jfind (tel_payload t) ''device_id'' = Some (JString topic_id)" "IsValidDeviceId topic_id"
    "tel_dcdw_label t = None" "tel_device_type t = Some device_type"
    "jfind (tel_payload t) ''device_type'' = Some (JString (DeviceType_ToString device_type))"
proof -
  from assms obtain root device_id device_type sent u1 u2 where
    root: "ParseObject lib payload = Inr root" "schema_version_is root 3"
      "RejectRemovedFields root = Inr u1"
    and id: "RequiredString root ''device_id'' = Inr device_id"
      "ValidateDeviceId device_id topic_id = Inr u2"
    and type: "ParseDeviceType root = Inr device_type"
    and "RequiredString root ''sent_at'' = Inr sent"
    and t: "(case jfind root ''telemetry'' of
        Some (JObject _) \<Rightarrow>
          (case jfind root ''drone_id'' of
             Some (JObject d) \<Rightarrow>
               (case jfind (JObject d) ''basic_id'' of
                  Some (JObject b) \<Rightarrow>
                    if contains (JObject b) ''uas_id'' then Inl msg_uas_id_removed
                    else Inr \<lparr>tel_payload = root, tel_dcdw_label = None,
                              tel_device_type = Some device_type\<rparr>
                | _ \<Rightarrow> Inl msg_basic_id_object)
           | _ \<Rightarrow> Inl msg_drone_id_object)
      | _ \<Rightarrow> Inl msg_telemetry_object) = Inr t"
    unfolding ParseTelemetry_def bindE_eq_Inr_iff require_eq_Inr_iff
    by (elim exE conjE) (rule that; assumption)
  have dev: "IsValidDeviceId device_id" "device_id = topic_id"
    using id(2) by (auto simp: ValidateDeviceId_def require_eq_Inr_iff)
  have "t = \<lparr>tel_payload = root, tel_dcdw_label = None, tel_device_type = Some device_type\<rparr>"
    using t by (simp split: option.splits json.splits if_splits)
  then show thesis
    using root id(1) type dev
    by (intro that [of device_type])
       (simp_all add: ParseObject_Inr RejectRemovedFields_Inr RequiredString_Inr ParseDeviceType_Inr)
qed

end
