(* ===== verification/Time_Format.thy ===== *)
theory Time_Format
  imports Prelude
begin

text \<open>
  \<^verbatim>\<open>core/protocol/time_format.cpp\<close>: time points as RFC 3339 text in UTC with
  milliseconds. The calendar of the standard library (\<^verbatim>\<open>std::chrono::year_month_day\<close>) is
  the proleptic Gregorian one, computed here from the count of days since 1970-01-01 by eras of
  400 years.
\<close>

fun decimal :: "nat \<Rightarrow> string" where
  "decimal n = (if n < 10 then [char_of (48 + n)] else decimal (n div 10) @ [char_of (48 + n mod 10)])"

declare decimal.simps [simp del]

text \<open>\<^verbatim>\<open>std::to_string\<close> of a signed number.\<close>

definition int_text :: "int \<Rightarrow> string" where
  "int_text i = (if i < 0 then CHR ''-'' # decimal (nat (- i)) else decimal (nat i))"

definition pad0 :: "nat \<Rightarrow> string \<Rightarrow> string" where
  "pad0 w s = replicate (w - length s) CHR ''0'' @ s"

text \<open>\<^verbatim>\<open>%0wd\<close> of \<^verbatim>\<open>printf\<close>\<close>

definition printf_0d :: "nat \<Rightarrow> int \<Rightarrow> string" where
  "printf_0d w i =
     (if i < 0 then CHR ''-'' # pad0 (w - 1) (decimal (nat (- i))) else pad0 w (decimal (nat i)))"

record year_month_day =
  ymd_year :: int
  ymd_month :: int
  ymd_day :: int

definition year_month_day_of_days :: "int \<Rightarrow> year_month_day" where
  "year_month_day_of_days days =
     (let z = days + 719468;
          era = z div 146097;
          doe = z mod 146097;
          yoe = (doe - doe div 1460 + doe div 36524 - doe div 146096) div 365;
          doy = doe - (365 * yoe + yoe div 4 - yoe div 100);
          mp = (5 * doy + 2) div 153;
          d = doy - (153 * mp + 2) div 5 + 1;
          m = (if mp < 10 then mp + 3 else mp - 9)
      in \<lparr>ymd_year = yoe + era * 400 + (if m \<le> 2 then 1 else 0), ymd_month = m, ymd_day = d\<rparr>)"

definition FormatUtcRfc3339Millis :: "int \<Rightarrow> string" where
  "FormatUtcRfc3339Millis value =
     (let milliseconds = value div 1000000;
          days = milliseconds div 86400000;
          date = year_month_day_of_days days;
          time = milliseconds - days * 86400000
      in take 31 (
           printf_0d 4 (ymd_year date) @ ''-'' @ printf_0d 2 (ymd_month date) @ ''-'' @
           printf_0d 2 (ymd_day date) @ ''T'' @ printf_0d 2 (time div 3600000) @ '':'' @
           printf_0d 2 (time div 60000 mod 60) @ '':'' @ printf_0d 2 (time div 1000 mod 60) @ ''.'' @
           printf_0d 3 (time mod 1000) @ ''Z''))"

end
