(* ===== verification/State_Event.thy ===== *)
theory State_Event
  imports Device_Message Time_Format
begin

text \<open>
  \<^verbatim>\<open>core/state_event/state_event.cpp\<close>: the documents the service publishes about devices,
  and the directory whose revision tells subscribers that it changed.
\<close>

datatype ChangeReason =
  RegistrationOnline | RegistrationOffline | TelemetryReason | ActivityTimeout |
  DatabaseRecovered | SnapshotReplay

record Snapshot =
  sn_device_id :: string
  sn_revision :: "64 word"
  sn_school_id :: int
  sn_school_name :: string
  sn_dcdw_label :: "string option"
  sn_model_version :: string
  sn_online :: bool
  sn_last_seen_at :: "int option"
  sn_telemetry_received_at :: "int option"
  sn_latest_telemetry :: "json option"
  sn_degraded :: bool
  sn_device_type :: string
  sn_capabilities :: "string list option"
  sn_product :: "json option"
  sn_version :: "json option"

record DirectoryEntry =
  de_device_id :: string
  de_school_name :: string
  de_dcdw_label :: "string option"
  de_model_version :: string
  de_online :: bool
  de_device_type :: string
  de_capabilities :: "string list option"
  de_product :: "json option"
  de_version :: "json option"

record DeviceDirectory =
  dd_entries :: "(string, DirectoryEntry) fmap"
  dd_revision :: "64 word"
  dd_initialized :: bool

fun ChangeReason_ToString :: "ChangeReason \<Rightarrow> string" where
  "ChangeReason_ToString RegistrationOnline = ''registration_online''"
| "ChangeReason_ToString RegistrationOffline = ''registration_offline''"
| "ChangeReason_ToString TelemetryReason = ''telemetry''"
| "ChangeReason_ToString ActivityTimeout = ''activity_timeout''"
| "ChangeReason_ToString DatabaseRecovered = ''database_recovered''"
| "ChangeReason_ToString SnapshotReplay = ''snapshot_replay''"

definition OptionalTime :: "int option \<Rightarrow> json" where
  "OptionalTime value = jopt (\<lambda>t. JString (FormatUtcRfc3339Millis t)) value"

definition nonempty_or_null :: "string \<Rightarrow> json" where
  "nonempty_or_null s = (if s = [] then JNull else JString s)"

definition strings_json :: "string list \<Rightarrow> json" where
  "strings_json ss = JArray (map JString ss)"

definition directory_entry_json :: "DirectoryEntry \<Rightarrow> json" where
  "directory_entry_json entry = jobject
     [(''device_id'', JString (de_device_id entry)),
      (''device_type'', JString (de_device_type entry)),
      (''school_name'', nonempty_or_null (de_school_name entry)),
      (''dcdw_label'', jopt JString (de_dcdw_label entry)),
      (''model_version'', JString (de_model_version entry)),
      (''capabilities'', jopt strings_json (de_capabilities entry)),
      (''product'', jopt id (de_product entry)),
      (''version'', jopt id (de_version entry)),
      (''status'', JString (if de_online entry then ''online'' else ''offline''))]"

definition BuildDeviceDirectorySnapshot :: "DirectoryEntry list \<Rightarrow> 64 word \<Rightarrow> int \<Rightarrow> json" where
  "BuildDeviceDirectorySnapshot entries revision generated_at = jobject
     [(''schema_version'', jint 1),
      (''event_type'', JString ''device_directory_snapshot''),
      (''generated_at'', JString (FormatUtcRfc3339Millis generated_at)),
      (''revision'', juint revision),
      (''devices'', JArray (map directory_entry_json (sort_key de_device_id entries)))]"

definition BuildStateEvent :: "Snapshot \<Rightarrow> ChangeReason \<Rightarrow> int \<Rightarrow> json" where
  "BuildStateEvent snapshot reason event_at = jobject
     [(''schema_version'', jint 1), (''event_type'', JString ''device_state''),
      (''event_at'', JString (FormatUtcRfc3339Millis event_at)),
      (''revision'', juint (sn_revision snapshot)),
      (''device_id'', JString (sn_device_id snapshot)),
      (''device_type'', JString (sn_device_type snapshot)),
      (''school_name'', nonempty_or_null (sn_school_name snapshot)),
      (''dcdw_label'', jopt JString (sn_dcdw_label snapshot)),
      (''model_version'', JString (sn_model_version snapshot)),
      (''capabilities'', jopt strings_json (sn_capabilities snapshot)),
      (''product'', jopt id (sn_product snapshot)),
      (''version'', jopt id (sn_version snapshot)),
      (''status'', JString (if sn_online snapshot then ''online'' else ''offline'')),
      (''last_seen_at'', OptionalTime (sn_last_seen_at snapshot)),
      (''telemetry_received_at'', OptionalTime (sn_telemetry_received_at snapshot)),
      (''latest_telemetry'', jopt id (sn_latest_telemetry snapshot)),
      (''change_reason'', JString (ChangeReason_ToString reason)),
      (''degraded'', JBool (sn_degraded snapshot))]"

text \<open>Equality of \<^verbatim>\<open>std::optional<json>\<close> and the defaulted equality of entries.\<close>

fun opt_eq :: "('a \<Rightarrow> 'a \<Rightarrow> bool) \<Rightarrow> 'a option \<Rightarrow> 'a option \<Rightarrow> bool" where
  "opt_eq eq None None = True"
| "opt_eq eq (Some a) (Some b) = eq a b"
| "opt_eq eq _ _ = False"

definition DirectoryEntry_eq :: "json_lib \<Rightarrow> DirectoryEntry \<Rightarrow> DirectoryEntry \<Rightarrow> bool" where
  "DirectoryEntry_eq lib a b \<longleftrightarrow>
     de_device_id a = de_device_id b \<and> de_school_name a = de_school_name b \<and>
     de_dcdw_label a = de_dcdw_label b \<and> de_model_version a = de_model_version b \<and>
     de_online a = de_online b \<and> de_device_type a = de_device_type b \<and>
     de_capabilities a = de_capabilities b \<and> opt_eq (jeq lib) (de_product a) (de_product b) \<and>
     opt_eq (jeq lib) (de_version a) (de_version b)"

definition map_eq :: "('v \<Rightarrow> 'v \<Rightarrow> bool) \<Rightarrow> ('k, 'v) fmap \<Rightarrow> ('k, 'v) fmap \<Rightarrow> bool" where
  "map_eq eq m n \<longleftrightarrow>
     fmdom m = fmdom n \<and> fBall (fmdom m) (\<lambda>k. opt_eq eq (fmlookup m k) (fmlookup n k))"

definition DeviceDirectory_new :: DeviceDirectory where
  "DeviceDirectory_new = \<lparr>dd_entries = fmempty, dd_revision = 0, dd_initialized = False\<rparr>"

definition DeviceDirectory_Update ::
    "json_lib \<Rightarrow> DirectoryEntry \<Rightarrow> DeviceDirectory \<Rightarrow> bool \<times> DeviceDirectory" where
  "DeviceDirectory_Update lib entry dir =
     (let changed = (case fmlookup (dd_entries dir) (de_device_id entry) of
                       None \<Rightarrow> True | Some old \<Rightarrow> \<not> DirectoryEntry_eq lib old entry)
      in if \<not> dd_initialized dir \<or> changed
         then (True, dir\<lparr>dd_entries := fmupd (de_device_id entry) entry (dd_entries dir),
                         dd_initialized := True, dd_revision := dd_revision dir + 1\<rparr>)
         else (False, dir))"

definition directory_of :: "DirectoryEntry list \<Rightarrow> (string, DirectoryEntry) fmap" where
  "directory_of entries = fold (\<lambda>entry m. fmupd (de_device_id entry) entry m) entries fmempty"

definition DeviceDirectory_Replace ::
    "json_lib \<Rightarrow> DirectoryEntry list \<Rightarrow> DeviceDirectory \<Rightarrow> bool \<times> DeviceDirectory" where
  "DeviceDirectory_Replace lib entries dir =
     (let replacement = directory_of entries
      in if dd_initialized dir \<and> map_eq (DirectoryEntry_eq lib) replacement (dd_entries dir)
         then (False, dir)
         else (True, \<lparr>dd_entries = replacement, dd_revision = dd_revision dir + 1,
                      dd_initialized = True\<rparr>))"

definition DeviceDirectory_Entries :: "DeviceDirectory \<Rightarrow> DirectoryEntry list" where
  "DeviceDirectory_Entries dir =
     map (\<lambda>k. the (fmlookup (dd_entries dir) k)) (sorted_list_of_fset (fmdom (dd_entries dir)))"

definition DeviceDirectory_Revision :: "DeviceDirectory \<Rightarrow> 64 word" where
  "DeviceDirectory_Revision dir = dd_revision dir"

subsection \<open>Lemmas\<close>

text \<open>Every entry is stored under its own identifier.\<close>

definition directory_ok :: "DeviceDirectory \<Rightarrow> bool" where
  "directory_ok dir \<longleftrightarrow>
     fmpred (\<lambda>k entry. de_device_id entry = k) (dd_entries dir) \<and>
     (\<not> dd_initialized dir \<longrightarrow> dd_entries dir = fmempty)"

lemma opt_eq_refl: "(\<And>a. eq a a) \<Longrightarrow> opt_eq eq v v"
  by (cases v) auto

lemma DirectoryEntry_eq_refl: "(\<And>j. jeq lib j j) \<Longrightarrow> DirectoryEntry_eq lib e e"
  by (simp add: DirectoryEntry_eq_def opt_eq_refl)

lemma map_eq_refl: "(\<And>v. eq v v) \<Longrightarrow> map_eq eq m m"
  by (simp add: map_eq_def opt_eq_refl)

lemma directory_of_fold:
  "fmpred (\<lambda>k entry. de_device_id entry = k) m \<Longrightarrow>
   fmpred (\<lambda>k entry. de_device_id entry = k) (fold (\<lambda>entry m. fmupd (de_device_id entry) entry m) es m)"
  by (induction es arbitrary: m) auto

lemma directory_of_ok: "fmpred (\<lambda>k entry. de_device_id entry = k) (directory_of es)"
  unfolding directory_of_def by (rule directory_of_fold) simp

lemma directory_new_ok: "directory_ok DeviceDirectory_new"
  by (simp add: directory_ok_def DeviceDirectory_new_def)

lemma directory_update_ok:
  "directory_ok dir \<Longrightarrow> directory_ok (snd (DeviceDirectory_Update lib entry dir))"
  by (auto simp: directory_ok_def DeviceDirectory_Update_def Let_def)

lemma directory_replace_ok:
  "directory_ok dir \<Longrightarrow> directory_ok (snd (DeviceDirectory_Replace lib es dir))"
  by (auto simp: directory_ok_def DeviceDirectory_Replace_def Let_def directory_of_ok)

lemma Entries_ids:
  "directory_ok dir \<Longrightarrow>
   map de_device_id (DeviceDirectory_Entries dir) = sorted_list_of_fset (fmdom (dd_entries dir))"
  unfolding DeviceDirectory_Entries_def map_map
  by (rule map_idI) (auto simp: directory_ok_def fmlookup_dom_iff dest: fmpredD)

lemma Entries_set: "set (DeviceDirectory_Entries dir) = fmran' (dd_entries dir)"
  by (force simp: DeviceDirectory_Entries_def fmlookup_ran'_iff fmlookup_dom_iff)

end
