(* ===== verification/Device_Registry.thy ===== *)
theory Device_Registry
  imports State_Event
begin

text \<open>
  \<^verbatim>\<open>core/device/device_registry.cpp\<close>: the in-memory directory of provisioned devices with
  its two role indexes, one by school identifier and one by school name.
\<close>

datatype Status = Online | Offline

record DeviceRecord =
  dr_device_id :: string
  dr_school_id :: int
  dr_school_name :: string
  dr_dcdw_label :: "string option"
  dr_model_version :: string
  dr_status :: Status
  dr_last_seen_at :: "int option"
  dr_latest_telemetry :: "json option"
  dr_telemetry_received_at :: "int option"
  dr_revision :: "64 word"
  dr_device_type :: DeviceType
  dr_capabilities :: "string list option"
  dr_product :: "json option"
  dr_version :: "json option"

record Mutation =
  mu_record :: DeviceRecord
  mu_reason :: ChangeReason
  mu_status_changed :: bool
  mu_diagnostic :: "string option"

type_synonym role_key = "int \<times> string"
type_synonym named_role_key = "string \<times> string"

record DeviceRegistry =
  rg_records :: "(string, DeviceRecord) fmap"
  rg_roles :: "(role_key, string) fmap"
  rg_named_roles :: "(named_role_key, string list) fmap"

definition DeviceRegistry_new :: DeviceRegistry where
  "DeviceRegistry_new = \<lparr>rg_records = fmempty, rg_roles = fmempty, rg_named_roles = fmempty\<rparr>"

definition AppendDiagnostic :: "string option \<Rightarrow> string \<Rightarrow> string option" where
  "AppendDiagnostic diagnostic message =
     (case diagnostic of None \<Rightarrow> Some message | Some d \<Rightarrow> Some (d @ msg_separator @ message))"

text \<open>\<^verbatim>\<open>m[key].push_back(value)\<close>\<close>

definition push_back_at :: "'k \<Rightarrow> 'v \<Rightarrow> ('k, 'v list) fmap \<Rightarrow> ('k, 'v list) fmap" where
  "push_back_at key value m =
     fmupd key ((case fmlookup m key of None \<Rightarrow> [] | Some vs \<Rightarrow> vs) @ [value]) m"

definition AddNamedRole :: "DeviceRecord \<Rightarrow> DeviceRegistry \<Rightarrow> DeviceRegistry" where
  "AddNamedRole record reg =
     (case dr_dcdw_label record of
        None \<Rightarrow> reg
      | Some label \<Rightarrow>
          reg\<lparr>rg_named_roles := push_back_at (dr_school_name record, label) (dr_device_id record)
                                 (rg_named_roles reg)\<rparr>)"

definition RemoveNamedRole :: "DeviceRecord \<Rightarrow> DeviceRegistry \<Rightarrow> DeviceRegistry" where
  "RemoveNamedRole record reg =
     (case dr_dcdw_label record of
        None \<Rightarrow> reg
      | Some label \<Rightarrow>
          (case fmlookup (rg_named_roles reg) (dr_school_name record, label) of
             None \<Rightarrow> reg
           | Some device_ids \<Rightarrow>
               let device_ids' = filter (\<lambda>d. d \<noteq> dr_device_id record) device_ids
               in if device_ids' = []
                  then reg\<lparr>rg_named_roles := fmdrop (dr_school_name record, label) (rg_named_roles reg)\<rparr>
                  else reg\<lparr>rg_named_roles := fmupd (dr_school_name record, label) device_ids'
                                                (rg_named_roles reg)\<rparr>))"

text \<open>The body of the loop of \<^verbatim>\<open>Load\<close>, on the maps being built.\<close>

definition load_record :: "DeviceRecord \<Rightarrow> DeviceRegistry \<Rightarrow> string + DeviceRegistry" where
  "load_record record reg =
     (let device_id = dr_device_id record
      in if fmlookup (rg_records reg) device_id \<noteq> None then Inl (msg_load_duplicate_id @ device_id)
         else bindE
           (case dr_dcdw_label record of
              None \<Rightarrow> Inr reg
            | Some label \<Rightarrow>
                let key = (dr_school_id record, label)
                in if fmlookup (rg_roles reg) key \<noteq> None then Inl (msg_load_role_conflict @ label)
                   else Inr (reg\<lparr>rg_roles := fmupd key device_id (rg_roles reg),
                                 rg_named_roles := push_back_at (dr_school_name record, label) device_id
                                   (rg_named_roles reg)\<rparr>))
           (\<lambda>reg'. Inr (reg'\<lparr>rg_records := fmupd device_id record (rg_records reg')\<rparr>)))"

fun load_records :: "DeviceRecord list \<Rightarrow> DeviceRegistry \<Rightarrow> string + DeviceRegistry" where
  "load_records [] reg = Inr reg"
| "load_records (r # rs) reg = bindE (load_record r reg) (load_records rs)"

definition Load :: "DeviceRecord list \<Rightarrow> DeviceRegistry \<Rightarrow> (string + unit) \<times> DeviceRegistry" where
  "Load records reg =
     (case load_records records DeviceRegistry_new of
        Inl e \<Rightarrow> (Inl e, reg)
      | Inr loaded \<Rightarrow> (Inr (), loaded))"

text \<open>
  The part of \<^verbatim>\<open>ApplyRegistration\<close> and \<^verbatim>\<open>ApplyTelemetry\<close> that decides what happens to
  the role: the new label, whether the old and the new role key are to be updated, and whether
  the role was refused.
\<close>

datatype role_decision = KeepRole | RefuseRole | TakeRole string bool
  \<comment> \<open>\<^verbatim>\<open>TakeRole label fresh\<close>: \<^verbatim>\<open>fresh\<close> when the key has no owner yet\<close>

definition decide_role :: "DeviceRegistry \<Rightarrow> DeviceRecord \<Rightarrow> string \<Rightarrow> role_decision" where
  "decide_role reg record label =
     (case fmlookup (rg_roles reg) (dr_school_id record, label) of
        None \<Rightarrow> TakeRole label True
      | Some owner \<Rightarrow> if owner \<noteq> dr_device_id record then RefuseRole else TakeRole label False)"

definition registration_role :: "DeviceRegistry \<Rightarrow> DeviceRecord \<Rightarrow> Registration \<Rightarrow> role_decision" where
  "registration_role reg record registration =
     (case reg_dcdw_label registration of
        None \<Rightarrow> KeepRole
      | Some label \<Rightarrow>
          if Some label = dr_dcdw_label record then KeepRole else decide_role reg record label)"

definition registration_diagnostic ::
    "role_decision \<Rightarrow> DeviceRecord \<Rightarrow> Registration \<Rightarrow> string option" where
  "registration_diagnostic role record registration =
     (let diagnostic = (case reg_school_name registration of
            None \<Rightarrow> None
          | Some school \<Rightarrow> if school \<noteq> dr_school_name record
              then AppendDiagnostic None msg_refuse_school_move else None)
      in if role = RefuseRole then AppendDiagnostic diagnostic msg_refuse_role else diagnostic)"

definition registration_record ::
    "role_decision \<Rightarrow> DeviceRecord \<Rightarrow> Registration \<Rightarrow> int \<Rightarrow> DeviceRecord" where
  "registration_record role record registration received_at =
     (let online = (reg_status registration = RegOnline)
      in record\<lparr>dr_dcdw_label := (case role of TakeRole label _ \<Rightarrow> Some label | _ \<Rightarrow> dr_dcdw_label record),
                dr_capabilities := (case reg_capabilities registration of
                   None \<Rightarrow> dr_capabilities record | Some c \<Rightarrow> Some c),
                dr_product := (case reg_product registration of
                   None \<Rightarrow> dr_product record | Some p \<Rightarrow> Some p),
                dr_version := (case reg_version registration of
                   None \<Rightarrow> dr_version record | Some v \<Rightarrow> Some v),
                dr_status := (if online then Online else Offline),
                dr_last_seen_at := (if online then Some received_at else dr_last_seen_at record),
                dr_revision := dr_revision record + 1\<rparr>)"

text \<open>
  The commit at the end of \<^verbatim>\<open>ApplyRegistration\<close>: the old named role is removed, the new
  role key inserted, the record swapped in, the new named role added and the old key erased, in
  this order.
\<close>

definition commit_record ::
    "role_decision \<Rightarrow> DeviceRecord \<Rightarrow> DeviceRecord \<Rightarrow> DeviceRegistry \<Rightarrow> DeviceRegistry" where
  "commit_record role record new_record reg =
     (let old_role = (case role of
            TakeRole _ _ \<Rightarrow> map_option (\<lambda>l. (dr_school_id record, l)) (dr_dcdw_label record)
          | _ \<Rightarrow> None);
          new_role = (case role of
            TakeRole label True \<Rightarrow> Some (dr_school_id record, label)
          | _ \<Rightarrow> None);
          reg1 = (if old_role \<noteq> None then RemoveNamedRole record reg else reg);
          reg2 = (case new_role of
            None \<Rightarrow> reg1
          | Some key \<Rightarrow> reg1\<lparr>rg_roles := fmupd key (dr_device_id record) (rg_roles reg1)\<rparr>);
          reg3 = reg2\<lparr>rg_records := fmupd (dr_device_id record) new_record (rg_records reg2)\<rparr>;
          reg4 = (if new_role \<noteq> None then AddNamedRole new_record reg3 else reg3)
      in (case old_role of
            None \<Rightarrow> reg4
          | Some key \<Rightarrow> reg4\<lparr>rg_roles := fmdrop key (rg_roles reg4)\<rparr>))"

definition ApplyRegistration ::
    "Registration \<Rightarrow> int \<Rightarrow> DeviceRegistry \<Rightarrow> (string + Mutation) \<times> DeviceRegistry" where
  "ApplyRegistration registration received_at reg =
     (case fmlookup (rg_records reg) (reg_device_id registration) of
        None \<Rightarrow> (Inl (msg_unknown_device @ reg_device_id registration), reg)
      | Some record \<Rightarrow>
          if dr_device_type record \<noteq> reg_device_type registration
          then (Inl msg_device_type_mismatch, reg)
          else
            let role = registration_role reg record registration;
                new_record = registration_record role record registration received_at;
                online = (reg_status registration = RegOnline)
            in (Inr \<lparr>mu_record = new_record,
                     mu_reason = (if online then RegistrationOnline else RegistrationOffline),
                     mu_status_changed = (dr_status record \<noteq> dr_status new_record),
                     mu_diagnostic = registration_diagnostic role record registration\<rparr>,
                commit_record role record new_record reg))"

definition telemetry_role :: "DeviceRegistry \<Rightarrow> DeviceRecord \<Rightarrow> Telemetry \<Rightarrow> role_decision" where
  "telemetry_role reg record telemetry =
     (case (dr_dcdw_label record, tel_dcdw_label telemetry) of
        (None, Some label) \<Rightarrow> decide_role reg record label
      | _ \<Rightarrow> KeepRole)"

definition telemetry_record ::
    "role_decision \<Rightarrow> DeviceRecord \<Rightarrow> Telemetry \<Rightarrow> int \<Rightarrow> DeviceRecord" where
  "telemetry_record role record telemetry received_at =
     \<lparr>dr_device_id = dr_device_id record,
      dr_school_id = dr_school_id record,
      dr_school_name = dr_school_name record,
      dr_dcdw_label = (case role of TakeRole label _ \<Rightarrow> Some label | _ \<Rightarrow> dr_dcdw_label record),
      dr_model_version = dr_model_version record,
      dr_status = Online,
      dr_last_seen_at = Some received_at,
      dr_latest_telemetry = Some (tel_payload telemetry),
      dr_telemetry_received_at = Some received_at,
      dr_revision = dr_revision record + 1,
      dr_device_type = dr_device_type record,
      dr_capabilities = dr_capabilities record,
      dr_product = dr_product record,
      dr_version = dr_version record\<rparr>"

definition ApplyTelemetry ::
    "string \<Rightarrow> Telemetry \<Rightarrow> int \<Rightarrow> DeviceRegistry \<Rightarrow> (string + Mutation) \<times> DeviceRegistry" where
  "ApplyTelemetry device_id telemetry received_at reg =
     (case fmlookup (rg_records reg) device_id of
        None \<Rightarrow> (Inl (msg_unknown_device @ device_id), reg)
      | Some record \<Rightarrow>
          if tel_device_type telemetry \<noteq> None \<and> the (tel_device_type telemetry) \<noteq> dr_device_type record
          then (Inl msg_device_type_mismatch, reg)
          else
            let role = telemetry_role reg record telemetry;
                new_record = telemetry_record role record telemetry received_at
            in (Inr \<lparr>mu_record = new_record, mu_reason = TelemetryReason,
                     mu_status_changed = (dr_status record \<noteq> dr_status new_record),
                     mu_diagnostic = (if role = RefuseRole then Some msg_refuse_role else None)\<rparr>,
                commit_record role record new_record reg))"

definition is_expired :: "int \<Rightarrow> int \<Rightarrow> DeviceRecord \<Rightarrow> bool" where
  "is_expired now timeout_s record \<longleftrightarrow>
     dr_status record = Online \<and>
     (case dr_last_seen_at record of None \<Rightarrow> False | Some t \<Rightarrow> \<not> now - t < timeout_s * 1000000000)"

definition expire :: "DeviceRecord \<Rightarrow> DeviceRecord" where
  "expire record = record\<lparr>dr_status := Offline, dr_revision := dr_revision record + 1\<rparr>"

definition expired_keys :: "string list \<Rightarrow> int \<Rightarrow> int \<Rightarrow> DeviceRegistry \<Rightarrow> string list" where
  "expired_keys ks now timeout_s reg =
     filter (\<lambda>k. case fmlookup (rg_records reg) k of
                   None \<Rightarrow> False | Some r \<Rightarrow> is_expired now timeout_s r) ks"

text \<open>\<^term>\<open>ks\<close> is the order in which the unordered map of records is iterated.\<close>

definition ExpireInactive ::
    "string list \<Rightarrow> int \<Rightarrow> int \<Rightarrow> DeviceRegistry \<Rightarrow> Mutation list \<times> DeviceRegistry" where
  "ExpireInactive ks now timeout_s reg =
     (let expired = expired_keys ks now timeout_s reg;
          replacement = (\<lambda>k. expire (the (fmlookup (rg_records reg) k)))
      in (map (\<lambda>k. \<lparr>mu_record = replacement k, mu_reason = ActivityTimeout,
                     mu_status_changed = True, mu_diagnostic = None\<rparr>) expired,
          reg\<lparr>rg_records := fold (\<lambda>k m. fmupd k (replacement k) m) expired (rg_records reg)\<rparr>))"

definition AddProvisioned :: "DeviceRecord \<Rightarrow> DeviceRegistry \<Rightarrow> (string + unit) \<times> DeviceRegistry" where
  "AddProvisioned record reg =
     (if fmlookup (rg_records reg) (dr_device_id record) \<noteq> None
      then (Inl (msg_duplicate_id @ dr_device_id record), reg)
      else
        (case (case dr_dcdw_label record of
                 None \<Rightarrow> Inr reg
               | Some label \<Rightarrow>
                   let key = (dr_school_id record, label)
                   in if fmlookup (rg_roles reg) key \<noteq> None then Inl (msg_role_conflict @ label)
                      else Inr (reg\<lparr>rg_roles := fmupd key (dr_device_id record) (rg_roles reg)\<rparr>)) of
           Inl e \<Rightarrow> (Inl e, reg)
         | Inr reg' \<Rightarrow>
             (Inr (), AddNamedRole record
                (reg'\<lparr>rg_records := fmupd (dr_device_id record) record (rg_records reg')\<rparr>))))"

definition records_in :: "string list \<Rightarrow> DeviceRegistry \<Rightarrow> DeviceRecord list" where
  "records_in ks reg = map (\<lambda>k. the (fmlookup (rg_records reg) k)) ks"

definition ListOnlineDevices :: "string list \<Rightarrow> DeviceRegistry \<Rightarrow> DeviceRecord list" where
  "ListOnlineDevices ks reg =
     sort_key dr_device_id (filter (\<lambda>r. dr_status r = Online) (records_in ks reg))"

definition ListDevices :: "string list \<Rightarrow> DeviceRegistry \<Rightarrow> DeviceRecord list" where
  "ListDevices ks reg = sort_key dr_device_id (records_in ks reg)"

definition Find :: "DeviceRegistry \<Rightarrow> string \<Rightarrow> DeviceRecord option" where
  "Find reg device_id = fmlookup (rg_records reg) device_id"

definition FindBySchoolAndLabel :: "DeviceRegistry \<Rightarrow> int \<Rightarrow> string \<Rightarrow> DeviceRecord option" where
  "FindBySchoolAndLabel reg school_id label =
     (case fmlookup (rg_roles reg) (school_id, label) of
        None \<Rightarrow> None
      | Some device_id \<Rightarrow> Find reg device_id)"

definition FindBySchoolNameAndLabel ::
    "DeviceRegistry \<Rightarrow> string \<Rightarrow> string \<Rightarrow> DeviceRecord option" where
  "FindBySchoolNameAndLabel reg school_name label =
     (case fmlookup (rg_named_roles reg) (school_name, label) of
        Some [device_id] \<Rightarrow> Find reg device_id
      | _ \<Rightarrow> None)"

definition IsSchoolNameAndLabelAmbiguous :: "DeviceRegistry \<Rightarrow> string \<Rightarrow> string \<Rightarrow> bool" where
  "IsSchoolNameAndLabelAmbiguous reg school_name label =
     (case fmlookup (rg_named_roles reg) (school_name, label) of
        None \<Rightarrow> False
      | Some device_ids \<Rightarrow> length device_ids > 1)"

subsection \<open>The invariant that ties the indexes to the records\<close>

definition list_at :: "('k, 'v list) fmap \<Rightarrow> 'k \<Rightarrow> 'v list" where
  "list_at m k = (case fmlookup m k of None \<Rightarrow> [] | Some vs \<Rightarrow> vs)"

definition holds_role :: "(string, DeviceRecord) fmap \<Rightarrow> string \<Rightarrow> int \<Rightarrow> string \<Rightarrow> bool" where
  "holds_role m d school label \<longleftrightarrow>
     (\<exists>r. fmlookup m d = Some r \<and> dr_school_id r = school \<and> dr_dcdw_label r = Some label)"

definition holds_named :: "(string, DeviceRecord) fmap \<Rightarrow> string \<Rightarrow> string \<Rightarrow> string \<Rightarrow> bool" where
  "holds_named m d school label \<longleftrightarrow>
     (\<exists>r. fmlookup m d = Some r \<and> dr_school_name r = school \<and> dr_dcdw_label r = Some label)"

definition keyed :: "(string, DeviceRecord) fmap \<Rightarrow> bool" where
  "keyed m \<longleftrightarrow> (\<forall>k r. fmlookup m k = Some r \<longrightarrow> dr_device_id r = k)"

definition registry_ok :: "DeviceRegistry \<Rightarrow> bool" where
  "registry_ok reg \<longleftrightarrow>
     keyed (rg_records reg) \<and>
     (\<forall>s l d. fmlookup (rg_roles reg) (s, l) = Some d \<longleftrightarrow> holds_role (rg_records reg) d s l) \<and>
     (\<forall>n l d. d \<in> set (list_at (rg_named_roles reg) (n, l)) \<longleftrightarrow> holds_named (rg_records reg) d n l) \<and>
     (\<forall>k. distinct (list_at (rg_named_roles reg) k)) \<and>
     (\<forall>k. fmlookup (rg_named_roles reg) k \<noteq> Some [])"

subsection \<open>Lemmas on the indexes\<close>

lemma list_at_push_back [simp]:
  "list_at (push_back_at k v m) k' = (if k' = k then list_at m k @ [v] else list_at m k')"
  by (simp add: list_at_def push_back_at_def split: option.split)

lemma push_back_at_eq_Nil [simp]:
  "fmlookup (push_back_at k v m) k' = Some [] \<longleftrightarrow> k' \<noteq> k \<and> fmlookup m k' = Some []"
  by (auto simp: push_back_at_def)

lemma AddNamedRole_simps [simp]:
  "rg_records (AddNamedRole r reg) = rg_records reg"
  "rg_roles (AddNamedRole r reg) = rg_roles reg"
  "dr_dcdw_label r = Some l \<Longrightarrow>
     rg_named_roles (AddNamedRole r reg) =
       push_back_at (dr_school_name r, l) (dr_device_id r) (rg_named_roles reg)"
  by (simp_all add: AddNamedRole_def split: option.split)

lemma RemoveNamedRole_simps [simp]:
  "rg_records (RemoveNamedRole r reg) = rg_records reg"
  "rg_roles (RemoveNamedRole r reg) = rg_roles reg"
  by (simp_all add: RemoveNamedRole_def Let_def split: option.split)

lemma list_at_RemoveNamedRole:
  "dr_dcdw_label r = Some l \<Longrightarrow>
     list_at (rg_named_roles (RemoveNamedRole r reg)) k =
       (if k = (dr_school_name r, l)
        then filter (\<lambda>d. d \<noteq> dr_device_id r) (list_at (rg_named_roles reg) k)
        else list_at (rg_named_roles reg) k)"
  by (auto simp: RemoveNamedRole_def list_at_def Let_def split: option.split)

lemma RemoveNamedRole_nonempty:
  "fmlookup (rg_named_roles reg) k \<noteq> Some [] \<Longrightarrow>
     fmlookup (rg_named_roles (RemoveNamedRole r reg)) k \<noteq> Some []"
  by (auto simp: RemoveNamedRole_def Let_def split: option.split)

lemma registry_okD:
  assumes "registry_ok reg"
  shows "fmlookup (rg_records reg) k = Some r \<Longrightarrow> dr_device_id r = k"
    and "fmlookup (rg_roles reg) (s, l) = Some d \<longleftrightarrow> holds_role (rg_records reg) d s l"
    and "d \<in> set (list_at (rg_named_roles reg) (n, l)) \<longleftrightarrow> holds_named (rg_records reg) d n l"
    and "distinct (list_at (rg_named_roles reg) key)"
    and "fmlookup (rg_named_roles reg) key \<noteq> Some []"
  using assms by (cases key; auto simp: registry_ok_def keyed_def)+

lemma holds_role_unique:
  assumes "registry_ok reg" "holds_role (rg_records reg) d s l" "holds_role (rg_records reg) d' s l"
  shows "d = d'"
  using assms(2,3) registry_okD(2) [OF assms(1), of s l] by (metis option.inject)

lemma registry_ok_new: "registry_ok DeviceRegistry_new"
  by (simp add: registry_ok_def DeviceRegistry_new_def keyed_def holds_role_def holds_named_def list_at_def)

text \<open>Replacing a record by one with the same identity and role.\<close>

definition same_role :: "DeviceRecord \<Rightarrow> DeviceRecord \<Rightarrow> bool" where
  "same_role r r' \<longleftrightarrow>
     dr_device_id r' = dr_device_id r \<and> dr_school_id r' = dr_school_id r \<and>
     dr_school_name r' = dr_school_name r \<and> dr_dcdw_label r' = dr_dcdw_label r"

lemma registry_ok_replace:
  assumes "registry_ok reg" "fmlookup (rg_records reg) d = Some r" "same_role r r'"
  shows "registry_ok (reg\<lparr>rg_records := fmupd d r' (rg_records reg)\<rparr>)"
proof -
  have "holds_role (fmupd d r' (rg_records reg)) = holds_role (rg_records reg)"
    "holds_named (fmupd d r' (rg_records reg)) = holds_named (rg_records reg)"
    using assms(2,3) by (auto simp: fun_eq_iff holds_role_def holds_named_def same_role_def)
  moreover have "keyed (fmupd d r' (rg_records reg))"
    using assms by (auto simp: registry_ok_def keyed_def same_role_def)
  ultimately show ?thesis
    using assms(1) by (simp add: registry_ok_def)
qed

text \<open>Adding a device whose role, if it has one, is free.\<close>

definition insert_record :: "DeviceRecord \<Rightarrow> DeviceRegistry \<Rightarrow> DeviceRegistry" where
  "insert_record r reg =
     reg\<lparr>rg_records := fmupd (dr_device_id r) r (rg_records reg),
         rg_roles := (case dr_dcdw_label r of None \<Rightarrow> rg_roles reg
            | Some l \<Rightarrow> fmupd (dr_school_id r, l) (dr_device_id r) (rg_roles reg)),
         rg_named_roles := (case dr_dcdw_label r of None \<Rightarrow> rg_named_roles reg
            | Some l \<Rightarrow> push_back_at (dr_school_name r, l) (dr_device_id r) (rg_named_roles reg))\<rparr>"

definition role_free :: "DeviceRecord \<Rightarrow> DeviceRegistry \<Rightarrow> bool" where
  "role_free r reg \<longleftrightarrow>
     (\<forall>l. dr_dcdw_label r = Some l \<longrightarrow> fmlookup (rg_roles reg) (dr_school_id r, l) = None)"

lemma registry_ok_insert:
  assumes ok: "registry_ok reg" and new: "fmlookup (rg_records reg) (dr_device_id r) = None"
    and free: "role_free r reg"
  shows "registry_ok (insert_record r reg)"
proof -
  let ?d = "dr_device_id r" and ?reg = "insert_record r reg"
  have none: "dr_dcdw_label r = Some l \<Longrightarrow> \<not> holds_role (rg_records reg) d (dr_school_id r) l" for d l
    using registry_okD(2) [OF ok, of "dr_school_id r" l d] free by (simp add: role_free_def)
  have roles: "fmlookup (rg_roles ?reg) (s, l) = Some d \<longleftrightarrow> holds_role (rg_records ?reg) d s l" for s l d
    using registry_okD(2) [OF ok] new free none [of l d]
    by (auto simp: insert_record_def holds_role_def role_free_def split: option.splits)
  have named: "d \<in> set (list_at (rg_named_roles ?reg) (n, l)) \<longleftrightarrow> holds_named (rg_records ?reg) d n l" for n l d
    using registry_okD(3) [OF ok] new
    by (auto simp: insert_record_def holds_named_def split: option.splits)
  have fresh: "?d \<notin> set (list_at (rg_named_roles reg) k)" for k
    using registry_okD(3) [OF ok, of ?d] new by (cases k) (simp add: holds_named_def)
  have "distinct (list_at (rg_named_roles ?reg) k)" "fmlookup (rg_named_roles ?reg) k \<noteq> Some []" for k
    using registry_okD(4,5) [OF ok, of k] fresh
    by (auto simp: insert_record_def split: option.splits)
  moreover have "keyed (rg_records ?reg)"
    using registry_okD(1) [OF ok] by (auto simp: insert_record_def keyed_def)
  ultimately show ?thesis
    using roles named by (simp add: registry_ok_def)
qed

text \<open>Giving a device that is already there a role no other device of its school holds.\<close>

lemma commit_record_keep:
  "role \<in> {KeepRole, RefuseRole} \<Longrightarrow>
     commit_record role r r' reg = reg\<lparr>rg_records := fmupd (dr_device_id r) r' (rg_records reg)\<rparr>"
  by (auto simp: commit_record_def)

lemma commit_record_fresh:
  assumes "dr_dcdw_label r' = Some l" "dr_school_name r' = dr_school_name r"
    "dr_device_id r' = dr_device_id r" "dr_dcdw_label r \<noteq> Some l"
  shows "rg_records (commit_record (TakeRole l True) r r' reg) = fmupd (dr_device_id r) r' (rg_records reg)"
    and "fmlookup (rg_roles (commit_record (TakeRole l True) r r' reg)) (s, m) =
      (if s = dr_school_id r \<and> m = l then Some (dr_device_id r)
       else if s = dr_school_id r \<and> dr_dcdw_label r = Some m then None
       else fmlookup (rg_roles reg) (s, m))"
    and "list_at (rg_named_roles (commit_record (TakeRole l True) r r' reg)) (n, m) =
      (if n = dr_school_name r \<and> m = l then list_at (rg_named_roles reg) (n, m) @ [dr_device_id r]
       else if n = dr_school_name r \<and> dr_dcdw_label r = Some m
       then filter (\<lambda>d. d \<noteq> dr_device_id r) (list_at (rg_named_roles reg) (n, m))
       else list_at (rg_named_roles reg) (n, m))"
    and "fmlookup (rg_named_roles reg) k \<noteq> Some [] \<Longrightarrow>
      fmlookup (rg_named_roles (commit_record (TakeRole l True) r r' reg)) k \<noteq> Some []"
proof -
  show "rg_records (commit_record (TakeRole l True) r r' reg) = fmupd (dr_device_id r) r' (rg_records reg)"
    by (simp add: commit_record_def Let_def split: option.split)
  show "fmlookup (rg_roles (commit_record (TakeRole l True) r r' reg)) (s, m) =
      (if s = dr_school_id r \<and> m = l then Some (dr_device_id r)
       else if s = dr_school_id r \<and> dr_dcdw_label r = Some m then None
       else fmlookup (rg_roles reg) (s, m))"
    using assms(4) by (cases "dr_dcdw_label r") (auto simp: commit_record_def Let_def)
  show "list_at (rg_named_roles (commit_record (TakeRole l True) r r' reg)) (n, m) =
      (if n = dr_school_name r \<and> m = l then list_at (rg_named_roles reg) (n, m) @ [dr_device_id r]
       else if n = dr_school_name r \<and> dr_dcdw_label r = Some m
       then filter (\<lambda>d. d \<noteq> dr_device_id r) (list_at (rg_named_roles reg) (n, m))
       else list_at (rg_named_roles reg) (n, m))"
    using assms
    by (cases "dr_dcdw_label r") (auto simp: commit_record_def Let_def list_at_RemoveNamedRole)
  assume "fmlookup (rg_named_roles reg) k \<noteq> Some []"
  then show "fmlookup (rg_named_roles (commit_record (TakeRole l True) r r' reg)) k \<noteq> Some []"
    using assms(1) RemoveNamedRole_nonempty [of reg k r]
    by (cases "dr_dcdw_label r") (simp_all add: commit_record_def Let_def)
qed

lemma registry_ok_relabel:
  assumes ok: "registry_ok reg" and old: "fmlookup (rg_records reg) (dr_device_id r) = Some r"
    and new: "dr_dcdw_label r' = Some l" "dr_school_name r' = dr_school_name r"
      "dr_school_id r' = dr_school_id r" "dr_device_id r' = dr_device_id r"
    and diff: "dr_dcdw_label r \<noteq> Some l" and free: "fmlookup (rg_roles reg) (dr_school_id r, l) = None"
  shows "registry_ok (commit_record (TakeRole l True) r r' reg)"
proof -
  let ?reg = "commit_record (TakeRole l True) r r' reg"
  note commit = commit_record_fresh [OF new(1,2,4) diff]
  have none: "\<not> holds_role (rg_records reg) d (dr_school_id r) l" for d
    using registry_okD(2) [OF ok, of "dr_school_id r" l d] free by simp
  have uniq: "dr_dcdw_label r = Some m \<Longrightarrow> holds_role (rg_records reg) d (dr_school_id r) m \<Longrightarrow>
      d = dr_device_id r" for d m
    by (rule holds_role_unique [OF ok]) (use old in \<open>simp_all add: holds_role_def\<close>)
  have roles: "fmlookup (rg_roles ?reg) (s, m) = Some d \<longleftrightarrow> holds_role (rg_records ?reg) d s m" for s m d
    using registry_okD(2) [OF ok, of s m] old new none uniq [of m d]
    by (auto simp: commit holds_role_def split: if_splits)
  have named: "d \<in> set (list_at (rg_named_roles ?reg) (n, m)) \<longleftrightarrow> holds_named (rg_records ?reg) d n m" for n m d
    using registry_okD(3) [OF ok, of _ n m] old new diff
    by (auto simp: commit holds_named_def split: if_splits)
  have "dr_device_id r \<notin> set (list_at (rg_named_roles reg) (n, l))" for n
    using registry_okD(3) [OF ok, of "dr_device_id r" n l] old diff by (simp add: holds_named_def)
  then have "distinct (list_at (rg_named_roles ?reg) k)" for k
    using registry_okD(4) [OF ok, of k] by (cases k) (auto simp: commit)
  moreover have "fmlookup (rg_named_roles ?reg) k \<noteq> Some []" for k
    using registry_okD(5) [OF ok] by (rule commit(4))
  moreover have "keyed (rg_records ?reg)"
    using registry_okD(1) [OF ok] new by (auto simp: commit keyed_def)
  ultimately show ?thesis
    using roles named by (simp add: registry_ok_def)
qed

subsection \<open>Every operation keeps the invariant\<close>

lemma load_record_insert:
  "load_record r reg = Inr reg' \<longleftrightarrow>
     fmlookup (rg_records reg) (dr_device_id r) = None \<and> role_free r reg \<and> reg' = insert_record r reg"
  by (cases "dr_dcdw_label r") (auto simp: load_record_def Let_def insert_record_def role_free_def)

lemma load_records_ok: "load_records rs reg = Inr reg' \<Longrightarrow> registry_ok reg \<Longrightarrow> registry_ok reg'"
  by (induction rs arbitrary: reg) (auto simp: outcome load_record_insert registry_ok_insert)

lemma Load_ok: "registry_ok reg \<Longrightarrow> registry_ok (snd (Load rs reg))"
  by (auto simp: Load_def registry_ok_new intro: load_records_ok split: sum.split)

lemma AddProvisioned_insert:
  "AddProvisioned r reg = (Inr u, reg') \<longleftrightarrow>
     fmlookup (rg_records reg) (dr_device_id r) = None \<and> role_free r reg \<and> reg' = insert_record r reg"
  by (cases "dr_dcdw_label r")
     (auto simp: AddProvisioned_def Let_def insert_record_def role_free_def AddNamedRole_def)

lemma AddProvisioned_error: "AddProvisioned r reg = (Inl e, reg') \<Longrightarrow> reg' = reg"
  by (auto simp: AddProvisioned_def Let_def split: if_splits option.splits sum.splits)

lemma AddProvisioned_ok:
  assumes "registry_ok reg"
  shows "registry_ok (snd (AddProvisioned r reg))"
proof (cases "AddProvisioned r reg")
  case (Pair res reg')
  then show ?thesis
    using assms AddProvisioned_error [of r reg _ reg'] AddProvisioned_insert [of r reg _ reg']
    by (cases res) (simp_all add: registry_ok_insert)
qed

text \<open>
  Under the invariant, a role the device does not hold is either free or owned by another device.
\<close>

lemma decide_role_cases:
  assumes "registry_ok reg" "fmlookup (rg_records reg) d = Some r" "dr_dcdw_label r \<noteq> Some l"
  shows "decide_role reg r l =
     (if fmlookup (rg_roles reg) (dr_school_id r, l) = None then TakeRole l True else RefuseRole)"
proof -
  have "fmlookup (rg_roles reg) (dr_school_id r, l) \<noteq> Some (dr_device_id r)"
    using registry_okD(1,2) [OF assms(1)] assms(2,3) by (auto simp: holds_role_def)
  then show ?thesis by (auto simp: decide_role_def split: option.split)
qed

lemma commit_decided_ok:
  assumes ok: "registry_ok reg" and r: "fmlookup (rg_records reg) d = Some r"
    and same: "dr_device_id r' = dr_device_id r" "dr_school_id r' = dr_school_id r"
      "dr_school_name r' = dr_school_name r"
    and label: "dr_dcdw_label r' = (case role of TakeRole l _ \<Rightarrow> Some l | _ \<Rightarrow> dr_dcdw_label r)"
    and role: "role = KeepRole \<or> (\<exists>l. dr_dcdw_label r \<noteq> Some l \<and> role = decide_role reg r l)"
  shows "registry_ok (commit_record role r r' reg)"
proof (cases "role \<in> {KeepRole, RefuseRole}")
  case True
  then have "same_role r r'" using same label by (auto simp: same_role_def)
  then show ?thesis
    using registry_ok_replace [OF ok r] registry_okD(1) [OF ok r] True
    by (simp only: commit_record_keep)
next
  case False
  with role obtain l where l: "dr_dcdw_label r \<noteq> Some l" "role = decide_role reg r l" by auto
  with False have "role = TakeRole l True" "fmlookup (rg_roles reg) (dr_school_id r, l) = None"
    by (auto simp: decide_role_cases [OF ok r] split: if_splits)
  then show ?thesis
    using registry_ok_relabel [OF ok _ _ same(3,2,1) l(1)] r registry_okD(1) [OF ok r] label by simp
qed

lemma registration_role_decided:
  "registration_role reg r m = KeepRole \<or>
   (\<exists>l. dr_dcdw_label r \<noteq> Some l \<and> registration_role reg r m = decide_role reg r l)"
proof (cases "reg_dcdw_label m")
  case (Some l)
  then show ?thesis
    by (cases "dr_dcdw_label r = Some l") (auto simp: registration_role_def intro: exI [of _ l])
qed (simp add: registration_role_def)

lemma telemetry_role_decided:
  "telemetry_role reg r m = KeepRole \<or>
   (\<exists>l. dr_dcdw_label r \<noteq> Some l \<and> telemetry_role reg r m = decide_role reg r l)"
  by (cases "tel_dcdw_label m"; cases "dr_dcdw_label r") (auto simp: telemetry_role_def)

lemma registration_record_identity [simp]:
  "dr_device_id (registration_record role r m t) = dr_device_id r"
  "dr_school_id (registration_record role r m t) = dr_school_id r"
  "dr_school_name (registration_record role r m t) = dr_school_name r"
  "dr_device_type (registration_record role r m t) = dr_device_type r"
  "dr_model_version (registration_record role r m t) = dr_model_version r"
  "dr_revision (registration_record role r m t) = dr_revision r + 1"
  "dr_latest_telemetry (registration_record role r m t) = dr_latest_telemetry r"
  "dr_telemetry_received_at (registration_record role r m t) = dr_telemetry_received_at r"
  "dr_dcdw_label (registration_record role r m t) =
     (case role of TakeRole l _ \<Rightarrow> Some l | _ \<Rightarrow> dr_dcdw_label r)"
  by (simp_all add: registration_record_def Let_def)

lemma ApplyRegistration_cases:
  obtains (unknown) "fmlookup (rg_records reg) (reg_device_id m) = None"
      "ApplyRegistration m t reg = (Inl (msg_unknown_device @ reg_device_id m), reg)"
  | (mismatch) r where "fmlookup (rg_records reg) (reg_device_id m) = Some r"
      "dr_device_type r \<noteq> reg_device_type m"
      "ApplyRegistration m t reg = (Inl msg_device_type_mismatch, reg)"
  | (applied) r mu where "fmlookup (rg_records reg) (reg_device_id m) = Some r"
      "dr_device_type r = reg_device_type m"
      "mu_record mu = registration_record (registration_role reg r m) r m t"
      "ApplyRegistration m t reg =
         (Inr mu, commit_record (registration_role reg r m) r (mu_record mu) reg)"
proof (cases "fmlookup (rg_records reg) (reg_device_id m)")
  case None
  then show thesis by (intro unknown) (simp_all add: ApplyRegistration_def)
next
  case (Some r)
  show thesis
  proof (cases "dr_device_type r = reg_device_type m")
    case True
    show thesis
      by (rule applied [OF Some True, where mu = "projr (fst (ApplyRegistration m t reg))"])
         (simp_all add: ApplyRegistration_def Some True Let_def)
  next
    case False
    with Some show thesis by (intro mismatch [of r]) (simp_all add: ApplyRegistration_def)
  qed
qed

lemma ApplyTelemetry_cases:
  obtains (unknown) "fmlookup (rg_records reg) d = None"
      "ApplyTelemetry d m t reg = (Inl (msg_unknown_device @ d), reg)"
  | (mismatch) r where "fmlookup (rg_records reg) d = Some r"
      "tel_device_type m \<noteq> None" "tel_device_type m \<noteq> Some (dr_device_type r)"
      "ApplyTelemetry d m t reg = (Inl msg_device_type_mismatch, reg)"
  | (applied) r mu where "fmlookup (rg_records reg) d = Some r"
      "mu_record mu = telemetry_record (telemetry_role reg r m) r m t"
      "mu_reason mu = TelemetryReason"
      "ApplyTelemetry d m t reg =
         (Inr mu, commit_record (telemetry_role reg r m) r (mu_record mu) reg)"
proof (cases "fmlookup (rg_records reg) d")
  case None
  then show thesis by (intro unknown) (simp_all add: ApplyTelemetry_def)
next
  case (Some r)
  let ?bad = "tel_device_type m \<noteq> None \<and> the (tel_device_type m) \<noteq> dr_device_type r"
  show thesis
  proof (cases ?bad)
    case False
    then have "ApplyTelemetry d m t reg =
        (Inr (projr (fst (ApplyTelemetry d m t reg))),
         commit_record (telemetry_role reg r m) r
           (mu_record (projr (fst (ApplyTelemetry d m t reg)))) reg)"
      unfolding ApplyTelemetry_def Some option.case if_not_P [OF False] Let_def by simp
    moreover have "mu_record (projr (fst (ApplyTelemetry d m t reg))) =
        telemetry_record (telemetry_role reg r m) r m t"
      "mu_reason (projr (fst (ApplyTelemetry d m t reg))) = TelemetryReason"
      unfolding ApplyTelemetry_def Some option.case if_not_P [OF False] Let_def by simp_all
    ultimately show thesis using Some by (intro applied)
  next
    case True
    with Some show thesis by (intro mismatch [of r]) (auto simp: ApplyTelemetry_def)
  qed
qed

lemma ApplyRegistration_ok:
  assumes ok: "registry_ok reg"
  shows "registry_ok (snd (ApplyRegistration m t reg))"
proof (cases rule: ApplyRegistration_cases [of reg m t])
  case (applied r mu)
  have "registry_ok (commit_record (registration_role reg r m) r (mu_record mu) reg)"
    by (rule commit_decided_ok [OF ok applied(1)])
       (simp_all add: applied(3) registration_role_decided)
  with applied(4) show ?thesis by simp
qed (use ok in simp_all)

lemma ApplyTelemetry_ok:
  assumes ok: "registry_ok reg"
  shows "registry_ok (snd (ApplyTelemetry d m t reg))"
proof (cases rule: ApplyTelemetry_cases [of reg d m t])
  case (applied r mu)
  have "registry_ok (commit_record (telemetry_role reg r m) r (mu_record mu) reg)"
    by (rule commit_decided_ok [OF ok applied(1)])
       (simp_all add: applied(2) telemetry_role_decided telemetry_record_def)
  with applied(4) show ?thesis by simp
qed (use ok in simp_all)

lemma fold_fmupd_lookup:
  "fmlookup (fold (\<lambda>k m. fmupd k (f k) m) ks m) k = (if k \<in> set ks then Some (f k) else fmlookup m k)"
  by (induction ks arbitrary: m) auto

lemma ExpireInactive_lookup:
  "fmlookup (rg_records (snd (ExpireInactive ks now timeout reg))) k =
     (if k \<in> set (expired_keys ks now timeout reg)
      then map_option expire (fmlookup (rg_records reg) k) else fmlookup (rg_records reg) k)"
  by (auto simp: ExpireInactive_def Let_def fold_fmupd_lookup expired_keys_def split: option.splits)

lemma ExpireInactive_indexes [simp]:
  "rg_roles (snd (ExpireInactive ks now timeout reg)) = rg_roles reg"
  "rg_named_roles (snd (ExpireInactive ks now timeout reg)) = rg_named_roles reg"
  by (simp_all add: ExpireInactive_def Let_def)

lemma ExpireInactive_ok:
  assumes ok: "registry_ok reg"
  shows "registry_ok (snd (ExpireInactive ks now timeout reg))"
proof -
  let ?m = "rg_records (snd (ExpireInactive ks now timeout reg))"
  have "holds_role ?m = holds_role (rg_records reg)" "holds_named ?m = holds_named (rg_records reg)"
    by (auto simp: fun_eq_iff holds_role_def holds_named_def ExpireInactive_lookup expire_def)
  moreover have "keyed ?m"
    using ok by (auto simp: registry_ok_def keyed_def ExpireInactive_lookup expire_def split: if_splits)
  ultimately show ?thesis
    using ok by (simp add: registry_ok_def)
qed

subsection \<open>Reachable registries\<close>

inductive registry_step :: "DeviceRegistry \<Rightarrow> DeviceRegistry \<Rightarrow> bool" where
  load: "registry_step reg (snd (Load rs reg))"
| registration: "registry_step reg (snd (ApplyRegistration m t reg))"
| telemetry: "registry_step reg (snd (ApplyTelemetry d tm t reg))"
| expire: "registry_step reg (snd (ExpireInactive ks now timeout reg))"
| provisioned: "registry_step reg (snd (AddProvisioned r reg))"

inductive registry_reachable :: "DeviceRegistry \<Rightarrow> bool" where
  start: "registry_reachable DeviceRegistry_new"
| step: "registry_reachable reg \<Longrightarrow> registry_step reg reg' \<Longrightarrow> registry_reachable reg'"

inductive_simps registry_step_iff: "registry_step reg reg'"

lemma registry_step_ok: "registry_step reg reg' \<Longrightarrow> registry_ok reg \<Longrightarrow> registry_ok reg'"
  by (induction rule: registry_step.induct)
     (simp_all add: Load_ok ApplyRegistration_ok ApplyTelemetry_ok ExpireInactive_ok AddProvisioned_ok)

lemma registry_reachable_ok: "registry_reachable reg \<Longrightarrow> registry_ok reg"
  by (induction rule: registry_reachable.induct) (auto intro: registry_ok_new registry_step_ok)

subsection \<open>What the lookups promise\<close>

text \<open>The devices that hold a role under a school name.\<close>

definition named_holders :: "(string \<Rightarrow> DeviceRecord option) \<Rightarrow> string \<Rightarrow> string \<Rightarrow> string set" where
  "named_holders lookup school label =
     {d. \<exists>r. lookup d = Some r \<and> dr_school_name r = school \<and> dr_dcdw_label r = Some label}"

text \<open>
  The directory as its clients, the command router and the services, may rely on it: the role
  lookup returns the device that holds the role, and no two devices of a school hold the same one.
\<close>

locale device_directory =
  fixes ok :: "'reg \<Rightarrow> bool"
    and find :: "'reg \<Rightarrow> string \<Rightarrow> DeviceRecord option"
    and find_role :: "'reg \<Rightarrow> int \<Rightarrow> string \<Rightarrow> DeviceRecord option"
    and find_named :: "'reg \<Rightarrow> string \<Rightarrow> string \<Rightarrow> DeviceRecord option"
    and ambiguous :: "'reg \<Rightarrow> string \<Rightarrow> string \<Rightarrow> bool"
  assumes find_id: "ok reg \<Longrightarrow> find reg d = Some r \<Longrightarrow> dr_device_id r = d"
    and find_role_iff: "ok reg \<Longrightarrow> find_role reg s l = Some r \<longleftrightarrow>
      find reg (dr_device_id r) = Some r \<and> dr_school_id r = s \<and> dr_dcdw_label r = Some l"
    and find_named_iff: "ok reg \<Longrightarrow> find_named reg n l = Some r \<longleftrightarrow>
      named_holders (find reg) n l = {dr_device_id r} \<and> find reg (dr_device_id r) = Some r"
    and ambiguous_iff: "ok reg \<Longrightarrow> ambiguous reg n l \<longleftrightarrow>
      (\<exists>d d'. d \<in> named_holders (find reg) n l \<and> d' \<in> named_holders (find reg) n l \<and> d \<noteq> d')"
begin

lemma role_unique:
  "ok reg \<Longrightarrow> find reg d = Some r \<Longrightarrow> find reg d' = Some r' \<Longrightarrow> dr_school_id r = dr_school_id r' \<Longrightarrow>
   dr_dcdw_label r = Some l \<Longrightarrow> dr_dcdw_label r' = Some l \<Longrightarrow> d = d'"
  by (metis find_id find_role_iff option.inject)

lemma named_not_ambiguous:
  assumes "ok reg" "find_named reg n l = Some r"
  shows "\<not> ambiguous reg n l"
proof -
  have "named_holders (find reg) n l = {dr_device_id r}"
    using assms by (simp add: find_named_iff)
  then show ?thesis using assms(1) by (simp add: ambiguous_iff)
qed

lemma named_missing:
  assumes "ok reg" "find_named reg n l = None" "\<not> ambiguous reg n l"
  shows "named_holders (find reg) n l = {}"
proof (rule ccontr)
  assume "named_holders (find reg) n l \<noteq> {}"
  then obtain d where d: "d \<in> named_holders (find reg) n l" by blast
  then have "named_holders (find reg) n l = {d}"
    using assms(1,3) by (auto simp: ambiguous_iff)
  moreover obtain r where "find reg d = Some r" using d by (auto simp: named_holders_def)
  ultimately have "find_named reg n l = Some r"
    using assms(1) find_id [OF assms(1)] by (simp add: find_named_iff)
  with assms(2) show False by simp
qed

end

lemma named_ids:
  assumes "registry_ok reg"
  shows "set (list_at (rg_named_roles reg) (n, l)) = named_holders (Find reg) n l"
  using registry_okD(3) [OF assms, of _ n l] by (auto simp: holds_named_def named_holders_def Find_def)

lemma FindBySchoolNameAndLabel_list:
  "FindBySchoolNameAndLabel reg n l =
     (case list_at (rg_named_roles reg) (n, l) of [d] \<Rightarrow> Find reg d | _ \<Rightarrow> None)"
  by (simp add: FindBySchoolNameAndLabel_def list_at_def split: option.split list.split)

lemma IsSchoolNameAndLabelAmbiguous_list:
  "IsSchoolNameAndLabelAmbiguous reg n l \<longleftrightarrow> length (list_at (rg_named_roles reg) (n, l)) > 1"
  by (simp add: IsSchoolNameAndLabelAmbiguous_def list_at_def split: option.split)

lemma distinct_set_singleton: "distinct xs \<Longrightarrow> set xs = {x} \<longleftrightarrow> xs = [x]"
  by (cases xs rule: remdups_adj.cases) auto

lemma distinct_length_gt_1:
  "distinct xs \<Longrightarrow> length xs > 1 \<longleftrightarrow> (\<exists>x y. x \<in> set xs \<and> y \<in> set xs \<and> x \<noteq> y)"
  by (cases xs rule: remdups_adj.cases) auto

lemma FindBySchoolAndLabel_iff:
  assumes ok: "registry_ok reg"
  shows "FindBySchoolAndLabel reg s l = Some r \<longleftrightarrow>
      Find reg (dr_device_id r) = Some r \<and> dr_school_id r = s \<and> dr_dcdw_label r = Some l"
proof
  assume "FindBySchoolAndLabel reg s l = Some r"
  then obtain d where d: "fmlookup (rg_roles reg) (s, l) = Some d" "fmlookup (rg_records reg) d = Some r"
    by (auto simp: FindBySchoolAndLabel_def Find_def split: option.splits)
  then have "holds_role (rg_records reg) d s l" using registry_okD(2) [OF ok] by blast
  then show "Find reg (dr_device_id r) = Some r \<and> dr_school_id r = s \<and> dr_dcdw_label r = Some l"
    using d(2) registry_okD(1) [OF ok d(2)] by (simp add: holds_role_def Find_def)
next
  assume r: "Find reg (dr_device_id r) = Some r \<and> dr_school_id r = s \<and> dr_dcdw_label r = Some l"
  then have "holds_role (rg_records reg) (dr_device_id r) s l" by (simp add: holds_role_def Find_def)
  then have "fmlookup (rg_roles reg) (s, l) = Some (dr_device_id r)"
    using registry_okD(2) [OF ok] by blast
  then show "FindBySchoolAndLabel reg s l = Some r"
    using r by (simp add: FindBySchoolAndLabel_def Find_def)
qed

interpretation dev_dir: device_directory registry_ok Find FindBySchoolAndLabel
  FindBySchoolNameAndLabel IsSchoolNameAndLabelAmbiguous
proof
  fix reg s l d r assume ok: "registry_ok reg"
  show "Find reg d = Some r \<Longrightarrow> dr_device_id r = d"
    using registry_okD(1) [OF ok] by (simp add: Find_def)
  show "FindBySchoolAndLabel reg s l = Some r \<longleftrightarrow>
      Find reg (dr_device_id r) = Some r \<and> dr_school_id r = s \<and> dr_dcdw_label r = Some l"
    using ok by (rule FindBySchoolAndLabel_iff)
next
  fix reg n l r assume ok: "registry_ok reg"
  note ds = named_ids [OF ok, of n l] registry_okD(4) [OF ok, of "(n, l)"]
  show "FindBySchoolNameAndLabel reg n l = Some r \<longleftrightarrow>
      named_holders (Find reg) n l = {dr_device_id r} \<and> Find reg (dr_device_id r) = Some r"
    unfolding ds(1) [symmetric] distinct_set_singleton [OF ds(2)] FindBySchoolNameAndLabel_list
    by (cases "list_at (rg_named_roles reg) (n, l)" rule: remdups_adj.cases)
       (auto simp: Find_def dest: registry_okD(1) [OF ok])
  show "IsSchoolNameAndLabelAmbiguous reg n l \<longleftrightarrow>
      (\<exists>d d'. d \<in> named_holders (Find reg) n l \<and> d' \<in> named_holders (Find reg) n l \<and> d \<noteq> d')"
    unfolding IsSchoolNameAndLabelAmbiguous_list distinct_length_gt_1 [OF ds(2)] ds(1) by blast
qed

subsection \<open>Facts the properties rest on\<close>

lemma commit_record_records [simp]:
  "rg_records (commit_record role r r' reg) = fmupd (dr_device_id r) r' (rg_records reg)"
  by (auto simp: commit_record_def Let_def split: role_decision.split option.split)

lemma FindBySchoolAndLabel_None:
  assumes "registry_ok reg"
  shows "FindBySchoolAndLabel reg s l = None \<longleftrightarrow> fmlookup (rg_roles reg) (s, l) = None"
proof (cases "fmlookup (rg_roles reg) (s, l)")
  case (Some d)
  then have "holds_role (rg_records reg) d s l" using registry_okD(2) [OF assms] by blast
  then show ?thesis using Some by (auto simp: FindBySchoolAndLabel_def Find_def holds_role_def)
qed (simp add: FindBySchoolAndLabel_def)

text \<open>
  The label a device has after asking for one: the one it asked for, unless another device of its
  school holds it.
\<close>

definition granted_label :: "DeviceRegistry \<Rightarrow> DeviceRecord \<Rightarrow> string option \<Rightarrow> string option" where
  "granted_label reg r wish =
     (case wish of
        None \<Rightarrow> dr_dcdw_label r
      | Some l \<Rightarrow> (case FindBySchoolAndLabel reg (dr_school_id r) l of
            None \<Rightarrow> Some l
          | Some holder \<Rightarrow> if dr_device_id holder = dr_device_id r then Some l else dr_dcdw_label r))"

lemma granted_label_decided:
  assumes ok: "registry_ok reg" and r: "fmlookup (rg_records reg) d = Some r"
    and l: "dr_dcdw_label r \<noteq> Some l"
  shows "(case decide_role reg r l of TakeRole m _ \<Rightarrow> Some m | _ \<Rightarrow> dr_dcdw_label r) =
     granted_label reg r (Some l)"
    and "decide_role reg r l = RefuseRole \<longleftrightarrow> granted_label reg r (Some l) \<noteq> Some l"
proof -
  have "FindBySchoolAndLabel reg (dr_school_id r) l = Some h \<Longrightarrow> dr_device_id h \<noteq> dr_device_id r" for h
    using FindBySchoolAndLabel_iff [OF ok, of "dr_school_id r" l h] r registry_okD(1) [OF ok r] l
    by (auto simp: Find_def)
  then have *: "granted_label reg r (Some l) =
      (if fmlookup (rg_roles reg) (dr_school_id r, l) = None then Some l else dr_dcdw_label r)"
    using FindBySchoolAndLabel_None [OF ok, of "dr_school_id r" l]
    by (auto simp: granted_label_def split: option.split)
  show "(case decide_role reg r l of TakeRole m _ \<Rightarrow> Some m | _ \<Rightarrow> dr_dcdw_label r) =
     granted_label reg r (Some l)"
    unfolding * decide_role_cases [OF ok r l] by simp
  show "decide_role reg r l = RefuseRole \<longleftrightarrow> granted_label reg r (Some l) \<noteq> Some l"
    unfolding * decide_role_cases [OF ok r l] using l by simp
qed

lemma granted_label_own:
  assumes "registry_ok reg" "fmlookup (rg_records reg) d = Some r" "dr_dcdw_label r = Some l"
  shows "granted_label reg r (Some l) = Some l"
  using assms by (simp add: granted_label_def split: option.split)

lemma registration_label:
  assumes ok: "registry_ok reg" and r: "fmlookup (rg_records reg) d = Some r"
  shows "(case registration_role reg r m of TakeRole l _ \<Rightarrow> Some l | _ \<Rightarrow> dr_dcdw_label r) =
      granted_label reg r (reg_dcdw_label m)"
    and "registration_role reg r m = RefuseRole \<longleftrightarrow>
      reg_dcdw_label m \<noteq> None \<and> granted_label reg r (reg_dcdw_label m) \<noteq> reg_dcdw_label m"
  using granted_label_decided [OF ok r] granted_label_own [OF ok r]
  by (cases "reg_dcdw_label m"; auto simp: registration_role_def granted_label_def)+

lemma telemetry_label:
  assumes ok: "registry_ok reg" and r: "fmlookup (rg_records reg) d = Some r"
  shows "(case telemetry_role reg r m of TakeRole l _ \<Rightarrow> Some l | _ \<Rightarrow> dr_dcdw_label r) =
      (if dr_dcdw_label r = None then granted_label reg r (tel_dcdw_label m) else dr_dcdw_label r)"
  using granted_label_decided [OF ok r]
  by (cases "tel_dcdw_label m"; cases "dr_dcdw_label r") (auto simp: telemetry_role_def granted_label_def)

text \<open>Loading inserts the records one by one.\<close>

definition role_keys :: "DeviceRecord list \<Rightarrow> role_key list" where
  "role_keys rs = concat (map (\<lambda>r. case dr_dcdw_label r of None \<Rightarrow> [] | Some l \<Rightarrow> [(dr_school_id r, l)]) rs)"

lemma role_keys_simps [simp]:
  "role_keys [] = []"
  "role_keys (r # rs) = (case dr_dcdw_label r of None \<Rightarrow> [] | Some l \<Rightarrow> [(dr_school_id r, l)]) @ role_keys rs"
  by (simp_all add: role_keys_def)

lemma load_records_iff:
  "load_records rs reg = Inr reg' \<longleftrightarrow>
     distinct (map dr_device_id rs) \<and> distinct (role_keys rs) \<and>
     (\<forall>r \<in> set rs. fmlookup (rg_records reg) (dr_device_id r) = None) \<and>
     (\<forall>k \<in> set (role_keys rs). fmlookup (rg_roles reg) k = None) \<and> reg' = fold insert_record rs reg"
proof (induction rs arbitrary: reg)
  case (Cons r rs)
  have ids: "fmlookup (rg_records (insert_record r reg)) k = None \<longleftrightarrow>
      k \<noteq> dr_device_id r \<and> fmlookup (rg_records reg) k = None" for k
    by (simp add: insert_record_def)
  have roles: "fmlookup (rg_roles (insert_record r reg)) k = None \<longleftrightarrow>
      k \<notin> set (role_keys [r]) \<and> fmlookup (rg_roles reg) k = None" for k
    by (simp add: insert_record_def split: option.split)
  have free: "role_free r reg \<longleftrightarrow> (\<forall>k \<in> set (role_keys [r]). fmlookup (rg_roles reg) k = None)"
    by (cases "dr_dcdw_label r") (simp_all add: role_free_def)
  have "load_records (r # rs) reg = Inr reg' \<longleftrightarrow>
      fmlookup (rg_records reg) (dr_device_id r) = None \<and> role_free r reg \<and>
      load_records rs (insert_record r reg) = Inr reg'"
    by (auto simp: outcome load_record_insert)
  then show ?case
    unfolding Cons.IH ids roles free by (cases "dr_dcdw_label r") (auto simp: image_iff)
qed auto

lemma fold_insert_record_lookup:
  "distinct (map dr_device_id rs) \<Longrightarrow>
     fmlookup (rg_records (fold insert_record rs reg)) d = Some r \<longleftrightarrow>
       (r \<in> set rs \<and> dr_device_id r = d) \<or>
       (d \<notin> dr_device_id ` set rs \<and> fmlookup (rg_records reg) d = Some r)"
  by (induction rs arbitrary: reg) (auto simp: insert_record_def)

lemma expired_keys_set:
  assumes "enumerates ks (rg_records reg)"
  shows "k \<in> set (expired_keys ks now timeout_s reg) \<longleftrightarrow>
     (\<exists>r. Find reg k = Some r \<and> is_expired now timeout_s r)"
  using enumerates_lookup [OF assms, of k] by (auto simp: expired_keys_def Find_def split: option.splits)

lemma expire_not_expired: "\<not> is_expired now timeout_s (expire r)"
  by (simp add: is_expired_def expire_def)

lemma records_in_mset:
  assumes "enumerates ks (rg_records reg)" "enumerates ks' (rg_records reg)"
  shows "mset (records_in ks reg) = mset (records_in ks' reg)"
proof -
  have "mset ks = mset ks'"
    using assms by (auto simp: enumerates_def intro!: set_eq_iff_mset_eq_distinct [THEN iffD1])
  then show ?thesis by (simp add: records_in_def)
qed

lemma records_in_ids:
  assumes "registry_ok reg" "enumerates ks (rg_records reg)"
  shows "map dr_device_id (records_in ks reg) = ks"
    and "r \<in> set (records_in ks reg) \<longleftrightarrow> Find reg (dr_device_id r) = Some r"
proof -
  have "k \<in> set ks \<Longrightarrow> \<exists>r. fmlookup (rg_records reg) k = Some r \<and> dr_device_id r = k" for k
    using enumerates_lookup [OF assms(2), of k] registry_okD(1) [OF assms(1), of k] by auto
  then have id: "k \<in> set ks \<Longrightarrow> dr_device_id (the (fmlookup (rg_records reg) k)) = k" for k by fastforce
  then show "map dr_device_id (records_in ks reg) = ks"
    by (simp add: records_in_def comp_def map_idI)
  show "r \<in> set (records_in ks reg) \<longleftrightarrow> Find reg (dr_device_id r) = Some r"
    using enumerates_lookup [OF assms(2)] id by (force simp: records_in_def Find_def image_iff)
qed

subsection \<open>A registry for the witnesses\<close>

definition demo_device :: "string \<Rightarrow> string option \<Rightarrow> DeviceRecord" where
  "demo_device d label =
     \<lparr>dr_device_id = d, dr_school_id = 7, dr_school_name = ''north'', dr_dcdw_label = label,
      dr_model_version = ''v1'', dr_status = Online, dr_last_seen_at = Some 0,
      dr_latest_telemetry = None, dr_telemetry_received_at = None, dr_revision = 0,
      dr_device_type = CnsBox, dr_capabilities = None, dr_product = None, dr_version = None\<rparr>"

definition demo_registry :: DeviceRegistry where
  "demo_registry = snd (Load [demo_device ''a'' (Some ''L''), demo_device ''b'' None] DeviceRegistry_new)"

definition demo_registration :: Registration where
  "demo_registration =
     \<lparr>reg_device_id = ''b'', reg_status = RegOffline, reg_school_name = Some ''south'', reg_dcdw_label = Some ''L'',
      reg_device_type = CnsBox, reg_capabilities = None,
      reg_product = None, reg_version = None\<rparr>"

lemma demo_reachable: "registry_reachable demo_registry"
  unfolding demo_registry_def
  by (rule registry_reachable.step [OF registry_reachable.start registry_step.load])

lemma demo_records [simp]:
  "fmlookup (rg_records demo_registry) k =
     (if k = ''b'' then Some (demo_device ''b'' None)
      else if k = ''a'' then Some (demo_device ''a'' (Some ''L'')) else None)"
  "fmlookup (rg_roles demo_registry) k' = (if k' = (7, ''L'') then Some ''a'' else None)"
  "fmlookup (rg_named_roles demo_registry) n = (if n = (''north'', ''L'') then Some [''a''] else None)"
  by (simp_all add: demo_registry_def demo_device_def Load_def load_record_def Let_def
      DeviceRegistry_new_def push_back_at_def)

subsection \<open>Properties\<close>

text \<open>
  C1. Every registry that loading, registrations, telemetry, expiry and provisioning can produce
  keeps its two role indexes in step with its records: a record is stored under its own
  identifier, the school index has exactly the roles the records hold, and the list of the
  name index has exactly the devices that hold the role under that school name, each once, and is
  never left empty.
\<close>

theorem registry_invariant: "registry_reachable reg \<Longrightarrow> registry_ok reg"
  by (rule registry_reachable_ok)

theorem registry_invariant_witness:
  "registry_ok (snd (ApplyRegistration demo_registration 5 demo_registry))"
  by (rule registry_invariant)
     (rule registry_reachable.step [OF demo_reachable registry_step.registration])

text \<open>
  The role lookup of a reachable registry answers with a device exactly when that device is
  registered in the school under the label, and no two devices of one school share a label.
\<close>

theorem role_lookup_exact:
  assumes "registry_reachable reg"
  shows "(FindBySchoolAndLabel reg s l = Some r \<longleftrightarrow>
      Find reg (dr_device_id r) = Some r \<and> dr_school_id r = s \<and> dr_dcdw_label r = Some l) \<and>
    (\<forall>d d' q q'. Find reg d = Some q \<and> Find reg d' = Some q' \<and> dr_school_id q = dr_school_id q' \<and>
      dr_dcdw_label q = Some l \<and> dr_dcdw_label q' = Some l \<longrightarrow> d = d')"
  using dev_dir.find_role_iff dev_dir.role_unique registry_reachable_ok [OF assms] by blast

theorem role_lookup_exact_witness:
  "FindBySchoolAndLabel demo_registry 7 ''L'' = Some (demo_device ''a'' (Some ''L''))"
  using role_lookup_exact [OF demo_reachable, of 7 "''L''" "demo_device ''a'' (Some ''L'')"]
  by (simp add: Find_def demo_device_def)

text \<open>
  The lookup by school name answers with a device exactly when it is the only one that
  holds the label under that name, and the registry reports the pair as ambiguous exactly when
  two different devices hold it; otherwise no device does.
\<close>

theorem named_lookup_exact:
  assumes "registry_reachable reg"
  shows "(FindBySchoolNameAndLabel reg n l = Some r \<longleftrightarrow>
      named_holders (Find reg) n l = {dr_device_id r} \<and> Find reg (dr_device_id r) = Some r) \<and>
    (IsSchoolNameAndLabelAmbiguous reg n l \<longleftrightarrow>
      (\<exists>d d'. d \<in> named_holders (Find reg) n l \<and> d' \<in> named_holders (Find reg) n l \<and> d \<noteq> d')) \<and>
    (FindBySchoolNameAndLabel reg n l = None \<and> \<not> IsSchoolNameAndLabelAmbiguous reg n l \<longrightarrow>
      named_holders (Find reg) n l = {})"
proof -
  note ok = registry_reachable_ok [OF assms]
  show ?thesis
    using dev_dir.find_named_iff [OF ok, of n l r] dev_dir.ambiguous_iff [OF ok, of n l]
      dev_dir.named_missing [OF ok, of n l] by argo
qed

theorem named_lookup_exact_witness:
  "named_holders (Find demo_registry) ''north'' ''L'' = {''a''}"
  using named_lookup_exact [OF demo_reachable, of "''north''" "''L''" "demo_device ''a'' (Some ''L'')"]
  by (simp add: Find_def FindBySchoolNameAndLabel_def demo_device_def)

text \<open>
  C30. An accepted registration changes the record of the device it names and no other: the
  device keeps its identity, school and type, goes one revision up, gets the label it asks for
  unless another device of the school holds it, and the diagnostic is empty exactly when neither a
  move to another school nor a taken label was asked for.
\<close>

theorem ApplyRegistration_effect:
  assumes reach: "registry_reachable reg" and old: "Find reg (reg_device_id m) = Some r"
    and type: "dr_device_type r = reg_device_type m"
  shows "\<exists>mu reg'. ApplyRegistration m t reg = (Inr mu, reg') \<and>
    (\<forall>d. Find reg' d = (if d = reg_device_id m then Some (mu_record mu) else Find reg d)) \<and>
    dr_device_id (mu_record mu) = reg_device_id m \<and> dr_school_id (mu_record mu) = dr_school_id r \<and>
    dr_school_name (mu_record mu) = dr_school_name r \<and> dr_device_type (mu_record mu) = dr_device_type r \<and>
    dr_revision (mu_record mu) = dr_revision r + 1 \<and>
    dr_latest_telemetry (mu_record mu) = dr_latest_telemetry r \<and>
    dr_dcdw_label (mu_record mu) = granted_label reg r (reg_dcdw_label m) \<and>
    dr_status (mu_record mu) = (if reg_status m = RegOnline then Online else Offline) \<and>
    dr_last_seen_at (mu_record mu) = (if reg_status m = RegOnline then Some t else dr_last_seen_at r) \<and>
    (mu_status_changed mu \<longleftrightarrow> dr_status (mu_record mu) \<noteq> dr_status r) \<and>
    (mu_diagnostic mu = None \<longleftrightarrow>
       (reg_school_name m = None \<or> reg_school_name m = Some (dr_school_name r)) \<and>
       (reg_dcdw_label m = None \<or> granted_label reg r (reg_dcdw_label m) = reg_dcdw_label m))"
proof -
  note ok = registry_reachable_ok [OF reach]
  have r: "fmlookup (rg_records reg) (reg_device_id m) = Some r" using old by (simp add: Find_def)
  note label = registration_label [OF ok r, of m]
  have id: "dr_device_id r = reg_device_id m" by (rule registry_okD(1) [OF ok r])
  let ?role = "registration_role reg r m"
  let ?new = "registration_record ?role r m t"
  have diag: "registration_diagnostic ?role r m = None \<longleftrightarrow>
     (reg_school_name m = None \<or> reg_school_name m = Some (dr_school_name r)) \<and> ?role \<noteq> RefuseRole"
    by (auto simp: registration_diagnostic_def AppendDiagnostic_def Let_def split: option.splits)
  have status: "dr_status ?new = (if reg_status m = RegOnline then Online else Offline)"
    "dr_last_seen_at ?new = (if reg_status m = RegOnline then Some t else dr_last_seen_at r)"
    by (simp_all add: registration_record_def Let_def)
  show ?thesis
    by (rule exI [of _ "projr (fst (ApplyRegistration m t reg))"],
        rule exI [of _ "snd (ApplyRegistration m t reg)"])
       (auto simp: ApplyRegistration_def r type Let_def id diag status label Find_def)
qed

theorem ApplyRegistration_effect_witness:
  "\<exists>mu reg'. ApplyRegistration demo_registration 5 demo_registry = (Inr mu, reg') \<and>
    dr_dcdw_label (mu_record mu) = None \<and> mu_diagnostic mu \<noteq> None \<and> Find reg' ''b'' = Some (mu_record mu)"
  using ApplyRegistration_effect [OF demo_reachable, of demo_registration "demo_device ''b'' None" 5]
  by (auto simp: Find_def demo_registration_def demo_device_def granted_label_def FindBySchoolAndLabel_def)

text \<open>
  Accepted telemetry marks the device online with the payload and its time of arrival, one
  revision up; a device that has a label keeps it whatever the telemetry says, one that has none
  gets the label of the telemetry unless another device of the school holds it.
\<close>

theorem ApplyTelemetry_effect:
  assumes reach: "registry_reachable reg" and old: "Find reg d = Some r"
    and type: "tel_device_type m \<in> {None, Some (dr_device_type r)}"
  shows "\<exists>mu reg'. ApplyTelemetry d m t reg = (Inr mu, reg') \<and>
    (\<forall>k. Find reg' k = (if k = d then Some (mu_record mu) else Find reg k)) \<and>
    mu_record mu = r\<lparr>
      dr_dcdw_label := (if dr_dcdw_label r = None then granted_label reg r (tel_dcdw_label m)
                        else dr_dcdw_label r),
      dr_status := Online, dr_last_seen_at := Some t, dr_latest_telemetry := Some (tel_payload m),
      dr_telemetry_received_at := Some t, dr_revision := dr_revision r + 1\<rparr> \<and>
    (mu_status_changed mu \<longleftrightarrow> dr_status r = Offline)"
proof -
  note ok = registry_reachable_ok [OF reach]
  have r: "fmlookup (rg_records reg) d = Some r" using old by (simp add: Find_def)
  let ?new = "telemetry_record (telemetry_role reg r m) r m t"
  have "\<not> (tel_device_type m \<noteq> None \<and> the (tel_device_type m) \<noteq> dr_device_type r)"
    using type by auto
  note eq = ApplyTelemetry_def [of d m t reg, unfolded r option.case if_not_P [OF this] Let_def]
  have "dr_status r \<noteq> Online \<longleftrightarrow> dr_status r = Offline" by (cases "dr_status r") simp_all
  moreover have "?new = r\<lparr>
      dr_dcdw_label := (if dr_dcdw_label r = None then granted_label reg r (tel_dcdw_label m)
                        else dr_dcdw_label r),
      dr_status := Online, dr_last_seen_at := Some t, dr_latest_telemetry := Some (tel_payload m),
      dr_telemetry_received_at := Some t, dr_revision := dr_revision r + 1\<rparr>"
    unfolding telemetry_record_def telemetry_label [OF ok r] by simp
  moreover have "dr_status ?new = Online" by (simp add: telemetry_record_def)
  ultimately show ?thesis
    unfolding eq using registry_okD(1) [OF ok r] by (simp add: Find_def)
qed

theorem ApplyTelemetry_effect_witness:
  "\<exists>mu reg'. ApplyTelemetry ''a'' \<lparr>tel_payload = JNull, tel_dcdw_label = Some ''M'', tel_device_type = None\<rparr>
      9 demo_registry = (Inr mu, reg') \<and> dr_dcdw_label (mu_record mu) = Some ''L'' \<and>
      dr_last_seen_at (mu_record mu) = Some 9 \<and> \<not> mu_status_changed mu"
  using ApplyTelemetry_effect [OF demo_reachable, of "''a''" "demo_device ''a'' (Some ''L'')"
      "\<lparr>tel_payload = JNull, tel_dcdw_label = Some ''M'', tel_device_type = None\<rparr>" 9]
  by (auto simp: Find_def demo_device_def)

text \<open>
  Loading succeeds exactly when the records have different identifiers and, within a school,
  different labels; the registry then holds exactly the loaded records, and a failed load leaves
  the registry as it was.
\<close>

theorem Load_exact:
  "(fst (Load rs reg) = Inr () \<longleftrightarrow> distinct (map dr_device_id rs) \<and> distinct (role_keys rs)) \<and>
   (fst (Load rs reg) = Inr () \<longrightarrow>
      (\<forall>d r. Find (snd (Load rs reg)) d = Some r \<longleftrightarrow> r \<in> set rs \<and> dr_device_id r = d)) \<and>
   (fst (Load rs reg) \<noteq> Inr () \<longrightarrow> snd (Load rs reg) = reg)"
proof (cases "load_records rs DeviceRegistry_new")
  case (Inl e)
  then show ?thesis using load_records_iff [of rs DeviceRegistry_new]
    by (auto simp: Load_def DeviceRegistry_new_def)
next
  case (Inr reg')
  then show ?thesis using load_records_iff [of rs DeviceRegistry_new reg']
    by (simp add: Load_def Find_def fold_insert_record_lookup) (auto simp: DeviceRegistry_new_def)
qed

theorem Load_exact_witness:
  "fst (Load [demo_device ''a'' (Some ''L''), demo_device ''b'' None] demo_registry) = Inr () \<and>
   Find (snd (Load [demo_device ''a'' (Some ''L''), demo_device ''b'' None] demo_registry)) ''b'' =
     Some (demo_device ''b'' None) \<and>
   snd (Load [demo_device ''a'' None, demo_device ''a'' None] demo_registry) = demo_registry"
  using Load_exact [of "[demo_device ''a'' (Some ''L''), demo_device ''b'' None]" demo_registry]
    Load_exact [of "[demo_device ''a'' None, demo_device ''a'' None]" demo_registry]
  by (simp add: demo_device_def)

text \<open>
  The activity scan, whatever order the records are visited in, puts offline exactly the
  online devices whose last sign of life is at least the timeout old, reports each of them once,
  leaves every other record alone, and finds nothing more when it is repeated at the same time.
\<close>

theorem ExpireInactive_exact:
  assumes reach: "registry_reachable reg"
    and ks: "enumerates ks (rg_records reg)" and ks': "enumerates ks' (rg_records reg)"
    and run: "ExpireInactive ks now timeout_s reg = (mus, reg')"
  shows "(\<forall>d. Find reg' d =
       map_option (\<lambda>r. if is_expired now timeout_s r then expire r else r) (Find reg d)) \<and>
    distinct (map (\<lambda>mu. dr_device_id (mu_record mu)) mus) \<and>
    set (map mu_record mus) = {expire r |r d. Find reg d = Some r \<and> is_expired now timeout_s r} \<and>
    (\<forall>mu \<in> set mus. mu_reason mu = ActivityTimeout \<and> mu_status_changed mu) \<and>
    ExpireInactive ks' now timeout_s reg' = ([], reg')"
proof (intro conjI)
  let ?x = "expired_keys ks now timeout_s reg"
  note keys = expired_keys_set [OF ks, of _ now timeout_s]
  have mus: "mus = fst (ExpireInactive ks now timeout_s reg)"
    and reg': "reg' = snd (ExpireInactive ks now timeout_s reg)"
    by (simp_all add: run)
  show find: "\<forall>d. Find reg' d =
      map_option (\<lambda>r. if is_expired now timeout_s r then expire r else r) (Find reg d)"
  proof
    fix d show "Find reg' d =
      map_option (\<lambda>r. if is_expired now timeout_s r then expire r else r) (Find reg d)"
      using keys [of d] unfolding reg' Find_def [of "snd _"] ExpireInactive_lookup
      by (cases "Find reg d") (auto simp: Find_def)
  qed
  have "k \<in> set ?x \<Longrightarrow> dr_device_id (the (fmlookup (rg_records reg) k)) = k" for k
    using keys [of k] registry_okD(1) [OF registry_reachable_ok [OF reach], of k] by (auto simp: Find_def)
  then have "map (\<lambda>mu. dr_device_id (mu_record mu)) mus = ?x"
    by (simp add: mus ExpireInactive_def Let_def comp_def expire_def map_idI)
  then show "distinct (map (\<lambda>mu. dr_device_id (mu_record mu)) mus)"
    using ks by (simp add: expired_keys_def enumerates_def)
  have "set (map mu_record mus) = (\<lambda>k. expire (the (Find reg k))) ` set ?x"
    by (simp add: mus ExpireInactive_def Let_def Find_def image_image)
  also have "set ?x = {k. \<exists>r. Find reg k = Some r \<and> is_expired now timeout_s r}"
    using keys by blast
  also have "(\<lambda>k. expire (the (Find reg k))) ` \<dots> =
      {expire r |r d. Find reg d = Some r \<and> is_expired now timeout_s r}"
    by force
  finally show "set (map mu_record mus) = {expire r |r d. Find reg d = Some r \<and> is_expired now timeout_s r}" .
  show "\<forall>mu \<in> set mus. mu_reason mu = ActivityTimeout \<and> mu_status_changed mu"
    by (auto simp: mus ExpireInactive_def Let_def)
  have "expired_keys ks' now timeout_s reg' = []"
    using find expire_not_expired
    by (auto simp: expired_keys_def Find_def filter_empty_conv split: option.split)
  then show "ExpireInactive ks' now timeout_s reg' = ([], reg')"
    by (simp add: ExpireInactive_def Let_def)
qed

lemma demo_enumerates: "enumerates [''a'', ''b''] (rg_records demo_registry)"
  by (auto simp: enumerates_def fmlookup_dom'_iff split: if_splits)

lemma demo_enumerates': "enumerates [''b'', ''a''] (rg_records demo_registry)"
  by (auto simp: enumerates_def fmlookup_dom'_iff split: if_splits)

theorem ExpireInactive_exact_witness:
  "Find (snd (ExpireInactive [''a'', ''b''] 60000000000 60 demo_registry)) ''b'' =
     Some (expire (demo_device ''b'' None)) \<and>
   Find (snd (ExpireInactive [''a'', ''b''] 59999999999 60 demo_registry)) ''b'' =
     Some (demo_device ''b'' None)"
  using ExpireInactive_exact [OF demo_reachable demo_enumerates demo_enumerates surjective_pairing,
      of 60000000000 60]
    ExpireInactive_exact [OF demo_reachable demo_enumerates demo_enumerates surjective_pairing,
      of 59999999999 60]
  by (simp add: Find_def is_expired_def demo_device_def)

text \<open>
  The device listings do not depend on the order the records are visited in: they hold every
  device (every online device) once, by ascending identifier.
\<close>

theorem ListDevices_canonical:
  assumes "registry_reachable reg" "enumerates ks (rg_records reg)" "enumerates ks' (rg_records reg)"
  shows "ListDevices ks reg = ListDevices ks' reg \<and> ListOnlineDevices ks reg = ListOnlineDevices ks' reg \<and>
    sorted (map dr_device_id (ListDevices ks reg)) \<and> distinct (map dr_device_id (ListDevices ks reg)) \<and>
    (\<forall>r. r \<in> set (ListDevices ks reg) \<longleftrightarrow> Find reg (dr_device_id r) = Some r) \<and>
    ListOnlineDevices ks reg = filter (\<lambda>r. dr_status r = Online) (ListDevices ks reg)"
proof -
  note ok = registry_reachable_ok [OF assms(1)]
  note recs = records_in_ids [OF ok assms(2)]
  have "distinct (map dr_device_id (records_in ks reg))"
    using assms(2) by (simp add: recs enumerates_def)
  then have "inj_on dr_device_id (set (records_in ks reg))" by (simp add: distinct_map)
  then have same: "ListDevices ks reg = ListDevices ks' reg"
    unfolding ListDevices_def
    by (intro sort_key_inj_key_eq) (simp_all only: mset_sort records_in_mset [OF assms(2,3)] sorted_sort_key)
  have online: "ListOnlineDevices ks'' reg = filter (\<lambda>r. dr_status r = Online) (ListDevices ks'' reg)" for ks''
    by (simp add: ListOnlineDevices_def ListDevices_def filter_sort)
  have "mset (map dr_device_id (ListDevices ks reg)) = mset ks"
    using arg_cong [OF recs(1), of mset] by (simp add: ListDevices_def)
  then have "distinct (map dr_device_id (ListDevices ks reg))"
    using assms(2) mset_eq_imp_distinct_iff by (simp only: enumerates_def) blast
  then show ?thesis
    using same recs(2) records_in_ids(2) [OF ok assms(3)] online by (simp add: ListDevices_def)
qed

theorem ListDevices_canonical_witness:
  "ListDevices [''a'', ''b''] demo_registry = ListDevices [''b'', ''a''] demo_registry"
  using ListDevices_canonical [OF demo_reachable demo_enumerates demo_enumerates'] by (rule conjunct1)

end
