(* ===== verification/Dirty_State.thy ===== *)
theory Dirty_State
  imports Device_Registry
begin

text \<open>
  \<^verbatim>\<open>core/persistence/dirty_state.cpp\<close>: which fields of which device still have to reach
  the database. Every field group of a device has the highest revision marked dirty and the highest
  revision handed out and not yet confirmed; revision 0 stands for "none". Each public operation is
  a definition on the whole map; the iteration order of the unordered map is the argument
  \<^verbatim>\<open>ks\<close>. The first group of lemmas is on one entry, the second on the operations, and the
  last states that no marked revision is lost whatever the order of marks, dispatches,
  confirmations and failures.
\<close>

datatype Urgency = Immediate | TelemetryBatch

record DesiredDeviceWrite =
  dw_record :: DeviceRecord
  dw_revision :: "64 word"
  dw_write_metadata :: bool
  dw_write_status :: bool
  dw_write_telemetry :: bool
  dw_urgency :: Urgency

record FieldState =
  fs_dirty_revision :: "64 word"
  fs_in_flight_revision :: "64 word"

record Entry =
  en_record :: DeviceRecord
  en_revision :: "64 word"
  en_metadata :: FieldState
  en_status :: FieldState
  en_telemetry :: FieldState
  en_urgency :: Urgency
  en_marked_at :: int

type_synonym DirtyState = "(string, Entry) fmap"

definition FieldState_new :: FieldState where
  "FieldState_new = \<lparr>fs_dirty_revision = 0, fs_in_flight_revision = 0\<rparr>"

definition MarkField :: "bool \<Rightarrow> 64 word \<Rightarrow> FieldState \<Rightarrow> FieldState" where
  "MarkField selected revision field =
     (if selected then field\<lparr>fs_dirty_revision := max (fs_dirty_revision field) revision\<rparr> else field)"

definition RestoreField :: "bool \<Rightarrow> 64 word \<Rightarrow> FieldState \<Rightarrow> FieldState" where
  "RestoreField selected revision field =
     (if \<not> selected then field
      else
        let field' = (if fs_in_flight_revision field \<le> revision
                      then field\<lparr>fs_in_flight_revision := 0\<rparr> else field)
        in field'\<lparr>fs_dirty_revision := max (fs_dirty_revision field') revision\<rparr>)"

definition FieldHasWork :: "FieldState \<Rightarrow> bool" where
  "FieldHasWork field \<longleftrightarrow> fs_dirty_revision field \<noteq> 0 \<or> fs_in_flight_revision field \<noteq> 0"

definition HasDirty :: "Entry \<Rightarrow> bool" where
  "HasDirty entry \<longleftrightarrow>
     fs_dirty_revision (en_metadata entry) \<noteq> 0 \<or> fs_dirty_revision (en_status entry) \<noteq> 0 \<or>
     fs_dirty_revision (en_telemetry entry) \<noteq> 0"

definition HasWork :: "Entry \<Rightarrow> bool" where
  "HasWork entry \<longleftrightarrow>
     FieldHasWork (en_metadata entry) \<or> FieldHasWork (en_status entry) \<or> FieldHasWork (en_telemetry entry)"

text \<open>
  The first half of \<^verbatim>\<open>Mark\<close> and of \<^verbatim>\<open>Restore\<close>: the entry of the device, new if there
  was none, with the record of the write unless the entry has a later one.
\<close>

definition new_entry :: "DesiredDeviceWrite \<Rightarrow> int \<Rightarrow> Entry" where
  "new_entry write at =
     \<lparr>en_record = dw_record write, en_revision = dw_revision write,
      en_metadata = FieldState_new, en_status = FieldState_new, en_telemetry = FieldState_new,
      en_urgency = TelemetryBatch, en_marked_at = at\<rparr>"

definition entry_for :: "DesiredDeviceWrite \<Rightarrow> int \<Rightarrow> DirtyState \<Rightarrow> Entry" where
  "entry_for write at st =
     (case fmlookup st (dr_device_id (dw_record write)) of
        None \<Rightarrow> new_entry write at
      | Some entry \<Rightarrow>
          if en_revision entry \<le> dw_revision write
          then entry\<lparr>en_record := dw_record write, en_revision := dw_revision write\<rparr>
          else entry)"

definition mark_entry :: "DesiredDeviceWrite \<Rightarrow> int \<Rightarrow> Entry \<Rightarrow> Entry" where
  "mark_entry write at entry =
     (let telemetry_was_dirty = (fs_dirty_revision (en_telemetry entry) \<noteq> 0);
          marked = entry\<lparr>
            en_metadata := MarkField (dw_write_metadata write) (dw_revision write) (en_metadata entry),
            en_status := MarkField (dw_write_status write) (dw_revision write) (en_status entry),
            en_telemetry := MarkField (dw_write_telemetry write) (dw_revision write) (en_telemetry entry)\<rparr>;
          timed = (if dw_write_telemetry write \<and> \<not> telemetry_was_dirty
                   then marked\<lparr>en_marked_at := at\<rparr> else marked)
      in if dw_urgency write = Immediate then timed\<lparr>en_urgency := Immediate\<rparr> else timed)"

definition Mark :: "DesiredDeviceWrite \<Rightarrow> int \<Rightarrow> DirtyState \<Rightarrow> DirtyState" where
  "Mark write marked_at st =
     fmupd (dr_device_id (dw_record write)) (mark_entry write marked_at (entry_for write marked_at st)) st"

definition take_now :: "bool \<Rightarrow> int \<Rightarrow> int \<Rightarrow> bool \<Rightarrow> Entry \<Rightarrow> bool" where
  "take_now immediate now interval_s force entry \<longleftrightarrow>
     HasDirty entry \<and>
     \<not> (\<not> force \<and> (immediate \<noteq> (en_urgency entry = Immediate) \<or>
         (\<not> immediate \<and> now - en_marked_at entry < interval_s * 1000000000)))"

definition write_of :: "Entry \<Rightarrow> DesiredDeviceWrite" where
  "write_of entry =
     \<lparr>dw_record = en_record entry, dw_revision = en_revision entry,
      dw_write_metadata = (fs_dirty_revision (en_metadata entry) \<noteq> 0),
      dw_write_status = (fs_dirty_revision (en_status entry) \<noteq> 0),
      dw_write_telemetry = (fs_dirty_revision (en_telemetry entry) \<noteq> 0),
      dw_urgency = en_urgency entry\<rparr>"

definition dispatch :: "FieldState \<Rightarrow> FieldState" where
  "dispatch field =
     field\<lparr>fs_in_flight_revision := max (fs_in_flight_revision field) (fs_dirty_revision field),
           fs_dirty_revision := 0\<rparr>"

definition dispatch_entry :: "Entry \<Rightarrow> Entry" where
  "dispatch_entry entry =
     entry\<lparr>en_metadata := dispatch (en_metadata entry), en_status := dispatch (en_status entry),
           en_telemetry := dispatch (en_telemetry entry), en_urgency := TelemetryBatch\<rparr>"

fun TakeMatching ::
    "string list \<Rightarrow> bool \<Rightarrow> int \<Rightarrow> int \<Rightarrow> bool \<Rightarrow> DirtyState \<Rightarrow> DesiredDeviceWrite list \<times> DirtyState" where
  "TakeMatching [] immediate now interval_s force st = ([], st)"
| "TakeMatching (k # ks) immediate now interval_s force st =
     (case fmlookup st k of
        None \<Rightarrow> TakeMatching ks immediate now interval_s force st
      | Some entry \<Rightarrow>
          if \<not> take_now immediate now interval_s force entry
          then TakeMatching ks immediate now interval_s force st
          else
            let (result, st') =
                  TakeMatching ks immediate now interval_s force (fmupd k (dispatch_entry entry) st)
            in (write_of entry # result, st'))"

definition TakeImmediate :: "string list \<Rightarrow> DirtyState \<Rightarrow> DesiredDeviceWrite list \<times> DirtyState" where
  "TakeImmediate ks st = TakeMatching ks True 0 0 False st"

definition TakeTelemetryDue ::
    "string list \<Rightarrow> int \<Rightarrow> int \<Rightarrow> DirtyState \<Rightarrow> DesiredDeviceWrite list \<times> DirtyState" where
  "TakeTelemetryDue ks now interval_s st = TakeMatching ks False now interval_s False st"

definition TakeAllDirty :: "string list \<Rightarrow> DirtyState \<Rightarrow> DesiredDeviceWrite list \<times> DirtyState" where
  "TakeAllDirty ks st = TakeMatching ks False 0 0 True st"

definition complete_field :: "64 word \<Rightarrow> bool \<Rightarrow> FieldState \<Rightarrow> FieldState" where
  "complete_field revision selected field =
     (if selected \<and> fs_in_flight_revision field \<noteq> 0 \<and> fs_in_flight_revision field \<le> revision
      then field\<lparr>fs_in_flight_revision := 0\<rparr> else field)"

definition complete_entry :: "DesiredDeviceWrite \<Rightarrow> Entry \<Rightarrow> Entry" where
  "complete_entry write entry =
     entry\<lparr>en_metadata := complete_field (dw_revision write) (dw_write_metadata write) (en_metadata entry),
           en_status := complete_field (dw_revision write) (dw_write_status write) (en_status entry),
           en_telemetry := complete_field (dw_revision write) (dw_write_telemetry write) (en_telemetry entry)\<rparr>"

definition Complete :: "DesiredDeviceWrite \<Rightarrow> DirtyState \<Rightarrow> DirtyState" where
  "Complete write st =
     (let device_id = dr_device_id (dw_record write)
      in case fmlookup st device_id of
           None \<Rightarrow> st
         | Some entry \<Rightarrow>
             let entry' = complete_entry write entry
             in if \<not> HasWork entry' then fmdrop device_id st else fmupd device_id entry' st)"

definition restore_entry :: "DesiredDeviceWrite \<Rightarrow> Entry \<Rightarrow> Entry" where
  "restore_entry write entry =
     (let restored = entry\<lparr>
            en_metadata := RestoreField (dw_write_metadata write) (dw_revision write) (en_metadata entry),
            en_status := RestoreField (dw_write_status write) (dw_revision write) (en_status entry),
            en_telemetry := RestoreField (dw_write_telemetry write) (dw_revision write) (en_telemetry entry)\<rparr>
      in if dw_urgency write = Immediate then restored\<lparr>en_urgency := Immediate\<rparr> else restored)"

text \<open>\<^term>\<open>now\<close> is the reading of the steady clock that a new entry gets.\<close>

definition Restore :: "DesiredDeviceWrite \<Rightarrow> int \<Rightarrow> DirtyState \<Rightarrow> DirtyState" where
  "Restore write now st =
     fmupd (dr_device_id (dw_record write)) (restore_entry write (entry_for write now st)) st"

definition Clear :: "DirtyState \<Rightarrow> DirtyState" where
  "Clear st = fmempty"

definition DirtyState_Size :: "DirtyState \<Rightarrow> nat" where
  "DirtyState_Size st = fmsize st"

subsection \<open>One field group at a time\<close>

datatype field_group = Metadata | StatusGroup | TelemetryGroup

fun field_of :: "field_group \<Rightarrow> Entry \<Rightarrow> FieldState" where
  "field_of Metadata e = en_metadata e"
| "field_of StatusGroup e = en_status e"
| "field_of TelemetryGroup e = en_telemetry e"

fun selects :: "field_group \<Rightarrow> DesiredDeviceWrite \<Rightarrow> bool" where
  "selects Metadata w = dw_write_metadata w"
| "selects StatusGroup w = dw_write_status w"
| "selects TelemetryGroup w = dw_write_telemetry w"

text \<open>The highest revision of the field group the entry still answers for.\<close>

definition pending :: "FieldState \<Rightarrow> 64 word" where
  "pending fs = max (fs_dirty_revision fs) (fs_in_flight_revision fs)"

definition pending_of :: "DirtyState \<Rightarrow> string \<Rightarrow> field_group \<Rightarrow> 64 word" where
  "pending_of st d f = (case fmlookup st d of None \<Rightarrow> 0 | Some e \<Rightarrow> pending (field_of f e))"

definition entry_ok :: "Entry \<Rightarrow> bool" where
  "entry_ok e \<longleftrightarrow> (\<forall>f. pending (field_of f e) \<le> en_revision e)"

definition dirty_ok :: "DirtyState \<Rightarrow> bool" where
  "dirty_ok st \<longleftrightarrow> (\<forall>d e. fmlookup st d = Some e \<longrightarrow> entry_ok e \<and> dr_device_id (en_record e) = d)"

lemma field_of_ops:
  "field_of f (mark_entry w t e) = MarkField (selects f w) (dw_revision w) (field_of f e)"
  "field_of f (restore_entry w e) = RestoreField (selects f w) (dw_revision w) (field_of f e)"
  "field_of f (dispatch_entry e) = dispatch (field_of f e)"
  "field_of f (complete_entry w e) = complete_field (dw_revision w) (selects f w) (field_of f e)"
  "field_of f (new_entry w t) = FieldState_new"
  by (cases f; simp add: mark_entry_def restore_entry_def dispatch_entry_def complete_entry_def
      new_entry_def Let_def)+

lemma record_of_ops [simp]:
  "en_record (mark_entry w t e) = en_record e" "en_revision (mark_entry w t e) = en_revision e"
  "en_record (restore_entry w e) = en_record e" "en_revision (restore_entry w e) = en_revision e"
  "en_record (dispatch_entry e) = en_record e" "en_revision (dispatch_entry e) = en_revision e"
  "en_record (complete_entry w e) = en_record e" "en_revision (complete_entry w e) = en_revision e"
  by (simp_all add: mark_entry_def restore_entry_def dispatch_entry_def complete_entry_def Let_def)

lemma selects_write_of [simp]: "selects f (write_of e) \<longleftrightarrow> fs_dirty_revision (field_of f e) \<noteq> 0"
  by (cases f) (simp_all add: write_of_def)

lemma ex_field: "(\<exists>f. P f) \<longleftrightarrow> P Metadata \<or> P StatusGroup \<or> P TelemetryGroup"
  by (metis field_group.exhaust)

lemma HasDirty_iff: "HasDirty e \<longleftrightarrow> (\<exists>f. fs_dirty_revision (field_of f e) \<noteq> 0)"
  by (simp add: HasDirty_def ex_field)

lemma word_max_eq_0: "max a b = (0 :: 64 word) \<longleftrightarrow> a = 0 \<and> b = 0"
  by (auto simp: max_def)

lemma HasWork_iff: "HasWork e \<longleftrightarrow> (\<exists>f. pending (field_of f e) \<noteq> 0)"
  by (auto simp: HasWork_def FieldHasWork_def ex_field pending_def word_max_eq_0)

lemma pending_MarkField: "pending (MarkField sel r fs) = (if sel then max (pending fs) r else pending fs)"
  by (simp add: MarkField_def pending_def ac_simps)

lemma pending_RestoreField: "pending (RestoreField sel r fs) = (if sel then max (pending fs) r else pending fs)"
  by (auto simp: RestoreField_def pending_def Let_def max_def)

lemma pending_dispatch: "pending (dispatch fs) = pending fs"
  by (simp add: dispatch_def pending_def ac_simps)

lemma pending_complete_field:
  "pending (complete_field r sel fs) \<le> pending fs"
  "x \<le> pending fs \<Longrightarrow> x \<le> pending (complete_field r sel fs) \<or> sel \<and> x \<le> r"
proof -
  show "pending (complete_field r sel fs) \<le> pending fs"
    by (auto simp: complete_field_def pending_def le_max_iff_disj)
  show "x \<le> pending fs \<Longrightarrow> x \<le> pending (complete_field r sel fs) \<or> sel \<and> x \<le> r"
    by (auto simp: complete_field_def pending_def le_max_iff_disj intro: order_trans)
qed

lemma pending_FieldState_new [simp]: "pending FieldState_new = 0"
  by (simp add: pending_def FieldState_new_def)

lemmas pending_ops = field_of_ops pending_MarkField pending_RestoreField pending_dispatch

subsection \<open>The operations seen through the pending revisions\<close>

lemma field_of_entry_for:
  "pending (field_of f (entry_for w t st)) = pending_of st (dr_device_id (dw_record w)) f"
  by (cases f) (auto simp: entry_for_def pending_of_def new_entry_def split: option.split)

lemma pending_of_fmupd:
  "pending_of (fmupd k e st) d f = (if d = k then pending (field_of f e) else pending_of st d f)"
  by (simp add: pending_of_def)

lemma pending_of_Mark:
  "pending_of (Mark w t st) d f =
     (if d = dr_device_id (dw_record w) \<and> selects f w
      then max (pending_of st d f) (dw_revision w) else pending_of st d f)"
  by (auto simp: Mark_def pending_of_fmupd pending_ops field_of_entry_for)

lemma pending_of_Restore:
  "pending_of (Restore w t st) d f =
     (if d = dr_device_id (dw_record w) \<and> selects f w
      then max (pending_of st d f) (dw_revision w) else pending_of st d f)"
  by (auto simp: Restore_def pending_of_fmupd pending_ops field_of_entry_for)

lemma Complete_lookup:
  "fmlookup (Complete w st) d =
     (if d = dr_device_id (dw_record w)
      then (case fmlookup st d of
              None \<Rightarrow> None
            | Some e \<Rightarrow> if HasWork (complete_entry w e) then Some (complete_entry w e) else None)
      else fmlookup st d)"
  by (auto simp: Complete_def Let_def split: option.split)

lemma pending_of_Complete:
  "pending_of (Complete w st) d f =
     (if d = dr_device_id (dw_record w) \<and> fmlookup st d \<noteq> None
      then pending (complete_field (dw_revision w) (selects f w) (field_of f (the (fmlookup st d))))
      else pending_of st d f)"
  by (auto simp: pending_of_def Complete_lookup field_of_ops HasWork_iff split: option.split)

definition taken :: "bool \<Rightarrow> int \<Rightarrow> int \<Rightarrow> bool \<Rightarrow> DirtyState \<Rightarrow> string \<Rightarrow> bool" where
  "taken immediate now interval_s force st k \<longleftrightarrow>
     (case fmlookup st k of None \<Rightarrow> False | Some e \<Rightarrow> take_now immediate now interval_s force e)"

lemma TakeMatching_writes:
  "distinct ks \<Longrightarrow> fst (TakeMatching ks i now iv force st) =
     map (\<lambda>k. write_of (the (fmlookup st k))) (filter (taken i now iv force st) ks)"
proof (induction ks arbitrary: st)
  case (Cons k ks)
  have "k \<notin> set ks" using Cons.prems by simp
  then have "filter (taken i now iv force (fmupd k e st)) ks = filter (taken i now iv force st) ks" for e
    by (intro filter_cong) (auto simp: taken_def)
  moreover have "map (\<lambda>x. write_of (the (fmlookup (fmupd k e st) x))) (filter P ks) =
      map (\<lambda>x. write_of (the (fmlookup st x))) (filter P ks)" for e P
    using \<open>k \<notin> set ks\<close> by auto
  ultimately have "fst (TakeMatching ks i now iv force (fmupd k e st)) =
      map (\<lambda>k. write_of (the (fmlookup st k))) (filter (taken i now iv force st) ks)" for e
    using Cons.IH [of "fmupd k e st"] Cons.prems by simp
  then show ?case
    using Cons.IH [of st] Cons.prems taken_def [of i now iv force st k]
    by (cases "fmlookup st k") (simp_all add: case_prod_beta Let_def)
qed simp

lemma TakeMatching_lookup:
  "distinct ks \<Longrightarrow> fmlookup (snd (TakeMatching ks i now iv force st)) d =
     (if d \<in> set ks \<and> taken i now iv force st d
      then map_option dispatch_entry (fmlookup st d) else fmlookup st d)"
proof (induction ks arbitrary: st)
  case (Cons k ks)
  then show ?case
    by (auto simp: taken_def case_prod_beta Let_def split: option.split)
qed simp

lemma pending_of_TakeMatching:
  "pending_of (snd (TakeMatching ks i now iv force st)) d f = pending_of st d f"
proof (induction ks arbitrary: st)
  case (Cons k ks)
  have "fmlookup st k = Some e \<Longrightarrow> pending_of (fmupd k (dispatch_entry e) st) d f = pending_of st d f" for e
    by (auto simp: pending_of_fmupd pending_ops) (simp add: pending_of_def)
  then show ?case
    using Cons by (auto simp: case_prod_beta Let_def split: option.split)
qed simp

lemma TakeMatching_dom:
  "fmlookup (snd (TakeMatching ks i now iv force st)) d = None \<longleftrightarrow> fmlookup st d = None"
proof (induction ks arbitrary: st)
  case (Cons k ks)
  then show ?case by (cases "fmlookup st k") (auto simp: case_prod_beta Let_def)
qed simp

subsection \<open>Histories\<close>

datatype dirty_op =
    MarkOp DesiredDeviceWrite int
  | TakeOp "string list" bool int int bool
  | CompleteOp DesiredDeviceWrite
  | RestoreOp DesiredDeviceWrite int

fun apply_op :: "dirty_op \<Rightarrow> DirtyState \<Rightarrow> DirtyState" where
  "apply_op (MarkOp w t) st = Mark w t st"
| "apply_op (TakeOp ks i now iv force) st = snd (TakeMatching ks i now iv force st)"
| "apply_op (CompleteOp w) st = Complete w st"
| "apply_op (RestoreOp w t) st = Restore w t st"

text \<open>The revisions of a device's field group that a list of operations confirms.\<close>

definition confirms :: "string \<Rightarrow> field_group \<Rightarrow> 64 word \<Rightarrow> dirty_op \<Rightarrow> bool" where
  "confirms d f r p \<longleftrightarrow>
     (\<exists>w. p = CompleteOp w \<and> dr_device_id (dw_record w) = d \<and> selects f w \<and> r \<le> dw_revision w)"

lemma apply_op_pending:
  assumes "r \<le> pending_of st d f"
  shows "r \<le> pending_of (apply_op p st) d f \<or> confirms d f r p"
proof (cases p)
  case (CompleteOp w)
  show ?thesis
  proof (cases "d = dr_device_id (dw_record w) \<and> fmlookup st d \<noteq> None")
    case True
    then obtain e where "fmlookup st d = Some e" by auto
    with True assms show ?thesis
      using pending_complete_field(2) [of r "field_of f e" "dw_revision w" "selects f w"]
      by (auto simp: CompleteOp pending_of_Complete confirms_def pending_of_def [of st])
  next
    case False
    with assms show ?thesis by (auto simp: CompleteOp pending_of_Complete)
  qed
qed (use assms in \<open>auto simp: pending_of_Mark pending_of_Restore pending_of_TakeMatching le_max_iff_disj\<close>)

lemma run_pending:
  "r \<le> pending_of st d f \<Longrightarrow>
     r \<le> pending_of (fold apply_op ops st) d f \<or> (\<exists>p \<in> set ops. confirms d f r p)"
proof (induction ops arbitrary: st)
  case (Cons p ops)
  then show ?case using apply_op_pending [of r st d f p] by auto
qed simp

subsection \<open>The invariant of the entries\<close>

lemma entry_ok_update [simp]:
  "entry_ok (e\<lparr>en_record := r, en_revision := v\<rparr>) \<longleftrightarrow> (\<forall>f. pending (field_of f e) \<le> v)"
proof -
  have "field_of f (e\<lparr>en_record := r, en_revision := v\<rparr>) = field_of f e" for f by (cases f) simp_all
  then show ?thesis by (simp add: entry_ok_def)
qed

lemma entry_for_ok:
  assumes "dirty_ok st"
  shows "entry_ok (entry_for w t st)" "dw_revision w \<le> en_revision (entry_for w t st)"
    "dr_device_id (en_record (entry_for w t st)) = dr_device_id (dw_record w)"
proof -
  let ?d = "dr_device_id (dw_record w)"
  have "fmlookup st ?d = Some e \<Longrightarrow> entry_ok e \<and> dr_device_id (en_record e) = ?d" for e
    using assms by (simp add: dirty_ok_def)
  moreover have "entry_ok (new_entry w t)" by (simp add: entry_ok_def field_of_ops)
  ultimately have "entry_ok (entry_for w t st) \<and> dw_revision w \<le> en_revision (entry_for w t st) \<and>
      dr_device_id (en_record (entry_for w t st)) = ?d"
    by (cases "fmlookup st ?d") (auto simp: entry_for_def new_entry_def entry_ok_def [of "the _"]
        intro: order_trans simp flip: not_le dest!: entry_ok_def [THEN iffD1])
  then show "entry_ok (entry_for w t st)" "dw_revision w \<le> en_revision (entry_for w t st)"
    "dr_device_id (en_record (entry_for w t st)) = ?d" by simp_all
qed

lemma dirty_ok_fmupd:
  "dirty_ok st \<Longrightarrow> entry_ok e \<Longrightarrow> dr_device_id (en_record e) = d \<Longrightarrow> dirty_ok (fmupd d e st)"
  by (simp add: dirty_ok_def)

lemma Mark_ok: "dirty_ok st \<Longrightarrow> dirty_ok (Mark w t st)"
  unfolding Mark_def using entry_for_ok [of st w t]
  by (intro dirty_ok_fmupd) (simp_all add: entry_ok_def pending_ops)

lemma Restore_ok: "dirty_ok st \<Longrightarrow> dirty_ok (Restore w t st)"
  unfolding Restore_def using entry_for_ok [of st w t]
  by (intro dirty_ok_fmupd) (simp_all add: entry_ok_def pending_ops)

lemma Complete_ok:
  assumes "dirty_ok st"
  shows "dirty_ok (Complete w st)"
proof -
  have "entry_ok (complete_entry w e)" if "entry_ok e" for e
    using that
    by (auto simp: entry_ok_def field_of_ops intro: order_trans [OF pending_complete_field(1)])
  with assms show ?thesis by (auto simp: dirty_ok_def Complete_lookup split: option.splits if_splits)
qed

lemma TakeMatching_ok: "dirty_ok st \<Longrightarrow> dirty_ok (snd (TakeMatching ks i now iv force st))"
proof (induction ks arbitrary: st)
  case (Cons k ks)
  have "fmlookup st k = Some e \<Longrightarrow> dirty_ok (fmupd k (dispatch_entry e) st)" for e
    using Cons.prems by (intro dirty_ok_fmupd) (auto simp: dirty_ok_def entry_ok_def pending_ops)
  with Cons show ?case by (auto simp: case_prod_beta Let_def split: option.split)
qed simp

lemma apply_op_ok: "dirty_ok st \<Longrightarrow> dirty_ok (apply_op p st)"
  by (cases p) (simp_all add: Mark_ok Restore_ok Complete_ok TakeMatching_ok)

lemma run_ok: "dirty_ok st \<Longrightarrow> dirty_ok (fold apply_op ops st)"
  by (induction ops arbitrary: st) (simp_all add: apply_op_ok)

lemma dirty_ok_empty [simp]: "dirty_ok fmempty"
  by (simp add: dirty_ok_def)

text \<open>An entry is dropped as soon as nothing of it is pending.\<close>

definition work_ok :: "DirtyState \<Rightarrow> bool" where
  "work_ok st \<longleftrightarrow> (\<forall>d e. fmlookup st d = Some e \<longrightarrow> HasWork e)"

definition proper_write :: "DesiredDeviceWrite \<Rightarrow> bool" where
  "proper_write w \<longleftrightarrow> dw_revision w \<noteq> 0 \<and> (dw_write_metadata w \<or> dw_write_status w \<or> dw_write_telemetry w)"

fun proper_op :: "dirty_op \<Rightarrow> bool" where
  "proper_op (MarkOp w t) = proper_write w"
| "proper_op (RestoreOp w t) = proper_write w"
| "proper_op _ = True"

lemma proper_write_iff: "proper_write w \<longleftrightarrow> dw_revision w \<noteq> 0 \<and> (\<exists>f. selects f w)"
  by (simp add: proper_write_def ex_field)

lemma work_ok_iff: "work_ok st \<longleftrightarrow> (\<forall>d e. fmlookup st d = Some e \<longrightarrow> (\<exists>f. pending_of st d f \<noteq> 0))"
  by (auto simp: work_ok_def HasWork_iff pending_of_def)

lemma apply_op_work:
  assumes "proper_op p" "work_ok st"
  shows "work_ok (apply_op p st)"
proof (cases p)
  case (MarkOp w t)
  then show ?thesis using assms
    by (auto simp: work_ok_iff Mark_def pending_of_Mark [unfolded Mark_def] proper_write_iff word_max_eq_0
        split: if_splits)
next
  case (TakeOp ks i now iv force)
  then show ?thesis
    using assms(2) TakeMatching_dom [of ks i now iv force st]
    by (simp add: work_ok_iff pending_of_TakeMatching) (metis not_None_eq)
next
  case (CompleteOp w)
  then show ?thesis using assms by (auto simp: work_ok_def Complete_lookup split: option.splits if_splits)
next
  case (RestoreOp w t)
  then show ?thesis using assms
    by (auto simp: work_ok_iff Restore_def pending_of_Restore [unfolded Restore_def] proper_write_iff
        word_max_eq_0 split: if_splits)
qed

lemma run_work: "list_all proper_op ops \<Longrightarrow> work_ok st \<Longrightarrow> work_ok (fold apply_op ops st)"
  by (induction ops arbitrary: st) (simp_all add: apply_op_work)

lemma fold_Complete_other:
  "d \<notin> (\<lambda>w. dr_device_id (dw_record w)) ` set ws \<Longrightarrow> fmlookup (fold Complete ws st) d = fmlookup st d"
  by (induction ws arbitrary: st) (simp_all add: Complete_lookup)

lemma fold_Complete_own:
  "distinct (map (\<lambda>w. dr_device_id (dw_record w)) ws) \<Longrightarrow> w \<in> set ws \<Longrightarrow> d = dr_device_id (dw_record w) \<Longrightarrow>
     fmlookup (fold Complete ws st) d = fmlookup (Complete w st) d"
proof (induction ws arbitrary: st)
  case (Cons v ws)
  show ?case
  proof (cases "w = v")
    case True
    then show ?thesis using Cons.prems by (simp add: fold_Complete_other)
  next
    case False
    then have "d \<noteq> dr_device_id (dw_record v)" using Cons.prems by (auto simp: image_iff)
    with False Cons show ?thesis by (simp add: Complete_lookup)
  qed
qed simp

lemma TakeMatching_spec:
  assumes ks: "enumerates ks st" and take: "TakeMatching ks immediate now interval_s force st = (ws, st')"
  shows "ws = map (\<lambda>k. write_of (the (fmlookup st k)))
      (filter (\<lambda>k. take_now immediate now interval_s force (the (fmlookup st k))) ks)"
    and "fmlookup st' k =
      map_option (\<lambda>e. if take_now immediate now interval_s force e then dispatch_entry e else e) (fmlookup st k)"
proof -
  let ?t = "taken immediate now interval_s force st"
  have d: "distinct ks" using ks by (simp add: enumerates_def)
  have "k \<in> set ks \<Longrightarrow> ?t k \<longleftrightarrow> take_now immediate now interval_s force (the (fmlookup st k))" for k
    using enumerates_lookup [OF ks, of k] by (auto simp: taken_def)
  then have filt: "filter ?t ks =
      filter (\<lambda>k. take_now immediate now interval_s force (the (fmlookup st k))) ks"
    by (intro filter_cong) auto
  show "ws = map (\<lambda>k. write_of (the (fmlookup st k)))
      (filter (\<lambda>k. take_now immediate now interval_s force (the (fmlookup st k))) ks)"
    using TakeMatching_writes [OF d, of immediate now interval_s force st] by (simp add: take filt)
  show "fmlookup st' k =
      map_option (\<lambda>e. if take_now immediate now interval_s force e then dispatch_entry e else e) (fmlookup st k)"
    using TakeMatching_lookup [OF d, of immediate now interval_s force st k] enumerates_lookup [OF ks, of k]
    by (cases "fmlookup st k") (simp_all add: take taken_def)
qed

lemma complete_dispatched:
  assumes "entry_ok e" "\<And>f. fs_in_flight_revision (field_of f e) = 0"
  shows "\<not> HasWork (complete_entry (write_of e) (dispatch_entry e))"
proof -
  have "pending (complete_field (en_revision e) (fs_dirty_revision (field_of f e) \<noteq> 0)
      (dispatch (field_of f e))) = 0" for f
    using assms(1) assms(2) [of f]
    by (auto simp: entry_ok_def pending_def complete_field_def dispatch_def dest: spec [of _ f])
  moreover have "dw_revision (write_of e) = en_revision e" by (simp add: write_of_def)
  ultimately show ?thesis by (simp add: HasWork_iff field_of_ops)
qed

lemma fold_Restore_pending:
  "pending_of st d f \<le> pending_of (fold (\<lambda>w. Restore w now) ws st) d f"
proof (induction ws arbitrary: st)
  case (Cons w ws)
  have "pending_of st d f \<le> pending_of (Restore w now st) d f" by (simp add: pending_of_Restore)
  also note Cons.IH
  finally show ?case by simp
qed simp

subsection \<open>Properties\<close>

definition demo_write :: "64 word \<Rightarrow> DesiredDeviceWrite" where
  "demo_write r =
     \<lparr>dw_record = demo_device ''a'' None, dw_revision = r, dw_write_metadata = False,
      dw_write_status = True, dw_write_telemetry = True, dw_urgency = Immediate\<rparr>"

lemma demo_write_simps:
  "dr_device_id (dw_record (demo_write r)) = ''a''" "dw_revision (demo_write r) = r"
  "selects TelemetryGroup (demo_write r)"
  by (simp_all add: demo_write_def demo_device_def)

text \<open>
  C2. No marked change is lost: after a write has been marked, in whatever order further marks,
  dispatches, confirmations and failed writes follow, each field group the write selects is still
  pending at its revision or a later one, unless a write of the same device that includes the field
  group at that or a later revision has been confirmed since.
\<close>

theorem no_lost_update:
  assumes "selects f w" "st = fold apply_op (before @ MarkOp w t # after) fmempty"
  shows "dw_revision w \<le> pending_of st (dr_device_id (dw_record w)) f \<or>
    (\<exists>w'. CompleteOp w' \<in> set after \<and> dr_device_id (dw_record w') = dr_device_id (dw_record w) \<and>
      selects f w' \<and> dw_revision w \<le> dw_revision w')"
proof -
  have "dw_revision w \<le> pending_of (Mark w t (fold apply_op before fmempty)) (dr_device_id (dw_record w)) f"
    using assms(1) by (simp add: pending_of_Mark)
  from run_pending [OF this, of after] show ?thesis
    by (auto simp: assms(2) confirms_def)
qed

theorem no_lost_update_witness:
  "3 \<le> pending_of (fold apply_op [MarkOp (demo_write 1) 0, TakeOp [''a''] True 0 0 False,
     MarkOp (demo_write 3) 5, CompleteOp (demo_write 1)] fmempty) ''a'' TelemetryGroup"
proof -
  have "\<not> (\<exists>w'. CompleteOp w' \<in> set [CompleteOp (demo_write 1)] \<and>
      dr_device_id (dw_record w') = dr_device_id (dw_record (demo_write 3)) \<and>
      selects TelemetryGroup w' \<and> dw_revision (demo_write 3) \<le> dw_revision w')"
    by (simp add: demo_write_def word_le_nat_alt)
  with no_lost_update [of TelemetryGroup "demo_write 3", OF _ refl,
      of "[MarkOp (demo_write 1) 0, TakeOp [''a''] True 0 0 False]" 5 "[CompleteOp (demo_write 1)]"]
  have "dw_revision (demo_write 3) \<le> pending_of (fold apply_op [MarkOp (demo_write 1) 0,
      TakeOp [''a''] True 0 0 False, MarkOp (demo_write 3) 5, CompleteOp (demo_write 1)] fmempty)
      (dr_device_id (dw_record (demo_write 3))) TelemetryGroup"
    unfolding append.simps by (simp only: demo_write_simps simp_thms)
  then show ?thesis by (simp only: demo_write_simps)
qed

text \<open>
  A dispatch, in any iteration order, hands out one write for exactly the entries that are
  due: the record with its latest revision and all of its dirty field groups, which become in
  flight; everything else stays as it was. The write carries a revision at least as high as every
  pending revision of the device.
\<close>

theorem TakeMatching_exact:
  assumes ks: "enumerates ks st" and run: "st = fold apply_op ops fmempty"
    and take: "TakeMatching ks immediate now interval_s force st = (ws, st')"
  shows "ws = map (\<lambda>k. write_of (the (fmlookup st k)))
      (filter (\<lambda>k. take_now immediate now interval_s force (the (fmlookup st k))) ks) \<and>
    (\<forall>d. fmlookup st' d =
       map_option (\<lambda>e. if take_now immediate now interval_s force e then dispatch_entry e else e)
         (fmlookup st d)) \<and>
    (\<forall>w \<in> set ws. \<forall>f. pending_of st (dr_device_id (dw_record w)) f \<le> dw_revision w)"
proof -
  note spec = TakeMatching_spec [OF ks take]
  have "dirty_ok st" unfolding run by (simp add: run_ok)
  then have "k \<in> set ks \<Longrightarrow> \<exists>e. fmlookup st k = Some e \<and> entry_ok e \<and> dr_device_id (en_record e) = k" for k
    using enumerates_lookup [OF ks, of k] by (auto simp: dirty_ok_def)
  then have "\<forall>w \<in> set ws. \<forall>f. pending_of st (dr_device_id (dw_record w)) f \<le> dw_revision w"
    by (fastforce simp: spec(1) write_of_def pending_of_def entry_ok_def)
  then show ?thesis using spec by blast
qed

theorem TakeMatching_exact_witness:
  "fst (TakeMatching [''a''] True 0 0 False (fold apply_op [MarkOp (demo_write 2) 0] fmempty)) =
     [demo_write 2]"
proof -
  have e: "enumerates [''a''] (fold apply_op [MarkOp (demo_write 2) 0] fmempty)"
    by (simp add: enumerates_def Mark_def demo_write_def demo_device_def)
  show ?thesis
    using conjunct1 [OF TakeMatching_exact [OF e refl surjective_pairing, of True 0 0 False]]
    by (simp add: Mark_def demo_write_def demo_device_def entry_for_def new_entry_def mark_entry_def
        take_now_def HasDirty_def MarkField_def FieldState_new_def write_of_def Let_def)
qed

text \<open>
  Draining empties the state: when every mark names a field group and a revision other than
  the reserved 0 and nothing is in flight, taking all dirty entries and confirming the writes
  handed out leaves no entry behind, so the size the shutdown waits for becomes 0. Taking and
  failing instead leaves every pending revision pending.
\<close>

theorem drain_completes:
  assumes run: "st = fold apply_op ops fmempty" "list_all proper_op ops"
    and idle: "\<forall>d e f. fmlookup st d = Some e \<longrightarrow> fs_in_flight_revision (field_of f e) = 0"
    and ks: "enumerates ks st" and take: "TakeAllDirty ks st = (ws, st')"
  shows "fold Complete ws st' = fmempty \<and> DirtyState_Size (fold Complete ws st') = 0 \<and>
    (\<forall>d f. pending_of st d f \<le> pending_of (fold (\<lambda>w. Restore w now) ws st') d f)"
proof -
  note spec = TakeMatching_spec [OF ks take [unfolded TakeAllDirty_def], unfolded take_now_def simp_thms]
  have ok: "dirty_ok st" and work: "work_ok st"
    unfolding run(1) using run_work [OF run(2), of fmempty] by (simp_all add: run_ok work_ok_def)
  have ent: "\<exists>e. fmlookup st k = Some e \<and> HasDirty e \<and> entry_ok e \<and> dr_device_id (en_record e) = k"
    if "k \<in> set ks" for k
    using enumerates_lookup [OF ks, of k] that ok work idle
    by (auto simp: dirty_ok_def work_ok_def HasDirty_iff HasWork_iff pending_def)
  then have all: "filter (\<lambda>k. HasDirty (the (fmlookup st k))) ks = ks"
    by (intro filter_True) (metis option.sel)
  then have ws: "ws = map (\<lambda>k. write_of (the (fmlookup st k))) ks" using spec(1) by simp
  have ids: "k \<in> set ks \<Longrightarrow> dr_device_id (dw_record (write_of (the (fmlookup st k)))) = k" for k
    using ent [of k] by (auto simp: write_of_def)
  have map_ids: "map (\<lambda>w. dr_device_id (dw_record w)) ws = ks"
    by (simp add: ws comp_def ids map_idI)
  have "fmlookup (fold Complete ws st') d = None" for d
  proof (cases "d \<in> set ks")
    case True
    then obtain e where e: "fmlookup st d = Some e" "HasDirty e" "entry_ok e" using ent by blast
    have "write_of e \<in> set ws" using True e(1) by (force simp: ws)
    moreover have "d = dr_device_id (dw_record (write_of e))" using ids [OF True] e(1) by simp
    ultimately have "fmlookup (fold Complete ws st') d = fmlookup (Complete (write_of e) st') d"
      using ks by (intro fold_Complete_own) (simp_all add: map_ids enumerates_def)
    then show ?thesis
      using complete_dispatched [OF e(3)] idle e ids [OF True] by (simp add: Complete_lookup spec(2))
  next
    case False
    then have "fmlookup st' d = None" using enumerates_lookup [OF ks, of d] by (simp add: spec(2))
    moreover have "d \<notin> (\<lambda>w. dr_device_id (dw_record w)) ` set ws"
      using False map_ids by (metis image_set)
    ultimately show ?thesis by (simp add: fold_Complete_other)
  qed
  then have "fold Complete ws st' = fmempty" by (intro fmap_ext) simp
  moreover have "pending_of st d f = pending_of st' d f" for d f
    using pending_of_TakeMatching [of ks False 0 0 True st] take by (simp add: TakeAllDirty_def)
  ultimately show ?thesis by (simp add: DirtyState_Size_def fold_Restore_pending)
qed

theorem drain_completes_witness:
  "fold Complete [demo_write 2] (snd (TakeAllDirty [''a''] (Mark (demo_write 2) 0 fmempty))) = fmempty"
proof -
  let ?st = "fold apply_op [MarkOp (demo_write 2) 0] fmempty"
  have w: "fst (TakeAllDirty [''a''] ?st) = [demo_write 2]"
    by (simp add: TakeAllDirty_def Mark_def demo_write_def demo_device_def entry_for_def new_entry_def
        mark_entry_def take_now_def HasDirty_def MarkField_def FieldState_new_def write_of_def Let_def)
  have "fold Complete (fst (TakeAllDirty [''a''] ?st)) (snd (TakeAllDirty [''a''] ?st)) = fmempty"
  proof (rule conjunct1 [OF drain_completes [OF refl _ _ _ surjective_pairing]])
    show "list_all proper_op [MarkOp (demo_write 2) 0]" by (simp add: proper_write_def demo_write_def)
    show "enumerates [''a''] ?st" by (simp add: enumerates_def Mark_def demo_write_simps)
    show "\<forall>d e f. fmlookup ?st d = Some e \<longrightarrow> fs_in_flight_revision (field_of f e) = 0"
      by (auto simp: Mark_def field_of_ops entry_for_def MarkField_def FieldState_new_def split: if_splits)
  qed
  then show ?thesis unfolding w by simp
qed

end
