(* ===== verification/Command_Types.thy ===== *)
theory Command_Types
  imports Messages Json_Value
begin

text \<open>
  \<^verbatim>\<open>core/command/command_types.hpp\<close> and \<^verbatim>\<open>command_validation.hpp\<close>: the data of the
  command protocol, shared by configuration and flight control, and the shape of command
  identifiers and error codes.
\<close>

datatype SourceKind = SrcDevice | SrcHostApp | SrcControlCenter

datatype CommandType = Config | Control

datatype CommandStatus =
    Pending | Dispatched | InProgress | Succeeded | Failed | Timeout | DeliveryUncertain

fun CommandType_ToString :: "CommandType \<Rightarrow> string" where
  "CommandType_ToString Config = ''config''"
| "CommandType_ToString Control = ''control''"

definition ParseCommandType :: "string \<Rightarrow> string + CommandType" where
  "ParseCommandType text =
     (if text = ''config'' then Inr Config
      else if text = ''control'' then Inr Control
      else Inl msg_command_type_unknown)"

text \<open>\<^verbatim>\<open>RequestTarget\<close> is the variant of the three target structs.\<close>

datatype RequestTarget =
    DeviceLabelTarget (tgt_dcdw_label: string)
  | SchoolLabelTarget string string  \<comment> \<open>\<^verbatim>\<open>school_name\<close>, \<^verbatim>\<open>dcdw_label\<close>\<close>
  | DeviceTarget string

record ConfigParameters =
  cp_telemetry_publish_interval_ms :: "32 word option"
  cp_heartbeat_interval_ms :: "32 word option"
  cp_mqtt_reconnect_delay_s :: "32 word option"
  cp_mqtt_reconnect_delay_max_s :: "32 word option"

record SourceConfigRequest =
  scr_request_id :: string
  scr_target :: RequestTarget
  scr_parameters :: ConfigParameters
  scr_comparison_payload :: json

datatype ControlCommand = SetMotorPwm | EmergencyStop | Takeoff | Land

text \<open>\<^verbatim>\<open>std::array<uint16_t, 4>\<close> as a 4-tuple.\<close>

type_synonym pwm4 = "16 word \<times> 16 word \<times> 16 word \<times> 16 word"

type_synonym ControlParameters = "pwm4 option"  \<comment> \<open>the only field, \<^verbatim>\<open>pwm_us\<close>\<close>

record SourceControlRequest =
  sct_request_id :: string
  sct_target :: RequestTarget
  sct_command :: ControlCommand
  sct_parameters :: ControlParameters
  sct_comparison_payload :: json

record DeviceControlAck =
  dca_command_id :: string
  dca_command :: ControlCommand
  dca_business_status :: string
  dca_mavlink_command :: "16 word option"
  dca_result :: "8 word option"
  dca_result_code :: "string option"
  dca_progress :: "8 word option"
  dca_result_param2 :: "32 word option"  \<comment> \<open>an \<^verbatim>\<open>int32_t\<close>, read by \<^const>\<open>sint\<close>\<close>
  dca_error_code :: "string option"
  dca_raw :: json

record DeviceConfigAck =
  dfa_command_id :: string
  dfa_business_status :: string
  dfa_restart_required :: bool
  dfa_error_code :: "string option"
  dfa_raw :: json

record ProtocolError =
  pe_code :: string
  pe_message :: string

text \<open>The helper \<^verbatim>\<open>Error\<close> every command source file has.\<close>

definition mk_error :: "string \<Rightarrow> string \<Rightarrow> ProtocolError" where
  "mk_error c m = \<lparr>pe_code = c, pe_message = m\<rparr>"

record RejectedSourceRequest =
  rej_request_id :: "string option"
  rej_comparison_payload :: "json option"
  rej_error :: ProtocolError

datatype ParsedSourceRequest =
    ParsedConfig SourceConfigRequest
  | ParsedControl SourceControlRequest
  | Rejected RejectedSourceRequest

subsection \<open>Validation\<close>

definition uuid_char :: "char \<Rightarrow> bool" where
  "uuid_char c \<longleftrightarrow> is_digit c \<or> CHR ''a'' \<le> c \<and> c \<le> CHR ''f''"

definition IsUuidV4Shape :: "string \<Rightarrow> bool" where
  "IsUuidV4Shape v \<longleftrightarrow>
     length v = 36 \<and> v ! 8 = CHR ''-'' \<and> v ! 13 = CHR ''-'' \<and> v ! 18 = CHR ''-'' \<and> v ! 23 = CHR ''-'' \<and>
     list_all (\<lambda>i. i \<in> {8, 13, 18, 23} \<or> uuid_char (v ! i)) [0..<length v] \<and>
     v ! 14 = CHR ''4'' \<and> (v ! 19 = CHR ''8'' \<or> v ! 19 = CHR ''9'' \<or> v ! 19 = CHR ''a'' \<or> v ! 19 = CHR ''b'')"

definition IsValidErrorCode :: "string \<Rightarrow> bool" where
  "IsValidErrorCode v \<longleftrightarrow>
     v \<noteq> [] \<and> length v \<le> 64 \<and> list_all (\<lambda>c. is_lower c \<or> is_digit c \<or> c = CHR ''_'') v"

lemma ParseCommandType_ToString: "ParseCommandType (CommandType_ToString t) = Inr t"
  by (cases t) (simp_all add: ParseCommandType_def)

end
