(* ===== verification/Command_Router.thy ===== *)
theory Command_Router
  imports Command_Types Device_Registry
begin

text \<open>
  \<^verbatim>\<open>core/command/command_router.cpp\<close>: the catalogue of command sources and the resolution
  of a request's target against the device registry. The resolution relies on the registry only
  through the laws of \<open>device_directory\<close>, so the theorems hold of every reachable registry.
\<close>

record CommandSource =
  cs_source_id :: string
  cs_kind :: SourceKind
  cs_device_id :: "string option"
  cs_enabled :: bool

type_synonym SourceCatalog = "(string, CommandSource) fmap"

record ResolvedTarget =
  rt_device_id :: string
  rt_school_name :: string
  rt_dcdw_label :: "string option"

definition Resolve :: "DeviceRecord \<Rightarrow> ResolvedTarget" where
  "Resolve record =
     \<lparr>rt_device_id = dr_device_id record, rt_school_name = dr_school_name record,
      rt_dcdw_label = dr_dcdw_label record\<rparr>"

definition check_source :: "CommandSource \<Rightarrow> string + unit" where
  "check_source source =
     (if cs_source_id source = [] then Inl msg_source_id_empty
      else if cs_kind source = SrcDevice then
        (case cs_device_id source of
           None \<Rightarrow> Inl msg_source_device_missing
         | Some device_id \<Rightarrow>
             if device_id \<noteq> cs_source_id source then Inl msg_source_id_not_device else Inr ())
      else if cs_device_id source \<noteq> None then Inl msg_source_device_extra
      else Inr ())"

fun load_sources :: "CommandSource list \<Rightarrow> SourceCatalog \<Rightarrow> string + SourceCatalog" where
  "load_sources [] loaded = Inr loaded"
| "load_sources (source # sources) loaded =
     bindE (check_source source) (\<lambda>_.
       if fmlookup loaded (cs_source_id source) \<noteq> None
       then Inl (msg_source_id_duplicate @ cs_source_id source)
       else load_sources sources (fmupd (cs_source_id source) source loaded))"

definition SourceCatalog_Load :: "CommandSource list \<Rightarrow> SourceCatalog \<Rightarrow> (string + unit) \<times> SourceCatalog" where
  "SourceCatalog_Load sources catalog =
     (case load_sources sources fmempty of
        Inl e \<Rightarrow> (Inl e, catalog)
      | Inr loaded \<Rightarrow> (Inr (), loaded))"

definition SourceCatalog_Find :: "SourceCatalog \<Rightarrow> string \<Rightarrow> CommandSource option" where
  "SourceCatalog_Find catalog source_id = fmlookup catalog source_id"

definition found_or_error :: "DeviceRecord option \<Rightarrow> ProtocolError + ResolvedTarget" where
  "found_or_error target =
     (case target of
        None \<Rightarrow> Inl (mk_error ''target_not_found'' msg_target_not_found)
      | Some record \<Rightarrow> Inr (Resolve record))"

definition ResolveConfigTarget ::
    "CommandSource \<Rightarrow> SourceConfigRequest \<Rightarrow> DeviceRegistry \<Rightarrow> ProtocolError + ResolvedTarget" where
  "ResolveConfigTarget source request devices =
     (if cs_kind source = SrcDevice then
        (case (scr_target request, cs_device_id source) of
           (DeviceLabelTarget label, Some device_id) \<Rightarrow>
             (case Find devices device_id of
                None \<Rightarrow> Inl (mk_error ''permission_denied'' msg_source_device_unknown)
              | Some source_device \<Rightarrow>
                  if dr_status source_device \<noteq> Online
                  then Inl (mk_error ''source_device_offline'' msg_source_device_offline)
                  else found_or_error
                    (FindBySchoolAndLabel devices (dr_school_id source_device) label))
         | _ \<Rightarrow> Inl (mk_error ''invalid_target'' msg_device_source_target))
      else
        (case scr_target request of
           DeviceTarget device_id \<Rightarrow> found_or_error (Find devices device_id)
         | SchoolLabelTarget school_name label \<Rightarrow>
             if IsSchoolNameAndLabelAmbiguous devices school_name label
             then Inl (mk_error ''target_ambiguous'' msg_target_ambiguous)
             else found_or_error (FindBySchoolNameAndLabel devices school_name label)
         | DeviceLabelTarget _ \<Rightarrow> Inl (mk_error ''invalid_target'' msg_target_form)))"

definition ConfigParameters_none :: ConfigParameters where
  "ConfigParameters_none =
     \<lparr>cp_telemetry_publish_interval_ms = None, cp_heartbeat_interval_ms = None,
      cp_mqtt_reconnect_delay_s = None, cp_mqtt_reconnect_delay_max_s = None\<rparr>"

definition ResolveControlTarget ::
    "CommandSource \<Rightarrow> SourceControlRequest \<Rightarrow> DeviceRegistry \<Rightarrow> ProtocolError + ResolvedTarget" where
  "ResolveControlTarget source request devices =
     bindE (ResolveConfigTarget source
              \<lparr>scr_request_id = sct_request_id request, scr_target = sct_target request,
               scr_parameters = ConfigParameters_none,
               scr_comparison_payload = sct_comparison_payload request\<rparr> devices)
       (\<lambda>resolved.
          case Find devices (rt_device_id resolved) of
            Some target \<Rightarrow>
              if dr_device_type target = FlightController
              then Inl (mk_error ''unsupported_device_type'' msg_unsupported_device_type)
              else Inr resolved
          | None \<Rightarrow> Inr resolved)"

subsection \<open>Lemmas\<close>

lemma load_sources_iff:
  "load_sources ss m = Inr m' \<longleftrightarrow>
     (\<forall>s \<in> set ss. check_source s = Inr () \<and> fmlookup m (cs_source_id s) = None) \<and>
     distinct (map cs_source_id ss) \<and> m' = fold (\<lambda>s. fmupd (cs_source_id s) s) ss m"
  by (induction ss arbitrary: m) (auto simp: outcome image_iff)

lemma fold_sources_lookup:
  "distinct (map cs_source_id ss) \<Longrightarrow>
     fmlookup (fold (\<lambda>s. fmupd (cs_source_id s) s) ss m) k = Some s \<longleftrightarrow>
       (s \<in> set ss \<and> cs_source_id s = k) \<or> (k \<notin> cs_source_id ` set ss \<and> fmlookup m k = Some s)"
  by (induction ss arbitrary: m) auto

lemma found_or_error_Inr [simp]:
  "found_or_error t = Inr x \<longleftrightarrow> (\<exists>r. t = Some r \<and> x = Resolve r)"
  by (auto simp: found_or_error_def split: option.split)

lemma Resolve_id [simp]: "rt_device_id (Resolve r) = dr_device_id r"
  by (simp add: Resolve_def)

lemma check_source_ok:
  "check_source s = Inr () \<longleftrightarrow> cs_source_id s \<noteq> [] \<and>
     cs_device_id s = (if cs_kind s = SrcDevice then Some (cs_source_id s) else None)"
  by (auto simp: check_source_def split: option.splits)

lemma resolve_registered:
  assumes "registry_reachable devices" "ResolveConfigTarget source request devices = Inr t"
  shows "\<exists>r. Find devices (rt_device_id t) = Some r \<and> t = Resolve r"
proof -
  note ok = registry_reachable_ok [OF assms(1)]
  consider d r where "Find devices d = Some r" "t = Resolve r"
    | s l r where "FindBySchoolAndLabel devices s l = Some r" "t = Resolve r"
    | n l r where "FindBySchoolNameAndLabel devices n l = Some r" "t = Resolve r"
    using assms(2) unfolding ResolveConfigTarget_def
    by (auto split: if_splits RequestTarget.splits option.splits)
  then show ?thesis
  proof cases
    case (1 d r)
    then show ?thesis using dev_dir.find_id [OF ok, of d r] by simp
  next
    case (2 s l r)
    then show ?thesis using dev_dir.find_role_iff [OF ok, of s l r] by simp
  next
    case (3 n l r)
    then show ?thesis using dev_dir.find_named_iff [OF ok, of n l r] by simp
  qed
qed

subsection \<open>Properties\<close>

definition demo_source :: CommandSource where
  "demo_source = \<lparr>cs_source_id = ''b'', cs_kind = SrcDevice, cs_device_id = Some ''b'', cs_enabled = True\<rparr>"

definition demo_app :: CommandSource where
  "demo_app = \<lparr>cs_source_id = ''app'', cs_kind = SrcHostApp, cs_device_id = None, cs_enabled = True\<rparr>"

definition demo_config :: "RequestTarget \<Rightarrow> SourceConfigRequest" where
  "demo_config target =
     \<lparr>scr_request_id = ''r1'', scr_target = target, scr_parameters = ConfigParameters_none,
      scr_comparison_payload = JNull\<rparr>"

definition demo_control :: "RequestTarget \<Rightarrow> SourceControlRequest" where
  "demo_control target =
     \<lparr>sct_request_id = ''r1'', sct_target = target, sct_command = Land, sct_parameters = None,
      sct_comparison_payload = JNull\<rparr>"

text \<open>
  C31. A request of a device is routed exactly when it addresses a label, the device itself is
  registered and online, and some device of its own school holds the label; the result is that
  device. A device can therefore never reach a device of another school.
\<close>

theorem device_source_routing:
  assumes "registry_reachable devices" "cs_kind source = SrcDevice"
  shows "ResolveConfigTarget source request devices = Inr t \<longleftrightarrow>
    (\<exists>label d self r. scr_target request = DeviceLabelTarget label \<and> cs_device_id source = Some d \<and>
       Find devices d = Some self \<and> dr_status self = Online \<and>
       Find devices (dr_device_id r) = Some r \<and> dr_school_id r = dr_school_id self \<and>
       dr_dcdw_label r = Some label \<and> t = Resolve r)"
  using assms(2) dev_dir.find_role_iff [OF registry_reachable_ok [OF assms(1)]]
  by (auto simp: ResolveConfigTarget_def split: RequestTarget.splits option.splits)

theorem device_source_routing_witness:
  "ResolveConfigTarget demo_source (demo_config (DeviceLabelTarget ''L'')) demo_registry =
     Inr (Resolve (demo_device ''a'' (Some ''L'')))"
  unfolding device_source_routing [OF demo_reachable, of demo_source, unfolded demo_source_def CommandSource.simps,
      OF refl, folded demo_source_def]
  by (rule exI [of _ "''L''"], rule exI [of _ "''b''"], rule exI [of _ "demo_device ''b'' None"],
      rule exI [of _ "demo_device ''a'' (Some ''L'')"])
     (simp add: demo_config_def Find_def demo_device_def)

text \<open>
  A request of an application or a control centre is routed exactly when it names a registered
  device, or a school name and a label that exactly one device holds; two holders are refused as
  ambiguous and the label alone is refused as a form of target.
\<close>

theorem app_source_routing:
  assumes reach: "registry_reachable devices" and app: "cs_kind source \<noteq> SrcDevice"
  shows "(ResolveConfigTarget source request devices = Inr t \<longleftrightarrow>
      (\<exists>r. Find devices (dr_device_id r) = Some r \<and> t = Resolve r \<and>
         (scr_target request = DeviceTarget (dr_device_id r) \<or>
          (\<exists>n l. scr_target request = SchoolLabelTarget n l \<and>
             named_holders (Find devices) n l = {dr_device_id r})))) \<and>
    (scr_target request = SchoolLabelTarget n l \<longrightarrow>
      ResolveConfigTarget source request devices = Inl (mk_error ''target_ambiguous'' msg_target_ambiguous) \<longleftrightarrow>
      (\<exists>d d'. d \<in> named_holders (Find devices) n l \<and> d' \<in> named_holders (Find devices) n l \<and> d \<noteq> d'))"
proof (cases "scr_target request")
  case (DeviceLabelTarget label)
  then show ?thesis using app by (simp add: ResolveConfigTarget_def)
next
  case (SchoolLabelTarget n' l')
  note ok = registry_reachable_ok [OF reach]
  have "mk_error ''target_not_found'' msg_target_not_found \<noteq> mk_error ''target_ambiguous'' msg_target_ambiguous"
    by (simp add: mk_error_def)
  then have "ResolveConfigTarget source request devices = Inl (mk_error ''target_ambiguous'' msg_target_ambiguous) \<longleftrightarrow>
      IsSchoolNameAndLabelAmbiguous devices n' l'"
    using SchoolLabelTarget app by (auto simp: ResolveConfigTarget_def found_or_error_def split: option.splits)
  moreover have "ResolveConfigTarget source request devices = Inr t \<longleftrightarrow>
      (\<exists>r. FindBySchoolNameAndLabel devices n' l' = Some r \<and> t = Resolve r)"
    using SchoolLabelTarget app dev_dir.named_not_ambiguous [OF ok]
    by (auto simp: ResolveConfigTarget_def)
  ultimately show ?thesis
    unfolding SchoolLabelTarget dev_dir.find_named_iff [OF ok] dev_dir.ambiguous_iff [OF ok] by auto
next
  case (DeviceTarget d)
  then show ?thesis
    using app dev_dir.find_id [OF registry_reachable_ok [OF reach]] by (auto simp: ResolveConfigTarget_def)
qed

theorem app_source_routing_witness:
  "ResolveConfigTarget demo_app (demo_config (DeviceTarget ''b'')) demo_registry =
     Inr (Resolve (demo_device ''b'' None))"
proof -
  have "cs_kind demo_app \<noteq> SrcDevice" by (simp add: demo_app_def)
  from conjunct1 [OF app_source_routing [OF demo_reachable this]] show ?thesis
    by (rule iffD2) (rule exI [of _ "demo_device ''b'' None"],
      simp add: demo_config_def Find_def demo_device_def)
qed

text \<open>
  Control requests are routed like configuration requests, except that a flight controller is
  never a target: a control command is resolved exactly when the configuration request for the same
  target is and the device found is not a flight controller.
\<close>

theorem control_routing:
  assumes reach: "registry_reachable devices"
    and config: "scr_target config = sct_target request"
  shows "ResolveControlTarget source request devices = Inr t \<longleftrightarrow>
    ResolveConfigTarget source config devices = Inr t \<and>
    (\<exists>r. Find devices (rt_device_id t) = Some r \<and> dr_device_type r \<noteq> FlightController)"
proof -
  have same: "ResolveConfigTarget source
      \<lparr>scr_request_id = sct_request_id request, scr_target = sct_target request,
       scr_parameters = ConfigParameters_none, scr_comparison_payload = sct_comparison_payload request\<rparr>
      devices = ResolveConfigTarget source config devices"
    by (simp add: ResolveConfigTarget_def config)
  have "\<exists>r. Find devices (rt_device_id t) = Some r" if "ResolveConfigTarget source config devices = Inr t"
    using that resolve_registered [OF reach] by blast
  then show ?thesis
    unfolding ResolveControlTarget_def same by (auto simp: outcome split: option.splits if_splits)
qed

theorem control_routing_witness:
  "ResolveControlTarget demo_app (demo_control (DeviceTarget ''b'')) demo_registry =
     Inr (Resolve (demo_device ''b'' None))"
proof -
  have "scr_target (demo_config (DeviceTarget ''b'')) = sct_target (demo_control (DeviceTarget ''b''))"
    by (simp add: demo_config_def demo_control_def)
  from control_routing [OF demo_reachable this, of demo_app] show ?thesis
    by (simp add: ResolveConfigTarget_def demo_app_def demo_config_def Find_def demo_device_def found_or_error_def)
qed

text \<open>
  Loading the source catalogue succeeds exactly when every source is well formed (a non-empty
  identifier, a device source named by its device, no device for the others) and identifiers are
  distinct; the catalogue then finds exactly the loaded sources, and a failed load keeps the old one.
\<close>

theorem SourceCatalog_Load_exact:
  "(fst (SourceCatalog_Load ss cat) = Inr () \<longleftrightarrow>
      distinct (map cs_source_id ss) \<and> (\<forall>s \<in> set ss. cs_source_id s \<noteq> [] \<and>
        cs_device_id s = (if cs_kind s = SrcDevice then Some (cs_source_id s) else None))) \<and>
   (fst (SourceCatalog_Load ss cat) = Inr () \<longrightarrow>
      (\<forall>k s. SourceCatalog_Find (snd (SourceCatalog_Load ss cat)) k = Some s \<longleftrightarrow>
         s \<in> set ss \<and> cs_source_id s = k)) \<and>
   (fst (SourceCatalog_Load ss cat) \<noteq> Inr () \<longrightarrow> snd (SourceCatalog_Load ss cat) = cat)"
proof (cases "load_sources ss fmempty")
  case (Inl e)
  then have "\<not> ((\<forall>s \<in> set ss. check_source s = Inr ()) \<and> distinct (map cs_source_id ss))"
    using load_sources_iff [of ss fmempty "fold (\<lambda>s. fmupd (cs_source_id s) s) ss fmempty"] by auto
  then show ?thesis unfolding check_source_ok SourceCatalog_Load_def Inl by force
next
  case (Inr m)
  then show ?thesis using load_sources_iff [of ss fmempty m]
    by (simp add: SourceCatalog_Load_def SourceCatalog_Find_def fold_sources_lookup check_source_ok)
qed

theorem SourceCatalog_Load_exact_witness:
  "SourceCatalog_Find (snd (SourceCatalog_Load [demo_source, demo_app] fmempty)) ''app'' = Some demo_app"
  using SourceCatalog_Load_exact [of "[demo_source, demo_app]" fmempty]
  by (simp add: demo_source_def demo_app_def)

end
