(* ===== verification/Command_State.thy ===== *)
theory Command_State
  imports Command_Router Time_Format
begin

text \<open>
  \<^verbatim>\<open>core/command/command_state.cpp\<close>: the life cycle of a command, the acknowledgements
  sent back to its source, and the generation of command identifiers. The lemmas show that the
  life cycle only moves forward and ends in a terminal state, that generated identifiers have the
  shape the parsers demand and keep all random bits that the format leaves free, and when building
  an acknowledgement throws.
\<close>

unbundle bit_operations_syntax

record CommandRecord =
  cr_command_id :: string
  cr_command_type :: CommandType
  cr_source_id :: string
  cr_request_id :: string
  cr_target_device_id :: "string option"
  cr_request_payload :: json
  cr_status :: CommandStatus
  cr_error_code :: "string option"
  cr_error_message :: "string option"
  cr_device_ack :: "json option"
  cr_created_at :: int
  cr_dispatched_at :: "int option"
  cr_updated_at :: int
  cr_completed_at :: "int option"

record CommandUpdate =
  cu_error_code :: "string option"
  cu_error_message :: "string option"
  cu_device_ack :: "json option"
  cu_dispatched_at :: "int option"
  cu_completed_at :: "int option"
  cu_updated_at :: int

fun StatusText :: "CommandStatus \<Rightarrow> string" where
  "StatusText Pending = ''pending''"
| "StatusText Dispatched = ''dispatched''"
| "StatusText InProgress = ''in_progress''"
| "StatusText Succeeded = ''succeeded''"
| "StatusText Failed = ''failed''"
| "StatusText Timeout = ''timeout''"
| "StatusText DeliveryUncertain = ''delivery_uncertain''"

definition BaseAck :: "json \<Rightarrow> json \<Rightarrow> CommandType \<Rightarrow> CommandStatus \<Rightarrow> int \<Rightarrow> json" where
  "BaseAck request_id command_id command_type status occurred_at =
     jobject [(''schema_version'', jint 1),
              (''request_id'', request_id),
              (''command_id'', command_id),
              (''command_type'', JString (CommandType_ToString command_type)),
              (''status'', JString (StatusText status)),
              (''business_status'', JNull),
              (''occurred_at'', JString (FormatUtcRfc3339Millis occurred_at))]"

definition IsTerminal :: "CommandStatus \<Rightarrow> bool" where
  "IsTerminal status \<longleftrightarrow>
     status = Succeeded \<or> status = Failed \<or> status = Timeout \<or> status = DeliveryUncertain"

definition CanTransition :: "CommandStatus \<Rightarrow> CommandStatus \<Rightarrow> bool" where
  "CanTransition from_status to_status =
     (if from_status = Pending
      then to_status = Dispatched \<or> to_status = Failed \<or> to_status = Timeout \<or> to_status = DeliveryUncertain
      else if from_status = Dispatched
      then to_status = InProgress \<or> to_status = Succeeded \<or> to_status = Failed \<or> to_status = Timeout \<or>
           to_status = DeliveryUncertain
      else if from_status = InProgress
      then to_status = InProgress \<or> to_status = Succeeded \<or> to_status = Failed \<or> to_status = Timeout \<or>
           to_status = DeliveryUncertain
      else False)"

datatype IdempotencyResult = Same | Conflict

definition CompareRequest :: "json_lib \<Rightarrow> CommandRecord \<Rightarrow> json \<Rightarrow> IdempotencyResult" where
  "CompareRequest lib existing comparison_payload =
     (if jeq lib (cr_request_payload existing) comparison_payload then Same else Conflict)"

text \<open>
  \<^verbatim>\<open>device_ack.value("restart_required", false)\<close> throws when the value is no object or
  the member is no boolean.
\<close>

datatype json_exception = TypeError nat

definition value_bool :: "json \<Rightarrow> string \<Rightarrow> bool \<Rightarrow> json_exception + bool" where
  "value_bool j key default_value =
     (if \<not> is_object j then Inl (TypeError 306)
      else case jfind j key of
             None \<Rightarrow> Inr default_value
           | Some (JBool b) \<Rightarrow> Inr b
           | Some _ \<Rightarrow> Inl (TypeError 302))"

definition ack_with_target :: "ResolvedTarget option \<Rightarrow> json \<Rightarrow> json" where
  "ack_with_target target ack =
     (case target of
        None \<Rightarrow> ack
      | Some t \<Rightarrow> jset ack ''target''
          (jobject [(''device_id'', JString (rt_device_id t)),
                    (''school_name'', JString (rt_school_name t)),
                    (''dcdw_label'', jopt JString (rt_dcdw_label t))]))"

definition ack_with_error :: "CommandRecord \<Rightarrow> json \<Rightarrow> json" where
  "ack_with_error command ack =
     (if cr_command_type command = Control \<and> cr_status command = DeliveryUncertain
      then jset ack ''error''
        (jobject [(''code'', JString ''control_delivery_uncertain''), (''message'', JString msg_control_uncertain)])
      else case cr_error_code command of
             None \<Rightarrow> ack
           | Some error_code \<Rightarrow> jset ack ''error''
               (jobject [(''code'', JString error_code), (''message'', jopt JString (cr_error_message command))]))"

definition control_ack_fields :: "string list" where
  "control_ack_fields =
     [''command'', ''mavlink_command'', ''result'', ''result_code'', ''progress'', ''result_param2'',
      ''error_code'']"

definition ack_with_device :: "CommandRecord \<Rightarrow> json \<Rightarrow> json_exception + json" where
  "ack_with_device command ack =
     (case cr_device_ack command of
        None \<Rightarrow> Inr ack
      | Some device_ack \<Rightarrow>
          let ack' = (case jfind device_ack ''status'' of
                        Some (JString s) \<Rightarrow> jset ack ''business_status'' (JString s)
                      | _ \<Rightarrow> ack)
          in if cr_command_type command = Config
             then bindE (value_bool device_ack ''restart_required'' False) (\<lambda>restart.
               Inr (jset ack' ''device''
                 (jobject [(''restart_required'', JBool restart),
                           (''error_code'', case jfind device_ack ''error_code'' of None \<Rightarrow> JNull | Some e \<Rightarrow> e)])))
             else Inr (jset ack' ''device''
               (fold (\<lambda>field device. case jfind device_ack field of
                        None \<Rightarrow> device | Some v \<Rightarrow> jset device field v)
                  control_ack_fields (jobject []))))"

definition BuildSourceAck :: "CommandRecord \<Rightarrow> ResolvedTarget option \<Rightarrow> int \<Rightarrow> json_exception + json" where
  "BuildSourceAck command target occurred_at =
     ack_with_device command
       (ack_with_error command
         (ack_with_target target
           (BaseAck (JString (cr_request_id command)) (JString (cr_command_id command))
              (cr_command_type command) (cr_status command) occurred_at)))"

definition BuildPrePersistenceRejection ::
    "string option \<Rightarrow> ProtocolError \<Rightarrow> int \<Rightarrow> CommandType \<Rightarrow> json" where
  "BuildPrePersistenceRejection request_id error occurred_at command_type =
     jset (BaseAck (jopt JString request_id) JNull command_type Failed occurred_at) ''error''
       (jobject [(''code'', JString (pe_code error)), (''message'', JString (pe_message error))])"

subsection \<open>Command identifiers\<close>

definition kHex :: string where
  "kHex = ''0123456789abcdef''"

definition hex_digit :: "8 word \<Rightarrow> char" where
  "hex_digit w = kHex ! unat w"

definition uuid_bytes :: "8 word list \<Rightarrow> 8 word list" where
  "uuid_bytes random_bytes =
     (let bs = random_bytes[6 := ((random_bytes ! 6) AND 0x0F) OR 0x40]
      in bs[8 := ((bs ! 8) AND 0x3F) OR 0x80])"

definition format_byte :: "8 word list \<Rightarrow> nat \<Rightarrow> string" where
  "format_byte bs index =
     (if index = 4 \<or> index = 6 \<or> index = 8 \<or> index = 10 then ''-'' else []) @
     [hex_digit (drop_bit 4 (bs ! index)), hex_digit ((bs ! index) AND 0x0F)]"

definition FormatUuidV4 :: "8 word list \<Rightarrow> string" where
  "FormatUuidV4 random_bytes =
     concat (map (format_byte (uuid_bytes random_bytes)) [0..<length random_bytes])"

text \<open>The argument lists the 16 results of \<^verbatim>\<open>std::random_device\<close>.\<close>

definition GenerateUuidV4 :: "32 word list \<Rightarrow> string" where
  "GenerateUuidV4 draws = FormatUuidV4 (map ucast (take 16 draws))"

subsection \<open>Lemmas on the life cycle\<close>

fun phase :: "CommandStatus \<Rightarrow> nat" where
  "phase Pending = 0"
| "phase Dispatched = 1"
| "phase InProgress = 2"
| "phase _ = 3"

lemma IsTerminal_iff: "IsTerminal s \<longleftrightarrow> (\<forall>t. \<not> CanTransition s t)"
  by (cases s) (auto simp: IsTerminal_def CanTransition_def)

lemma CanTransition_phase: "CanTransition s t \<Longrightarrow> phase s < phase t \<or> s = InProgress \<and> t = InProgress"
  by (cases s; cases t) (simp_all add: CanTransition_def)

text \<open>A history of a command: each status follows the one before by an allowed transition.\<close>

fun lifecycle :: "CommandStatus list \<Rightarrow> bool" where
  "lifecycle (s # t # ss) \<longleftrightarrow> CanTransition s t \<and> lifecycle (t # ss)"
| "lifecycle _ = True"

lemma lifecycle_sorted: "lifecycle (s # ss) \<Longrightarrow> sorted (map phase (s # ss))"
proof (induction ss arbitrary: s)
  case (Cons t ss)
  then have "phase s \<le> phase t" "sorted (map phase (t # ss))"
    using CanTransition_phase [of s t] by auto
  then show ?case by (simp only: list.map sorted2)
qed simp

lemma lifecycle_terminal_last: "lifecycle ss \<Longrightarrow> i < length ss \<Longrightarrow> IsTerminal (ss ! i) \<Longrightarrow> Suc i = length ss"
proof (induction ss arbitrary: i rule: lifecycle.induct)
  case (1 s t ss)
  then show ?case by (cases i) (auto simp: IsTerminal_iff)
qed auto

lemma lifecycle_no_Pending: "lifecycle (s # ss) \<Longrightarrow> Pending \<notin> set ss"
  by (induction ss arbitrary: s) (auto simp: CanTransition_def split: if_splits)

lemma lifecycle_first: "lifecycle (Pending # s # ss) \<Longrightarrow> s = Dispatched \<or> ss = [] \<and> s \<noteq> Succeeded"
  by (cases ss) (auto simp: CanTransition_def)

subsection \<open>Lemmas on command identifiers\<close>

lemma nibble_high: "unat (drop_bit 4 b :: 8 word) < 16"
proof -
  have "unat (drop_bit 4 b) = unat b div 16" by (simp add: drop_bit_eq_div unat_div)
  moreover have "unat b < 16 * 16" using unsigned_less [of b, where ?'a = nat] by simp
  ultimately show ?thesis by (simp add: less_mult_imp_div_less)
qed

lemma nibble_low: "unat (b AND 0x0F :: 8 word) < 16"
proof -
  have "b AND 0x0F = take_bit 4 b" by (simp add: take_bit_eq_mask mask_numeral)
  then have "unat (b AND 0x0F) = take_bit 4 (unat b)" by (simp add: unsigned_take_bit_eq)
  then show ?thesis by (simp add: take_bit_eq_mod)
qed

lemma hex_digit_char: "unat w < 16 \<Longrightarrow> uuid_char (hex_digit w)"
proof -
  have "list_all uuid_char kHex" by (simp add: kHex_def uuid_char_def is_digit_def less_eq_char_def)
  moreover have "length kHex = 16" by (simp add: kHex_def)
  ultimately show "unat w < 16 \<Longrightarrow> uuid_char (hex_digit w)"
    by (simp add: hex_digit_def list_all_length)
qed

lemma hex_digit_inj: "unat w < 16 \<Longrightarrow> unat v < 16 \<Longrightarrow> hex_digit w = hex_digit v \<longleftrightarrow> w = v"
  by (simp add: hex_digit_def nth_eq_iff_index_eq kHex_def word_unat_eq_iff)

lemma nibbles_eq: "drop_bit 4 b = drop_bit 4 c \<Longrightarrow> b AND 0x0F = c AND 0x0F \<Longrightarrow> b = (c :: 8 word)"
proof -
  assume "drop_bit 4 b = drop_bit 4 c" "b AND 0x0F = c AND 0x0F"
  then have "push_bit 4 (drop_bit 4 b) + take_bit 4 b = push_bit 4 (drop_bit 4 c) + take_bit 4 c"
    by (simp add: take_bit_eq_mask mask_numeral)
  then show ?thesis by (simp only: bits_ident)
qed

lemma version_digit: "hex_digit (drop_bit 4 ((b AND 0x0F) OR 0x40)) = CHR ''4''"
  by (simp add: drop_bit_or drop_bit_and hex_digit_def kHex_def)

lemma variant_digit: "hex_digit (drop_bit 4 ((b AND 0x3F) OR 0x80)) \<in> set ''89ab''"
proof -
  have "list_all (\<lambda>n. hex_digit (drop_bit 4 (((word_of_nat n :: 8 word) AND 0x3F) OR 0x80)) \<in> set ''89ab'') [0..<256]"
    by code_simp
  moreover obtain n where "b = word_of_nat n" "n < 256" by (cases b rule: word_nat_cases) simp
  ultimately show ?thesis by (simp add: list_all_iff)
qed

lemma format_byte_eq: "format_byte bs i = format_byte cs i \<longleftrightarrow> bs ! i = cs ! i"
  using nibbles_eq by (auto simp: format_byte_def hex_digit_inj nibble_high nibble_low)

lemma format_eq_iff:
  "concat (map (format_byte bs) is) = concat (map (format_byte cs) is) \<longleftrightarrow> (\<forall>i \<in> set is. bs ! i = cs ! i)"
proof (induction "is")
  case (Cons i "is")
  have "length (format_byte bs i) = length (format_byte cs i)" by (simp add: format_byte_def)
  then show ?case using Cons.IH by (simp add: format_byte_eq)
qed simp

lemma sixteen:
  assumes "length (bs :: 'a list) = 16"
  obtains b0 b1 b2 b3 b4 b5 b6 b7 b8 b9 b10 b11 b12 b13 b14 b15
  where "bs = [b0, b1, b2, b3, b4, b5, b6, b7, b8, b9, b10, b11, b12, b13, b14, b15]"
  using assms by (auto simp: length_Suc_conv numeral_eq_Suc)

lemma FormatUuidV4_shape:
  assumes "length bs = 16"
  shows "IsUuidV4Shape (FormatUuidV4 bs)"
proof -
  from assms obtain b0 b1 b2 b3 b4 b5 b6 b7 b8 b9 b10 b11 b12 b13 b14 b15
    where bs: "bs = [b0, b1, b2, b3, b4, b5, b6, b7, b8, b9, b10, b11, b12, b13, b14, b15]"
    by (rule sixteen)
  have "[0..<16] = [0, 1, 2, 3, 4, 5, 6, 7, 8, 9, 10, 11, 12, 13, 14, 15 :: nat]"
    by (simp add: upt_rec)
  moreover have "hex_digit 4 = CHR ''4''" by (simp add: hex_digit_def kHex_def)
  moreover have "list_all uuid_char ''489ab''" by (simp add: uuid_char_def is_digit_def less_eq_char_def)
  ultimately show ?thesis
    using variant_digit [of b8]
    by (auto simp add: IsUuidV4Shape_def FormatUuidV4_def bs uuid_bytes_def format_byte_def upt_rec version_digit hex_digit_char nibble_high nibble_low)
qed
lemma FormatUuidV4_eq_iff:
  assumes "length bs = 16" "length cs = 16"
  shows "FormatUuidV4 bs = FormatUuidV4 cs \<longleftrightarrow> uuid_bytes bs = uuid_bytes cs"
proof -
  have "length (uuid_bytes bs) = 16" "length (uuid_bytes cs) = 16"
    using assms by (simp_all add: uuid_bytes_def Let_def)
  then show ?thesis
    using assms by (simp add: FormatUuidV4_def format_eq_iff list_eq_iff_nth_eq [of "uuid_bytes bs"] Ball_def)
qed

lemma masked_bytes:
  "(b AND 0x0F) OR 0x40 = (c AND 0x0F) OR 0x40 \<longleftrightarrow> b AND 0x0F = (c AND 0x0F :: 8 word)"
  "(b AND 0x3F) OR 0x80 = (c AND 0x3F) OR 0x80 \<longleftrightarrow> b AND 0x3F = (c AND 0x3F :: 8 word)"
proof -
  have low: "((x AND 0x0F) OR 0x40) AND 0x0F = (x AND 0x0F :: 8 word)"
    "((x AND 0x3F) OR 0x80) AND 0x3F = (x AND 0x3F :: 8 word)" for x
    by (simp_all add: bit.conj_disj_distrib2 and.assoc)
  show "(b AND 0x0F) OR 0x40 = (c AND 0x0F) OR 0x40 \<longleftrightarrow> b AND 0x0F = (c AND 0x0F :: 8 word)"
    using low(1) by metis
  show "(b AND 0x3F) OR 0x80 = (c AND 0x3F) OR 0x80 \<longleftrightarrow> b AND 0x3F = (c AND 0x3F :: 8 word)"
    using low(2) by metis
qed

lemma uuid_bytes_eq_iff:
  assumes "length bs = 16" "length cs = 16"
  shows "uuid_bytes bs = uuid_bytes cs \<longleftrightarrow>
    (\<forall>i < 16. if i = 6 then (bs ! i) AND 0x0F = (cs ! i) AND 0x0F
              else if i = 8 then (bs ! i) AND 0x3F = (cs ! i) AND 0x3F else bs ! i = cs ! i)"
proof -
  have nth: "uuid_bytes xs ! i = (if i = 6 then ((xs ! i) AND 0x0F) OR 0x40
      else if i = 8 then ((xs ! i) AND 0x3F) OR 0x80 else xs ! i)" if "length xs = 16" "i < 16" for xs i
    using that by (auto simp: uuid_bytes_def Let_def nth_list_update)
  have "length (uuid_bytes xs) = length xs" for xs by (simp add: uuid_bytes_def Let_def)
  then have "uuid_bytes bs = uuid_bytes cs \<longleftrightarrow> (\<forall>i < 16. uuid_bytes bs ! i = uuid_bytes cs ! i)"
    using assms by (simp add: list_eq_iff_nth_eq)
  also have "\<dots> \<longleftrightarrow> (\<forall>i < 16. if i = 6 then (bs ! i) AND 0x0F = (cs ! i) AND 0x0F
              else if i = 8 then (bs ! i) AND 0x3F = (cs ! i) AND 0x3F else bs ! i = cs ! i)"
  proof (intro all_cong)
    fix i :: nat assume "i < 16"
    then show "uuid_bytes bs ! i = uuid_bytes cs ! i \<longleftrightarrow>
        (if i = 6 then (bs ! i) AND 0x0F = (cs ! i) AND 0x0F
         else if i = 8 then (bs ! i) AND 0x3F = (cs ! i) AND 0x3F else bs ! i = cs ! i)"
      by (cases "i = 6"; cases "i = 8") (simp_all only: nth [OF assms(1)] nth [OF assms(2)] masked_bytes if_True if_False simp_thms)
  qed
  finally show ?thesis .
qed

subsection \<open>Lemmas on acknowledgements\<close>

lemma value_bool_Inr:
  "(\<exists>b. value_bool j k dv = Inr b) \<longleftrightarrow> is_object j \<and> (\<forall>v. jfind j k = Some v \<longrightarrow> is_boolean v)"
  by (auto simp: value_bool_def split: option.splits json.splits)

lemma is_object_ack [simp]:
  "is_object (BaseAck r c t s at)" "is_object (ack_with_target tg j) = is_object j"
  "is_object (ack_with_error cmd j) = is_object j"
  by (simp_all add: BaseAck_def ack_with_target_def ack_with_error_def split: option.split)

lemma ack_with_device_fields:
  assumes "ack_with_device cmd ack = Inr j" "is_object ack"
    "k \<noteq> ''device''" "k \<noteq> ''business_status''"
  shows "jfind j k = jfind ack k"
  using assms
  by (cases "cr_device_ack cmd")
     (auto simp: ack_with_device_def Let_def outcome split: option.splits json.splits if_splits)

lemma BuildSourceAck_total:
  assumes "\<And>a. cr_device_ack cmd = Some a \<Longrightarrow>
      is_object a \<and> (\<forall>v. jfind a ''restart_required'' = Some v \<longrightarrow> is_boolean v)"
  shows "has_value (BuildSourceAck cmd target at)"
proof (cases "cr_device_ack cmd")
  case None
  then show ?thesis by (simp add: BuildSourceAck_def ack_with_device_def)
next
  case (Some a)
  with assms obtain b where "value_bool a ''restart_required'' False = Inr b"
    using value_bool_Inr by blast
  with Some show ?thesis by (simp add: BuildSourceAck_def ack_with_device_def Let_def)
qed

subsection \<open>Properties\<close>

text \<open>
  C4. The life cycle of a command only moves forward: whatever sequence of allowed transitions a
  command goes through from its creation, it never returns to pending or to an earlier phase, a
  terminal status is the last one, and success is only reached after dispatch.
\<close>

theorem command_lifecycle:
  assumes "lifecycle (Pending # ss)"
  shows "sorted (map phase ss) \<and> Pending \<notin> set ss \<and>
    (\<forall>i < length ss. IsTerminal (ss ! i) \<longrightarrow> Suc i = length ss) \<and>
    (Succeeded \<in> set ss \<longrightarrow> hd ss = Dispatched)"
proof (intro conjI allI impI)
  show "sorted (map phase ss)" using lifecycle_sorted [OF assms] by simp
  show "Pending \<notin> set ss" using assms by (rule lifecycle_no_Pending)
  show "Suc i = length ss" if "i < length ss" "IsTerminal (ss ! i)" for i
    using lifecycle_terminal_last [OF assms, of "Suc i"] that by simp
  show "hd ss = Dispatched" if "Succeeded \<in> set ss"
    using that assms lifecycle_first [of "hd ss" "tl ss"] by (cases ss) auto
qed

theorem command_lifecycle_witness:
  "hd [Dispatched, InProgress, InProgress, Succeeded] = Dispatched \<and>
   Pending \<notin> set [Dispatched, InProgress, InProgress, Succeeded]"
  using command_lifecycle [of "[Dispatched, InProgress, InProgress, Succeeded]"]
  by (simp add: CanTransition_def)

text \<open>
  Every generated command identifier has the UUID version 4 shape that the acknowledgement
  parsers demand, and two identifiers are equal only when the random bytes agree in every bit the
  format leaves free.
\<close>

theorem FormatUuidV4_wellformed:
  assumes "length bs = 16" "length cs = 16"
  shows "IsUuidV4Shape (FormatUuidV4 bs) \<and>
    (FormatUuidV4 bs = FormatUuidV4 cs \<longleftrightarrow>
      (\<forall>i < 16. if i = 6 then (bs ! i) AND 0x0F = (cs ! i) AND 0x0F
                else if i = 8 then (bs ! i) AND 0x3F = (cs ! i) AND 0x3F else bs ! i = cs ! i))"
proof (intro conjI FormatUuidV4_shape [OF assms(1)])
  show "FormatUuidV4 bs = FormatUuidV4 cs \<longleftrightarrow>
      (\<forall>i < 16. if i = 6 then (bs ! i) AND 0x0F = (cs ! i) AND 0x0F
                else if i = 8 then (bs ! i) AND 0x3F = (cs ! i) AND 0x3F else bs ! i = cs ! i)"
    unfolding FormatUuidV4_eq_iff [OF assms] uuid_bytes_eq_iff [OF assms] ..
qed

theorem FormatUuidV4_wellformed_witness:
  "IsUuidV4Shape (FormatUuidV4 [0, 1, 2, 3, 4, 5, 6, 7, 8, 9, 10, 11, 12, 13, 14, 15])"
  using FormatUuidV4_wellformed [of "[0, 1, 2, 3, 4, 5, 6, 7, 8, 9, 10, 11, 12, 13, 14, 15]"
      "[0, 1, 2, 3, 4, 5, 6, 7, 8, 9, 10, 11, 12, 13, 14, 15]"] by simp

text \<open>
  Building the acknowledgement for a source throws exactly when a configuration command
  carries a device acknowledgement that is no object or whose restart flag is no boolean; otherwise
  it names the request, the command and the status of the record.
\<close>

theorem BuildSourceAck_outcome:
  "((\<exists>j. BuildSourceAck cmd target at = Inr j) \<longleftrightarrow>
      \<not> (cr_command_type cmd = Config \<and> (\<exists>a. cr_device_ack cmd = Some a \<and>
           (\<not> is_object a \<or> (\<exists>v. jfind a ''restart_required'' = Some v \<and> \<not> is_boolean v))))) \<and>
   (BuildSourceAck cmd target at = Inr j \<longrightarrow>
      jfind j ''request_id'' = Some (JString (cr_request_id cmd)) \<and>
      jfind j ''command_id'' = Some (JString (cr_command_id cmd)) \<and>
      jfind j ''status'' = Some (JString (StatusText (cr_status cmd))))"
proof
  show "(\<exists>j. BuildSourceAck cmd target at = Inr j) \<longleftrightarrow>
      \<not> (cr_command_type cmd = Config \<and> (\<exists>a. cr_device_ack cmd = Some a \<and>
           (\<not> is_object a \<or> (\<exists>v. jfind a ''restart_required'' = Some v \<and> \<not> is_boolean v))))"
    unfolding BuildSourceAck_def ack_with_device_def Let_def
    using value_bool_Inr [of _ "''restart_required''" False]
    by (cases "cr_device_ack cmd"; cases "cr_command_type cmd") (auto simp: outcome)
  show "BuildSourceAck cmd target at = Inr j \<longrightarrow>
      jfind j ''request_id'' = Some (JString (cr_request_id cmd)) \<and>
      jfind j ''command_id'' = Some (JString (cr_command_id cmd)) \<and>
      jfind j ''status'' = Some (JString (StatusText (cr_status cmd)))"
  proof
    let ?base = "BaseAck (JString (cr_request_id cmd)) (JString (cr_command_id cmd))
      (cr_command_type cmd) (cr_status cmd) at"
    assume "BuildSourceAck cmd target at = Inr j"
    then have "ack_with_device cmd (ack_with_error cmd (ack_with_target target ?base)) = Inr j"
      by (simp add: BuildSourceAck_def)
    note fields = ack_with_device_fields [OF this]
    have base: "jfind (ack_with_error cmd (ack_with_target target ?base)) k = jfind ?base k"
      if "k \<noteq> ''target''" "k \<noteq> ''error''" for k
      using that by (simp add: ack_with_error_def ack_with_target_def split: option.split)
    have "jfind j k = jfind ?base k"
      if "k \<noteq> ''target''" "k \<noteq> ''error''" "k \<noteq> ''device''" "k \<noteq> ''business_status''" for k
      using fields [of k] base [of k] that by simp
    then show "jfind j ''request_id'' = Some (JString (cr_request_id cmd)) \<and>
      jfind j ''command_id'' = Some (JString (cr_command_id cmd)) \<and>
      jfind j ''status'' = Some (JString (StatusText (cr_status cmd)))"
      by (simp add: BaseAck_def)
  qed
qed

definition demo_command :: CommandRecord where
  "demo_command =
     \<lparr>cr_command_id = ''c1'', cr_command_type = Config, cr_source_id = ''app'', cr_request_id = ''r1'',
      cr_target_device_id = Some ''a'', cr_request_payload = JNull, cr_status = Succeeded,
      cr_error_code = None, cr_error_message = None,
      cr_device_ack = Some (jobject [(''status'', JString ''applied''), (''restart_required'', JBool True)]),
      cr_created_at = 0, cr_dispatched_at = Some 1, cr_updated_at = 2, cr_completed_at = Some 2\<rparr>"

theorem BuildSourceAck_outcome_witness:
  "\<exists>j. BuildSourceAck demo_command None 5 = Inr j \<and> jfind j ''status'' = Some (JString ''succeeded'')"
  using BuildSourceAck_outcome [of demo_command None 5] by (auto simp: demo_command_def)

end
