(* ===== verification/Database_Port.thy ===== *)
theory Database_Port
  imports Command_State
begin

text \<open>
  The tasks the command service hands to the database worker and the results it gets back
  (\<^verbatim>\<open>core/runtime/postgres_worker.hpp\<close>).
\<close>

datatype DatabaseErrorKind = Unavailable | Permanent

record DatabaseError =
  dbe_kind :: DatabaseErrorKind
  dbe_message :: string

record TransitionCommandTask =
  tct_command_id :: string
  tct_expected :: CommandStatus
  tct_desired :: CommandStatus
  tct_update :: CommandUpdate

datatype CommandDatabaseTask =
    FindCommandTask string string       \<comment> \<open>\<^verbatim>\<open>source_id\<close>, \<^verbatim>\<open>request_id\<close>\<close>
  | FindCommandByIdTask string
  | InsertCommandTask CommandRecord
  | TransitionTask TransitionCommandTask
  | RecoverControlCommandsTask int nat  \<comment> \<open>\<^verbatim>\<open>recovered_at\<close>, \<^verbatim>\<open>limit\<close>\<close>
  | CleanupCommandsTask int nat         \<comment> \<open>\<^verbatim>\<open>before\<close>, \<^verbatim>\<open>batch_size\<close>\<close>

datatype CommandDatabaseValue =
    NoValue
  | MaybeRecord "CommandRecord option"
  | OneRecord CommandRecord
  | Records "CommandRecord list"
  | RecordCount nat

record CommandDatabaseResult =
  cdr_operation_id :: "64 word"
  cdr_value :: "DatabaseError + CommandDatabaseValue"

end
