(* ===== verification/Mqtt_Port.thy ===== *)
theory Mqtt_Port
  imports Prelude
begin

text \<open>
  What the services exchange with the MQTT adapter (\<^verbatim>\<open>adapters/mqtt/mqtt_client.hpp\<close>), and the
  outcome of a callback: \<^verbatim>\<open>noexcept\<close> members tell a \<^verbatim>\<open>std::exception\<close> from anything else.
\<close>

record InboundMessage =
  im_topic :: string
  im_payload :: string
  im_received_at :: int

record PublishCompletion =
  pc_token :: "64 word"
  pc_result :: "string + unit"

datatype call_outcome = Returned bool | ThrewException | ThrewUnknown

text \<open>The diagnostic a caught exception leads to.\<close>

definition threw_message :: "call_outcome \<Rightarrow> string \<Rightarrow> string \<Rightarrow> string option" where
  "threw_message outcome known unknown =
     (case outcome of Returned _ \<Rightarrow> None | ThrewException \<Rightarrow> Some known | ThrewUnknown \<Rightarrow> Some unknown)"

end
