(* ===== verification/Source_Request.thy ===== *)
theory Source_Request
  imports Command_Types Device_Message
begin

text \<open>
  \<^verbatim>\<open>core/command/source_request.cpp\<close>: the topics of command requests and device
  acknowledgements, and the strict parsing of the requests. The lemmas characterise the accepted
  topics exactly, show that accepted requests satisfy every bound of the protocol, and that every
  request within the bounds is accepted and read back unchanged.
\<close>

definition IsValidSourceId :: "string \<Rightarrow> bool" where
  "IsValidSourceId v \<longleftrightarrow>
     v \<noteq> [] \<and> length v \<le> 64 \<and>
     list_all (\<lambda>c. is_alnum c \<or> c = CHR ''.'' \<or> c = CHR ''_'' \<or> c = CHR ''-'') v"

definition IsValidRequestId :: "string \<Rightarrow> bool" where
  "IsValidRequestId v \<longleftrightarrow>
     v \<noteq> [] \<and> length v \<le> 128 \<and>
     list_all (\<lambda>c. is_alnum c \<or> c = CHR ''.'' \<or> c = CHR ''_'' \<or> c = CHR ''-'' \<or> c = CHR '':'') v"

definition IsNonEmptyStringWithin :: "json \<Rightarrow> string \<Rightarrow> nat \<Rightarrow> bool" where
  "IsNonEmptyStringWithin object key maximum \<longleftrightarrow>
     (case jfind object key of
        Some (JString v) \<Rightarrow> v \<noteq> [] \<and> length v \<le> maximum
      | _ \<Rightarrow> False)"

text \<open>The value read, and the flag \<^verbatim>\<open>valid\<close> that the C++ passes by reference.\<close>

definition ReadUnsignedInRange ::
    "json \<Rightarrow> string \<Rightarrow> nat \<Rightarrow> nat \<Rightarrow> bool \<Rightarrow> 32 word option \<times> bool" where
  "ReadUnsignedInRange object key minimum maximum valid =
     (case jfind object key of
        None \<Rightarrow> (None, valid)
      | Some v \<Rightarrow>
          if (\<not> is_number_integer v \<and> \<not> is_number_unsigned v) \<or> (is_number_integer v \<and> get_int64 v < 0)
          then (None, False)
          else
            let number = get_uint64 v
            in if number < minimum \<or> number > maximum then (None, False)
               else (Some (word_of_nat number), valid))"

definition config_fields :: "string list" where
  "config_fields =
     [''telemetry_publish_interval_ms'', ''heartbeat_interval_ms'', ''mqtt_reconnect_delay_s'',
      ''mqtt_reconnect_delay_max_s'']"

definition ParseParameters :: "json \<Rightarrow> ProtocolError + ConfigParameters" where
  "ParseParameters v =
     (if \<not> is_object v \<or> jsize v = 0 then Inl (mk_error ''invalid_parameters'' msg_parameters_nonempty)
      else if \<not> only_fields v config_fields
      then Inl (mk_error ''invalid_parameters'' msg_parameters_unknown)
      else
        let (interval, valid1) = ReadUnsignedInRange v ''telemetry_publish_interval_ms'' 100 60000 True;
            (heartbeat, valid2) = ReadUnsignedInRange v ''heartbeat_interval_ms'' 100 60000 valid1;
            (delay, valid3) = ReadUnsignedInRange v ''mqtt_reconnect_delay_s'' 1 3600 valid2;
            (delay_max, valid4) = ReadUnsignedInRange v ''mqtt_reconnect_delay_max_s'' 1 3600 valid3
        in if \<not> valid4 then Inl (mk_error ''invalid_parameters'' msg_parameters_range)
           else if delay \<noteq> None \<and> delay_max \<noteq> None \<and> the delay > the delay_max
           then Inl (mk_error ''invalid_parameters'' msg_parameters_reconnect)
           else Inr \<lparr>cp_telemetry_publish_interval_ms = interval, cp_heartbeat_interval_ms = heartbeat,
                     cp_mqtt_reconnect_delay_s = delay, cp_mqtt_reconnect_delay_max_s = delay_max\<rparr>)"

definition string_at :: "json \<Rightarrow> string \<Rightarrow> string" where
  "string_at j key = (case jfind j key of Some v \<Rightarrow> get_string v | None \<Rightarrow> [])"

definition ParseTarget :: "json \<Rightarrow> SourceKind \<Rightarrow> ProtocolError + RequestTarget" where
  "ParseTarget v kind =
     (if \<not> is_object v then Inl (mk_error ''invalid_target'' msg_target_object)
      else if kind = SrcDevice then
        (if jsize v \<noteq> 1 \<or> \<not> IsNonEmptyStringWithin v ''dcdw_label'' 64
         then Inl (mk_error ''invalid_target'' msg_target_label_only)
         else Inr (DeviceLabelTarget (string_at v ''dcdw_label'')))
      else if jsize v = 1 \<and> (case jfind v ''device_id'' of Some (JString d) \<Rightarrow> IsValidDeviceId d | _ \<Rightarrow> False)
      then Inr (DeviceTarget (string_at v ''device_id''))
      else if jsize v = 2 \<and> IsNonEmptyStringWithin v ''school_name'' 128 \<and>
              IsNonEmptyStringWithin v ''dcdw_label'' 64
      then Inr (SchoolLabelTarget (string_at v ''school_name'') (string_at v ''dcdw_label''))
      else Inl (mk_error ''invalid_target'' msg_target_mixed))"

definition Reject :: "string option \<Rightarrow> json option \<Rightarrow> ProtocolError \<Rightarrow> ParsedSourceRequest" where
  "Reject request_id comparison_payload error =
     Rejected \<lparr>rej_request_id = request_id, rej_comparison_payload = comparison_payload, rej_error = error\<rparr>"

definition ParseSourceTopic :: "string \<Rightarrow> string \<Rightarrow> string \<Rightarrow> string \<Rightarrow> ProtocolError + string" where
  "ParseSourceTopic topic_namespace topic suffix description =
     (let prefix = topic_namespace @ ''/sources/''
      in if \<not> starts_with topic prefix \<or> \<not> ends_with topic suffix \<or>
            length topic \<le> length prefix + length suffix
         then Inl (mk_error ''invalid_topic'' (description @ msg_topic_format))
         else
           let source_id = substr topic (length prefix) (length topic - length prefix - length suffix)
           in if \<not> IsValidSourceId source_id \<or> find_char CHR ''/'' source_id \<noteq> None
              then Inl (mk_error ''invalid_topic'' msg_topic_source_id)
              else Inr source_id)"

definition ParseDeviceAckTopic :: "string \<Rightarrow> string \<Rightarrow> string \<Rightarrow> string \<Rightarrow> ProtocolError + string" where
  "ParseDeviceAckTopic topic_namespace topic suffix description =
     (let prefix = topic_namespace @ ''/''
      in if \<not> starts_with topic prefix \<or> \<not> ends_with topic suffix \<or>
            length topic \<le> length prefix + length suffix
         then Inl (mk_error ''invalid_topic'' (description @ msg_ack_topic_format))
         else
           let device_id = substr topic (length prefix) (length topic - length prefix - length suffix)
           in if \<not> IsValidDeviceId device_id then Inl (mk_error ''invalid_topic'' msg_topic_device_id)
              else Inr device_id)"

definition ParseControlCommand :: "json \<Rightarrow> ProtocolError + ControlCommand" where
  "ParseControlCommand root =
     (case jfind root ''command'' of
        Some (JString command) \<Rightarrow>
          if command = ''set_motor_pwm'' then Inr SetMotorPwm
          else if command = ''emergency_stop'' then Inr EmergencyStop
          else if command = ''takeoff'' then Inr Takeoff
          else if command = ''land'' then Inr Land
          else Inl (mk_error ''unsupported_command'' msg_command_unsupported)
      | _ \<Rightarrow> Inl (mk_error ''unsupported_command'' msg_command_missing))"

definition parse_pwm :: "json \<Rightarrow> ProtocolError + 16 word" where
  "parse_pwm item =
     (if (\<not> is_number_integer item \<and> \<not> is_number_unsigned item) \<or>
         (is_number_integer item \<and> get_int64 item < 0)
      then Inl (mk_error ''invalid_parameters'' msg_pwm_range)
      else
        let number = get_uint64 item
        in if number < 1000 \<or> number > 2000 then Inl (mk_error ''invalid_parameters'' msg_pwm_range)
           else Inr (word_of_nat number))"

definition ParseControlParameters :: "json \<Rightarrow> ControlCommand \<Rightarrow> ProtocolError + ControlParameters" where
  "ParseControlParameters v command =
     (if \<not> is_object v then Inl (mk_error ''invalid_parameters'' msg_parameters_object)
      else if command \<noteq> SetMotorPwm then
        (if jsize v \<noteq> 0 then Inl (mk_error ''invalid_parameters'' msg_parameters_none) else Inr None)
      else if jsize v \<noteq> 1 then Inl (mk_error ''invalid_parameters'' msg_parameters_pwm)
      else
        (case jfind v ''pwm_us'' of
           Some (JArray [a, b, c, d]) \<Rightarrow>
             bindE (parse_pwm a) (\<lambda>p0. bindE (parse_pwm b) (\<lambda>p1. bindE (parse_pwm c) (\<lambda>p2.
             bindE (parse_pwm d) (\<lambda>p3. Inr (Some (p0, p1, p2, p3))))))
         | _ \<Rightarrow> Inl (mk_error ''invalid_parameters'' msg_parameters_pwm)))"

definition ParseSourceRequestTopic :: "string \<Rightarrow> string \<Rightarrow> ProtocolError + string" where
  "ParseSourceRequestTopic topic_namespace topic =
     ParseSourceTopic topic_namespace topic ''/config/request'' msg_describe_config_request"

definition ParseDeviceConfigAckTopic :: "string \<Rightarrow> string \<Rightarrow> ProtocolError + string" where
  "ParseDeviceConfigAckTopic topic_namespace topic =
     ParseDeviceAckTopic topic_namespace topic ''/config/ack'' msg_describe_config_ack"

definition ParseSourceControlRequestTopic :: "string \<Rightarrow> string \<Rightarrow> ProtocolError + string" where
  "ParseSourceControlRequestTopic topic_namespace topic =
     ParseSourceTopic topic_namespace topic ''/control/request'' msg_describe_control_request"

definition ParseDeviceControlAckTopic :: "string \<Rightarrow> string \<Rightarrow> ProtocolError + string" where
  "ParseDeviceControlAckTopic topic_namespace topic =
     ParseDeviceAckTopic topic_namespace topic ''/control/ack'' msg_describe_control_ack"

definition request_id_of :: "json \<Rightarrow> string option" where
  "request_id_of root =
     (case jfind root ''request_id'' of
        Some (JString v) \<Rightarrow> if IsValidRequestId v then Some v else None
      | _ \<Rightarrow> None)"

definition schema_version_ok :: "json \<Rightarrow> bool" where
  "schema_version_ok root \<longleftrightarrow>
     (case jfind root ''schema_version'' of
        None \<Rightarrow> False
      | Some v \<Rightarrow> is_number_integer v \<and> get_int64 v = 1)"

text \<open>The checks that come before \<^verbatim>\<open>target\<close>, shared by the two request parsers.\<close>

definition parse_envelope ::
    "json_lib \<Rightarrow> string \<Rightarrow> string list \<Rightarrow> (string \<Rightarrow> json \<Rightarrow> ParsedSourceRequest) \<Rightarrow> ParsedSourceRequest" where
  "parse_envelope lib payload allowed body =
     (case jparse lib payload of
        None \<Rightarrow> Reject None None (mk_error ''invalid_json'' msg_request_json)
      | Some root \<Rightarrow>
          if \<not> is_object root then Reject None None (mk_error ''invalid_json'' msg_request_object)
          else
            (case request_id_of root of
               None \<Rightarrow> Reject None (Some root) (mk_error ''invalid_request_id'' msg_request_id)
             | Some request_id \<Rightarrow>
                 if \<not> only_fields root allowed
                 then Reject (Some request_id) (Some root) (mk_error ''invalid_json'' msg_request_unknown)
                 else if \<not> schema_version_ok root
                 then Reject (Some request_id) (Some root)
                        (mk_error ''unsupported_schema_version'' msg_request_schema)
                 else body request_id root))"

definition config_body :: "SourceKind \<Rightarrow> string \<Rightarrow> json \<Rightarrow> ParsedSourceRequest" where
  "config_body kind request_id root =
     (case jfind root ''target'' of
        None \<Rightarrow> Reject (Some request_id) (Some root) (mk_error ''invalid_target'' msg_request_no_target)
      | Some target_value \<Rightarrow>
          (case ParseTarget target_value kind of
             Inl e \<Rightarrow> Reject (Some request_id) (Some root) e
           | Inr target \<Rightarrow>
               (case jfind root ''parameters'' of
                  None \<Rightarrow> Reject (Some request_id) (Some root)
                            (mk_error ''invalid_parameters'' msg_request_no_parameters)
                | Some parameters_value \<Rightarrow>
                    (case ParseParameters parameters_value of
                       Inl e \<Rightarrow> Reject (Some request_id) (Some root) e
                     | Inr parameters \<Rightarrow>
                         ParsedConfig \<lparr>scr_request_id = request_id, scr_target = target,
                           scr_parameters = parameters, scr_comparison_payload = root\<rparr>))))"

definition ParseSourceConfigRequest :: "json_lib \<Rightarrow> string \<Rightarrow> SourceKind \<Rightarrow> ParsedSourceRequest" where
  "ParseSourceConfigRequest lib payload kind =
     parse_envelope lib payload [''schema_version'', ''request_id'', ''target'', ''parameters'']
       (config_body kind)"

definition control_body :: "SourceKind \<Rightarrow> string \<Rightarrow> json \<Rightarrow> ParsedSourceRequest" where
  "control_body kind request_id root =
     (case jfind root ''target'' of
        None \<Rightarrow> Reject (Some request_id) (Some root) (mk_error ''invalid_target'' msg_request_no_target)
      | Some target_value \<Rightarrow>
          (case ParseTarget target_value kind of
             Inl e \<Rightarrow> Reject (Some request_id) (Some root) e
           | Inr target \<Rightarrow>
               (case ParseControlCommand root of
                  Inl e \<Rightarrow> Reject (Some request_id) (Some root) e
                | Inr command \<Rightarrow>
                    (case jfind root ''parameters'' of
                       None \<Rightarrow> Reject (Some request_id) (Some root)
                                 (mk_error ''invalid_parameters'' msg_request_no_parameters)
                     | Some parameters_value \<Rightarrow>
                         (case ParseControlParameters parameters_value command of
                            Inl e \<Rightarrow> Reject (Some request_id) (Some root) e
                          | Inr parameters \<Rightarrow>
                              ParsedControl \<lparr>sct_request_id = request_id, sct_target = target,
                                sct_command = command, sct_parameters = parameters,
                                sct_comparison_payload = root\<rparr>)))))"

definition ParseSourceControlRequest :: "json_lib \<Rightarrow> string \<Rightarrow> SourceKind \<Rightarrow> ParsedSourceRequest" where
  "ParseSourceControlRequest lib payload kind =
     parse_envelope lib payload
       [''schema_version'', ''request_id'', ''target'', ''command'', ''parameters'']
       (control_body kind)"

subsection \<open>Topics\<close>

lemma IsValidSourceId_no_slash: "IsValidSourceId v \<Longrightarrow> CHR ''/'' \<notin> set v"
  by (auto simp: IsValidSourceId_def list_all_iff char_class_defs less_eq_char_def)

lemma framed_iff:
  "starts_with t p \<and> ends_with t q \<and> length p + length q < length t \<longleftrightarrow> (\<exists>m. m \<noteq> [] \<and> t = p @ m @ q)"
proof
  assume a: "starts_with t p \<and> ends_with t q \<and> length p + length q < length t"
  obtain r where r: "t = p @ r" using a by (auto simp: starts_with_iff)
  obtain s where s: "t = s @ q" using a by (auto simp: ends_with_iff)
  have less: "length q < length r" using a r by simp
  from r s have "p @ r = s @ q" by simp
  then obtain m where "p = s @ m \<and> m @ r = q \<or> p @ m = s \<and> r = m @ q"
    unfolding append_eq_append_conv2 by blast
  then have "r = m @ q" using less by auto
  with r less show "\<exists>m. m \<noteq> [] \<and> t = p @ m @ q" by auto
next
  assume "\<exists>m. m \<noteq> [] \<and> t = p @ m @ q"
  then show "starts_with t p \<and> ends_with t q \<and> length p + length q < length t"
    by (auto simp: starts_with_iff ends_with_iff)
qed

lemma framed_middle: "substr (p @ m @ q) (length p) (length (p @ m @ q) - length p - length q) = m"
  by (simp add: substr_def)

lemma ParseSourceTopic_iff:
  "ParseSourceTopic ns t suf desc = Inr s \<longleftrightarrow> IsValidSourceId s \<and> t = ns @ ''/sources/'' @ s @ suf"
proof (cases "\<exists>m. m \<noteq> [] \<and> t = (ns @ ''/sources/'') @ m @ suf")
  case True
  then obtain m where m: "m \<noteq> []" "t = (ns @ ''/sources/'') @ m @ suf" by blast
  have "find_char CHR ''/'' m = None" if "IsValidSourceId m"
    using IsValidSourceId_no_slash [OF that] by (simp add: find_char_None_iff)
  then show ?thesis
    using m framed_iff [of t "ns @ ''/sources/''" suf] framed_middle [of "ns @ ''/sources/''" m suf]
    by (auto simp: ParseSourceTopic_def Let_def)
next
  case False
  then have "\<not> (IsValidSourceId s \<and> t = ns @ ''/sources/'' @ s @ suf)"
    by (auto simp: IsValidSourceId_def)
  then show ?thesis
    using False framed_iff [of t "ns @ ''/sources/''" suf] by (auto simp: ParseSourceTopic_def Let_def)
qed

lemma ParseDeviceAckTopic_iff:
  "ParseDeviceAckTopic ns t suf desc = Inr d \<longleftrightarrow> IsValidDeviceId d \<and> t = ns @ ''/'' @ d @ suf"
proof (cases "\<exists>m. m \<noteq> [] \<and> t = (ns @ ''/'') @ m @ suf")
  case True
  then obtain m where m: "m \<noteq> []" "t = (ns @ ''/'') @ m @ suf" by blast
  then show ?thesis
    using framed_iff [of t "ns @ ''/''" suf] framed_middle [of "ns @ ''/''" m suf]
    by (auto simp: ParseDeviceAckTopic_def Let_def)
next
  case False
  then have "\<not> (IsValidDeviceId d \<and> t = ns @ ''/'' @ d @ suf)"
    by (auto simp: IsValidDeviceId_def)
  then show ?thesis
    using False framed_iff [of t "ns @ ''/''" suf] by (auto simp: ParseDeviceAckTopic_def Let_def)
qed

subsection \<open>Numbers and parameters\<close>

definition number_within :: "nat \<Rightarrow> nat \<Rightarrow> json \<Rightarrow> bool" where
  "number_within lo hi v \<longleftrightarrow> is_number_integer v \<and> 0 \<le> get_int64 v \<and> lo \<le> get_uint64 v \<and> get_uint64 v \<le> hi"

lemma is_number_unsigned_integer: "is_number_unsigned v \<Longrightarrow> is_number_integer v"
  by (cases v) simp_all

lemma ReadUnsignedInRange_valid:
  "snd (ReadUnsignedInRange obj k lo hi valid) \<Longrightarrow>
     fst (ReadUnsignedInRange obj k lo hi valid) = map_option (\<lambda>v. word_of_nat (get_uint64 v)) (jfind obj k)"
  by (auto simp: ReadUnsignedInRange_def Let_def split: option.splits if_splits)

lemma ReadUnsignedInRange_flag:
  "snd (ReadUnsignedInRange obj k lo hi valid) \<longleftrightarrow>
     valid \<and> (\<forall>v. jfind obj k = Some v \<longrightarrow> number_within lo hi v)"
proof (cases "jfind obj k")
  case (Some v)
  then show ?thesis using is_number_unsigned_integer [of v]
    by (auto simp: ReadUnsignedInRange_def number_within_def Let_def)
qed (simp add: ReadUnsignedInRange_def)

definition word_field :: "json \<Rightarrow> string \<Rightarrow> 'a::len word option" where
  "word_field v k = map_option (\<lambda>x. word_of_nat (get_uint64 x)) (jfind v k)"

definition parameters_of :: "json \<Rightarrow> ConfigParameters" where
  "parameters_of v =
     \<lparr>cp_telemetry_publish_interval_ms = word_field v ''telemetry_publish_interval_ms'',
      cp_heartbeat_interval_ms = word_field v ''heartbeat_interval_ms'',
      cp_mqtt_reconnect_delay_s = word_field v ''mqtt_reconnect_delay_s'',
      cp_mqtt_reconnect_delay_max_s = word_field v ''mqtt_reconnect_delay_max_s''\<rparr>"

definition delays_ordered :: "ConfigParameters \<Rightarrow> bool" where
  "delays_ordered p \<longleftrightarrow>
     (case (cp_mqtt_reconnect_delay_s p, cp_mqtt_reconnect_delay_max_s p) of
        (Some d, Some m) \<Rightarrow> d \<le> m | _ \<Rightarrow> True)"

lemma ParseParameters_iff:
  "ParseParameters v = Inr p \<longleftrightarrow>
     is_object v \<and> jsize v \<noteq> 0 \<and> only_fields v config_fields \<and>
     (\<forall>x. jfind v ''telemetry_publish_interval_ms'' = Some x \<longrightarrow> number_within 100 60000 x) \<and>
     (\<forall>x. jfind v ''heartbeat_interval_ms'' = Some x \<longrightarrow> number_within 100 60000 x) \<and>
     (\<forall>x. jfind v ''mqtt_reconnect_delay_s'' = Some x \<longrightarrow> number_within 1 3600 x) \<and>
     (\<forall>x. jfind v ''mqtt_reconnect_delay_max_s'' = Some x \<longrightarrow> number_within 1 3600 x) \<and>
     p = parameters_of v \<and> delays_ordered p"
proof -
  define r1 where "r1 = ReadUnsignedInRange v ''telemetry_publish_interval_ms'' 100 60000 True"
  define r2 where "r2 = ReadUnsignedInRange v ''heartbeat_interval_ms'' 100 60000 (snd r1)"
  define r3 where "r3 = ReadUnsignedInRange v ''mqtt_reconnect_delay_s'' 1 3600 (snd r2)"
  define r4 where "r4 = ReadUnsignedInRange v ''mqtt_reconnect_delay_max_s'' 1 3600 (snd r3)"
  have flags: "snd r1 \<longleftrightarrow> (\<forall>x. jfind v ''telemetry_publish_interval_ms'' = Some x \<longrightarrow> number_within 100 60000 x)"
    "snd r2 \<longleftrightarrow> snd r1 \<and> (\<forall>x. jfind v ''heartbeat_interval_ms'' = Some x \<longrightarrow> number_within 100 60000 x)"
    "snd r3 \<longleftrightarrow> snd r2 \<and> (\<forall>x. jfind v ''mqtt_reconnect_delay_s'' = Some x \<longrightarrow> number_within 1 3600 x)"
    "snd r4 \<longleftrightarrow> snd r3 \<and> (\<forall>x. jfind v ''mqtt_reconnect_delay_max_s'' = Some x \<longrightarrow> number_within 1 3600 x)"
    by (simp_all add: r1_def r2_def r3_def r4_def ReadUnsignedInRange_flag)
  have vals: "\<lparr>cp_telemetry_publish_interval_ms = fst r1, cp_heartbeat_interval_ms = fst r2,
      cp_mqtt_reconnect_delay_s = fst r3, cp_mqtt_reconnect_delay_max_s = fst r4\<rparr> = parameters_of v"
    if "snd r4"
    using that flags
    by (simp add: parameters_of_def word_field_def r1_def r2_def r3_def r4_def ReadUnsignedInRange_valid)
  have order: "\<not> (fst r3 \<noteq> None \<and> fst r4 \<noteq> None \<and> the (fst r4) < the (fst r3)) \<longleftrightarrow>
      delays_ordered \<lparr>cp_telemetry_publish_interval_ms = fst r1, cp_heartbeat_interval_ms = fst r2,
        cp_mqtt_reconnect_delay_s = fst r3, cp_mqtt_reconnect_delay_max_s = fst r4\<rparr>"
    by (cases "fst r3"; cases "fst r4") (auto simp: delays_ordered_def)
  have "ParseParameters v = Inr p \<longleftrightarrow> is_object v \<and> jsize v \<noteq> 0 \<and> only_fields v config_fields \<and> snd r4 \<and>
      \<not> (fst r3 \<noteq> None \<and> fst r4 \<noteq> None \<and> the (fst r4) < the (fst r3)) \<and>
      p = \<lparr>cp_telemetry_publish_interval_ms = fst r1, cp_heartbeat_interval_ms = fst r2,
        cp_mqtt_reconnect_delay_s = fst r3, cp_mqtt_reconnect_delay_max_s = fst r4\<rparr>"
    unfolding ParseParameters_def Let_def case_prod_beta r1_def [symmetric] r2_def [symmetric]
      r3_def [symmetric] r4_def [symmetric] by auto
  then have parse: "ParseParameters v = Inr p \<longleftrightarrow>
      is_object v \<and> jsize v \<noteq> 0 \<and> only_fields v config_fields \<and> snd r4 \<and>
      p = parameters_of v \<and> delays_ordered p"
    unfolding order using vals by metis
  show ?thesis unfolding parse flags by (simp only: conj_assoc simp_thms)
qed

subsection \<open>The bounds of the protocol\<close>

definition label_within :: "nat \<Rightarrow> string \<Rightarrow> bool" where
  "label_within n l \<longleftrightarrow> l \<noteq> [] \<and> length l \<le> n"

fun target_wf :: "SourceKind \<Rightarrow> RequestTarget \<Rightarrow> bool" where
  "target_wf kind (DeviceLabelTarget l) \<longleftrightarrow> kind = SrcDevice \<and> label_within 64 l"
| "target_wf kind (SchoolLabelTarget n l) \<longleftrightarrow> kind \<noteq> SrcDevice \<and> label_within 128 n \<and> label_within 64 l"
| "target_wf kind (DeviceTarget d) \<longleftrightarrow> kind \<noteq> SrcDevice \<and> IsValidDeviceId d"

definition word_within :: "nat \<Rightarrow> nat \<Rightarrow> 'a::len word option \<Rightarrow> bool" where
  "word_within lo hi w \<longleftrightarrow> (\<forall>x. w = Some x \<longrightarrow> lo \<le> unat x \<and> unat x \<le> hi)"

definition config_wf :: "ConfigParameters \<Rightarrow> bool" where
  "config_wf p \<longleftrightarrow>
     word_within 100 60000 (cp_telemetry_publish_interval_ms p) \<and>
     word_within 100 60000 (cp_heartbeat_interval_ms p) \<and>
     word_within 1 3600 (cp_mqtt_reconnect_delay_s p) \<and>
     word_within 1 3600 (cp_mqtt_reconnect_delay_max_s p) \<and>
     \<not> (cp_telemetry_publish_interval_ms p = None \<and> cp_heartbeat_interval_ms p = None \<and>
         cp_mqtt_reconnect_delay_s p = None \<and> cp_mqtt_reconnect_delay_max_s p = None) \<and>
     delays_ordered p"

fun control_wf :: "ControlCommand \<Rightarrow> ControlParameters \<Rightarrow> bool" where
  "control_wf SetMotorPwm (Some (a, b, c, d)) \<longleftrightarrow>
     word_within 1000 2000 (Some a) \<and> word_within 1000 2000 (Some b) \<and>
     word_within 1000 2000 (Some c) \<and> word_within 1000 2000 (Some d)"
| "control_wf SetMotorPwm None = False"
| "control_wf _ p = (p = None)"

lemma unat_of_uint64:
  "get_uint64 v \<le> hi \<Longrightarrow> hi < 2 ^ LENGTH('a) \<Longrightarrow> unat (word_of_nat (get_uint64 v) :: 'a::len word) = get_uint64 v"
  by (simp add: unsigned_of_nat take_bit_nat_eq_self)

lemma word_field_within:
  "\<forall>x. jfind v k = Some x \<longrightarrow> number_within lo hi x \<Longrightarrow> hi < 2 ^ LENGTH('a) \<Longrightarrow>
     word_within lo hi (word_field v k :: 'a::len word option)"
  by (auto simp: word_within_def word_field_def number_within_def unat_of_uint64)

lemma ParseParameters_wf:
  assumes "ParseParameters v = Inr p"
  shows "config_wf p"
proof -
  note facts = assms [unfolded ParseParameters_iff]
  from facts obtain m where m: "v = JObject m" "fmsize m \<noteq> 0" by (cases v) auto
  then obtain k where "fmlookup m k \<noteq> None"
    by (metis fmsize_0_iff fmap_ext fmempty_lookup)
  then have "k \<in> set config_fields" "jfind v k \<noteq> None"
    using facts m by (auto simp: only_fields_iff contains_def)
  then have some: "\<not> (cp_telemetry_publish_interval_ms p = None \<and> cp_heartbeat_interval_ms p = None \<and>
         cp_mqtt_reconnect_delay_s p = None \<and> cp_mqtt_reconnect_delay_max_s p = None)"
    using facts by (auto simp: parameters_of_def word_field_def config_fields_def)
  have p: "p = parameters_of v" "delays_ordered p" using facts by blast+
  have "word_within 100 60000 (cp_telemetry_publish_interval_ms p)"
    "word_within 100 60000 (cp_heartbeat_interval_ms p)"
    "word_within 1 3600 (cp_mqtt_reconnect_delay_s p)"
    "word_within 1 3600 (cp_mqtt_reconnect_delay_max_s p)"
    unfolding p(1) parameters_of_def ConfigParameters.simps
    using facts by (intro word_field_within; simp)+
  with some p(2) show ?thesis by (simp add: config_wf_def)
qed

lemma IsNonEmptyStringWithin_iff:
  "IsNonEmptyStringWithin v k n \<longleftrightarrow> (\<exists>l. jfind v k = Some (JString l) \<and> label_within n l)"
  by (auto simp: IsNonEmptyStringWithin_def label_within_def split: option.splits json.splits)

lemma ParseTarget_wf: "ParseTarget v kind = Inr t \<Longrightarrow> target_wf kind t"
  by (auto simp: ParseTarget_def IsNonEmptyStringWithin_iff string_at_def
      split: if_splits option.splits json.splits)

lemma parse_pwm_Inr:
  "parse_pwm v = Inr w \<longleftrightarrow> number_within 1000 2000 v \<and> w = word_of_nat (get_uint64 v)"
  using is_number_unsigned_integer [of v] by (auto simp: parse_pwm_def number_within_def Let_def)

lemma parse_pwm_wf: "parse_pwm v = Inr (w :: 16 word) \<Longrightarrow> word_within 1000 2000 (Some w)"
  by (auto simp: parse_pwm_Inr word_within_def number_within_def unat_of_uint64)

lemma ParseControlParameters_wf: "ParseControlParameters v c = Inr p \<Longrightarrow> control_wf c p"
  by (cases c)
     (auto simp: ParseControlParameters_def outcome parse_pwm_wf
       split: if_splits option.splits json.splits list.splits)

subsection \<open>Writing requests\<close>

text \<open>The JSON a well-behaved source sends (the grammar of the protocol).\<close>

fun target_json :: "RequestTarget \<Rightarrow> json" where
  "target_json (DeviceLabelTarget l) = jobject [(''dcdw_label'', JString l)]"
| "target_json (SchoolLabelTarget n l) = jobject [(''school_name'', JString n), (''dcdw_label'', JString l)]"
| "target_json (DeviceTarget d) = jobject [(''device_id'', JString d)]"

definition parameters_json :: "ConfigParameters \<Rightarrow> json" where
  "parameters_json p = jobject
     (opt_field ''telemetry_publish_interval_ms'' juint (cp_telemetry_publish_interval_ms p) @
      opt_field ''heartbeat_interval_ms'' juint (cp_heartbeat_interval_ms p) @
      opt_field ''mqtt_reconnect_delay_s'' juint (cp_mqtt_reconnect_delay_s p) @
      opt_field ''mqtt_reconnect_delay_max_s'' juint (cp_mqtt_reconnect_delay_max_s p))"

definition config_request_json :: "string \<Rightarrow> RequestTarget \<Rightarrow> ConfigParameters \<Rightarrow> json" where
  "config_request_json request_id target p = jobject
     [(''schema_version'', jint 1), (''request_id'', JString request_id),
      (''target'', target_json target), (''parameters'', parameters_json p)]"

fun command_name :: "ControlCommand \<Rightarrow> string" where
  "command_name SetMotorPwm = ''set_motor_pwm''"
| "command_name EmergencyStop = ''emergency_stop''"
| "command_name Takeoff = ''takeoff''"
| "command_name Land = ''land''"

fun control_parameters_json :: "ControlParameters \<Rightarrow> json" where
  "control_parameters_json None = jobject []"
| "control_parameters_json (Some (a, b, c, d)) =
     jobject [(''pwm_us'', JArray [juint a, juint b, juint c, juint d])]"

definition control_request_json :: "string \<Rightarrow> RequestTarget \<Rightarrow> ControlCommand \<Rightarrow> ControlParameters \<Rightarrow> json" where
  "control_request_json request_id target c p = jobject
     [(''schema_version'', jint 1), (''request_id'', JString request_id), (''target'', target_json target),
      (''command'', JString (command_name c)), (''parameters'', control_parameters_json p)]"

lemma jsize_jobject: "distinct (map fst kvs) \<Longrightarrow> jsize (jobject kvs) = length kvs"
  using distinct_card [of "map fst kvs"]
  by (simp add: jobject_def fmsize_card fmdom'_alt_def fset_of_list.rep_eq)

lemma ParseTarget_json: "target_wf kind t \<Longrightarrow> ParseTarget (target_json t) kind = Inr t"
  by (cases t) (auto simp: ParseTarget_def jsize_jobject IsNonEmptyStringWithin_iff string_at_def)

lemma get_uint64_juint:
  "LENGTH('a) \<le> 64 \<Longrightarrow> get_uint64 (juint (w :: 'a::len word)) = unat w"
proof -
  assume "LENGTH('a) \<le> 64"
  then have "(2 :: nat) ^ LENGTH('a) \<le> 2 ^ 64" by (intro power_increasing) simp_all
  then have "unat w < 2 ^ 64" by (rule less_le_trans [OF unsigned_less [of w, where ?'a = nat]])
  then show ?thesis by (simp add: get_uint64_def juint_def unsigned_ucast_eq take_bit_nat_eq_self)
qed

lemma number_within_juint:
  assumes "LENGTH('a) \<le> 32" "lo \<le> unat (w :: 'a::len word)" "unat w \<le> hi"
  shows "number_within lo hi (juint w)"
proof -
  have u: "get_uint64 (juint w) = unat w" using assms(1) by (simp add: get_uint64_juint)
  have "unat w < 2 ^ LENGTH('a)" using unsigned_less [of w, where ?'a = nat] by simp
  also have "(2 :: nat) ^ LENGTH('a) \<le> 2 ^ 32" using assms(1) by (intro power_increasing) simp_all
  finally have "0 \<le> get_int64 (juint w)" by (simp add: get_int64_cases u)
  moreover have "is_number_integer (juint w)" by (simp add: juint_def)
  ultimately show ?thesis using assms by (simp add: number_within_def u)
qed

lemma word_field_opt:
  "jfind v k = map_option juint (w :: 'a::len word option) \<Longrightarrow> LENGTH('a) \<le> 64 \<Longrightarrow> word_field v k = w"
  by (cases w) (simp_all add: word_field_def get_uint64_juint)

lemma map_of_opt_field:
  "map_of (opt_field k f v @ kvs) k' = (if k' = k \<and> v \<noteq> None then map_option f v else map_of kvs k')"
  by (simp add: opt_field_def split: option.split)

lemma jfind_parameters_json:
  "jfind (parameters_json p) k =
     (if k = ''telemetry_publish_interval_ms'' then map_option juint (cp_telemetry_publish_interval_ms p)
      else if k = ''heartbeat_interval_ms'' then map_option juint (cp_heartbeat_interval_ms p)
      else if k = ''mqtt_reconnect_delay_s'' then map_option juint (cp_mqtt_reconnect_delay_s p)
      else if k = ''mqtt_reconnect_delay_max_s'' then map_option juint (cp_mqtt_reconnect_delay_max_s p)
      else None)"
  unfolding parameters_json_def jfind_jobject map_of_opt_field
  using map_of_opt_field [of "''mqtt_reconnect_delay_max_s''" juint "cp_mqtt_reconnect_delay_max_s p" "[]" k]
  by auto

lemma ParseParameters_json:
  assumes "config_wf p"
  shows "ParseParameters (parameters_json p) = Inr p"
proof -
  let ?v = "parameters_json p"
  note find = jfind_parameters_json [of p]
  have nums: "(\<forall>x. jfind ?v ''telemetry_publish_interval_ms'' = Some x \<longrightarrow> number_within 100 60000 x)"
    "(\<forall>x. jfind ?v ''heartbeat_interval_ms'' = Some x \<longrightarrow> number_within 100 60000 x)"
    "(\<forall>x. jfind ?v ''mqtt_reconnect_delay_s'' = Some x \<longrightarrow> number_within 1 3600 x)"
    "(\<forall>x. jfind ?v ''mqtt_reconnect_delay_max_s'' = Some x \<longrightarrow> number_within 1 3600 x)"
    using assms by (auto simp: find config_wf_def word_within_def intro!: number_within_juint)
  have vals: "p = parameters_of ?v"
    by (simp add: parameters_of_def word_field_opt find)
  have "\<exists>k. jfind ?v k \<noteq> None"
  proof (rule ccontr)
    assume "\<nexists>k. jfind ?v k \<noteq> None"
    then have "jfind ?v k = None" for k by simp
    from this [of "''telemetry_publish_interval_ms''"] this [of "''heartbeat_interval_ms''"]
      this [of "''mqtt_reconnect_delay_s''"] this [of "''mqtt_reconnect_delay_max_s''"]
    show False using assms by (simp add: find config_wf_def)
  qed
  moreover have obj: "is_object ?v" by (simp add: parameters_json_def)
  ultimately have "jsize ?v \<noteq> 0" by (cases ?v) (auto simp: fmsize_0_iff)
  moreover have "only_fields ?v config_fields"
    by (auto simp: only_fields_iff contains_def find config_fields_def split: if_splits)
  ultimately show ?thesis
    unfolding ParseParameters_iff using nums vals assms obj by (simp add: config_wf_def)
qed

lemma ParseControlParameters_json:
  assumes "control_wf c p"
  shows "ParseControlParameters (control_parameters_json p) c = Inr p"
proof -
  have pwm: "parse_pwm (juint w) = Inr w" if "word_within 1000 2000 (Some w)" for w :: "16 word"
    using that by (simp add: parse_pwm_Inr word_within_def number_within_juint get_uint64_juint)
  show ?thesis
    using assms
    by (cases c; cases p) (auto simp: ParseControlParameters_def jsize_jobject pwm)
qed

lemma schema_version_ok_json: "jfind root ''schema_version'' = Some (jint 1) \<Longrightarrow> schema_version_ok root"
  by (simp add: schema_version_ok_def jint_def get_int64_def)

lemma rev_framed: "t = p @ q @ m @ s \<Longrightarrow> \<exists>u. rev t = rev s @ u"
  by auto

lemma parse_envelope_body:
  "parse_envelope lib payload allowed body = res \<Longrightarrow> (\<And>i c e. res \<noteq> Reject i c e) \<Longrightarrow>
     \<exists>root request_id. jparse lib payload = Some root \<and> IsValidRequestId request_id \<and> body request_id root = res"
  by (auto simp: parse_envelope_def request_id_of_def split: option.splits if_splits json.splits)

lemma Reject_cases [simp]:
  "Reject i c e \<noteq> ParsedConfig r" "Reject i c e \<noteq> ParsedControl r'"
  "ParsedConfig r \<noteq> Reject i c e" "ParsedControl r' \<noteq> Reject i c e"
  by (simp_all add: Reject_def)

lemma config_body_wf:
  "config_body kind i root = ParsedConfig r \<Longrightarrow>
     scr_request_id r = i \<and> scr_comparison_payload r = root \<and> target_wf kind (scr_target r) \<and>
     config_wf (scr_parameters r)"
  by (auto simp: config_body_def ParseTarget_wf ParseParameters_wf split: option.splits sum.splits)

lemma control_body_wf:
  "control_body kind i root = ParsedControl r \<Longrightarrow>
     sct_request_id r = i \<and> sct_comparison_payload r = root \<and> target_wf kind (sct_target r) \<and>
     control_wf (sct_command r) (sct_parameters r)"
  by (auto simp: control_body_def ParseTarget_wf ParseControlParameters_wf split: option.splits sum.splits)

lemma ParseControlCommand_json:
  "jfind root ''command'' = Some (JString (command_name c)) \<Longrightarrow> ParseControlCommand root = Inr c"
  by (cases c) (simp_all add: ParseControlCommand_def)

lemma parse_envelope_json:
  assumes "jparse lib payload = Some (jobject kvs)" "jfind (jobject kvs) ''request_id'' = Some (JString i)"
    "IsValidRequestId i" "set (map fst kvs) \<subseteq> set allowed"
    "jfind (jobject kvs) ''schema_version'' = Some (jint 1)"
  shows "parse_envelope lib payload allowed body = body i (jobject kvs)"
proof -
  have "only_fields (jobject kvs) allowed"
    using assms(4) by (auto simp: only_fields_iff contains_def dest!: map_of_SomeD)
  then show ?thesis
    using assms schema_version_ok_json [OF assms(5)]
    by (simp add: parse_envelope_def request_id_of_def del: jfind_jobject)
qed

lemma config_request_accepted:
  assumes "IsValidRequestId i" "target_wf kind target" "config_wf p"
    "jparse lib payload = Some (config_request_json i target p)"
  shows "ParseSourceConfigRequest lib payload kind =
    ParsedConfig \<lparr>scr_request_id = i, scr_target = target, scr_parameters = p,
      scr_comparison_payload = config_request_json i target p\<rparr>"
proof -
  have "parse_envelope lib payload [''schema_version'', ''request_id'', ''target'', ''parameters'']
      (config_body kind) = config_body kind i (config_request_json i target p)"
    unfolding config_request_json_def
    by (rule parse_envelope_json [OF assms(4) [unfolded config_request_json_def] _ assms(1)]) simp_all
  also have "\<dots> = ParsedConfig \<lparr>scr_request_id = i, scr_target = target, scr_parameters = p,
      scr_comparison_payload = config_request_json i target p\<rparr>"
    using assms(2,3) by (simp add: config_body_def config_request_json_def ParseTarget_json ParseParameters_json)
  finally show ?thesis by (simp add: ParseSourceConfigRequest_def)
qed

subsection \<open>Properties\<close>

text \<open>
  The four command topics are recognised exactly: a configuration or control request comes from
  the source the topic names, an acknowledgement from the device it names, and no topic is
  recognised as two different kinds of message.
\<close>

theorem command_topics_exact:
  "(ParseSourceRequestTopic ns t = Inr s \<longleftrightarrow> IsValidSourceId s \<and> t = ns @ ''/sources/'' @ s @ ''/config/request'') \<and>
   (ParseSourceControlRequestTopic ns t = Inr s \<longleftrightarrow>
      IsValidSourceId s \<and> t = ns @ ''/sources/'' @ s @ ''/control/request'') \<and>
   (ParseDeviceConfigAckTopic ns t = Inr d \<longleftrightarrow> IsValidDeviceId d \<and> t = ns @ ''/'' @ d @ ''/config/ack'') \<and>
   (ParseDeviceControlAckTopic ns t = Inr d \<longleftrightarrow> IsValidDeviceId d \<and> t = ns @ ''/'' @ d @ ''/control/ack'') \<and>
   length (filter has_value [ParseSourceRequestTopic ns t, ParseSourceControlRequestTopic ns t,
     ParseDeviceConfigAckTopic ns t, ParseDeviceControlAckTopic ns t]) \<le> 1"
proof -
  note iffs = ParseSourceRequestTopic_def ParseSourceControlRequestTopic_def
    ParseDeviceConfigAckTopic_def ParseDeviceControlAckTopic_def
    ParseSourceTopic_iff ParseDeviceAckTopic_iff
  have ends: "has_value (ParseSourceRequestTopic ns t) \<Longrightarrow> \<exists>u. rev t = rev ''/config/request'' @ u"
    "has_value (ParseSourceControlRequestTopic ns t) \<Longrightarrow> \<exists>u. rev t = rev ''/control/request'' @ u"
    "has_value (ParseDeviceConfigAckTopic ns t) \<Longrightarrow> \<exists>u. rev t = rev ''/config/ack'' @ u"
    "has_value (ParseDeviceControlAckTopic ns t) \<Longrightarrow> \<exists>u. rev t = rev ''/control/ack'' @ u"
    unfolding has_value_iff iffs using rev_framed by blast+
  have "length (filter has_value [ParseSourceRequestTopic ns t, ParseSourceControlRequestTopic ns t,
     ParseDeviceConfigAckTopic ns t, ParseDeviceControlAckTopic ns t]) \<le> 1"
    using ends by (auto split: if_splits)
  then show ?thesis unfolding iffs by simp
qed

text \<open>
  A configuration request is accepted only within the bounds of the protocol: a valid request
  identifier, a target of the form the source may use, at least one known parameter, each in its
  range, the first reconnect delay not above the maximum; and the parsed JSON is kept unchanged as
  the payload later requests are compared with.
\<close>

theorem config_request_sound:
  assumes "ParseSourceConfigRequest lib payload kind = ParsedConfig r"
  shows "jparse lib payload = Some (scr_comparison_payload r) \<and> IsValidRequestId (scr_request_id r) \<and>
    target_wf kind (scr_target r) \<and> config_wf (scr_parameters r)"
proof -
  obtain root i where "jparse lib payload = Some root" "IsValidRequestId i"
    "config_body kind i root = ParsedConfig r"
    using parse_envelope_body [OF assms [unfolded ParseSourceConfigRequest_def]] by auto
  with config_body_wf show ?thesis by blast
qed

definition demo_parameters :: ConfigParameters where
  "demo_parameters =
     \<lparr>cp_telemetry_publish_interval_ms = Some 500, cp_heartbeat_interval_ms = None,
      cp_mqtt_reconnect_delay_s = Some 1, cp_mqtt_reconnect_delay_max_s = Some 60\<rparr>"

text \<open>A JSON library that answers every text with one document.\<close>

definition const_lib :: "json \<Rightarrow> json_lib" where
  "const_lib j = \<lparr>jparse = (\<lambda>_. Some j), jdump = (\<lambda>_. []), jeq = (=)\<rparr>"

lemma demo_parameters_wf: "config_wf demo_parameters"
  by (simp add: config_wf_def demo_parameters_def word_within_def delays_ordered_def word_le_nat_alt)

text \<open>
  Every configuration request within the bounds is accepted and read back unchanged: the
  request, target and parameters a source writes are the ones the service acts on.
\<close>

theorem config_request_roundtrip:
  assumes "IsValidRequestId i" "target_wf kind target" "config_wf p"
    "jparse lib payload = Some (config_request_json i target p)"
  shows "ParseSourceConfigRequest lib payload kind =
    ParsedConfig \<lparr>scr_request_id = i, scr_target = target, scr_parameters = p,
      scr_comparison_payload = config_request_json i target p\<rparr>"
  using assms by (rule config_request_accepted)

theorem config_request_roundtrip_witness:
  "\<exists>r. ParseSourceConfigRequest (const_lib (config_request_json ''r:1'' (DeviceTarget ''a'') demo_parameters))
     ''x'' SrcHostApp = ParsedConfig r \<and> scr_parameters r = demo_parameters"
  using config_request_roundtrip [of "''r:1''" SrcHostApp "DeviceTarget ''a''" demo_parameters
      "const_lib (config_request_json ''r:1'' (DeviceTarget ''a'') demo_parameters)" "''x''"]
    demo_parameters_wf
  by (simp add: const_lib_def IsValidRequestId_def IsValidDeviceId_def device_id_char_def char_class_defs
      less_eq_char_def)

theorem config_request_sound_witness:
  "config_wf demo_parameters \<and> IsValidRequestId ''r:1''"
proof -
  have "IsValidRequestId ''r:1''" "target_wf SrcHostApp (DeviceTarget ''a'')"
    by (simp_all add: IsValidRequestId_def IsValidDeviceId_def device_id_char_def char_class_defs less_eq_char_def)
  from config_request_accepted [OF this demo_parameters_wf,
      of "const_lib (config_request_json ''r:1'' (DeviceTarget ''a'') demo_parameters)" "''x''"]
  have "ParseSourceConfigRequest (const_lib (config_request_json ''r:1'' (DeviceTarget ''a'') demo_parameters))
      ''x'' SrcHostApp = ParsedConfig \<lparr>scr_request_id = ''r:1'', scr_target = DeviceTarget ''a'',
      scr_parameters = demo_parameters,
      scr_comparison_payload = config_request_json ''r:1'' (DeviceTarget ''a'') demo_parameters\<rparr>"
    by (simp add: const_lib_def)
  from config_request_sound [OF this] show ?thesis by simp
qed

text \<open>
  C32. Control requests: an accepted one has a valid identifier, a target its source may use and,
  for a PWM command, four pulse widths from 1000 to 2000, for any other command no parameters; and
  every such request is accepted and read back unchanged.
\<close>

theorem control_request_exact:
  assumes "jparse lib payload = Some root"
  shows "(ParseSourceControlRequest lib payload kind = ParsedControl r \<longrightarrow>
      sct_comparison_payload r = root \<and> IsValidRequestId (sct_request_id r) \<and>
      target_wf kind (sct_target r) \<and> control_wf (sct_command r) (sct_parameters r)) \<and>
    (root = control_request_json i target c p \<and> IsValidRequestId i \<and> target_wf kind target \<and> control_wf c p \<longrightarrow>
      ParseSourceControlRequest lib payload kind =
        ParsedControl \<lparr>sct_request_id = i, sct_target = target, sct_command = c, sct_parameters = p,
          sct_comparison_payload = root\<rparr>)"
proof (intro conjI impI)
  assume "ParseSourceControlRequest lib payload kind = ParsedControl r"
  from parse_envelope_body [OF this [unfolded ParseSourceControlRequest_def]] assms
  obtain j where j: "IsValidRequestId j" "control_body kind j root = ParsedControl r" by auto
  from control_body_wf [OF j(2)] j(1)
  show "sct_comparison_payload r = root" "IsValidRequestId (sct_request_id r)"
    "target_wf kind (sct_target r)" "control_wf (sct_command r) (sct_parameters r)" by simp_all
next
  assume r: "root = control_request_json i target c p \<and> IsValidRequestId i \<and> target_wf kind target \<and> control_wf c p"
  then have "parse_envelope lib payload
      [''schema_version'', ''request_id'', ''target'', ''command'', ''parameters''] (control_body kind) =
      control_body kind i root"
    using assms unfolding control_request_json_def
    by (simp only:) (rule parse_envelope_json; simp)
  moreover have "ParseControlCommand root = Inr c"
    using r by (intro ParseControlCommand_json) (simp add: control_request_json_def)
  then have "control_body kind i root = ParsedControl \<lparr>sct_request_id = i, sct_target = target,
      sct_command = c, sct_parameters = p, sct_comparison_payload = root\<rparr>"
    using r by (simp add: control_body_def control_request_json_def ParseTarget_json ParseControlParameters_json)
  ultimately show "ParseSourceControlRequest lib payload kind =
      ParsedControl \<lparr>sct_request_id = i, sct_target = target, sct_command = c, sct_parameters = p,
        sct_comparison_payload = root\<rparr>"
    by (simp add: ParseSourceControlRequest_def)
qed

theorem control_request_exact_witness:
  "\<exists>r. ParseSourceControlRequest
      (const_lib (control_request_json ''r1'' (DeviceLabelTarget ''L'') SetMotorPwm (Some (1000, 2000, 1500, 1500))))
      ''x'' SrcDevice = ParsedControl r \<and> sct_parameters r = Some (1000, 2000, 1500, 1500)"
  using control_request_exact [of
      "const_lib (control_request_json ''r1'' (DeviceLabelTarget ''L'') SetMotorPwm (Some (1000, 2000, 1500, 1500)))"
      "''x''" "control_request_json ''r1'' (DeviceLabelTarget ''L'') SetMotorPwm (Some (1000, 2000, 1500, 1500))"
      SrcDevice undefined "''r1''" "DeviceLabelTarget ''L''" SetMotorPwm "Some (1000, 2000, 1500, 1500)"]
  by (simp add: const_lib_def IsValidRequestId_def label_within_def word_within_def char_class_defs less_eq_char_def)

end
