(* ===== verification/Command_Policy.thy ===== *)
theory Command_Policy
  imports Source_Request Command_State
begin

text \<open>
  \<^verbatim>\<open>core/command/config_policy.cpp\<close> and \<^verbatim>\<open>control_policy.cpp\<close>: the messages sent to
  devices and the strict parsing of their acknowledgements. The lemmas show that parameters reach
  the device unchanged, which acknowledgements are accepted, and that an accepted one never makes
  the acknowledgement to the source fail.
\<close>

definition set_opt :: "string \<Rightarrow> 'a::len word option \<Rightarrow> json \<Rightarrow> json" where
  "set_opt key v values = (case v of None \<Rightarrow> values | Some w \<Rightarrow> jset values key (juint w))"

definition BuildDeviceConfigSet :: "string \<Rightarrow> ConfigParameters \<Rightarrow> json" where
  "BuildDeviceConfigSet command_id parameters =
     (let values0 = jobject [];
          values1 = set_opt ''telemetry_publish_interval_ms'' (cp_telemetry_publish_interval_ms parameters) values0;
          values2 = set_opt ''heartbeat_interval_ms'' (cp_heartbeat_interval_ms parameters) values1;
          values3 = set_opt ''mqtt_reconnect_delay_s'' (cp_mqtt_reconnect_delay_s parameters) values2;
          values4 = set_opt ''mqtt_reconnect_delay_max_s'' (cp_mqtt_reconnect_delay_max_s parameters) values3
      in jobject [(''command_id'', JString command_id), (''parameters'', values4)])"

definition ack_command_id :: "json \<Rightarrow> ProtocolError + string" where
  "ack_command_id root =
     (case jfind root ''command_id'' of
        Some (JString v) \<Rightarrow>
          if IsUuidV4Shape v then Inr v else Inl (mk_error ''invalid_command_id'' msg_ack_command_id)
      | _ \<Rightarrow> Inl (mk_error ''invalid_command_id'' msg_ack_command_id))"

definition ack_status :: "json \<Rightarrow> string list \<Rightarrow> string \<Rightarrow> ProtocolError + string" where
  "ack_status root known unknown_message =
     (case jfind root ''status'' of
        Some (JString v) \<Rightarrow> if v \<in> set known then Inr v else Inl (mk_error ''invalid_ack'' unknown_message)
      | _ \<Rightarrow> Inl (mk_error ''invalid_ack'' msg_ack_status))"

definition parse_ack_root :: "json_lib \<Rightarrow> string \<Rightarrow> string \<Rightarrow> string \<Rightarrow> ProtocolError + json" where
  "parse_ack_root lib payload not_json not_object =
     (case jparse lib payload of
        None \<Rightarrow> Inl (mk_error ''invalid_json'' not_json)
      | Some root \<Rightarrow> if is_object root then Inr root else Inl (mk_error ''invalid_json'' not_object))"

definition ack_restart :: "json \<Rightarrow> ProtocolError + bool" where
  "ack_restart root =
     (case jfind root ''restart_required'' of
        Some (JBool b) \<Rightarrow> Inr b
      | _ \<Rightarrow> Inl (mk_error ''invalid_ack'' msg_ack_restart))"

definition config_ack_error_code :: "json \<Rightarrow> string \<Rightarrow> ProtocolError + string option" where
  "config_ack_error_code root status =
     (if status = ''rejected'' then
        (case jfind root ''error_code'' of
           Some (JString e) \<Rightarrow>
             if IsValidErrorCode e then Inr (Some e) else Inl (mk_error ''invalid_ack'' msg_ack_rejected_code)
         | _ \<Rightarrow> Inl (mk_error ''invalid_ack'' msg_ack_rejected_code))
      else
        (case jfind root ''error_code'' of
           Some e \<Rightarrow> if is_null e then Inr None else Inl (mk_error ''invalid_ack'' msg_ack_success_code)
         | None \<Rightarrow> Inr None))"

definition message_ok :: "json \<Rightarrow> bool" where
  "message_ok root \<longleftrightarrow> (case jfind root ''message'' of None \<Rightarrow> True | Some m \<Rightarrow> is_string m)"

definition ParseDeviceConfigAck :: "json_lib \<Rightarrow> string \<Rightarrow> ProtocolError + DeviceConfigAck" where
  "ParseDeviceConfigAck lib payload =
     bindE (parse_ack_root lib payload msg_config_ack_json msg_config_ack_object) (\<lambda>root.
     bindE (ack_command_id root) (\<lambda>command_id.
     bindE (ack_status root [''applied'', ''already_applied'', ''rejected''] msg_config_ack_status) (\<lambda>status.
     bindE (ack_restart root) (\<lambda>restart.
     bindE (config_ack_error_code root status) (\<lambda>error_code.
     bindE (require (message_ok root) (mk_error ''invalid_ack'' msg_ack_message)) (\<lambda>_.
     Inr \<lparr>dfa_command_id = command_id, dfa_business_status = status, dfa_restart_required = restart,
          dfa_error_code = error_code, dfa_raw = root\<rparr>))))))"

fun CommandText :: "ControlCommand \<Rightarrow> string" where
  "CommandText SetMotorPwm = ''set_motor_pwm''"
| "CommandText EmergencyStop = ''emergency_stop''"
| "CommandText Takeoff = ''takeoff''"
| "CommandText Land = ''land''"

definition ParseCommandText :: "string \<Rightarrow> ControlCommand option" where
  "ParseCommandText text =
     (if text = ''set_motor_pwm'' then Some SetMotorPwm
      else if text = ''emergency_stop'' then Some EmergencyStop
      else if text = ''takeoff'' then Some Takeoff
      else if text = ''land'' then Some Land
      else None)"

text \<open>
  The result and the flag \<^verbatim>\<open>valid\<close>; the cast to \<^verbatim>\<open>Integer\<close> keeps the low bits.
\<close>

definition ReadInteger :: "json \<Rightarrow> string \<Rightarrow> int \<Rightarrow> nat \<Rightarrow> bool \<Rightarrow> 'a::len word option \<times> bool" where
  "ReadInteger root field minimum maximum valid =
     (case jfind root field of
        None \<Rightarrow> (None, valid)
      | Some v \<Rightarrow>
          if \<not> is_number_integer v \<and> \<not> is_number_unsigned v then (None, False)
          else if is_number_integer v then
            let number = get_int64 v
            in if number < minimum \<or> (0 \<le> number \<and> nat number > maximum) then (None, False)
               else (Some (word_of_int number), valid)
          else
            let number = get_uint64 v
            in if 0 < minimum \<and> int number < minimum then (None, False)
               else if number > maximum then (None, False)
               else (Some (word_of_nat number), valid))"

definition ReadString :: "json \<Rightarrow> string \<Rightarrow> bool \<Rightarrow> string option \<times> bool" where
  "ReadString root field valid =
     (case jfind root field of
        None \<Rightarrow> (None, valid)
      | Some (JString v) \<Rightarrow> (Some v, valid)
      | Some _ \<Rightarrow> (None, False))"

definition ResultCode :: "8 word \<Rightarrow> string" where
  "ResultCode result =
     (if result = 0 then ''accepted''
      else if result = 1 then ''temporarily_rejected''
      else if result = 2 then ''denied''
      else if result = 3 then ''unsupported''
      else if result = 4 then ''failed''
      else if result = 5 then ''in_progress''
      else if result = 6 then ''cancelled''
      else ''unknown_result'')"

fun ExpectedMavlinkCommand :: "ControlCommand \<Rightarrow> 16 word" where
  "ExpectedMavlinkCommand SetMotorPwm = 31013"
| "ExpectedMavlinkCommand EmergencyStop = 31090"
| "ExpectedMavlinkCommand Takeoff = 31091"
| "ExpectedMavlinkCommand Land = 31092"

definition BuildDeviceControlSet :: "string \<Rightarrow> ControlCommand \<Rightarrow> ControlParameters \<Rightarrow> json" where
  "BuildDeviceControlSet command_id command parameters =
     (let values = (case parameters of
            None \<Rightarrow> jobject []
          | Some (a, b, c, d) \<Rightarrow> jset (jobject []) ''pwm_us'' (JArray [juint a, juint b, juint c, juint d]))
      in jobject [(''command_id'', JString command_id), (''command'', JString (CommandText command)),
                  (''parameters'', values)])"

definition ack_command :: "json \<Rightarrow> ProtocolError + ControlCommand" where
  "ack_command root =
     (case jfind root ''command'' of
        Some (JString v) \<Rightarrow>
          (case ParseCommandText v of
             None \<Rightarrow> Inl (mk_error ''invalid_ack'' msg_ack_command_unsupported)
           | Some command \<Rightarrow> Inr command)
      | _ \<Rightarrow> Inl (mk_error ''invalid_ack'' msg_ack_command))"

text \<open>The optional fields of a control acknowledgement, before they are checked against each other.\<close>

definition read_control_fields :: "json \<Rightarrow> DeviceControlAck \<times> bool" where
  "read_control_fields root =
     (let (mavlink_command, valid1) = ReadInteger root ''mavlink_command'' 0 65535 True;
          (result, valid2) = ReadInteger root ''result'' 0 255 valid1;
          (result_code, valid3) = ReadString root ''result_code'' valid2;
          (progress, valid4) = ReadInteger root ''progress'' 0 255 valid3;
          (result_param2, valid5) = ReadInteger root ''result_param2'' (- (2 ^ 31)) (2 ^ 31 - 1) valid4;
          (error_code, valid6) = ReadString root ''error_code'' valid5
      in (\<lparr>dca_command_id = [], dca_command = Land, dca_business_status = [],
           dca_mavlink_command = mavlink_command, dca_result = result, dca_result_code = result_code,
           dca_progress = progress, dca_result_param2 = result_param2, dca_error_code = error_code,
           dca_raw = root\<rparr>, valid6))"

text \<open>
  The combinations of fields each status allows: the message of the first violated rule, if any.
\<close>

definition check_combination :: "DeviceControlAck \<Rightarrow> string option" where
  "check_combination a =
     (if dca_business_status a = ''accepted'' then
        (if dca_mavlink_command a = None \<or> dca_result a \<noteq> Some 0 \<or> dca_result_code a \<noteq> Some ''accepted'' \<or>
            dca_progress a \<noteq> None \<or> dca_result_param2 a \<noteq> None \<or> dca_error_code a \<noteq> None
         then Some msg_ack_accepted else None)
      else if dca_business_status a = ''in_progress'' then
        (if dca_mavlink_command a = None \<or> dca_error_code a \<noteq> None then Some msg_ack_in_progress
         else if dca_result_code a = Some ''pending'' then
           (if dca_result a \<noteq> None \<or> dca_progress a \<noteq> None \<or> dca_result_param2 a \<noteq> None
            then Some msg_ack_pending else None)
         else if dca_result a \<noteq> Some 5 \<or> dca_result_code a \<noteq> Some ''in_progress'' \<or> dca_progress a = None \<or>
                 dca_result_param2 a = None \<or> (the (dca_progress a) > 100 \<and> the (dca_progress a) \<noteq> 255)
         then Some msg_ack_progress else None)
      else if dca_business_status a = ''rejected'' then
        (if dca_mavlink_command a \<noteq> None \<or> dca_result a \<noteq> None \<or> dca_result_code a \<noteq> None then
           (if dca_mavlink_command a = None \<or> dca_result a = None \<or> dca_result_code a = None \<or>
               dca_error_code a \<noteq> None \<or> dca_progress a \<noteq> None \<or> dca_result_param2 a \<noteq> None \<or>
               the (dca_result a) = 0 \<or> the (dca_result a) = 5 \<or>
               the (dca_result_code a) \<noteq> ResultCode (the (dca_result a))
            then Some msg_ack_mavlink_rejected else None)
         else if dca_error_code a = None then Some msg_ack_local_rejected else None)
      else if dca_error_code a = None \<or> dca_result a \<noteq> None \<or> dca_result_code a \<noteq> None \<or>
              dca_progress a \<noteq> None \<or> dca_result_param2 a \<noteq> None
      then Some msg_ack_timeout else None)"

definition ParseDeviceControlAck :: "json_lib \<Rightarrow> string \<Rightarrow> ProtocolError + DeviceControlAck" where
  "ParseDeviceControlAck lib payload =
     bindE (parse_ack_root lib payload msg_control_ack_json msg_control_ack_object) (\<lambda>root.
     bindE (ack_command_id root) (\<lambda>command_id.
     bindE (ack_command root) (\<lambda>command.
     bindE (ack_status root [''accepted'', ''in_progress'', ''rejected'', ''timeout''] msg_control_ack_status) (\<lambda>status.
     let (fields, valid) = read_control_fields root;
         ack = fields\<lparr>dca_command_id := command_id, dca_command := command, dca_business_status := status\<rparr>
     in bindE (require (valid \<and> message_ok root) (mk_error ''invalid_ack'' msg_control_ack_types)) (\<lambda>_.
        bindE (require (\<not> (dca_mavlink_command ack \<noteq> None \<and>
                 the (dca_mavlink_command ack) \<noteq> ExpectedMavlinkCommand command))
                 (mk_error ''invalid_ack'' msg_ack_mavlink)) (\<lambda>_.
        bindE (require (\<not> (dca_error_code ack \<noteq> None \<and> \<not> IsValidErrorCode (the (dca_error_code ack))))
                 (mk_error ''invalid_ack'' msg_ack_error_code)) (\<lambda>_.
        (case check_combination ack of
           Some message \<Rightarrow> Inl (mk_error ''invalid_ack'' message)
         | None \<Rightarrow> Inr ack))))))))"

subsection \<open>Lemmas on what is sent to devices\<close>

lemma json_object_ext:
  assumes "is_object a" "is_object b" "\<And>k. jfind a k = jfind b k"
  shows "a = b"
  using assms by (cases a; cases b) (auto intro: fmap_ext)

lemma set_opt_simps [simp]:
  "is_object (set_opt k v j) = is_object j"
  "is_object j \<Longrightarrow> jfind (set_opt k v j) k' = (if k' = k \<and> v \<noteq> None then map_option juint v else jfind j k')"
  by (simp_all add: set_opt_def split: option.split)

lemma BuildDeviceConfigSet_parameters:
  "BuildDeviceConfigSet i p = jobject [(''command_id'', JString i), (''parameters'', parameters_json p)]"
proof -
  let ?v = "set_opt ''mqtt_reconnect_delay_max_s'' (cp_mqtt_reconnect_delay_max_s p)
    (set_opt ''mqtt_reconnect_delay_s'' (cp_mqtt_reconnect_delay_s p)
    (set_opt ''heartbeat_interval_ms'' (cp_heartbeat_interval_ms p)
    (set_opt ''telemetry_publish_interval_ms'' (cp_telemetry_publish_interval_ms p) (jobject []))))"
  have "?v = parameters_json p"
    by (rule json_object_ext) (auto simp: jfind_parameters_json, simp add: parameters_json_def)
  then show ?thesis by (simp add: BuildDeviceConfigSet_def)
qed

lemma CommandText_name: "CommandText c = command_name c"
  by (cases c) simp_all

lemma BuildDeviceControlSet_parameters:
  "BuildDeviceControlSet i c p = jobject [(''command_id'', JString i), (''command'', JString (command_name c)),
     (''parameters'', control_parameters_json p)]"
proof -
  have "jset (jobject []) k v = jobject [(k, v)]" for k v by (simp add: jobject_def)
  then show ?thesis by (cases p) (auto simp: BuildDeviceControlSet_def CommandText_name)
qed

subsection \<open>Lemmas on acknowledgements\<close>

lemma parse_ack_root_Inr:
  "parse_ack_root lib payload m n = Inr root \<longleftrightarrow> jparse lib payload = Some root \<and> is_object root"
  by (auto simp: parse_ack_root_def split: option.splits if_splits)

lemma ack_command_id_Inr:
  "ack_command_id root = Inr v \<longleftrightarrow> jfind root ''command_id'' = Some (JString v) \<and> IsUuidV4Shape v"
  by (auto simp: ack_command_id_def split: option.splits json.splits if_splits)

lemma ack_status_Inr:
  "ack_status root known m = Inr v \<longleftrightarrow> jfind root ''status'' = Some (JString v) \<and> v \<in> set known"
  by (auto simp: ack_status_def split: option.splits json.splits if_splits)

lemma ack_restart_Inr: "ack_restart root = Inr b \<longleftrightarrow> jfind root ''restart_required'' = Some (JBool b)"
  by (auto simp: ack_restart_def split: option.splits json.splits if_splits)

lemma ack_command_Inr:
  "ack_command root = Inr c \<longleftrightarrow> jfind root ''command'' = Some (JString (CommandText c))"
  by (cases c) (auto simp: ack_command_def ParseCommandText_def split: option.splits json.splits if_splits)

lemma config_ack_error_code_Inr:
  "config_ack_error_code root status = Inr e \<longleftrightarrow>
     (if status = ''rejected''
      then \<exists>c. e = Some c \<and> jfind root ''error_code'' = Some (JString c) \<and> IsValidErrorCode c
      else e = None \<and> jfind root ''error_code'' \<in> {None, Some JNull})"
proof -
  have "is_null x \<longleftrightarrow> x = JNull" for x by (cases x) simp_all
  then show ?thesis
    by (auto simp: config_ack_error_code_def split: option.splits json.splits if_splits)
qed

lemmas ack_Inr = parse_ack_root_Inr ack_command_id_Inr ack_status_Inr ack_restart_Inr ack_command_Inr
  config_ack_error_code_Inr bindE_eq_Inr_iff require_eq_Inr_iff sum.inject

lemma ReadInteger_valid:
  "snd (ReadInteger root k lo hi valid) \<longleftrightarrow> valid \<and>
     (\<forall>v. jfind root k = Some v \<longrightarrow> is_number_integer v \<and> lo \<le> get_int64 v \<and> get_int64 v \<le> int hi)"
proof (cases "jfind root k")
  case (Some v)
  then show ?thesis using is_number_unsigned_integer [of v]
    by (auto simp: ReadInteger_def Let_def nat_le_iff not_less)
qed (simp add: ReadInteger_def)

lemma ReadInteger_value:
  "snd (ReadInteger root k lo hi valid) \<Longrightarrow>
     fst (ReadInteger root k lo hi valid) = map_option (\<lambda>v. word_of_int (get_int64 v)) (jfind root k)"
  using ReadInteger_valid [of root k lo hi valid]
  by (auto simp: ReadInteger_def Let_def split: option.splits if_splits)

lemma ReadString_valid:
  "snd (ReadString root k valid) \<longleftrightarrow> valid \<and> (\<forall>v. jfind root k = Some v \<longrightarrow> is_string v)"
  "snd (ReadString root k valid) \<Longrightarrow> fst (ReadString root k valid) = map_option get_string (jfind root k)"
  by (auto simp: ReadString_def split: option.splits json.splits)

definition int_field :: "json \<Rightarrow> string \<Rightarrow> 'a::len word option" where
  "int_field root k = map_option (\<lambda>v. word_of_int (get_int64 v)) (jfind root k)"

definition field_within :: "json \<Rightarrow> string \<Rightarrow> int \<Rightarrow> nat \<Rightarrow> bool" where
  "field_within root k lo hi \<longleftrightarrow>
     (\<forall>v. jfind root k = Some v \<longrightarrow> is_number_integer v \<and> lo \<le> get_int64 v \<and> get_int64 v \<le> int hi)"

definition string_field_ok :: "json \<Rightarrow> string \<Rightarrow> bool" where
  "string_field_ok root k \<longleftrightarrow> (\<forall>v. jfind root k = Some v \<longrightarrow> is_string v)"

lemma read_control_fields_valid:
  "snd (read_control_fields root) \<longleftrightarrow>
     field_within root ''mavlink_command'' 0 65535 \<and> field_within root ''result'' 0 255 \<and>
     string_field_ok root ''result_code'' \<and> field_within root ''progress'' 0 255 \<and>
     field_within root ''result_param2'' (- (2 ^ 31)) (2 ^ 31 - 1) \<and> string_field_ok root ''error_code''"
  unfolding read_control_fields_def Let_def case_prod_beta snd_conv ReadInteger_valid ReadString_valid(1)
    field_within_def string_field_ok_def
  by (simp only: conj_assoc simp_thms)

lemma read_control_fields_value:
  assumes "snd (read_control_fields root)"
  shows "fst (read_control_fields root) =
    \<lparr>dca_command_id = [], dca_command = Land, dca_business_status = [],
     dca_mavlink_command = int_field root ''mavlink_command'', dca_result = int_field root ''result'',
     dca_result_code = map_option get_string (jfind root ''result_code''),
     dca_progress = int_field root ''progress'', dca_result_param2 = int_field root ''result_param2'',
     dca_error_code = map_option get_string (jfind root ''error_code''), dca_raw = root\<rparr>"
  using assms
  unfolding read_control_fields_def Let_def case_prod_beta snd_conv fst_conv int_field_def
  by (simp add: ReadInteger_value ReadString_valid ReadInteger_valid)

lemma ParseDeviceControlAck_Inr:
  assumes "ParseDeviceControlAck lib payload = Inr a"
  obtains root where "jparse lib payload = Some root" "is_object root"
    "jfind root ''command_id'' = Some (JString (dca_command_id a))" "IsUuidV4Shape (dca_command_id a)"
    "jfind root ''command'' = Some (JString (CommandText (dca_command a)))"
    "dca_business_status a \<in> {''accepted'', ''in_progress'', ''rejected'', ''timeout''}"
    "snd (read_control_fields root)"
    "a = (fst (read_control_fields root))\<lparr>dca_command_id := dca_command_id a, dca_command := dca_command a,
       dca_business_status := dca_business_status a\<rparr>"
    "dca_mavlink_command a \<in> {None, Some (ExpectedMavlinkCommand (dca_command a))}"
    "\<forall>e. dca_error_code a = Some e \<longrightarrow> IsValidErrorCode e" "check_combination a = None"
proof -
  from assms obtain root i c st where *: "jparse lib payload = Some root" "is_object root"
    "jfind root ''command_id'' = Some (JString i)" "IsUuidV4Shape i"
    "jfind root ''command'' = Some (JString (CommandText c))"
    "st \<in> set [''accepted'', ''in_progress'', ''rejected'', ''timeout'']"
    "snd (read_control_fields root)"
    and a: "a = (fst (read_control_fields root))\<lparr>dca_command_id := i, dca_command := c, dca_business_status := st\<rparr>"
    and m: "\<not> (dca_mavlink_command a \<noteq> None \<and> the (dca_mavlink_command a) \<noteq> ExpectedMavlinkCommand c)"
    and e: "\<not> (dca_error_code a \<noteq> None \<and> \<not> IsValidErrorCode (the (dca_error_code a)))"
    and comb: "check_combination a = None"
    unfolding ParseDeviceControlAck_def Let_def case_prod_beta ack_Inr
    by (auto split: option.splits)
  have "dca_command_id a = i" "dca_command a = c" "dca_business_status a = st" by (simp_all add: a)
  moreover have "dca_mavlink_command a \<in> {None, Some (ExpectedMavlinkCommand c)}"
    using m by (cases "dca_mavlink_command a") auto
  moreover have "\<forall>x. dca_error_code a = Some x \<longrightarrow> IsValidErrorCode x" using e by auto
  ultimately show thesis using * a comb by (intro that [of root]) simp_all
qed

lemma word_of_int_exact:
  "0 \<le> i \<Longrightarrow> i < 2 ^ LENGTH('a) \<Longrightarrow> int (unat (word_of_int i :: 'a::len word)) = i"
  by (simp add: unsigned_of_int take_bit_int_eq_self)

lemma int_field_exact:
  assumes "field_within root k 0 hi" "hi < 2 ^ LENGTH('a)" "int_field root k = Some (w :: 'a::len word)"
  shows "\<exists>v. jfind root k = Some v \<and> get_int64 v = int (unat w)"
proof -
  obtain v where v: "jfind root k = Some v" "w = word_of_int (get_int64 v)"
    using assms(3) by (auto simp: int_field_def)
  then have "0 \<le> get_int64 v" "get_int64 v \<le> int hi" using assms(1) by (auto simp: field_within_def)
  moreover have "int hi < 2 ^ LENGTH('a)" using assms(2) by simp
  ultimately have "int (unat (word_of_int (get_int64 v) :: 'a word)) = get_int64 v"
    by (intro word_of_int_exact) (auto intro: le_less_trans)
  then show ?thesis using v by auto
qed

lemma check_combination_cases:
  assumes "dca_business_status a \<in> {''accepted'', ''in_progress'', ''rejected'', ''timeout''}"
    and none: "check_combination a = None"
  shows "dca_business_status a = ''accepted'' \<and> dca_mavlink_command a \<noteq> None \<and> dca_result a = Some 0 \<and>
       dca_error_code a = None \<or>
     dca_business_status a = ''in_progress'' \<and> dca_mavlink_command a \<noteq> None \<and> dca_error_code a = None \<and>
       (\<forall>p. dca_progress a = Some p \<longrightarrow> p \<le> 100 \<or> p = 255) \<or>
     dca_business_status a = ''rejected'' \<and>
       (\<exists>r. dca_result a = Some r \<and> r \<noteq> 0 \<and> r \<noteq> 5 \<and> dca_result_code a = Some (ResultCode r) \<or>
            dca_result a = None \<and> dca_error_code a \<noteq> None) \<or>
     dca_business_status a = ''timeout'' \<and> dca_error_code a \<noteq> None \<and> dca_result a = None"
proof -
  consider "dca_business_status a = ''accepted''" | "dca_business_status a = ''in_progress''"
    | "dca_business_status a = ''rejected''" | "dca_business_status a = ''timeout''"
    using assms(1) by blast
  then show ?thesis
  proof cases
    case 1
    then show ?thesis using none by (simp add: check_combination_def split: if_splits)
  next
    case 2
    then show ?thesis using none
      by (auto simp: check_combination_def not_less split: if_splits)
  next
    case 3
    then show ?thesis using none
      by (cases "dca_result a"; cases "dca_result_code a") (auto simp: check_combination_def split: if_splits)
  next
    case 4
    then show ?thesis using none by (simp add: check_combination_def split: if_splits)
  qed
qed

subsection \<open>Properties\<close>

text \<open>
  What is sent to a device is what was requested: the configuration message carries the command
  identifier and parameters that read back as the accepted ones, and likewise the control message its
  command and pulse widths.
\<close>

theorem device_set_transport:
  assumes "config_wf p" "control_wf c q"
  shows "(\<exists>v. jfind (BuildDeviceConfigSet i p) ''parameters'' = Some v \<and> ParseParameters v = Inr p) \<and>
    jfind (BuildDeviceConfigSet i p) ''command_id'' = Some (JString i) \<and>
    (\<exists>v. jfind (BuildDeviceControlSet i c q) ''parameters'' = Some v \<and> ParseControlParameters v c = Inr q) \<and>
    ParseControlCommand (BuildDeviceControlSet i c q) = Inr c \<and>
    jfind (BuildDeviceControlSet i c q) ''command_id'' = Some (JString i)"
  using ParseParameters_json [OF assms(1)] ParseControlParameters_json [OF assms(2)]
    ParseControlCommand_json [of "BuildDeviceControlSet i c q" c]
  by (simp add: BuildDeviceConfigSet_parameters BuildDeviceControlSet_parameters)

theorem device_set_transport_witness:
  "\<exists>v. jfind (BuildDeviceConfigSet ''c1'' demo_parameters) ''parameters'' = Some v \<and>
     ParseParameters v = Inr demo_parameters"
proof -
  have "control_wf Land None" by simp
  from conjunct1 [OF device_set_transport [OF demo_parameters_wf this]] show ?thesis .
qed

text \<open>
  A configuration acknowledgement is accepted only with a command identifier of UUID shape, a known
  status and a restart flag, and it has an error code, a valid one, exactly when it is a rejection; and
  the acknowledgement it leads to can always be built for the source.
\<close>

theorem config_ack_sound:
  assumes ack: "ParseDeviceConfigAck lib payload = Inr a"
  shows "jparse lib payload = Some (dfa_raw a) \<and> IsUuidV4Shape (dfa_command_id a) \<and>
    dfa_business_status a \<in> {''applied'', ''already_applied'', ''rejected''} \<and>
    (dfa_error_code a \<noteq> None \<longleftrightarrow> dfa_business_status a = ''rejected'') \<and>
    (\<forall>e. dfa_error_code a = Some e \<longrightarrow> IsValidErrorCode e) \<and>
    (\<forall>cmd target at. cr_device_ack cmd = Some (dfa_raw a) \<longrightarrow> has_value (BuildSourceAck cmd target at))"
proof -
  from ack obtain b where raw: "jparse lib payload = Some (dfa_raw a)" "is_object (dfa_raw a)"
      "jfind (dfa_raw a) ''restart_required'' = Some (JBool b)"
    and rest: "IsUuidV4Shape (dfa_command_id a)" "dfa_business_status a \<in> {''applied'', ''already_applied'', ''rejected''}"
      "dfa_error_code a \<noteq> None \<longleftrightarrow> dfa_business_status a = ''rejected''"
      "\<forall>e. dfa_error_code a = Some e \<longrightarrow> IsValidErrorCode e"
    unfolding ParseDeviceConfigAck_def ack_Inr by (auto split: if_splits)
  have "has_value (BuildSourceAck cmd target at)" if "cr_device_ack cmd = Some (dfa_raw a)" for cmd target at
    using raw that by (intro BuildSourceAck_total) auto
  with raw rest show ?thesis by blast
qed

definition demo_uuid :: string where
  "demo_uuid = ''00000000-0000-4000-8000-000000000000''"

lemma demo_uuid_shape: "IsUuidV4Shape demo_uuid"
  by (simp add: demo_uuid_def IsUuidV4Shape_def uuid_char_def is_digit_def less_eq_char_def upt_rec)

definition demo_config_ack :: json where
  "demo_config_ack = jobject [(''command_id'', JString demo_uuid), (''status'', JString ''rejected''),
     (''restart_required'', JBool False), (''error_code'', JString ''busy'')]"

theorem config_ack_sound_witness:
  "IsValidErrorCode ''busy'' \<and>
   has_value (BuildSourceAck (demo_command\<lparr>cr_device_ack := Some demo_config_ack\<rparr>) None 0)"
proof -
  have busy: "IsValidErrorCode ''busy''"
    by (simp add: IsValidErrorCode_def char_class_defs less_eq_char_def)
  have "ParseDeviceConfigAck (const_lib demo_config_ack) ''x'' =
      Inr \<lparr>dfa_command_id = demo_uuid, dfa_business_status = ''rejected'', dfa_restart_required = False,
        dfa_error_code = Some ''busy'', dfa_raw = demo_config_ack\<rparr>"
    using demo_uuid_shape busy
    by (simp add: ParseDeviceConfigAck_def const_lib_def demo_config_ack_def parse_ack_root_def ack_command_id_def
        ack_status_def ack_restart_def config_ack_error_code_def message_ok_def)
  from config_ack_sound [OF this] show ?thesis by simp
qed

text \<open>
  An accepted control acknowledgement names the MAVLink command of its command if it names one, has
  only valid error codes, and its fields fit its status: acceptance has result 0, progress is at most 100
  or the value 255, a MAVLink rejection has the matching result code and a result other than 0 and 5, a
  local rejection and a timeout have an error code. The command, result and progress numbers are those
  of the JSON text.
\<close>

theorem control_ack_sound:
  assumes "ParseDeviceControlAck lib payload = Inr a"
  shows "jparse lib payload = Some (dca_raw a) \<and> IsUuidV4Shape (dca_command_id a) \<and>
    dca_mavlink_command a \<in> {None, Some (ExpectedMavlinkCommand (dca_command a))} \<and>
    (\<forall>e. dca_error_code a = Some e \<longrightarrow> IsValidErrorCode e) \<and>
    (dca_business_status a = ''accepted'' \<and> dca_mavlink_command a \<noteq> None \<and> dca_result a = Some 0 \<and>
       dca_error_code a = None \<or>
     dca_business_status a = ''in_progress'' \<and> dca_mavlink_command a \<noteq> None \<and> dca_error_code a = None \<and>
       (\<forall>p. dca_progress a = Some p \<longrightarrow> p \<le> 100 \<or> p = 255) \<or>
     dca_business_status a = ''rejected'' \<and>
       (\<exists>r. dca_result a = Some r \<and> r \<noteq> 0 \<and> r \<noteq> 5 \<and> dca_result_code a = Some (ResultCode r) \<or>
            dca_result a = None \<and> dca_error_code a \<noteq> None) \<or>
     dca_business_status a = ''timeout'' \<and> dca_error_code a \<noteq> None \<and> dca_result a = None) \<and>
    (\<forall>w. dca_mavlink_command a = Some w \<longrightarrow>
       (\<exists>v. jfind (dca_raw a) ''mavlink_command'' = Some v \<and> get_int64 v = int (unat w))) \<and>
    (\<forall>w. dca_result a = Some w \<longrightarrow> (\<exists>v. jfind (dca_raw a) ''result'' = Some v \<and> get_int64 v = int (unat w))) \<and>
    (\<forall>w. dca_progress a = Some w \<longrightarrow> (\<exists>v. jfind (dca_raw a) ''progress'' = Some v \<and> get_int64 v = int (unat w)))"
  using assms
proof (cases rule: ParseDeviceControlAck_Inr)
  case (1 root)
  note fields = read_control_fields_value [OF 1(7)]
  have raw: "dca_raw a = root" "dca_mavlink_command a = int_field root ''mavlink_command''"
    "dca_result a = int_field root ''result''" "dca_progress a = int_field root ''progress''"
    by (subst 1(8), simp add: fields)+
  have nums: "field_within root ''mavlink_command'' 0 65535" "field_within root ''result'' 0 255"
    "field_within root ''progress'' 0 255"
    using 1(7) unfolding read_control_fields_valid by blast+
  have exact: "\<forall>w. dca_mavlink_command a = Some w \<longrightarrow>
       (\<exists>v. jfind (dca_raw a) ''mavlink_command'' = Some v \<and> get_int64 v = int (unat w))"
    "\<forall>w. dca_result a = Some w \<longrightarrow> (\<exists>v. jfind (dca_raw a) ''result'' = Some v \<and> get_int64 v = int (unat w))"
    "\<forall>w. dca_progress a = Some w \<longrightarrow> (\<exists>v. jfind (dca_raw a) ''progress'' = Some v \<and> get_int64 v = int (unat w))"
    unfolding raw by (intro allI impI; rule int_field_exact [OF nums(1)] int_field_exact [OF nums(2)]
      int_field_exact [OF nums(3)]; simp)+
  have "dca_business_status a = ''accepted'' \<and> dca_mavlink_command a \<noteq> None \<and> dca_result a = Some 0 \<and>
       dca_error_code a = None \<or>
     dca_business_status a = ''in_progress'' \<and> dca_mavlink_command a \<noteq> None \<and> dca_error_code a = None \<and>
       (\<forall>p. dca_progress a = Some p \<longrightarrow> p \<le> 100 \<or> p = 255) \<or>
     dca_business_status a = ''rejected'' \<and>
       (\<exists>r. dca_result a = Some r \<and> r \<noteq> 0 \<and> r \<noteq> 5 \<and> dca_result_code a = Some (ResultCode r) \<or>
            dca_result a = None \<and> dca_error_code a \<noteq> None) \<or>
     dca_business_status a = ''timeout'' \<and> dca_error_code a \<noteq> None \<and> dca_result a = None"
    using 1(6,11) by (rule check_combination_cases)
  with 1 raw exact show ?thesis by blast
qed

definition progress_ack :: "json \<Rightarrow> json" where
  "progress_ack param2 = jobject [(''command_id'', JString demo_uuid), (''command'', JString ''takeoff''),
     (''status'', JString ''in_progress''), (''mavlink_command'', JUnsigned 31091), (''result'', JUnsigned 5),
     (''result_code'', JString ''in_progress''), (''progress'', JUnsigned 40), (''result_param2'', param2)]"

lemma progress_ack_parsed:
  assumes "is_number_integer v" "- (2 ^ 31) \<le> get_int64 v" "get_int64 v < 2 ^ 31"
  shows "\<exists>a. ParseDeviceControlAck (const_lib (progress_ack v)) ''x'' = Inr a \<and> dca_progress a = Some 40 \<and>
    dca_raw a = progress_ack v \<and> dca_result_param2 a = Some (word_of_int (get_int64 v))"
proof -
  let ?r = "progress_ack v"
  have find: "jfind ?r ''command_id'' = Some (JString demo_uuid)" "jfind ?r ''command'' = Some (JString ''takeoff'')"
    "jfind ?r ''status'' = Some (JString ''in_progress'')" "jfind ?r ''mavlink_command'' = Some (JUnsigned 31091)"
    "jfind ?r ''result'' = Some (JUnsigned 5)" "jfind ?r ''result_code'' = Some (JString ''in_progress'')"
    "jfind ?r ''progress'' = Some (JUnsigned 40)" "jfind ?r ''result_param2'' = Some v"
    "jfind ?r ''error_code'' = None" "jfind ?r ''message'' = None" "is_object ?r"
    by (simp_all add: progress_ack_def)
  have valid: "snd (read_control_fields ?r)"
    using assms by (simp add: read_control_fields_valid field_within_def string_field_ok_def find get_int64_cases
        get_uint64_def)
  have ack: "fst (read_control_fields ?r) = \<lparr>dca_command_id = [], dca_command = Land, dca_business_status = [],
     dca_mavlink_command = Some 31091, dca_result = Some 5, dca_result_code = Some ''in_progress'',
     dca_progress = Some 40, dca_result_param2 = Some (word_of_int (get_int64 v)), dca_error_code = None,
     dca_raw = ?r\<rparr>"
    unfolding read_control_fields_value [OF valid] by (simp add: int_field_def find get_int64_cases get_uint64_def)
  have "ack_command ?r = Inr Takeoff" by (simp add: ack_command_def find ParseCommandText_def)
  then show ?thesis
    using valid demo_uuid_shape
    by (simp add: ParseDeviceControlAck_def parse_ack_root_def const_lib_def find ack_command_id_def ack_status_def
        case_prod_beta Let_def ack message_ok_def check_combination_def word_less_nat_alt)
qed

theorem control_ack_sound_witness:
  "\<exists>a. ParseDeviceControlAck (const_lib (progress_ack (JInteger 7))) ''x'' = Inr a \<and>
     dca_mavlink_command a \<in> {None, Some (ExpectedMavlinkCommand (dca_command a))}"
proof -
  have "is_number_integer (JInteger 7)" "- (2 ^ 31) \<le> get_int64 (JInteger 7)" "get_int64 (JInteger 7) < 2 ^ 31"
    by (simp_all add: get_int64_cases get_uint64_def)
  from progress_ack_parsed [OF this] obtain a
    where a: "ParseDeviceControlAck (const_lib (progress_ack (JInteger 7))) ''x'' = Inr a" by blast
  with control_ack_sound [OF a] show ?thesis by blast
qed

text \<open>
  C33. The range check of the second result parameter does not hold for large unsigned numbers: a JSON
  number of at least 2 to the 64 minus 2 to the 31, far above the maximum of a 32-bit integer, is read as
  a negative number and accepted.
\<close>

theorem result_param2_wraps:
  assumes "2 ^ 64 - 2 ^ 31 \<le> unat w"
  shows "\<exists>a p. ParseDeviceControlAck (const_lib (progress_ack (JUnsigned w))) ''x'' = Inr a \<and>
    dca_result_param2 a = Some p \<and> sint p = int (unat w) - 2 ^ 64 \<and> get_uint64 (JUnsigned w) > 2 ^ 31 - 1"
proof -
  let ?v = "JUnsigned w"
  have u: "get_uint64 ?v = unat w" by (simp add: get_uint64_def)
  have g: "get_int64 ?v = int (unat w) - 2 ^ 64" using assms by (simp add: get_int64_cases u)
  have b: "unat w < 2 ^ 64" using get_uint64_bound [of ?v] by (simp add: u)
  have "- (2 ^ 31) \<le> int n - 2 ^ 64 \<and> int n - 2 ^ 64 < 0" if "2 ^ 64 - 2 ^ 31 \<le> n" "n < 2 ^ 64" for n
    using that by simp
  from this [OF assms b] have "- (2 ^ 31) \<le> get_int64 ?v" "get_int64 ?v < 0" unfolding g by blast+
  moreover from this have "sint (word_of_int (get_int64 ?v) :: 32 word) = get_int64 ?v"
    by (simp add: signed_of_int signed_take_bit_int_eq_self)
  ultimately show ?thesis
    using progress_ack_parsed [of ?v] assms by (auto simp: u g)
qed

theorem result_param2_wraps_witness:
  "\<exists>a. ParseDeviceControlAck (const_lib (progress_ack (JUnsigned (- 1)))) ''x'' = Inr a \<and>
     dca_result_param2 a = Some (- 1)"
proof -
  have w: "unat (- 1 :: 64 word) = 2 ^ 64 - 1" by (simp add: unsigned_minus_1_eq_mask mask_eq_exp_minus_1)
  from result_param2_wraps [of "- 1"] obtain a p
    where "ParseDeviceControlAck (const_lib (progress_ack (JUnsigned (- 1)))) ''x'' = Inr a"
      "dca_result_param2 a = Some p" "sint p = - 1" by (auto simp: w)
  moreover from this(3) have "p = - 1" by (metis sint_n1 signed_word_eqI)
  ultimately show ?thesis by blast
qed

end
