(* ===== verification/Command_Service.thy ===== *)
theory Command_Service
  imports Database_Port Mqtt_Port Command_Policy
begin

text \<open>
  \<^verbatim>\<open>core/runtime/command_service.cpp\<close>: the service that accepts command requests, makes them
  idempotent through the database, publishes them to devices and follows their acknowledgements.

  Every handler is a definition on the whole state of the service. The callbacks the service is built
  with are fields of \<open>service_env\<close>; what they are called with is appended to the list of effects,
  so a theorem can speak of what the service did. The database submitter and the device publisher get a
  fresh number with every call, so a function of their arguments stands for every behaviour they can
  have; the acknowledgement callback, the random numbers and the iteration orders of the unordered maps
  are indexed by the number of effects so far for the same reason. A context refers to its command
  source by value. Time is in nanoseconds, time-outs are in seconds.
\<close>

record RequestContext =
  rc_source_id :: string
  rc_source :: "CommandSource option"
  rc_parsed :: ParsedSourceRequest
  rc_command_type :: CommandType
  rc_received_at :: int
  rc_deadline :: int
  rc_target :: "ResolvedTarget option"
  rc_record :: "CommandRecord option"
  rc_device_ack_business_status :: "string option"

datatype OperationKind = OpFind | OpFindByIdForConvergence | OpInsert | OpTransition | OpCleanup

record Operation =
  op_kind :: OperationKind
  op_context :: RequestContext

record DeferredTransition =
  dt_context :: RequestContext
  dt_task :: TransitionCommandTask

record CompletedCommand =
  cc_context :: RequestContext
  cc_remembered_at :: int

record EarlyDeviceAck =
  ea_device_id :: string
  ea_payload :: string
  ea_received_at :: int

datatype effect =
    SubmitTask "64 word" CommandDatabaseTask bool  \<comment> \<open>and whether the submitter accepted it\<close>
  | DevicePublish "64 word" string string          \<comment> \<open>token, topic, payload\<close>
  | SourceAck string string                        \<comment> \<open>topic, payload\<close>
  | Diagnostic string
  | Information string

record service_env =
  env_lib :: json_lib
  env_submit :: "64 word \<Rightarrow> CommandDatabaseTask \<Rightarrow> bool"
  env_publish :: "64 word \<Rightarrow> string \<Rightarrow> string \<Rightarrow> string + unit"
  env_ack_returns :: "nat \<Rightarrow> bool"  \<comment> \<open>the acknowledgement callback returns, it does not throw\<close>
  env_draws :: "nat \<Rightarrow> 32 word list"
  env_order :: "nat \<Rightarrow> string list \<Rightarrow> string list"
  env_topic_namespace :: string
  env_max_inflight_commands :: nat
  env_config_timeout :: int
  env_control_timeout :: int
  env_terminal_retention_days :: int
  env_cleanup_interval :: int
  env_cleanup_batch_size :: nat

record CommandService =
  sv_sources :: SourceCatalog
  sv_devices :: DeviceRegistry
  sv_next_operation_id :: "64 word"
  sv_next_publish_token :: "64 word"
  sv_messages :: "InboundMessage list"
  sv_database_results :: "CommandDatabaseResult list"
  sv_publish_completions :: "PublishCompletion list"
  sv_operations :: "(64 word, Operation) fmap"
  sv_publications :: "(64 word, RequestContext) fmap"
  sv_active_commands :: "(string, RequestContext) fmap"
  sv_completed_commands :: "(string, CompletedCommand) fmap"
  sv_recovery_started :: "string fset"
  sv_deferred_transitions :: "(string, DeferredTransition) fmap"
  sv_early_device_acks :: "(string, EarlyDeviceAck) fmap"
  sv_next_cleanup_at :: "int option"
  sv_outstanding_operations :: "64 word"
  sv_database_available :: bool
  sv_mqtt_available :: bool
  sv_closed :: bool
  sv_effects :: "effect list"

definition CommandService_new :: "SourceCatalog \<Rightarrow> DeviceRegistry \<Rightarrow> CommandService" where
  "CommandService_new sources devices =
     \<lparr>sv_sources = sources, sv_devices = devices, sv_next_operation_id = 1, sv_next_publish_token = 1,
      sv_messages = [], sv_database_results = [], sv_publish_completions = [],
      sv_operations = fmempty, sv_publications = fmempty, sv_active_commands = fmempty,
      sv_completed_commands = fmempty, sv_recovery_started = {||}, sv_deferred_transitions = fmempty,
      sv_early_device_acks = fmempty, sv_next_cleanup_at = None, sv_outstanding_operations = 0,
      sv_database_available = True, sv_mqtt_available = True, sv_closed = False, sv_effects = []\<rparr>"

definition seconds :: "int \<Rightarrow> int" where
  "seconds n = n * 1000000000"

text \<open>The keys of a map in the order the map is iterated at this point.\<close>

definition keys_in_order :: "service_env \<Rightarrow> CommandService \<Rightarrow> (string, 'v) fmap \<Rightarrow> string list" where
  "keys_in_order env st m = env_order env (length (sv_effects st)) (sorted_list_of_fset (fmdom m))"

subsection \<open>Topics and descriptions\<close>

definition SourceAckTopic :: "string \<Rightarrow> string \<Rightarrow> CommandType \<Rightarrow> string" where
  "SourceAckTopic topic_namespace source_id type =
     topic_namespace @ ''/sources/'' @ source_id @ (if type = Control then ''/control/ack'' else ''/config/ack'')"

definition DeviceSetTopic :: "string \<Rightarrow> string \<Rightarrow> CommandType \<Rightarrow> string" where
  "DeviceSetTopic topic_namespace device_id type =
     topic_namespace @ ''/'' @ device_id @ (if type = Control then ''/control/set'' else ''/config/set'')"

fun RequestId :: "ParsedSourceRequest \<Rightarrow> string option" where
  "RequestId (ParsedConfig r) = Some (scr_request_id r)"
| "RequestId (ParsedControl r) = Some (sct_request_id r)"
| "RequestId (Rejected r) = rej_request_id r"

fun ComparisonPayload :: "ParsedSourceRequest \<Rightarrow> json option" where
  "ComparisonPayload (ParsedConfig r) = Some (scr_comparison_payload r)"
| "ComparisonPayload (ParsedControl r) = Some (sct_comparison_payload r)"
| "ComparisonPayload (Rejected r) = rej_comparison_payload r"

definition DescribeTarget :: "ResolvedTarget \<Rightarrow> string" where
  "DescribeTarget target =
     (let school = (if rt_school_name target = [] then txt_unknown_school else rt_school_name target);
          label = (case rt_dcdw_label target of
                     Some l \<Rightarrow> if l \<noteq> [] then l else txt_no_label
                   | None \<Rightarrow> txt_no_label)
      in school @ '' / '' @ label @ txt_open_paren @ rt_device_id target @ txt_close_paren)"

text \<open>The text written so far and the flag \<^verbatim>\<open>first\<close>.\<close>

definition AppendConfigField :: "string \<Rightarrow> 32 word option \<Rightarrow> string \<times> bool \<Rightarrow> string \<times> bool" where
  "AppendConfigField name v output =
     (case v of
        None \<Rightarrow> output
      | Some w \<Rightarrow> (fst output @ (if snd output then [] else txt_comma) @ name @ ''='' @ decimal (unat w), False))"

definition DescribeConfigCommand :: "ConfigParameters \<Rightarrow> string" where
  "DescribeConfigCommand parameters =
     fst (AppendConfigField ''mqtt_reconnect_delay_max_s'' (cp_mqtt_reconnect_delay_max_s parameters)
         (AppendConfigField ''mqtt_reconnect_delay_s'' (cp_mqtt_reconnect_delay_s parameters)
         (AppendConfigField ''heartbeat_interval_ms'' (cp_heartbeat_interval_ms parameters)
         (AppendConfigField ''telemetry_publish_interval_ms'' (cp_telemetry_publish_interval_ms parameters)
           ([], True)))))"

fun ControlCommandName :: "ControlCommand \<Rightarrow> string" where
  "ControlCommandName SetMotorPwm = ''set_motor_pwm''"
| "ControlCommandName EmergencyStop = ''emergency_stop''"
| "ControlCommandName Takeoff = ''takeoff''"
| "ControlCommandName Land = ''land''"

definition DescribeControlCommand :: "SourceControlRequest \<Rightarrow> string" where
  "DescribeControlCommand request =
     ControlCommandName (sct_command request) @
     (case sct_parameters request of
        Some (a, b, c, d) \<Rightarrow>
          if sct_command request = SetMotorPwm
          then '' pwm_us=['' @ decimal (unat a) @ '','' @ decimal (unat b) @ '','' @ decimal (unat c) @
               '','' @ decimal (unat d) @ '']''
          else []
      | None \<Rightarrow> [])"

fun DescribeCommand :: "ParsedSourceRequest \<Rightarrow> string" where
  "DescribeCommand (ParsedConfig request) = txt_config_command @ DescribeConfigCommand (scr_parameters request)"
| "DescribeCommand (ParsedControl request) = txt_control_command @ DescribeControlCommand request"
| "DescribeCommand (Rejected r) = txt_unknown_command"

fun CommandStatusName :: "CommandStatus \<Rightarrow> string" where
  "CommandStatusName Pending = ''pending''"
| "CommandStatusName Dispatched = ''dispatched''"
| "CommandStatusName InProgress = ''in_progress''"
| "CommandStatusName Succeeded = ''succeeded''"
| "CommandStatusName Failed = ''failed''"
| "CommandStatusName Timeout = ''timeout''"
| "CommandStatusName DeliveryUncertain = ''delivery_uncertain''"

subsection \<open>Ports\<close>

definition emit :: "effect \<Rightarrow> CommandService \<Rightarrow> CommandService" where
  "emit e st = st\<lparr>sv_effects := sv_effects st @ [e]\<rparr>"

definition Diagnose :: "string \<Rightarrow> CommandService \<Rightarrow> CommandService" where
  "Diagnose message st = emit (Diagnostic message) st"

definition Inform :: "string \<Rightarrow> CommandService \<Rightarrow> CommandService" where
  "Inform message st = emit (Information message) st"

definition TargetFor :: "CommandRecord \<Rightarrow> CommandService \<Rightarrow> ResolvedTarget option" where
  "TargetFor record st =
     (case cr_target_device_id record of
        None \<Rightarrow> None
      | Some device_id \<Rightarrow> map_option Resolve (Find (sv_devices st) device_id))"

definition Submit ::
    "service_env \<Rightarrow> OperationKind \<Rightarrow> RequestContext \<Rightarrow> CommandDatabaseTask \<Rightarrow> CommandService \<Rightarrow> bool \<times> CommandService" where
  "Submit env kind context task st =
     (let operation_id = sv_next_operation_id st;
          accepted = env_submit env operation_id task;
          st1 = emit (SubmitTask operation_id task accepted) (st\<lparr>sv_next_operation_id := operation_id + 1\<rparr>)
      in if \<not> accepted then (False, st1)
         else (True, st1\<lparr>sv_operations :=
                           emplace operation_id \<lparr>op_kind = kind, op_context = context\<rparr> (sv_operations st1),
                         sv_outstanding_operations := sv_outstanding_operations st1 + 1\<rparr>))"

definition Reject_source ::
    "service_env \<Rightarrow> string \<Rightarrow> string option \<Rightarrow> ProtocolError \<Rightarrow> int \<Rightarrow> CommandType \<Rightarrow> CommandService \<Rightarrow> CommandService" where
  "Reject_source env source_id request_id error now command_type st =
     (let returns = env_ack_returns env (length (sv_effects st));
          st1 = emit (SourceAck (SourceAckTopic (env_topic_namespace env) source_id command_type)
                  (jdump (env_lib env) (BuildPrePersistenceRejection request_id error now command_type))) st
      in if returns then st1 else Diagnose msg_ack_callback st1)"

definition PublishAck :: "service_env \<Rightarrow> RequestContext \<Rightarrow> int \<Rightarrow> CommandService \<Rightarrow> CommandService" where
  "PublishAck env context now st =
     (case rc_record context of
        None \<Rightarrow> st
      | Some record \<Rightarrow>
          (case BuildSourceAck record (rc_target context) now of
             Inl e \<Rightarrow> Diagnose msg_ack_callback st
           | Inr ack \<Rightarrow>
               let returns = env_ack_returns env (length (sv_effects st));
                   st1 = emit (SourceAck
                           (SourceAckTopic (env_topic_namespace env) (rc_source_id context) (rc_command_type context))
                           (jdump (env_lib env) ack)) st
               in if returns then st1 else Diagnose msg_ack_callback st1))"

definition SubmitTransitionOrDefer ::
    "service_env \<Rightarrow> RequestContext \<Rightarrow> TransitionCommandTask \<Rightarrow> CommandService \<Rightarrow> CommandService" where
  "SubmitTransitionOrDefer env context task st =
     (let (accepted, st1) = Submit env OpTransition context (TransitionTask task) st
      in if accepted
         then st1\<lparr>sv_deferred_transitions := fmdrop (tct_command_id task) (sv_deferred_transitions st1)\<rparr>
         else st1\<lparr>sv_database_available := False,
                  sv_deferred_transitions :=
                    fmupd (tct_command_id task) \<lparr>dt_context = context, dt_task = task\<rparr>
                      (sv_deferred_transitions st1)\<rparr>)"

definition RetryDeferredTransitions :: "service_env \<Rightarrow> CommandService \<Rightarrow> CommandService" where
  "RetryDeferredTransitions env st =
     (if \<not> sv_database_available st then st
      else
        (case keys_in_order env st (sv_deferred_transitions st) of
           [] \<Rightarrow> st
         | key # _ \<Rightarrow>
             (case fmlookup (sv_deferred_transitions st) key of
                None \<Rightarrow> st
              | Some deferred \<Rightarrow>
                  let st1 = st\<lparr>sv_deferred_transitions := fmdrop key (sv_deferred_transitions st)\<rparr>;
                      (accepted, st2) =
                        Submit env OpTransition (dt_context deferred) (TransitionTask (dt_task deferred)) st1
                  in if accepted then st2
                     else st2\<lparr>sv_database_available := False,
                              sv_deferred_transitions :=
                                fmupd (tct_command_id (dt_task deferred)) deferred
                                  (sv_deferred_transitions st2)\<rparr>)))"

definition IsStateChangedError :: "DatabaseError \<Rightarrow> bool" where
  "IsStateChangedError error = find_substring txt_state_changed (dbe_message error)"

subsection \<open>Completed commands\<close>

text \<open>The loop over the map that finds the entry remembered first.\<close>

fun oldest_key :: "(string, CompletedCommand) fmap \<Rightarrow> string \<Rightarrow> string list \<Rightarrow> string" where
  "oldest_key m oldest [] = oldest"
| "oldest_key m oldest (k # ks) =
     oldest_key m
       (case (fmlookup m k, fmlookup m oldest) of
          (Some c, Some old) \<Rightarrow> if cc_remembered_at c < cc_remembered_at old then k else oldest
        | _ \<Rightarrow> oldest) ks"

lemma oldest_key_mem: "oldest_key m k ks \<in> set (k # ks)"
proof (induction ks arbitrary: k)
  case (Cons x ks)
  then show ?case by (auto split: option.splits)
qed simp

text \<open>The \<^verbatim>\<open>while\<close> loop; \<^term>\<open>ks\<close> lists the keys of the map in iteration order.\<close>

function evict_completed ::
    "nat \<Rightarrow> string list \<Rightarrow> (string, CompletedCommand) fmap \<Rightarrow> (string, CompletedCommand) fmap" where
  "evict_completed limit ks m =
     (case ks of
        [] \<Rightarrow> m
      | k # rest \<Rightarrow>
          if fmsize m \<le> limit then m
          else
            let oldest = oldest_key m k rest
            in evict_completed limit (remove1 oldest ks) (fmdrop oldest m))"
  by pat_completeness auto
termination
proof (relation "measure (\<lambda>(limit, ks, m). length ks)")
  fix limit :: nat and ks and m :: "(string, CompletedCommand) fmap" and k rest oldest
  assume "ks = k # rest" "oldest = oldest_key m k rest"
  then have "oldest \<in> set ks" using oldest_key_mem by simp
  then show "((limit, remove1 oldest ks, fmdrop oldest m), limit, ks, m) \<in> measure (\<lambda>(limit, ks, m). length ks)"
    by (auto simp: length_remove1 dest: length_pos_if_in_set)
qed simp

declare evict_completed.simps [simp del]

definition RememberCompletedCommand ::
    "service_env \<Rightarrow> RequestContext \<Rightarrow> int \<Rightarrow> CommandService \<Rightarrow> CommandService" where
  "RememberCompletedCommand env context now st =
     (case rc_record context of
        None \<Rightarrow> st
      | Some record \<Rightarrow>
          if \<not> IsTerminal (cr_status record) then st
          else
            let m = fmupd (cr_command_id record) \<lparr>cc_context = context, cc_remembered_at = now\<rparr>
                      (sv_completed_commands st)
            in st\<lparr>sv_completed_commands :=
                   evict_completed (env_max_inflight_commands env) (keys_in_order env st m) m\<rparr>)"

definition TryHandleLateDeviceAck ::
    "string \<Rightarrow> CommandType \<Rightarrow> string \<Rightarrow> string \<Rightarrow> CommandService \<Rightarrow> bool \<times> CommandService" where
  "TryHandleLateDeviceAck device_id command_type command_id business_status st =
     (case fmlookup (sv_completed_commands st) command_id of
        None \<Rightarrow> (False, st)
      | Some completed \<Rightarrow>
          (case (rc_record (cc_context completed), rc_target (cc_context completed)) of
             (Some record, Some target) \<Rightarrow>
               if cr_target_device_id record \<noteq> Some device_id \<or>
                  rc_command_type (cc_context completed) \<noteq> command_type
               then (False, st)
               else (True, Inform (txt_received_device @ DescribeTarget target @ txt_late_answer @
                             business_status @ txt_command_is @ CommandStatusName (cr_status record) @
                             txt_not_reversed) st)
           | _ \<Rightarrow> (False, st)))"

text \<open>A command that reached a terminal status is remembered and no longer active.\<close>

definition retire :: "service_env \<Rightarrow> RequestContext \<Rightarrow> string \<Rightarrow> int \<Rightarrow> CommandService \<Rightarrow> CommandService" where
  "retire env context command_id now st =
     (let st1 = RememberCompletedCommand env context now st
      in st1\<lparr>sv_active_commands := fmdrop command_id (sv_active_commands st1),
             sv_recovery_started := sv_recovery_started st1 |-| {|command_id|},
             sv_early_device_acks := fmdrop command_id (sv_early_device_acks st1)\<rparr>)"

definition activate :: "string \<Rightarrow> RequestContext \<Rightarrow> CommandService \<Rightarrow> CommandService" where
  "activate command_id context st =
     st\<lparr>sv_active_commands := fmupd command_id context (sv_active_commands st)\<rparr>"

subsection \<open>Publishing to devices\<close>

definition device_payload :: "CommandRecord \<Rightarrow> ParsedSourceRequest \<Rightarrow> json option" where
  "device_payload record parsed =
     (case parsed of
        ParsedConfig request \<Rightarrow> Some (BuildDeviceConfigSet (cr_command_id record) (scr_parameters request))
      | ParsedControl request \<Rightarrow>
          Some (BuildDeviceControlSet (cr_command_id record) (sct_command request) (sct_parameters request))
      | Rejected _ \<Rightarrow> None)"

definition publish_failed :: "RequestContext \<Rightarrow> CommandRecord \<Rightarrow> int \<Rightarrow> CommandRecord" where
  "publish_failed context record now =
     record\<lparr>cr_status := Failed, cr_error_code := Some ''mqtt_publish_failed'',
            cr_error_message := Some (if rc_command_type context = Control
                                      then msg_control_publish_failed else msg_config_publish_failed),
            cr_updated_at := now, cr_completed_at := Some now\<rparr>"

definition PublishRecord :: "service_env \<Rightarrow> RequestContext \<Rightarrow> int \<Rightarrow> CommandService \<Rightarrow> CommandService" where
  "PublishRecord env context now st =
     (case rc_record context of
        None \<Rightarrow> st
      | Some record \<Rightarrow>
          (case cr_target_device_id record of
             None \<Rightarrow> st
           | Some device_id \<Rightarrow>
               if \<not> sv_mqtt_available st then st
               else
                 (case device_payload record (rc_parsed context) of
                    None \<Rightarrow> st
                  | Some payload \<Rightarrow>
                      let token = sv_next_publish_token st;
                          topic = DeviceSetTopic (env_topic_namespace env) device_id (rc_command_type context);
                          text = jdump (env_lib env) payload;
                          st1 = st\<lparr>sv_recovery_started := finsert (cr_command_id record) (sv_recovery_started st),
                                   sv_next_publish_token := token + 1,
                                   sv_publications := emplace token context (sv_publications st)\<rparr>;
                          st2 = emit (DevicePublish token topic text) st1
                      in (case env_publish env token topic text of
                            Inr _ \<Rightarrow> st2
                          | Inl _ \<Rightarrow>
                              let failed = publish_failed context record now
                              in SubmitTransitionOrDefer env (context\<lparr>rc_record := Some failed\<rparr>)
                                   \<lparr>tct_command_id = cr_command_id failed, tct_expected = cr_status record,
                                    tct_desired = Failed,
                                    tct_update = \<lparr>cu_error_code = cr_error_code failed,
                                      cu_error_message = cr_error_message failed, cu_device_ack = None,
                                      cu_dispatched_at = None, cu_completed_at = Some now, cu_updated_at = now\<rparr>\<rparr>
                                   (st2\<lparr>sv_publications := fmdrop token (sv_publications st2)\<rparr>)))))"

subsection \<open>Device acknowledgements\<close>

text \<open>Command identifier, business status, raw document and, for control, the command.\<close>

definition parse_device_ack ::
    "service_env \<Rightarrow> string \<Rightarrow> CommandType \<Rightarrow> string + (string \<times> string \<times> json \<times> ControlCommand option)" where
  "parse_device_ack env payload command_type =
     (if command_type = Control then
        (case ParseDeviceControlAck (env_lib env) payload of
           Inl _ \<Rightarrow> Inl msg_control_ack_malformed
         | Inr a \<Rightarrow> Inr (dca_command_id a, dca_business_status a, dca_raw a, Some (dca_command a)))
      else
        (case ParseDeviceConfigAck (env_lib env) payload of
           Inl _ \<Rightarrow> Inl msg_config_ack_malformed
         | Inr a \<Rightarrow> Inr (dfa_command_id a, dfa_business_status a, dfa_raw a, None)))"

definition find_acked ::
    "string \<Rightarrow> CommandType \<Rightarrow> string \<Rightarrow> CommandService \<Rightarrow> (RequestContext \<times> CommandRecord) option" where
  "find_acked device_id command_type command_id st =
     (case fmlookup (sv_active_commands st) command_id of
        None \<Rightarrow> None
      | Some context \<Rightarrow>
          (case rc_record context of
             None \<Rightarrow> None
           | Some record \<Rightarrow>
               if cr_target_device_id record \<noteq> Some device_id \<or> rc_command_type context \<noteq> command_type
               then None else Some (context, record)))"

definition unrelated_ack ::
    "string \<Rightarrow> CommandType \<Rightarrow> string \<Rightarrow> string \<Rightarrow> CommandService \<Rightarrow> CommandService" where
  "unrelated_ack device_id command_type command_id business_status st =
     (let (handled, st1) = TryHandleLateDeviceAck device_id command_type command_id business_status st
      in if handled then st1
         else
           (case Find (sv_devices st1) device_id of
              Some target \<Rightarrow>
                Inform (txt_received_device @ DescribeTarget (Resolve target) @ txt_late_unrelated @
                        business_status @ txt_not_reversed) st1
            | None \<Rightarrow>
                Inform (txt_received_unknown @ device_id @ txt_late_unrelated @ business_status @
                        txt_not_reversed) st1))"

definition remember_early_ack ::
    "service_env \<Rightarrow> string \<Rightarrow> string \<Rightarrow> CommandType \<Rightarrow> string \<Rightarrow> string \<Rightarrow> int \<Rightarrow> CommandService \<Rightarrow> CommandService" where
  "remember_early_ack env device_id payload command_type command_id business_status now st =
     (let ack = \<lparr>ea_device_id = device_id, ea_payload = payload, ea_received_at = now\<rparr>
      in case fmlookup (sv_early_device_acks st) command_id of
           None \<Rightarrow> st\<lparr>sv_early_device_acks := fmupd command_id ack (sv_early_device_acks st)\<rparr>
         | Some early \<Rightarrow>
             if ea_payload early = payload then st
             else
               let incoming_terminal = (business_status \<noteq> ''in_progress'');
                   old_terminal = (command_type = Control \<and>
                     (case ParseDeviceControlAck (env_lib env) (ea_payload early) of
                        Inl _ \<Rightarrow> False | Inr old \<Rightarrow> dca_business_status old \<noteq> ''in_progress''))
               in if \<not> old_terminal \<or> \<not> incoming_terminal then
                    (if incoming_terminal \<or> \<not> old_terminal
                     then st\<lparr>sv_early_device_acks := fmupd command_id ack (sv_early_device_acks st)\<rparr>
                     else st)
                  else Diagnose msg_early_ack_conflict st)"

definition acked_status :: "string \<Rightarrow> CommandStatus" where
  "acked_status business_status =
     (if business_status = ''timeout'' then Timeout
      else if business_status = ''rejected'' then Failed
      else if business_status = ''in_progress'' then InProgress
      else Succeeded)"

definition acked_record :: "CommandRecord \<Rightarrow> CommandStatus \<Rightarrow> json \<Rightarrow> CommandType \<Rightarrow> int \<Rightarrow> CommandRecord" where
  "acked_record record desired raw command_type now =
     (let r = record\<lparr>cr_status := desired, cr_device_ack := Some raw, cr_updated_at := now,
                     cr_completed_at := (if IsTerminal desired then Some now else None)\<rparr>
      in if desired = Failed
         then r\<lparr>cr_error_code := Some ''device_rejected'',
                cr_error_message := Some (if command_type = Control then msg_control_rejected
                                          else msg_config_rejected)\<rparr>
         else if desired = Timeout
         then r\<lparr>cr_error_code := Some ''device_timeout'', cr_error_message := Some msg_device_timeout\<rparr>
         else r)"

definition ack_update :: "CommandRecord \<Rightarrow> int \<Rightarrow> CommandUpdate" where
  "ack_update record now =
     \<lparr>cu_error_code = cr_error_code record, cu_error_message = cr_error_message record,
      cu_device_ack = cr_device_ack record, cu_dispatched_at = None, cu_completed_at = cr_completed_at record,
      cu_updated_at = now\<rparr>"

definition apply_ack ::
    "service_env \<Rightarrow> RequestContext \<Rightarrow> CommandRecord \<Rightarrow> string \<Rightarrow> json \<Rightarrow> CommandType \<Rightarrow> int \<Rightarrow> CommandService \<Rightarrow> CommandService" where
  "apply_ack env context record business_status raw command_type now st =
     (let desired = acked_status business_status;
          new_record = acked_record record desired raw command_type now;
          context' = context\<lparr>rc_deadline := (if desired = InProgress
                                             then now + seconds (env_control_timeout env) else rc_deadline context),
                             rc_record := Some new_record,
                             rc_device_ack_business_status := Some business_status\<rparr>
      in SubmitTransitionOrDefer env context'
           \<lparr>tct_command_id = cr_command_id new_record, tct_expected = cr_status record, tct_desired = desired,
            tct_update = ack_update new_record now\<rparr> st)"

definition HandleDeviceAck ::
    "service_env \<Rightarrow> string \<Rightarrow> string \<Rightarrow> CommandType \<Rightarrow> int \<Rightarrow> CommandService \<Rightarrow> CommandService" where
  "HandleDeviceAck env device_id payload command_type now st =
     (case parse_device_ack env payload command_type of
        Inl message \<Rightarrow> Diagnose message st
      | Inr (command_id, business_status, raw, control_command) \<Rightarrow>
          (case find_acked device_id command_type command_id st of
             None \<Rightarrow> unrelated_ack device_id command_type command_id business_status st
           | Some (context, record) \<Rightarrow>
               if control_command \<noteq> None \<and>
                  (case rc_parsed context of
                     ParsedControl request \<Rightarrow> Some (sct_command request) \<noteq> control_command
                   | _ \<Rightarrow> True)
               then Diagnose msg_ack_command_mismatch st
               else if cr_status record = Pending
               then remember_early_ack env device_id payload command_type command_id business_status now st
               else if cr_status record \<noteq> Dispatched \<and> cr_status record \<noteq> InProgress then st
               else apply_ack env context record business_status raw command_type now st))"

subsection \<open>Results of database operations\<close>

definition HandleTransitionConflict :: "service_env \<Rightarrow> Operation \<Rightarrow> CommandService \<Rightarrow> CommandService" where
  "HandleTransitionConflict env operation st =
     (case rc_record (op_context operation) of
        None \<Rightarrow> st
      | Some record \<Rightarrow>
          let (accepted, st1) = Submit env OpFindByIdForConvergence (op_context operation)
                (FindCommandByIdTask (cr_command_id record)) st
          in if accepted then st1
             else Diagnose msg_converge_unavailable (st1\<lparr>sv_database_available := False\<rparr>))"

definition ConvergeAfterConflict ::
    "service_env \<Rightarrow> Operation \<Rightarrow> CommandRecord \<Rightarrow> int \<Rightarrow> CommandService \<Rightarrow> CommandService" where
  "ConvergeAfterConflict env operation current now st =
     (case rc_record (op_context operation) of
        None \<Rightarrow> st
      | Some desired \<Rightarrow>
          let context = (op_context operation)\<lparr>rc_record := Some current, rc_target := TargetFor current st\<rparr>;
              was_active = (fmlookup (sv_active_commands st) (cr_command_id current) \<noteq> None)
          in if IsTerminal (cr_status current) then
               let st1 = retire env context (cr_command_id current) now st
               in if was_active then PublishAck env context now st1 else st1
             else if cr_status current = cr_status desired
             then activate (cr_command_id current) context st
             else if CanTransition (cr_status current) (cr_status desired)
             then SubmitTransitionOrDefer env (context\<lparr>rc_record := Some desired\<rparr>)
                    \<lparr>tct_command_id = cr_command_id current, tct_expected = cr_status current,
                     tct_desired = cr_status desired,
                     tct_update = \<lparr>cu_error_code = cr_error_code desired, cu_error_message = cr_error_message desired,
                       cu_device_ack = cr_device_ack desired, cu_dispatched_at = cr_dispatched_at desired,
                       cu_completed_at = cr_completed_at desired, cu_updated_at = cr_updated_at desired\<rparr>\<rparr> st
             else activate (cr_command_id current) context st)"

text \<open>
  The record of a new command: failed at once when the request was rejected, the target does not
  resolve or is offline, pending otherwise. A request without identifier or payload never gets here.
\<close>

definition fail_record :: "ProtocolError \<Rightarrow> int \<Rightarrow> CommandRecord \<Rightarrow> CommandRecord" where
  "fail_record error at record =
     record\<lparr>cr_status := Failed, cr_error_code := Some (pe_code error), cr_error_message := Some (pe_message error),
            cr_completed_at := Some at\<rparr>"

definition resolve_request :: "RequestContext \<Rightarrow> CommandService \<Rightarrow> ProtocolError + ResolvedTarget" where
  "resolve_request context st =
     (case (rc_source context, rc_parsed context) of
        (Some source, ParsedConfig request) \<Rightarrow> ResolveConfigTarget source request (sv_devices st)
      | (Some source, ParsedControl request) \<Rightarrow> ResolveControlTarget source request (sv_devices st)
      | _ \<Rightarrow> Inl (mk_error ''invalid_request'' msg_request_type))"

definition new_command :: "service_env \<Rightarrow> RequestContext \<Rightarrow> CommandService \<Rightarrow> RequestContext" where
  "new_command env context st =
     (let record =
        \<lparr>cr_command_id = GenerateUuidV4 (env_draws env (length (sv_effects st))),
         cr_command_type = rc_command_type context, cr_source_id = rc_source_id context,
         cr_request_id = (case RequestId (rc_parsed context) of Some i \<Rightarrow> i | None \<Rightarrow> []),
         cr_target_device_id = None,
         cr_request_payload = (case ComparisonPayload (rc_parsed context) of Some j \<Rightarrow> j | None \<Rightarrow> JNull),
         cr_status = Pending, cr_error_code = None, cr_error_message = None, cr_device_ack = None,
         cr_created_at = rc_received_at context, cr_dispatched_at = None,
         cr_updated_at = rc_received_at context, cr_completed_at = None\<rparr>
      in case rc_parsed context of
           Rejected rejected \<Rightarrow>
             context\<lparr>rc_record := Some (fail_record (rej_error rejected) (rc_received_at context) record)\<rparr>
         | _ \<Rightarrow>
             (case resolve_request context st of
                Inl error \<Rightarrow> context\<lparr>rc_record := Some (fail_record error (rc_received_at context) record)\<rparr>
              | Inr target \<Rightarrow>
                  let addressed = record\<lparr>cr_target_device_id := Some (rt_device_id target)\<rparr>;
                      online = (case Find (sv_devices st) (rt_device_id target) of
                                  None \<Rightarrow> False | Some d \<Rightarrow> dr_status d = Online)
                  in context\<lparr>rc_target := Some target,
                             rc_record := Some (if online then addressed
                               else fail_record (mk_error ''target_offline'' msg_target_offline)
                                      (rc_received_at context) addressed)\<rparr>))"

definition on_found ::
    "service_env \<Rightarrow> RequestContext \<Rightarrow> CommandRecord option \<Rightarrow> int \<Rightarrow> CommandService \<Rightarrow> CommandService" where
  "on_found env context existing_value now st =
     (case existing_value of
        Some existing \<Rightarrow>
          if (case ComparisonPayload (rc_parsed context) of
                None \<Rightarrow> True
              | Some comparison \<Rightarrow> CompareRequest (env_lib env) existing comparison = Conflict)
          then Reject_source env (rc_source_id context) (RequestId (rc_parsed context))
                 (mk_error ''idempotency_conflict'' msg_idempotency) now (rc_command_type context) st
          else PublishAck env (context\<lparr>rc_record := Some existing, rc_target := TargetFor existing st\<rparr>) now st
      | None \<Rightarrow>
          let context' = new_command env context st
          in (case rc_record context' of
                None \<Rightarrow> st
              | Some record \<Rightarrow> snd (Submit env OpInsert context' (InsertCommandTask record) st)))"

definition device_ack_persisted :: "CommandRecord \<Rightarrow> string option \<Rightarrow> bool" where
  "device_ack_persisted record business_status =
     (case business_status of
        None \<Rightarrow> False
      | Some s \<Rightarrow>
          (cr_status record = InProgress \<and> s = ''in_progress'') \<or>
          (cr_status record = Failed \<and> s = ''rejected'') \<or>
          (cr_status record = Timeout \<and> s = ''timeout'') \<or>
          (cr_status record = Succeeded \<and> s \<noteq> ''in_progress'' \<and> s \<noteq> ''rejected'' \<and> s \<noteq> ''timeout''))"

text \<open>After a transition was stored, or a command was stored in a terminal status.\<close>

definition on_stored ::
    "service_env \<Rightarrow> OperationKind \<Rightarrow> RequestContext \<Rightarrow> CommandStatus option \<Rightarrow> CommandRecord \<Rightarrow> int \<Rightarrow> CommandService \<Rightarrow> CommandService" where
  "on_stored env kind context requested_status record now st =
     (let dispatched_persisted =
            (kind = OpTransition \<and> requested_status = Some Dispatched \<and> cr_status record = Dispatched);
          business_status = rc_device_ack_business_status context;
          st1 = PublishAck env context now st;
          st2 = (case rc_target context of
                   Some target \<Rightarrow>
                     if dispatched_persisted
                     then Inform (txt_received_from @ rc_source_id context @ txt_of @
                            DescribeCommand (rc_parsed context) @ txt_routed_to @ DescribeTarget target) st1
                     else st1
                 | None \<Rightarrow> st1);
          (st3, context') =
            (case (rc_target context, device_ack_persisted record business_status) of
               (Some target, True) \<Rightarrow>
                 (Inform (txt_received_device @ DescribeTarget target @ txt_answer @ the business_status @
                    txt_forwarded_to @ rc_source_id context) st2,
                  context\<lparr>rc_device_ack_business_status := None\<rparr>)
             | _ \<Rightarrow> (st2, context))
      in if IsTerminal (cr_status record)
         then retire env context' (cr_command_id record) now st3
         else
           let st4 = activate (cr_command_id record) context' st3
           in if cr_status record = Dispatched then
                (case fmlookup (sv_early_device_acks st4) (cr_command_id record) of
                   None \<Rightarrow> st4
                 | Some early \<Rightarrow>
                     HandleDeviceAck env (ea_device_id early) (ea_payload early) (rc_command_type context')
                       (ea_received_at early)
                       (st4\<lparr>sv_early_device_acks := fmdrop (cr_command_id record) (sv_early_device_acks st4)\<rparr>))
              else st4)"

definition on_record ::
    "service_env \<Rightarrow> OperationKind \<Rightarrow> RequestContext \<Rightarrow> CommandRecord \<Rightarrow> int \<Rightarrow> CommandService \<Rightarrow> CommandService" where
  "on_record env kind context record now st =
     (let wanted = rc_record context in
      if kind = OpInsert \<and> wanted \<noteq> None \<and> cr_command_id (the wanted) \<noteq> cr_command_id record then
        (if CompareRequest (env_lib env) record (cr_request_payload (the wanted)) = Conflict
         then Reject_source env (rc_source_id context) (Some (cr_request_id (the wanted)))
                (mk_error ''idempotency_conflict'' msg_idempotency) now (rc_command_type context) st
         else PublishAck env (context\<lparr>rc_record := Some record, rc_target := TargetFor record st\<rparr>) now st)
      else if kind = OpTransition \<and> wanted \<noteq> None \<and> IsTerminal (cr_status (the wanted)) \<and>
              \<not> IsTerminal (cr_status record) \<and> CanTransition (cr_status record) (cr_status (the wanted)) then
        (let desired = the wanted
         in SubmitTransitionOrDefer env context
              \<lparr>tct_command_id = cr_command_id desired, tct_expected = cr_status record,
               tct_desired = cr_status desired,
               tct_update = \<lparr>cu_error_code = cr_error_code desired, cu_error_message = cr_error_message desired,
                 cu_device_ack = cr_device_ack desired, cu_dispatched_at = None,
                 cu_completed_at = cr_completed_at desired, cu_updated_at = cr_updated_at desired\<rparr>\<rparr> st)
      else
        let context' = context\<lparr>rc_record := Some record\<rparr>
        in if kind = OpTransition \<or> IsTerminal (cr_status record)
           then on_stored env kind context' (map_option cr_status wanted) record now st
           else PublishRecord env context' now (activate (cr_command_id record) context' st))"

definition on_database_error ::
    "service_env \<Rightarrow> Operation \<Rightarrow> DatabaseError \<Rightarrow> CommandService \<Rightarrow> CommandService" where
  "on_database_error env operation error st =
     (if op_kind operation = OpTransition \<and> IsStateChangedError error \<and> rc_record (op_context operation) \<noteq> None
      then HandleTransitionConflict env operation st
      else Diagnose (msg_database_failed @ dbe_message error)
             (if dbe_kind error = Unavailable then st\<lparr>sv_database_available := False\<rparr> else st))"

definition HandleDatabaseResult ::
    "service_env \<Rightarrow> CommandDatabaseResult \<Rightarrow> int \<Rightarrow> CommandService \<Rightarrow> CommandService" where
  "HandleDatabaseResult env result now st =
     (case fmlookup (sv_operations st) (cdr_operation_id result) of
        None \<Rightarrow> st
      | Some operation \<Rightarrow>
          let st1 = st\<lparr>sv_operations := fmdrop (cdr_operation_id result) (sv_operations st),
                       sv_outstanding_operations := sv_outstanding_operations st - 1\<rparr>;
              context = op_context operation
          in (case cdr_value result of
                Inl error \<Rightarrow> on_database_error env operation error st1
              | Inr v \<Rightarrow>
                  (case op_kind operation of
                     OpCleanup \<Rightarrow>
                       (case v of RecordCount _ \<Rightarrow> st1 | _ \<Rightarrow> Diagnose msg_cleanup_type st1)
                   | OpFindByIdForConvergence \<Rightarrow>
                       (case v of
                          MaybeRecord None \<Rightarrow> Diagnose msg_record_gone st1
                        | MaybeRecord (Some current) \<Rightarrow> ConvergeAfterConflict env operation current now st1
                        | _ \<Rightarrow> Diagnose msg_find_id_type st1)
                   | OpFind \<Rightarrow>
                       (case v of
                          MaybeRecord existing \<Rightarrow> on_found env context existing now st1
                        | _ \<Rightarrow> Diagnose msg_find_type st1)
                   | kind \<Rightarrow>
                       (case v of
                          OneRecord record \<Rightarrow> on_record env kind context record now st1
                        | _ \<Rightarrow> Diagnose msg_write_type st1))))"

subsection \<open>Publish completions\<close>

definition HandlePublishCompletion ::
    "service_env \<Rightarrow> PublishCompletion \<Rightarrow> int \<Rightarrow> CommandService \<Rightarrow> CommandService" where
  "HandlePublishCompletion env completion now st =
     (case fmlookup (sv_publications st) (pc_token completion) of
        None \<Rightarrow> st
      | Some context \<Rightarrow>
          let st1 = st\<lparr>sv_publications := fmdrop (pc_token completion) (sv_publications st)\<rparr>
          in (case rc_record context of
                None \<Rightarrow> st1
              | Some record \<Rightarrow>
                  let sent = has_value (pc_result completion);
                      control = (rc_command_type context = Control)
                  in if sent \<and> cr_status record = Dispatched then st1
                     else
                       let desired = (if sent then Dispatched else if control then DeliveryUncertain else Failed);
                           error_code = (if control then ''control_delivery_uncertain'' else ''mqtt_publish_failed'');
                           error_message = (if control then msg_control_unconfirmed else msg_config_publish_failed);
                           new_record =
                             (if sent then record\<lparr>cr_status := desired, cr_updated_at := now, cr_dispatched_at := Some now\<rparr>
                              else record\<lparr>cr_status := desired, cr_updated_at := now, cr_error_code := Some error_code,
                                          cr_error_message := Some error_message, cr_completed_at := Some now\<rparr>)
                       in SubmitTransitionOrDefer env (context\<lparr>rc_record := Some new_record\<rparr>)
                            \<lparr>tct_command_id = cr_command_id record, tct_expected = cr_status record,
                             tct_desired = desired,
                             tct_update = \<lparr>cu_error_code = (if sent then None else Some error_code),
                               cu_error_message = (if sent then None else Some error_message),
                               cu_device_ack = None,
                               cu_dispatched_at = (if sent then Some now else None),
                               cu_completed_at = (if sent then None else Some now),
                               cu_updated_at = now\<rparr>\<rparr> st1))"

subsection \<open>Requests\<close>

definition parse_request :: "service_env \<Rightarrow> CommandType \<Rightarrow> string \<Rightarrow> SourceKind \<Rightarrow> ParsedSourceRequest" where
  "parse_request env command_type payload kind =
     (if command_type = Control then ParseSourceControlRequest (env_lib env) payload kind
      else ParseSourceConfigRequest (env_lib env) payload kind)"

definition timeout_of :: "service_env \<Rightarrow> CommandType \<Rightarrow> int" where
  "timeout_of env command_type =
     seconds (if command_type = Control then env_control_timeout env else env_config_timeout env)"

definition source_device_online :: "CommandSource \<Rightarrow> CommandService \<Rightarrow> bool" where
  "source_device_online source st =
     (case cs_device_id source of
        None \<Rightarrow> False
      | Some device_id \<Rightarrow>
          (case Find (sv_devices st) device_id of None \<Rightarrow> False | Some d \<Rightarrow> dr_status d = Online))"

definition rejected_error :: "ParsedSourceRequest \<Rightarrow> ProtocolError" where
  "rejected_error parsed = (case parsed of Rejected r \<Rightarrow> rej_error r | _ \<Rightarrow> mk_error [] [])"

definition inflight :: "CommandService \<Rightarrow> nat" where
  "inflight st = fmsize (sv_active_commands st) + fmsize (sv_operations st) + fmsize (sv_publications st)"

text \<open>The part of the request handler that follows once the source is known.\<close>

definition accept_request ::
    "service_env \<Rightarrow> InboundMessage \<Rightarrow> string \<Rightarrow> CommandSource \<Rightarrow> CommandType \<Rightarrow> int \<Rightarrow> CommandService \<Rightarrow> CommandService" where
  "accept_request env message source_id source command_type now st =
     (let parsed = parse_request env command_type (im_payload message) (cs_kind source);
          reject = (\<lambda>request_id error. Reject_source env source_id request_id error now command_type st)
      in case RequestId parsed of
           None \<Rightarrow> reject None (rejected_error parsed)
         | Some request_id \<Rightarrow>
             if \<not> sv_mqtt_available st
             then reject (Some request_id) (mk_error ''mqtt_unavailable'' msg_mqtt_unavailable)
             else if \<not> sv_database_available st
             then reject (Some request_id) (mk_error ''database_unavailable'' msg_database_unavailable)
             else if inflight st \<ge> env_max_inflight_commands env
             then reject (Some request_id) (mk_error ''server_busy'' msg_server_busy)
             else
               let context = \<lparr>rc_source_id = source_id, rc_source = Some source, rc_parsed = parsed,
                     rc_command_type = command_type, rc_received_at = im_received_at message,
                     rc_deadline = im_received_at message + timeout_of env command_type,
                     rc_target = None, rc_record = None, rc_device_ack_business_status = None\<rparr>;
                   (accepted, st1) = Submit env OpFind context (FindCommandTask source_id request_id) st
               in if accepted then st1
                  else Reject_source env source_id (Some request_id)
                         (mk_error ''database_unavailable'' msg_database_unavailable) now command_type st1)"

definition HandleMessage :: "service_env \<Rightarrow> InboundMessage \<Rightarrow> int \<Rightarrow> CommandService \<Rightarrow> CommandService" where
  "HandleMessage env message now st =
     (let ns = env_topic_namespace env; topic = im_topic message
      in case ParseDeviceConfigAckTopic ns topic of
           Inr device_id \<Rightarrow> HandleDeviceAck env device_id (im_payload message) Config now st
         | Inl _ \<Rightarrow>
             (case ParseDeviceControlAckTopic ns topic of
                Inr device_id \<Rightarrow> HandleDeviceAck env device_id (im_payload message) Control now st
              | Inl _ \<Rightarrow>
                  let (command_type, parsed_topic) =
                        (case ParseSourceRequestTopic ns topic of
                           Inr source_id \<Rightarrow> (Config, Inr source_id)
                         | Inl _ \<Rightarrow> (Control, ParseSourceControlRequestTopic ns topic))
                  in (case parsed_topic of
                        Inl _ \<Rightarrow> st
                      | Inr source_id \<Rightarrow>
                          (case SourceCatalog_Find (sv_sources st) source_id of
                             None \<Rightarrow> Reject_source env source_id None
                                       (mk_error ''source_not_registered'' msg_source_unregistered) now command_type st
                           | Some source \<Rightarrow>
                               if \<not> cs_enabled source
                               then Reject_source env source_id None
                                      (mk_error ''source_disabled'' msg_source_disabled) now command_type st
                               else if cs_kind source = SrcDevice \<and> \<not> source_device_online source st
                               then Reject_source env source_id None
                                      (mk_error ''source_device_offline'' msg_source_device_offline) now command_type st
                               else accept_request env message source_id source command_type now st))))"

subsection \<open>Time-outs, recovery and the main loop\<close>

definition cleanup_context :: "int \<Rightarrow> RequestContext" where
  "cleanup_context now =
     \<lparr>rc_source_id = [], rc_source = None,
      rc_parsed = Rejected \<lparr>rej_request_id = None, rej_comparison_payload = None,
                            rej_error = mk_error ''cleanup'' msg_cleanup\<rparr>,
      rc_command_type = Config, rc_received_at = now, rc_deadline = now, rc_target = None, rc_record = None,
      rc_device_ack_business_status = None\<rparr>"

definition schedule_cleanup :: "service_env \<Rightarrow> int \<Rightarrow> CommandService \<Rightarrow> CommandService" where
  "schedule_cleanup env now st =
     (case sv_next_cleanup_at st of
        None \<Rightarrow> st\<lparr>sv_next_cleanup_at := Some (now + seconds (env_cleanup_interval env))\<rparr>
      | Some at \<Rightarrow>
          if now < at then st
          else
            let cleanup_pending = fBex (fmran (sv_operations st)) (\<lambda>operation. op_kind operation = OpCleanup);
                st1 = (if \<not> cleanup_pending \<and> sv_database_available st
                       then snd (Submit env OpCleanup (cleanup_context now)
                              (CleanupCommandsTask (now - seconds (env_terminal_retention_days env * 86400))
                                 (env_cleanup_batch_size env)) st)
                       else st)
            in st1\<lparr>sv_next_cleanup_at := Some (now + seconds (env_cleanup_interval env))\<rparr>)"

definition time_out_command ::
    "service_env \<Rightarrow> string \<Rightarrow> RequestContext \<Rightarrow> CommandRecord \<Rightarrow> int \<Rightarrow> CommandService \<Rightarrow> CommandService" where
  "time_out_command env command_id context record now st =
     (let control = (rc_command_type context = Control);
          timed_out = record\<lparr>cr_status := Timeout,
            cr_error_code := Some (if control then ''control_timeout'' else ''command_timeout''),
            cr_error_message := Some (if control then msg_control_timeout else msg_config_timeout),
            cr_updated_at := now, cr_completed_at := Some now\<rparr>
      in SubmitTransitionOrDefer env (context\<lparr>rc_record := Some timed_out\<rparr>)
           \<lparr>tct_command_id = command_id, tct_expected = cr_status record, tct_desired = Timeout,
            tct_update = \<lparr>cu_error_code = cr_error_code timed_out, cu_error_message = cr_error_message timed_out,
              cu_device_ack = None, cu_dispatched_at = cr_dispatched_at timed_out,
              cu_completed_at = Some now, cu_updated_at = now\<rparr>\<rparr> st)"

definition recover_command :: "service_env \<Rightarrow> int \<Rightarrow> string \<Rightarrow> CommandService \<Rightarrow> CommandService" where
  "recover_command env now command_id st =
     (case fmlookup (sv_active_commands st) command_id of
        None \<Rightarrow> st
      | Some context \<Rightarrow>
          (case rc_record context of
             None \<Rightarrow> st
           | Some record \<Rightarrow>
               if now \<ge> rc_deadline context then
                 (if command_id |\<in>| sv_recovery_started st then st
                  else time_out_command env command_id context record now
                         (st\<lparr>sv_recovery_started := finsert command_id (sv_recovery_started st)\<rparr>))
               else if rc_command_type context = Control \<or> \<not> sv_mqtt_available st \<or>
                       command_id |\<in>| sv_recovery_started st
               then st
               else
                 (case cr_target_device_id record of
                    None \<Rightarrow> st
                  | Some device_id \<Rightarrow>
                      (case Find (sv_devices st) device_id of
                         None \<Rightarrow> st
                       | Some target \<Rightarrow>
                           if dr_status target \<noteq> Online then st
                           else PublishRecord env context now
                                  (st\<lparr>sv_recovery_started := finsert command_id (sv_recovery_started st)\<rparr>)))))"

definition ProcessTimeoutsAndRecovery :: "service_env \<Rightarrow> int \<Rightarrow> CommandService \<Rightarrow> CommandService" where
  "ProcessTimeoutsAndRecovery env now st =
     (let st1 = schedule_cleanup env now st;
          ids = keys_in_order env st1 (sv_active_commands st1)
      in fold (recover_command env now) ids st1)"

definition CommandService_TryPush :: "service_env \<Rightarrow> InboundMessage \<Rightarrow> CommandService \<Rightarrow> bool \<times> CommandService" where
  "CommandService_TryPush env message st =
     (if sv_closed st \<or> length (sv_messages st) \<ge> env_max_inflight_commands env then (False, st)
      else (True, st\<lparr>sv_messages := sv_messages st @ [message]\<rparr>))"

definition PushDatabaseResult :: "CommandDatabaseResult \<Rightarrow> CommandService \<Rightarrow> CommandService" where
  "PushDatabaseResult result st =
     (if sv_closed st then st else st\<lparr>sv_database_results := sv_database_results st @ [result]\<rparr>)"

definition PushPublishCompletion :: "PublishCompletion \<Rightarrow> CommandService \<Rightarrow> CommandService" where
  "PushPublishCompletion completion st =
     (if sv_closed st then st else st\<lparr>sv_publish_completions := sv_publish_completions st @ [completion]\<rparr>)"

text \<open>One round of the loop of \<^verbatim>\<open>ProcessReady\<close>; \<^const>\<open>None\<close> when there is nothing to do.\<close>

definition process_one :: "service_env \<Rightarrow> int \<Rightarrow> CommandService \<Rightarrow> CommandService option" where
  "process_one env now st =
     (case sv_database_results st of
        result # rest \<Rightarrow> Some (HandleDatabaseResult env result now (st\<lparr>sv_database_results := rest\<rparr>))
      | [] \<Rightarrow>
          (case sv_publish_completions st of
             completion # rest \<Rightarrow>
               Some (HandlePublishCompletion env completion now (st\<lparr>sv_publish_completions := rest\<rparr>))
           | [] \<Rightarrow>
               (case sv_messages st of
                  message # rest \<Rightarrow> Some (HandleMessage env message now (st\<lparr>sv_messages := rest\<rparr>))
                | [] \<Rightarrow> None)))"

definition CommandService_Close :: "CommandService \<Rightarrow> CommandService" where
  "CommandService_Close st = st\<lparr>sv_closed := True\<rparr>"

definition CancelOutstandingWork :: "CommandService \<Rightarrow> CommandService" where
  "CancelOutstandingWork st =
     st\<lparr>sv_messages := [], sv_database_results := [], sv_publish_completions := [], sv_operations := fmempty,
        sv_outstanding_operations := 0, sv_publications := fmempty, sv_deferred_transitions := fmempty,
        sv_early_device_acks := fmempty, sv_completed_commands := fmempty\<rparr>"

definition SetDatabaseAvailable :: "bool \<Rightarrow> CommandService \<Rightarrow> CommandService" where
  "SetDatabaseAvailable available st = st\<lparr>sv_database_available := available\<rparr>"

definition SetMqttAvailable :: "bool \<Rightarrow> CommandService \<Rightarrow> CommandService" where
  "SetMqttAvailable available st =
     (let was_available = sv_mqtt_available st;
          st1 = st\<lparr>sv_mqtt_available := available\<rparr>
      in if available \<and> \<not> was_available then st1\<lparr>sv_recovery_started := {||}\<rparr> else st1)"

definition load_active :: "service_env \<Rightarrow> CommandRecord \<Rightarrow> CommandService \<Rightarrow> CommandService" where
  "load_active env record st =
     (case SourceCatalog_Find (sv_sources st) (cr_source_id record) of
        None \<Rightarrow> st
      | Some source \<Rightarrow>
          if IsTerminal (cr_status record) then st
          else
            let parsed = parse_request env (cr_command_type record)
                           (jdump (env_lib env) (cr_request_payload record)) (cs_kind source);
                base = (if cr_status record = InProgress then cr_updated_at record else cr_created_at record)
            in activate (cr_command_id record)
                 \<lparr>rc_source_id = cr_source_id record, rc_source = Some source, rc_parsed = parsed,
                  rc_command_type = cr_command_type record, rc_received_at = cr_created_at record,
                  rc_deadline = base + timeout_of env (cr_command_type record), rc_target = TargetFor record st,
                  rc_record = Some record, rc_device_ack_business_status = None\<rparr> st)"

definition LoadActive :: "service_env \<Rightarrow> CommandRecord list \<Rightarrow> CommandService \<Rightarrow> CommandService" where
  "LoadActive env commands st =
     (if length commands > env_max_inflight_commands env then Diagnose msg_active_limit st
      else fold (load_active env) commands st)"

definition OnTargetOnline :: "service_env \<Rightarrow> string \<Rightarrow> int \<Rightarrow> CommandService \<Rightarrow> CommandService" where
  "OnTargetOnline env device_id now st =
     ProcessTimeoutsAndRecovery env now
       (st\<lparr>sv_recovery_started :=
             ffilter (\<lambda>command_id.
               case fmlookup (sv_active_commands st) command_id of
                 None \<Rightarrow> True
               | Some context \<Rightarrow>
                   (case rc_record context of
                      None \<Rightarrow> True
                    | Some record \<Rightarrow> cr_target_device_id record \<noteq> Some device_id))
             (sv_recovery_started st)\<rparr>)"

text \<open>What \<^verbatim>\<open>WaitForDatabaseIdle\<close> waits for.\<close>

definition database_idle :: "CommandService \<Rightarrow> bool" where
  "database_idle st \<longleftrightarrow> sv_outstanding_operations st = 0"

definition ActiveCommandCount :: "CommandService \<Rightarrow> nat" where
  "ActiveCommandCount st = fmsize (sv_active_commands st)"

end
