(* ===== verification/Command_Service_Run.thy ===== *)
theory Command_Service_Run
  imports Command_Service
begin

text \<open>
  The main loop of the command service and its behaviour over time: what no handler touches, that the
  loop of \<^verbatim>\<open>ProcessReady\<close> ends with empty queues, and the invariant of every state the
  handlers can reach in any interleaving with the threads that feed the service.
\<close>

subsection \<open>What every handler keeps\<close>

text \<open>
  The contract of the primitives the handlers are made of: reporting an effect, submitting a task and changing
  the bookkeeping maps keep \<^term>\<open>inv\<close>. Then every handler keeps it, except that the handler of a database
  result first takes the operation back. The laws are those of a predicate on the queues, the operations and their
  counter.
\<close>

locale task_contract =
  fixes inv :: "CommandService \<Rightarrow> bool" and env :: service_env
  assumes emit: "inv st \<Longrightarrow> (\<And>i t b. e \<noteq> SubmitTask i t b) \<Longrightarrow> inv (emit e st)"
    and submit: "inv st \<Longrightarrow> inv (snd (Submit env kind ctx task st))"
    and publications: "inv st \<Longrightarrow> inv (st\<lparr>sv_publications := c\<rparr>)"
    and active: "inv st \<Longrightarrow> inv (st\<lparr>sv_active_commands := d\<rparr>)"
    and completed: "inv st \<Longrightarrow> inv (st\<lparr>sv_completed_commands := e'\<rparr>)"
    and recovery: "inv st \<Longrightarrow> inv (st\<lparr>sv_recovery_started := f\<rparr>)"
    and deferred: "inv st \<Longrightarrow> inv (st\<lparr>sv_deferred_transitions := g\<rparr>)"
    and early: "inv st \<Longrightarrow> inv (st\<lparr>sv_early_device_acks := h\<rparr>)"
    and next_cleanup: "inv st \<Longrightarrow> inv (st\<lparr>sv_next_cleanup_at := i\<rparr>)"
    and available: "inv st \<Longrightarrow> inv (st\<lparr>sv_database_available := j\<rparr>)"
    and token: "inv st \<Longrightarrow> inv (st\<lparr>sv_next_publish_token := l\<rparr>)"
begin

lemmas primitives [simp] = emit submit publications active completed recovery deferred early
  next_cleanup available token

lemma report [simp]: "inv st \<Longrightarrow> inv (Diagnose m st)" "inv st \<Longrightarrow> inv (Inform m st)"
  by (simp_all add: Diagnose_def Inform_def)

lemma SubmitTransitionOrDefer [simp]: "inv st \<Longrightarrow> inv (SubmitTransitionOrDefer env ctx t st)"
  by (simp add: SubmitTransitionOrDefer_def case_prod_beta Let_def)

lemma RetryDeferredTransitions: "inv st \<Longrightarrow> inv (RetryDeferredTransitions env st)"
  by (simp add: RetryDeferredTransitions_def case_prod_beta Let_def split: list.split option.split)

lemma acks [simp]:
  "inv st \<Longrightarrow> inv (Reject_source env s i er now ct st)" "inv st \<Longrightarrow> inv (PublishAck env ctx now st)"
  by (simp_all add: Reject_source_def PublishAck_def Let_def split: option.split sum.split)

lemma completions [simp]:
  "inv st \<Longrightarrow> inv (RememberCompletedCommand env ctx now st)" "inv st \<Longrightarrow> inv (retire env ctx i now st)"
  "inv st \<Longrightarrow> inv (activate i ctx st)"
  by (simp_all add: RememberCompletedCommand_def retire_def activate_def Let_def split: option.split)

lemma PublishRecord [simp]: "inv st \<Longrightarrow> inv (PublishRecord env ctx now st)"
  by (simp add: PublishRecord_def Let_def split: option.split sum.split)

lemma ack_handlers [simp]:
  "inv st \<Longrightarrow> inv (unrelated_ack d ct i b st)"
  "inv st \<Longrightarrow> inv (remember_early_ack env d p ct i b now st)"
  "inv st \<Longrightarrow> inv (apply_ack env ctx r b raw ct now st)"
  by (simp_all add: unrelated_ack_def TryHandleLateDeviceAck_def remember_early_ack_def apply_ack_def Let_def
      split: option.split)

lemma HandleDeviceAck [simp]: "inv st \<Longrightarrow> inv (HandleDeviceAck env d p ct now st)"
  by (simp add: HandleDeviceAck_def split: sum.split option.split prod.split)

lemma conflicts [simp]:
  "inv st \<Longrightarrow> inv (HandleTransitionConflict env op st)"
  "inv st \<Longrightarrow> inv (ConvergeAfterConflict env op cur now st)"
  by (simp_all add: HandleTransitionConflict_def ConvergeAfterConflict_def case_prod_beta Let_def split: option.split)

lemma results [simp]:
  "inv st \<Longrightarrow> inv (on_found env ctx ex now st)"
  "inv st \<Longrightarrow> inv (on_stored env kind ctx rs r now st)"
  "inv st \<Longrightarrow> inv (on_database_error env op er st)"
  by (auto simp: on_found_def on_stored_def on_database_error_def Let_def split: option.split bool.split)

lemma on_record [simp]: "inv st \<Longrightarrow> inv (on_record env kind ctx r now st)"
  by (simp add: on_record_def Let_def)

lemma HandleDatabaseResult_taken:
  assumes "inv st"
    and "inv (st\<lparr>sv_operations := fmdrop (cdr_operation_id result) (sv_operations st),
      sv_outstanding_operations := sv_outstanding_operations st - 1\<rparr>)"
  shows "inv (HandleDatabaseResult env result now st)"
  using assms by (simp add: HandleDatabaseResult_def Let_def
      split: option.split sum.split OperationKind.split CommandDatabaseValue.split)

lemma HandlePublishCompletion: "inv st \<Longrightarrow> inv (HandlePublishCompletion env c now st)"
  by (simp add: HandlePublishCompletion_def Let_def split: option.split)

lemma accept_request [simp]: "inv st \<Longrightarrow> inv (accept_request env m s src ct now st)"
  by (simp add: accept_request_def case_prod_beta Let_def split: option.split)

lemma HandleMessage: "inv st \<Longrightarrow> inv (HandleMessage env m now st)"
  by (simp add: HandleMessage_def case_prod_beta Let_def split: option.split sum.split)

lemma recovery_steps [simp]:
  "inv st \<Longrightarrow> inv (schedule_cleanup env now st)" "inv st \<Longrightarrow> inv (time_out_command env i ctx r now st)"
  "inv st \<Longrightarrow> inv (recover_command env now i st)"
  by (simp_all add: schedule_cleanup_def time_out_command_def recover_command_def Let_def split: option.split)

lemma ProcessTimeoutsAndRecovery: "inv st \<Longrightarrow> inv (ProcessTimeoutsAndRecovery env now st)"
proof -
  have "inv (fold (recover_command env now) ids st)" if "inv st" for ids st
    using that by (induction ids arbitrary: st) simp_all
  then show "inv st \<Longrightarrow> ?thesis" by (simp add: ProcessTimeoutsAndRecovery_def Let_def)
qed

lemma OnTargetOnline: "inv st \<Longrightarrow> inv (OnTargetOnline env device_id now st)"
  by (simp add: OnTargetOnline_def ProcessTimeoutsAndRecovery)

lemma LoadActive: "inv st \<Longrightarrow> inv (LoadActive env rs st)"
proof -
  have "inv (fold (load_active env) rs st)" if "inv st" for st
    using that by (induction rs arbitrary: st) (simp_all add: load_active_def Let_def split: option.split)
  then show "inv st \<Longrightarrow> ?thesis" by (simp add: LoadActive_def)
qed

end

text \<open>Where taking an operation back keeps the invariant too, so does every handler.\<close>

locale handler_contract = task_contract +
  assumes take_operation: "inv st \<Longrightarrow> fmlookup (sv_operations st) k = Some operation \<Longrightarrow>
      inv (st\<lparr>sv_operations := fmdrop k (sv_operations st), sv_outstanding_operations := sv_outstanding_operations st - 1\<rparr>)"
begin

lemma HandleDatabaseResult: "inv st \<Longrightarrow> inv (HandleDatabaseResult env result now st)"
  using HandleDatabaseResult_taken [OF _ take_operation]
  by (cases "fmlookup (sv_operations st) (cdr_operation_id result)") (simp_all add: HandleDatabaseResult_def)

end

text \<open>The handlers run to completion before the queues are looked at again: none of them touches a queue.\<close>

definition queues :: "CommandService \<Rightarrow> CommandDatabaseResult list \<times> PublishCompletion list \<times> InboundMessage list" where
  "queues st = (sv_database_results st, sv_publish_completions st, sv_messages st)"

lemma queues_fields:
  "queues (emit ef st) = queues st" "queues (st\<lparr>sv_operations := a\<rparr>) = queues st"
  "queues (st\<lparr>sv_outstanding_operations := b\<rparr>) = queues st" "queues (st\<lparr>sv_publications := c\<rparr>) = queues st"
  "queues (st\<lparr>sv_active_commands := d\<rparr>) = queues st" "queues (st\<lparr>sv_completed_commands := e\<rparr>) = queues st"
  "queues (st\<lparr>sv_recovery_started := f\<rparr>) = queues st" "queues (st\<lparr>sv_deferred_transitions := g\<rparr>) = queues st"
  "queues (st\<lparr>sv_early_device_acks := h\<rparr>) = queues st" "queues (st\<lparr>sv_next_cleanup_at := i\<rparr>) = queues st"
  "queues (st\<lparr>sv_database_available := j\<rparr>) = queues st" "queues (st\<lparr>sv_next_operation_id := k\<rparr>) = queues st"
  "queues (st\<lparr>sv_next_publish_token := l\<rparr>) = queues st"
  by (simp_all add: queues_def emit_def)

interpretation keep_queues: handler_contract "\<lambda>st. queues st = q" env for q env
  by unfold_locales (simp_all add: queues_fields Submit_def Let_def)

subsection \<open>The main loop\<close>

definition queued :: "CommandService \<Rightarrow> nat" where
  "queued st = length (sv_database_results st) + length (sv_publish_completions st) + length (sv_messages st)"

lemma queued_queues: "queued st = (case queues st of (a, b, c) \<Rightarrow> length a + length b + length c)"
  by (simp add: queued_def queues_def)

lemma process_one_queued: "process_one env now st = Some st' \<Longrightarrow> queued st' < queued st"
  by (auto simp: process_one_def queued_queues keep_queues.HandleDatabaseResult [OF refl]
      keep_queues.HandlePublishCompletion [OF refl] keep_queues.HandleMessage [OF refl] split: list.splits)
    (simp_all add: queues_def)

function ProcessReady_loop :: "service_env \<Rightarrow> int \<Rightarrow> CommandService \<Rightarrow> CommandService" where
  "ProcessReady_loop env now st =
     (case process_one env now st of
        None \<Rightarrow> st
      | Some st' \<Rightarrow> ProcessReady_loop env now st')"
  by pat_completeness auto
termination
  by (relation "measure (\<lambda>(env, now, st). queued st)") (auto simp: process_one_queued)

declare ProcessReady_loop.simps [simp del]

definition ProcessReady :: "service_env \<Rightarrow> int \<Rightarrow> CommandService \<Rightarrow> CommandService" where
  "ProcessReady env now st =
     ProcessTimeoutsAndRecovery env now (RetryDeferredTransitions env (ProcessReady_loop env now st))"

lemma process_one_None: "process_one env now st = None \<longleftrightarrow> queues st = ([], [], [])"
  by (auto simp: process_one_def queues_def split: list.splits)

lemma ProcessReady_loop_queues: "queues (ProcessReady_loop env now st) = ([], [], [])"
proof (induction env now st rule: ProcessReady_loop.induct)
  case (1 env now st)
  then show ?case
    by (subst ProcessReady_loop.simps) (simp add: process_one_None split: option.split)
qed

lemma ProcessReady_queues: "queues (ProcessReady env now st) = ([], [], [])"
  unfolding ProcessReady_def
  by (intro keep_queues.ProcessTimeoutsAndRecovery keep_queues.RetryDeferredTransitions ProcessReady_loop_queues)

subsection \<open>The states the service can reach\<close>

text \<open>
  What the service relies on of the database: it reports a command as in progress only if it is a
  control command, and never as the answer to having just inserted it.
\<close>

definition honest_for :: "Operation \<Rightarrow> CommandRecord \<Rightarrow> bool" where
  "honest_for operation r \<longleftrightarrow>
     (cr_status r = InProgress \<longrightarrow> rc_command_type (op_context operation) = Control \<and> op_kind operation \<noteq> OpInsert)"

definition honest :: "CommandDatabaseResult \<Rightarrow> CommandService \<Rightarrow> bool" where
  "honest result st \<longleftrightarrow>
     (\<forall>operation r. fmlookup (sv_operations st) (cdr_operation_id result) = Some operation \<longrightarrow>
        cdr_value result \<in> {Inr (OneRecord r), Inr (MaybeRecord (Some r))} \<longrightarrow> honest_for operation r)"

definition honest_load :: "CommandRecord list \<Rightarrow> bool" where
  "honest_load rs \<longleftrightarrow> (\<forall>r \<in> set rs. cr_status r = InProgress \<longrightarrow> cr_command_type r = Control)"

text \<open>
  The steps of the service: the handlers, at any time and with any input, and everything other threads
  may change between them.
\<close>

inductive service_step :: "service_env \<Rightarrow> CommandService \<Rightarrow> CommandService \<Rightarrow> bool" for env where
  database_result: "honest result st \<Longrightarrow> service_step env st (HandleDatabaseResult env result now st)"
| publish_completion: "service_step env st (HandlePublishCompletion env completion now st)"
| message: "service_step env st (HandleMessage env msg now st)"
| retry: "service_step env st (RetryDeferredTransitions env st)"
| timeouts: "service_step env st (ProcessTimeoutsAndRecovery env now st)"
| target_online: "service_step env st (OnTargetOnline env device_id now st)"
| load: "honest_load commands \<Longrightarrow> service_step env st (LoadActive env commands st)"
| cancel: "service_step env st (CancelOutstandingWork st)"
| mqtt: "service_step env st (SetMqttAvailable available st)"
| database: "service_step env st (SetDatabaseAvailable available st)"
| close: "service_step env st (CommandService_Close st)"
| queues: "service_step env st (st\<lparr>sv_messages := ms, sv_database_results := rs, sv_publish_completions := cs\<rparr>)"
| directories: "service_step env st (st\<lparr>sv_sources := sources, sv_devices := devices\<rparr>)"

inductive service_reachable :: "service_env \<Rightarrow> CommandService \<Rightarrow> bool" for env where
  start: "service_reachable env (CommandService_new sources devices)"
| step: "service_reachable env st \<Longrightarrow> service_step env st st' \<Longrightarrow> service_reachable env st'"

subsection \<open>The invariant\<close>

definition ctx_status :: "RequestContext \<Rightarrow> CommandStatus option" where
  "ctx_status ctx = map_option cr_status (rc_record ctx)"

definition active_ok :: "(string, RequestContext) fmap \<Rightarrow> bool" where
  "active_ok m \<longleftrightarrow> (\<forall>k ctx. fmlookup m k = Some ctx \<longrightarrow>
     (\<exists>s. ctx_status ctx = Some s \<and> \<not> IsTerminal s \<and> (s = InProgress \<longrightarrow> rc_command_type ctx = Control)))"

definition published_ok :: "(64 word, RequestContext) fmap \<Rightarrow> bool" where
  "published_ok m \<longleftrightarrow> (\<forall>k ctx. fmlookup m k = Some ctx \<longrightarrow> ctx_status ctx \<in> {Some Pending, Some Dispatched})"

definition legal :: "TransitionCommandTask \<Rightarrow> bool" where
  "legal t \<longleftrightarrow> CanTransition (tct_expected t) (tct_desired t)"

definition deferred_ok :: "(string, DeferredTransition) fmap \<Rightarrow> bool" where
  "deferred_ok m \<longleftrightarrow> (\<forall>k d. fmlookup m k = Some d \<longrightarrow> legal (dt_task d))"

fun effect_ok :: "effect \<Rightarrow> bool" where
  "effect_ok (SubmitTask i (TransitionTask t) b) = legal t"
| "effect_ok _ = True"

definition effects_ok :: "effect list \<Rightarrow> bool" where
  "effects_ok es = list_all effect_ok es"

definition service_ok :: "CommandService \<Rightarrow> bool" where
  "service_ok st \<longleftrightarrow>
     active_ok (sv_active_commands st) \<and> published_ok (sv_publications st) \<and>
     deferred_ok (sv_deferred_transitions st) \<and> effects_ok (sv_effects st)"

lemma service_ok_fields [simp]:
  "service_ok (st\<lparr>sv_operations := a\<rparr>) = service_ok st"
  "service_ok (st\<lparr>sv_outstanding_operations := b\<rparr>) = service_ok st"
  "service_ok (st\<lparr>sv_completed_commands := e\<rparr>) = service_ok st"
  "service_ok (st\<lparr>sv_recovery_started := f\<rparr>) = service_ok st"
  "service_ok (st\<lparr>sv_early_device_acks := h\<rparr>) = service_ok st"
  "service_ok (st\<lparr>sv_next_cleanup_at := i\<rparr>) = service_ok st"
  "service_ok (st\<lparr>sv_database_available := j\<rparr>) = service_ok st"
  "service_ok (st\<lparr>sv_mqtt_available := j\<rparr>) = service_ok st"
  "service_ok (st\<lparr>sv_closed := j\<rparr>) = service_ok st"
  "service_ok (st\<lparr>sv_next_operation_id := k\<rparr>) = service_ok st"
  "service_ok (st\<lparr>sv_next_publish_token := l\<rparr>) = service_ok st"
  "service_ok (st\<lparr>sv_messages := ms\<rparr>) = service_ok st"
  "service_ok (st\<lparr>sv_database_results := rs\<rparr>) = service_ok st"
  "service_ok (st\<lparr>sv_publish_completions := cs\<rparr>) = service_ok st"
  "service_ok (st\<lparr>sv_sources := sr\<rparr>) = service_ok st"
  "service_ok (st\<lparr>sv_devices := dv\<rparr>) = service_ok st"
  by (simp_all add: service_ok_def)

lemma maps_ok [simp]:
  "deferred_ok dm \<Longrightarrow> deferred_ok (fmdrop k dm)"
  "deferred_ok dm \<Longrightarrow> legal (dt_task d) \<Longrightarrow> deferred_ok (fmupd k d dm)"
  "published_ok pm \<Longrightarrow> published_ok (fmdrop tk pm)"
  "published_ok pm \<Longrightarrow> ctx_status ctx \<in> {Some Pending, Some Dispatched} \<Longrightarrow> published_ok (emplace tk ctx pm)"
  "active_ok am \<Longrightarrow> active_ok (fmdrop k am)"
  "effects_ok (es @ es') \<longleftrightarrow> effects_ok es \<and> list_all effect_ok es'"
  by (auto simp: deferred_ok_def published_ok_def active_ok_def emplace_def effects_ok_def split: if_splits)

lemma maps_empty_ok [simp]:
  "active_ok fmempty" "published_ok fmempty" "deferred_ok fmempty" "effects_ok []"
  by (simp_all add: active_ok_def published_ok_def deferred_ok_def effects_ok_def)

lemma service_ok_report [simp]:
  "service_ok (Diagnose m st) = service_ok st" "service_ok (Inform m st) = service_ok st"
  by (simp_all add: Diagnose_def Inform_def service_ok_def emit_def)

lemma service_ok_maps:
  "service_ok st \<Longrightarrow> service_ok (st\<lparr>sv_deferred_transitions := fmdrop k (sv_deferred_transitions st)\<rparr>)"
  "service_ok st \<Longrightarrow> legal (dt_task d) \<Longrightarrow>
     service_ok (st\<lparr>sv_deferred_transitions := fmupd k d (sv_deferred_transitions st)\<rparr>)"
  "service_ok st \<Longrightarrow> legal (dt_task d) \<Longrightarrow>
     service_ok (st\<lparr>sv_database_available := b, sv_deferred_transitions := fmupd k d (sv_deferred_transitions st)\<rparr>)"
  "service_ok st \<Longrightarrow> service_ok (st\<lparr>sv_publications := fmdrop tk (sv_publications st)\<rparr>)"
  by (simp_all add: service_ok_def)

lemma Submit_ok:
  "service_ok st \<Longrightarrow> (\<And>t. task = TransitionTask t \<Longrightarrow> legal t) \<Longrightarrow> service_ok (snd (Submit env kind ctx task st))"
  by (cases task) (auto simp: Submit_def Let_def service_ok_def emit_def)

lemma SubmitTransitionOrDefer_ok:
  assumes "service_ok st" "legal t"
  shows "service_ok (SubmitTransitionOrDefer env ctx t st)"
proof -
  have "service_ok (snd (Submit env OpTransition ctx (TransitionTask t) st))"
    using assms by (auto intro: Submit_ok)
  then show ?thesis
    using assms(2) by (simp add: SubmitTransitionOrDefer_def case_prod_beta Let_def service_ok_def)
qed

lemma acks_ok [simp]:
  "service_ok (Reject_source env s i e now ct st) = service_ok st" "service_ok (PublishAck env ctx now st) = service_ok st"
  by (simp_all add: Reject_source_def PublishAck_def Let_def service_ok_def emit_def Diagnose_def
      split: option.split sum.split)

lemma RememberCompletedCommand_ok [simp]: "service_ok (RememberCompletedCommand env ctx now st) = service_ok st"
  by (simp add: RememberCompletedCommand_def Let_def split: option.split)

lemma retire_ok: "service_ok st \<Longrightarrow> service_ok (retire env ctx i now st)"
  using RememberCompletedCommand_ok [of env ctx now st] by (simp add: retire_def Let_def service_ok_def)

definition ctx_ok :: "RequestContext \<Rightarrow> bool" where
  "ctx_ok ctx \<longleftrightarrow> (\<exists>s. ctx_status ctx = Some s \<and> \<not> IsTerminal s \<and> (s = InProgress \<longrightarrow> rc_command_type ctx = Control))"

lemma activate_ok: "service_ok st \<Longrightarrow> ctx_ok ctx \<Longrightarrow> service_ok (activate i ctx st)"
  by (auto simp: activate_def service_ok_def active_ok_def ctx_ok_def)

lemma active_ctx_ok: "service_ok st \<Longrightarrow> fmlookup (sv_active_commands st) i = Some ctx \<Longrightarrow> ctx_ok ctx"
  by (auto simp: service_ok_def active_ok_def ctx_ok_def)

lemma RetryDeferredTransitions_ok:
  assumes "service_ok st"
  shows "service_ok (RetryDeferredTransitions env st)"
proof -
  have "service_ok (snd (Submit env OpTransition (dt_context d) (TransitionTask (dt_task d))
      (st\<lparr>sv_deferred_transitions := fmdrop k (sv_deferred_transitions st)\<rparr>))) \<and> legal (dt_task d)"
    if "fmlookup (sv_deferred_transitions st) k = Some d" for k d
  proof -
    have "legal (dt_task d)" using assms that by (auto simp: service_ok_def deferred_ok_def)
    with assms show ?thesis by (auto intro!: Submit_ok service_ok_maps)
  qed
  then show ?thesis
    using assms
    by (auto simp: RetryDeferredTransitions_def case_prod_beta Let_def split: list.split option.split
        intro!: service_ok_maps)
qed

lemma legal_simps:
  "legal \<lparr>tct_command_id = i, tct_expected = s, tct_desired = d, tct_update = u\<rparr> = CanTransition s d"
  by (simp add: legal_def)

lemma CanTransition_fail:
  "\<not> IsTerminal s \<Longrightarrow> d \<in> {Failed, Timeout, DeliveryUncertain} \<Longrightarrow> CanTransition s d"
  by (cases s) (auto simp: IsTerminal_def CanTransition_def)

lemma PublishRecord_ok:
  assumes "service_ok st" "ctx_status ctx \<in> {Some Pending, Some Dispatched}"
  shows "service_ok (PublishRecord env ctx now st)"
proof -
  have published: "service_ok (emit (DevicePublish tk tp bd) (st\<lparr>sv_recovery_started := f, sv_next_publish_token := n,
      sv_publications := emplace tk ctx (sv_publications st)\<rparr>))" for tk tp bd f n
    using assms by (simp add: service_ok_def emit_def)
  have "CanTransition (cr_status r) Failed" if "rc_record ctx = Some r" for r
    using assms(2) that by (auto simp: ctx_status_def IsTerminal_def intro!: CanTransition_fail)
  then show ?thesis
    using assms
    by (auto simp: PublishRecord_def Let_def legal_simps published
        intro!: SubmitTransitionOrDefer_ok service_ok_maps split: option.split sum.split)
qed

lemma ctx_ok_update [simp]:
  "ctx_ok (ctx\<lparr>rc_target := tg\<rparr>) = ctx_ok ctx"
  "ctx_ok (ctx\<lparr>rc_device_ack_business_status := bs\<rparr>) = ctx_ok ctx"
  "ctx_ok (ctx\<lparr>rc_record := Some r\<rparr>) \<longleftrightarrow>
     \<not> IsTerminal (cr_status r) \<and> (cr_status r = InProgress \<longrightarrow> rc_command_type ctx = Control)"
  by (simp_all add: ctx_ok_def ctx_status_def)

lemma unrelated_ack_ok [simp]: "service_ok (unrelated_ack d ct i b st) = service_ok st"
  by (simp add: unrelated_ack_def TryHandleLateDeviceAck_def split: option.split)

lemma remember_early_ack_ok [simp]: "service_ok (remember_early_ack env d p ct i b now st) = service_ok st"
  by (simp add: remember_early_ack_def Let_def split: option.split)

lemma CanTransition_acked: "s \<in> {Dispatched, InProgress} \<Longrightarrow> CanTransition s (acked_status b)"
proof -
  have "acked_status b \<in> {InProgress, Succeeded, Failed, Timeout}" by (simp add: acked_status_def)
  then show "s \<in> {Dispatched, InProgress} \<Longrightarrow> ?thesis" by (auto simp: CanTransition_def)
qed

lemma apply_ack_ok:
  "service_ok st \<Longrightarrow> cr_status r \<in> {Dispatched, InProgress} \<Longrightarrow> service_ok (apply_ack env ctx r b raw ct now st)"
  unfolding apply_ack_def Let_def by (rule SubmitTransitionOrDefer_ok) (simp_all add: legal_simps CanTransition_acked)

lemma HandleDeviceAck_ok:
  assumes "service_ok st"
  shows "service_ok (HandleDeviceAck env d p ct now st)"
  using assms by (auto simp: HandleDeviceAck_def apply_ack_ok split: sum.split option.split)

lemma HandleTransitionConflict_ok:
  assumes "service_ok st"
  shows "service_ok (HandleTransitionConflict env operation st)"
proof -
  have "service_ok (snd (Submit env OpFindByIdForConvergence ctx (FindCommandByIdTask i) st))" for ctx i
    using assms by (rule Submit_ok) simp
  with assms show ?thesis
    by (simp add: HandleTransitionConflict_def case_prod_beta Let_def split: option.split)
qed

lemma ConvergeAfterConflict_ok:
  assumes "service_ok st" "honest_for operation current"
  shows "service_ok (ConvergeAfterConflict env operation current now st)"
  using assms
  by (auto simp: ConvergeAfterConflict_def Let_def honest_for_def legal_simps split: option.split
      intro!: retire_ok activate_ok SubmitTransitionOrDefer_ok)

lemma on_found_ok:
  assumes "service_ok st"
  shows "service_ok (on_found env ctx existing now st)"
  using assms by (auto simp: on_found_def Let_def split: option.split intro!: Submit_ok)

lemma on_stored_ok:
  assumes "service_ok st" "rc_record ctx = Some r" "cr_status r = InProgress \<longrightarrow> rc_command_type ctx = Control"
  shows "service_ok (on_stored env kind ctx rs r now st)"
proof -
  have "ctx_ok ctx" if "\<not> IsTerminal (cr_status r)"
    using assms that by (simp add: ctx_ok_def ctx_status_def)
  with assms(1) show ?thesis
    by (auto simp: on_stored_def Let_def split: option.split bool.split
        intro!: retire_ok activate_ok HandleDeviceAck_ok)
qed

lemma on_record_ok:
  assumes "service_ok st" "kind \<in> {OpInsert, OpTransition}"
    and "cr_status r = InProgress \<longrightarrow> rc_command_type ctx = Control \<and> kind \<noteq> OpInsert"
  shows "service_ok (on_record env kind ctx r now st)"
proof -
  have "ctx_status (ctx\<lparr>rc_record := Some r\<rparr>) \<in> {Some Pending, Some Dispatched}"
    if "\<not> IsTerminal (cr_status r)" "kind \<noteq> OpTransition"
    using assms(2,3) that by (cases "cr_status r") (auto simp: ctx_status_def IsTerminal_def)
  with assms show ?thesis
    by (auto simp: on_record_def Let_def legal_simps
        intro!: on_stored_ok PublishRecord_ok activate_ok SubmitTransitionOrDefer_ok)
qed

lemma HandleDatabaseResult_ok:
  assumes "service_ok st" "honest result st"
  shows "service_ok (HandleDatabaseResult env result now st)"
proof (cases "fmlookup (sv_operations st) (cdr_operation_id result)")
  case (Some operation)
  let ?st = "st\<lparr>sv_operations := fmdrop (cdr_operation_id result) (sv_operations st),
                 sv_outstanding_operations := sv_outstanding_operations st - 1\<rparr>"
  have ok: "service_ok ?st" using assms(1) by simp
  have "honest_for operation r" if "cdr_value result \<in> {Inr (OneRecord r), Inr (MaybeRecord (Some r))}" for r
    using assms(2) Some that by (auto simp: honest_def)
  then have hon: "cr_status r = InProgress \<longrightarrow> rc_command_type (op_context operation) = Control \<and> op_kind operation \<noteq> OpInsert"
    "honest_for operation r"
    if "cdr_value result \<in> {Inr (OneRecord r), Inr (MaybeRecord (Some r))}" for r
    using that by (auto simp: honest_for_def)
  have "service_ok (on_database_error env operation e ?st)" for e
    using ok by (simp add: on_database_error_def HandleTransitionConflict_ok)
  moreover have "service_ok (on_record env (op_kind operation) (op_context operation) r now ?st)"
    if "cdr_value result = Inr (OneRecord r)" "op_kind operation \<in> {OpInsert, OpTransition}" for r
    using on_record_ok [OF ok that(2)] hon(1) that(1) by simp
  moreover have "service_ok (ConvergeAfterConflict env operation r now ?st)"
    if "cdr_value result = Inr (MaybeRecord (Some r))" for r
    using ConvergeAfterConflict_ok [OF ok] hon(2) that by simp
  ultimately show ?thesis
    using Some ok
    by (cases "op_kind operation") (simp_all add: HandleDatabaseResult_def Let_def on_found_ok
        split: sum.split CommandDatabaseValue.split option.split)
qed (use assms in \<open>simp add: HandleDatabaseResult_def\<close>)

lemma HandlePublishCompletion_ok:
  assumes "service_ok st"
  shows "service_ok (HandlePublishCompletion env completion now st)"
proof -
  have "cr_status r \<in> {Pending, Dispatched}"
    if "fmlookup (sv_publications st) k = Some ctx" "rc_record ctx = Some r" for k ctx r
    using assms that by (fastforce simp: service_ok_def published_ok_def ctx_status_def)
  moreover have "service_ok (st\<lparr>sv_publications := fmdrop k (sv_publications st)\<rparr>)" for k
    using assms by (simp add: service_ok_def)
  ultimately show ?thesis
    using assms by (fastforce simp: HandlePublishCompletion_def Let_def legal_simps CanTransition_def split: option.split
        intro!: SubmitTransitionOrDefer_ok)
qed

lemma accept_request_ok:
  assumes "service_ok st"
  shows "service_ok (accept_request env msg source_id source ct now st)"
proof -
  have "service_ok (snd (Submit env OpFind ctx (FindCommandTask i j) st))" for ctx i j
    using assms by (rule Submit_ok) simp
  with assms show ?thesis by (simp add: accept_request_def case_prod_beta Let_def split: option.split)
qed

lemma HandleMessage_ok: "service_ok st \<Longrightarrow> service_ok (HandleMessage env msg now st)"
  by (simp add: HandleMessage_def case_prod_beta Let_def HandleDeviceAck_ok accept_request_ok
      split: option.split sum.split)

lemma schedule_cleanup_ok: "service_ok st \<Longrightarrow> service_ok (schedule_cleanup env now st)"
  by (auto simp: schedule_cleanup_def Let_def split: option.split intro!: Submit_ok)

lemma recover_command_ok:
  assumes "service_ok st"
  shows "service_ok (recover_command env now i st)"
proof -
  have act: "\<not> IsTerminal (cr_status r) \<and> (cr_status r = InProgress \<longrightarrow> rc_command_type ctx = Control)"
    if "fmlookup (sv_active_commands st) i = Some ctx" "rc_record ctx = Some r" for ctx r
    using active_ctx_ok [OF assms that(1)] that(2) by (auto simp: ctx_ok_def ctx_status_def)
  have "service_ok (time_out_command env i ctx r now st')"
    if "fmlookup (sv_active_commands st) i = Some ctx" "rc_record ctx = Some r" "service_ok st'" for ctx r st'
    unfolding time_out_command_def Let_def
    using that act [OF that(1,2)] by (intro SubmitTransitionOrDefer_ok) (simp_all add: legal_simps CanTransition_fail)
  moreover have "service_ok (PublishRecord env ctx now st')"
    if "fmlookup (sv_active_commands st) i = Some ctx" "rc_record ctx = Some r" "rc_command_type ctx \<noteq> Control"
      "service_ok st'" for ctx r st'
    using act [OF that(1,2)] that
    by (intro PublishRecord_ok; cases "cr_status r") (auto simp: ctx_status_def IsTerminal_def)
  ultimately show ?thesis
    using assms by (auto simp: recover_command_def split: option.split)
qed

lemma ProcessTimeoutsAndRecovery_ok:
  assumes "service_ok st"
  shows "service_ok (ProcessTimeoutsAndRecovery env now st)"
proof -
  have "service_ok (fold (recover_command env now) ids st')" if "service_ok st'" for ids st'
    using that by (induction ids arbitrary: st') (simp_all add: recover_command_ok)
  with assms show ?thesis by (simp add: ProcessTimeoutsAndRecovery_def Let_def schedule_cleanup_ok)
qed

lemma load_active_ok:
  "service_ok st \<Longrightarrow> cr_status r = InProgress \<longrightarrow> cr_command_type r = Control \<Longrightarrow> service_ok (load_active env r st)"
  by (auto simp: load_active_def Let_def ctx_ok_def ctx_status_def split: option.split intro!: activate_ok)

lemma LoadActive_ok:
  assumes "service_ok st" "honest_load rs"
  shows "service_ok (LoadActive env rs st)"
proof -
  have "service_ok (fold (load_active env) rs st)"
    using assms by (induction rs arbitrary: st) (auto simp: honest_load_def load_active_ok)
  with assms(1) show ?thesis by (simp add: LoadActive_def)
qed

lemma service_step_ok: "service_step env st st' \<Longrightarrow> service_ok st \<Longrightarrow> service_ok st'"
proof (induction rule: service_step.induct)
  case (cancel st)
  then show ?case by (simp add: CancelOutstandingWork_def service_ok_def)
next
  case (target_online st device_id now)
  then show ?case by (simp add: OnTargetOnline_def ProcessTimeoutsAndRecovery_ok)
qed (simp_all add: HandleDatabaseResult_ok HandlePublishCompletion_ok HandleMessage_ok RetryDeferredTransitions_ok
    ProcessTimeoutsAndRecovery_ok LoadActive_ok SetMqttAvailable_def SetDatabaseAvailable_def CommandService_Close_def Let_def)

lemma service_reachable_ok: "service_reachable env st \<Longrightarrow> service_ok st"
proof (induction rule: service_reachable.induct)
  case (start sources devices)
  show ?case by (simp add: CommandService_new_def service_ok_def)
qed (rule service_step_ok)

end
