(* ===== verification/Command_Service_Laws.thy ===== *)
theory Command_Service_Laws
  imports Command_Service_Run
begin

text \<open>
  What the command service promises: which transitions it asks the database for, the bookkeeping of its
  operations, its memory of completed commands, and what single handlers do to the outside world.
\<close>

subsection \<open>Bookkeeping of database operations\<close>

fun is_submit :: "effect \<Rightarrow> bool" where
  "is_submit (SubmitTask _ _ _) = True"
| "is_submit _ = False"

definition submits :: "CommandService \<Rightarrow> nat" where
  "submits st = length (filter is_submit (sv_effects st))"

text \<open>
  Operation identifiers are handed out in order from 1. As long as the 64-bit counter has not wrapped,
  every pending operation has an identifier of its own and the counter counts them.
\<close>

definition book_ok :: "CommandService \<Rightarrow> bool" where
  "book_ok st \<longleftrightarrow>
     sv_next_operation_id st = of_nat (Suc (submits st)) \<and>
     (submits st < 2 ^ 64 - 1 \<longrightarrow>
        fmdom' (sv_operations st) \<subseteq> of_nat ` {1..submits st} \<and>
        sv_outstanding_operations st = of_nat (fmsize (sv_operations st)))"

lemma fresh_operation_id:
  assumes "Suc n < 2 ^ 64" "A \<subseteq> of_nat ` {1..n}"
  shows "(of_nat (Suc n) :: 64 word) \<notin> A"
proof
  assume "of_nat (Suc n) \<in> A"
  then have "(of_nat (Suc n) :: 64 word) \<in> of_nat ` {1..n}" using assms(2) by (rule set_mp [rotated])
  then obtain m where "m \<le> n" "(of_nat (Suc n) :: 64 word) = of_nat m" by fastforce
  then have "unat (of_nat (Suc n) :: 64 word) = unat (of_nat m :: 64 word)" by simp
  then show False using assms(1) \<open>m \<le> n\<close> by (simp only: unat_of_nat) simp
qed

lemma book_ok_submit:
  assumes "book_ok st"
  shows "book_ok (snd (Submit env kind ctx task st))"
proof -
  let ?n = "submits st"
  have n: "submits (snd (Submit env kind ctx task st)) = Suc ?n"
    by (simp add: submits_def Submit_def Let_def emit_def)
  have "fmlookup (sv_operations st) (of_nat (Suc ?n)) = None" if "Suc ?n < 2 ^ 64 - 1"
    using assms that fresh_operation_id [of ?n "fmdom' (sv_operations st)"]
    by (simp add: book_ok_def fmdom'_lookup)
  moreover have "insert (of_nat (Suc ?n)) A \<subseteq> of_nat ` {1..Suc ?n}" if "A \<subseteq> (of_nat ` {1..?n} :: 64 word set)" for A
  proof -
    have "{1..Suc ?n} = insert (Suc ?n) {1..?n}" by auto
    then show ?thesis using that by blast
  qed
  ultimately show ?thesis
    using assms unfolding book_ok_def n
    by (auto simp: Submit_def Let_def emit_def emplace_def fmsize_upd)
qed

interpretation keep_book: handler_contract book_ok env for env
proof unfold_locales
  fix st :: CommandService and e :: effect
  assume ok: "book_ok st" and other: "\<And>i t b. e \<noteq> SubmitTask i t b"
  have "\<not> is_submit e" using other by (metis is_submit.elims(2))
  with ok show "book_ok (emit e st)" by (simp add: book_ok_def emit_def submits_def)
next
  fix st :: CommandService and k operation
  assume ok: "book_ok st" and k: "fmlookup (sv_operations st) k = Some operation"
  have "fmsize (sv_operations st) \<noteq> 0" using k by (auto simp: fmsize_0_iff)
  then have "(of_nat (fmsize (sv_operations st) - 1) :: 64 word) = of_nat (fmsize (sv_operations st)) - 1"
    by simp
  with ok k show "book_ok (st\<lparr>sv_operations := fmdrop k (sv_operations st),
      sv_outstanding_operations := sv_outstanding_operations st - 1\<rparr>)"
    by (auto simp: book_ok_def submits_def fmsize_drop)
qed (simp_all add: book_ok_submit, simp_all add: book_ok_def submits_def)

lemma book_ok_step: "service_step env st st' \<Longrightarrow> book_ok st \<Longrightarrow> book_ok st'"
proof (induction rule: service_step.induct)
qed (simp_all add: keep_book.HandleDatabaseResult keep_book.HandlePublishCompletion keep_book.HandleMessage
    keep_book.RetryDeferredTransitions keep_book.ProcessTimeoutsAndRecovery keep_book.OnTargetOnline
    keep_book.LoadActive, simp_all add: book_ok_def submits_def CancelOutstandingWork_def SetMqttAvailable_def
    SetDatabaseAvailable_def CommandService_Close_def Let_def)

lemma book_ok_reachable: "service_reachable env st \<Longrightarrow> book_ok st"
proof (induction rule: service_reachable.induct)
  case (start sources devices)
  show ?case by (simp add: CommandService_new_def book_ok_def submits_def)
qed (rule book_ok_step)

lemma book_ok_count:
  assumes "book_ok st" "submits st < 2 ^ 64 - 1"
  shows "unat (sv_outstanding_operations st) = fmsize (sv_operations st)"
proof -
  let ?n = "submits st" and ?ops = "sv_operations st"
  have dom: "fmdom' ?ops \<subseteq> of_nat ` {1..?n}" and out: "sv_outstanding_operations st = of_nat (fmsize ?ops)"
    using assms unfolding book_ok_def by blast+
  have "fmsize ?ops \<le> card (of_nat ` {1..?n} :: 64 word set)"
    unfolding fmsize_card using dom by (intro card_mono) simp_all
  also have "\<dots> \<le> ?n" using card_image_le [of "{1..?n}" "of_nat :: nat \<Rightarrow> 64 word"] by simp
  finally have "fmsize ?ops < 2 ^ 64" using assms(2) by linarith
  then show ?thesis unfolding out by (simp add: unat_of_nat)
qed

lemma book_ok_idle:
  "book_ok st \<Longrightarrow> submits st < 2 ^ 64 - 1 \<Longrightarrow> database_idle st \<longleftrightarrow> sv_operations st = fmempty"
  using book_ok_count [of st] unfolding database_idle_def fmsize_0_iff [symmetric] by (metis unat_0 unat_eq_zero)

subsection \<open>The memory of completed commands\<close>

definition remembered :: "(string, CompletedCommand) fmap \<Rightarrow> string \<Rightarrow> int" where
  "remembered m k = (case fmlookup m k of Some c \<Rightarrow> cc_remembered_at c | None \<Rightarrow> 0)"

lemma oldest_key_min:
  assumes "set (k # ks) \<subseteq> fmdom' m" "x \<in> set (k # ks)"
  shows "remembered m (oldest_key m k ks) \<le> remembered m x"
  using assms
proof (induction ks arbitrary: k x)
  case (Cons y ks)
  obtain c d where cd: "fmlookup m y = Some c" "fmlookup m k = Some d"
    using Cons.prems(1) by (auto simp: fmdom'_lookup)
  let ?k = "if cc_remembered_at c < cc_remembered_at d then y else k"
  have best: "remembered m ?k \<le> remembered m k" "remembered m ?k \<le> remembered m y"
    using cd by (auto simp: remembered_def)
  have IH: "remembered m (oldest_key m ?k ks) \<le> remembered m z" if "z \<in> set (?k # ks)" for z
    using Cons.IH [OF _ that] Cons.prems(1) by auto
  have "remembered m (oldest_key m ?k ks) \<le> remembered m x"
  proof (cases "x \<in> set ks")
    case True
    then show ?thesis by (intro IH) simp
  next
    case False
    then have "remembered m ?k \<le> remembered m x" using best Cons.prems(2) by auto
    moreover have "remembered m (oldest_key m ?k ks) \<le> remembered m ?k" by (rule IH) simp
    ultimately show ?thesis by linarith
  qed
  then show ?case using cd by simp
qed simp

text \<open>What is left after the eviction: the newest entries, as many as the limit allows.\<close>

definition newest :: "nat \<Rightarrow> (string, CompletedCommand) fmap \<Rightarrow> (string, CompletedCommand) fmap \<Rightarrow> bool" where
  "newest limit m kept \<longleftrightarrow>
     fmsize kept = min limit (fmsize m) \<and>
     (\<forall>k c. fmlookup kept k = Some c \<longrightarrow> fmlookup m k = Some c) \<and>
     (\<forall>k c j d. fmlookup kept k = Some c \<longrightarrow> fmlookup m j = Some d \<longrightarrow> fmlookup kept j = None \<longrightarrow>
        cc_remembered_at d \<le> cc_remembered_at c)"

lemma newest_drop:
  assumes "newest limit (fmdrop j m) kept" "limit < fmsize m" "fmlookup m j = Some d"
    and least: "\<And>k c. fmlookup m k = Some c \<Longrightarrow> cc_remembered_at d \<le> cc_remembered_at c"
  shows "newest limit m kept"
proof -
  have sub: "fmlookup m k = Some c \<and> k \<noteq> j" if "fmlookup kept k = Some c" for k c
  proof -
    have "fmlookup (fmdrop j m) k = Some c" using assms(1) that unfolding newest_def by blast
    then show ?thesis by (simp split: if_splits)
  qed
  have "cc_remembered_at b \<le> cc_remembered_at c"
    if "fmlookup kept k = Some c" "fmlookup m i = Some b" "fmlookup kept i = None" for k c i b
  proof (cases "i = j")
    case True
    then show ?thesis using least [of k c] sub [OF that(1)] that(2) assms(3) by simp
  next
    case False
    then have "fmlookup (fmdrop j m) i = Some b" using that(2) by simp
    then show ?thesis using assms(1) that unfolding newest_def by blast
  qed
  moreover have "fmsize kept = min limit (fmsize m)"
    using assms(1-3) by (simp add: newest_def fmsize_drop)
  ultimately show ?thesis using sub unfolding newest_def by blast
qed

lemma evict_completed_newest: "enumerates ks m \<Longrightarrow> newest limit m (evict_completed limit ks m)"
proof (induction limit ks m rule: evict_completed.induct)
  case (1 limit ks m)
  show ?case
  proof (cases "ks = [] \<or> fmsize m \<le> limit")
    case True
    moreover have "m = fmempty" if "ks = []"
      using that 1(2) enumerates_length [of ks m] fmsize_0_iff [of m] by simp
    ultimately show ?thesis
      by (subst evict_completed.simps) (auto simp: newest_def split: list.split)
  next
    case False
    then obtain k rest where ks: "ks = k # rest" by (cases ks) auto
    let ?j = "oldest_key m k rest"
    have dom: "set ks = fmdom' m" using 1(2) by (simp add: enumerates_def)
    have "?j \<in> fmdom' m" using oldest_key_mem [of m k rest] unfolding dom [symmetric] ks .
    then obtain d where d: "fmlookup m ?j = Some d" by (auto simp: fmlookup_dom'_iff)
    have "enumerates (remove1 ?j ks) (fmdrop ?j m)"
      using 1(2) by (auto simp: enumerates_def)
    then have rest: "newest limit (fmdrop ?j m) (evict_completed limit (remove1 ?j ks) (fmdrop ?j m))"
      using 1(1) [OF ks] False ks by simp
    have least: "cc_remembered_at d \<le> cc_remembered_at c" if "fmlookup m x = Some c" for x c
    proof -
      have "set (k # rest) = fmdom' m" using dom ks by simp
      moreover have "x \<in> fmdom' m" using that by (simp add: fmdom'_lookup)
      ultimately have "remembered m ?j \<le> remembered m x" by (intro oldest_key_min) simp_all
      then show ?thesis using that d by (simp add: remembered_def)
    qed
    have "limit < fmsize m" using False by simp
    from newest_drop [OF rest this d least] have "newest limit m (evict_completed limit (remove1 ?j ks) (fmdrop ?j m))" .
    then show ?thesis using False ks by (subst evict_completed.simps) (simp add: Let_def)
  qed
qed

subsection \<open>Recovery\<close>

lemma Submit_frame [simp]:
  "sv_active_commands (snd (Submit env k c t st)) = sv_active_commands st"
  "sv_devices (snd (Submit env k c t st)) = sv_devices st"
  "sv_recovery_started (snd (Submit env k c t st)) = sv_recovery_started st"
  "sv_effects (snd (Submit env k c t st)) =
     sv_effects st @ [SubmitTask (sv_next_operation_id st) t (env_submit env (sv_next_operation_id st) t)]"
  by (simp_all add: Submit_def Let_def emit_def)

lemma SubmitTransitionOrDefer_frame [simp]:
  "sv_active_commands (SubmitTransitionOrDefer env c t st) = sv_active_commands st"
  "sv_devices (SubmitTransitionOrDefer env c t st) = sv_devices st"
  "sv_recovery_started (SubmitTransitionOrDefer env c t st) = sv_recovery_started st"
  "sv_effects (SubmitTransitionOrDefer env c t st) = sv_effects st @
     [SubmitTask (sv_next_operation_id st) (TransitionTask t) (env_submit env (sv_next_operation_id st) (TransitionTask t))]"
  by (simp_all add: SubmitTransitionOrDefer_def case_prod_beta Let_def)

lemma PublishRecord_frame [simp]:
  "sv_active_commands (PublishRecord env ctx now st) = sv_active_commands st"
  "sv_devices (PublishRecord env ctx now st) = sv_devices st"
  "sv_recovery_started st |\<subseteq>| sv_recovery_started (PublishRecord env ctx now st)"
  by (auto simp: PublishRecord_def Let_def emit_def split: option.split sum.split)

lemma recover_command_frame [simp]:
  "sv_active_commands (recover_command env now i st) = sv_active_commands st"
  "sv_devices (recover_command env now i st) = sv_devices st"
  by (simp_all add: recover_command_def time_out_command_def Let_def split: option.split)

lemma recover_command_started: "sv_recovery_started st |\<subseteq>| sv_recovery_started (recover_command env now i st)"
proof -
  have "sv_recovery_started st |\<subseteq>| sv_recovery_started (PublishRecord env ctx now
      (st\<lparr>sv_recovery_started := finsert i (sv_recovery_started st)\<rparr>))" for ctx
    using PublishRecord_frame(3) [of "st\<lparr>sv_recovery_started := finsert i (sv_recovery_started st)\<rparr>" env ctx now]
    by auto
  then show ?thesis
    by (auto simp: recover_command_def time_out_command_def Let_def split: option.split)
qed

text \<open>The commands the recovery may publish again.\<close>

definition republishable :: "int \<Rightarrow> CommandService \<Rightarrow> string \<Rightarrow> RequestContext \<Rightarrow> CommandRecord \<Rightarrow> string \<Rightarrow> bool" where
  "republishable now st command_id context record device_id \<longleftrightarrow>
     fmlookup (sv_active_commands st) command_id = Some context \<and> rc_record context = Some record \<and>
     rc_command_type context = Config \<and> now < rc_deadline context \<and>
     command_id |\<notin>| sv_recovery_started st \<and> cr_target_device_id record = Some device_id \<and>
     (\<exists>d. Find (sv_devices st) device_id = Some d \<and> dr_status d = Online)"

lemma PublishRecord_publishes:
  "DevicePublish tk tp p \<in> set (sv_effects (PublishRecord env ctx now st)) \<Longrightarrow>
   DevicePublish tk tp p \<in> set (sv_effects st) \<or>
   (\<exists>r d. rc_record ctx = Some r \<and> cr_target_device_id r = Some d \<and>
      tp = DeviceSetTopic (env_topic_namespace env) d (rc_command_type ctx))"
  by (auto simp: PublishRecord_def Let_def emit_def split: option.splits sum.splits if_splits)

lemma not_Control [simp]: "ct \<noteq> Control \<longleftrightarrow> ct = Config"
  by (cases ct) simp_all

lemma recover_command_publishes:
  assumes "DevicePublish tk tp p \<in> set (sv_effects (recover_command env now i st))"
    and "DevicePublish tk tp p \<notin> set (sv_effects st)"
  shows "\<exists>ctx r d. republishable now st i ctx r d \<and> tp = DeviceSetTopic (env_topic_namespace env) d Config"
proof -
  have pub: "\<exists>r d. rc_record ctx = Some r \<and> cr_target_device_id r = Some d \<and>
      tp = DeviceSetTopic (env_topic_namespace env) d (rc_command_type ctx)"
    if "DevicePublish tk tp p \<in> set (sv_effects (PublishRecord env ctx now
      (st\<lparr>sv_recovery_started := finsert i (sv_recovery_started st)\<rparr>)))" for ctx
    using PublishRecord_publishes [OF that] assms(2) by simp
  show ?thesis
    using assms
    by (auto simp: recover_command_def republishable_def time_out_command_def Let_def
        split: option.splits if_splits dest!: pub)
qed

lemma recover_commands_publish:
  assumes "DevicePublish tk tp p \<in> set (sv_effects (fold (recover_command env now) ids st))"
    and "DevicePublish tk tp p \<notin> set (sv_effects st)"
  shows "\<exists>i ctx r d. republishable now st i ctx r d \<and> tp = DeviceSetTopic (env_topic_namespace env) d Config"
  using assms
proof (induction ids arbitrary: st)
  case (Cons i ids)
  let ?st = "recover_command env now i st"
  show ?case
  proof (cases "DevicePublish tk tp p \<in> set (sv_effects ?st)")
    case True
    then show ?thesis using recover_command_publishes Cons.prems(2) by blast
  next
    case False
    then obtain j ctx r d where "republishable now ?st j ctx r d" "tp = DeviceSetTopic (env_topic_namespace env) d Config"
      using Cons.IH [of ?st] Cons.prems(1) by auto
    moreover have "republishable now st j ctx r d" if "republishable now ?st j ctx r d"
      using that recover_command_started [of st env now i] by (auto simp: republishable_def)
    ultimately show ?thesis by blast
  qed
qed simp

lemma schedule_cleanup_frame [simp]:
  "sv_active_commands (schedule_cleanup env now st) = sv_active_commands st"
  "sv_devices (schedule_cleanup env now st) = sv_devices st"
  "sv_recovery_started (schedule_cleanup env now st) = sv_recovery_started st"
  "DevicePublish tk tp p \<in> set (sv_effects (schedule_cleanup env now st)) \<longleftrightarrow>
     DevicePublish tk tp p \<in> set (sv_effects st)"
  by (simp_all add: schedule_cleanup_def Let_def split: option.split)

subsection \<open>The properties of the service\<close>


definition demo_env :: service_env where
  "demo_env =
     \<lparr>env_lib = const_lib JNull, env_submit = (\<lambda>i t. True), env_publish = (\<lambda>i tp p. Inr ()),
      env_ack_returns = (\<lambda>n. True), env_draws = (\<lambda>n. replicate 16 7), env_order = (\<lambda>n ks. ks),
      env_topic_namespace = ''cns'', env_max_inflight_commands = 256, env_config_timeout = 15,
      env_control_timeout = 30, env_terminal_retention_days = 30, env_cleanup_interval = 3600,
      env_cleanup_batch_size = 100\<rparr>"

definition demo_loaded :: CommandRecord where
  "demo_loaded = demo_command\<lparr>cr_source_id := ''app'', cr_status := Dispatched\<rparr>"

definition demo_service :: CommandService where
  "demo_service = LoadActive demo_env [demo_loaded]
     (CommandService_new (fmupd ''app'' demo_app fmempty) demo_registry)"

lemma demo_service_reachable: "service_reachable demo_env demo_service"
  unfolding demo_service_def
  by (rule service_reachable.step [OF service_reachable.start])
    (rule service_step.load, simp add: honest_load_def demo_loaded_def)

lemma demo_service_active:
  "fmlookup (sv_active_commands demo_service) (cr_command_id demo_command) \<noteq> None"
  by (simp add: demo_service_def LoadActive_def demo_env_def load_active_def Let_def SourceCatalog_Find_def
      CommandService_new_def demo_loaded_def IsTerminal_def activate_def)

lemmas demo_run_simps = demo_service_def LoadActive_def demo_env_def load_active_def Let_def SourceCatalog_Find_def
  CommandService_new_def demo_loaded_def IsTerminal_def activate_def ProcessTimeoutsAndRecovery_def
  schedule_cleanup_def keys_in_order_def sorted_list_of_fset.rep_eq recover_command_def demo_command_def
  timeout_of_def seconds_def time_out_command_def

lemma demo_timeout:
  "\<exists>t. SubmitTask 1 (TransitionTask t) True \<in> set (sv_effects (ProcessTimeoutsAndRecovery demo_env 100000000000 demo_service)) \<and>
     tct_desired t = Timeout"
  by (simp add: demo_run_simps)


text \<open>
  One call of \<^verbatim>\<open>ProcessReady\<close> ends, and it ends with all three input queues empty: every
  database result, publish completion and message that was waiting has been handled.
\<close>
theorem ProcessReady_drains:
  "sv_database_results (ProcessReady env now st) = [] \<and> sv_publish_completions (ProcessReady env now st) = [] \<and>
   sv_messages (ProcessReady env now st) = []"
  using ProcessReady_queues [of env now st] by (simp add: queues_def)

text \<open>
  What \<^verbatim>\<open>WaitForDatabaseIdle\<close> waits for is that no database operation is pending: in every
  reachable state, unless the 64-bit operation counter has wrapped, the atomic counter is zero exactly
  when the map of operations is empty, and it counts the pending operations. The next identifier is not
  in use.
\<close>
theorem database_idle_exact:
  assumes "service_reachable env st" "submits st < 2 ^ 64 - 1"
  shows "(database_idle st \<longleftrightarrow> sv_operations st = fmempty) \<and>
         unat (sv_outstanding_operations st) = fmsize (sv_operations st) \<and>
         fmlookup (sv_operations st) (sv_next_operation_id st) = None"
proof -
  note book = book_ok_reachable [OF assms(1)]
  have "Suc (submits st) < 2 ^ 64" using assms(2) by linarith
  moreover have "sv_next_operation_id st = of_nat (Suc (submits st))" "fmdom' (sv_operations st) \<subseteq> of_nat ` {1..submits st}"
    using book assms(2) unfolding book_ok_def by blast+
  ultimately have "fmlookup (sv_operations st) (sv_next_operation_id st) = None"
    using fresh_operation_id by (metis fmdom'_notI fmdom'_notD)
  then show ?thesis using book_ok_count [OF book assms(2)] book_ok_idle [OF book assms(2)] by blast
qed

theorem database_idle_exact_witness:
  "\<not> database_idle (ProcessTimeoutsAndRecovery demo_env 100000000000 demo_service)"
proof -
  let ?st = "ProcessTimeoutsAndRecovery demo_env 100000000000 demo_service"
  have "service_reachable demo_env ?st"
    using demo_service_reachable service_step.timeouts by (rule service_reachable.step)
  moreover have "submits ?st < 2 ^ 64 - 1" by (simp add: demo_run_simps submits_def)
  moreover have "fmlookup (sv_operations ?st) 1 \<noteq> None"
    by (simp add: demo_run_simps SubmitTransitionOrDefer_def Submit_def emit_def emplace_def)
  ultimately show ?thesis using database_idle_exact [of demo_env ?st] by auto
qed

text \<open>
  The memory of completed commands is bounded: after a command in a terminal status is remembered,
  whatever order the map is iterated in, the memory holds the newest entries, as many as the limit on
  commands in flight allows; an entry that was dropped is not newer than one that was kept.
\<close>
theorem completed_memory_bounded:
  fixes st :: CommandService and now :: int
  assumes "\<And>n ks. mset (env_order env n ks) = mset ks"
    and "rc_record ctx = Some r" "IsTerminal (cr_status r)"
  defines "all_commands \<equiv> fmupd (cr_command_id r) \<lparr>cc_context = ctx, cc_remembered_at = now\<rparr> (sv_completed_commands st)"
  defines "kept \<equiv> sv_completed_commands (RememberCompletedCommand env ctx now st)"
  shows "fmsize kept = min (env_max_inflight_commands env) (fmsize all_commands) \<and>
         (\<forall>i c. fmlookup kept i = Some c \<longrightarrow> fmlookup all_commands i = Some c) \<and>
         (\<forall>i c j d. fmlookup kept i = Some c \<longrightarrow> fmlookup all_commands j = Some d \<longrightarrow> fmlookup kept j = None \<longrightarrow>
            cc_remembered_at d \<le> cc_remembered_at c)"
proof -
  have "enumerates (keys_in_order env st all_commands) all_commands"
  proof -
    let ?ks = "sorted_list_of_fset (fmdom all_commands)"
    have "mset (keys_in_order env st all_commands) = mset ?ks"
      using assms(1) by (simp add: keys_in_order_def)
    moreover have "distinct ?ks" "set ?ks = fmdom' all_commands"
      by (simp_all add: sorted_list_of_fset.rep_eq fmdom'_alt_def)
    ultimately show ?thesis
      by (metis enumerates_def mset_eq_setD mset_eq_imp_distinct_iff)
  qed
  from evict_completed_newest [OF this, of "env_max_inflight_commands env"]
  show ?thesis
    using assms(2,3) unfolding newest_def kept_def all_commands_def RememberCompletedCommand_def by (simp add: Let_def)
qed

theorem completed_memory_bounded_witness:
  "fmsize (sv_completed_commands (RememberCompletedCommand (demo_env\<lparr>env_max_inflight_commands := 0\<rparr>)
     (cleanup_context 0\<lparr>rc_record := Some demo_command\<rparr>) 7 demo_service)) = 0"
  using completed_memory_bounded [of "demo_env\<lparr>env_max_inflight_commands := 0\<rparr>"
      "cleanup_context 0\<lparr>rc_record := Some demo_command\<rparr>" demo_command 7 demo_service]
  by (simp add: demo_env_def demo_command_def IsTerminal_def)

text \<open>
  The recovery scan publishes a command again only if it is an active configuration command before
  its deadline whose target is online and for which no recovery is under way. Control commands are
  never sent twice.
\<close>
theorem recovery_publications:
  assumes "DevicePublish tk tp p \<in> set (sv_effects (ProcessTimeoutsAndRecovery env now st))"
    and "DevicePublish tk tp p \<notin> set (sv_effects st)"
  shows "\<exists>i ctx r d target. fmlookup (sv_active_commands st) i = Some ctx \<and> rc_record ctx = Some r \<and>
           rc_command_type ctx = Config \<and> now < rc_deadline ctx \<and> i |\<notin>| sv_recovery_started st \<and>
           cr_target_device_id r = Some d \<and> Find (sv_devices st) d = Some target \<and> dr_status target = Online \<and>
           tp = DeviceSetTopic (env_topic_namespace env) d Config"
proof -
  from assms obtain i ctx r d where "republishable now (schedule_cleanup env now st) i ctx r d"
      "tp = DeviceSetTopic (env_topic_namespace env) d Config"
    using recover_commands_publish by (fastforce simp: ProcessTimeoutsAndRecovery_def Let_def)
  then show ?thesis by (simp add: republishable_def) blast
qed

definition demo_context :: RequestContext where
  "demo_context = (cleanup_context 0)\<lparr>rc_record := Some demo_loaded, rc_deadline := 15000000000,
     rc_parsed := ParsedConfig (demo_config (DeviceTarget ''a''))\<rparr>"

theorem recovery_publications_witness:
  "\<exists>p. DevicePublish 1 ''cns/a/config/set'' p
     \<in> set (sv_effects (ProcessTimeoutsAndRecovery demo_env 1 (activate ''c1'' demo_context demo_service))) \<and>
   (\<exists>target. Find demo_registry ''a'' = Some target \<and> dr_status target = Online)"
proof -
  let ?st = "activate ''c1'' demo_context demo_service"
  have dev: "sv_devices ?st = demo_registry" by (simp add: demo_run_simps)
  have "\<exists>p. DevicePublish 1 ''cns/a/config/set'' p \<in> set (sv_effects (ProcessTimeoutsAndRecovery demo_env 1 ?st))"
    by (simp add: demo_run_simps demo_context_def cleanup_context_def PublishRecord_def device_payload_def emit_def
        DeviceSetTopic_def Find_def demo_device_def)
  moreover have "DevicePublish 1 ''cns/a/config/set'' p \<notin> set (sv_effects ?st)" for p
    by (simp add: demo_run_simps)
  ultimately show ?thesis
    using recovery_publications [of 1 "''cns/a/config/set''" _ demo_env 1 ?st] unfolding dev
    by (fastforce simp: DeviceSetTopic_def demo_env_def)
qed



text \<open>What a report adds: nothing but one line for the operator.\<close>

definition only_reports :: "CommandService \<Rightarrow> CommandService \<Rightarrow> bool" where
  "only_reports st st' \<longleftrightarrow> st' = st \<or> (\<exists>m. st' = emit (Diagnostic m) st \<or> st' = emit (Information m) st)"

lemma unrelated_ack_reports: "only_reports st (unrelated_ack d ct i b st)"
  by (auto simp: only_reports_def unrelated_ack_def TryHandleLateDeviceAck_def Inform_def split: option.split)

text \<open>
  An acknowledgement from a device is ignored, but for one line of report, unless it is well formed
  and names an active command that was addressed to this very device, has the same type, carries the
  same control command and is pending, dispatched or in progress: a late, forged or misdirected
  acknowledgement never changes a command.
\<close>
theorem foreign_ack_ignored:
  "only_reports st (HandleDeviceAck env device_id payload ct now st) \<or>
   (\<exists>i b raw cmd ctx r.
      parse_device_ack env payload ct = Inr (i, b, raw, cmd) \<and>
      fmlookup (sv_active_commands st) i = Some ctx \<and> rc_record ctx = Some r \<and>
      cr_target_device_id r = Some device_id \<and> rc_command_type ctx = ct \<and>
      cr_status r \<in> {Pending, Dispatched, InProgress} \<and>
      (case cmd of None \<Rightarrow> True | Some c \<Rightarrow> \<exists>q. rc_parsed ctx = ParsedControl q \<and> sct_command q = c))"
proof (cases "parse_device_ack env payload ct")
  case (Inl m)
  then show ?thesis by (auto simp: HandleDeviceAck_def only_reports_def Diagnose_def)
next
  case (Inr a)
  obtain i b raw cmd where a: "a = (i, b, raw, cmd)" by (metis prod_cases4)
  show ?thesis
  proof (cases "find_acked device_id ct i st")
    case None
    then show ?thesis using Inr a unrelated_ack_reports by (simp add: HandleDeviceAck_def)
  next
    case (Some x)
    obtain ctx r where x: "x = (ctx, r)" by (cases x)
    have found: "fmlookup (sv_active_commands st) i = Some ctx" "rc_record ctx = Some r"
        "cr_target_device_id r = Some device_id" "rc_command_type ctx = ct"
      using Some x by (auto simp: find_acked_def split: option.splits if_splits)
    show ?thesis
    proof (cases "cmd \<noteq> None \<and> (case rc_parsed ctx of ParsedControl q \<Rightarrow> Some (sct_command q) \<noteq> cmd | _ \<Rightarrow> True) \<or>
        cr_status r \<notin> {Pending, Dispatched, InProgress}")
      case True
      then have "only_reports st (HandleDeviceAck env device_id payload ct now st)"
        using Inr a Some x by (auto simp: HandleDeviceAck_def only_reports_def Diagnose_def)
      then show ?thesis ..
    next
      case False
      then have "case cmd of None \<Rightarrow> True | Some c \<Rightarrow> \<exists>q. rc_parsed ctx = ParsedControl q \<and> sct_command q = c"
        by (auto split: option.split ParsedSourceRequest.splits)
      with False found Inr a show ?thesis by blast
    qed
  qed
qed

lemma GenerateUuidV4_shape: "length draws \<ge> 16 \<Longrightarrow> IsUuidV4Shape (GenerateUuidV4 draws)"
  by (simp add: GenerateUuidV4_def FormatUuidV4_shape)

definition answers :: "effect list \<Rightarrow> bool" where
  "answers es \<longleftrightarrow> (\<forall>e \<in> set es. (\<exists>t p. e = SourceAck t p) \<or> (\<exists>m. e = Diagnostic m))"

definition answered :: "CommandService \<Rightarrow> CommandService \<Rightarrow> bool" where
  "answered st st' \<longleftrightarrow> (\<exists>es. st' = st\<lparr>sv_effects := sv_effects st @ es\<rparr> \<and> answers es)"

lemma answered_emit:
  "answered st st" "answered st st' \<Longrightarrow> answered st (emit (SourceAck t p) st')" "answered st st' \<Longrightarrow> answered st (Diagnose m st')"
proof -
  show "answered st st" unfolding answered_def answers_def by (rule exI [of _ "[]"]) simp
  have "answered st (emit e st')" if "answered st st'" "answers [e]" for e
  proof -
    from that(1) obtain es where "st' = st\<lparr>sv_effects := sv_effects st @ es\<rparr>" "answers es"
      unfolding answered_def by blast
    then have "emit e st' = st\<lparr>sv_effects := sv_effects st @ (es @ [e])\<rparr>" "answers (es @ [e])"
      using that(2) by (auto simp: emit_def answers_def)
    then show ?thesis unfolding answered_def by blast
  qed
  then show "answered st st' \<Longrightarrow> answered st (emit (SourceAck t p) st')" "answered st st' \<Longrightarrow> answered st (Diagnose m st')"
    by (simp_all add: answers_def Diagnose_def)
qed

lemma on_found_Some: "answered st (on_found env ctx (Some r) now st)"
  by (simp add: on_found_def Reject_source_def PublishAck_def Let_def answered_emit split: option.split sum.split)

text \<open>The stored command is the one the request asks for.\<close>

definition repeats :: "service_env \<Rightarrow> RequestContext \<Rightarrow> CommandRecord \<Rightarrow> bool" where
  "repeats env ctx r \<longleftrightarrow> (\<exists>c. ComparisonPayload (rc_parsed ctx) = Some c \<and> jeq (env_lib env) (cr_request_payload r) c)"

definition conflict_answer :: "service_env \<Rightarrow> RequestContext \<Rightarrow> int \<Rightarrow> effect" where
  "conflict_answer env ctx now =
     SourceAck (SourceAckTopic (env_topic_namespace env) (rc_source_id ctx) (rc_command_type ctx))
       (jdump (env_lib env) (BuildPrePersistenceRejection (RequestId (rc_parsed ctx))
          (mk_error ''idempotency_conflict'' msg_idempotency) now (rc_command_type ctx)))"

lemma on_found_conflict:
  "\<not> repeats env ctx r \<Longrightarrow>
     \<exists>rest. sv_effects (on_found env ctx (Some r) now st) = sv_effects st @ conflict_answer env ctx now # rest"
  by (auto simp: on_found_def repeats_def conflict_answer_def CompareRequest_def Reject_source_def Let_def emit_def
      Diagnose_def split: option.split)

lemma on_found_repeated:
  "repeats env ctx r \<Longrightarrow> BuildSourceAck r (TargetFor r st) now = Inr ack \<Longrightarrow>
     \<exists>rest. sv_effects (on_found env ctx (Some r) now st) = sv_effects st @
       SourceAck (SourceAckTopic (env_topic_namespace env) (rc_source_id ctx) (rc_command_type ctx))
         (jdump (env_lib env) ack) # rest"
  by (auto simp: on_found_def repeats_def CompareRequest_def PublishAck_def Let_def emit_def Diagnose_def
      split: option.split)

lemma new_command_record:
  assumes "length (env_draws env (length (sv_effects st))) \<ge> 16"
  shows "\<exists>r. rc_record (new_command env ctx st) = Some r \<and> IsUuidV4Shape (cr_command_id r) \<and>
     cr_source_id r = rc_source_id ctx \<and> cr_command_type r = rc_command_type ctx \<and> cr_status r \<in> {Pending, Failed} \<and>
     (cr_status r = Pending \<longleftrightarrow>
        (\<forall>x. rc_parsed ctx \<noteq> Rejected x) \<and>
        (\<exists>t d. resolve_request ctx st = Inr t \<and> cr_target_device_id r = Some (rt_device_id t) \<and>
           Find (sv_devices st) (rt_device_id t) = Some d \<and> dr_status d = Online))"
  using GenerateUuidV4_shape [OF assms]
  by (cases "rc_parsed ctx"; cases "resolve_request ctx st")
    (auto simp: new_command_def Let_def fail_record_def split: option.split)

text \<open>
  C22. Requests are idempotent. When the database answers the look-up of a request with an existing
  command, the service only answers it: no task, no publication, no new command. The answer is the
  acknowledgement of the stored command if that was the same request, and the error
  \<^verbatim>\<open>idempotency_conflict\<close> if it was another one. When
  there is none, it inserts exactly one command, in the name of the request's source, with an identifier
  of UUID shape; the command is pending exactly if the request was well formed, its target resolved and
  is online, and it has failed already otherwise.
\<close>
theorem find_result_idempotent:
  fixes now :: int
  assumes "fmlookup (sv_operations st) (cdr_operation_id res) = Some \<lparr>op_kind = OpFind, op_context = ctx\<rparr>"
    and "cdr_value res = Inr (MaybeRecord existing)"
    and "length (env_draws env (length (sv_effects st))) \<ge> 16"
  defines "st' \<equiv> HandleDatabaseResult env res now st"
  shows "(\<forall>r. existing = Some r \<longrightarrow>
            (\<exists>es. sv_effects st' = sv_effects st @ es \<and>
               (\<forall>e \<in> set es. (\<exists>t p. e = SourceAck t p) \<or> (\<exists>m. e = Diagnostic m))) \<and>
            (\<not> repeats env ctx r \<longrightarrow> (\<exists>rest. sv_effects st' = sv_effects st @ conflict_answer env ctx now # rest)) \<and>
            (\<forall>ack. repeats env ctx r \<and> BuildSourceAck r (TargetFor r st) now = Inr ack \<longrightarrow>
               (\<exists>rest. sv_effects st' = sv_effects st @
                  SourceAck (SourceAckTopic (env_topic_namespace env) (rc_source_id ctx) (rc_command_type ctx))
                    (jdump (env_lib env) ack) # rest)) \<and>
            sv_active_commands st' = sv_active_commands st \<and> sv_publications st' = sv_publications st) \<and>
         (existing = None \<longrightarrow>
            (\<exists>r b. sv_effects st' = sv_effects st @ [SubmitTask (sv_next_operation_id st) (InsertCommandTask r) b] \<and>
               IsUuidV4Shape (cr_command_id r) \<and> cr_source_id r = rc_source_id ctx \<and>
               cr_command_type r = rc_command_type ctx \<and> cr_status r \<in> {Pending, Failed} \<and>
               (cr_status r = Pending \<longleftrightarrow>
                  (\<forall>x. rc_parsed ctx \<noteq> Rejected x) \<and>
                  (\<exists>t d. resolve_request ctx st = Inr t \<and> cr_target_device_id r = Some (rt_device_id t) \<and>
                     Find (sv_devices st) (rt_device_id t) = Some d \<and> dr_status d = Online))))"
proof -
  let ?st = "st\<lparr>sv_operations := fmdrop (cdr_operation_id res) (sv_operations st),
                 sv_outstanding_operations := sv_outstanding_operations st - 1\<rparr>"
  have st': "st' = on_found env ctx existing now ?st"
    using assms(1,2) unfolding st'_def by (simp add: HandleDatabaseResult_def Let_def)
  have "\<exists>es. st' = ?st\<lparr>sv_effects := sv_effects st @ es\<rparr> \<and> answers es" if "existing = Some r" for r
    using on_found_Some [of ?st env ctx r now] st' that by (simp add: answered_def)
  then have old: "(\<exists>es. sv_effects st' = sv_effects st @ es \<and>
       (\<forall>e \<in> set es. (\<exists>t p. e = SourceAck t p) \<or> (\<exists>m. e = Diagnostic m))) \<and>
     sv_active_commands st' = sv_active_commands st \<and> sv_publications st' = sv_publications st"
    if "existing = Some r" for r
    using that unfolding answers_def by fastforce
  obtain r where r: "rc_record (new_command env ctx ?st) = Some r \<and> IsUuidV4Shape (cr_command_id r) \<and>
     cr_source_id r = rc_source_id ctx \<and> cr_command_type r = rc_command_type ctx \<and> cr_status r \<in> {Pending, Failed} \<and>
     (cr_status r = Pending \<longleftrightarrow>
        (\<forall>x. rc_parsed ctx \<noteq> Rejected x) \<and>
        (\<exists>t d. resolve_request ctx ?st = Inr t \<and> cr_target_device_id r = Some (rt_device_id t) \<and>
           Find (sv_devices ?st) (rt_device_id t) = Some d \<and> dr_status d = Online))"
    using new_command_record [of env ?st ctx] assms(3) by auto
  have same: "resolve_request ctx ?st = resolve_request ctx st" 
    by (simp add: resolve_request_def split: option.split ParsedSourceRequest.split)
  have "\<exists>b. sv_effects st' = sv_effects st @ [SubmitTask (sv_next_operation_id st) (InsertCommandTask r) b]"
    if "existing = None"
    using st' that r by (simp add: on_found_def Let_def)
  moreover have "\<exists>rest. sv_effects st' = sv_effects st @ conflict_answer env ctx now # rest"
    if "existing = Some r'" "\<not> repeats env ctx r'" for r'
    using on_found_conflict [OF that(2), of now ?st] st' that(1) by simp
  moreover have "\<exists>rest. sv_effects st' = sv_effects st @
       SourceAck (SourceAckTopic (env_topic_namespace env) (rc_source_id ctx) (rc_command_type ctx))
         (jdump (env_lib env) ack) # rest"
    if "existing = Some r'" "repeats env ctx r'" "BuildSourceAck r' (TargetFor r' st) now = Inr ack" for r' ack
  proof -
    have "TargetFor r' ?st = TargetFor r' st" by (simp add: TargetFor_def split: option.split)
    then show ?thesis using on_found_repeated [OF that(2), of ?st now ack] st' that(1,3) by simp
  qed
  ultimately show ?thesis using old r unfolding same by auto
qed

theorem find_result_idempotent_witness:
  "\<exists>r b. sv_effects (HandleDatabaseResult demo_env \<lparr>cdr_operation_id = 9, cdr_value = Inr (MaybeRecord None)\<rparr> 0
       (demo_service\<lparr>sv_operations := fmupd 9 \<lparr>op_kind = OpFind, op_context = demo_context\<rparr> fmempty\<rparr>)) =
     [SubmitTask 1 (InsertCommandTask r) b] \<and> IsUuidV4Shape (cr_command_id r)"
proof -
  let ?st = "demo_service\<lparr>sv_operations := fmupd 9 \<lparr>op_kind = OpFind, op_context = demo_context\<rparr> fmempty\<rparr>"
  have "length (env_draws demo_env (length (sv_effects ?st))) \<ge> 16" by (simp add: demo_env_def)
  moreover have "sv_effects ?st = []" "sv_next_operation_id ?st = 1" by (simp_all add: demo_run_simps)
  ultimately show ?thesis
    using find_result_idempotent [of ?st "\<lparr>cdr_operation_id = 9, cdr_value = Inr (MaybeRecord None)\<rparr>" demo_context None
        demo_env 0] by auto
qed

text \<open>
  Admission. A request whose source is accepted and that carries an identifier is rejected at once,
  without any database task, when the MQTT client or the database is unavailable or the service is at its
  limit of commands in flight; otherwise exactly one look-up of this source and identifier is submitted,
  and the request is answered at once only when that is refused.
\<close>
theorem request_admission:
  fixes ct :: CommandType and st :: CommandService and now :: int and source_id :: string
  assumes "RequestId (parse_request env ct (im_payload msg) (cs_kind source)) = Some i"
  defines "admitted \<equiv> sv_mqtt_available st \<and> sv_database_available st \<and> inflight st < env_max_inflight_commands env"
  defines "find_task \<equiv> FindCommandTask source_id i"
  defines "accepted \<equiv> env_submit env (sv_next_operation_id st) find_task"
  defines "st' \<equiv> accept_request env msg source_id source ct now st"
  shows "if admitted
         then \<exists>es. sv_effects st' = sv_effects st @ SubmitTask (sv_next_operation_id st) find_task accepted # es \<and>
                answers es \<and> (es = [] \<longleftrightarrow> accepted)
         else \<exists>es. sv_effects st' = sv_effects st @ es \<and> es \<noteq> [] \<and> answers es"
proof -
  have reject: "\<exists>es. sv_effects (Reject_source env source_id (Some i) e now ct s) = sv_effects s @ es \<and> es \<noteq> [] \<and> answers es" for e s
    by (simp add: Reject_source_def Let_def emit_def Diagnose_def answers_def)
  show ?thesis
  proof (cases admitted)
    case False
    then have "\<exists>e. st' = Reject_source env source_id (Some i) e now ct st"
      unfolding st'_def accept_request_def Let_def assms(1) option.case admitted_def by (simp add: not_less) blast
    with False show ?thesis using reject [of _ st] by auto
  next
    case True
    then obtain ctx e where "st' = (if fst (Submit env OpFind ctx find_task st) then snd (Submit env OpFind ctx find_task st)
        else Reject_source env source_id (Some i) e now ct (snd (Submit env OpFind ctx find_task st)))"
      unfolding st'_def accept_request_def Let_def assms(1) option.case admitted_def case_prod_beta find_task_def
      by (simp add: not_le)
    moreover have "fst (Submit env OpFind ctx find_task st) = accepted"
      by (simp add: Submit_def accepted_def Let_def)
    ultimately show ?thesis
      using True reject [of e "snd (Submit env OpFind ctx find_task st)"]
      by (cases accepted) (auto simp: accepted_def [symmetric] answers_def)
  qed
qed

theorem request_admission_witness:
  "\<exists>es. sv_effects (accept_request (demo_env\<lparr>env_max_inflight_commands := 0,
        env_lib := const_lib (jobject [(''request_id'', JString ''r:1'')])\<rparr>)
      \<lparr>im_topic = [], im_payload = ''x'', im_received_at = 0\<rparr> ''app'' demo_app Config 0 demo_service) = es \<and>
     es \<noteq> [] \<and> answers es"
proof -
  let ?env = "demo_env\<lparr>env_max_inflight_commands := 0, env_lib := const_lib (jobject [(''request_id'', JString ''r:1'')])\<rparr>"
  let ?msg = "\<lparr>im_topic = [], im_payload = ''x'', im_received_at = 0\<rparr>"
  have "RequestId (parse_request ?env Config (im_payload ?msg) (cs_kind demo_app)) = Some ''r:1''"
    by (simp add: parse_request_def ParseSourceConfigRequest_def parse_envelope_def const_lib_def request_id_of_def
        only_fields_def schema_version_ok_def Reject_def IsValidRequestId_def is_alnum_def is_digit_def is_lower_def is_upper_def less_eq_char_def)
  moreover have "sv_effects demo_service = []" by (simp add: demo_run_simps)
  ultimately show ?thesis using request_admission [of ?env Config ?msg demo_app "''r:1''" demo_service "''app''" 0] by simp
qed

end
