(* ===== verification/Device_Service.thy ===== *)
theory Device_Service
  imports Bounded_Queue Mqtt_Port Dirty_State Device_Topic
begin

text \<open>
  \<^verbatim>\<open>core/runtime/device_service.cpp\<close>: the business thread of the devices. It feeds messages and
  database results into the registry, marks what has to be written, hands writes and registrations of
  unknown devices to the database worker, and publishes state events, flagged as degraded while a
  change of the device is not known to be stored.

  Every handler is a definition on the whole state. The callbacks are fields of \<open>device_env\<close>, indexed
  by the number of calls made so far, so that they may answer differently each time; what they are called
  with is appended to the list of effects. The clock port is read through \<open>dv_steady\<close>; after the
  construction it does not throw. Methods that only lock the mutex around one assignment are that
  assignment; \<^verbatim>\<open>Notify\<close> wakes the waiting threads and changes no state.
\<close>

datatype DatabaseResultKind =
  ResProvisioned | ResWriteCompleted | ResUnavailable | ResRecovered | ResPermanentFailure

record DatabaseResult =
  dbr_kind :: DatabaseResultKind
  dbr_device_id :: string
  dbr_revision :: "64 word"
  dbr_provisioned :: "DeviceRecord option"
  dbr_error :: string

record PublishedState =
  ps_record :: DeviceRecord
  ps_reason :: ChangeReason
  ps_degraded :: bool

record PendingRegistration =
  pr_registration :: Registration
  pr_received_at :: int
  pr_submitted :: bool

datatype device_effect =
    ProvisionCall Registration int call_outcome
  | WriteCall DesiredDeviceWrite call_outcome
  | EventCall PublishedState
  | SnapshotCall "PublishedState list"
  | DeviceDiagnostic string
  | DeviceInformation string

record device_env =
  dv_lib :: json_lib
  dv_provision :: "nat \<Rightarrow> Registration \<Rightarrow> int \<Rightarrow> call_outcome"
  dv_write :: "nat \<Rightarrow> DesiredDeviceWrite \<Rightarrow> call_outcome"
  dv_event :: "nat \<Rightarrow> PublishedState \<Rightarrow> call_outcome"
  dv_snapshots :: "(nat \<Rightarrow> PublishedState list \<Rightarrow> call_outcome) option"  \<comment> \<open>the sink may be absent\<close>
  dv_steady :: "nat \<Rightarrow> int"
  dv_restore_clock :: "nat \<Rightarrow> int"  \<comment> \<open>the clock \<^verbatim>\<open>DirtyState::Restore\<close> reads\<close>
  dv_order :: "nat \<Rightarrow> string list \<Rightarrow> string list"
  dv_topic_namespace :: string
  dv_telemetry_interval :: int
  dv_offline_timeout :: int

record DeviceService =
  ds_registry :: DeviceRegistry
  ds_mqtt_queue :: "InboundMessage BoundedQueue"
  ds_results :: "DatabaseResult list"
  ds_dirty :: DirtyState
  ds_pending :: "(string, PendingRegistration) fmap"
  ds_degraded :: "(string, 64 word) fmap"
  ds_last_reason :: "(string, ChangeReason) fmap"
  ds_submitted :: "(string, DesiredDeviceWrite) fmap"
  ds_pending_status_logs :: "(string, DesiredDeviceWrite) fmap"
  ds_next_scan :: int
  ds_scan_initialized :: bool
  ds_database_unavailable :: bool
  ds_closed :: bool
  ds_input_drained :: bool
  ds_cancel_requested :: bool
  ds_snapshot_requested :: bool
  ds_drain_dispatch_pending :: bool
  ds_drain_submission_blocked :: bool
  ds_processing_ready :: bool
  ds_outstanding :: "64 word"
  ds_effects :: "device_effect list"

definition kOfflineScan :: int where
  "kOfflineScan = 1000000000"

definition calls :: "DeviceService \<Rightarrow> nat" where
  "calls st = length (ds_effects st)"

definition device_emit :: "device_effect \<Rightarrow> DeviceService \<Rightarrow> DeviceService" where
  "device_emit e st = st\<lparr>ds_effects := ds_effects st @ [e]\<rparr>"

definition DeviceService_Diagnose :: "string \<Rightarrow> DeviceService \<Rightarrow> DeviceService" where
  "DeviceService_Diagnose message st = device_emit (DeviceDiagnostic message) st"

definition DeviceService_Inform :: "string \<Rightarrow> DeviceService \<Rightarrow> DeviceService" where
  "DeviceService_Inform message st = device_emit (DeviceInformation message) st"

definition diagnose_if :: "string option \<Rightarrow> DeviceService \<Rightarrow> DeviceService" where
  "diagnose_if message st = (case message of None \<Rightarrow> st | Some m \<Rightarrow> DeviceService_Diagnose m st)"

definition in_order :: "device_env \<Rightarrow> DeviceService \<Rightarrow> (string, 'v) fmap \<Rightarrow> string list" where
  "in_order env st m = dv_order env (calls st) (sorted_list_of_fset (fmdom m))"

text \<open>The first reading of the clock is \<^const>\<open>Inl\<close> when the port throws.\<close>

definition DeviceService_new ::
    "DeviceRegistry \<Rightarrow> InboundMessage BoundedQueue \<Rightarrow> call_outcome + int \<Rightarrow> DeviceService" where
  "DeviceService_new registry queue clock =
     (let st = \<lparr>ds_registry = registry, ds_mqtt_queue = queue, ds_results = [], ds_dirty = fmempty,
            ds_pending = fmempty, ds_degraded = fmempty, ds_last_reason = fmempty, ds_submitted = fmempty,
            ds_pending_status_logs = fmempty, ds_next_scan = 0, ds_scan_initialized = False,
            ds_database_unavailable = False, ds_closed = False, ds_input_drained = False,
            ds_cancel_requested = False, ds_snapshot_requested = False, ds_drain_dispatch_pending = False,
            ds_drain_submission_blocked = False, ds_processing_ready = False, ds_outstanding = 0,
            ds_effects = []\<rparr>
      in case clock of
           Inr now \<Rightarrow> st\<lparr>ds_next_scan := now + kOfflineScan, ds_scan_initialized := True\<rparr>
         | Inl outcome \<Rightarrow> diagnose_if (threw_message outcome msg_clock_init msg_clock_init_unknown) st)"

definition DescribeDeviceForLog :: "DeviceRecord \<Rightarrow> string" where
  "DescribeDeviceForLog record =
     dr_school_name record @ ''/'' @
     (case dr_dcdw_label record of Some l \<Rightarrow> l | None \<Rightarrow> txt_unnumbered) @
     '' device_id='' @ dr_device_id record"

definition WriteFor :: "Mutation \<Rightarrow> Urgency \<Rightarrow> DesiredDeviceWrite" where
  "WriteFor mutation urgency =
     (let telemetry = (mu_reason mutation = TelemetryReason)
      in \<lparr>dw_record = mu_record mutation, dw_revision = dr_revision (mu_record mutation),
          dw_write_metadata = (\<not> telemetry), dw_write_status = (\<not> telemetry \<or> mu_status_changed mutation),
          dw_write_telemetry = telemetry, dw_urgency = urgency\<rparr>)"

definition DeviceService_TryPush :: "InboundMessage \<Rightarrow> DeviceService \<Rightarrow> bool \<times> DeviceService" where
  "DeviceService_TryPush message st =
     (let (pushed, queue) = TryPush message (ds_mqtt_queue st)
      in (pushed, st\<lparr>ds_mqtt_queue := queue\<rparr>))"

definition DeviceService_PushDatabaseResult :: "DatabaseResult \<Rightarrow> DeviceService \<Rightarrow> DeviceService" where
  "DeviceService_PushDatabaseResult result st = st\<lparr>ds_results := ds_results st @ [result]\<rparr>"

definition DeviceService_Close :: "DeviceService \<Rightarrow> DeviceService" where
  "DeviceService_Close st =
     st\<lparr>ds_closed := True, ds_snapshot_requested := False, ds_drain_dispatch_pending := True,
        ds_mqtt_queue := Close (ds_mqtt_queue st)\<rparr>"

text \<open>What \<^verbatim>\<open>WaitForInputDrained\<close> and \<^verbatim>\<open>WaitForDatabaseIdle\<close> wait for.\<close>

definition input_drained :: "DeviceService \<Rightarrow> bool" where
  "input_drained st = ds_input_drained st"

definition device_database_idle :: "DeviceService \<Rightarrow> bool" where
  "device_database_idle st \<longleftrightarrow>
     ds_outstanding st = 0 \<and> \<not> ds_processing_ready st \<and> \<not> ds_drain_dispatch_pending st"

definition CancelOutstandingDatabaseWork :: "DeviceService \<Rightarrow> DeviceService" where
  "CancelOutstandingDatabaseWork st = st\<lparr>ds_cancel_requested := True, ds_drain_dispatch_pending := False\<rparr>"

definition RequestExternalSnapshot :: "DeviceService \<Rightarrow> DeviceService" where
  "RequestExternalSnapshot st = (if ds_closed st then st else st\<lparr>ds_snapshot_requested := True\<rparr>)"

definition HasOutstandingDatabaseWork :: "DeviceService \<Rightarrow> bool" where
  "HasOutstandingDatabaseWork st \<longleftrightarrow> ds_outstanding st \<noteq> 0 \<or> ds_drain_dispatch_pending st"

definition SetInputDrained :: "DeviceService \<Rightarrow> DeviceService" where
  "SetInputDrained st = st\<lparr>ds_input_drained := True\<rparr>"

definition AdjustOutstandingDatabaseWork :: "int \<Rightarrow> DeviceService \<Rightarrow> DeviceService" where
  "AdjustOutstandingDatabaseWork delta st =
     (if delta < 0 then st\<lparr>ds_outstanding := ds_outstanding st - of_int (- delta)\<rparr>
      else st\<lparr>ds_outstanding := ds_outstanding st + of_int delta\<rparr>)"

definition PendingRegistrationCount :: "DeviceService \<Rightarrow> nat" where
  "PendingRegistrationCount st = fmsize (ds_pending st)"

definition IsDatabaseUnavailable :: "DeviceService \<Rightarrow> bool" where
  "IsDatabaseUnavailable st = ds_database_unavailable st"

definition IsDeviceDegraded :: "string \<Rightarrow> DeviceService \<Rightarrow> bool" where
  "IsDeviceDegraded device_id st \<longleftrightarrow> ds_database_unavailable st \<or> fmlookup (ds_degraded st) device_id \<noteq> None"

subsection \<open>Publishing and marking\<close>

definition Publish :: "device_env \<Rightarrow> PublishedState \<Rightarrow> DeviceService \<Rightarrow> DeviceService" where
  "Publish env state st =
     diagnose_if (threw_message (dv_event env (calls st) state) msg_event_threw msg_event_threw_unknown)
       (device_emit (EventCall state) st)"

text \<open>The block that \<^verbatim>\<open>SubmitWrite\<close> and two handlers share: the device is degraded from now on.\<close>

definition last_reason_of :: "string \<Rightarrow> DeviceService \<Rightarrow> ChangeReason" where
  "last_reason_of device_id st =
     (case fmlookup (ds_last_reason st) device_id of Some r \<Rightarrow> r | None \<Rightarrow> TelemetryReason)"

definition degrade :: "device_env \<Rightarrow> string \<Rightarrow> (64 word \<Rightarrow> 64 word) \<Rightarrow> DeviceService \<Rightarrow> DeviceService" where
  "degrade env device_id revision_of st =
     (case Find (ds_registry st) device_id of
        None \<Rightarrow> st
      | Some record \<Rightarrow>
          Publish env \<lparr>ps_record = record, ps_reason = last_reason_of device_id st, ps_degraded = True\<rparr>
            (st\<lparr>ds_degraded := fmupd device_id (revision_of (dr_revision record)) (ds_degraded st)\<rparr>))"

definition DeviceService_Mark :: "device_env \<Rightarrow> Mutation \<Rightarrow> DeviceService \<Rightarrow> DeviceService" where
  "DeviceService_Mark env mutation st =
     (let record = mu_record mutation;
          device_id = dr_device_id record;
          reason = mu_reason mutation;
          st1 = st\<lparr>ds_last_reason := fmupd device_id reason (ds_last_reason st)\<rparr>;
          st2 = (if mu_status_changed mutation
                 then st1\<lparr>ds_pending_status_logs := fmupd device_id
                        \<lparr>dw_record = record, dw_revision = dr_revision record, dw_write_metadata = False,
                         dw_write_status = True, dw_write_telemetry = False, dw_urgency = Immediate\<rparr>
                        (ds_pending_status_logs st1)\<rparr>
                 else st1);
          urgency = (if reason = TelemetryReason then TelemetryBatch else Immediate);
          st3 = st2\<lparr>ds_dirty := Mark (WriteFor mutation urgency) (dv_steady env (calls st2)) (ds_dirty st2)\<rparr>;
          st4 = (if ds_database_unavailable st3 \<or> fmlookup (ds_degraded st3) device_id \<noteq> None
                 then st3\<lparr>ds_degraded := fmupd device_id (dr_revision record) (ds_degraded st3)\<rparr> else st3)
      in Publish env \<lparr>ps_record = record, ps_reason = reason, ps_degraded = IsDeviceDegraded device_id st4\<rparr> st4)"

definition mark_if :: "device_env \<Rightarrow> string + Mutation \<Rightarrow> DeviceService \<Rightarrow> DeviceService" where
  "mark_if env outcome st = (case outcome of Inl _ \<Rightarrow> st | Inr mutation \<Rightarrow> DeviceService_Mark env mutation st)"

subsection \<open>Writes\<close>

definition SubmitWrite :: "device_env \<Rightarrow> DesiredDeviceWrite \<Rightarrow> DeviceService \<Rightarrow> bool \<times> DeviceService" where
  "SubmitWrite env write st =
     (let device_id = dr_device_id (dw_record write);
          outcome = dv_write env (calls st) write;
          st1 = device_emit (WriteCall write outcome) st
      in if outcome = Returned True then
           let st2 = (if fmlookup (ds_submitted st1) device_id = None
                      then AdjustOutstandingDatabaseWork 1 st1 else st1)
           in (True, st2\<lparr>ds_submitted := fmupd device_id write (ds_submitted st2)\<rparr>)
         else
           let message = (case outcome of ThrewException \<Rightarrow> msg_write_threw
                          | ThrewUnknown \<Rightarrow> msg_write_threw_unknown | _ \<Rightarrow> msg_write_closed);
               st2 = st1\<lparr>ds_dirty := Restore write (dv_restore_clock env (calls st1)) (ds_dirty st1)\<rparr>
           in (False, DeviceService_Diagnose message (degrade env device_id (\<lambda>r. r) st2)))"

fun send_writes :: "device_env \<Rightarrow> DesiredDeviceWrite list \<Rightarrow> DeviceService \<Rightarrow> bool \<times> DeviceService" where
  "send_writes env [] st = (True, st)"
| "send_writes env (w # ws) st =
     (let (accepted, st1) = SubmitWrite env w st;
          (rest, st2) = send_writes env ws st1
      in (accepted \<and> rest, st2))"

definition DispatchWrites :: "device_env \<Rightarrow> DeviceService \<Rightarrow> DeviceService" where
  "DispatchWrites env st =
     (if ds_database_unavailable st then st
      else if ds_input_drained st then
        (if ds_drain_submission_blocked st then st
         else
           let (writes, dirty) = TakeAllDirty (in_order env st (ds_dirty st)) (ds_dirty st);
               (accepted, st1) = send_writes env writes (st\<lparr>ds_dirty := dirty\<rparr>)
           in if accepted then st1\<lparr>ds_drain_dispatch_pending := False\<rparr>
              else st1\<lparr>ds_drain_submission_blocked := True\<rparr>)
      else
        let (writes, dirty) = TakeImmediate (in_order env st (ds_dirty st)) (ds_dirty st);
            st1 = snd (send_writes env writes (st\<lparr>ds_dirty := dirty\<rparr>));
            (due, dirty1) = TakeTelemetryDue (in_order env st1 (ds_dirty st1)) (dv_steady env (calls st1))
                              (dv_telemetry_interval env) (ds_dirty st1)
        in snd (send_writes env due (st1\<lparr>ds_dirty := dirty1\<rparr>)))"

subsection \<open>Database results\<close>

definition submitted_count :: "(string, PendingRegistration) fmap \<Rightarrow> nat" where
  "submitted_count m = fmsize (fmfilter (\<lambda>k. case fmlookup m k of None \<Rightarrow> False | Some p \<Rightarrow> pr_submitted p) m)"

definition forget_work :: "nat \<Rightarrow> DeviceService \<Rightarrow> DeviceService" where
  "forget_work completed st =
     (if completed \<noteq> 0 then AdjustOutstandingDatabaseWork (- int completed) st else st)"

definition on_unavailable :: "device_env \<Rightarrow> DatabaseResult \<Rightarrow> DeviceService \<Rightarrow> DeviceService" where
  "on_unavailable env result st =
     (let st1 = degrade env (dbr_device_id result) (\<lambda>r. max r (dbr_revision result))
                  (st\<lparr>ds_database_unavailable := True\<rparr>);
          completed = submitted_count (ds_pending st1)
      in DeviceService_Diagnose msg_database_degraded (forget_work completed (st1\<lparr>ds_pending := fmempty\<rparr>)))"

definition on_permanent_failure :: "device_env \<Rightarrow> DatabaseResult \<Rightarrow> DeviceService \<Rightarrow> DeviceService" where
  "on_permanent_failure env result st =
     (let device_id = dbr_device_id result;
          st1 = (case fmlookup (ds_pending st) device_id of
                   None \<Rightarrow> st
                 | Some entry \<Rightarrow>
                     let st' = (if pr_submitted entry then AdjustOutstandingDatabaseWork (- 1) st else st)
                     in st'\<lparr>ds_pending := fmdrop device_id (ds_pending st')\<rparr>);
          st2 = (if device_id = [] then
                   let completed = submitted_count (ds_pending st1) + fmsize (ds_submitted st1)
                   in forget_work completed
                        (st1\<lparr>ds_pending := fmempty, ds_submitted := fmempty, ds_pending_status_logs := fmempty\<rparr>)
                 else
                   let st' = (if fmlookup (ds_submitted st1) device_id \<noteq> None
                              then AdjustOutstandingDatabaseWork (- 1)
                                     (st1\<lparr>ds_submitted := fmdrop device_id (ds_submitted st1)\<rparr>)
                              else st1)
                   in st'\<lparr>ds_pending_status_logs := fmdrop device_id (ds_pending_status_logs st')\<rparr>)
      in DeviceService_Diagnose msg_database_permanent
           (degrade env device_id (\<lambda>r. max r (dbr_revision result)) st2))"

definition recovery_write :: "DeviceRecord \<Rightarrow> DesiredDeviceWrite" where
  "recovery_write record =
     \<lparr>dw_record = record, dw_revision = dr_revision record, dw_write_metadata = True, dw_write_status = True,
      dw_write_telemetry = (dr_latest_telemetry record \<noteq> None), dw_urgency = Immediate\<rparr>"

definition on_recovered :: "device_env \<Rightarrow> DeviceService \<Rightarrow> DeviceService" where
  "on_recovered env st =
     (let st1 = st\<lparr>ds_database_unavailable := False\<rparr>
      in fold (\<lambda>device_id s.
                 case Find (ds_registry s) device_id of
                   None \<Rightarrow> s
                 | Some record \<Rightarrow> snd (SubmitWrite env (recovery_write record) s))
           (in_order env st1 (ds_degraded st1)) st1)"

definition on_provisioned :: "device_env \<Rightarrow> string \<Rightarrow> DeviceRecord \<Rightarrow> DeviceService \<Rightarrow> DeviceService" where
  "on_provisioned env device_id provisioned st =
     (case fmlookup (ds_pending st) device_id of
        None \<Rightarrow> st
      | Some candidate \<Rightarrow>
          let settle = (\<lambda>s. if pr_submitted candidate then AdjustOutstandingDatabaseWork (- 1) s else s);
              (added, registry) = AddProvisioned provisioned (ds_registry st);
              st1 = st\<lparr>ds_registry := registry\<rparr>
          in (case added of
                Inl _ \<Rightarrow> settle st1
              | Inr _ \<Rightarrow>
                  let st2 = st1\<lparr>ds_pending := fmdrop device_id (ds_pending st1)\<rparr>;
                      (mutation, registry2) =
                        ApplyRegistration (pr_registration candidate) (pr_received_at candidate) (ds_registry st2)
                  in settle (mark_if env mutation (st2\<lparr>ds_registry := registry2\<rparr>))))"

definition status_text :: "DeviceRecord \<Rightarrow> string" where
  "status_text record =
     (if dr_status record = Online then txt_device_online else txt_device_offline) @ DescribeDeviceForLog record"

definition complete_write :: "string \<Rightarrow> 64 word \<Rightarrow> DesiredDeviceWrite \<Rightarrow> DeviceService \<Rightarrow> DeviceService" where
  "complete_write device_id revision write st =
     (let st1 = (case fmlookup (ds_pending_status_logs st) device_id of
                   None \<Rightarrow> st
                 | Some status_log \<Rightarrow>
                     if dw_revision status_log \<le> revision \<and> dw_write_status write
                     then (DeviceService_Inform (status_text (dw_record status_log)) st)
                            \<lparr>ds_pending_status_logs := fmdrop device_id (ds_pending_status_logs st)\<rparr>
                     else st)
      in AdjustOutstandingDatabaseWork (- 1)
           (st1\<lparr>ds_dirty := Complete write (ds_dirty st1), ds_submitted := fmdrop device_id (ds_submitted st1)\<rparr>))"

definition on_write_completed :: "device_env \<Rightarrow> string \<Rightarrow> 64 word \<Rightarrow> DeviceService \<Rightarrow> DeviceService" where
  "on_write_completed env device_id revision st =
     (let st1 = (case fmlookup (ds_submitted st) device_id of
                   None \<Rightarrow> st
                 | Some write \<Rightarrow>
                     if dw_revision write \<le> revision then complete_write device_id revision write st else st)
      in case fmlookup (ds_degraded st1) device_id of
           None \<Rightarrow> st1
         | Some degraded \<Rightarrow>
             if degraded \<le> revision then
               let st2 = st1\<lparr>ds_degraded := fmdrop device_id (ds_degraded st1)\<rparr>
               in (case Find (ds_registry st2) device_id of
                     None \<Rightarrow> st2
                   | Some record \<Rightarrow>
                       Publish env \<lparr>ps_record = record, ps_reason = DatabaseRecovered, ps_degraded = False\<rparr> st2)
             else st1)"

definition DeviceService_HandleResult :: "device_env \<Rightarrow> DatabaseResult \<Rightarrow> DeviceService \<Rightarrow> DeviceService" where
  "DeviceService_HandleResult env result st =
     (case dbr_kind result of
        ResUnavailable \<Rightarrow> on_unavailable env result st
      | ResPermanentFailure \<Rightarrow> on_permanent_failure env result st
      | ResRecovered \<Rightarrow> on_recovered env st
      | ResProvisioned \<Rightarrow>
          (case dbr_provisioned result of
             None \<Rightarrow> st
           | Some provisioned \<Rightarrow> on_provisioned env (dbr_device_id result) provisioned st)
      | ResWriteCompleted \<Rightarrow> on_write_completed env (dbr_device_id result) (dbr_revision result) st)"

subsection \<open>Messages\<close>

definition DeviceService_HandleMessage :: "device_env \<Rightarrow> InboundMessage \<Rightarrow> DeviceService \<Rightarrow> DeviceService" where
  "DeviceService_HandleMessage env message st =
     (case ParseDeviceTopic (dv_topic_namespace env) (im_topic message) of
        Inl _ \<Rightarrow> st
      | Inr topic \<Rightarrow>
          let device_id = pt_device_id topic in
          if pt_kind topic = KRegistration then
            (case ParseRegistration (dv_lib env) (im_payload message) device_id of
               Inl _ \<Rightarrow> st
             | Inr registration \<Rightarrow>
                 if Find (ds_registry st) device_id = None then
                   (if ds_database_unavailable st then st
                    else
                      let submitted = (case fmlookup (ds_pending st) device_id of
                                         None \<Rightarrow> False | Some existing \<Rightarrow> pr_submitted existing)
                      in st\<lparr>ds_pending := fmupd device_id
                              \<lparr>pr_registration = registration, pr_received_at = im_received_at message,
                               pr_submitted = submitted\<rparr> (ds_pending st)\<rparr>)
                 else
                   let (mutation, registry) = ApplyRegistration registration (im_received_at message) (ds_registry st)
                   in mark_if env mutation (st\<lparr>ds_registry := registry\<rparr>))
          else
            (case ParseTelemetry (dv_lib env) (im_payload message) device_id of
               Inl _ \<Rightarrow> st
             | Inr telemetry \<Rightarrow>
                 let (mutation, registry) =
                       ApplyTelemetry device_id telemetry (im_received_at message) (ds_registry st)
                 in mark_if env mutation (st\<lparr>ds_registry := registry\<rparr>)))"

subsection \<open>The main loop\<close>

definition cancel_work :: "DeviceService \<Rightarrow> DeviceService" where
  "cancel_work st =
     (if \<not> ds_cancel_requested st then st
      else st\<lparr>ds_cancel_requested := False,
              ds_pending := fmmap (\<lambda>p. p\<lparr>pr_submitted := False\<rparr>) (ds_pending st),
              ds_submitted := fmempty, ds_dirty := Clear (ds_dirty st),
              ds_drain_submission_blocked := False, ds_outstanding := 0\<rparr>)"

definition submit_provision :: "device_env \<Rightarrow> string \<Rightarrow> DeviceService \<Rightarrow> DeviceService" where
  "submit_provision env device_id st =
     (case fmlookup (ds_pending st) device_id of
        None \<Rightarrow> st
      | Some candidate \<Rightarrow>
          if pr_submitted candidate then st
          else
            let outcome = dv_provision env (calls st) (pr_registration candidate) (pr_received_at candidate);
                submitted = (outcome = Returned True);
                st1 = (device_emit (ProvisionCall (pr_registration candidate) (pr_received_at candidate) outcome) st)
                        \<lparr>ds_pending := fmupd device_id (candidate\<lparr>pr_submitted := submitted\<rparr>) (ds_pending st)\<rparr>
            in (case outcome of
                  Returned ok \<Rightarrow>
                    if ok then AdjustOutstandingDatabaseWork 1 st1
                    else DeviceService_Diagnose msg_provision_closed st1
                | ThrewException \<Rightarrow> DeviceService_Diagnose msg_provision_threw st1
                | ThrewUnknown \<Rightarrow> DeviceService_Diagnose msg_provision_threw_unknown st1))"

definition submit_provisions :: "device_env \<Rightarrow> DeviceService \<Rightarrow> DeviceService" where
  "submit_provisions env st =
     (if ds_database_unavailable st then st
      else fold (submit_provision env) (in_order env st (ds_pending st)) st)"

definition scan_inactive :: "device_env \<Rightarrow> int \<Rightarrow> DeviceService \<Rightarrow> DeviceService" where
  "scan_inactive env system_now st =
     (let now = dv_steady env (calls st);
          st1 = (if ds_scan_initialized st then st
                 else st\<lparr>ds_next_scan := now + kOfflineScan, ds_scan_initialized := True\<rparr>)
      in if now \<ge> ds_next_scan st1 then
           let (mutations, registry) =
                 ExpireInactive (in_order env st1 (rg_records (ds_registry st1))) system_now
                   (dv_offline_timeout env) (ds_registry st1)
           in (fold (DeviceService_Mark env) mutations (st1\<lparr>ds_registry := registry\<rparr>))
                \<lparr>ds_next_scan := now + kOfflineScan\<rparr>
         else st1)"

definition PublishCurrentSnapshot :: "device_env \<Rightarrow> DeviceService \<Rightarrow> DeviceService" where
  "PublishCurrentSnapshot env st =
     (case dv_snapshots env of
        None \<Rightarrow> st
      | Some sink \<Rightarrow>
          let states = map (\<lambda>record. \<lparr>ps_record = record, ps_reason = SnapshotReplay,
                                      ps_degraded = IsDeviceDegraded (dr_device_id record) st\<rparr>)
                         (ListDevices (in_order env st (rg_records (ds_registry st))) (ds_registry st))
          in diagnose_if (threw_message (sink (calls st) states) msg_snapshot_threw msg_snapshot_threw_unknown)
               (device_emit (SnapshotCall states) st))"

definition serve_snapshot :: "device_env \<Rightarrow> DeviceService \<Rightarrow> DeviceService" where
  "serve_snapshot env st =
     (if ds_snapshot_requested st then PublishCurrentSnapshot env (st\<lparr>ds_snapshot_requested := False\<rparr>) else st)"

definition handle_results :: "device_env \<Rightarrow> DeviceService \<Rightarrow> DeviceService" where
  "handle_results env st = fold (DeviceService_HandleResult env) (ds_results st) (st\<lparr>ds_results := []\<rparr>)"

definition handle_messages :: "device_env \<Rightarrow> DeviceService \<Rightarrow> DeviceService" where
  "handle_messages env st =
     (let (messages, queue) = drain (ds_mqtt_queue st)
      in fold (DeviceService_HandleMessage env) messages (st\<lparr>ds_mqtt_queue := queue\<rparr>))"

definition DeviceService_ProcessReady :: "device_env \<Rightarrow> int \<Rightarrow> DeviceService \<Rightarrow> DeviceService" where
  "DeviceService_ProcessReady env system_now st =
     (let st1 = handle_results env (st\<lparr>ds_processing_ready := True\<rparr>);
          st2 = handle_messages env (cancel_work st1);
          st3 = scan_inactive env system_now (submit_provisions env st2)
      in (serve_snapshot env (DispatchWrites env st3))\<lparr>ds_processing_ready := False\<rparr>)"

text \<open>
  One round of \<^verbatim>\<open>Run\<close>, without the cycle hook, and whether the loop goes on; between two rounds
  other threads push, close, cancel and request snapshots.
\<close>

definition run_round :: "device_env \<Rightarrow> int \<Rightarrow> int \<Rightarrow> DeviceService \<Rightarrow> bool \<times> DeviceService" where
  "run_round env now now' st =
     (let st1 = DeviceService_ProcessReady env now st;
          no_results = (ds_results st1 = []);
          st2 = (if ds_closed st1 \<and> Size (ds_mqtt_queue st1) = 0
                 then DeviceService_ProcessReady env now' (SetInputDrained st1) else st1)
      in (\<not> (ds_input_drained st2 \<and> no_results \<and> \<not> HasOutstandingDatabaseWork st2), st2))"

end
