(* ===== verification/Device_Service_Laws.thy ===== *)
theory Device_Service_Laws
  imports Device_Service
begin

text \<open>
  What the device service promises: its registry only ever takes the steps of the registry component,
  no change is forgotten before the database confirmed it, devices appear only through provisioning,
  and how the counter of outstanding work relates to the work.
\<close>

subsection \<open>Events\<close>

text \<open>
  The actions of the business thread, in the pieces \<^const>\<open>DeviceService_ProcessReady\<close> is made of, and what other threads
  may do in between.
\<close>

datatype device_event =
    Result DatabaseResult | Message InboundMessage | CancelWork | Provisions | ScanInactive int | Dispatch
  | ServeSnapshot | SetFlags bool bool bool bool bool bool
  | Queues "DatabaseResult list" "InboundMessage BoundedQueue"

fun device_act :: "device_env \<Rightarrow> device_event \<Rightarrow> DeviceService \<Rightarrow> DeviceService" where
  "device_act env (Result r) st = DeviceService_HandleResult env r st"
| "device_act env (Message m) st = DeviceService_HandleMessage env m st"
| "device_act env CancelWork st = cancel_work st"
| "device_act env Provisions st = submit_provisions env st"
| "device_act env (ScanInactive now) st = scan_inactive env now st"
| "device_act env Dispatch st = DispatchWrites env st"
| "device_act env ServeSnapshot st = serve_snapshot env st"
| "device_act env (SetFlags closed drained cancel snapshot draining processing) st =
     st\<lparr>ds_closed := closed, ds_input_drained := drained, ds_cancel_requested := cancel,
        ds_snapshot_requested := snapshot, ds_drain_dispatch_pending := draining, ds_processing_ready := processing\<rparr>"
| "device_act env (Queues results queue) st = st\<lparr>ds_results := results, ds_mqtt_queue := queue\<rparr>"

lemma device_act_eta:
  "device_act env (Result r) = DeviceService_HandleResult env r" "device_act env (Message m) = DeviceService_HandleMessage env m"
  by (rule ext, simp)+

lemma fold_act_map: "fold (device_act env) (map f xs) st = fold (\<lambda>x. device_act env (f x)) xs st"
  by (induction xs arbitrary: st) simp_all

definition runs :: "device_env \<Rightarrow> DeviceService \<Rightarrow> DeviceService \<Rightarrow> bool" where
  "runs env st st' \<longleftrightarrow> (\<exists>evs. st' = fold (device_act env) evs st)"

lemma runs_trans [trans]: "runs env st st' \<Longrightarrow> runs env st' st'' \<Longrightarrow> runs env st st''"
  unfolding runs_def by (metis fold_append comp_apply)

lemma runs_act: "runs env st (device_act env e st)"
  unfolding runs_def by (rule exI [of _ "[e]"]) simp

lemma runs_parts:
  "runs env st (handle_results env st)" "runs env st (handle_messages env st)"
  "runs env st (st\<lparr>ds_processing_ready := b\<rparr>)"
proof -
  have "handle_results env st = fold (device_act env) (Queues [] (ds_mqtt_queue st) # map Result (ds_results st)) st"
    by (simp add: handle_results_def fold_act_map device_act_eta)
  then show "runs env st (handle_results env st)" unfolding runs_def by blast
  let ?d = "drain (ds_mqtt_queue st)"
  have "handle_messages env st = fold (device_act env) (Queues (ds_results st) (snd ?d) # map Message (fst ?d)) st"
    by (simp add: handle_messages_def fold_act_map device_act_eta case_prod_beta Let_def)
  then show "runs env st (handle_messages env st)" unfolding runs_def by blast
  show "runs env st (st\<lparr>ds_processing_ready := b\<rparr>)"
    using runs_act [of env st "SetFlags (ds_closed st) (ds_input_drained st) (ds_cancel_requested st)
          (ds_snapshot_requested st) (ds_drain_dispatch_pending st) b"] by simp
qed

text \<open>\<^verbatim>\<open>ProcessReady\<close> is a sequence of these actions.\<close>

lemma ProcessReady_runs: "runs env st (DeviceService_ProcessReady env now st)"
proof -
  let ?s1 = "handle_results env (st\<lparr>ds_processing_ready := True\<rparr>)"
  let ?s2 = "handle_messages env (cancel_work ?s1)"
  let ?s3 = "scan_inactive env now (submit_provisions env ?s2)"
  let ?s4 = "serve_snapshot env (DispatchWrites env ?s3)"
  have "runs env st ?s1" by (blast intro: runs_trans runs_parts)
  also have "runs env ?s1 ?s2"
    using runs_act [of env ?s1 CancelWork] by (auto intro: runs_trans runs_parts)
  also have "runs env ?s2 ?s3"
    using runs_act [of env ?s2 Provisions] runs_act [of env "submit_provisions env ?s2" "ScanInactive now"]
    by (auto intro: runs_trans)
  also have "runs env ?s3 ?s4"
    using runs_act [of env ?s3 Dispatch] runs_act [of env "DispatchWrites env ?s3" ServeSnapshot]
    by (auto intro: runs_trans)
  also have "runs env ?s4 (?s4\<lparr>ds_processing_ready := False\<rparr>)" by (rule runs_parts)
  finally show ?thesis by (simp add: DeviceService_ProcessReady_def Let_def)
qed

subsection \<open>What reports leave alone\<close>

lemma report_frame [simp]:
  "ds_registry (device_emit e st) = ds_registry st" "ds_pending (device_emit e st) = ds_pending st"
  "ds_submitted (device_emit e st) = ds_submitted st" "ds_outstanding (device_emit e st) = ds_outstanding st"
  "ds_dirty (device_emit e st) = ds_dirty st" "ds_degraded (device_emit e st) = ds_degraded st"
  "ds_results (device_emit e st) = ds_results st" "ds_mqtt_queue (device_emit e st) = ds_mqtt_queue st"
  "ds_database_unavailable (device_emit e st) = ds_database_unavailable st"
  by (simp_all add: device_emit_def)

lemma diagnose_frame [simp]:
  "ds_registry (diagnose_if m st) = ds_registry st" "ds_pending (diagnose_if m st) = ds_pending st"
  "ds_submitted (diagnose_if m st) = ds_submitted st" "ds_outstanding (diagnose_if m st) = ds_outstanding st"
  "ds_dirty (diagnose_if m st) = ds_dirty st" "ds_degraded (diagnose_if m st) = ds_degraded st"
  "ds_results (diagnose_if m st) = ds_results st" "ds_mqtt_queue (diagnose_if m st) = ds_mqtt_queue st"
  "ds_database_unavailable (diagnose_if m st) = ds_database_unavailable st"
  by (simp_all add: diagnose_if_def DeviceService_Diagnose_def split: option.split)

lemmas report_defs = Publish_def DeviceService_Diagnose_def DeviceService_Inform_def degrade_def

lemma adjust_frame [simp]:
  "ds_registry (AdjustOutstandingDatabaseWork n st) = ds_registry st"
  "ds_pending (AdjustOutstandingDatabaseWork n st) = ds_pending st"
  "ds_submitted (AdjustOutstandingDatabaseWork n st) = ds_submitted st"
  "ds_outstanding (AdjustOutstandingDatabaseWork n st) = ds_outstanding st + of_int n"
  "ds_dirty (AdjustOutstandingDatabaseWork n st) = ds_dirty st"
  "ds_results (AdjustOutstandingDatabaseWork n st) = ds_results st"
  "ds_mqtt_queue (AdjustOutstandingDatabaseWork n st) = ds_mqtt_queue st"
  "ds_degraded (AdjustOutstandingDatabaseWork n st) = ds_degraded st"
  by (simp_all add: AdjustOutstandingDatabaseWork_def)

lemma forget_frame [simp]:
  "ds_registry (forget_work n st) = ds_registry st" "ds_dirty (forget_work n st) = ds_dirty st"
  "ds_pending (forget_work n st) = ds_pending st" "ds_submitted (forget_work n st) = ds_submitted st"
  "ds_outstanding (forget_work n st) = ds_outstanding st - of_nat n"
  "ds_results (forget_work n st) = ds_results st" "ds_mqtt_queue (forget_work n st) = ds_mqtt_queue st"
  by (simp_all add: forget_work_def)

lemma degrade_frame [simp]:
  "ds_registry (degrade env d f st) = ds_registry st" "ds_pending (degrade env d f st) = ds_pending st"
  "ds_submitted (degrade env d f st) = ds_submitted st" "ds_outstanding (degrade env d f st) = ds_outstanding st"
  "ds_dirty (degrade env d f st) = ds_dirty st"
  "ds_results (degrade env d f st) = ds_results st" "ds_mqtt_queue (degrade env d f st) = ds_mqtt_queue st"
  by (simp_all add: report_defs split: option.split)

lemma Mark_frame [simp]:
  "ds_registry (DeviceService_Mark env m st) = ds_registry st" "ds_pending (DeviceService_Mark env m st) = ds_pending st"
  "ds_submitted (DeviceService_Mark env m st) = ds_submitted st"
  "ds_outstanding (DeviceService_Mark env m st) = ds_outstanding st"
  "ds_results (DeviceService_Mark env m st) = ds_results st" "ds_mqtt_queue (DeviceService_Mark env m st) = ds_mqtt_queue st"
  by (simp_all add: DeviceService_Mark_def report_defs Let_def)

lemma mark_if_frame [simp]:
  "ds_registry (mark_if env o' st) = ds_registry st" "ds_pending (mark_if env o' st) = ds_pending st"
  "ds_submitted (mark_if env o' st) = ds_submitted st" "ds_outstanding (mark_if env o' st) = ds_outstanding st"
  "ds_results (mark_if env o' st) = ds_results st" "ds_mqtt_queue (mark_if env o' st) = ds_mqtt_queue st"
  by (simp_all add: mark_if_def split: sum.split)

lemma SubmitWrite_frame [simp]:
  "ds_registry (snd (SubmitWrite env w st)) = ds_registry st" "ds_pending (snd (SubmitWrite env w st)) = ds_pending st"
  "ds_results (snd (SubmitWrite env w st)) = ds_results st" "ds_mqtt_queue (snd (SubmitWrite env w st)) = ds_mqtt_queue st"
  by (simp_all add: SubmitWrite_def Let_def report_defs split: option.split)

lemma send_writes_frame [simp]:
  "ds_registry (snd (send_writes env ws st)) = ds_registry st" "ds_pending (snd (send_writes env ws st)) = ds_pending st"
  "ds_results (snd (send_writes env ws st)) = ds_results st" "ds_mqtt_queue (snd (send_writes env ws st)) = ds_mqtt_queue st"
  by (induction ws arbitrary: st) (simp_all add: case_prod_beta Let_def)

lemma DispatchWrites_frame [simp]:
  "ds_registry (DispatchWrites env st) = ds_registry st" "ds_pending (DispatchWrites env st) = ds_pending st"
  "ds_results (DispatchWrites env st) = ds_results st" "ds_mqtt_queue (DispatchWrites env st) = ds_mqtt_queue st"
  by (simp_all add: DispatchWrites_def case_prod_beta Let_def)

lemma fold_frame:
  "(\<And>x s. x \<in> set xs \<Longrightarrow> g (f x s) = g s) \<Longrightarrow> g (fold f xs s) = g s"
  by (induction xs arbitrary: s) simp_all

lemma on_recovered_frame [simp]:
  "ds_registry (on_recovered env st) = ds_registry st" "ds_pending (on_recovered env st) = ds_pending st"
  "ds_results (on_recovered env st) = ds_results st" "ds_mqtt_queue (on_recovered env st) = ds_mqtt_queue st"
  by (simp_all add: on_recovered_def Let_def fold_frame split: option.split)

lemma on_write_completed_frame [simp]:
  "ds_registry (on_write_completed env d r st) = ds_registry st"
  "ds_pending (on_write_completed env d r st) = ds_pending st"
  "ds_results (on_write_completed env d r st) = ds_results st"
  "ds_mqtt_queue (on_write_completed env d r st) = ds_mqtt_queue st"
  by (simp_all add: on_write_completed_def complete_write_def report_defs Let_def split: option.split)

lemma failure_frame [simp]:
  "ds_registry (on_unavailable env r st) = ds_registry st" "ds_registry (on_permanent_failure env r st) = ds_registry st"
  "ds_dirty (on_unavailable env r st) = ds_dirty st" "ds_dirty (on_permanent_failure env r st) = ds_dirty st"
  "ds_results (on_unavailable env r st) = ds_results st" "ds_results (on_permanent_failure env r st) = ds_results st"
  "ds_mqtt_queue (on_unavailable env r st) = ds_mqtt_queue st"
  "ds_mqtt_queue (on_permanent_failure env r st) = ds_mqtt_queue st"
  by (simp_all add: on_unavailable_def on_permanent_failure_def Let_def DeviceService_Diagnose_def split: option.split)

lemma provision_frame [simp]:
  "ds_registry (submit_provision env d st) = ds_registry st" "ds_dirty (submit_provision env d st) = ds_dirty st"
  "ds_submitted (submit_provision env d st) = ds_submitted st"
  by (simp_all add: submit_provision_def Let_def DeviceService_Diagnose_def split: option.split call_outcome.split)

lemma provisions_frame [simp]:
  "ds_registry (submit_provisions env st) = ds_registry st" "ds_dirty (submit_provisions env st) = ds_dirty st"
  "ds_submitted (submit_provisions env st) = ds_submitted st"
  by (simp_all add: submit_provisions_def fold_frame)

lemma snapshot_frame [simp]:
  "ds_registry (serve_snapshot env st) = ds_registry st" "ds_dirty (serve_snapshot env st) = ds_dirty st"
  "ds_pending (serve_snapshot env st) = ds_pending st" "ds_submitted (serve_snapshot env st) = ds_submitted st"
  "ds_outstanding (serve_snapshot env st) = ds_outstanding st"
  by (simp_all add: serve_snapshot_def PublishCurrentSnapshot_def Let_def split: option.split)

lemma cancel_frame [simp]: "ds_registry (cancel_work st) = ds_registry st"
  by (simp add: cancel_work_def)

subsection \<open>The registry of the service\<close>

lemma registry_step_ops:
  "registry_step reg (snd (ApplyRegistration m t reg))" "registry_step reg (snd (ApplyTelemetry d tm t reg))"
  "registry_step reg (snd (ExpireInactive ks now timeout reg))" "registry_step reg (snd (AddProvisioned r reg))"
  by (rule registry_step.intros)+

lemma on_provisioned_registry:
  "registry_step\<^sup>*\<^sup>* (ds_registry st) (ds_registry (on_provisioned env d r st))"
proof -
  let ?reg = "snd (AddProvisioned r (ds_registry st))"
  have "registry_step\<^sup>*\<^sup>* (ds_registry st) ?reg" by (rule r_into_rtranclp) (rule registry_step_ops)
  moreover have "registry_step\<^sup>*\<^sup>* ?reg (snd (ApplyRegistration m t ?reg))" for m t
    by (rule r_into_rtranclp) (rule registry_step_ops)
  ultimately show ?thesis
    by (auto simp: on_provisioned_def case_prod_beta Let_def split: option.split sum.split intro: rtranclp_trans)
qed

lemma device_act_registry: "registry_step\<^sup>*\<^sup>* (ds_registry st) (ds_registry (device_act env e st))"
proof (cases e)
  case (Result r)
  then show ?thesis
    by (simp add: DeviceService_HandleResult_def on_provisioned_registry split: DatabaseResultKind.split option.split)
next
  case (Message m)
  then show ?thesis
    by (auto simp: DeviceService_HandleMessage_def case_prod_beta Let_def split: sum.split option.split
        intro: registry_step_ops)
next
  case (ScanInactive now)
  then show ?thesis
    by (auto simp: scan_inactive_def case_prod_beta Let_def fold_frame intro: registry_step_ops)
qed simp_all

lemma device_run_registry: "registry_step\<^sup>*\<^sup>* (ds_registry st) (ds_registry (fold (device_act env) evs st))"
proof (induction evs arbitrary: st)
  case (Cons e evs)
  then show ?case using device_act_registry [of st env e] by (auto intro: rtranclp_trans)
qed simp

lemma registry_reachable_run: "registry_step\<^sup>*\<^sup>* reg reg' \<Longrightarrow> registry_reachable reg \<Longrightarrow> registry_reachable reg'"
  by (induction rule: rtranclp_induct) (auto intro: registry_reachable.step)

subsection \<open>Which devices the registry knows\<close>

definition known :: "DeviceService \<Rightarrow> string set" where
  "known st = fmdom' (rg_records (ds_registry st))"

lemma named_role_records [simp]:
  "rg_records (AddNamedRole r reg) = rg_records reg" "rg_records (RemoveNamedRole r reg) = rg_records reg"
  by (simp_all add: AddNamedRole_def RemoveNamedRole_def Let_def split: option.split)

lemma commit_record_only: "rg_records (commit_record role r r' reg) = fmupd (dr_device_id r) r' (rg_records reg)"
  by (simp add: commit_record_def Let_def split: option.split)

lemma registry_ops_known:
  assumes "registry_ok reg"
  shows "fmdom' (rg_records (snd (ApplyRegistration m t reg))) = fmdom' (rg_records reg)"
    and "fmdom' (rg_records (snd (ApplyTelemetry d tm t reg))) = fmdom' (rg_records reg)"
    and "fmdom' (rg_records (snd (ExpireInactive ks now timeout reg))) = fmdom' (rg_records reg)"
    and "fmdom' (rg_records (snd (AddProvisioned r reg))) \<subseteq> insert (dr_device_id r) (fmdom' (rg_records reg))"
proof -
  have keyed: "dr_device_id r = k" if "fmlookup (rg_records reg) k = Some r" for k r
    using assms that by (auto simp: registry_ok_def keyed_def)
  have in_dom: "insert (dr_device_id r) (fmdom' (rg_records reg)) = fmdom' (rg_records reg)"
    if "fmlookup (rg_records reg) k = Some r" for k r
    using keyed [OF that] that by (auto simp: fmdom'_lookup)
  show "fmdom' (rg_records (snd (ApplyRegistration m t reg))) = fmdom' (rg_records reg)"
    by (auto simp: ApplyRegistration_def Let_def commit_record_only in_dom split: option.split)
  show "fmdom' (rg_records (snd (ApplyTelemetry d tm t reg))) = fmdom' (rg_records reg)"
    by (auto simp: ApplyTelemetry_def Let_def commit_record_only in_dom split: option.split)
  show "fmdom' (rg_records (snd (AddProvisioned r reg))) \<subseteq> insert (dr_device_id r) (fmdom' (rg_records reg))"
    by (auto simp: AddProvisioned_def Let_def split: option.split sum.split)
  have "fmdom' (fold (\<lambda>k m. fmupd k (f k) m) xs m0) = set xs \<union> fmdom' m0" for xs m0 and f :: "string \<Rightarrow> DeviceRecord"
    by (induction xs arbitrary: m0) auto
  then show "fmdom' (rg_records (snd (ExpireInactive ks now timeout reg))) = fmdom' (rg_records reg)"
    by (auto simp: ExpireInactive_def expired_keys_def Let_def fmdom'_lookup split: option.splits)
qed

text \<open>The device a pending registration waits for and the database has just provisioned.\<close>

definition provisions :: "device_event \<Rightarrow> DeviceService \<Rightarrow> string \<Rightarrow> bool" where
  "provisions e st d \<longleftrightarrow> (\<exists>r p. e = Result r \<and> dbr_kind r = ResProvisioned \<and> dbr_provisioned r = Some p \<and>
     dr_device_id p = d \<and> fmlookup (ds_pending st) (dbr_device_id r) \<noteq> None)"

lemma on_provisioned_known:
  assumes "registry_ok (ds_registry st)" "known (on_provisioned env d p st) \<noteq> known st"
  shows "fmlookup (ds_pending st) d \<noteq> None \<and> known (on_provisioned env d p st) = insert (dr_device_id p) (known st)"
proof -
  let ?reg = "snd (AddProvisioned p (ds_registry st))"
  have ok: "registry_ok ?reg" using assms(1) by (rule AddProvisioned_ok)
  have "known (on_provisioned env d p st) = (if fmlookup (ds_pending st) d = None then known st else fmdom' (rg_records ?reg))"
    by (simp add: known_def on_provisioned_def case_prod_beta Let_def registry_ops_known(1) [OF ok]
        split: option.split sum.split)
  with assms(2) registry_ops_known(4) [OF assms(1), of p] show ?thesis
    by (auto simp: known_def AddProvisioned_def Let_def split: if_splits option.splits sum.splits)
qed

lemma device_act_known:
  assumes "registry_ok (ds_registry st)"
  shows "known (device_act env e st) = known st \<or>
    (\<exists>d. provisions e st d \<and> known (device_act env e st) = insert d (known st))"
proof (cases e)
  case (Result r)
  then show ?thesis
    using on_provisioned_known [OF assms, of env "dbr_device_id r"]
    by (auto simp: DeviceService_HandleResult_def provisions_def known_def split: DatabaseResultKind.split option.split)
next
  case (Message m)
  then show ?thesis
    by (auto simp: DeviceService_HandleMessage_def case_prod_beta Let_def known_def registry_ops_known [OF assms]
        split: sum.split option.split)
next
  case (ScanInactive now)
  then show ?thesis
    by (simp add: scan_inactive_def case_prod_beta Let_def fold_frame known_def registry_ops_known [OF assms])
qed (simp_all add: known_def)

subsection \<open>What still has to be stored\<close>

definition due :: "DeviceService \<Rightarrow> string \<Rightarrow> field_group \<Rightarrow> 64 word" where
  "due st d f = pending_of (ds_dirty st) d f"

text \<open>Nothing that was due is forgotten.\<close>

definition keeps_due :: "DeviceService \<Rightarrow> DeviceService \<Rightarrow> bool" where
  "keeps_due st st' \<longleftrightarrow> (\<forall>d f. due st d f \<le> due st' d f)"

lemma keeps_due_trans: "keeps_due a b \<Longrightarrow> keeps_due b c \<Longrightarrow> keeps_due a c"
  unfolding keeps_due_def by (meson order_trans)

lemma keeps_due_same: "ds_dirty st' = ds_dirty st \<Longrightarrow> keeps_due st st'"
  by (simp add: keeps_due_def due_def)

lemma keeps_due_fold: "(\<And>x s. keeps_due s (f x s)) \<Longrightarrow> keeps_due st (fold f xs st)"
proof (induction xs arbitrary: st)
  case (Cons x xs)
  then show ?case using keeps_due_trans [of st "f x st"] by simp
qed (simp add: keeps_due_same)

lemma keeps_due_Mark: "keeps_due st (DeviceService_Mark env m st)"
  by (simp add: keeps_due_def due_def DeviceService_Mark_def report_defs Let_def pending_of_Mark)

lemma keeps_due_mark_if:
  assumes "ds_dirty st = ds_dirty st0"
  shows "keeps_due st0 (mark_if env oc st)"
  using keeps_due_Mark [of st env] keeps_due_same [OF assms]
  by (auto simp: mark_if_def split: sum.split intro: keeps_due_trans)

lemma keeps_due_SubmitWrite: "keeps_due st (snd (SubmitWrite env w st))"
  by (simp add: keeps_due_def due_def SubmitWrite_def report_defs Let_def pending_of_Restore split: option.split)

lemma keeps_due_send: "keeps_due st (snd (send_writes env ws st))"
proof (induction ws arbitrary: st)
  case (Cons w ws)
  show ?case
    using keeps_due_trans [OF keeps_due_SubmitWrite Cons.IH] by (simp add: case_prod_beta Let_def)
qed (simp add: keeps_due_same)

lemma keeps_due_take: "keeps_due st (st\<lparr>ds_dirty := snd (TakeMatching ks i now iv force (ds_dirty st))\<rparr>)"
  by (simp add: keeps_due_def due_def pending_of_TakeMatching)

lemmas Take_defs = TakeAllDirty_def TakeImmediate_def TakeTelemetryDue_def

lemma keeps_due_drop_flags [simp]:
  "keeps_due st (st'\<lparr>ds_drain_dispatch_pending := b\<rparr>) = keeps_due st st'"
  "keeps_due st (st'\<lparr>ds_drain_submission_blocked := b\<rparr>) = keeps_due st st'"
  "keeps_due st (st'\<lparr>ds_next_scan := n\<rparr>) = keeps_due st st'"
  by (simp_all add: keeps_due_def due_def)

lemma keeps_due_take_send:
  "keeps_due st (snd (send_writes env ws (st\<lparr>ds_dirty := snd (TakeMatching ks i now iv force (ds_dirty st))\<rparr>)))"
  using keeps_due_take keeps_due_send by (rule keeps_due_trans)

lemma keeps_due_Dispatch: "keeps_due st (DispatchWrites env st)"
  by (auto simp: DispatchWrites_def case_prod_beta Let_def Take_defs keeps_due_same
      intro: keeps_due_take_send keeps_due_trans [OF keeps_due_take_send])

lemma keeps_due_recovered: "keeps_due st (on_recovered env st)"
  unfolding on_recovered_def Let_def
proof (rule keeps_due_trans [OF keeps_due_same keeps_due_fold])
  show "keeps_due s (case Find (ds_registry s) d of None \<Rightarrow> s | Some r \<Rightarrow> snd (SubmitWrite env (recovery_write r) s))" for d s
    by (simp add: keeps_due_same keeps_due_SubmitWrite split: option.split)
qed simp

lemma keeps_due_adjust [simp]: "keeps_due st (AdjustOutstandingDatabaseWork n st') = keeps_due st st'"
  by (simp add: keeps_due_def due_def)

lemma keeps_due_provisioned: "keeps_due st (on_provisioned env d p st)"
  by (simp add: on_provisioned_def case_prod_beta Let_def keeps_due_mark_if keeps_due_same split: option.split sum.split)

lemma keeps_due_scan: "keeps_due st (scan_inactive env now st)"
proof -
  have "keeps_due st0 (fold (DeviceService_Mark env) ms st1)" if "ds_dirty st1 = ds_dirty st0" for ms st0 st1
    using keeps_due_same [OF that] keeps_due_fold [of "DeviceService_Mark env", OF keeps_due_Mark] by (rule keeps_due_trans)
  then show ?thesis by (simp add: scan_inactive_def case_prod_beta Let_def keeps_due_same)
qed

lemma keeps_due_message: "keeps_due st (DeviceService_HandleMessage env m st)"
  by (auto simp: DeviceService_HandleMessage_def case_prod_beta Let_def keeps_due_same
      split: sum.split option.split intro!: keeps_due_mark_if)

text \<open>
  Every write handed to the database belongs to the device it is filed under.
\<close>

definition submitted_keyed :: "DeviceService \<Rightarrow> bool" where
  "submitted_keyed st \<longleftrightarrow> (\<forall>d w. fmlookup (ds_submitted st) d = Some w \<longrightarrow> dr_device_id (dw_record w) = d)"

lemma completed_due:
  assumes "submitted_keyed st"
  shows "due st d f \<le> due (on_write_completed env d' r st) d f \<or> d' = d \<and> due st d f \<le> r"
proof (cases "fmlookup (ds_submitted st) d'")
  case None
  then show ?thesis by (simp add: on_write_completed_def due_def report_defs Let_def split: option.split)
next
  case (Some w)
  then have w: "dr_device_id (dw_record w) = d'" using assms by (simp add: submitted_keyed_def)
  have "ds_dirty (on_write_completed env d' r st) = (if dw_revision w \<le> r then Complete w (ds_dirty st) else ds_dirty st)"
    using Some by (simp add: on_write_completed_def complete_write_def due_def report_defs Let_def split: option.split)
  then show ?thesis
    using apply_op_pending [OF order_refl, of "ds_dirty st" d f "CompleteOp w"] w
    by (auto simp: due_def confirms_def)
qed

lemma submitted_keyed_upd:
  "submitted_keyed st \<Longrightarrow> ds_submitted st' = fmupd (dr_device_id (dw_record w)) w (ds_submitted st) \<Longrightarrow> submitted_keyed st'"
  "submitted_keyed st \<Longrightarrow> ds_submitted st' = fmdrop d (ds_submitted st) \<Longrightarrow> submitted_keyed st'"
  "submitted_keyed st \<Longrightarrow> ds_submitted st' = ds_submitted st \<Longrightarrow> submitted_keyed st'"
  "ds_submitted st' = fmempty \<Longrightarrow> submitted_keyed st'"
  by (auto simp: submitted_keyed_def split: if_splits)

lemma submitted_keyed_SubmitWrite: "submitted_keyed st \<Longrightarrow> submitted_keyed (snd (SubmitWrite env w st))"
  by (simp add: submitted_keyed_def SubmitWrite_def Let_def report_defs split: option.split)

lemma submitted_keyed_send: "submitted_keyed st \<Longrightarrow> submitted_keyed (snd (send_writes env ws st))"
  by (induction ws arbitrary: st) (simp_all add: case_prod_beta Let_def submitted_keyed_SubmitWrite)

lemma submitted_keyed_Dispatch: "submitted_keyed st \<Longrightarrow> submitted_keyed (DispatchWrites env st)"
proof -
  have [simp]: "submitted_keyed (s\<lparr>ds_dirty := a\<rparr>) = submitted_keyed s"
    "submitted_keyed (s\<lparr>ds_drain_dispatch_pending := b\<rparr>) = submitted_keyed s"
    "submitted_keyed (s\<lparr>ds_drain_submission_blocked := c\<rparr>) = submitted_keyed s" for s a b c
    by (simp_all add: submitted_keyed_def)
  show "submitted_keyed st \<Longrightarrow> ?thesis"
    by (simp add: DispatchWrites_def case_prod_beta Let_def submitted_keyed_send)
qed

lemma submitted_keyed_recovered:
  assumes "submitted_keyed st"
  shows "submitted_keyed (on_recovered env st)"
proof -
  let ?f = "\<lambda>d s. case Find (ds_registry s) d of None \<Rightarrow> s | Some r \<Rightarrow> snd (SubmitWrite env (recovery_write r) s)"
  have step: "submitted_keyed s \<Longrightarrow> submitted_keyed (?f d s)" for d s
    by (simp add: submitted_keyed_SubmitWrite split: option.split)
  have "submitted_keyed s \<Longrightarrow> submitted_keyed (fold ?f ds s)" for ds s
  proof (induction ds arbitrary: s)
    case (Cons d ds)
    from Cons.IH [OF step [OF Cons.prems]] show ?case by simp
  qed simp
  moreover have "submitted_keyed (st\<lparr>ds_database_unavailable := False\<rparr>)" using assms by (rule submitted_keyed_upd) simp
  ultimately show ?thesis by (simp add: on_recovered_def Let_def)
qed

lemma submitted_keyed_act:
  assumes "submitted_keyed st"
  shows "submitted_keyed (device_act env e st)"
proof (cases e)
  case (Result r)
  have "ds_submitted (on_write_completed env d v st) \<in> {ds_submitted st, fmdrop d (ds_submitted st)}" for d v
    by (simp add: on_write_completed_def complete_write_def report_defs Let_def split: option.split)
  then have "submitted_keyed (on_write_completed env d v st)" for d v
    using submitted_keyed_upd(2,3) [OF assms] by blast
  moreover have "submitted_keyed (on_unavailable env r st)" "submitted_keyed (on_permanent_failure env r st)"
    using assms by (auto simp: on_unavailable_def on_permanent_failure_def Let_def DeviceService_Diagnose_def
        submitted_keyed_def split: option.split)
  moreover have "submitted_keyed (on_provisioned env d p st)" for d p
    using assms by (auto simp: on_provisioned_def case_prod_beta Let_def submitted_keyed_def split: option.split sum.split)
  ultimately show ?thesis
    using Result assms submitted_keyed_recovered
    by (simp add: DeviceService_HandleResult_def split: DatabaseResultKind.split option.split)
next
  case (Message m)
  then show ?thesis
    using assms by (auto simp: DeviceService_HandleMessage_def case_prod_beta Let_def submitted_keyed_def
        split: sum.split option.split)
next
  case (ScanInactive now)
  then show ?thesis
    using assms by (simp add: scan_inactive_def case_prod_beta Let_def submitted_keyed_def fold_frame)
next
  case Dispatch
  then show ?thesis using assms by (simp add: submitted_keyed_Dispatch)
qed (use assms in \<open>simp_all add: submitted_keyed_def cancel_work_def\<close>)

lemma submitted_keyed_run: "submitted_keyed st \<Longrightarrow> submitted_keyed (fold (device_act env) evs st)"
  by (induction evs arbitrary: st) (simp_all add: submitted_keyed_act)

subsection \<open>The counter of outstanding work\<close>

definition work :: "DeviceService \<Rightarrow> nat" where
  "work st = submitted_count (ds_pending st) + fmsize (ds_submitted st)"

definition balanced :: "DeviceService \<Rightarrow> bool" where
  "balanced st \<longleftrightarrow> ds_outstanding st = of_nat (work st)"

definition submitted_keys :: "(string, PendingRegistration) fmap \<Rightarrow> string set" where
  "submitted_keys m = {k. \<exists>p. fmlookup m k = Some p \<and> pr_submitted p}"

lemma submitted_keys_finite [simp]: "finite (submitted_keys m)"
  by (rule finite_subset [of _ "fmdom' m"]) (auto simp: submitted_keys_def fmdom'_lookup)

lemma submitted_count_card: "submitted_count m = card (submitted_keys m)"
proof -
  have "fmdom' (fmfilter (\<lambda>k. case fmlookup m k of None \<Rightarrow> False | Some p \<Rightarrow> pr_submitted p) m) = submitted_keys m"
    by (auto simp: submitted_keys_def fmdom'_lookup fmlookup_filter split: option.splits if_splits)
  then show ?thesis by (simp add: submitted_count_def fmsize_card)
qed

lemma submitted_keys_ops:
  "submitted_keys fmempty = {}" "submitted_keys (fmdrop d m) = submitted_keys m - {d}"
  "submitted_keys (fmupd d p m) = (if pr_submitted p then insert d (submitted_keys m) else submitted_keys m - {d})"
  "submitted_keys (fmmap (\<lambda>p. p\<lparr>pr_submitted := False\<rparr>) m) = {}"
  by (auto simp: submitted_keys_def split: if_splits)

lemma submitted_count_empty [simp]: "submitted_count fmempty = 0"
  by (simp add: submitted_count_card submitted_keys_ops)

lemma submitted_count_drop:
  "fmlookup m d = Some p \<Longrightarrow>
   of_nat (submitted_count (fmdrop d m)) = (of_nat (submitted_count m) - (if pr_submitted p then 1 else 0) :: 64 word)"
proof -
  assume p: "fmlookup m d = Some p"
  show ?thesis
  proof (cases "pr_submitted p")
    case True
    then have "submitted_keys m = insert d (submitted_keys (fmdrop d m))" "d \<notin> submitted_keys (fmdrop d m)"
      using p by (auto simp: submitted_keys_ops) (simp add: submitted_keys_def)
    then have "submitted_count m = Suc (submitted_count (fmdrop d m))" by (simp add: submitted_count_card)
    with True show ?thesis by simp
  next
    case False
    then have "submitted_keys (fmdrop d m) = submitted_keys m"
      using p by (auto simp: submitted_keys_ops) (simp add: submitted_keys_def)
    with False show ?thesis by (simp add: submitted_count_card)
  qed
qed

lemma submitted_count_upd:
  assumes "pr_submitted p \<longleftrightarrow> d \<in> submitted_keys m"
  shows "submitted_count (fmupd d p m) = submitted_count m"
  using assms by (simp add: submitted_count_card submitted_keys_ops insert_absorb)

lemma submitted_count_set:
  assumes "d \<notin> submitted_keys m"
  shows "submitted_count (fmupd d p m) = submitted_count m + (if pr_submitted p then 1 else 0)"
  using assms by (simp add: submitted_count_card submitted_keys_ops)

lemma fmsize_drop_word: "fmlookup m d \<noteq> None \<Longrightarrow> of_nat (fmsize (fmdrop d m)) = (of_nat (fmsize m) - 1 :: 64 word)"
proof -
  assume "fmlookup m d \<noteq> None"
  moreover from this have "fmsize m \<noteq> 0" by (auto simp: fmsize_0_iff)
  ultimately show ?thesis by (simp add: fmsize_drop)
qed

lemma balanced_same:
  "ds_pending st' = ds_pending st \<Longrightarrow> ds_submitted st' = ds_submitted st \<Longrightarrow> ds_outstanding st' = ds_outstanding st \<Longrightarrow>
   balanced st' = balanced st"
  by (simp add: balanced_def work_def)

lemma balanced_SubmitWrite: "balanced st \<Longrightarrow> balanced (snd (SubmitWrite env w st))"
  by (auto simp: balanced_def work_def SubmitWrite_def Let_def report_defs fmsize_upd split: option.split)

lemma balanced_send: "balanced st \<Longrightarrow> balanced (snd (send_writes env ws st))"
  by (induction ws arbitrary: st) (simp_all add: case_prod_beta Let_def balanced_SubmitWrite)

lemma balanced_flags [simp]:
  "balanced (st\<lparr>ds_dirty := a\<rparr>) = balanced st" "balanced (st\<lparr>ds_drain_dispatch_pending := b\<rparr>) = balanced st"
  "balanced (st\<lparr>ds_drain_submission_blocked := c\<rparr>) = balanced st" "balanced (st\<lparr>ds_database_unavailable := c\<rparr>) = balanced st"
  by (simp_all add: balanced_def work_def)

lemma balanced_Dispatch: "balanced st \<Longrightarrow> balanced (DispatchWrites env st)"
  by (simp add: DispatchWrites_def case_prod_beta Let_def balanced_send)

lemma balanced_recovered:
  assumes "balanced st"
  shows "balanced (on_recovered env st)"
proof -
  let ?f = "\<lambda>d s. case Find (ds_registry s) d of None \<Rightarrow> s | Some r \<Rightarrow> snd (SubmitWrite env (recovery_write r) s)"
  have step: "balanced s \<Longrightarrow> balanced (?f d s)" for d s
    by (simp add: balanced_SubmitWrite split: option.split)
  have "balanced s \<Longrightarrow> balanced (fold ?f ds s)" for ds s
  proof (induction ds arbitrary: s)
    case (Cons d ds)
    from Cons.IH [OF step [OF Cons.prems]] show ?case by simp
  qed simp
  with assms show ?thesis by (simp add: on_recovered_def Let_def)
qed

lemma balanced_unavailable: "balanced st \<Longrightarrow> balanced (on_unavailable env r st)"
  by (simp add: balanced_def work_def on_unavailable_def Let_def DeviceService_Diagnose_def)

lemma balanced_permanent: "balanced st \<Longrightarrow> balanced (on_permanent_failure env r st)"
  by (cases "fmlookup (ds_pending st) (dbr_device_id r)"; cases "dbr_device_id r")
    (simp_all add: on_permanent_failure_def Let_def DeviceService_Diagnose_def balanced_def work_def
      fmsize_drop_word submitted_count_drop)

lemma balanced_completed: "balanced st \<Longrightarrow> balanced (on_write_completed env d v st)"
proof -
  assume ok: "balanced st"
  have "balanced (complete_write d v w st)" if "fmlookup (ds_submitted st) d = Some w" for w
    using ok that by (simp add: complete_write_def Let_def report_defs balanced_def work_def fmsize_drop_word split: option.split)
  with ok show ?thesis
    by (simp add: on_write_completed_def Let_def report_defs balanced_def work_def split: option.split)
qed

text \<open>The registry refuses a record that the database has provisioned for a registration under way.\<close>

definition refused :: "device_event \<Rightarrow> DeviceService \<Rightarrow> bool" where
  "refused e st \<longleftrightarrow> (\<exists>r p c. e = Result r \<and> dbr_kind r = ResProvisioned \<and> dbr_provisioned r = Some p \<and>
     fmlookup (ds_pending st) (dbr_device_id r) = Some c \<and> pr_submitted c \<and>
     \<not> has_value (fst (AddProvisioned p (ds_registry st))))"

lemma balanced_provisioned:
  assumes "balanced st"
    and "\<And>c. fmlookup (ds_pending st) d = Some c \<Longrightarrow> pr_submitted c \<Longrightarrow> has_value (fst (AddProvisioned p (ds_registry st)))"
  shows "balanced (on_provisioned env d p st)"
  using assms
  by (auto simp: on_provisioned_def case_prod_beta Let_def balanced_def work_def submitted_count_drop has_value_iff
      split: option.split sum.split)

lemma balanced_message: "balanced st \<Longrightarrow> balanced (DeviceService_HandleMessage env m st)"
  by (auto simp: DeviceService_HandleMessage_def case_prod_beta Let_def balanced_def work_def submitted_count_upd
      submitted_keys_def split: sum.split option.split)

lemma balanced_provision:
  "balanced st \<Longrightarrow> balanced (submit_provision env d st)"
  by (auto simp: submit_provision_def Let_def balanced_def work_def DeviceService_Diagnose_def submitted_count_set
      submitted_keys_def split: option.split call_outcome.split)

lemma balanced_provisions: "balanced st \<Longrightarrow> balanced (submit_provisions env st)"
proof -
  have "balanced s \<Longrightarrow> balanced (fold (submit_provision env) ds s)" for ds s
    by (induction ds arbitrary: s) (simp_all add: balanced_provision)
  then show "balanced st \<Longrightarrow> ?thesis" by (simp add: submit_provisions_def)
qed

lemma balanced_act:
  assumes "balanced st" "\<not> refused e st"
  shows "balanced (device_act env e st)"
proof (cases e)
  case (Result r)
  have "balanced (on_provisioned env (dbr_device_id r) p st)" if "dbr_kind r = ResProvisioned" "dbr_provisioned r = Some p" for p
    using assms that Result by (intro balanced_provisioned) (auto simp: refused_def)
  with Result assms(1) show ?thesis
    by (simp add: DeviceService_HandleResult_def balanced_unavailable balanced_permanent balanced_recovered
        balanced_completed split: DatabaseResultKind.split option.split)
next
  case (ScanInactive now)
  have "balanced (scan_inactive env now st) = balanced st"
    by (rule balanced_same) (simp_all add: scan_inactive_def case_prod_beta Let_def fold_frame)
  with ScanInactive assms(1) show ?thesis by simp
next
  case ServeSnapshot
  then show ?thesis using assms(1) balanced_same [of "serve_snapshot env st" st] by simp
next
  case CancelWork
  then show ?thesis
    using assms(1) by (simp add: cancel_work_def balanced_def work_def submitted_count_card submitted_keys_ops)
qed (use assms(1) in \<open>simp_all add: balanced_message balanced_provisions balanced_Dispatch\<close>,
    simp_all add: balanced_def work_def)

fun never_refused :: "device_env \<Rightarrow> device_event list \<Rightarrow> DeviceService \<Rightarrow> bool" where
  "never_refused env [] st = True"
| "never_refused env (e # evs) st = (\<not> refused e st \<and> never_refused env evs (device_act env e st))"

lemma balanced_run: "never_refused env evs st \<Longrightarrow> balanced st \<Longrightarrow> balanced (fold (device_act env) evs st)"
  by (induction evs arbitrary: st) (simp_all add: balanced_act)

lemma new_service [simp]:
  "ds_registry (DeviceService_new reg q c) = reg" "ds_submitted (DeviceService_new reg q c) = fmempty"
  "ds_pending (DeviceService_new reg q c) = fmempty" "ds_outstanding (DeviceService_new reg q c) = 0"
  by (simp_all add: DeviceService_new_def Let_def split: sum.split)

lemma new_service_ok [simp]: "balanced (DeviceService_new reg q c)" "submitted_keyed (DeviceService_new reg q c)"
  by (simp_all add: balanced_def work_def submitted_keyed_def)

subsection \<open>Properties\<close>


definition demo_device_env :: device_env where
  "demo_device_env =
     \<lparr>dv_lib = \<lparr>jparse = (\<lambda>_. None), jdump = (\<lambda>_. []), jeq = (=)\<rparr>, dv_provision = (\<lambda>n r t. Returned True), dv_write = (\<lambda>n w. Returned True),
      dv_event = (\<lambda>n s. Returned True), dv_snapshots = None, dv_steady = (\<lambda>n. int n * 10000000000),
      dv_restore_clock = (\<lambda>n. int n), dv_order = (\<lambda>n ks. ks), dv_topic_namespace = ''cns'',
      dv_telemetry_interval = 5, dv_offline_timeout = 60\<rparr>"

definition demo_queue :: "InboundMessage BoundedQueue" where
  "demo_queue = \<lparr>bq_capacity = 4, bq_queue = [], bq_closed = False\<rparr>"



text \<open>
  C29. A device appears in the registry only when the database has provisioned it for a registration
  that is waiting; no message, scan or other result adds or removes a device.
\<close>
theorem devices_only_by_provisioning:
  fixes env :: device_env and evs :: "device_event list" and q :: "InboundMessage BoundedQueue" and clock :: "call_outcome + int"
    and e :: device_event
  assumes "registry_reachable reg"
  defines "st \<equiv> fold (device_act env) evs (DeviceService_new reg q clock)"
  shows "fmdom' (rg_records (ds_registry (device_act env e st))) = fmdom' (rg_records (ds_registry st)) \<or>
         (\<exists>r p. e = Result r \<and> dbr_kind r = ResProvisioned \<and> dbr_provisioned r = Some p \<and>
            fmlookup (ds_pending st) (dbr_device_id r) \<noteq> None \<and>
            fmdom' (rg_records (ds_registry (device_act env e st))) =
              insert (dr_device_id p) (fmdom' (rg_records (ds_registry st))))"
proof -
  have "registry_step\<^sup>*\<^sup>* reg (ds_registry st)"
    using device_run_registry [of "DeviceService_new reg q clock"] unfolding st_def by simp
  then have "registry_ok (ds_registry st)"
    using assms(1) by (intro registry_reachable_ok) (rule registry_reachable_run)
  from device_act_known [OF this, of env e] show ?thesis by (auto simp: known_def provisions_def)
qed

theorem devices_only_by_provisioning_witness:
  "fmdom' (rg_records (ds_registry (scan_inactive demo_device_env 5 (DeviceService_new demo_registry demo_queue (Inr 0))))) =
   fmdom' (rg_records demo_registry)"
  using devices_only_by_provisioning [OF demo_reachable, of demo_device_env "ScanInactive 5" "[]" demo_queue "Inr 0"] by simp

text \<open>
  C28. The counter of outstanding work is exact: as long as the registry has refused no provisioned record,
  it equals, modulo the width of \<^verbatim>\<open>size_t\<close>, the number of registrations and writes the database has been
  given and not answered; so \<^verbatim>\<open>WaitForDatabaseIdle\<close> returns only when there are none.
\<close>
theorem outstanding_exact:
  assumes "never_refused env evs (DeviceService_new reg q clock)"
  defines "st \<equiv> fold (device_act env) evs (DeviceService_new reg q clock)"
  shows "ds_outstanding st = of_nat (submitted_count (ds_pending st) + fmsize (ds_submitted st)) \<and>
         (submitted_count (ds_pending st) + fmsize (ds_submitted st) < 2 ^ 64 \<longrightarrow> device_database_idle st \<longrightarrow>
            submitted_count (ds_pending st) = 0 \<and> ds_submitted st = fmempty)"
proof -
  have "balanced st" unfolding st_def using assms(1) by (rule balanced_run) simp
  then have count: "ds_outstanding st = of_nat (work st)" by (simp add: balanced_def)
  have "work st = 0" if "work st < 2 ^ 64" "device_database_idle st"
  proof -
    have "unat (of_nat (work st) :: 64 word) = 0" using that(2) count by (simp add: device_database_idle_def)
    with that(1) show ?thesis by (simp add: unat_of_nat)
  qed
  with count show ?thesis by (simp add: work_def fmsize_0_iff)
qed

theorem outstanding_exact_witness:
  "ds_outstanding (fold (device_act demo_device_env) [ScanInactive 100000000000, Dispatch]
     (DeviceService_new demo_registry demo_queue (Inr 0))) =
   of_nat (fmsize (ds_submitted (fold (device_act demo_device_env) [ScanInactive 100000000000, Dispatch]
     (DeviceService_new demo_registry demo_queue (Inr 0)))))"
proof -
  let ?evs = "[ScanInactive 100000000000, Dispatch]"
  have "never_refused demo_device_env ?evs (DeviceService_new demo_registry demo_queue (Inr 0))"
    by (simp add: refused_def)
  from outstanding_exact [OF this] show ?thesis by (simp add: scan_inactive_def case_prod_beta Let_def fold_frame)
qed

text \<open>
  C35. When the registry refuses a provisioned record, the registration stays filed as submitted although
  its work has been taken off the counter. If the database then becomes unavailable, the counter is
  decremented once more and wraps to its largest value: from then on the service never looks idle.
\<close>
theorem refused_provision_wraps:
  fixes env :: device_env and rev rev' :: "64 word" and err err' d' :: string
  assumes "fmlookup (ds_pending st) d = Some c" "pr_submitted c" "submitted_count (ds_pending st) = 1"
    and "ds_submitted st = fmempty" "ds_outstanding st = 1"
    and "AddProvisioned p (ds_registry st) = (Inl e, reg')"
  defines "st' \<equiv> DeviceService_HandleResult env \<lparr>dbr_kind = ResProvisioned, dbr_device_id = d, dbr_revision = rev,
      dbr_provisioned = Some p, dbr_error = err\<rparr> st"
  defines "st'' \<equiv> DeviceService_HandleResult env \<lparr>dbr_kind = ResUnavailable, dbr_device_id = d', dbr_revision = rev',
      dbr_provisioned = None, dbr_error = err'\<rparr> st'"
  shows "ds_outstanding st' = 0 \<and> submitted_count (ds_pending st') = 1 \<and>
         ds_outstanding st'' = - 1 \<and> ds_pending st'' = fmempty \<and> \<not> device_database_idle st''"
proof -
  have st': "ds_outstanding st' = 0" "ds_pending st' = ds_pending st"
    using assms by (simp_all add: st'_def DeviceService_HandleResult_def on_provisioned_def)
  then have "ds_outstanding st'' = - 1 \<and> ds_pending st'' = fmempty"
    using assms(3) by (simp add: st''_def DeviceService_HandleResult_def on_unavailable_def Let_def DeviceService_Diagnose_def)
  with st' assms(3) show ?thesis by (simp add: device_database_idle_def)
qed

definition clash :: DeviceRecord where
  "clash = demo_device ''c'' (Some ''L'')"

theorem refused_provision_wraps_witness:
  "ds_outstanding (fold (device_act demo_device_env)
     [Result \<lparr>dbr_kind = ResProvisioned, dbr_device_id = ''c'', dbr_revision = 0, dbr_provisioned = Some clash, dbr_error = []\<rparr>,
      Result \<lparr>dbr_kind = ResUnavailable, dbr_device_id = [], dbr_revision = 0, dbr_provisioned = None, dbr_error = []\<rparr>]
     ((DeviceService_new demo_registry demo_queue (Inr 0))
        \<lparr>ds_pending := fmupd ''c'' \<lparr>pr_registration = demo_registration, pr_received_at = 0, pr_submitted = True\<rparr> fmempty,
         ds_outstanding := 1\<rparr>)) = - 1"
proof -
  let ?c = "\<lparr>pr_registration = demo_registration, pr_received_at = 0, pr_submitted = True\<rparr>"
  let ?st = "(DeviceService_new demo_registry demo_queue (Inr 0))\<lparr>ds_pending := fmupd ''c'' ?c fmempty, ds_outstanding := 1\<rparr>"
  have "submitted_count (ds_pending ?st) = 1" by (simp add: submitted_count_card submitted_keys_ops)
  moreover have "AddProvisioned clash demo_registry = (Inl (msg_role_conflict @ ''L''), demo_registry)"
    by (simp add: AddProvisioned_def clash_def demo_device_def)
  ultimately show ?thesis
    using refused_provision_wraps [of ?st "''c''" ?c clash "msg_role_conflict @ ''L''" demo_registry demo_device_env 0 "[]" "[]" 0 "[]"]
    by simp
qed

text \<open>
  A call of \<^verbatim>\<open>ProcessReady\<close> ends; it has then handled every database result and message that was
  waiting, and is no longer marked as processing.
\<close>
theorem device_ProcessReady_drains:
  "ds_results (DeviceService_ProcessReady env now st) = [] \<and>
   bq_queue (ds_mqtt_queue (DeviceService_ProcessReady env now st)) = [] \<and>
   \<not> ds_processing_ready (DeviceService_ProcessReady env now st)"
proof -
  have results: "ds_results (DeviceService_HandleResult env r s) = ds_results s"
    "ds_mqtt_queue (DeviceService_HandleResult env r s) = ds_mqtt_queue s" for r s
    by (simp_all add: DeviceService_HandleResult_def on_provisioned_def case_prod_beta Let_def
        split: DatabaseResultKind.split option.split sum.split)
  have messages: "ds_results (DeviceService_HandleMessage env m s) = ds_results s"
    "ds_mqtt_queue (DeviceService_HandleMessage env m s) = ds_mqtt_queue s" for m s
    by (simp_all add: DeviceService_HandleMessage_def case_prod_beta Let_def split: sum.split option.split)
  have provision: "ds_results (submit_provision env d s) = ds_results s" "ds_mqtt_queue (submit_provision env d s) = ds_mqtt_queue s" for d s
    by (simp_all add: submit_provision_def Let_def DeviceService_Diagnose_def split: option.split call_outcome.split)
  have rest: "ds_results (serve_snapshot env s) = ds_results s" "ds_mqtt_queue (serve_snapshot env s) = ds_mqtt_queue s"
    "ds_results (scan_inactive env now s) = ds_results s" "ds_mqtt_queue (scan_inactive env now s) = ds_mqtt_queue s"
    "ds_results (submit_provisions env s) = ds_results s" "ds_mqtt_queue (submit_provisions env s) = ds_mqtt_queue s"
    "ds_results (cancel_work s) = ds_results s" for s
    by (simp_all add: serve_snapshot_def PublishCurrentSnapshot_def scan_inactive_def submit_provisions_def cancel_work_def
        case_prod_beta Let_def fold_frame provision split: option.split)
  show ?thesis
    by (simp add: DeviceService_ProcessReady_def Let_def rest handle_messages_def handle_results_def drain_all
        fold_frame results messages)
qed

end
