(* ===== verification/Postgres_Worker.thy ===== *)
theory Postgres_Worker
  imports Database_Port Device_Service
begin

text \<open>
  \<^verbatim>\<open>core/runtime/postgres_worker.cpp\<close>: the only thread that talks to the database. Other threads
  hand it registrations, device writes and command tasks; it executes one job at a time, answers through
  callbacks, and after a connection failure waits for the reconnection.

  A round of \<^verbatim>\<open>Run\<close> has two halves, because the store is called without the lock: \<open>pick_job\<close> takes a
  job under the lock, \<open>finish_job\<close> calls the store and files the outcome; submissions of other threads may
  come in between. The store port is a parameter, as are the callbacks; each of their answers may depend
  on how many calls came before. Waiting on the condition variable changes no state.
\<close>

datatype 'a port_outcome = PortReturned 'a | PortThrew | PortThrewUnknown

record ProvisionTask =
  pt_registration :: Registration
  pt_received_at :: int

record StorePort =
  sp_Provision :: "nat \<Rightarrow> Registration \<Rightarrow> int \<Rightarrow> (DatabaseError + DeviceRecord) port_outcome"
  sp_Write :: "nat \<Rightarrow> DesiredDeviceWrite \<Rightarrow> (DatabaseError + unit) port_outcome"
  sp_ReconnectAndValidate :: "nat \<Rightarrow> (DatabaseError + unit) port_outcome"
  sp_FindCommand :: "nat \<Rightarrow> string \<Rightarrow> string \<Rightarrow> (DatabaseError + CommandRecord option) port_outcome"
  sp_FindCommandById :: "nat \<Rightarrow> string \<Rightarrow> (DatabaseError + CommandRecord option) port_outcome"
  sp_InsertCommand :: "nat \<Rightarrow> CommandRecord \<Rightarrow> (DatabaseError + CommandRecord) port_outcome"
  sp_TransitionCommand ::
    "nat \<Rightarrow> string \<Rightarrow> CommandStatus \<Rightarrow> CommandStatus \<Rightarrow> CommandUpdate \<Rightarrow> (DatabaseError + CommandRecord) port_outcome"
  sp_RecoverControlCommands :: "nat \<Rightarrow> int \<Rightarrow> nat \<Rightarrow> (DatabaseError + CommandRecord list) port_outcome"
  sp_CleanupCommands :: "nat \<Rightarrow> int \<Rightarrow> nat \<Rightarrow> (DatabaseError + nat) port_outcome"

datatype worker_effect =
    EmitResult DatabaseResult
  | EmitCommandResult CommandDatabaseResult
  | ReplayCall
  | WorkerDiagnostic string

record worker_env =
  wk_store :: StorePort
  wk_results :: "nat \<Rightarrow> DatabaseResult \<Rightarrow> call_outcome"
  wk_command_results :: "(nat \<Rightarrow> CommandDatabaseResult \<Rightarrow> call_outcome) option"
  wk_replay :: "nat \<Rightarrow> call_outcome"
  wk_steady :: "nat \<Rightarrow> int"
  wk_order :: "nat \<Rightarrow> string list \<Rightarrow> string list"
  wk_reconnect_interval :: int
  wk_max_inflight_commands :: nat

record PostgresWorker =
  pw_provisions :: "(string, ProvisionTask) fmap"
  pw_writes :: "(string, DesiredDeviceWrite) fmap"
  pw_provisioning :: "string fset"
  pw_commands :: "(64 word \<times> CommandDatabaseTask) list"
  pw_command_operations :: "64 word fset"
  pw_accepting :: bool
  pw_unavailable :: bool
  pw_drain_requested :: bool
  pw_worker_stopped :: bool
  pw_reconnect_at :: int
  pw_effects :: "worker_effect list"

definition PostgresWorker_new :: PostgresWorker where
  "PostgresWorker_new =
     \<lparr>pw_provisions = fmempty, pw_writes = fmempty, pw_provisioning = {||}, pw_commands = [],
      pw_command_operations = {||}, pw_accepting = True, pw_unavailable = False, pw_drain_requested = False,
      pw_worker_stopped = False, pw_reconnect_at = 0, pw_effects = []\<rparr>"

definition worker_calls :: "PostgresWorker \<Rightarrow> nat" where
  "worker_calls st = length (pw_effects st)"

definition worker_emit :: "worker_effect \<Rightarrow> PostgresWorker \<Rightarrow> PostgresWorker" where
  "worker_emit e st = st\<lparr>pw_effects := pw_effects st @ [e]\<rparr>"

definition Worker_Diagnose :: "string \<Rightarrow> PostgresWorker \<Rightarrow> PostgresWorker" where
  "Worker_Diagnose message st = worker_emit (WorkerDiagnostic message) st"

definition worker_diagnose_if :: "string option \<Rightarrow> PostgresWorker \<Rightarrow> PostgresWorker" where
  "worker_diagnose_if message st = (case message of None \<Rightarrow> st | Some m \<Rightarrow> Worker_Diagnose m st)"

definition Emit :: "worker_env \<Rightarrow> DatabaseResult \<Rightarrow> PostgresWorker \<Rightarrow> PostgresWorker" where
  "Emit env result st =
     worker_diagnose_if (threw_message (wk_results env (worker_calls st) result) msg_result_threw msg_result_threw_unknown)
       (worker_emit (EmitResult result) st)"

definition EmitCommand :: "worker_env \<Rightarrow> CommandDatabaseResult \<Rightarrow> PostgresWorker \<Rightarrow> PostgresWorker" where
  "EmitCommand env result st =
     (case wk_command_results env of
        None \<Rightarrow> st
      | Some sink \<Rightarrow>
          worker_diagnose_if
            (threw_message (sink (worker_calls st) result) msg_command_result_threw msg_command_result_threw_unknown)
            (worker_emit (EmitCommandResult result) st))"

definition Finish :: "PostgresWorker \<Rightarrow> PostgresWorker" where
  "Finish st = st\<lparr>pw_worker_stopped := True, pw_accepting := False\<rparr>"

definition merge_into :: "DesiredDeviceWrite \<Rightarrow> DesiredDeviceWrite \<Rightarrow> DesiredDeviceWrite" where
  "merge_into write current =
     (let flagged = current\<lparr>dw_write_metadata := dw_write_metadata current \<or> dw_write_metadata write,
                            dw_write_status := dw_write_status current \<or> dw_write_status write,
                            dw_write_telemetry := dw_write_telemetry current \<or> dw_write_telemetry write\<rparr>;
          newer = (if dw_revision write \<ge> dw_revision flagged
                   then flagged\<lparr>dw_record := dw_record write, dw_revision := dw_revision write\<rparr> else flagged)
      in if dw_urgency write = Immediate then newer\<lparr>dw_urgency := Immediate\<rparr> else newer)"

definition MergeWrite :: "DesiredDeviceWrite \<Rightarrow> PostgresWorker \<Rightarrow> PostgresWorker" where
  "MergeWrite write st =
     (let device_id = dr_device_id (dw_record write)
      in case fmlookup (pw_writes st) device_id of
           None \<Rightarrow> st\<lparr>pw_writes := fmupd device_id write (pw_writes st)\<rparr>
         | Some current \<Rightarrow> st\<lparr>pw_writes := fmupd device_id (merge_into write current) (pw_writes st)\<rparr>)"

definition Worker_HasWork :: "PostgresWorker \<Rightarrow> bool" where
  "Worker_HasWork st \<longleftrightarrow> pw_commands st \<noteq> [] \<or> pw_provisions st \<noteq> fmempty \<or> pw_writes st \<noteq> fmempty"

subsection \<open>Submissions\<close>

definition SubmitProvision :: "Registration \<Rightarrow> int \<Rightarrow> PostgresWorker \<Rightarrow> bool \<times> PostgresWorker" where
  "SubmitProvision registration at st =
     (let device_id = reg_device_id registration
      in if \<not> pw_accepting st \<or> pw_unavailable st then (False, st)
         else if device_id |\<in>| pw_provisioning st then (False, st)
         else (True, st\<lparr>pw_provisions :=
                fmupd device_id \<lparr>pt_registration = registration, pt_received_at = at\<rparr> (pw_provisions st)\<rparr>))"

definition Worker_SubmitWrite :: "DesiredDeviceWrite \<Rightarrow> PostgresWorker \<Rightarrow> bool \<times> PostgresWorker" where
  "Worker_SubmitWrite write st =
     (if \<not> pw_accepting st then (False, st) else (True, MergeWrite write st))"

definition SubmitCommand ::
    "worker_env \<Rightarrow> 64 word \<Rightarrow> CommandDatabaseTask \<Rightarrow> PostgresWorker \<Rightarrow> bool \<times> PostgresWorker" where
  "SubmitCommand env operation_id task st =
     (if \<not> pw_accepting st \<or> operation_id |\<in>| pw_command_operations st \<or>
         fcard (pw_command_operations st) \<ge> wk_max_inflight_commands env
      then (False, st)
      else (True, st\<lparr>pw_command_operations := finsert operation_id (pw_command_operations st),
                     pw_commands := pw_commands st @ [(operation_id, task)]\<rparr>))"

text \<open>What \<^verbatim>\<open>FlushAndStop\<close> requests before it waits for the worker to stop.\<close>

definition FlushAndStop :: "PostgresWorker \<Rightarrow> PostgresWorker" where
  "FlushAndStop st = st\<lparr>pw_accepting := False, pw_drain_requested := True\<rparr>"

definition PendingDeviceCount :: "PostgresWorker \<Rightarrow> nat" where
  "PendingDeviceCount st = fcard (fmdom (pw_provisions st) |\<union>| fmdom (pw_writes st) |\<union>| pw_provisioning st)"

definition IsDatabaseAvailable :: "PostgresWorker \<Rightarrow> bool" where
  "IsDatabaseAvailable st \<longleftrightarrow> pw_accepting st \<and> \<not> pw_unavailable st"

subsection \<open>A round of the loop\<close>

datatype job =
    Reconnect
  | CommandJob "64 word" CommandDatabaseTask
  | ProvisionJob ProvisionTask
  | WriteJob DesiredDeviceWrite
  | NoJob
  | Stopped

definition first_key :: "worker_env \<Rightarrow> PostgresWorker \<Rightarrow> (string, 'v) fmap \<Rightarrow> (string \<times> 'v) option" where
  "first_key env st m =
     (case wk_order env (worker_calls st) (sorted_list_of_fset (fmdom m)) of
        [] \<Rightarrow> None
      | k # _ \<Rightarrow> (case fmlookup m k of None \<Rightarrow> None | Some v \<Rightarrow> Some (k, v)))"

definition pick_job :: "worker_env \<Rightarrow> bool \<Rightarrow> PostgresWorker \<Rightarrow> job \<times> PostgresWorker" where
  "pick_job env stop_requested st =
     (if stop_requested then (Stopped, Finish st)
      else if pw_unavailable st then
        (if wk_steady env (worker_calls st) < pw_reconnect_at st then (NoJob, st) else (Reconnect, st))
      else
        (case pw_commands st of
           (operation_id, task) # rest \<Rightarrow> (CommandJob operation_id task, st\<lparr>pw_commands := rest\<rparr>)
         | [] \<Rightarrow>
             (case first_key env st (pw_provisions st) of
                Some (key, provision) \<Rightarrow>
                  (ProvisionJob provision,
                   st\<lparr>pw_provisions := fmdrop key (pw_provisions st),
                      pw_provisioning := finsert key (pw_provisioning st)\<rparr>)
              | None \<Rightarrow>
                  (case first_key env st (pw_writes st) of
                     Some (key, write) \<Rightarrow> (WriteJob write, st\<lparr>pw_writes := fmdrop key (pw_writes st)\<rparr>)
                   | None \<Rightarrow> if pw_drain_requested st then (Stopped, Finish st) else (NoJob, st)))))"

definition permanent :: "string \<Rightarrow> DatabaseError" where
  "permanent message = \<lparr>dbe_kind = Permanent, dbe_message = message\<rparr>"

text \<open>An exception of the port counts as a permanent error.\<close>

definition port_result :: "(DatabaseError + 'a) port_outcome \<Rightarrow> string \<Rightarrow> string \<Rightarrow> DatabaseError + 'a" where
  "port_result outcome known unknown =
     (case outcome of
        PortReturned r \<Rightarrow> r
      | PortThrew \<Rightarrow> Inl (permanent known)
      | PortThrewUnknown \<Rightarrow> Inl (permanent unknown))"

definition map_port :: "('a \<Rightarrow> 'b) \<Rightarrow> (DatabaseError + 'a) port_outcome \<Rightarrow> (DatabaseError + 'b) port_outcome" where
  "map_port f outcome =
     (case outcome of
        PortReturned r \<Rightarrow> PortReturned (case r of Inl e \<Rightarrow> Inl e | Inr a \<Rightarrow> Inr (f a))
      | PortThrew \<Rightarrow> PortThrew
      | PortThrewUnknown \<Rightarrow> PortThrewUnknown)"

fun execute_command ::
    "StorePort \<Rightarrow> nat \<Rightarrow> CommandDatabaseTask \<Rightarrow> (DatabaseError + CommandDatabaseValue) port_outcome" where
  "execute_command store n (FindCommandTask source_id request_id) =
     map_port MaybeRecord (sp_FindCommand store n source_id request_id)"
| "execute_command store n (FindCommandByIdTask command_id) =
     map_port MaybeRecord (sp_FindCommandById store n command_id)"
| "execute_command store n (InsertCommandTask command) =
     map_port OneRecord (sp_InsertCommand store n command)"
| "execute_command store n (TransitionTask t) =
     map_port OneRecord (sp_TransitionCommand store n (tct_command_id t) (tct_expected t) (tct_desired t) (tct_update t))"
| "execute_command store n (RecoverControlCommandsTask recovered_at limit) =
     map_port Records (sp_RecoverControlCommands store n recovered_at limit)"
| "execute_command store n (CleanupCommandsTask before batch_size) =
     map_port RecordCount (sp_CleanupCommands store n before batch_size)"

definition lose_connection :: "worker_env \<Rightarrow> PostgresWorker \<Rightarrow> PostgresWorker" where
  "lose_connection env st =
     st\<lparr>pw_unavailable := True, pw_reconnect_at := wk_steady env (worker_calls st) + wk_reconnect_interval env,
        pw_provisions := fmempty\<rparr>"

definition failure :: "DatabaseResultKind \<Rightarrow> string \<Rightarrow> 64 word \<Rightarrow> string \<Rightarrow> DatabaseResult" where
  "failure kind device_id revision message =
     \<lparr>dbr_kind = kind, dbr_device_id = device_id, dbr_revision = revision, dbr_provisioned = None,
      dbr_error = message\<rparr>"

text \<open>The worker goes on (\<^const>\<open>True\<close>) or has stopped.\<close>

definition finish_reconnect :: "worker_env \<Rightarrow> PostgresWorker \<Rightarrow> bool \<times> PostgresWorker" where
  "finish_reconnect env st =
     (case port_result (sp_ReconnectAndValidate (wk_store env) (worker_calls st)) msg_reconnect_threw
             msg_reconnect_threw_unknown of
        Inl error \<Rightarrow>
          if dbe_kind error = Unavailable then
            (True, Worker_Diagnose msg_reconnect_unavailable
                     (st\<lparr>pw_reconnect_at := wk_steady env (worker_calls st) + wk_reconnect_interval env\<rparr>))
          else
            let st1 = Worker_Diagnose msg_migration_permanent
                        (Emit env (failure ResPermanentFailure [] 0 msg_migration_permanent) st)
            in (False, Finish (st1\<lparr>pw_accepting := False, pw_provisions := fmempty, pw_writes := fmempty,
                                   pw_commands := [], pw_command_operations := {||}\<rparr>))
      | Inr _ \<Rightarrow>
          let st1 = Emit env (failure ResRecovered [] 0 []) (st\<lparr>pw_unavailable := False\<rparr>);
              outcome = wk_replay env (worker_calls st1)
          in (True, worker_diagnose_if (threw_message outcome msg_replay_threw msg_replay_threw_unknown)
                      (worker_emit ReplayCall st1)))"

definition finish_command ::
    "worker_env \<Rightarrow> 64 word \<Rightarrow> CommandDatabaseTask \<Rightarrow> PostgresWorker \<Rightarrow> PostgresWorker" where
  "finish_command env operation_id task st =
     (let result = port_result (execute_command (wk_store env) (worker_calls st) task) msg_command_threw
                     msg_command_threw_unknown
      in if (case result of Inl error \<Rightarrow> dbe_kind error = Unavailable | Inr _ \<Rightarrow> False)
         then Worker_Diagnose msg_command_unavailable
                (lose_connection env (st\<lparr>pw_commands := (operation_id, task) # pw_commands st\<rparr>))
         else EmitCommand env \<lparr>cdr_operation_id = operation_id, cdr_value = result\<rparr>
                (st\<lparr>pw_command_operations := pw_command_operations st |-| {|operation_id|}\<rparr>))"

definition finish_provision :: "worker_env \<Rightarrow> ProvisionTask \<Rightarrow> PostgresWorker \<Rightarrow> PostgresWorker" where
  "finish_provision env provision st =
     (let device_id = reg_device_id (pt_registration provision);
          result = port_result (sp_Provision (wk_store env) (worker_calls st) (pt_registration provision)
                     (pt_received_at provision)) msg_provision_port_threw msg_provision_port_threw_unknown;
          st1 = st\<lparr>pw_provisioning := pw_provisioning st |-| {|device_id|},
                   pw_provisions := fmdrop device_id (pw_provisions st)\<rparr>
      in (case result of
            Inr record \<Rightarrow>
              Emit env \<lparr>dbr_kind = ResProvisioned, dbr_device_id = device_id, dbr_revision = dr_revision record,
                        dbr_provisioned = Some record, dbr_error = []\<rparr> st1
          | Inl error \<Rightarrow>
              let lost = (dbe_kind error = Unavailable);
                  st2 = (if lost then lose_connection env st1 else st1);
                  context = (if lost then msg_provision_unavailable else msg_provision_permanent)
              in Worker_Diagnose context
                   (Emit env (failure (if lost then ResUnavailable else ResPermanentFailure) device_id 0 context) st2)))"

definition finish_write :: "worker_env \<Rightarrow> DesiredDeviceWrite \<Rightarrow> PostgresWorker \<Rightarrow> PostgresWorker" where
  "finish_write env write st =
     (let device_id = dr_device_id (dw_record write)
      in case port_result (sp_Write (wk_store env) (worker_calls st) write) msg_write_port_threw
                msg_write_port_threw_unknown of
           Inr _ \<Rightarrow> Emit env (failure ResWriteCompleted device_id (dw_revision write) []) st
         | Inl error \<Rightarrow>
             let lost = (dbe_kind error = Unavailable);
                 st1 = (if lost then lose_connection env (MergeWrite write st) else st);
                 context = (if lost then msg_write_unavailable else msg_write_permanent)
             in Worker_Diagnose context
                  (Emit env (failure (if lost then ResUnavailable else ResPermanentFailure) device_id
                     (dw_revision write) context) st1))"

fun finish_job :: "worker_env \<Rightarrow> job \<Rightarrow> PostgresWorker \<Rightarrow> bool \<times> PostgresWorker" where
  "finish_job env Reconnect st = finish_reconnect env st"
| "finish_job env (CommandJob operation_id task) st = (True, finish_command env operation_id task st)"
| "finish_job env (ProvisionJob provision) st = (True, finish_provision env provision st)"
| "finish_job env (WriteJob write) st = (True, finish_write env write st)"
| "finish_job env NoJob st = (True, st)"
| "finish_job env Stopped st = (False, st)"

definition run_once :: "worker_env \<Rightarrow> bool \<Rightarrow> PostgresWorker \<Rightarrow> bool \<times> PostgresWorker" where
  "run_once env stop_requested st =
     (let (job, st1) = pick_job env stop_requested st in finish_job env job st1)"

text \<open>An exception that leaves the loop, from the clock port.\<close>

definition worker_threw :: "worker_env \<Rightarrow> bool \<Rightarrow> PostgresWorker \<Rightarrow> PostgresWorker" where
  "worker_threw env known st =
     Finish (Worker_Diagnose (if known then msg_worker_exit else msg_worker_exit_unknown)
       (Emit env (failure ResPermanentFailure [] 0 (if known then msg_worker_threw else msg_worker_threw_unknown)) st))"

end
