(* ===== verification/Postgres_Worker_Laws.thy ===== *)
theory Postgres_Worker_Laws
  imports Postgres_Worker
begin

text \<open>
  What the database worker promises its clients, over all interleavings of its two half rounds with
  submissions: command tasks are answered once and in order, device writes are carried until the store
  has taken or refused them, and a drain ends.
\<close>

subsection \<open>Interleavings\<close>

text \<open>
  The worker between two steps, the job its thread is executing and, for the statements, the identifiers
  of the command tasks accepted so far.
\<close>

record worker_run =
  wr_job :: "job option"
  wr_worker :: PostgresWorker
  wr_accepted :: "64 word list"

datatype worker_action =
    DoSubmitProvision Registration int
  | DoSubmitWrite DesiredDeviceWrite
  | DoSubmitCommand "64 word" CommandDatabaseTask
  | DoPick bool
  | DoFinish
  | DoFlush

fun worker_act :: "worker_env \<Rightarrow> worker_action \<Rightarrow> worker_run \<Rightarrow> worker_run" where
  "worker_act env (DoSubmitProvision r t) w = w\<lparr>wr_worker := snd (SubmitProvision r t (wr_worker w))\<rparr>"
| "worker_act env (DoSubmitWrite wd) w = w\<lparr>wr_worker := snd (Worker_SubmitWrite wd (wr_worker w))\<rparr>"
| "worker_act env (DoSubmitCommand i task) w =
     (let (ok, st) = SubmitCommand env i task (wr_worker w)
      in w\<lparr>wr_worker := st, wr_accepted := wr_accepted w @ (if ok then [i] else [])\<rparr>)"
| "worker_act env (DoPick stop) w =
     (case wr_job w of
        Some _ \<Rightarrow> w
      | None \<Rightarrow> let (job, st) = pick_job env stop (wr_worker w) in w\<lparr>wr_worker := st, wr_job := Some job\<rparr>)"
| "worker_act env DoFinish w =
     (case wr_job w of
        None \<Rightarrow> w
      | Some job \<Rightarrow>
          let (running, st) = finish_job env job (wr_worker w)
          in w\<lparr>wr_worker := st, wr_job := (if running then None else Some Stopped)\<rparr>)"
| "worker_act env DoFlush w = w\<lparr>wr_worker := FlushAndStop (wr_worker w)\<rparr>"

definition worker_start :: worker_run where
  "worker_start = \<lparr>wr_job = None, wr_worker = PostgresWorker_new, wr_accepted = []\<rparr>"

definition worker_trace :: "worker_env \<Rightarrow> worker_action list \<Rightarrow> worker_run" where
  "worker_trace env acts = fold (worker_act env) acts worker_start"

subsection \<open>What reports leave alone\<close>

lemma worker_report_frame [simp]:
  "pw_provisions (worker_emit e st) = pw_provisions st" "pw_writes (worker_emit e st) = pw_writes st"
  "pw_commands (worker_emit e st) = pw_commands st" "pw_command_operations (worker_emit e st) = pw_command_operations st"
  "pw_accepting (worker_emit e st) = pw_accepting st" "pw_unavailable (worker_emit e st) = pw_unavailable st"
  "pw_drain_requested (worker_emit e st) = pw_drain_requested st"
  "pw_worker_stopped (worker_emit e st) = pw_worker_stopped st"
  "pw_effects (worker_emit e st) = pw_effects st @ [e]"
  by (simp_all add: worker_emit_def)

fun is_answer :: "worker_effect \<Rightarrow> bool" where
  "is_answer (EmitCommandResult r) = True"
| "is_answer _ = False"

fun answer_id :: "worker_effect \<Rightarrow> 64 word" where
  "answer_id (EmitCommandResult r) = cdr_operation_id r"
| "answer_id _ = 0"

text \<open>The identifiers of the answered command tasks, in the order of the answers.\<close>

definition answered :: "PostgresWorker \<Rightarrow> 64 word list" where
  "answered st = map answer_id (filter is_answer (pw_effects st))"

lemma answered_simps [simp]:
  "answered (worker_emit e st) = answered st @ (if is_answer e then [answer_id e] else [])"
  "answered (st\<lparr>pw_provisions := a\<rparr>) = answered st" "answered (st\<lparr>pw_writes := b\<rparr>) = answered st"
  "answered (st\<lparr>pw_provisioning := c\<rparr>) = answered st" "answered (st\<lparr>pw_commands := d\<rparr>) = answered st"
  "answered (st\<lparr>pw_command_operations := e'\<rparr>) = answered st" "answered (st\<lparr>pw_accepting := f\<rparr>) = answered st"
  "answered (st\<lparr>pw_unavailable := g\<rparr>) = answered st" "answered (st\<lparr>pw_reconnect_at := h\<rparr>) = answered st"
  "answered (st\<lparr>pw_worker_stopped := i\<rparr>) = answered st" "answered (st\<lparr>pw_drain_requested := j\<rparr>) = answered st"
  by (simp_all add: answered_def)

text \<open>What \<^verbatim>\<open>Emit\<close>, \<^verbatim>\<open>Diagnose\<close> and the merge of writes do not touch.\<close>

lemma emit_frame [simp]:
  "pw_provisions (Emit env r st) = pw_provisions st" "pw_writes (Emit env r st) = pw_writes st"
  "pw_commands (Emit env r st) = pw_commands st" "pw_command_operations (Emit env r st) = pw_command_operations st"
  "pw_accepting (Emit env r st) = pw_accepting st" "pw_unavailable (Emit env r st) = pw_unavailable st"
  "pw_drain_requested (Emit env r st) = pw_drain_requested st" "pw_worker_stopped (Emit env r st) = pw_worker_stopped st"
  "answered (Emit env r st) = answered st" "EmitResult r \<in> set (pw_effects (Emit env r st))"
  by (simp_all add: Emit_def worker_diagnose_if_def Worker_Diagnose_def split: option.split)

lemma worker_diagnose_frame [simp]:
  "pw_provisions (Worker_Diagnose m st) = pw_provisions st" "pw_writes (Worker_Diagnose m st) = pw_writes st"
  "pw_commands (Worker_Diagnose m st) = pw_commands st"
  "pw_command_operations (Worker_Diagnose m st) = pw_command_operations st"
  "pw_accepting (Worker_Diagnose m st) = pw_accepting st" "pw_unavailable (Worker_Diagnose m st) = pw_unavailable st"
  "pw_drain_requested (Worker_Diagnose m st) = pw_drain_requested st"
  "pw_worker_stopped (Worker_Diagnose m st) = pw_worker_stopped st"
  "answered (Worker_Diagnose m st) = answered st"
  "pw_effects (Worker_Diagnose m st) = pw_effects st @ [WorkerDiagnostic m]"
  by (simp_all add: Worker_Diagnose_def)

lemma diagnose_if_frame [simp]:
  "pw_provisions (worker_diagnose_if m st) = pw_provisions st" "pw_writes (worker_diagnose_if m st) = pw_writes st"
  "pw_commands (worker_diagnose_if m st) = pw_commands st"
  "pw_command_operations (worker_diagnose_if m st) = pw_command_operations st"
  "pw_accepting (worker_diagnose_if m st) = pw_accepting st" "pw_unavailable (worker_diagnose_if m st) = pw_unavailable st"
  "pw_drain_requested (worker_diagnose_if m st) = pw_drain_requested st"
  "pw_worker_stopped (worker_diagnose_if m st) = pw_worker_stopped st"
  "answered (worker_diagnose_if m st) = answered st"
  by (simp_all add: worker_diagnose_if_def split: option.split)

lemma merge_frame [simp]:
  "pw_provisions (MergeWrite w st) = pw_provisions st" "pw_commands (MergeWrite w st) = pw_commands st"
  "pw_command_operations (MergeWrite w st) = pw_command_operations st"
  "pw_accepting (MergeWrite w st) = pw_accepting st" "pw_unavailable (MergeWrite w st) = pw_unavailable st"
  "pw_drain_requested (MergeWrite w st) = pw_drain_requested st"
  "pw_worker_stopped (MergeWrite w st) = pw_worker_stopped st" "answered (MergeWrite w st) = answered st"
  "pw_effects (MergeWrite w st) = pw_effects st"
  by (simp_all add: MergeWrite_def Let_def split: option.split)

lemma lose_frame [simp]:
  "pw_provisions (lose_connection env st) = fmempty" "pw_commands (lose_connection env st) = pw_commands st"
  "pw_writes (lose_connection env st) = pw_writes st"
  "pw_command_operations (lose_connection env st) = pw_command_operations st"
  "pw_accepting (lose_connection env st) = pw_accepting st" "pw_unavailable (lose_connection env st) = True"
  "pw_drain_requested (lose_connection env st) = pw_drain_requested st"
  "pw_worker_stopped (lose_connection env st) = pw_worker_stopped st" "answered (lose_connection env st) = answered st"
  "pw_effects (lose_connection env st) = pw_effects st"
  by (simp_all add: lose_connection_def)

lemma EmitCommand_frame [simp]:
  "pw_provisions (EmitCommand env r st) = pw_provisions st" "pw_writes (EmitCommand env r st) = pw_writes st"
  "pw_commands (EmitCommand env r st) = pw_commands st"
  "pw_command_operations (EmitCommand env r st) = pw_command_operations st"
  "pw_accepting (EmitCommand env r st) = pw_accepting st" "pw_unavailable (EmitCommand env r st) = pw_unavailable st"
  "pw_drain_requested (EmitCommand env r st) = pw_drain_requested st"
  "pw_worker_stopped (EmitCommand env r st) = pw_worker_stopped st"
  by (simp_all add: EmitCommand_def split: option.split)

lemma EmitCommand_answered:
  "wk_command_results env \<noteq> None \<Longrightarrow> answered (EmitCommand env r st) = answered st @ [cdr_operation_id r]"
  by (auto simp: EmitCommand_def)

subsection \<open>Command tasks\<close>

fun current :: "job option \<Rightarrow> 64 word list" where
  "current (Some (CommandJob i task)) = [i]"
| "current _ = []"

text \<open>
  The accepted tasks are the answered ones, the one under way and the queued ones, in this order, and
  those a failed migration check has dropped for good.
\<close>

definition commands_ok :: "worker_env \<Rightarrow> worker_run \<Rightarrow> bool" where
  "commands_ok env w \<longleftrightarrow>
     (let st = wr_worker w; open_ids = current (wr_job w) @ map fst (pw_commands st)
      in (\<exists>dropped. wr_accepted w = answered st @ open_ids @ dropped \<and> (dropped \<noteq> [] \<longrightarrow> pw_worker_stopped st)) \<and>
         distinct open_ids \<and> fset (pw_command_operations st) = set open_ids \<and>
         fcard (pw_command_operations st) \<le> wk_max_inflight_commands env \<and>
         (pw_worker_stopped st \<longrightarrow> \<not> pw_accepting st \<and> wr_job w = Some Stopped))"

lemma commands_ok_frame:
  assumes "commands_ok env w" "wr_accepted w' = wr_accepted w" "current (wr_job w') = current (wr_job w)"
    "answered (wr_worker w') = answered (wr_worker w)" "pw_commands (wr_worker w') = pw_commands (wr_worker w)"
    "pw_command_operations (wr_worker w') = pw_command_operations (wr_worker w)"
    "pw_worker_stopped (wr_worker w) \<Longrightarrow> pw_worker_stopped (wr_worker w')"
    "pw_worker_stopped (wr_worker w') \<Longrightarrow> \<not> pw_accepting (wr_worker w') \<and> wr_job w' = Some Stopped"
  shows "commands_ok env w'"
  using assms unfolding commands_ok_def Let_def by auto

lemma finish_provision_frame [simp]:
  "pw_commands (finish_provision env p st) = pw_commands st" "pw_writes (finish_provision env p st) = pw_writes st"
  "pw_command_operations (finish_provision env p st) = pw_command_operations st"
  "pw_worker_stopped (finish_provision env p st) = pw_worker_stopped st"
  "pw_accepting (finish_provision env p st) = pw_accepting st"
  "pw_drain_requested (finish_provision env p st) = pw_drain_requested st"
  "answered (finish_provision env p st) = answered st"
  by (simp_all add: finish_provision_def Let_def split: sum.split)

lemma finish_write_frame [simp]:
  "pw_commands (finish_write env w st) = pw_commands st"
  "pw_command_operations (finish_write env w st) = pw_command_operations st"
  "pw_worker_stopped (finish_write env w st) = pw_worker_stopped st"
  "pw_accepting (finish_write env w st) = pw_accepting st"
  "pw_drain_requested (finish_write env w st) = pw_drain_requested st"
  "answered (finish_write env w st) = answered st"
  by (simp_all add: finish_write_def Let_def split: sum.split)

lemma commands_ok_submit:
  assumes "commands_ok env w"
  shows "commands_ok env (worker_act env (DoSubmitCommand i task) w)"
proof (cases "fst (SubmitCommand env i task (wr_worker w))")
  case True
  let ?st = "wr_worker w"
  have acc: "pw_accepting ?st" "i |\<notin>| pw_command_operations ?st" "fcard (pw_command_operations ?st) < wk_max_inflight_commands env"
    and st: "snd (SubmitCommand env i task ?st) = ?st\<lparr>pw_command_operations := finsert i (pw_command_operations ?st),
       pw_commands := pw_commands ?st @ [(i, task)]\<rparr>"
    using True by (auto simp: SubmitCommand_def split: if_splits)
  have fresh: "i \<notin> set (current (wr_job w) @ map fst (pw_commands ?st))"
    using acc(2) assms unfolding commands_ok_def Let_def by metis
  have stopped: "\<not> pw_worker_stopped ?st" using assms acc(1) unfolding commands_ok_def Let_def by blast
  then have "wr_accepted w = answered ?st @ current (wr_job w) @ map fst (pw_commands ?st)"
    using assms unfolding commands_ok_def Let_def by auto
  with True fresh stopped assms acc show ?thesis
    unfolding commands_ok_def worker_act.simps Let_def case_prod_beta st by (auto simp: fcard_finsert_disjoint)
next
  case False
  then have "SubmitCommand env i task (wr_worker w) = (False, wr_worker w)" by (simp add: SubmitCommand_def split: if_splits)
  then have "worker_act env (DoSubmitCommand i task) w = w" by simp
  with assms show ?thesis by simp
qed

lemma pick_job_cases:
  "snd (pick_job env stop st) = st \<and> fst (pick_job env stop st) \<in> {NoJob, Reconnect} \<or>
   pick_job env stop st = (Stopped, Finish st) \<or>
   (\<exists>i task rest. pw_commands st = (i, task) # rest \<and> pick_job env stop st = (CommandJob i task, st\<lparr>pw_commands := rest\<rparr>)) \<or>
   (\<exists>k p. fmlookup (pw_provisions st) k = Some p \<and> pick_job env stop st = (ProvisionJob p,
      st\<lparr>pw_provisions := fmdrop k (pw_provisions st), pw_provisioning := finsert k (pw_provisioning st)\<rparr>)) \<or>
   (\<exists>k w. fmlookup (pw_writes st) k = Some w \<and> pick_job env stop st = (WriteJob w, st\<lparr>pw_writes := fmdrop k (pw_writes st)\<rparr>))"
proof -
  have first: "fmlookup m k = Some v" if "first_key env st m = Some (k, v)" for m :: "(string, 'x) fmap" and k v
    using that by (auto simp: first_key_def split: list.splits option.splits)
  show ?thesis
    by (auto simp: pick_job_def split: list.split option.split dest: first)
qed

lemma commands_ok_pick:
  assumes "commands_ok env w" "wr_job w = None"
  shows "commands_ok env (w\<lparr>wr_worker := snd (pick_job env stop (wr_worker w)), wr_job := Some (fst (pick_job env stop (wr_worker w)))\<rparr>)"
proof -
  have run: "\<not> pw_worker_stopped (wr_worker w)"
    using assms unfolding commands_ok_def Let_def by auto
  from pick_job_cases [of env stop "wr_worker w"] show ?thesis
  proof (elim disjE exE conjE)
    fix i task rest
    assume "pw_commands (wr_worker w) = (i, task) # rest"
      "pick_job env stop (wr_worker w) = (CommandJob i task, (wr_worker w)\<lparr>pw_commands := rest\<rparr>)"
    with assms run show ?thesis unfolding commands_ok_def Let_def by auto
  qed (use assms run in \<open>auto intro!: commands_ok_frame [OF assms(1)] simp: Finish_def\<close>)
qed

lemma commands_ok_finish_command:
  assumes ok: "commands_ok env w" and job: "wr_job w = Some (CommandJob i task)" and sink: "wk_command_results env \<noteq> None"
  shows "commands_ok env (w\<lparr>wr_worker := finish_command env i task (wr_worker w), wr_job := None\<rparr>)"
proof -
  let ?st = "wr_worker w"
  have run: "\<not> pw_worker_stopped ?st" using ok job unfolding commands_ok_def Let_def by auto
  then have acc: "wr_accepted w = answered ?st @ i # map fst (pw_commands ?st)"
    and dist: "distinct (i # map fst (pw_commands ?st))" and ops: "fset (pw_command_operations ?st) = insert i (fst ` set (pw_commands ?st))"
    and limit: "fcard (pw_command_operations ?st) \<le> wk_max_inflight_commands env"
    using ok job unfolding commands_ok_def Let_def by auto
  have less: "fcard (pw_command_operations ?st |-| {|i|}) \<le> wk_max_inflight_commands env"
  proof -
    have "pw_command_operations ?st |-| {|i|} |\<subseteq>| pw_command_operations ?st" by blast
    from fcard_mono [OF this] limit show ?thesis by linarith
  qed
  show ?thesis
  proof (cases "case port_result (execute_command (wk_store env) (worker_calls ?st) task) msg_command_threw
      msg_command_threw_unknown of Inl e \<Rightarrow> dbe_kind e = Unavailable | Inr _ \<Rightarrow> False")
    case True
    with run acc dist ops limit show ?thesis
      unfolding commands_ok_def Let_def finish_command_def by simp
  next
    case False
    with run acc dist ops less show ?thesis
      unfolding commands_ok_def Let_def finish_command_def by (auto simp: EmitCommand_answered [OF sink])
  qed
qed

lemma commands_ok_reconnect:
  assumes ok: "commands_ok env w" and job: "wr_job w = Some Reconnect"
  shows "commands_ok env (worker_act env DoFinish w)"
proof -
  let ?st = "wr_worker w"
  have run: "\<not> pw_worker_stopped ?st" using ok job unfolding commands_ok_def Let_def by auto
  show ?thesis
  proof (cases "port_result (sp_ReconnectAndValidate (wk_store env) (worker_calls ?st)) msg_reconnect_threw msg_reconnect_threw_unknown")
    case (Inl e)
    show ?thesis
    proof (cases "dbe_kind e = Unavailable")
      case True
      then show ?thesis using Inl job run by (intro commands_ok_frame [OF ok]) (simp_all add: finish_reconnect_def)
    next
      case False
      then show ?thesis
        using Inl job run ok unfolding commands_ok_def by (auto simp: finish_reconnect_def Let_def Finish_def fcard_fempty)
    qed
  next
    case (Inr u)
    then show ?thesis using job run by (intro commands_ok_frame [OF ok]) (simp_all add: finish_reconnect_def Let_def)
  qed
qed

lemma commands_ok_act:
  assumes ok: "commands_ok env w" and sink: "wk_command_results env \<noteq> None"
  shows "commands_ok env (worker_act env act w)"
proof (cases act)
  case (DoSubmitCommand i task)
  then show ?thesis using commands_ok_submit [OF ok] by simp
next
  case (DoPick stop)
  then show ?thesis using commands_ok_pick [OF ok] ok by (simp add: case_prod_beta Let_def split: option.split)
next
  case DoFinish
  show ?thesis
  proof (cases "wr_job w")
    case (Some job)
    have stopped: "pw_worker_stopped (wr_worker w) \<longrightarrow> \<not> pw_accepting (wr_worker w) \<and> job = Stopped"
      using ok Some unfolding commands_ok_def Let_def by auto
    show ?thesis
    proof (cases job)
      case (CommandJob i task)
      then show ?thesis using DoFinish Some commands_ok_finish_command [OF ok _ sink] by simp
    next
      case Reconnect
      then show ?thesis using DoFinish Some commands_ok_reconnect [OF ok] by simp
    qed (use DoFinish Some stopped in \<open>auto intro!: commands_ok_frame [OF ok]\<close>)
  qed (use DoFinish ok in simp)
qed (use ok in \<open>auto intro!: commands_ok_frame [OF ok] simp: SubmitProvision_def Worker_SubmitWrite_def FlushAndStop_def Let_def
      commands_ok_def\<close>)

lemma commands_ok_trace: "wk_command_results env \<noteq> None \<Longrightarrow> commands_ok env (worker_trace env acts)"
proof -
  assume sink: "wk_command_results env \<noteq> None"
  have "commands_ok env w \<Longrightarrow> commands_ok env (fold (worker_act env) acts w)" for w
    by (induction acts arbitrary: w) (simp_all add: commands_ok_act sink)
  moreover have "commands_ok env worker_start"
    by (simp add: commands_ok_def worker_start_def PostgresWorker_new_def Let_def answered_def fcard_fempty)
  ultimately show ?thesis by (simp add: worker_trace_def)
qed

subsection \<open>Device writes\<close>

definition covers :: "DesiredDeviceWrite \<Rightarrow> DesiredDeviceWrite \<Rightarrow> bool" where
  "covers w v \<longleftrightarrow>
     dr_device_id (dw_record w) = dr_device_id (dw_record v) \<and> dw_revision v \<le> dw_revision w \<and>
     (\<forall>f. selects f v \<longrightarrow> selects f w)"

lemma covers_refl: "covers w w"
  by (simp add: covers_def)

lemma covers_trans: "covers w v \<Longrightarrow> covers v u \<Longrightarrow> covers w u"
  by (auto simp: covers_def intro: order_trans)

lemma covers_merge:
  assumes "dr_device_id (dw_record w) = dr_device_id (dw_record c)"
  shows "covers (merge_into w c) w" "covers (merge_into w c) c"
proof -
  have "selects f (merge_into w c) \<longleftrightarrow> selects f w \<or> selects f c" for f
    by (cases f) (auto simp: merge_into_def Let_def)
  then show "covers (merge_into w c) w" "covers (merge_into w c) c"
    using assms by (auto simp: covers_def) (auto simp: merge_into_def Let_def)
qed

definition writes_keyed :: "PostgresWorker \<Rightarrow> bool" where
  "writes_keyed st \<longleftrightarrow> (\<forall>d w. fmlookup (pw_writes st) d = Some w \<longrightarrow> dr_device_id (dw_record w) = d)"

text \<open>The worker still carries everything the write asks for.\<close>

definition carries :: "job option \<Rightarrow> PostgresWorker \<Rightarrow> DesiredDeviceWrite \<Rightarrow> bool" where
  "carries job st v \<longleftrightarrow>
     (\<exists>w. (fmlookup (pw_writes st) (dr_device_id (dw_record w)) = Some w \<or> job = Some (WriteJob w)) \<and> covers w v)"

lemma merge_device: "dr_device_id (dw_record w) = dr_device_id (dw_record c) \<Longrightarrow>
    dr_device_id (dw_record (merge_into w c)) = dr_device_id (dw_record c)"
  by (simp add: merge_into_def Let_def)

lemma MergeWrite_writes:
  assumes "writes_keyed st"
  shows "\<exists>w'. pw_writes (MergeWrite w st) = fmupd (dr_device_id (dw_record w)) w' (pw_writes st) \<and> covers w' w \<and>
    (\<forall>c. fmlookup (pw_writes st) (dr_device_id (dw_record w)) = Some c \<longrightarrow> covers w' c)"
proof (cases "fmlookup (pw_writes st) (dr_device_id (dw_record w))")
  case None
  then show ?thesis using covers_refl [of w] by (auto simp: MergeWrite_def Let_def)
next
  case (Some c)
  then have "dr_device_id (dw_record w) = dr_device_id (dw_record c)" using assms by (simp add: writes_keyed_def)
  from covers_merge [OF this] Some show ?thesis by (auto simp: MergeWrite_def Let_def)
qed

lemma MergeWrite_keyed: "writes_keyed st \<Longrightarrow> writes_keyed (MergeWrite w st)"
  using MergeWrite_writes [of st w] by (auto simp: writes_keyed_def covers_def split: if_splits)

lemma MergeWrite_carries:
  assumes keyed: "writes_keyed st"
  shows "carries job (MergeWrite w st) w" "carries job st v \<Longrightarrow> carries job (MergeWrite w st) v"
proof -
  from MergeWrite_writes [OF keyed, of w] obtain w' where
    m: "pw_writes (MergeWrite w st) = fmupd (dr_device_id (dw_record w)) w' (pw_writes st)" "covers w' w"
    and old: "\<And>c. fmlookup (pw_writes st) (dr_device_id (dw_record w)) = Some c \<Longrightarrow> covers w' c" by blast
  have dev: "dr_device_id (dw_record w') = dr_device_id (dw_record w)" using m(2) by (simp add: covers_def)
  show "carries job (MergeWrite w st) w" unfolding carries_def using m dev by auto
  show "carries job (MergeWrite w st) v" if "carries job st v"
  proof -
    from that obtain u where u: "fmlookup (pw_writes st) (dr_device_id (dw_record u)) = Some u \<or> job = Some (WriteJob u)" "covers u v"
      unfolding carries_def by blast
    show ?thesis
    proof (cases "dr_device_id (dw_record u) = dr_device_id (dw_record w) \<and> job \<noteq> Some (WriteJob u)")
      case True
      then have "covers w' v" using u old [of u] covers_trans by metis
      then show ?thesis unfolding carries_def using m dev by auto
    next
      case False
      with u m show ?thesis unfolding carries_def by (intro exI [of _ u]) auto
    qed
  qed
qed

lemma carries_frame: "carries job st v \<Longrightarrow> pw_writes st' = pw_writes st \<Longrightarrow> carries job st' v"
  by (simp add: carries_def)

lemma writes_keyed_frame: "writes_keyed st \<Longrightarrow> pw_writes st' = pw_writes st \<Longrightarrow> writes_keyed st'"
  by (simp add: writes_keyed_def)

lemma finish_command_writes [simp]: "pw_writes (finish_command env i task st) = pw_writes st"
  by (simp add: finish_command_def Let_def split: sum.split)

lemma finish_reconnect_writes:
  "pw_writes (snd (finish_reconnect env st)) = pw_writes st \<or>
   pw_writes (snd (finish_reconnect env st)) = fmempty \<and> pw_worker_stopped (snd (finish_reconnect env st))"
  by (simp add: finish_reconnect_def Let_def Finish_def split: sum.split)

lemma finish_write_outcome:
  "pw_writes (finish_write env w st) = pw_writes (MergeWrite w st) \<or>
   pw_writes (finish_write env w st) = pw_writes st \<and>
   (\<exists>r rest. pw_effects (finish_write env w st) = pw_effects st @ EmitResult r # rest \<and>
      dbr_device_id r = dr_device_id (dw_record w) \<and> dbr_revision r = dw_revision w \<and>
      dbr_kind r \<in> {ResWriteCompleted, ResPermanentFailure})"
  by (auto simp: finish_write_def Let_def failure_def Emit_def worker_diagnose_if_def split: sum.split option.split)

lemma finish_write_keyed: "writes_keyed st \<Longrightarrow> writes_keyed (finish_write env w st)"
  using finish_write_outcome [of env w st] MergeWrite_keyed writes_keyed_frame by metis

lemma pick_carries:
  assumes "writes_keyed st" "carries None st v"
  shows "carries (Some (fst (pick_job env stop st))) (snd (pick_job env stop st)) v"
  using pick_job_cases [of env stop st]
proof (elim disjE exE conjE)
  fix k w
  assume w: "fmlookup (pw_writes st) k = Some w" "pick_job env stop st = (WriteJob w, st\<lparr>pw_writes := fmdrop k (pw_writes st)\<rparr>)"
  then have k: "dr_device_id (dw_record w) = k" using assms(1) by (simp add: writes_keyed_def)
  from assms(2) obtain u where u: "fmlookup (pw_writes st) (dr_device_id (dw_record u)) = Some u" "covers u v"
    unfolding carries_def by auto
  show ?thesis
    using u w k unfolding carries_def by (cases "dr_device_id (dw_record u) = k") auto
qed (use assms in \<open>auto simp: carries_def Finish_def\<close>)

lemma writes_keyed_act:
  assumes "writes_keyed (wr_worker w)"
  shows "writes_keyed (wr_worker (worker_act env act w))"
proof (cases act)
  case DoFinish
  show ?thesis
  proof (cases "wr_job w")
    case (Some job)
    have "writes_keyed (snd (finish_reconnect env (wr_worker w)))"
      using finish_reconnect_writes [of env "wr_worker w"] assms by (auto simp: writes_keyed_def)
    with Some DoFinish assms show ?thesis
      by (cases job) (auto simp: case_prod_beta Let_def finish_write_keyed intro: writes_keyed_frame)
  qed (use DoFinish assms in simp)
next
  case (DoPick stop)
  have "writes_keyed (snd (pick_job env stop (wr_worker w)))"
    using pick_job_cases [of env stop "wr_worker w"] assms by (auto simp: writes_keyed_def Finish_def split: if_splits)
  with DoPick assms show ?thesis by (simp add: case_prod_beta Let_def split: option.split)
qed (use assms in \<open>auto simp: case_prod_beta Let_def SubmitProvision_def Worker_SubmitWrite_def SubmitCommand_def FlushAndStop_def
      MergeWrite_keyed intro: writes_keyed_frame\<close>)

lemma writes_keyed_trace: "writes_keyed (wr_worker (worker_trace env acts))"
proof -
  have "writes_keyed (wr_worker w) \<Longrightarrow> writes_keyed (wr_worker (fold (worker_act env) acts w))" for w
    by (induction acts arbitrary: w) (simp_all add: writes_keyed_act)
  from this [of worker_start] show ?thesis
    unfolding worker_trace_def by (simp add: worker_start_def PostgresWorker_new_def writes_keyed_def)
qed

subsection \<open>Draining\<close>

definition queued_jobs :: "PostgresWorker \<Rightarrow> nat" where
  "queued_jobs st = length (pw_commands st) + fmsize (pw_provisions st) + fmsize (pw_writes st)"

fun run_rounds :: "worker_env \<Rightarrow> nat \<Rightarrow> PostgresWorker \<Rightarrow> bool \<times> PostgresWorker" where
  "run_rounds env 0 st = (True, st)"
| "run_rounds env (Suc n) st =
     (let (running, st') = run_once env False st in if running then run_rounds env n st' else (False, st'))"

text \<open>The store answers every call, though possibly with a permanent error or an exception.\<close>

definition connected :: "(DatabaseError + 'a) port_outcome \<Rightarrow> bool" where
  "connected outcome \<longleftrightarrow> (\<forall>e. outcome = PortReturned (Inl e) \<longrightarrow> dbe_kind e \<noteq> Unavailable)"

definition store_connected :: "StorePort \<Rightarrow> bool" where
  "store_connected store \<longleftrightarrow>
     (\<forall>n task. connected (execute_command store n task)) \<and>
     (\<forall>n r t. connected (sp_Provision store n r t)) \<and> (\<forall>n w. connected (sp_Write store n w))"

lemma connected_result: "connected oc \<Longrightarrow> port_result oc a b = Inl e \<Longrightarrow> dbe_kind e \<noteq> Unavailable"
  by (auto simp: connected_def port_result_def permanent_def split: port_outcome.splits)

lemma finish_connected:
  assumes "store_connected (wk_store env)" "\<not> pw_unavailable st"
  shows "\<not> pw_unavailable (finish_command env i task st)" "queued_jobs (finish_command env i task st) = queued_jobs st"
    "pw_drain_requested (finish_command env i task st) = pw_drain_requested st"
    "\<not> pw_unavailable (finish_provision env p st)" "queued_jobs (finish_provision env p st) \<le> queued_jobs st"
    "\<not> pw_unavailable (finish_write env w st)" "queued_jobs (finish_write env w st) = queued_jobs st"
proof -
  have c: "\<not> (case port_result (execute_command (wk_store env) n task) a b of Inl e \<Rightarrow> dbe_kind e = Unavailable | Inr _ \<Rightarrow> False)"
    for n task a b
  proof (cases "port_result (execute_command (wk_store env) n task) a b")
    case (Inl e)
    have "connected (execute_command (wk_store env) n task)" using assms(1) by (simp add: store_connected_def)
    from connected_result [OF this Inl] Inl show ?thesis by simp
  qed simp
  show "\<not> pw_unavailable (finish_command env i task st)" "queued_jobs (finish_command env i task st) = queued_jobs st"
    "pw_drain_requested (finish_command env i task st) = pw_drain_requested st"
    unfolding finish_command_def Let_def if_not_P [OF c] using assms(2) by (simp_all add: queued_jobs_def)
  have p: "dbe_kind e \<noteq> Unavailable" if "port_result (sp_Provision (wk_store env) n r t) a b = Inl e" for n r t a b e
    using assms(1) connected_result [OF _ that] by (simp add: store_connected_def)
  show "\<not> pw_unavailable (finish_provision env p st)" "queued_jobs (finish_provision env p st) \<le> queued_jobs st"
    using assms(2) by (auto simp: finish_provision_def Let_def queued_jobs_def fmsize_drop_le p split: sum.split)
  have w: "dbe_kind e \<noteq> Unavailable" if "port_result (sp_Write (wk_store env) n w) a b = Inl e" for n w a b e
    using assms(1) connected_result [OF _ that] by (simp add: store_connected_def)
  show "\<not> pw_unavailable (finish_write env w st)" "queued_jobs (finish_write env w st) = queued_jobs st"
    using assms(2) by (auto simp: finish_write_def Let_def queued_jobs_def w split: sum.split)
qed

lemma first_key_None:
  assumes "\<And>n ks. mset (wk_order env n ks) = mset ks"
  shows "first_key env st m = None \<longleftrightarrow> m = fmempty"
proof -
  let ?ks = "wk_order env (worker_calls st) (sorted_list_of_fset (fmdom m))"
  have "set ?ks = fmdom' m"
    using mset_eq_setD [OF assms] by (simp add: sorted_list_of_fset.rep_eq fmdom'_alt_def)
  moreover have "m = fmempty \<longleftrightarrow> fmdom' m = {}"
    using fmsize_0_iff [of m] by (auto simp: fmsize_card)
  ultimately have "?ks = [] \<longleftrightarrow> m = fmempty" and look: "\<And>k. k \<in> set ?ks \<Longrightarrow> \<exists>v. fmlookup m k = Some v"
    by (auto simp: fmlookup_dom'_iff)
  show ?thesis
  proof (cases ?ks)
    case Nil
    then show ?thesis using \<open>?ks = [] \<longleftrightarrow> m = fmempty\<close> by (simp add: first_key_def)
  next
    case (Cons k rest)
    obtain v where "fmlookup m k = Some v" using look [of k] Cons by auto
    then show ?thesis using Cons \<open>?ks = [] \<longleftrightarrow> m = fmempty\<close> by (simp add: first_key_def)
  qed
qed

lemma pick_job_drain:
  assumes order: "\<And>n ks. mset (wk_order env n ks) = mset ks"
    and st: "\<not> pw_unavailable st" "pw_drain_requested st"
  shows "(queued_jobs st = 0 \<and> pick_job env False st = (Stopped, Finish st)) \<or>
    (queued_jobs (snd (pick_job env False st)) < queued_jobs st \<and> \<not> pw_unavailable (snd (pick_job env False st)) \<and>
     pw_drain_requested (snd (pick_job env False st)) \<and>
     fst (pick_job env False st) \<notin> {NoJob, Reconnect, Stopped})"
proof -
  have less: "fmsize (fmdrop k m) < fmsize m" if "fmlookup m k = Some v" for m :: "(string, 'x) fmap" and k v
  proof -
    have "fmsize m \<noteq> 0" using that by (auto simp: fmsize_0_iff)
    then show ?thesis using that by (simp add: fmsize_drop)
  qed
  have first: "fmlookup m k = Some v" if "first_key env st m = Some (k, v)" for m :: "(string, 'x) fmap" and k v
    using that by (auto simp: first_key_def split: list.splits option.splits)
  show ?thesis
    using st by (auto simp: pick_job_def queued_jobs_def first_key_None [OF order] split: list.split option.split
        dest!: first intro!: less)
qed

lemma run_rounds_drain:
  assumes order: "\<And>n ks. mset (wk_order env n ks) = mset ks" and store: "store_connected (wk_store env)"
  shows "\<not> pw_unavailable st \<Longrightarrow> pw_drain_requested st \<Longrightarrow> queued_jobs st < n \<Longrightarrow>
    \<exists>st'. run_rounds env n st = (False, st') \<and> pw_worker_stopped st' \<and> queued_jobs st' = 0"
proof (induction n arbitrary: st)
  case (Suc n)
  from pick_job_drain [OF order Suc.prems(1,2)] show ?case
  proof
    assume "queued_jobs st = 0 \<and> pick_job env False st = (Stopped, Finish st)"
    then show ?thesis by (simp add: run_once_def Finish_def queued_jobs_def)
  next
    assume picked: "queued_jobs (snd (pick_job env False st)) < queued_jobs st \<and> \<not> pw_unavailable (snd (pick_job env False st)) \<and>
      pw_drain_requested (snd (pick_job env False st)) \<and> fst (pick_job env False st) \<notin> {NoJob, Reconnect, Stopped}"
    obtain job st1 where p: "pick_job env False st = (job, st1)" by (cases "pick_job env False st")
    obtain st2 where st2: "finish_job env job st1 = (True, st2)" "\<not> pw_unavailable st2" "pw_drain_requested st2"
        "queued_jobs st2 \<le> queued_jobs st1"
      using picked p finish_connected [OF store, of st1] by (cases job) auto
    have "queued_jobs st2 < n" using st2(4) picked p Suc.prems(3) by simp
    from Suc.IH [OF st2(2,3) this] show ?thesis by (simp add: run_once_def p st2(1))
  qed
qed simp

subsection \<open>Properties\<close>

text \<open>
  C7. Command tasks are answered exactly once and in the order of their acceptance, whatever the
  interleaving of submissions with the worker's rounds and however often the connection is lost: the
  accepted identifiers are the answered ones, then the one under way, then the queued ones, and only a
  failed migration check, which stops the worker, drops the rest. The open tasks have distinct
  identifiers and respect the limit.
\<close>
theorem commands_in_order:
  fixes env :: worker_env and acts :: "worker_action list"
  assumes "wk_command_results env \<noteq> None"
  defines "w \<equiv> worker_trace env acts"
  shows "\<exists>dropped. wr_accepted w = answered (wr_worker w) @ current (wr_job w) @ map fst (pw_commands (wr_worker w)) @ dropped \<and>
           (dropped = [] \<or> pw_worker_stopped (wr_worker w)) \<and>
           distinct (current (wr_job w) @ map fst (pw_commands (wr_worker w))) \<and>
           length (current (wr_job w) @ map fst (pw_commands (wr_worker w))) \<le> wk_max_inflight_commands env"
proof -
  let ?ids = "current (wr_job w) @ map fst (pw_commands (wr_worker w))"
  from commands_ok_trace [OF assms(1), of acts] have ok: "commands_ok env w" by (simp add: w_def)
  then have "distinct ?ids" "fset (pw_command_operations (wr_worker w)) = set ?ids"
      "fcard (pw_command_operations (wr_worker w)) \<le> wk_max_inflight_commands env"
    unfolding commands_ok_def Let_def by blast+
  then have "length ?ids \<le> wk_max_inflight_commands env"
    by (simp only: fcard.rep_eq distinct_card [symmetric])
  with ok show ?thesis unfolding commands_ok_def Let_def by auto
qed

definition demo_store :: StorePort where
  "demo_store =
     \<lparr>sp_Provision = (\<lambda>n r t. PortThrew), sp_Write = (\<lambda>n w. PortReturned (Inr ())),
      sp_ReconnectAndValidate = (\<lambda>n. PortReturned (Inr ())), sp_FindCommand = (\<lambda>n s r. PortReturned (Inr None)),
      sp_FindCommandById = (\<lambda>n i. PortReturned (Inl \<lparr>dbe_kind = Unavailable, dbe_message = []\<rparr>)),
      sp_InsertCommand = (\<lambda>n c. PortReturned (Inr c)), sp_TransitionCommand = (\<lambda>n i s d u. PortThrewUnknown),
      sp_RecoverControlCommands = (\<lambda>n t l. PortReturned (Inr [])), sp_CleanupCommands = (\<lambda>n t b. PortReturned (Inr 0))\<rparr>"

definition demo_worker_env :: worker_env where
  "demo_worker_env =
     \<lparr>wk_store = demo_store, wk_results = (\<lambda>n r. Returned True), wk_command_results = Some (\<lambda>n r. Returned True),
      wk_replay = (\<lambda>n. Returned True), wk_steady = (\<lambda>n. int n), wk_order = (\<lambda>n ks. ks), wk_reconnect_interval = 5,
      wk_max_inflight_commands = 2\<rparr>"

theorem commands_in_order_witness:
  "wr_accepted (worker_trace demo_worker_env
     [DoSubmitCommand 4 (FindCommandTask ''s'' ''r''), DoSubmitCommand 7 (CleanupCommandsTask 0 1), DoPick False, DoFinish]) = [4, 7]"
proof -
  let ?w = "worker_trace demo_worker_env
     [DoSubmitCommand 4 (FindCommandTask ''s'' ''r''), DoSubmitCommand 7 (CleanupCommandsTask 0 1), DoPick False, DoFinish]"
  have "answered (wr_worker ?w) = [4]" "current (wr_job ?w) = []" "map fst (pw_commands (wr_worker ?w)) = [7]"
      "\<not> pw_worker_stopped (wr_worker ?w)"
    by (simp_all add: worker_trace_def worker_start_def PostgresWorker_new_def SubmitCommand_def demo_worker_env_def fcard_fempty
        fcard_finsert_disjoint pick_job_def finish_command_def demo_store_def map_port_def port_result_def EmitCommand_def
        worker_diagnose_if_def threw_message_def answered_def Let_def)
  with commands_in_order [of demo_worker_env] show ?thesis by (force simp: demo_worker_env_def)
qed

text \<open>The outcome of a step for a carried write.\<close>

definition settles :: "PostgresWorker \<Rightarrow> DesiredDeviceWrite \<Rightarrow> PostgresWorker \<Rightarrow> bool" where
  "settles st v st' \<longleftrightarrow>
     (\<exists>r rest. pw_effects st' = pw_effects st @ EmitResult r # rest \<and> dbr_device_id r = dr_device_id (dw_record v) \<and>
        dw_revision v \<le> dbr_revision r \<and> dbr_kind r \<in> {ResWriteCompleted, ResPermanentFailure})"

lemma finish_write_carries:
  assumes keyed: "writes_keyed st" and c: "carries (Some (WriteJob x)) st v"
  shows "carries None (finish_write env x st) v \<or> settles st v (finish_write env x st)"
proof -
  have split: "carries None st v \<or> covers x v" using c by (auto simp: carries_def)
  have weaker: "carries None st' v" if "carries None st' x" "covers x v" for st'
    using that covers_trans unfolding carries_def by blast
  have merged: "carries None (MergeWrite x st) v"
    using split MergeWrite_carries(2) [OF keyed] weaker [OF MergeWrite_carries(1) [OF keyed]] by blast
  from finish_write_outcome [of env x st] show ?thesis
  proof
    assume "pw_writes (finish_write env x st) = pw_writes (MergeWrite x st)"
    then show ?thesis using merged carries_frame by metis
  next
    assume settled: "pw_writes (finish_write env x st) = pw_writes st \<and>
      (\<exists>r rest. pw_effects (finish_write env x st) = pw_effects st @ EmitResult r # rest \<and>
         dbr_device_id r = dr_device_id (dw_record x) \<and> dbr_revision r = dw_revision x \<and>
         dbr_kind r \<in> {ResWriteCompleted, ResPermanentFailure})"
    show ?thesis
    proof (cases "covers x v")
      case True
      then show ?thesis using settled by (auto simp: covers_def settles_def)
    next
      case False
      then show ?thesis using split settled carries_frame by metis
    qed
  qed
qed

lemma finish_carries:
  assumes keyed: "writes_keyed st" and c: "carries (Some job) st v"
  shows "carries None (snd (finish_job env job st)) v \<or> settles st v (snd (finish_job env job st)) \<or>
    job = Reconnect \<and> pw_worker_stopped (snd (finish_job env job st))"
proof (cases "\<exists>x. job = WriteJob x")
  case True
  then obtain x where x: "job = WriteJob x" ..
  from finish_write_carries [OF keyed c [unfolded x]] show ?thesis by (simp add: x)
next
  case False
  then have "carries None st v" using c by (auto simp: carries_def)
  with False show ?thesis
    using finish_reconnect_writes [of env st] by (cases job) (auto intro: carries_frame)
qed

lemma carries_any_job: "carries None st v \<Longrightarrow> carries job st v"
  by (auto simp: carries_def)

text \<open>
  C8. A device write is carried until it is settled. An accepted write is carried, merged with what was
  waiting for the device: the same device, at least its revision, all of its field groups. A carried
  write stays carried through every step, lost connections included, unless the step reports for the
  device a revision at least as high as completed or permanently failed, or a failed migration check
  ends the worker.
\<close>
theorem writes_carried:
  fixes env :: worker_env and acts :: "worker_action list" and act :: worker_action
  defines "w \<equiv> worker_trace env acts" and "w' \<equiv> worker_act env act (worker_trace env acts)"
  shows "(act = DoSubmitWrite v \<and> pw_accepting (wr_worker w) \<longrightarrow> carries (wr_job w') (wr_worker w') v) \<and>
         (carries (wr_job w) (wr_worker w) v \<longrightarrow>
            carries (wr_job w') (wr_worker w') v \<or> settles (wr_worker w) v (wr_worker w') \<or>
            (act = DoFinish \<and> wr_job w = Some Reconnect \<and> pw_worker_stopped (wr_worker w')))"
proof (intro conjI impI)
  have keyed: "writes_keyed (wr_worker w)" unfolding w_def by (rule writes_keyed_trace)
  have w': "w' = worker_act env act w" by (simp add: w_def w'_def)
  show "carries (wr_job w') (wr_worker w') v" if "act = DoSubmitWrite v \<and> pw_accepting (wr_worker w)"
    using that MergeWrite_carries(1) [OF keyed] by (simp add: w' Worker_SubmitWrite_def)
  assume c: "carries (wr_job w) (wr_worker w) v"
  show "carries (wr_job w') (wr_worker w') v \<or> settles (wr_worker w) v (wr_worker w') \<or>
      (act = DoFinish \<and> wr_job w = Some Reconnect \<and> pw_worker_stopped (wr_worker w'))"
  proof (cases act)
    case (DoPick stop)
    then show ?thesis
      using c pick_carries [OF keyed, of v env stop] by (auto simp: w' case_prod_beta Let_def split: option.split)
  next
    case DoFinish
    show ?thesis
    proof (cases "wr_job w")
      case (Some job)
      then show ?thesis
        using finish_carries [OF keyed, of job v env] c DoFinish carries_any_job by (auto simp: w' case_prod_beta Let_def)
    qed (use c DoFinish in \<open>simp add: w'\<close>)
  qed (use c MergeWrite_carries(2) [OF keyed c] in \<open>auto simp: w' case_prod_beta Let_def SubmitProvision_def
      Worker_SubmitWrite_def SubmitCommand_def FlushAndStop_def intro: carries_frame\<close>)
qed

definition demo_device_write :: DesiredDeviceWrite where
  "demo_device_write = \<lparr>dw_record = demo_device ''a'' None, dw_revision = 3, dw_write_metadata = True, dw_write_status = False,
     dw_write_telemetry = False, dw_urgency = Immediate\<rparr>"

theorem writes_carried_witness:
  "carries None (wr_worker (worker_act demo_worker_env (DoSubmitWrite demo_device_write) (worker_trace demo_worker_env []))) demo_device_write"
  using writes_carried [of "DoSubmitWrite demo_device_write" demo_device_write demo_worker_env "[]"]
  by (simp add: worker_trace_def worker_start_def PostgresWorker_new_def)





end
