(* ===== verification/App_Config.thy ===== *)
theory App_Config
  imports Logger Messages Source_Request
begin

text \<open>
  \<^verbatim>\<open>core/config/app_config.cpp\<close>: the strict reading of the configuration file. Fields are read in
  the order of the code, so the reported error is the first one. The file system and the JSON library are
  parameters. The lemmas show that every accepted configuration is within the documented bounds, and that
  every configuration within them is accepted as it was written.
\<close>

subsection \<open>Data\<close>

text \<open>
  Durations are counts of seconds (days for the retention), \<^verbatim>\<open>size_t\<close> and \<^verbatim>\<open>uint16_t\<close> are
  words of their width.
\<close>

record DatabaseConfig =
  dc_host :: string
  dc_port :: "16 word"
  dc_name :: string
  dc_user :: string
  dc_password :: string
  dc_connect_timeout :: int
  dc_reconnect_interval :: int

record MqttConfig =
  mc_host :: string
  mc_port :: "16 word"
  mc_keepalive :: int
  mc_client_id :: string
  mc_username :: string
  mc_password :: string
  mc_reconnect_delay :: int
  mc_reconnect_delay_max :: int
  mc_topic_namespace :: string
  mc_max_payload_bytes :: "64 word"

record LoggingConfig =
  lc_level :: Level

record QueueConfig =
  qc_mqtt_inbound_capacity :: "64 word"

record DeviceStateConfig =
  sc_telemetry_flush_interval :: int
  sc_offline_timeout :: int

datatype FixedSourceKind = FixedHostApp | FixedControlCenter

record FixedSourceConfig =
  fs_source_id :: string
  fs_source_kind :: FixedSourceKind

record CommandConfig =
  cc_config_timeout :: int
  cc_control_timeout :: int
  cc_terminal_retention :: int
  cc_cleanup_interval :: int
  cc_cleanup_batch_size :: "64 word"
  cc_max_inflight_commands :: "64 word"
  cc_fixed_sources :: "FixedSourceConfig list"

record AppConfig =
  ac_database :: DatabaseConfig
  ac_mqtt :: MqttConfig
  ac_logging :: LoggingConfig
  ac_queues :: QueueConfig
  ac_device_state :: DeviceStateConfig
  ac_command :: CommandConfig

subsection \<open>Reading fields\<close>

definition Error :: "string \<Rightarrow> string \<Rightarrow> string + 'a" where
  "Error path message = Inl (path @ msg_cfg_colon @ message)"

definition unknown_field :: "json \<Rightarrow> string list \<Rightarrow> string option" where
  "unknown_field obj allowed = List.find (\<lambda>field. field \<notin> set allowed) (jkeys obj)"

definition ReadObject :: "json \<Rightarrow> string \<Rightarrow> string \<Rightarrow> string list \<Rightarrow> string + json" where
  "ReadObject parent key path allowed =
     (case jfind parent key of
        None \<Rightarrow> Error path msg_cfg_missing
      | Some obj \<Rightarrow>
          if \<not> is_object obj then Error path msg_cfg_object
          else case unknown_field obj allowed of
            Some field \<Rightarrow> Error (path @ ''.'' @ field) msg_cfg_unknown
          | None \<Rightarrow> Inr obj)"

definition ReadString :: "json \<Rightarrow> string \<Rightarrow> string \<Rightarrow> string + string" where
  "ReadString obj key path =
     (case jfind obj key of
        None \<Rightarrow> Error path msg_cfg_missing
      | Some (JString s) \<Rightarrow> Inr s
      | Some _ \<Rightarrow> Error path msg_cfg_string)"

definition ReadInteger :: "json \<Rightarrow> string \<Rightarrow> string \<Rightarrow> 64 word \<Rightarrow> 64 word \<Rightarrow> string + 64 word" where
  "ReadInteger obj key path minimum maximum =
     (case jfind obj key of
        None \<Rightarrow> Error path msg_cfg_missing
      | Some v \<Rightarrow>
          if \<not> is_number_integer v \<and> \<not> is_number_unsigned v then Error path msg_cfg_integer
          else if is_number_integer v \<and> get_int64 v < 0 then Error path msg_cfg_range
          else let number = get_bits v in
            if number < minimum \<or> number > maximum then Error path msg_cfg_range
            else Inr number)"

text \<open>\<^verbatim>\<open>static_cast<long>\<close> of a \<^verbatim>\<open>uint64_t\<close>\<close>

definition to_long :: "64 word \<Rightarrow> int" where
  "to_long w = sint w"

definition CheckRoot :: "json \<Rightarrow> string + unit" where
  "CheckRoot root =
     (if \<not> is_object root then Error msg_cfg_root msg_cfg_root_object
      else case unknown_field root
             [''database'', ''mqtt'', ''logging'', ''queues'', ''device_state'', ''command''] of
        Some field \<Rightarrow> Error field msg_cfg_unknown
      | None \<Rightarrow> Inr ())"

subsection \<open>The sections of the file\<close>

definition ParseDatabase :: "json \<Rightarrow> string + DatabaseConfig" where
  "ParseDatabase root =
     bindE (ReadObject root ''database'' ''database''
       [''host'', ''port'', ''name'', ''user'', ''password'', ''connect_timeout_seconds'',
        ''reconnect_interval_seconds'']) (\<lambda>obj.
     bindE (ReadString obj ''host'' ''database.host'') (\<lambda>host.
     bindE (ReadInteger obj ''port'' ''database.port'' 1 65535) (\<lambda>port.
     bindE (ReadString obj ''name'' ''database.name'') (\<lambda>name.
     bindE (ReadString obj ''user'' ''database.user'') (\<lambda>user.
     bindE (ReadString obj ''password'' ''database.password'') (\<lambda>password.
     if password = [] then Error ''database.password'' msg_cfg_empty else
     bindE (ReadInteger obj ''connect_timeout_seconds'' ''database.connect_timeout_seconds'' 1 60) (\<lambda>timeout.
     bindE (ReadInteger obj ''reconnect_interval_seconds'' ''database.reconnect_interval_seconds'' 1 300) (\<lambda>reconnect.
     Inr \<lparr>dc_host = host, dc_port = ucast port, dc_name = name, dc_user = user, dc_password = password,
          dc_connect_timeout = to_long timeout, dc_reconnect_interval = to_long reconnect\<rparr>))))))))"

text \<open>\<^verbatim>\<open>std::isspace\<close> in the "C" locale\<close>

definition is_space :: "char \<Rightarrow> bool" where
  "is_space c \<longleftrightarrow> c = CHR '' '' \<or> c = CHR 0x09 \<or> c = CHR 0x0A \<or> c = CHR 0x0B \<or> c = CHR 0x0C \<or> c = CHR 0x0D"

definition IsValidTopicNamespace :: "string \<Rightarrow> bool" where
  "IsValidTopicNamespace value \<longleftrightarrow> value \<noteq> [] \<and>
     list_all (\<lambda>c. \<not> (c = CHR 0x00 \<or> c = CHR ''/'' \<or> c = CHR ''+'' \<or> c = CHR ''#'' \<or> is_space c)) value"

definition ParseMqtt :: "json \<Rightarrow> string + MqttConfig" where
  "ParseMqtt root =
     bindE (ReadObject root ''mqtt'' ''mqtt''
       [''host'', ''port'', ''keepalive_seconds'', ''client_id'', ''username'', ''password'',
        ''reconnect_delay_seconds'', ''reconnect_delay_max_seconds'', ''topic_namespace'',
        ''max_payload_bytes'']) (\<lambda>obj.
     bindE (ReadString obj ''host'' ''mqtt.host'') (\<lambda>host.
     bindE (ReadInteger obj ''port'' ''mqtt.port'' 1 65535) (\<lambda>port.
     bindE (ReadInteger obj ''keepalive_seconds'' ''mqtt.keepalive_seconds'' 1 3600) (\<lambda>keepalive.
     bindE (ReadString obj ''client_id'' ''mqtt.client_id'') (\<lambda>client_id.
     if client_id = [] then Error ''mqtt.client_id'' msg_cfg_empty else
     bindE (ReadString obj ''username'' ''mqtt.username'') (\<lambda>username.
     bindE (ReadString obj ''password'' ''mqtt.password'') (\<lambda>password.
     if username = [] \<and> password \<noteq> [] then Error ''mqtt.password'' msg_cfg_password_without_user else
     bindE (ReadInteger obj ''reconnect_delay_seconds'' ''mqtt.reconnect_delay_seconds'' 1 3600) (\<lambda>delay.
     bindE (ReadInteger obj ''reconnect_delay_max_seconds'' ''mqtt.reconnect_delay_max_seconds'' 1 3600) (\<lambda>delay_max.
     if delay > delay_max then Error ''mqtt.reconnect_delay_seconds'' msg_cfg_delay_order else
     bindE (ReadString obj ''topic_namespace'' ''mqtt.topic_namespace'') (\<lambda>topic_namespace.
     if \<not> IsValidTopicNamespace topic_namespace then Error ''mqtt.topic_namespace'' msg_cfg_namespace else
     bindE (ReadInteger obj ''max_payload_bytes'' ''mqtt.max_payload_bytes'' 1024 1048576) (\<lambda>max_payload.
     Inr \<lparr>mc_host = host, mc_port = ucast port, mc_keepalive = to_long keepalive, mc_client_id = client_id,
          mc_username = username, mc_password = password, mc_reconnect_delay = to_long delay,
          mc_reconnect_delay_max = to_long delay_max, mc_topic_namespace = topic_namespace,
          mc_max_payload_bytes = max_payload\<rparr>)))))))))))"

definition ParseDeviceState :: "json \<Rightarrow> int \<Rightarrow> string + DeviceStateConfig" where
  "ParseDeviceState root keepalive =
     bindE (ReadObject root ''device_state'' ''device_state''
       [''telemetry_flush_interval_seconds'', ''offline_timeout_seconds'']) (\<lambda>obj.
     bindE (ReadInteger obj ''telemetry_flush_interval_seconds''
       ''device_state.telemetry_flush_interval_seconds'' 1 60) (\<lambda>flush.
     bindE (ReadInteger obj ''offline_timeout_seconds''
       ''device_state.offline_timeout_seconds'' 61 86400) (\<lambda>offline.
     if to_long offline \<le> keepalive then Error ''device_state.offline_timeout_seconds'' msg_cfg_offline else
     Inr \<lparr>sc_telemetry_flush_interval = to_long flush, sc_offline_timeout = to_long offline\<rparr>)))"

definition ParseLogging :: "json \<Rightarrow> string + LoggingConfig" where
  "ParseLogging root =
     bindE (ReadObject root ''logging'' ''logging'' [''level'']) (\<lambda>obj.
     bindE (ReadString obj ''level'' ''logging.level'') (\<lambda>level.
     case ParseLevel level of
       None \<Rightarrow> Error ''logging.level'' msg_cfg_level
     | Some parsed \<Rightarrow> Inr \<lparr>lc_level = parsed\<rparr>))"

definition ParseQueues :: "json \<Rightarrow> string + QueueConfig" where
  "ParseQueues root =
     bindE (ReadObject root ''queues'' ''queues'' [''mqtt_inbound_capacity'']) (\<lambda>obj.
     bindE (ReadInteger obj ''mqtt_inbound_capacity'' ''queues.mqtt_inbound_capacity'' 1 65536) (\<lambda>capacity.
     Inr \<lparr>qc_mqtt_inbound_capacity = capacity\<rparr>))"

definition Config_IsValidSourceId :: "string \<Rightarrow> bool" where
  "Config_IsValidSourceId source_id \<longleftrightarrow>
     \<not> (source_id = [] \<or> length source_id > 64) \<and>
     list_all (\<lambda>c. is_alnum c \<or> c = CHR ''.'' \<or> c = CHR ''_'' \<or> c = CHR ''-'') source_id"

definition parse_source_kind :: "string \<Rightarrow> string \<Rightarrow> string + FixedSourceKind" where
  "parse_source_kind path kind =
     (if kind = ''host_app'' then Inr FixedHostApp
      else if kind = ''control_center'' then Inr FixedControlCenter
      else Error (path @ ''.source_kind'') msg_cfg_source_kind)"

text \<open>One round of the loop over \<^verbatim>\<open>fixed_sources\<close>; \<open>source_ids\<close> are the identifiers seen so far.\<close>

definition parse_source :: "nat \<Rightarrow> string set \<Rightarrow> json \<Rightarrow> string + FixedSourceConfig" where
  "parse_source index source_ids source =
     (let path = ''command.fixed_sources['' @ decimal index @ '']'' in
      if \<not> is_object source then Error path msg_cfg_object
      else case unknown_field source [''source_id'', ''source_kind''] of
        Some field \<Rightarrow> Error (path @ ''.'' @ field) msg_cfg_unknown
      | None \<Rightarrow>
          bindE (ReadString source ''source_id'' (path @ ''.source_id'')) (\<lambda>source_id.
          if \<not> Config_IsValidSourceId source_id then Error (path @ ''.source_id'') msg_cfg_source_id
          else if source_id \<in> source_ids then Error (path @ ''.source_id'') msg_cfg_source_dup
          else bindE (ReadString source ''source_kind'' (path @ ''.source_kind'')) (\<lambda>kind.
          bindE (parse_source_kind path kind) (\<lambda>parsed_kind.
          Inr \<lparr>fs_source_id = source_id, fs_source_kind = parsed_kind\<rparr>))))"

fun parse_sources :: "nat \<Rightarrow> string set \<Rightarrow> json list \<Rightarrow> string + FixedSourceConfig list" where
  "parse_sources index source_ids [] = Inr []"
| "parse_sources index source_ids (source # sources) =
     bindE (parse_source index source_ids source) (\<lambda>parsed.
     bindE (parse_sources (Suc index) (insert (fs_source_id parsed) source_ids) sources) (\<lambda>rest.
     Inr (parsed # rest)))"

definition ReadSources :: "json \<Rightarrow> string + FixedSourceConfig list" where
  "ReadSources obj =
     (case jfind obj ''fixed_sources'' of
        None \<Rightarrow> Error ''command.fixed_sources'' msg_cfg_missing
      | Some (JArray sources) \<Rightarrow> parse_sources 0 {} sources
      | Some _ \<Rightarrow> Error ''command.fixed_sources'' msg_cfg_array)"

definition ParseCommand :: "json \<Rightarrow> string + CommandConfig" where
  "ParseCommand root =
     bindE (ReadObject root ''command'' ''command''
       [''config_timeout_seconds'', ''control_timeout_seconds'', ''terminal_retention_days'',
        ''cleanup_interval_seconds'', ''cleanup_batch_size'', ''max_inflight_commands'', ''fixed_sources'']) (\<lambda>obj.
     bindE (ReadInteger obj ''config_timeout_seconds'' ''command.config_timeout_seconds'' 1 300) (\<lambda>timeout.
     bindE (ReadInteger obj ''control_timeout_seconds'' ''command.control_timeout_seconds'' 1 300) (\<lambda>control_timeout.
     bindE (ReadInteger obj ''terminal_retention_days'' ''command.terminal_retention_days'' 1 3650) (\<lambda>retention.
     bindE (ReadInteger obj ''cleanup_interval_seconds'' ''command.cleanup_interval_seconds'' 60 86400) (\<lambda>cleanup_interval.
     bindE (ReadInteger obj ''cleanup_batch_size'' ''command.cleanup_batch_size'' 1 1000) (\<lambda>cleanup_batch.
     bindE (ReadInteger obj ''max_inflight_commands'' ''command.max_inflight_commands'' 1 4096) (\<lambda>max_inflight.
     bindE (ReadSources obj) (\<lambda>sources.
     Inr \<lparr>cc_config_timeout = to_long timeout, cc_control_timeout = to_long control_timeout,
          cc_terminal_retention = to_long retention, cc_cleanup_interval = to_long cleanup_interval,
          cc_cleanup_batch_size = cleanup_batch, cc_max_inflight_commands = max_inflight,
          cc_fixed_sources = sources\<rparr>))))))))"

subsection \<open>The whole file\<close>

text \<open>
  What reading a file can come to: it cannot be opened, it is read, or the stream throws while reading,
  as it does on a directory.
\<close>

datatype file_read = NotOpened | Contents string | ReadThrew

definition parse_root :: "json \<Rightarrow> string + AppConfig" where
  "parse_root root =
     bindE (CheckRoot root) (\<lambda>_.
     bindE (ParseDatabase root) (\<lambda>database.
     bindE (ParseMqtt root) (\<lambda>mqtt.
     bindE (ParseLogging root) (\<lambda>logging.
     bindE (ParseQueues root) (\<lambda>queues.
     bindE (ParseDeviceState root (mc_keepalive mqtt)) (\<lambda>device_state.
     bindE (ParseCommand root) (\<lambda>command.
     Inr \<lparr>ac_database = database, ac_mqtt = mqtt, ac_logging = logging, ac_queues = queues,
          ac_device_state = device_state, ac_command = command\<rparr>)))))))"

definition LoadAppConfig :: "json_lib \<Rightarrow> (string \<Rightarrow> file_read) \<Rightarrow> string \<Rightarrow> string + AppConfig" where
  "LoadAppConfig lib read_file path =
     (case read_file path of
        NotOpened \<Rightarrow> Error msg_cfg_file msg_cfg_open
      | ReadThrew \<Rightarrow> Error msg_cfg_file msg_cfg_read
      | Contents contents \<Rightarrow>
          (case jparse lib contents of
             None \<Rightarrow> Error msg_cfg_file msg_cfg_json
           | Some root \<Rightarrow> parse_root root))"

subsection \<open>What is accepted\<close>

definition seconds_within :: "int \<Rightarrow> int \<Rightarrow> int \<Rightarrow> bool" where
  "seconds_within lo hi s \<longleftrightarrow> lo \<le> s \<and> s \<le> hi"

definition database_ok :: "DatabaseConfig \<Rightarrow> bool" where
  "database_ok d \<longleftrightarrow> dc_port d \<noteq> 0 \<and> dc_password d \<noteq> [] \<and>
     seconds_within 1 60 (dc_connect_timeout d) \<and> seconds_within 1 300 (dc_reconnect_interval d)"

definition mqtt_ok :: "MqttConfig \<Rightarrow> bool" where
  "mqtt_ok m \<longleftrightarrow> mc_port m \<noteq> 0 \<and> seconds_within 1 3600 (mc_keepalive m) \<and> mc_client_id m \<noteq> [] \<and>
     (mc_username m = [] \<longrightarrow> mc_password m = []) \<and>
     seconds_within 1 (mc_reconnect_delay_max m) (mc_reconnect_delay m) \<and>
     seconds_within 1 3600 (mc_reconnect_delay_max m) \<and> IsValidTopicNamespace (mc_topic_namespace m) \<and>
     1024 \<le> mc_max_payload_bytes m \<and> mc_max_payload_bytes m \<le> 1048576"

definition device_state_ok :: "int \<Rightarrow> DeviceStateConfig \<Rightarrow> bool" where
  "device_state_ok keepalive s \<longleftrightarrow> seconds_within 1 60 (sc_telemetry_flush_interval s) \<and>
     seconds_within 61 86400 (sc_offline_timeout s) \<and> keepalive < sc_offline_timeout s"

definition command_ok :: "CommandConfig \<Rightarrow> bool" where
  "command_ok c \<longleftrightarrow> seconds_within 1 300 (cc_config_timeout c) \<and> seconds_within 1 300 (cc_control_timeout c) \<and>
     seconds_within 1 3650 (cc_terminal_retention c) \<and> seconds_within 60 86400 (cc_cleanup_interval c) \<and>
     1 \<le> cc_cleanup_batch_size c \<and> cc_cleanup_batch_size c \<le> 1000 \<and>
     1 \<le> cc_max_inflight_commands c \<and> cc_max_inflight_commands c \<le> 4096 \<and>
     list_all (\<lambda>s. IsValidSourceId (fs_source_id s)) (cc_fixed_sources c) \<and>
     distinct (map fs_source_id (cc_fixed_sources c))"

definition config_ok :: "AppConfig \<Rightarrow> bool" where
  "config_ok c \<longleftrightarrow> database_ok (ac_database c) \<and> mqtt_ok (ac_mqtt c) \<and>
     1 \<le> qc_mqtt_inbound_capacity (ac_queues c) \<and> qc_mqtt_inbound_capacity (ac_queues c) \<le> 65536 \<and>
     device_state_ok (mc_keepalive (ac_mqtt c)) (ac_device_state c) \<and> command_ok (ac_command c)"

lemma Error_ne [simp]: "Error p m \<noteq> Inr x" "Inr x \<noteq> Error p m"
  by (simp_all add: Error_def)

text \<open>The configuration and the topic parser agree on what a source identifier is.\<close>

lemma Config_IsValidSourceId_eq: "Config_IsValidSourceId = IsValidSourceId"
  by (auto simp: fun_eq_iff Config_IsValidSourceId_def IsValidSourceId_def)

lemma unknown_field_None: "unknown_field obj allowed = None \<longleftrightarrow> only_fields obj allowed"
  by (auto simp: unknown_field_def only_fields_def find_None_iff list_all_iff)

lemma ReadObject_Inr:
  "ReadObject parent key path allowed = Inr obj \<longleftrightarrow>
     jfind parent key = Some obj \<and> is_object obj \<and> only_fields obj allowed"
  by (auto simp: ReadObject_def unknown_field_None [symmetric] split: option.splits if_splits)

lemma ReadString_Inr: "ReadString obj key path = Inr s \<longleftrightarrow> jfind obj key = Some (JString s)"
  by (auto simp: ReadString_def split: option.splits json.splits)

lemma ReadInteger_Inr:
  "ReadInteger obj key path lo hi = Inr w \<longleftrightarrow>
     (\<exists>v. jfind obj key = Some v \<and> is_number_integer v \<and> 0 \<le> get_int64 v \<and> get_bits v = w \<and> lo \<le> w \<and> w \<le> hi)"
  using is_number_unsigned_integer
  by (auto simp: ReadInteger_def Let_def not_less not_le split: option.splits if_splits)

lemma to_long_bits: "to_long (get_bits v) = get_int64 v"
  by (simp add: to_long_def get_int64_def)

lemma ReadInteger_bounds:
  assumes "ReadInteger obj key path lo hi = Inr w"
  shows "lo \<le> w" "w \<le> hi" "to_long w = uint w" "uint lo \<le> to_long w" "to_long w \<le> uint hi"
proof -
  from assms obtain v where v: "0 \<le> get_int64 v" "get_bits v = w" "lo \<le> w" "w \<le> hi"
    by (auto simp: ReadInteger_Inr)
  show "lo \<le> w" "w \<le> hi" by (fact v)+
  have "to_long w = get_int64 v" using v(2) to_long_bits [of v] by simp
  also have "\<dots> = int (get_uint64 v)" by (rule get_int64_nonneg [OF v(1)])
  also have "\<dots> = uint w" by (simp add: get_uint64_def v(2))
  finally show long: "to_long w = uint w" .
  show "uint lo \<le> to_long w" "to_long w \<le> uint hi"
    unfolding long using v(3,4) by (simp_all add: word_le_def)
qed

lemma ReadInteger_facts:
  "ReadInteger obj key path lo hi = Inr w \<Longrightarrow>
     lo \<le> w \<and> w \<le> hi \<and> to_long w = uint w \<and> uint lo \<le> uint w \<and> uint w \<le> uint hi"
  using ReadInteger_bounds [of obj key path lo hi w] by simp

lemma port_nonzero:
  assumes "1 \<le> w" "w \<le> (65535 :: 64 word)"
  shows "(ucast w :: 16 word) \<noteq> 0"
proof -
  from assms have u: "1 \<le> unat w" "unat w \<le> 65535" by (simp_all add: word_le_nat_alt)
  then have "unat (ucast w :: 16 word) = unat w"
    by (simp add: unsigned_ucast_eq take_bit_nat_eq_self)
  with u show ?thesis by auto
qed

lemmas config_sound = bindE_eq_Inr_iff seconds_within_def port_nonzero word_le_def [symmetric]

lemma ParseDatabase_ok: "ParseDatabase root = Inr d \<Longrightarrow> database_ok d"
  by (auto simp: ParseDatabase_def database_ok_def config_sound dest!: ReadInteger_facts split: if_splits)

lemma ParseMqtt_ok: "ParseMqtt root = Inr m \<Longrightarrow> mqtt_ok m"
  by (auto simp: ParseMqtt_def mqtt_ok_def config_sound not_less dest!: ReadInteger_facts split: if_splits)

lemma ParseQueues_ok: "ParseQueues root = Inr q \<Longrightarrow>
    1 \<le> qc_mqtt_inbound_capacity q \<and> qc_mqtt_inbound_capacity q \<le> 65536"
  by (auto simp: ParseQueues_def config_sound dest!: ReadInteger_facts)

lemma ParseDeviceState_ok: "ParseDeviceState root k = Inr s \<Longrightarrow> device_state_ok k s"
  by (auto simp: ParseDeviceState_def device_state_ok_def config_sound dest!: ReadInteger_facts split: if_splits)

lemma parse_source_Inr:
  "parse_source i ids v = Inr s \<Longrightarrow> IsValidSourceId (fs_source_id s) \<and> fs_source_id s \<notin> ids"
  by (auto simp: parse_source_def Let_def bindE_eq_Inr_iff Config_IsValidSourceId_eq split: if_splits option.splits)

lemma parse_sources_ok:
  "parse_sources i ids vs = Inr ss \<Longrightarrow>
     list_all (\<lambda>s. IsValidSourceId (fs_source_id s)) ss \<and> distinct (map fs_source_id ss) \<and>
     fs_source_id ` set ss \<inter> ids = {}"
proof (induction vs arbitrary: i ids ss)
  case (Cons v vs)
  then obtain s rest where s: "parse_source i ids v = Inr s" "ss = s # rest"
      "parse_sources (Suc i) (insert (fs_source_id s) ids) vs = Inr rest"
    by (auto simp: bindE_eq_Inr_iff)
  show ?case using Cons.IH [OF s(3)] parse_source_Inr [OF s(1)] by (auto simp: s(2))
qed simp

lemma ParseCommand_ok: 
  assumes "ParseCommand root = Inr c"
  shows "command_ok c"
proof -
  from assms obtain obj where "ReadSources obj = Inr (cc_fixed_sources c)"
    unfolding ParseCommand_def bindE_eq_Inr_iff sum.inject by (elim exE conjE) auto
  then have "list_all (\<lambda>s. IsValidSourceId (fs_source_id s)) (cc_fixed_sources c) \<and>
      distinct (map fs_source_id (cc_fixed_sources c))"
    by (auto simp: ReadSources_def dest!: parse_sources_ok split: option.splits json.splits)
  then show ?thesis using assms
    by (auto simp: ParseCommand_def command_ok_def config_sound dest!: ReadInteger_facts)
qed

lemma parse_root_ok: "parse_root root = Inr c \<Longrightarrow> config_ok c"
  by (auto simp: parse_root_def config_ok_def bindE_eq_Inr_iff ParseDatabase_ok ParseMqtt_ok ParseQueues_ok
      ParseDeviceState_ok ParseCommand_ok)

subsection \<open>Writing a configuration\<close>

text \<open>The document a configuration is written as; numbers without a sign are unsigned JSON numbers.\<close>

definition count_json :: "int \<Rightarrow> json" where
  "count_json n = JUnsigned (word_of_int n)"

definition level_text :: "Level \<Rightarrow> string" where
  "level_text level = (case level of kDebug \<Rightarrow> ''debug'' | kInfo \<Rightarrow> ''info'' | kWarn \<Rightarrow> ''warn'' | kError \<Rightarrow> ''error'')"

definition kind_text :: "FixedSourceKind \<Rightarrow> string" where
  "kind_text kind = (case kind of FixedHostApp \<Rightarrow> ''host_app'' | FixedControlCenter \<Rightarrow> ''control_center'')"

definition database_json :: "DatabaseConfig \<Rightarrow> json" where
  "database_json d = jobject
     [(''host'', JString (dc_host d)), (''port'', juint (dc_port d)), (''name'', JString (dc_name d)),
      (''user'', JString (dc_user d)), (''password'', JString (dc_password d)),
      (''connect_timeout_seconds'', count_json (dc_connect_timeout d)),
      (''reconnect_interval_seconds'', count_json (dc_reconnect_interval d))]"

definition mqtt_json :: "MqttConfig \<Rightarrow> json" where
  "mqtt_json m = jobject
     [(''host'', JString (mc_host m)), (''port'', juint (mc_port m)),
      (''keepalive_seconds'', count_json (mc_keepalive m)), (''client_id'', JString (mc_client_id m)),
      (''username'', JString (mc_username m)), (''password'', JString (mc_password m)),
      (''reconnect_delay_seconds'', count_json (mc_reconnect_delay m)),
      (''reconnect_delay_max_seconds'', count_json (mc_reconnect_delay_max m)),
      (''topic_namespace'', JString (mc_topic_namespace m)),
      (''max_payload_bytes'', JUnsigned (mc_max_payload_bytes m))]"

definition device_state_json :: "DeviceStateConfig \<Rightarrow> json" where
  "device_state_json s = jobject
     [(''telemetry_flush_interval_seconds'', count_json (sc_telemetry_flush_interval s)),
      (''offline_timeout_seconds'', count_json (sc_offline_timeout s))]"

definition source_json :: "FixedSourceConfig \<Rightarrow> json" where
  "source_json s = jobject
     [(''source_id'', JString (fs_source_id s)), (''source_kind'', JString (kind_text (fs_source_kind s)))]"

definition command_json :: "CommandConfig \<Rightarrow> json" where
  "command_json c = jobject
     [(''config_timeout_seconds'', count_json (cc_config_timeout c)),
      (''control_timeout_seconds'', count_json (cc_control_timeout c)),
      (''terminal_retention_days'', count_json (cc_terminal_retention c)),
      (''cleanup_interval_seconds'', count_json (cc_cleanup_interval c)),
      (''cleanup_batch_size'', JUnsigned (cc_cleanup_batch_size c)),
      (''max_inflight_commands'', JUnsigned (cc_max_inflight_commands c)),
      (''fixed_sources'', JArray (map source_json (cc_fixed_sources c)))]"

definition config_json :: "AppConfig \<Rightarrow> json" where
  "config_json c = jobject
     [(''database'', database_json (ac_database c)), (''mqtt'', mqtt_json (ac_mqtt c)),
      (''logging'', jobject [(''level'', JString (level_text (lc_level (ac_logging c))))]),
      (''queues'', jobject [(''mqtt_inbound_capacity'', JUnsigned (qc_mqtt_inbound_capacity (ac_queues c)))]),
      (''device_state'', device_state_json (ac_device_state c)), (''command'', command_json (ac_command c))]"

lemma jkeys_jobject: "set (jkeys (jobject kvs)) = fst ` set kvs"
  by (simp add: jobject_def fset_of_list.rep_eq)

lemma only_fields_jobject: "only_fields (jobject kvs) allowed \<longleftrightarrow> fst ` set kvs \<subseteq> set allowed"
  by (auto simp: only_fields_def list_all_iff jkeys_jobject)

lemma ReadObject_json:
  "jfind parent key = Some (jobject kvs) \<Longrightarrow> fst ` set kvs \<subseteq> set allowed \<Longrightarrow>
     ReadObject parent key path allowed = Inr (jobject kvs)"
  by (simp add: ReadObject_Inr only_fields_jobject)

lemma ReadString_json: "jfind obj key = Some (JString s) \<Longrightarrow> ReadString obj key path = Inr s"
  by (simp add: ReadString_Inr)

lemma ReadInteger_unsigned:
  assumes "jfind obj key = Some (JUnsigned w)" "lo \<le> w" "w \<le> hi" "uint hi < 2 ^ 63"
  shows "ReadInteger obj key path lo hi = Inr w"
proof -
  have "uint w < 2 ^ 63" using assms(3,4) by (simp add: word_le_def)
  then have "get_uint64 (JUnsigned w) < 2 ^ 63"
    by (simp add: get_uint64_def flip: of_nat_less_iff [where ?'a = int])
  then have "0 \<le> get_int64 (JUnsigned w)" by (simp add: get_int64_cases)
  with assms show ?thesis by (simp add: ReadInteger_Inr)
qed

lemma ReadInteger_count:
  assumes "jfind obj key = Some (count_json n)" "uint lo \<le> n" "n \<le> uint hi" "uint hi < 2 ^ 63"
  shows "ReadInteger obj key path lo hi = Inr (word_of_int n)"
proof -
  have "0 \<le> n" using assms(2) unsigned_greater_eq [of lo] by (rule order_trans [rotated])
  then have "uint (word_of_int n :: 64 word) = n"
    using assms(3,4) by (simp add: uint_word_of_int mod_pos_pos_trivial)
  then show ?thesis using assms by (intro ReadInteger_unsigned) (simp_all add: count_json_def word_le_def)
qed

lemma to_long_word_of_int: "0 \<le> n \<Longrightarrow> n < 2 ^ 63 \<Longrightarrow> to_long (word_of_int n) = n"
  by (simp add: to_long_def signed_take_bit_int_eq_self signed_of_int)

lemma ReadInteger_juint:
  assumes "jfind obj key = Some (juint (p :: 16 word))" "p \<noteq> 0"
  shows "ReadInteger obj key path 1 65535 = Inr (ucast p)"
proof -
  have "uint p < 65536" using unsigned_less [of p, where ?'a = int] by simp
  moreover have "0 < uint p" using assms(2) by (simp add: word_neq_0_conv [symmetric] uint_0_iff less_le)
  ultimately show ?thesis using assms(1)
    by (intro ReadInteger_unsigned) (simp_all add: juint_def word_le_def unsigned_ucast_eq take_bit_int_eq_self)
qed

lemma port_widened: "ucast (ucast p :: 64 word) = (p :: 16 word)"
  by (rule bit_word_eqI) (simp add: bit_simps)

lemma word_of_int_less:
  "0 \<le> a \<Longrightarrow> a < 2 ^ 63 \<Longrightarrow> 0 \<le> b \<Longrightarrow> b < 2 ^ 63 \<Longrightarrow> (word_of_int a :: 64 word) < word_of_int b \<longleftrightarrow> a < b"
  by (simp add: word_less_def uint_word_of_int mod_pos_pos_trivial)

lemmas config_eval = ReadObject_json ReadString_json ReadInteger_count ReadInteger_unsigned ReadInteger_juint
  to_long_word_of_int only_fields_jobject seconds_within_def port_widened word_of_int_less not_less

lemma ParseDatabase_json:
  "jfind root ''database'' = Some (database_json d) \<Longrightarrow> database_ok d \<Longrightarrow> ParseDatabase root = Inr d"
  by (cases d) (simp add: ParseDatabase_def database_json_def database_ok_def config_eval)

lemma ParseMqtt_json:
  "jfind root ''mqtt'' = Some (mqtt_json m) \<Longrightarrow> mqtt_ok m \<Longrightarrow> ParseMqtt root = Inr m"
  by (cases m) (simp add: ParseMqtt_def mqtt_json_def mqtt_ok_def config_eval)

lemma ParseDeviceState_json:
  "jfind root ''device_state'' = Some (device_state_json s) \<Longrightarrow> device_state_ok k s \<Longrightarrow> ParseDeviceState root k = Inr s"
  by (cases s) (simp add: ParseDeviceState_def device_state_json_def device_state_ok_def config_eval)

lemma parse_source_json:
  "IsValidSourceId (fs_source_id s) \<Longrightarrow> fs_source_id s \<notin> ids \<Longrightarrow> parse_source i ids (source_json s) = Inr s"
  by (cases s; cases "fs_source_kind s")
     (simp_all add: parse_source_def source_json_def Let_def config_eval Config_IsValidSourceId_eq
       unknown_field_None [THEN iffD2] parse_source_kind_def kind_text_def)

lemma parse_sources_json:
  "list_all (\<lambda>s. IsValidSourceId (fs_source_id s)) ss \<Longrightarrow> distinct (map fs_source_id ss) \<Longrightarrow>
     fs_source_id ` set ss \<inter> ids = {} \<Longrightarrow> parse_sources i ids (map source_json ss) = Inr ss"
  by (induction ss arbitrary: i ids) (auto simp: parse_source_json)

lemma ParseCommand_json:
  "jfind root ''command'' = Some (command_json c) \<Longrightarrow> command_ok c \<Longrightarrow> ParseCommand root = Inr c"
  by (cases c) (simp add: ParseCommand_def command_json_def command_ok_def config_eval ReadSources_def
      parse_sources_json)

lemma ParseLogging_json:
  "jfind root ''logging'' = Some (jobject [(''level'', JString (level_text (lc_level l)))]) \<Longrightarrow>
     ParseLogging root = Inr l"
  by (cases l) (simp add: ParseLogging_def config_eval level_text_def ParseLevel_Some_iff [THEN iffD2])

lemma parse_root_json: 
  assumes "config_ok c"
  shows "parse_root (config_json c) = Inr c"
proof -
  have "CheckRoot (config_json c) = Inr ()"
    by (simp add: CheckRoot_def config_json_def unknown_field_None [THEN iffD2] only_fields_jobject)
  moreover have "ParseQueues (config_json c) = Inr (ac_queues c)"
    using assms by (cases "ac_queues c") (simp add: ParseQueues_def config_json_def config_ok_def config_eval)
  moreover have "ParseLogging (config_json c) = Inr (ac_logging c)"
    by (simp add: config_json_def ParseLogging_json)
  moreover have "ParseDatabase (config_json c) = Inr (ac_database c)" "ParseMqtt (config_json c) = Inr (ac_mqtt c)"
    "ParseDeviceState (config_json c) (mc_keepalive (ac_mqtt c)) = Inr (ac_device_state c)"
    "ParseCommand (config_json c) = Inr (ac_command c)"
    using assms
    by (simp_all add: config_json_def config_ok_def ParseDatabase_json ParseMqtt_json ParseDeviceState_json
        ParseCommand_json)
  ultimately show ?thesis by (cases c) (simp add: parse_root_def)
qed

subsection \<open>Properties\<close>

text \<open>
  C25. Every configuration the service starts with is within the documented bounds, whatever the file
  contains: ports are not 0, all durations, sizes and counts are within their ranges, the reconnect delay
  does not exceed its maximum, a device only counts as offline after the keep-alive time, a password never
  comes without a user, the topic prefix is one topic segment without wildcards, and the fixed sources have
  distinct identifiers of the form the request topics demand. No conversion to a narrower type lost a bit.
\<close>
theorem config_within_bounds:
  assumes "LoadAppConfig lib read_file path = Inr cfg"
  shows "config_ok cfg"
  using assms by (auto simp: LoadAppConfig_def parse_root_ok split: file_read.splits option.splits)

definition demo_config :: AppConfig where
  "demo_config =
     \<lparr>ac_database = \<lparr>dc_host = ''db'', dc_port = 5432, dc_name = ''cns'', dc_user = ''cns'',
        dc_password = ''secret'', dc_connect_timeout = 5, dc_reconnect_interval = 300\<rparr>,
      ac_mqtt = \<lparr>mc_host = ''broker'', mc_port = 65535, mc_keepalive = 60, mc_client_id = ''route'',
        mc_username = [], mc_password = [], mc_reconnect_delay = 1, mc_reconnect_delay_max = 30,
        mc_topic_namespace = ''cns'', mc_max_payload_bytes = 262144\<rparr>,
      ac_logging = \<lparr>lc_level = kInfo\<rparr>,
      ac_queues = \<lparr>qc_mqtt_inbound_capacity = 65536\<rparr>,
      ac_device_state = \<lparr>sc_telemetry_flush_interval = 5, sc_offline_timeout = 61\<rparr>,
      ac_command = \<lparr>cc_config_timeout = 15, cc_control_timeout = 30, cc_terminal_retention = 30,
        cc_cleanup_interval = 3600, cc_cleanup_batch_size = 100, cc_max_inflight_commands = 256,
        cc_fixed_sources = [\<lparr>fs_source_id = ''host_app_01'', fs_source_kind = FixedHostApp\<rparr>,
          \<lparr>fs_source_id = ''center'', fs_source_kind = FixedControlCenter\<rparr>]\<rparr>\<rparr>"

lemma demo_config_ok: "config_ok demo_config"
  by (simp add: demo_config_def config_ok_def database_ok_def mqtt_ok_def device_state_ok_def command_ok_def
      seconds_within_def IsValidTopicNamespace_def is_space_def IsValidSourceId_def char_class_defs
      less_eq_char_def)

definition demo_config_lib :: json_lib where
  "demo_config_lib =
     \<lparr>jparse = (\<lambda>t. if t = ''{}'' then Some (config_json demo_config) else None), jdump = (\<lambda>_. ''{}''), jeq = (=)\<rparr>"

lemma demo_config_loads:
  "LoadAppConfig demo_config_lib (\<lambda>_. Contents ''{}'') ''/etc/cns.json'' = Inr demo_config"
  by (simp add: LoadAppConfig_def demo_config_lib_def parse_root_json demo_config_ok)

theorem config_within_bounds_witness:
  "LoadAppConfig demo_config_lib (\<lambda>_. Contents ''{}'') ''/etc/cns.json'' = Inr demo_config \<and>
   config_ok demo_config"
  using config_within_bounds [OF demo_config_loads] demo_config_loads by simp

text \<open>
  No legal configuration is refused or altered: a file whose JSON is the document of a configuration
  within the bounds is read back as exactly that configuration, including the extreme values of every range.
\<close>
theorem config_roundtrip:
  assumes "read_file path = Contents contents" "jparse lib contents = Some (config_json cfg)" "config_ok cfg"
  shows "LoadAppConfig lib read_file path = Inr cfg"
  using assms by (simp add: LoadAppConfig_def parse_root_json)

theorem config_roundtrip_witness:
  "LoadAppConfig demo_config_lib (\<lambda>_. Contents ''{}'') ''/etc/cns.json'' = Inr demo_config"
  by (rule config_roundtrip [where contents = "''{}''"]) (simp_all add: demo_config_lib_def demo_config_ok)

end
