(* ===== verification/Migration.thy ===== *)
theory Migration
  imports Time_Format Messages
begin

text \<open>
  \<^verbatim>\<open>core/migration/migration.cpp\<close> and \<^verbatim>\<open>migration_plan.cpp\<close>: which SQL files are the
  migrations of the database, and which of them still have to be executed. The file system is a parameter:
  what listing the directory yields. The lemmas characterise both results exactly.
\<close>

subsection \<open>The migration files\<close>

record Migration =
  mg_version :: int
  mg_name :: string
  mg_file :: string

text \<open>
  An entry of the directory: asking whether it is a regular file may throw, with the text of
  \<^verbatim>\<open>what()\<close>. Listing the directory may find none, or throw before or after some entries; the order of
  the entries is unspecified.
\<close>

record directory_entry =
  de_path :: string
  de_filename :: string
  de_is_regular_file :: "string + bool"

datatype directory_listing =
    NotADirectory
  | ListingThrew string
  | Listing "directory_entry list" "string option"

definition format_03 :: "int \<Rightarrow> string" where
  "format_03 i = printf_0d 3 i"

definition digit_value :: "char \<Rightarrow> int" where
  "digit_value c = int (code c) - 48"

definition legal_filename :: "string \<Rightarrow> bool" where
  "legal_filename filename \<longleftrightarrow>
     \<not> (length filename < 8 \<or> \<not> ends_with filename ''.sql'' \<or> filename ! 3 \<noteq> CHR ''_'' \<or>
        \<not> is_digit (filename ! 0) \<or> \<not> is_digit (filename ! 1) \<or> \<not> is_digit (filename ! 2))"

text \<open>An exception of \<^verbatim>\<open>is_regular_file\<close> passes through to the handler of \<^verbatim>\<open>DiscoverMigrations\<close>.\<close>

definition ParseMigration :: "directory_entry \<Rightarrow> string + Migration" where
  "ParseMigration entry =
     (let filename = de_filename entry in
      if \<not> legal_filename filename then Inl (msg_mig_filename @ filename)
      else let version = digit_value (filename ! 0) * 100 + digit_value (filename ! 1) * 10 +
                         digit_value (filename ! 2) in
        if version = 0 then Inl (msg_mig_zero @ filename)
        else let name = substr filename 4 (length filename - 4 - length ''.sql'') in
          if name = [] then Inl (msg_mig_name @ filename)
          else case de_is_regular_file entry of
            Inl what \<Rightarrow> Inl (msg_mig_read @ what)
          | Inr regular \<Rightarrow>
              if \<not> regular then Inl (msg_mig_regular @ filename)
              else Inr \<lparr>mg_version = version, mg_name = name, mg_file = de_path entry\<rparr>)"

fun collect_migrations :: "directory_entry list \<Rightarrow> string + Migration list" where
  "collect_migrations [] = Inr []"
| "collect_migrations (entry # entries) =
     (if \<not> ends_with (de_filename entry) ''.sql'' then collect_migrations entries
      else bindE (ParseMigration entry) (\<lambda>m. bindE (collect_migrations entries) (\<lambda>ms. Inr (m # ms))))"

fun check_versions :: "int \<Rightarrow> int option \<Rightarrow> int list \<Rightarrow> string + unit" where
  "check_versions expected_version previous [] = Inr ()"
| "check_versions expected_version previous (version # versions) =
     (if version \<noteq> expected_version then
        if previous = Some version then Inl (msg_mig_duplicate @ format_03 version)
        else Inl (msg_mig_gap @ format_03 expected_version @ msg_mig_actual @ format_03 version)
      else check_versions (expected_version + 1) (Some version) versions)"

text \<open>
  \<^verbatim>\<open>std::ranges::sort\<close> need not be stable; where two versions are equal the result is an error that
  names the version only.
\<close>

definition DiscoverMigrations :: "(string \<Rightarrow> directory_listing) \<Rightarrow> string \<Rightarrow> string + Migration list" where
  "DiscoverMigrations listing directory =
     (case listing directory of
        NotADirectory \<Rightarrow> Inl (msg_mig_directory @ directory)
      | ListingThrew what \<Rightarrow> Inl (msg_mig_read @ what)
      | Listing entries failure \<Rightarrow>
          bindE (collect_migrations entries) (\<lambda>migrations.
          case failure of Some what \<Rightarrow> Inl (msg_mig_read @ what)
          | None \<Rightarrow>
              if migrations = [] then Inl msg_mig_none
              else let sorted_migrations = sort_key mg_version migrations in
                bindE (check_versions 1 None (map mg_version sorted_migrations)) (\<lambda>_.
                Inr sorted_migrations)))"

subsection \<open>The plan\<close>

record AppliedMigration =
  am_version :: int
  am_name :: string

datatype Mode = kCheckOnly | kApply

record MigrationPlan =
  pl_pending :: "Migration list"

fun ValidateContinuous :: "string \<Rightarrow> int \<Rightarrow> int list \<Rightarrow> string + unit" where
  "ValidateContinuous source expected_version [] = Inr ()"
| "ValidateContinuous source expected_version (version # versions) =
     (if version \<noteq> expected_version
      then Inl (source @ msg_plan_gap @ format_03 expected_version @ msg_plan_actual @ format_03 version)
      else ValidateContinuous source (expected_version + 1) versions)"

fun check_common :: "Migration list \<Rightarrow> AppliedMigration list \<Rightarrow> string + unit" where
  "check_common (m # ms) (a # as) =
     (if mg_version m \<noteq> am_version a \<or> mg_name m \<noteq> am_name a
      then Inl (msg_plan_migration @ format_03 (mg_version m) @ msg_plan_mismatch)
      else check_common ms as)"
| "check_common ms as = Inr ()"

definition BuildMigrationPlan :: "Migration list \<Rightarrow> AppliedMigration list \<Rightarrow> Mode \<Rightarrow> string + MigrationPlan" where
  "BuildMigrationPlan available applied mode =
     bindE (ValidateContinuous msg_plan_directory 1 (map mg_version available)) (\<lambda>_.
     bindE (ValidateContinuous msg_plan_database 1 (map am_version applied)) (\<lambda>_.
     bindE (check_common available applied) (\<lambda>_.
     if length applied > length available
     then Inl (msg_plan_unknown @ format_03 (am_version (applied ! length available)))
     else if length applied = length available then Inr \<lparr>pl_pending = []\<rparr>
     else if mode = kCheckOnly
     then Inl (msg_plan_pending @ format_03 (mg_version (available ! length applied)) @ msg_plan_run)
     else Inr \<lparr>pl_pending = drop (length applied) available\<rparr>)))"

subsection \<open>Lemmas\<close>

lemma ValidateContinuous_iff: "ValidateContinuous src k vs = Inr u \<longleftrightarrow> vs = [k..k + int (length vs) - 1]"
  by (induction vs arbitrary: k) (auto simp: upto_rec1 algebra_simps)

lemma check_versions_iff: "check_versions k p vs = Inr u \<longleftrightarrow> vs = [k..k + int (length vs) - 1]"
  by (induction vs arbitrary: k p) (auto simp: upto_rec1 algebra_simps)

text \<open>The record the database keeps of an executed migration.\<close>

definition applied_of :: "Migration \<Rightarrow> AppliedMigration" where
  "applied_of m = \<lparr>am_version = mg_version m, am_name = mg_name m\<rparr>"

lemma check_common_iff:
  "check_common ms as = Inr u \<longleftrightarrow> map applied_of (take (length as) ms) = take (length ms) as"
proof (induction ms as rule: check_common.induct)
  case (1 m ms a as)
  then show ?case by (cases a) (auto simp: applied_of_def)
qed simp_all

lemma take_upto: "k \<le> n \<Longrightarrow> take k [1..int n] = [1..int k]"
  by (rule nth_equalityI) (simp_all add: nth_upto)

lemma BuildMigrationPlan_Inr:
  "BuildMigrationPlan available applied mode = Inr plan \<longleftrightarrow>
     map mg_version available = [1..int (length available)] \<and>
     (\<exists>k \<le> length available. applied = map applied_of (take k available) \<and>
        plan = \<lparr>pl_pending = drop k available\<rparr> \<and> (mode = kCheckOnly \<longrightarrow> k = length available))"
    (is "?built \<longleftrightarrow> ?versions \<and> ?prefix")
proof
  assume ?built
  then have versions: ?versions and common: "map applied_of (take (length applied) available) = take (length available) applied"
      and k: "length applied \<le> length available"
      and plan: "plan = \<lparr>pl_pending = drop (length applied) available\<rparr>" "mode = kCheckOnly \<longrightarrow> length applied = length available"
    by (auto simp: BuildMigrationPlan_def bindE_eq_Inr_iff ValidateContinuous_iff check_common_iff split: if_splits)
  then have "applied = map applied_of (take (length applied) available)" by simp
  with versions k plan show "?versions \<and> ?prefix" by blast
next
  assume "?versions \<and> ?prefix"
  then obtain k where versions: ?versions and k: "k \<le> length available" "applied = map applied_of (take k available)"
      "plan = \<lparr>pl_pending = drop k available\<rparr>" "mode = kCheckOnly \<longrightarrow> k = length available" by blast
  have "map am_version applied = take k (map mg_version available)"
    by (simp add: k(2) applied_of_def take_map comp_def)
  then have "map am_version applied = [1..int k]" using versions k(1) by (simp add: take_upto)
  with versions k show ?built
    by (auto simp: BuildMigrationPlan_def bindE_eq_Inr_iff ValidateContinuous_iff check_common_iff)
qed

lemma BuildMigrationPlan_resume:
  assumes "BuildMigrationPlan available applied kApply = Inr plan"
  shows "BuildMigrationPlan available (applied @ map applied_of (take j (pl_pending plan))) kApply =
    Inr \<lparr>pl_pending = drop j (pl_pending plan)\<rparr>"
proof -
  from assms obtain k where k: "map mg_version available = [1..int (length available)]" "k \<le> length available"
      "applied = map applied_of (take k available)" "plan = \<lparr>pl_pending = drop k available\<rparr>"
    by (auto simp: BuildMigrationPlan_Inr)
  let ?k = "min (k + j) (length available)"
  have "applied @ map applied_of (take j (pl_pending plan)) = map applied_of (take ?k available)"
    by (simp add: k(3,4) take_add flip: map_append take_take)
  moreover have "drop j (pl_pending plan) = drop ?k available"
    by (simp add: k(4) min_def add.commute)
  ultimately show ?thesis using k(1) by (auto simp: BuildMigrationPlan_Inr intro!: exI [of _ ?k])
qed

subsection \<open>File names\<close>

lemma is_digitE:
  assumes "is_digit c"
  obtains d where "d < 10" "c = char_of (48 + d)" "digit_value c = int d"
proof
  have c: "48 \<le> (of_char c :: nat)" "(of_char c :: nat) \<le> 57"
    using assms by (simp_all add: is_digit_def less_eq_char_def)
  then show "of_char c - 48 < (10 :: nat)" by simp
  show "c = char_of (48 + (of_char c - 48 :: nat))" using c(1) by simp
  show "digit_value c = int (of_char c - 48)" using c(1) by (simp add: digit_value_def code_def)
qed

lemma decimal_small: "n < 10 \<Longrightarrow> decimal n = [char_of (48 + n)]"
  by (simp add: decimal.simps)

lemma decimal_step: "\<not> n < 10 \<Longrightarrow> decimal n = decimal (n div 10) @ [char_of (48 + n mod 10)]"
  by (subst decimal.simps) simp

lemma last_digit: "c < 10 \<Longrightarrow> (k * 10 + c) div 10 = k \<and> (k * 10 + c) mod 10 = c" for c k :: nat
  by simp

lemma format_03_digits:
  assumes "a < 10" "b < 10" "c < 10"
  shows "format_03 (int a * 100 + int b * 10 + int c) = [char_of (48 + a), char_of (48 + b), char_of (48 + c)]"
proof -
  let ?n = "(a * 10 + b) * 10 + c"
  have n: "?n div 10 = a * 10 + b" "?n mod 10 = c" "(a * 10 + b) div 10 = a" "(a * 10 + b) mod 10 = b"
    using last_digit [OF assms(3)] last_digit [OF assms(2)] by blast+
  have "decimal ?n = (if a = 0 then if b = 0 then [char_of (48 + c)] else [char_of (48 + b), char_of (48 + c)]
      else [char_of (48 + a), char_of (48 + b), char_of (48 + c)])"
    using assms n by (auto simp: decimal_small decimal_step)
  moreover have "nat (int a * 100 + int b * 10 + int c) = ?n" by simp
  moreover have "char_of (48 :: nat) = CHR ''0''" by code_simp
  ultimately show ?thesis
    by (auto simp: format_03_def printf_0d_def pad0_def numeral_2_eq_2 simp del: of_nat_add of_nat_mult)
qed

lemma take_four: "4 \<le> length xs \<Longrightarrow> take 4 xs = [xs ! 0, xs ! 1, xs ! 2, xs ! 3]"
  by (auto simp: numeral_eq_Suc Suc_le_length_iff)

text \<open>A file name is read apart into exactly what it is written from.\<close>

lemma ParseMigration_filename:
  assumes "ParseMigration e = Inr m"
  shows "de_filename e = format_03 (mg_version m) @ ''_'' @ mg_name m @ ''.sql'' \<and> mg_name m \<noteq> [] \<and>
    mg_version m \<noteq> 0 \<and> mg_file m = de_path e \<and> de_is_regular_file e = Inr True"
proof -
  let ?f = "de_filename e"
  from assms have legal: "8 \<le> length ?f" "ends_with ?f ''.sql''" "?f ! 3 = CHR ''_''"
      "is_digit (?f ! 0)" "is_digit (?f ! 1)" "is_digit (?f ! 2)"
      and m: "mg_version m = digit_value (?f ! 0) * 100 + digit_value (?f ! 1) * 10 + digit_value (?f ! 2)"
      "mg_name m = substr ?f 4 (length ?f - 8)" "mg_name m \<noteq> []" "mg_version m \<noteq> 0" "mg_file m = de_path e"
      "de_is_regular_file e = Inr True"
    by (auto simp: ParseMigration_def legal_filename_def Let_def split: if_splits sum.splits)
  obtain a b c where abc: "a < 10" "b < 10" "c < 10" "?f ! 0 = char_of (48 + a)" "?f ! 1 = char_of (48 + b)"
      "?f ! 2 = char_of (48 + c)" "digit_value (?f ! 0) = int a" "digit_value (?f ! 1) = int b"
      "digit_value (?f ! 2) = int c"
    using legal(4-6) by (metis is_digitE)
  have "format_03 (mg_version m) = [?f ! 0, ?f ! 1, ?f ! 2]"
    unfolding m(1) using abc by (simp add: format_03_digits)
  moreover have "?f = take 4 ?f @ substr ?f 4 (length ?f - 8) @ ''.sql''"
  proof -
    have "drop 4 ?f = take (length ?f - 8) (drop 4 ?f) @ drop (length ?f - 4) ?f"
      using legal(1) append_take_drop_id [of "length ?f - 8" "drop 4 ?f"] by (simp add: drop_drop)
    moreover have "drop (length ?f - 4) ?f = ''.sql''"
      using legal(2) by (simp add: ends_with_def numeral_eq_Suc)
    ultimately show ?thesis by (metis append_take_drop_id substr_def)
  qed
  moreover have "take 4 ?f = [?f ! 0, ?f ! 1, ?f ! 2, CHR ''_'']" using legal(1,3) by (simp add: take_four)
  ultimately show ?thesis using m by simp
qed

subsection \<open>The list of migrations\<close>

definition is_sql :: "directory_entry \<Rightarrow> bool" where
  "is_sql e \<longleftrightarrow> ends_with (de_filename e) ''.sql''"

lemma collect_migrations_iff:
  "collect_migrations es = Inr ms \<longleftrightarrow> map ParseMigration (filter is_sql es) = map Inr ms"
  by (induction es arbitrary: ms) (auto simp: is_sql_def bindE_eq_Inr_iff map_eq_Cons_conv)

lemma DiscoverMigrations_Inr:
  "DiscoverMigrations listing directory = Inr ms \<longleftrightarrow>
     (\<exists>es found. listing directory = Listing es None \<and> collect_migrations es = Inr found \<and> found \<noteq> [] \<and>
        ms = sort_key mg_version found \<and> map mg_version ms = [1..int (length ms)])"
proof (cases "listing directory")
  case (Listing es failure)
  show ?thesis
  proof (cases "collect_migrations es")
    case (Inr found)
    show ?thesis
    proof (cases "failure = None \<and> found \<noteq> []")
      case True
      then have "DiscoverMigrations listing directory = Inr ms \<longleftrightarrow>
          check_versions 1 None (map mg_version (sort_key mg_version found)) = Inr () \<and> ms = sort_key mg_version found"
        by (auto simp: DiscoverMigrations_def Listing Inr Let_def bindE_eq_Inr_iff)
      then show ?thesis using True by (auto simp: Listing Inr check_versions_iff)
    qed (auto simp: DiscoverMigrations_def Listing Inr split: option.splits)
  qed (simp add: DiscoverMigrations_def Listing)
qed (simp_all add: DiscoverMigrations_def)

lemma collect_migrations_perm:
  assumes "collect_migrations es = Inr found" "mset es' = mset es"
  obtains found' where "collect_migrations es' = Inr found'" "mset found' = mset found"
proof
  let ?f = "map (projr \<circ> ParseMigration) (filter is_sql es')"
  have found: "map ParseMigration (filter is_sql es) = map Inr found"
    using assms(1) by (simp add: collect_migrations_iff)
  have same: "mset (map g (filter is_sql es')) = mset (map g (filter is_sql es))" for g :: "directory_entry \<Rightarrow> 'a"
    by (simp add: assms(2) mset_filter)
  have "set (map ParseMigration (filter is_sql es')) = set (map Inr found)"
    using same [of ParseMigration] found mset_eq_setD by metis
  then have "ParseMigration e = Inr (projr (ParseMigration e))" if "e \<in> set (filter is_sql es')" for e
    using that by (metis (no_types, lifting) image_eqI image_iff list.set_map sum.sel(2))
  then show "collect_migrations es' = Inr ?f" by (simp add: collect_migrations_iff)
  have "mset ?f = mset (map projr (map ParseMigration (filter is_sql es)))"
    using same [of "projr \<circ> ParseMigration"] by simp
  then show "mset ?f = mset found" by (simp add: found comp_def)
qed

lemma sort_by_version_unique:
  assumes "mset xs = mset ys" "distinct (map mg_version (sort_key mg_version xs))"
  shows "sort_key mg_version xs = sort_key mg_version ys"
  using assms by (intro sort_key_inj_key_eq) (simp_all add: distinct_map)

lemma DiscoverMigrations_perm:
  assumes found: "DiscoverMigrations listing directory = Inr ms" and es: "listing directory = Listing es failure"
    and perm: "mset es' = mset es" and other: "other directory = Listing es' None"
  shows "DiscoverMigrations other directory = Inr ms"
proof -
  from found es obtain xs where xs: "collect_migrations es = Inr xs" "xs \<noteq> []" "ms = sort_key mg_version xs"
      "map mg_version ms = [1..int (length ms)]"
    by (auto simp: DiscoverMigrations_Inr)
  obtain ys where ys: "collect_migrations es' = Inr ys" "mset ys = mset xs"
    using collect_migrations_perm [OF xs(1) perm] .
  have "distinct (map mg_version (sort_key mg_version xs))" using xs(3,4) by (metis distinct_upto)
  then have "sort_key mg_version ys = ms"
    unfolding xs(3) by (intro sort_by_version_unique [symmetric]) (simp_all add: ys(2))
  moreover have "ys \<noteq> []" using xs(2) ys(2) by auto
  ultimately show ?thesis
    unfolding DiscoverMigrations_Inr by (intro exI [of _ es'] exI [of _ ys]) (simp add: other ys(1) xs(4))
qed

lemma parsed_paths: "map ParseMigration es = map Inr xs \<Longrightarrow> map de_path es = map mg_file xs"
  by (induction es arbitrary: xs) (auto simp: map_eq_Cons_conv Cons_eq_map_conv dest!: ParseMigration_filename)

subsection \<open>Properties\<close>

text \<open>
  A discovered list of migrations is complete and gapless, and does not depend on the order in which
  the file system lists the directory: the versions are exactly 1, 2, up to the number of migrations; every
  \<^verbatim>\<open>.sql\<close> file of the directory is one of them; every migration is a regular file whose name is its
  three-digit version, an underscore, its name and the suffix; and the list passes the checks of the planner,
  so that on an empty database all of it is planned.
\<close>
theorem discovered_migrations:
  assumes "DiscoverMigrations listing directory = Inr ms"
  shows "\<exists>es. listing directory = Listing es None \<and>
    map mg_version ms = [1..int (length ms)] \<and> ms \<noteq> [] \<and>
    mset (map mg_file ms) = mset (map de_path (filter is_sql es)) \<and>
    (\<forall>m \<in> set ms. \<exists>e \<in> set es. mg_file m = de_path e \<and> de_is_regular_file e = Inr True \<and> mg_name m \<noteq> [] \<and>
       de_filename e = format_03 (mg_version m) @ ''_'' @ mg_name m @ ''.sql'') \<and>
    (\<forall>es' other. mset es' = mset es \<and> other directory = Listing es' None \<longrightarrow>
       DiscoverMigrations other directory = Inr ms) \<and>
    BuildMigrationPlan ms [] kApply = Inr \<lparr>pl_pending = ms\<rparr>"
proof -
  from assms obtain es xs where es: "listing directory = Listing es None" "collect_migrations es = Inr xs"
      "xs \<noteq> []" "ms = sort_key mg_version xs" and versions: "map mg_version ms = [1..int (length ms)]"
    unfolding DiscoverMigrations_Inr by blast
  have parsed: "map ParseMigration (filter is_sql es) = map Inr xs"
    using es(2) by (simp add: collect_migrations_iff)
  have ms: "mset ms = mset xs" using es(4) by simp
  have "\<exists>e \<in> set (filter is_sql es). ParseMigration e = Inr m" if "m \<in> set ms" for m
    using that parsed mset_eq_setD [OF ms]
    by (metis (no_types, lifting) imageE imageI list.set_map)
  then have names: "\<forall>m \<in> set ms. \<exists>e \<in> set es. mg_file m = de_path e \<and> de_is_regular_file e = Inr True \<and>
      mg_name m \<noteq> [] \<and> de_filename e = format_03 (mg_version m) @ ''_'' @ mg_name m @ ''.sql''"
    by (meson ParseMigration_filename filter_is_subset subsetD)
  have "map de_path (filter is_sql es) = map mg_file xs"
    using parsed by (rule parsed_paths)
  moreover have "mset (map mg_file ms) = mset (map mg_file xs)" using ms by simp
  ultimately have files: "mset (map mg_file ms) = mset (map de_path (filter is_sql es))" by simp
  have "ms \<noteq> []" using ms es(3) by auto
  moreover have "BuildMigrationPlan ms [] kApply = Inr \<lparr>pl_pending = ms\<rparr>"
    using versions by (auto simp: BuildMigrationPlan_Inr)
  ultimately show ?thesis
    using es(1) versions files names DiscoverMigrations_perm [OF assms es(1)] by blast
qed

definition demo_entry :: "string \<Rightarrow> directory_entry" where
  "demo_entry name = \<lparr>de_path = ''m/'' @ name, de_filename = name, de_is_regular_file = Inr True\<rparr>"

definition demo_listing :: "string \<Rightarrow> directory_listing" where
  "demo_listing directory = Listing [demo_entry ''002_b.sql'', demo_entry ''README'', demo_entry ''001_a.sql''] None"

definition demo_migrations :: "Migration list" where
  "demo_migrations =
     [\<lparr>mg_version = 1, mg_name = ''a'', mg_file = ''m/001_a.sql''\<rparr>,
      \<lparr>mg_version = 2, mg_name = ''b'', mg_file = ''m/002_b.sql''\<rparr>]"

lemma demo_discovered: "DiscoverMigrations demo_listing ''m'' = Inr demo_migrations"
  by code_simp

theorem discovered_migrations_witness:
  "DiscoverMigrations demo_listing ''m'' = Inr demo_migrations \<and>
   map mg_version demo_migrations = [1..int (length demo_migrations)] \<and>
   BuildMigrationPlan demo_migrations [] kApply = Inr \<lparr>pl_pending = demo_migrations\<rparr>"
  using discovered_migrations [OF demo_discovered] demo_discovered by blast

text \<open>
  C24. The planner computes exactly the specified plan. It succeeds if and only if the versions of the
  directory are 1, 2 and so on without a gap, and what the database has executed is a prefix of them with
  the same names; the plan is the rest, in order, and in check mode the rest must be empty. A migration
  that was interrupted after any number of steps is resumed with exactly the remaining ones.
\<close>
theorem migration_plan_exact:
  "(BuildMigrationPlan available applied mode = Inr plan \<longleftrightarrow>
      map mg_version available = [1..int (length available)] \<and>
      (\<exists>k \<le> length available. applied = map applied_of (take k available) \<and>
         plan = \<lparr>pl_pending = drop k available\<rparr> \<and> (mode = kCheckOnly \<longrightarrow> k = length available))) \<and>
   (BuildMigrationPlan available applied kApply = Inr plan \<longrightarrow>
      BuildMigrationPlan available (applied @ map applied_of (take j (pl_pending plan))) kApply =
        Inr \<lparr>pl_pending = drop j (pl_pending plan)\<rparr>)"
  using BuildMigrationPlan_Inr BuildMigrationPlan_resume by blast

theorem migration_plan_exact_witness:
  "BuildMigrationPlan demo_migrations [applied_of (hd demo_migrations)] kApply = Inr \<lparr>pl_pending = tl demo_migrations\<rparr> \<and>
   BuildMigrationPlan demo_migrations (map applied_of demo_migrations) kApply = Inr \<lparr>pl_pending = []\<rparr>"
proof -
  have first: "BuildMigrationPlan demo_migrations [applied_of (hd demo_migrations)] kApply =
      Inr \<lparr>pl_pending = tl demo_migrations\<rparr>"
    by code_simp
  show ?thesis
    using first migration_plan_exact [of demo_migrations "[applied_of (hd demo_migrations)]" kCheckOnly
        "\<lparr>pl_pending = tl demo_migrations\<rparr>" 1]
    by (simp add: demo_migrations_def)
qed

end
