(* ===== verification/Command_Line.thy ===== *)
theory Command_Line
  imports Messages
begin

text \<open>
  \<^verbatim>\<open>core/cli/command_line.cpp\<close>: the options of the program. The lemmas characterise the accepted
  command lines exactly: every option at most once, in any order, with a path where one is due.
\<close>

record Options =
  op_config_path :: string
  op_migrations_path :: string
  op_migrate_only :: bool
  op_show_help :: bool
  op_show_version :: bool

definition LooksLikeOption :: "string \<Rightarrow> bool" where
  "LooksLikeOption value \<longleftrightarrow> starts_with value ''--''"

text \<open>The arguments after the option; the result is the path and what follows it.\<close>

definition ReadPathValue :: "string list \<Rightarrow> string \<Rightarrow> string + (string \<times> string list)" where
  "ReadPathValue arguments option_name =
     (case arguments of
        [] \<Rightarrow> Inl (option_name @ msg_cli_path)
      | value # rest \<Rightarrow>
          if value = [] \<or> LooksLikeOption value then Inl (option_name @ msg_cli_path) else Inr (value, rest))"

text \<open>The local variables of the loop.\<close>

record cli_state =
  cl_options :: Options
  cl_has_config :: bool
  cl_has_migrations :: bool
  cl_has_migrate_only :: bool
  cl_has_help :: bool
  cl_has_version :: bool

definition cli_start :: cli_state where
  "cli_start =
     \<lparr>cl_options = \<lparr>op_config_path = [], op_migrations_path = [], op_migrate_only = False,
        op_show_help = False, op_show_version = False\<rparr>,
      cl_has_config = False, cl_has_migrations = False, cl_has_migrate_only = False,
      cl_has_help = False, cl_has_version = False\<rparr>"

lemma ReadPathValue_length: "ReadPathValue arguments name = Inr (v, rest) \<Longrightarrow> length rest < length arguments"
  by (auto simp: ReadPathValue_def split: list.splits if_splits)

function parse_arguments :: "string list \<Rightarrow> cli_state \<Rightarrow> string + cli_state" where
  "parse_arguments [] st = Inr st"
| "parse_arguments (argument # rest) st =
     (if argument = ''--config'' then
        if cl_has_config st then Inl msg_cli_dup_config
        else (case ReadPathValue rest argument of
                Inl e \<Rightarrow> Inl e
              | Inr (value, rest') \<Rightarrow>
                  parse_arguments rest' (st\<lparr>cl_has_config := True,
                    cl_options := (cl_options st)\<lparr>op_config_path := value\<rparr>\<rparr>))
      else if argument = ''--migrations'' then
        if cl_has_migrations st then Inl msg_cli_dup_migrations
        else (case ReadPathValue rest argument of
                Inl e \<Rightarrow> Inl e
              | Inr (value, rest') \<Rightarrow>
                  parse_arguments rest' (st\<lparr>cl_has_migrations := True,
                    cl_options := (cl_options st)\<lparr>op_migrations_path := value\<rparr>\<rparr>))
      else if argument = ''--migrate-only'' then
        if cl_has_migrate_only st then Inl msg_cli_dup_migrate_only
        else parse_arguments rest (st\<lparr>cl_has_migrate_only := True,
          cl_options := (cl_options st)\<lparr>op_migrate_only := True\<rparr>\<rparr>)
      else if argument = ''--help'' then
        if cl_has_help st then Inl msg_cli_dup_help
        else parse_arguments rest (st\<lparr>cl_has_help := True,
          cl_options := (cl_options st)\<lparr>op_show_help := True\<rparr>\<rparr>)
      else if argument = ''--version'' then
        if cl_has_version st then Inl msg_cli_dup_version
        else parse_arguments rest (st\<lparr>cl_has_version := True,
          cl_options := (cl_options st)\<lparr>op_show_version := True\<rparr>\<rparr>)
      else Inl (msg_cli_unknown @ argument))"
  by pat_completeness auto
termination
  by (relation "measure (\<lambda>(arguments, st). length arguments)") (auto dest!: ReadPathValue_length)

definition ParseCommandLine :: "string list \<Rightarrow> string + Options" where
  "ParseCommandLine arguments =
     bindE (parse_arguments (drop 1 arguments) cli_start) (\<lambda>st.
     let option_count = (if arguments = [] then 0 else length arguments - 1) in
     if (cl_has_help st \<or> cl_has_version st) \<and> option_count \<noteq> 1 then Inl msg_cli_alone
     else if cl_has_help st \<or> cl_has_version st then Inr (cl_options st)
     else if \<not> cl_has_config st then Inl msg_cli_no_config
     else if \<not> cl_has_migrations st then Inl msg_cli_no_migrations
     else Inr (cl_options st))"

definition Usage :: string where
  "Usage = msg_cli_usage @ [CHR 0x0A] @ msg_cli_usage_config @ [CHR 0x0A] @
     ''  route_service --help'' @ [CHR 0x0A] @ ''  route_service --version'' @ [CHR 0x0A]"

subsection \<open>The grammar of the command line\<close>

datatype cli_option = WithConfig string | WithMigrations string | MigrateOnly | Help | Version

primrec option_words :: "cli_option \<Rightarrow> string list" where
  "option_words (WithConfig path) = [''--config'', path]"
| "option_words (WithMigrations path) = [''--migrations'', path]"
| "option_words MigrateOnly = [''--migrate-only'']"
| "option_words Help = [''--help'']"
| "option_words Version = [''--version'']"

primrec option_kind :: "cli_option \<Rightarrow> nat" where
  "option_kind (WithConfig path) = 0"
| "option_kind (WithMigrations path) = 1"
| "option_kind MigrateOnly = 2"
| "option_kind Help = 3"
| "option_kind Version = 4"

definition is_path :: "string \<Rightarrow> bool" where
  "is_path value \<longleftrightarrow> value \<noteq> [] \<and> \<not> LooksLikeOption value"

primrec option_ok :: "cli_option \<Rightarrow> bool" where
  "option_ok (WithConfig path) = is_path path"
| "option_ok (WithMigrations path) = is_path path"
| "option_ok MigrateOnly = True"
| "option_ok Help = True"
| "option_ok Version = True"

primrec seen :: "cli_state \<Rightarrow> cli_option \<Rightarrow> bool" where
  "seen st (WithConfig path) = cl_has_config st"
| "seen st (WithMigrations path) = cl_has_migrations st"
| "seen st MigrateOnly = cl_has_migrate_only st"
| "seen st Help = cl_has_help st"
| "seen st Version = cl_has_version st"

primrec set_option :: "cli_option \<Rightarrow> cli_state \<Rightarrow> cli_state" where
  "set_option (WithConfig path) st = st\<lparr>cl_has_config := True, cl_options := (cl_options st)\<lparr>op_config_path := path\<rparr>\<rparr>"
| "set_option (WithMigrations path) st =
     st\<lparr>cl_has_migrations := True, cl_options := (cl_options st)\<lparr>op_migrations_path := path\<rparr>\<rparr>"
| "set_option MigrateOnly st = st\<lparr>cl_has_migrate_only := True, cl_options := (cl_options st)\<lparr>op_migrate_only := True\<rparr>\<rparr>"
| "set_option Help st = st\<lparr>cl_has_help := True, cl_options := (cl_options st)\<lparr>op_show_help := True\<rparr>\<rparr>"
| "set_option Version st = st\<lparr>cl_has_version := True, cl_options := (cl_options st)\<lparr>op_show_version := True\<rparr>\<rparr>"

fun admissible :: "cli_option list \<Rightarrow> cli_state \<Rightarrow> bool" where
  "admissible [] st = True"
| "admissible (x # xs) st = (option_ok x \<and> \<not> seen st x \<and> admissible xs (set_option x st))"

lemma ReadPathValue_Inr:
  "ReadPathValue arguments name = Inr (v, rest) \<longleftrightarrow> arguments = v # rest \<and> is_path v"
  by (auto simp: ReadPathValue_def is_path_def split: list.splits)

lemma parse_arguments_complete:
  "admissible opts st \<Longrightarrow> parse_arguments (concat (map option_words opts)) st = Inr (fold set_option opts st)"
proof (induction opts arbitrary: st)
  case (Cons x xs)
  then show ?case by (cases x) (auto simp: ReadPathValue_def is_path_def)
qed simp

lemma parse_arguments_step:
  assumes "parse_arguments (argument # rest) st = Inr st'"
  shows "\<exists>x tail. argument # rest = option_words x @ tail \<and> option_ok x \<and> \<not> seen st x \<and>
    parse_arguments tail (set_option x st) = Inr st'"
proof -
  have path: "\<exists>v tail. rest = v # tail \<and> is_path v \<and> f v tail = Inr st'"
    if "(case ReadPathValue rest name of Inl e \<Rightarrow> Inl e | Inr (value, rest') \<Rightarrow> f value rest') = Inr st'"
    for name and f :: "string \<Rightarrow> string list \<Rightarrow> string + cli_state"
    using that by (auto simp: ReadPathValue_Inr split: sum.splits prod.splits)
  consider "argument = ''--config''" | "argument = ''--migrations''" | "argument = ''--migrate-only''"
    | "argument = ''--help''" | "argument = ''--version''"
    using assms by (auto split: if_splits)
  then show ?thesis
  proof cases
    case 1
    with assms have "\<not> cl_has_config st" by auto
    with 1 assms path [where name = "''--config''"] obtain v tail where "rest = v # tail" "is_path v"
        "parse_arguments tail (set_option (WithConfig v) st) = Inr st'" by fastforce
    with 1 \<open>\<not> cl_has_config st\<close> show ?thesis by (intro exI [of _ "WithConfig v"] exI [of _ tail]) simp
  next
    case 2
    with assms have "\<not> cl_has_migrations st" by auto
    with 2 assms path [where name = "''--migrations''"] obtain v tail where "rest = v # tail" "is_path v"
        "parse_arguments tail (set_option (WithMigrations v) st) = Inr st'" by fastforce
    with 2 \<open>\<not> cl_has_migrations st\<close> show ?thesis by (intro exI [of _ "WithMigrations v"] exI [of _ tail]) simp
  next
    case 3
    with assms show ?thesis by (intro exI [of _ MigrateOnly] exI [of _ rest]) (auto split: if_splits)
  next
    case 4
    with assms show ?thesis by (intro exI [of _ Help] exI [of _ rest]) (auto split: if_splits)
  next
    case 5
    with assms show ?thesis by (intro exI [of _ Version] exI [of _ rest]) (auto split: if_splits)
  qed
qed

lemma option_words_nonempty [simp]: "option_words x \<noteq> []"
  by (cases x) simp_all

lemma parse_arguments_sound:
  "parse_arguments arguments st = Inr st' \<Longrightarrow>
     \<exists>opts. arguments = concat (map option_words opts) \<and> admissible opts st \<and> st' = fold set_option opts st"
proof (induction arguments arbitrary: st rule: length_induct)
  case (1 arguments)
  show ?case
  proof (cases arguments)
    case Nil
    with "1.prems" show ?thesis by (intro exI [of _ "[]"]) simp
  next
    case (Cons argument rest)
    then obtain x tail where x: "arguments = option_words x @ tail" "option_ok x" "\<not> seen st x"
        "parse_arguments tail (set_option x st) = Inr st'"
      using parse_arguments_step "1.prems" by metis
    moreover from x(1) have "length tail < length arguments" by simp
    ultimately obtain opts where "tail = concat (map option_words opts)" "admissible opts (set_option x st)"
        "st' = fold set_option opts (set_option x st)"
      using "1.IH" by blast
    with x show ?thesis by (intro exI [of _ "x # opts"]) simp
  qed
qed

lemma seen_set_option: "seen (set_option x st) y \<longleftrightarrow> seen st y \<or> option_kind x = option_kind y"
  by (cases x; cases y) simp_all

lemma admissible_iff:
  "admissible opts st \<longleftrightarrow> list_all (\<lambda>x. option_ok x \<and> \<not> seen st x) opts \<and> distinct (map option_kind opts)"
  by (induction opts arbitrary: st) (auto simp: seen_set_option list_all_iff)

lemma seen_fold: "seen (fold set_option opts st) y \<longleftrightarrow> seen st y \<or> option_kind y \<in> option_kind ` set opts"
  by (induction opts arbitrary: st) (auto simp: seen_set_option)

definition carries_option :: "Options \<Rightarrow> cli_option \<Rightarrow> bool" where
  "carries_option options x = (case x of
      WithConfig path \<Rightarrow> op_config_path options = path
    | WithMigrations path \<Rightarrow> op_migrations_path options = path
    | MigrateOnly \<Rightarrow> op_migrate_only options
    | Help \<Rightarrow> op_show_help options
    | Version \<Rightarrow> op_show_version options)"

lemma carries_set_option:
  "carries_option (cl_options (set_option x st)) y \<longleftrightarrow>
     (if option_kind x = option_kind y then x = y else carries_option (cl_options st) y)"
  by (cases x; cases y) (simp_all add: carries_option_def)

lemma carries_fold:
  "distinct (map option_kind opts) \<Longrightarrow>
   carries_option (cl_options (fold set_option opts st)) y \<longleftrightarrow>
     (if option_kind y \<in> option_kind ` set opts then y \<in> set opts else carries_option (cl_options st) y)"
proof (induction opts arbitrary: st)
  case (Cons x xs)
  then have "option_kind y = option_kind x \<Longrightarrow> y \<notin> set xs" by (auto dest: sym)
  with Cons show ?case by (auto simp: carries_set_option)
qed simp

definition config_paths :: "cli_option list \<Rightarrow> string list" where
  "config_paths opts = concat (map (\<lambda>x. case x of WithConfig path \<Rightarrow> [path] | _ \<Rightarrow> []) opts)"

definition migrations_paths :: "cli_option list \<Rightarrow> string list" where
  "migrations_paths opts = concat (map (\<lambda>x. case x of WithMigrations path \<Rightarrow> [path] | _ \<Rightarrow> []) opts)"

text \<open>What a list of options means; a path that is not given is empty.\<close>

definition options_of :: "cli_option list \<Rightarrow> Options" where
  "options_of opts =
     \<lparr>op_config_path = hd (config_paths opts @ [[]]), op_migrations_path = hd (migrations_paths opts @ [[]]),
      op_migrate_only = (MigrateOnly \<in> set opts), op_show_help = (Help \<in> set opts),
      op_show_version = (Version \<in> set opts)\<rparr>"

lemma path_members:
  "path \<in> set (config_paths opts) \<longleftrightarrow> WithConfig path \<in> set opts"
  "path \<in> set (migrations_paths opts) \<longleftrightarrow> WithMigrations path \<in> set opts"
  by (induction opts) (auto simp: config_paths_def migrations_paths_def split: cli_option.splits)

lemma option_kind_iff:
  "option_kind x = 0 \<longleftrightarrow> (\<exists>path. x = WithConfig path)" "option_kind x = Suc 0 \<longleftrightarrow> (\<exists>path. x = WithMigrations path)"
  "option_kind x = 2 \<longleftrightarrow> x = MigrateOnly" "option_kind x = 3 \<longleftrightarrow> x = Help" "option_kind x = 4 \<longleftrightarrow> x = Version"
  by (cases x; simp)+

lemma option_kind_mem:
  "0 \<in> option_kind ` set opts \<longleftrightarrow> config_paths opts \<noteq> []"
  "Suc 0 \<in> option_kind ` set opts \<longleftrightarrow> migrations_paths opts \<noteq> []"
  "2 \<in> option_kind ` set opts \<longleftrightarrow> MigrateOnly \<in> set opts"
  "3 \<in> option_kind ` set opts \<longleftrightarrow> Help \<in> set opts"
  "4 \<in> option_kind ` set opts \<longleftrightarrow> Version \<in> set opts"
proof -
  have eq: "n \<in> option_kind ` set opts \<longleftrightarrow> (\<exists>x \<in> set opts. option_kind x = n)" for n by auto
  show "0 \<in> option_kind ` set opts \<longleftrightarrow> config_paths opts \<noteq> []"
    using path_members(1) [of _ opts] unfolding eq option_kind_iff by (metis last_in_set empty_iff list.set(1))
  show "Suc 0 \<in> option_kind ` set opts \<longleftrightarrow> migrations_paths opts \<noteq> []"
    using path_members(2) [of _ opts] unfolding eq option_kind_iff by (metis last_in_set empty_iff list.set(1))
qed (auto simp: image_iff option_kind_iff eq_commute [of "numeral _" "option_kind _"])

lemma hd_path: "xs \<noteq> [] \<Longrightarrow> hd (xs @ [[]]) \<in> set xs"
  by (cases xs) auto

lemma fold_options_of:
  assumes "distinct (map option_kind opts)"
  shows "cl_options (fold set_option opts cli_start) = options_of opts"
proof -
  let ?o = "cl_options (fold set_option opts cli_start)"
  note carries = carries_fold [OF assms, of cli_start]
  have "op_config_path ?o = hd (config_paths opts @ [[]])"
    using carries [of "WithConfig (hd (config_paths opts @ [[]]))"] hd_path [of "config_paths opts"]
    by (auto simp: option_kind_mem path_members carries_option_def cli_start_def split: if_splits)
  moreover have "op_migrations_path ?o = hd (migrations_paths opts @ [[]])"
    using carries [of "WithMigrations (hd (migrations_paths opts @ [[]]))"] hd_path [of "migrations_paths opts"]
    by (auto simp: option_kind_mem path_members carries_option_def cli_start_def split: if_splits)
  moreover have "op_migrate_only ?o \<longleftrightarrow> MigrateOnly \<in> set opts"
    using carries [of MigrateOnly] by (auto simp: option_kind_mem carries_option_def cli_start_def split: if_splits)
  moreover have "op_show_help ?o \<longleftrightarrow> Help \<in> set opts"
    using carries [of Help] by (auto simp: option_kind_mem carries_option_def cli_start_def split: if_splits)
  moreover have "op_show_version ?o \<longleftrightarrow> Version \<in> set opts"
    using carries [of Version] by (auto simp: option_kind_mem carries_option_def cli_start_def split: if_splits)
  ultimately show ?thesis by (simp add: options_of_def)
qed

lemma fold_flags:
  "cl_has_config (fold set_option opts cli_start) \<longleftrightarrow> config_paths opts \<noteq> []"
  "cl_has_migrations (fold set_option opts cli_start) \<longleftrightarrow> migrations_paths opts \<noteq> []"
  "cl_has_help (fold set_option opts cli_start) \<longleftrightarrow> Help \<in> set opts"
  "cl_has_version (fold set_option opts cli_start) \<longleftrightarrow> Version \<in> set opts"
  using seen_fold [of opts cli_start "WithConfig []"] seen_fold [of opts cli_start "WithMigrations []"]
    seen_fold [of opts cli_start Help] seen_fold [of opts cli_start Version]
  by (simp_all add: option_kind_mem cli_start_def)

definition well_formed_options :: "cli_option list \<Rightarrow> bool" where
  "well_formed_options opts \<longleftrightarrow> list_all option_ok opts \<and> distinct (map option_kind opts)"

lemma parse_arguments_Inr:
  "parse_arguments arguments cli_start = Inr st \<longleftrightarrow>
     (\<exists>opts. arguments = concat (map option_words opts) \<and> well_formed_options opts \<and> st = fold set_option opts cli_start)"
proof -
  have fresh: "\<not> seen cli_start x" for x by (cases x) (simp_all add: cli_start_def)
  have "admissible opts cli_start \<longleftrightarrow> well_formed_options opts" for opts
    by (simp add: admissible_iff well_formed_options_def fresh)
  then show ?thesis using parse_arguments_sound parse_arguments_complete by metis
qed

text \<open>An information option among others makes more than one word.\<close>

lemma single_option:
  assumes "Help \<in> set opts \<or> Version \<in> set opts" "length (concat (map option_words opts)) = 1"
  shows "opts = [Help] \<or> opts = [Version]"
proof -
  have words: "length (option_words x) \<ge> 1" for x by (cases x) simp_all
  obtain x xs where x: "opts = x # xs" using assms(1) by (cases opts) auto
  have "xs = []" using assms(2) words [of x] words [of "hd xs"] by (cases xs) (auto simp: x)
  with assms(1) x show ?thesis by auto
qed

subsection \<open>Properties\<close>

text \<open>
  The accepted command lines are exactly the specified ones: after the program name come options, each
  at most once and in any order, a path after \<^verbatim>\<open>--config\<close> and \<^verbatim>\<open>--migrations\<close> that is neither empty
  nor an option; either both of these are given and neither \<^verbatim>\<open>--help\<close> nor \<^verbatim>\<open>--version\<close> is, or one of
  the latter stands alone. The result is what the options say.
\<close>
theorem command_line_exact:
  "ParseCommandLine arguments = Inr options \<longleftrightarrow>
     (\<exists>opts. drop 1 arguments = concat (map option_words opts) \<and> well_formed_options opts \<and>
        options = options_of opts \<and>
        (opts = [Help] \<or> opts = [Version] \<or>
         (config_paths opts \<noteq> [] \<and> migrations_paths opts \<noteq> [] \<and> Help \<notin> set opts \<and> Version \<notin> set opts)))"
    (is "?parsed \<longleftrightarrow> (\<exists>opts. ?spec opts)")
proof
  assume ?parsed
  then obtain opts where opts: "drop 1 arguments = concat (map option_words opts)" "well_formed_options opts"
      and parsed: "parse_arguments (drop 1 arguments) cli_start = Inr (fold set_option opts cli_start)"
    unfolding ParseCommandLine_def bindE_eq_Inr_iff parse_arguments_Inr by blast
  have count: "(if arguments = [] then 0 else length arguments - 1) = length (drop 1 arguments)" by simp
  have accepted: "if Help \<in> set opts \<or> Version \<in> set opts then length (drop 1 arguments) = 1
        else config_paths opts \<noteq> [] \<and> migrations_paths opts \<noteq> []"
      and options: "options = cl_options (fold set_option opts cli_start)"
    using \<open>?parsed\<close> unfolding ParseCommandLine_def parsed bindE.simps Let_def fold_flags count
    by (auto simp del: length_drop split: if_splits)
  have "options = options_of opts"
    using options opts(2) by (simp add: fold_options_of well_formed_options_def)
  with opts accepted single_option [of opts] show "\<exists>opts. ?spec opts"
    by (intro exI [of _ opts]) (auto split: if_splits)
next
  assume "\<exists>opts. ?spec opts"
  then obtain opts where opts: "?spec opts" by blast
  then have parsed: "parse_arguments (drop 1 arguments) cli_start = Inr (fold set_option opts cli_start)"
    by (auto simp: parse_arguments_Inr)
  have result: "cl_options (fold set_option opts cli_start) = options"
    using opts by (simp add: fold_options_of well_formed_options_def)
  have "(if arguments = [] then 0 else length arguments - 1) = length (drop 1 arguments)" by simp
  also have "\<dots> = length (concat (map option_words opts))" using opts by (simp del: length_drop)
  finally have count: "(if arguments = [] then 0 else length arguments - 1) = length (concat (map option_words opts))" .
  from opts show ?parsed
    unfolding ParseCommandLine_def parsed bindE.simps Let_def fold_flags result count by auto
qed

theorem command_line_exact_witness:
  "ParseCommandLine [''route_service'', ''--migrations'', ''m'', ''--migrate-only'', ''--config'', ''c''] =
     Inr \<lparr>op_config_path = ''c'', op_migrations_path = ''m'', op_migrate_only = True, op_show_help = False,
       op_show_version = False\<rparr>"
  unfolding command_line_exact
  by (intro exI [of _ "[WithMigrations ''m'', MigrateOnly, WithConfig ''c'']"])
     (simp add: well_formed_options_def is_path_def LooksLikeOption_def starts_with_def options_of_def
       config_paths_def migrations_paths_def)

end
