(* ===== verification/Service_Runner.thy ===== *)
theory Service_Runner
  imports Messages
begin

text \<open>
  \<^verbatim>\<open>core/runtime/service_runner.cpp\<close> and \<^verbatim>\<open>shutdown_flag.hpp\<close>: the life of the process, from reading
  the configuration to the orderly end. The operations the runner is given are a parameter: the outcome of
  the n-th call. What the runner does is the sequence of its calls. The lemmas show in which orders it starts
  and stops the parts of the service, which exit codes it returns and when it returns at all.
\<close>

subsection \<open>Calls\<close>

datatype RunMode = kNormal | kMigrateOnly

datatype service_call =
    LoadConfig
  | InitializeLogger
  | DiscoverMigrationFiles
  | ConnectPostgres
  | ReadAppliedMigrations
  | PlanMigrations bool
  | PendingMigrationCount
  | ApplyMigration nat
  | LoadDeviceSnapshot
  | LoadCommandState
  | InstallSignalHandlers
  | StartDeviceRuntime
  | StopAcceptingDeviceMessages
  | StopDeviceRuntime int
  | CreateMqtt
  | StartMqtt
  | MqttHasTerminalFailure
  | MqttCallbackStopRequested
  | ShutdownRequested
  | WaitForNextCheck
  | StopMqtt
  | InfoCall string
  | ErrorCall string

text \<open>
  What the n-th call of the run comes to; a call of an operation reads the component for its return type.
  An operation may also throw.
\<close>

record ServiceOperations =
  so_throws :: "nat \<Rightarrow> bool"
  so_result :: "nat \<Rightarrow> string + unit"
  so_flag :: "nat \<Rightarrow> bool"
  so_count :: "nat \<Rightarrow> nat"

datatype service_exit = ExitCode int | Threw

text \<open>
  A piece of the run extends the calls so far; it ends the run with an exit, or goes on with a value.
\<close>

type_synonym 'a run = "service_call list \<Rightarrow> service_exit \<times> service_call list + 'a \<times> service_call list"

definition return_run :: "'a \<Rightarrow> 'a run" where
  "return_run a calls = Inr (a, calls)"

definition exit_run :: "int \<Rightarrow> 'a run" where
  "exit_run status calls = Inl (ExitCode status, calls)"

definition bind_run :: "'a run \<Rightarrow> ('a \<Rightarrow> 'b run) \<Rightarrow> 'b run" where
  "bind_run m f calls = (case m calls of Inl e \<Rightarrow> Inl e | Inr (a, calls') \<Rightarrow> f a calls')"

definition invoke :: "ServiceOperations \<Rightarrow> (nat \<Rightarrow> 'a) \<Rightarrow> service_call \<Rightarrow> 'a run" where
  "invoke ops result c calls =
     (if so_throws ops (length calls) then Inl (Threw, calls @ [c])
      else Inr (result (length calls), calls @ [c]))"

definition invoke_void :: "ServiceOperations \<Rightarrow> service_call \<Rightarrow> unit run" where
  "invoke_void ops c = invoke ops (\<lambda>_. ()) c"

definition Failed :: "ServiceOperations \<Rightarrow> service_call \<Rightarrow> bool run" where
  "Failed ops c =
     bind_run (invoke ops (so_result ops) c) (\<lambda>result.
     case result of
       Inr _ \<Rightarrow> return_run False
     | Inl e \<Rightarrow> bind_run (invoke_void ops (ErrorCall e)) (\<lambda>_. return_run True))"

text \<open>\<^verbatim>\<open>if (Failed(...)) return 1;\<close>\<close>

definition exit_if_failed :: "ServiceOperations \<Rightarrow> service_call \<Rightarrow> unit run" where
  "exit_if_failed ops c = bind_run (Failed ops c) (\<lambda>failed. if failed then exit_run 1 else return_run ())"

definition stop_devices :: "ServiceOperations \<Rightarrow> unit run" where
  "stop_devices ops =
     bind_run (invoke_void ops StopAcceptingDeviceMessages) (\<lambda>_.
     bind_run (invoke ops (so_flag ops) (StopDeviceRuntime 5000)) (\<lambda>_. return_run ()))"

subsection \<open>The run\<close>

definition prepare :: "ServiceOperations \<Rightarrow> RunMode \<Rightarrow> unit run" where
  "prepare ops mode =
     bind_run (exit_if_failed ops LoadConfig) (\<lambda>_.
     bind_run (invoke_void ops InitializeLogger) (\<lambda>_.
     bind_run (exit_if_failed ops DiscoverMigrationFiles) (\<lambda>_.
     bind_run (exit_if_failed ops ConnectPostgres) (\<lambda>_.
     bind_run (exit_if_failed ops ReadAppliedMigrations) (\<lambda>_.
     exit_if_failed ops (PlanMigrations (mode = kMigrateOnly)))))))"

text \<open>One round of the migration loop: \<^const>\<open>Inr\<close> is the decision to go on with the next index.\<close>

definition migrate_round :: "ServiceOperations \<Rightarrow> nat \<Rightarrow> unit run" where
  "migrate_round ops index =
     bind_run (invoke ops (so_count ops) PendingMigrationCount) (\<lambda>count.
     if index < count then exit_if_failed ops (ApplyMigration index)
     else bind_run (invoke_void ops (InfoCall msg_run_migrated)) (\<lambda>_. exit_run 0))"

partial_function (option) migrate_loop ::
    "ServiceOperations \<Rightarrow> nat \<Rightarrow> service_call list \<Rightarrow> (service_exit \<times> service_call list) option" where
  "migrate_loop ops index calls =
     (case migrate_round ops index calls of
        Inl e \<Rightarrow> Some e
      | Inr (_, calls') \<Rightarrow> migrate_loop ops (Suc index) calls')"

definition start_service :: "ServiceOperations \<Rightarrow> unit run" where
  "start_service ops =
     bind_run (exit_if_failed ops LoadDeviceSnapshot) (\<lambda>_.
     bind_run (exit_if_failed ops LoadCommandState) (\<lambda>_.
     bind_run (exit_if_failed ops InstallSignalHandlers) (\<lambda>_.
     bind_run (Failed ops StartDeviceRuntime) (\<lambda>failed.
     if failed then bind_run (stop_devices ops) (\<lambda>_. exit_run 1) else
     bind_run (Failed ops CreateMqtt) (\<lambda>failed.
     if failed then bind_run (stop_devices ops) (\<lambda>_. exit_run 1) else
     bind_run (Failed ops StartMqtt) (\<lambda>failed.
     if failed then
       bind_run (stop_devices ops) (\<lambda>_. bind_run (invoke_void ops StopMqtt) (\<lambda>_. exit_run 1))
     else invoke_void ops (InfoCall msg_run_started)))))))"

text \<open>One round of the \<^verbatim>\<open>while (true)\<close>.\<close>

definition main_round :: "ServiceOperations \<Rightarrow> unit run" where
  "main_round ops =
     bind_run (invoke ops (so_flag ops) MqttHasTerminalFailure) (\<lambda>mqtt_failure.
     bind_run (invoke ops (so_flag ops) MqttCallbackStopRequested) (\<lambda>callback_stop.
     bind_run (if mqtt_failure then invoke_void ops (ErrorCall msg_run_mqtt_failure) else return_run ()) (\<lambda>_.
     bind_run (if mqtt_failure \<or> callback_stop then return_run True
               else invoke ops (so_flag ops) ShutdownRequested) (\<lambda>stop.
     if stop then
       bind_run (stop_devices ops) (\<lambda>_.
       bind_run (invoke_void ops StopMqtt) (\<lambda>_.
       if mqtt_failure then exit_run 1
       else bind_run (invoke_void ops (InfoCall msg_run_stopped)) (\<lambda>_. exit_run 0)))
     else invoke_void ops WaitForNextCheck))))"

partial_function (option) main_loop ::
    "ServiceOperations \<Rightarrow> service_call list \<Rightarrow> (service_exit \<times> service_call list) option" where
  "main_loop ops calls =
     (case main_round ops calls of
        Inl e \<Rightarrow> Some e
      | Inr (_, calls') \<Rightarrow> main_loop ops calls')"

definition RunService :: "RunMode \<Rightarrow> ServiceOperations \<Rightarrow> (service_exit \<times> service_call list) option" where
  "RunService mode ops =
     (case prepare ops mode [] of
        Inl e \<Rightarrow> Some e
      | Inr (_, calls) \<Rightarrow>
          if mode = kMigrateOnly then migrate_loop ops 0 calls
          else case start_service ops calls of
            Inl e \<Rightarrow> Some e
          | Inr (_, calls') \<Rightarrow> main_loop ops calls')"

subsection \<open>Starting and draining the device runtime\<close>

datatype runtime_call =
    ConfigureHandler
  | StartPostgresThread
  | StartDeviceThread
  | Rollback
  | WaitInputDrained int
  | WaitDatabaseIdle int
  | FlushDatabase int
  | PendingDevices
  | DisableExternalBridge
  | RequestStop
  | JoinThreads
  | DetachThreads
  | ReportTimeout nat

datatype step_outcome = Succeeded | FailedWith string | StepThrewException | StepThrewUnknown

text \<open>
  The steps of the start in order, each with its outcome; \<^verbatim>\<open>rollback\<close> ignores exceptions of the operation.
  The result comes with the calls made.
\<close>

fun start_steps :: "(runtime_call \<times> step_outcome) list \<Rightarrow> (string + unit) \<times> runtime_call list" where
  "start_steps [] = (Inr (), [])"
| "start_steps ((c, outcome) # steps) =
     (case outcome of
        Succeeded \<Rightarrow> (case start_steps steps of (result, calls) \<Rightarrow> (result, c # calls))
      | FailedWith e \<Rightarrow> (Inl e, [c, Rollback])
      | StepThrewException \<Rightarrow> (Inl msg_run_start_failed, [c, Rollback])
      | StepThrewUnknown \<Rightarrow> (Inl msg_run_start_unknown, [c, Rollback]))"

definition StartDeviceRuntimeTransaction ::
    "(runtime_call \<Rightarrow> step_outcome) \<Rightarrow> (string + unit) \<times> runtime_call list" where
  "StartDeviceRuntimeTransaction outcome =
     start_steps (map (\<lambda>c. (c, outcome c)) [ConfigureHandler, StartPostgresThread, StartDeviceThread])"

record SelfOwnedRuntimeThread =
  ot_joinable :: bool
  ot_stop_requested :: bool

definition Thread_Start :: "SelfOwnedRuntimeThread \<Rightarrow> string + SelfOwnedRuntimeThread" where
  "Thread_Start t =
     (if ot_joinable t then Inl msg_run_thread_started
      else Inr (t\<lparr>ot_stop_requested := False, ot_joinable := True\<rparr>))"

definition Thread_RequestStop :: "SelfOwnedRuntimeThread \<Rightarrow> SelfOwnedRuntimeThread" where
  "Thread_RequestStop t = t\<lparr>ot_stop_requested := True\<rparr>"

definition Thread_Join :: "SelfOwnedRuntimeThread \<Rightarrow> SelfOwnedRuntimeThread" where
  "Thread_Join t = (if ot_joinable t then t\<lparr>ot_joinable := False\<rparr> else t)"

definition Thread_Detach :: "SelfOwnedRuntimeThread \<Rightarrow> SelfOwnedRuntimeThread" where
  "Thread_Detach t = (if ot_joinable t then t\<lparr>ot_joinable := False\<rparr> else t)"

definition Thread_destroy :: "SelfOwnedRuntimeThread \<Rightarrow> SelfOwnedRuntimeThread" where
  "Thread_destroy t = (if ot_joinable t then Thread_Join (Thread_RequestStop t) else t)"

text \<open>
  The outcome of the n-th operation of a drain, \<^const>\<open>None\<close> if it throws, and the steady clock at the time
  of that call.
\<close>

record drain_operations =
  do_bool :: "nat \<Rightarrow> bool option"
  do_size :: "nat \<Rightarrow> nat option"
  do_clock :: "nat \<Rightarrow> int"

definition ceil_milliseconds :: "int \<Rightarrow> int" where
  "ceil_milliseconds ns = - ((- ns) div 1000000)"

definition remaining :: "drain_operations \<Rightarrow> int \<Rightarrow> nat \<Rightarrow> int" where
  "remaining ops deadline n = max 0 (ceil_milliseconds (deadline - do_clock ops n))"

text \<open>A call of the drain; \<^const>\<open>Inl\<close> is an exception, with the calls made so far.\<close>

definition drain_call ::
    "(nat \<Rightarrow> 'a option) \<Rightarrow> (nat \<Rightarrow> runtime_call) \<Rightarrow> runtime_call list \<Rightarrow>
     (runtime_call list) + ('a \<times> runtime_call list)" where
  "drain_call outcome c calls =
     (case outcome (length calls) of
        None \<Rightarrow> Inl (calls @ [c (length calls)])
      | Some a \<Rightarrow> Inr (a, calls @ [c (length calls)]))"

text \<open>An operation whose result is not used.\<close>

definition done_of :: "drain_operations \<Rightarrow> nat \<Rightarrow> unit option" where
  "done_of ops n = map_option (\<lambda>_. ()) (do_bool ops n)"

definition drain_body :: "drain_operations \<Rightarrow> int \<Rightarrow> (runtime_call list) + (bool \<times> runtime_call list)" where
  "drain_body ops deadline =
     bindE (drain_call (do_bool ops) (\<lambda>n. WaitInputDrained (remaining ops deadline n)) []) (\<lambda>(input_drained, calls).
     bindE (if input_drained then drain_call (do_bool ops) (\<lambda>n. WaitDatabaseIdle (remaining ops deadline n)) calls
            else Inr (False, calls)) (\<lambda>(database_idle, calls).
     bindE (if database_idle then drain_call (do_bool ops) (\<lambda>n. FlushDatabase (remaining ops deadline n)) calls
            else Inr (False, calls)) (\<lambda>(flushed, calls).
     if input_drained \<and> database_idle \<and> flushed then
       bindE (drain_call (done_of ops) (\<lambda>_. JoinThreads) calls) (\<lambda>(_, calls).
       bindE (drain_call (done_of ops) (\<lambda>_. DisableExternalBridge) calls) (\<lambda>(_, calls).
       Inr (True, calls)))
     else
       bindE (drain_call (do_size ops) (\<lambda>_. PendingDevices) calls) (\<lambda>(devices, calls).
       bindE (drain_call (done_of ops) (\<lambda>_. ReportTimeout devices) calls) (\<lambda>(_, calls).
       bindE (drain_call (done_of ops) (\<lambda>_. DisableExternalBridge) calls) (\<lambda>(_, calls).
       bindE (drain_call (done_of ops) (\<lambda>_. RequestStop) calls) (\<lambda>(_, calls).
       bindE (drain_call (done_of ops) (\<lambda>_. DetachThreads) calls) (\<lambda>(_, calls).
       Inr (False, calls)))))))))"

definition DrainDeviceRuntime :: "int \<Rightarrow> int \<Rightarrow> drain_operations \<Rightarrow> bool \<times> runtime_call list" where
  "DrainDeviceRuntime start timeout_ms ops =
     (case drain_body ops (start + timeout_ms * 1000000) of
        Inr r \<Rightarrow> r
      | Inl calls \<Rightarrow> (False, calls @ [DisableExternalBridge, RequestStop, DetachThreads]))"

subsection \<open>The shutdown flag\<close>

type_synonym ShutdownFlag = int

definition Request :: "ShutdownFlag \<Rightarrow> ShutdownFlag" where
  "Request requested = 1"

definition Requested :: "ShutdownFlag \<Rightarrow> bool" where
  "Requested requested \<longleftrightarrow> requested \<noteq> 0"

definition ResetForTesting :: "ShutdownFlag \<Rightarrow> ShutdownFlag" where
  "ResetForTesting requested = 0"

subsection \<open>Reasoning about runs\<close>

text \<open>What holds of the calls made when a piece of the run goes on with a value, or ends the run.\<close>

definition wp :: "'a run \<Rightarrow> ('a \<Rightarrow> service_call list \<Rightarrow> bool) \<Rightarrow> (service_exit \<Rightarrow> service_call list \<Rightarrow> bool) \<Rightarrow>
    service_call list \<Rightarrow> bool" where
  "wp m Q E calls = (case m calls of Inl (e, calls') \<Rightarrow> E e calls' | Inr (a, calls') \<Rightarrow> Q a calls')"

lemma wp_return [simp]: "wp (return_run a) Q E calls = Q a calls"
  by (simp add: wp_def return_run_def)

lemma wp_exit [simp]: "wp (exit_run status) Q E calls = E (ExitCode status) calls"
  by (simp add: wp_def exit_run_def)

lemma wp_bind [simp]: "wp (bind_run m f) Q E calls = wp m (\<lambda>a. wp (f a) Q E) E calls"
  by (simp add: wp_def bind_run_def split: sum.split prod.split)

lemma wp_invoke [simp]:
  "wp (invoke ops result c) Q E calls =
     (if so_throws ops (length calls) then E Threw (calls @ [c]) else Q (result (length calls)) (calls @ [c]))"
  by (simp add: wp_def invoke_def)

lemma wp_invoke_void [simp]:
  "wp (invoke_void ops c) Q E calls = (if so_throws ops (length calls) then E Threw (calls @ [c]) else Q () (calls @ [c]))"
  by (simp add: invoke_void_def)

lemma wp_if [simp]: "wp (if b then m else m') Q E calls = (if b then wp m Q E calls else wp m' Q E calls)"
  by simp

lemma wp_Inl: "wp m Q E calls \<Longrightarrow> m calls = Inl (e, calls') \<Longrightarrow> E e calls'"
  by (simp add: wp_def)

lemma wp_Inr: "wp m Q E calls \<Longrightarrow> m calls = Inr (a, calls') \<Longrightarrow> Q a calls'"
  by (simp add: wp_def)

text \<open>Which parts were started and stopped, which migrations executed, whether an error was reported.\<close>

fun is_lifecycle :: "service_call \<Rightarrow> bool" where
  "is_lifecycle StartDeviceRuntime = True"
| "is_lifecycle StopAcceptingDeviceMessages = True"
| "is_lifecycle (StopDeviceRuntime timeout) = True"
| "is_lifecycle CreateMqtt = True"
| "is_lifecycle StartMqtt = True"
| "is_lifecycle StopMqtt = True"
| "is_lifecycle _ = False"

definition lifecycle :: "service_call list \<Rightarrow> service_call list" where
  "lifecycle calls = filter is_lifecycle calls"

fun is_apply :: "service_call \<Rightarrow> bool" where
  "is_apply (ApplyMigration index) = True"
| "is_apply _ = False"

definition applications :: "service_call list \<Rightarrow> service_call list" where
  "applications calls = filter is_apply calls"

fun is_error :: "service_call \<Rightarrow> bool" where
  "is_error (ErrorCall message) = True"
| "is_error _ = False"

definition reported :: "service_call list \<Rightarrow> bool" where
  "reported calls \<longleftrightarrow> list_ex is_error calls"

lemma view_append [simp]:
  "lifecycle (calls @ calls') = lifecycle calls @ lifecycle calls'"
  "applications (calls @ calls') = applications calls @ applications calls'"
  "reported (calls @ calls') \<longleftrightarrow> reported calls \<or> reported calls'"
  by (simp_all add: lifecycle_def applications_def reported_def)

lemma view_Cons [simp]:
  "lifecycle (c # calls) = (if is_lifecycle c then c # lifecycle calls else lifecycle calls)"
  "applications (c # calls) = (if is_apply c then c # applications calls else applications calls)"
  "reported (c # calls) \<longleftrightarrow> is_error c \<or> reported calls"
  by (simp_all add: lifecycle_def applications_def reported_def)

lemma view_Nil [simp]: "lifecycle [] = []" "applications [] = []" "\<not> reported []"
  by (simp_all add: lifecycle_def applications_def reported_def)

definition stopped_early :: "service_call list list" where
  "stopped_early =
     [[],
      [StartDeviceRuntime, StopAcceptingDeviceMessages, StopDeviceRuntime 5000],
      [StartDeviceRuntime, CreateMqtt, StopAcceptingDeviceMessages, StopDeviceRuntime 5000],
      [StartDeviceRuntime, CreateMqtt, StartMqtt, StopAcceptingDeviceMessages, StopDeviceRuntime 5000, StopMqtt]]"

definition full_lifecycle :: "service_call list" where
  "full_lifecycle =
     [StartDeviceRuntime, CreateMqtt, StartMqtt, StopAcceptingDeviceMessages, StopDeviceRuntime 5000, StopMqtt]"

lemma wp_prepare:
  "wp (prepare ops mode)
     (\<lambda>_ calls. lifecycle calls = [] \<and> applications calls = [] \<and> \<not> reported calls)
     (\<lambda>e calls. \<forall>status. e = ExitCode status \<longrightarrow>
        status = 1 \<and> reported calls \<and> lifecycle calls = [] \<and> applications calls = []) []"
  by (simp add: prepare_def exit_if_failed_def Failed_def split: sum.split)

lemma wp_start_service:
  assumes "lifecycle calls = []" "applications calls = []" "\<not> reported calls"
  shows "wp (start_service ops)
     (\<lambda>_ calls. lifecycle calls = [StartDeviceRuntime, CreateMqtt, StartMqtt] \<and> applications calls = [] \<and>
        \<not> reported calls)
     (\<lambda>e calls. \<forall>status. e = ExitCode status \<longrightarrow>
        status = 1 \<and> reported calls \<and> lifecycle calls \<in> set stopped_early \<and> applications calls = []) calls"
  using assms
  by (simp add: start_service_def exit_if_failed_def Failed_def stop_devices_def stopped_early_def split: sum.split)

definition running :: "service_call list \<Rightarrow> bool" where
  "running calls \<longleftrightarrow>
     lifecycle calls = [StartDeviceRuntime, CreateMqtt, StartMqtt] \<and> applications calls = [] \<and> \<not> reported calls"

definition ended :: "service_exit \<Rightarrow> service_call list \<Rightarrow> bool" where
  "ended e calls \<longleftrightarrow> (\<forall>status. e = ExitCode status \<longrightarrow>
     status = (if reported calls then 1 else 0) \<and> lifecycle calls = full_lifecycle \<and> applications calls = [])"

lemma wp_main_round: "running calls \<Longrightarrow> wp (main_round ops) (\<lambda>_. running) ended calls"
  by (simp add: main_round_def stop_devices_def running_def ended_def full_lifecycle_def)

lemma main_loop_ended:
  assumes "main_loop ops calls = Some r" "running calls"
  shows "ended (fst r) (snd r)"
proof -
  have "running calls \<longrightarrow> ended (fst r) (snd r)"
  proof (rule main_loop.raw_induct [of "\<lambda>ops calls r. running calls \<longrightarrow> ended (fst r) (snd r)", OF _ assms(1)], intro impI)
    fix loop ops calls r
    assume IH: "\<And>ops calls r. loop ops calls = Some r \<Longrightarrow> running calls \<longrightarrow> ended (fst r) (snd r)"
      and result: "(case main_round ops calls of Inl e \<Rightarrow> Some e | Inr (_, calls') \<Rightarrow> loop ops calls') = Some r"
      and calls: "running calls"
    note post = wp_main_round [OF calls, of ops]
    from result show "ended (fst r) (snd r)"
      using wp_Inl [OF post] wp_Inr [OF post] IH by (auto split: sum.splits prod.splits)
  qed
  with assms(2) show ?thesis by blast
qed

definition migrating :: "nat \<Rightarrow> service_call list \<Rightarrow> bool" where
  "migrating index calls \<longleftrightarrow>
     lifecycle calls = [] \<and> applications calls = map ApplyMigration [0..<index] \<and> \<not> reported calls"

definition migrated :: "service_exit \<Rightarrow> service_call list \<Rightarrow> bool" where
  "migrated e calls \<longleftrightarrow> (\<forall>status. e = ExitCode status \<longrightarrow>
     status = (if reported calls then 1 else 0) \<and> lifecycle calls = [] \<and>
     (\<exists>k. applications calls = map ApplyMigration [0..<k]))"

lemma wp_migrate_round:
  "migrating index calls \<Longrightarrow> wp (migrate_round ops index) (\<lambda>_. migrating (Suc index)) migrated calls"
  by (auto simp: migrate_round_def exit_if_failed_def Failed_def migrating_def migrated_def
      intro: exI [of _ index] exI [of _ "Suc index"] split: sum.split)

lemma migrate_loop_migrated:
  assumes "migrate_loop ops index calls = Some r" "migrating index calls"
  shows "migrated (fst r) (snd r)"
proof -
  have "migrating index calls \<longrightarrow> migrated (fst r) (snd r)"
  proof (rule migrate_loop.raw_induct
      [of "\<lambda>ops index calls r. migrating index calls \<longrightarrow> migrated (fst r) (snd r)", OF _ assms(1)], intro impI)
    fix loop ops index calls r
    assume IH: "\<And>ops index calls r. loop ops index calls = Some r \<Longrightarrow> migrating index calls \<longrightarrow> migrated (fst r) (snd r)"
      and result: "(case migrate_round ops index calls of Inl e \<Rightarrow> Some e
        | Inr (_, calls') \<Rightarrow> loop ops (Suc index) calls') = Some r"
      and calls: "migrating index calls"
    note post = wp_migrate_round [OF calls, of ops]
    from result show "migrated (fst r) (snd r)"
      using wp_Inl [OF post] wp_Inr [OF post] IH by (auto split: sum.splits prod.splits)
  qed
  with assms(2) show ?thesis by blast
qed

subsection \<open>Ending\<close>

lemma wp_main_round_stops:
  "(\<And>i. n \<le> i \<Longrightarrow> so_flag ops i) \<Longrightarrow> n \<le> length calls \<Longrightarrow> wp (main_round ops) (\<lambda>_ _. False) (\<lambda>_ _. True) calls"
  by (simp add: main_round_def stop_devices_def)

lemma wp_main_round_grows: "wp (main_round ops) (\<lambda>_ calls'. length calls < length calls') (\<lambda>_ _. True) calls"
  by (simp add: main_round_def stop_devices_def)

lemma main_loop_returns:
  assumes stop: "\<And>i. n \<le> i \<Longrightarrow> so_flag ops i"
  shows "\<exists>r. main_loop ops calls = Some r"
proof (induction "n - length calls" arbitrary: calls rule: less_induct)
  case less
  show ?case
  proof (cases "main_round ops calls")
    case (Inl e)
    then show ?thesis by (subst main_loop.simps) simp
  next
    case (Inr ac)
    then obtain calls' where calls': "main_round ops calls = Inr ((), calls')" by (cases ac) auto
    then have "length calls < length calls'" using wp_Inr [OF wp_main_round_grows] by blast
    moreover have "length calls < n"
      using wp_Inr [OF wp_main_round_stops [OF stop]] calls' by (meson linorder_not_less)
    ultimately have "\<exists>r. main_loop ops calls' = Some r" by (intro less) arith
    then show ?thesis by (subst main_loop.simps) (simp add: calls')
  qed
qed

lemma wp_migrate_round_bounded:
  "(\<And>i. so_count ops i \<le> n) \<Longrightarrow> wp (migrate_round ops index) (\<lambda>_ _. index < n) (\<lambda>_ _. True) calls"
  by (simp add: migrate_round_def exit_if_failed_def Failed_def less_le_trans split: sum.split)

lemma migrate_loop_returns:
  assumes bound: "\<And>i. so_count ops i \<le> n"
  shows "\<exists>r. migrate_loop ops index calls = Some r"
proof (induction "n - index" arbitrary: index calls rule: less_induct)
  case less
  show ?case
  proof (cases "migrate_round ops index calls")
    case (Inl e)
    then show ?thesis by (subst migrate_loop.simps) simp
  next
    case (Inr ac)
    then obtain calls' where calls': "migrate_round ops index calls = Inr ((), calls')" by (cases ac) auto
    then have "index < n" using wp_Inr [OF wp_migrate_round_bounded [OF bound]] by blast
    then have "\<exists>r. migrate_loop ops (Suc index) calls' = Some r" by (intro less) arith
    then show ?thesis by (subst migrate_loop.simps) (simp add: calls')
  qed
qed

lemma wp_main_round_goes_on:
  "(\<And>i. \<not> so_flag ops i) \<Longrightarrow> (\<And>i. \<not> so_throws ops i) \<Longrightarrow> wp (main_round ops) (\<lambda>_ _. True) (\<lambda>_ _. False) calls"
  by (simp add: main_round_def)

lemma main_loop_diverges:
  assumes idle: "\<And>i. \<not> so_flag ops i" "\<And>i. \<not> so_throws ops i"
  shows "main_loop ops calls = None"
proof (rule ccontr)
  assume "main_loop ops calls \<noteq> None"
  then obtain r where r: "main_loop ops calls = Some r" by blast
  have "(\<forall>i. \<not> so_flag ops i \<and> \<not> so_throws ops i) \<longrightarrow> False"
  proof (rule main_loop.raw_induct
      [of "\<lambda>ops calls r. (\<forall>i. \<not> so_flag ops i \<and> \<not> so_throws ops i) \<longrightarrow> False", OF _ r], intro impI)
    fix loop ops calls r
    assume IH: "\<And>ops calls r. loop ops calls = Some r \<Longrightarrow> (\<forall>i. \<not> so_flag ops i \<and> \<not> so_throws ops i) \<longrightarrow> False"
      and result: "(case main_round ops calls of Inl e \<Rightarrow> Some e | Inr (_, calls') \<Rightarrow> loop ops calls') = Some r"
      and idle: "\<forall>i. \<not> so_flag ops i \<and> \<not> so_throws ops i"
    have post: "wp (main_round ops) (\<lambda>_ _. True) (\<lambda>_ _. False) calls"
      using idle by (intro wp_main_round_goes_on) simp_all
    from result show False using wp_Inl [OF post] IH [of ops _ r] idle by (auto split: sum.splits prod.splits)
  qed
  with idle show False by simp
qed

lemma RunService_cases:
  "RunService mode ops = Some r \<Longrightarrow>
     prepare ops mode [] = Inl r \<or>
     (\<exists>calls. prepare ops mode [] = Inr ((), calls) \<and>
        (if mode = kMigrateOnly then migrate_loop ops 0 calls = Some r
         else start_service ops calls = Inl r \<or>
           (\<exists>calls'. start_service ops calls = Inr ((), calls') \<and> main_loop ops calls' = Some r)))"
  by (auto simp: RunService_def split: sum.splits if_splits)

subsection \<open>Properties of the process\<close>

text \<open>
  C23. Whatever the operations answer, a run that returns has stopped what it started, in the right order.
  The parts of the service are started and stopped in one of five ways: not at all; or the device runtime is
  started, possibly the MQTT client is created and started, then new messages are refused, the device
  runtime is drained with a limit of 5000 ms, and last the MQTT client is stopped if its start was tried. The
  process returns 1 exactly if an error was reported and 0 otherwise; 0 in normal mode means the full cycle.
  The migration mode starts no part of the service and executes the migrations 0, 1 and so on in order; the
  normal mode executes none.
\<close>
theorem service_lifecycle:
  assumes "RunService mode ops = Some (ExitCode status, calls)"
  shows "status = (if reported calls then 1 else 0) \<and>
    lifecycle calls \<in> set stopped_early \<union> {full_lifecycle} \<and>
    (mode = kMigrateOnly \<longrightarrow> lifecycle calls = []) \<and>
    (mode = kNormal \<and> status = 0 \<longrightarrow> lifecycle calls = full_lifecycle) \<and>
    (\<exists>k. applications calls = map ApplyMigration [0..<k] \<and> (mode = kNormal \<longrightarrow> k = 0))"
proof -
  note prepared = wp_Inl [OF wp_prepare] wp_Inr [OF wp_prepare]
  consider "prepare ops mode [] = Inl (ExitCode status, calls)"
    | calls0 where "mode = kMigrateOnly" "prepare ops mode [] = Inr ((), calls0)"
        "migrate_loop ops 0 calls0 = Some (ExitCode status, calls)"
    | calls0 where "mode = kNormal" "prepare ops mode [] = Inr ((), calls0)"
        "start_service ops calls0 = Inl (ExitCode status, calls)"
    | calls0 calls1 where "mode = kNormal" "prepare ops mode [] = Inr ((), calls0)"
        "start_service ops calls0 = Inr ((), calls1)" "main_loop ops calls1 = Some (ExitCode status, calls)"
    using RunService_cases [OF assms] by (cases mode) auto
  then show ?thesis
  proof cases
    case 1
    show ?thesis using prepared(1) [OF 1] by (auto simp: stopped_early_def)
  next
    case 2
    have "migrating 0 calls0" using prepared(2) [OF 2(2)] by (simp add: migrating_def)
    from migrate_loop_migrated [OF 2(3) this] 2(1) show ?thesis by (auto simp: migrated_def stopped_early_def)
  next
    case 3
    note started = wp_start_service [of calls0 ops]
    show ?thesis using wp_Inl [OF started 3(3)] prepared(2) [OF 3(2)] 3(1) by simp
  next
    case 4
    have "running calls1"
      using wp_Inr [OF wp_start_service [of calls0 ops] 4(3)] prepared(2) [OF 4(2)] by (simp add: running_def)
    from main_loop_ended [OF 4(4) this] 4(1) show ?thesis by (auto simp: ended_def)
  qed
qed

definition demo_operations :: ServiceOperations where
  "demo_operations =
     \<lparr>so_throws = (\<lambda>_. False), so_result = (\<lambda>n. if n = 10 then Inl ''broker'' else Inr ()),
      so_flag = (\<lambda>_. True), so_count = (\<lambda>_. 2)\<rparr>"

definition demo_calls :: "service_call list" where
  "demo_calls =
     [LoadConfig, InitializeLogger, DiscoverMigrationFiles, ConnectPostgres, ReadAppliedMigrations,
      PlanMigrations False, LoadDeviceSnapshot, LoadCommandState, InstallSignalHandlers, StartDeviceRuntime,
      CreateMqtt, ErrorCall ''broker'', StopAcceptingDeviceMessages, StopDeviceRuntime 5000]"

lemmas run_eval = bind_run_def invoke_def invoke_void_def return_run_def exit_run_def exit_if_failed_def Failed_def
  stop_devices_def prepare_def start_service_def

lemma demo_run: "RunService kNormal demo_operations = Some (ExitCode 1, demo_calls)"
  by (simp add: RunService_def run_eval demo_operations_def demo_calls_def)

theorem service_lifecycle_witness:
  "RunService kNormal demo_operations = Some (ExitCode 1, demo_calls) \<and> reported demo_calls \<and>
   lifecycle demo_calls = [StartDeviceRuntime, CreateMqtt, StopAcceptingDeviceMessages, StopDeviceRuntime 5000] \<and>
   lifecycle demo_calls \<in> set stopped_early \<union> {full_lifecycle}"
  using service_lifecycle [OF demo_run] demo_run by (simp add: demo_calls_def)



subsection \<open>Properties of starting and draining\<close>

text \<open>A start either succeeds completely or is rolled back once, right after the first failed step.\<close>

lemma start_transaction:
  fixes outcome
  defines "steps \<equiv> [ConfigureHandler, StartPostgresThread, StartDeviceThread]"
  assumes "StartDeviceRuntimeTransaction outcome = (result, calls)"
  shows "if result = Inr () then calls = steps
    else calls \<in> (\<lambda>k. take (Suc k) steps @ [Rollback]) ` {k. k < 3 \<and> outcome (steps ! k) \<noteq> Succeeded}"
  using assms(2) unfolding StartDeviceRuntimeTransaction_def steps_def
  by (cases "outcome ConfigureHandler"; cases "outcome StartPostgresThread"; cases "outcome StartDeviceThread")
     (auto simp: image_iff intro: exI [of _ 0] exI [of _ 1] exI [of _ 2])

lemma drain_call_cases:
  "drain_call outcome c calls = Inl calls' \<longleftrightarrow> outcome (length calls) = None \<and> calls' = calls @ [c (length calls)]"
  "drain_call outcome c calls = Inr (a, calls') \<longleftrightarrow> outcome (length calls) = Some a \<and> calls' = calls @ [c (length calls)]"
  by (auto simp: drain_call_def split: option.splits)

fun limit_of :: "runtime_call \<Rightarrow> int option" where
  "limit_of (WaitInputDrained ms) = Some ms"
| "limit_of (WaitDatabaseIdle ms) = Some ms"
| "limit_of (FlushDatabase ms) = Some ms"
| "limit_of _ = None"

lemma drain_body_True:
  assumes "drain_body ops deadline = Inr (True, calls)"
  shows "\<exists>a b c. calls = [WaitInputDrained a, WaitDatabaseIdle b, FlushDatabase c, JoinThreads, DisableExternalBridge]"
  using assms unfolding drain_body_def
  by (auto simp: bindE_eq_Inr_iff drain_call_cases split: if_splits prod.splits)

lemma drain_body_False:
  assumes "drain_body ops deadline = Inr (False, calls)"
  shows "\<exists>before. calls = before @ [DisableExternalBridge, RequestStop, DetachThreads]"
  using assms unfolding drain_body_def
  by (auto simp: bindE_eq_Inr_iff drain_call_cases split: if_splits prod.splits)

lemma drain_body_limits:
  fixes ops deadline
  defines "limited \<equiv> list_all (\<lambda>c. \<forall>ms. limit_of c = Some ms \<longrightarrow> ms \<in> range (remaining ops deadline))"
  shows "drain_body ops deadline = Inl calls \<Longrightarrow> limited calls" "drain_body ops deadline = Inr (result, calls) \<Longrightarrow> limited calls"
  unfolding drain_body_def limited_def
  by (auto simp: bindE_eq_Inl_iff bindE_eq_Inr_iff drain_call_cases split: if_splits prod.splits)

lemma remaining_bounds:
  assumes "start \<le> do_clock ops n" "0 \<le> timeout_ms"
  shows "0 \<le> remaining ops (start + timeout_ms * 1000000) n \<and> remaining ops (start + timeout_ms * 1000000) n \<le> timeout_ms"
proof -
  let ?elapsed = "do_clock ops n - start"
  have "- (start + timeout_ms * 1000000 - do_clock ops n) = ?elapsed + (- timeout_ms) * 1000000" by simp
  then have "ceil_milliseconds (start + timeout_ms * 1000000 - do_clock ops n) = timeout_ms - ?elapsed div 1000000"
    unfolding ceil_milliseconds_def by simp
  moreover have "0 \<le> ?elapsed div 1000000" using assms(1) by (simp add: pos_imp_zdiv_nonneg_iff)
  ultimately show ?thesis using assms(2) by (simp add: remaining_def)
qed

text \<open>
  Draining the device runtime has two outcomes only. It succeeds after the input was drained, the
  database idle and everything flushed; then the threads are joined and the bridge to the outside is
  disabled. In every other case, an exception of any operation included, the last calls disable the bridge
  before the threads are told to stop and left to themselves, so no thread that is still running can reach
  the outside. No wait is granted more than the whole time limit.
\<close>
theorem drain_outcome:
  assumes "DrainDeviceRuntime start timeout_ms ops = (result, calls)"
  shows "(result \<longrightarrow> (\<exists>a b c. calls =
      [WaitInputDrained a, WaitDatabaseIdle b, FlushDatabase c, JoinThreads, DisableExternalBridge])) \<and>
    (\<not> result \<longrightarrow> (\<exists>before. calls = before @ [DisableExternalBridge, RequestStop, DetachThreads])) \<and>
    ((\<forall>n. start \<le> do_clock ops n) \<and> 0 \<le> timeout_ms \<longrightarrow>
      (\<forall>c \<in> set calls. \<forall>ms. limit_of c = Some ms \<longrightarrow> 0 \<le> ms \<and> ms \<le> timeout_ms))"
proof -
  let ?deadline = "start + timeout_ms * 1000000"
  let ?limited = "\<lambda>c. \<forall>ms. limit_of c = Some ms \<longrightarrow> ms \<in> range (remaining ops ?deadline)"
  consider "drain_body ops ?deadline = Inr (result, calls)"
    | before where "drain_body ops ?deadline = Inl before" "\<not> result"
        "calls = before @ [DisableExternalBridge, RequestStop, DetachThreads]"
    using assms by (auto simp: DrainDeviceRuntime_def split: sum.splits)
  then have shape: "(result \<longrightarrow> (\<exists>a b c. calls =
      [WaitInputDrained a, WaitDatabaseIdle b, FlushDatabase c, JoinThreads, DisableExternalBridge])) \<and>
      (\<not> result \<longrightarrow> (\<exists>before. calls = before @ [DisableExternalBridge, RequestStop, DetachThreads])) \<and>
      list_all ?limited calls"
  proof cases
    case 1
    have "list_all ?limited calls" using 1 by (rule drain_body_limits(2))
    moreover have "result \<Longrightarrow> drain_body ops ?deadline = Inr (True, calls)"
      "\<not> result \<Longrightarrow> drain_body ops ?deadline = Inr (False, calls)" using 1 by simp_all
    ultimately show ?thesis using drain_body_True [of ops ?deadline calls] drain_body_False [of ops ?deadline calls] by blast
  next
    case 2
    then show ?thesis using drain_body_limits(1) [OF 2(1)] by simp
  qed
  then show ?thesis using remaining_bounds [of start ops _ timeout_ms] by (fastforce simp: list_all_iff)
qed

definition demo_drain :: drain_operations where
  "demo_drain = \<lparr>do_bool = (\<lambda>n. if n = 1 then None else Some True), do_size = (\<lambda>_. Some 3), do_clock = (\<lambda>n. 1500000 * int n)\<rparr>"

theorem drain_outcome_witness:
  "DrainDeviceRuntime 0 10 demo_drain = (False,
     [WaitInputDrained 10, WaitDatabaseIdle 9, DisableExternalBridge, RequestStop, DetachThreads]) \<and>
   (\<exists>before. [WaitInputDrained 10, WaitDatabaseIdle 9, DisableExternalBridge, RequestStop, DetachThreads] =
      before @ [DisableExternalBridge, RequestStop, DetachThreads])"
proof -
  have "DrainDeviceRuntime 0 10 demo_drain = (False,
     [WaitInputDrained 10, WaitDatabaseIdle 9, DisableExternalBridge, RequestStop, DetachThreads])"
    by (simp add: DrainDeviceRuntime_def drain_body_def drain_call_def demo_drain_def remaining_def
        ceil_milliseconds_def)
  from this drain_outcome [OF this] show ?thesis by blast
qed

end
