(* ===== verification/Program.thy ===== *)
theory Program
  imports Command_Line Service_Runner
begin

text \<open>
  \<^verbatim>\<open>main.cpp\<close>: from the command line to the exit code. The environment that is built from the two paths
  is a parameter, as is the version text the build provides.
\<close>

record program_result =
  pr_status :: int
  pr_cout :: string
  pr_cerr :: string
  pr_calls :: "service_call list"

text \<open>
  \<open>known\<close> tells for a run that threw whether it was a \<^verbatim>\<open>std::exception\<close>. \<^const>\<open>None\<close> is a run that
  does not end.
\<close>

definition program_main ::
    "string \<Rightarrow> (string \<Rightarrow> string \<Rightarrow> ServiceOperations) \<Rightarrow> bool \<Rightarrow> string list \<Rightarrow> program_result option" where
  "program_main version environment known arguments =
     (case ParseCommandLine arguments of
        Inl e \<Rightarrow> Some \<lparr>pr_status = 1, pr_cout = [], pr_cerr = msg_main_error @ e @ [CHR 0x0A] @ Usage, pr_calls = []\<rparr>
      | Inr options \<Rightarrow>
          if op_show_help options then Some \<lparr>pr_status = 0, pr_cout = Usage, pr_cerr = [], pr_calls = []\<rparr>
          else if op_show_version options then
            Some \<lparr>pr_status = 0, pr_cout = ''route_service '' @ version @ [CHR 0x0A], pr_cerr = [], pr_calls = []\<rparr>
          else
            (case RunService (if op_migrate_only options then kMigrateOnly else kNormal)
                    (environment (op_config_path options) (op_migrations_path options)) of
               None \<Rightarrow> None
             | Some (ExitCode status, calls) \<Rightarrow>
                 Some \<lparr>pr_status = status, pr_cout = [], pr_cerr = [], pr_calls = calls\<rparr>
             | Some (Threw, calls) \<Rightarrow>
                 Some \<lparr>pr_status = 1, pr_cout = [],
                   pr_cerr = (if known then msg_main_exception else msg_main_unknown) @ [CHR 0x0A], pr_calls = calls\<rparr>))"

text \<open>Nothing is touched before the command line is known to be right.\<close>

lemma rejected_command_line:
  "ParseCommandLine arguments = Inl e \<Longrightarrow>
     \<exists>r. program_main version environment known arguments = Some r \<and> pr_status r = 1 \<and> pr_calls r = []"
  by (simp add: program_main_def)

end
