(* ===== verification/Rate_Limiter.thy ===== *)
theory Rate_Limiter
  imports Prelude
begin

text \<open>
  \<^verbatim>\<open>core/runtime/rate_limiter.cpp\<close>: lets an event of a key through if the last one let through is at
  least a window ago. The lemmas show that the emissions of a key are spaced.
\<close>

record RateLimiter =
  rl_window :: int
  rl_last_emissions :: "(string, int) fmap"

definition new_RateLimiter :: "int \<Rightarrow> RateLimiter" where
  "new_RateLimiter window = \<lparr>rl_window = window, rl_last_emissions = fmempty\<rparr>"

definition ShouldEmit :: "string \<Rightarrow> int \<Rightarrow> RateLimiter \<Rightarrow> bool \<times> RateLimiter" where
  "ShouldEmit key now rl =
     (let too_early = (case fmlookup (rl_last_emissions rl) key of
                         None \<Rightarrow> False
                       | Some previous \<Rightarrow> now - previous < rl_window rl)
      in if too_early then (False, rl)
         else (True, rl\<lparr>rl_last_emissions := fmupd key now (rl_last_emissions rl)\<rparr>))"

subsection \<open>Lemmas\<close>

text \<open>The times at which a sequence of attempts for one key is let through.\<close>

fun emissions :: "string \<Rightarrow> int list \<Rightarrow> RateLimiter \<Rightarrow> int list" where
  "emissions key [] rl = []"
| "emissions key (now # nows) rl =
     (case ShouldEmit key now rl of (emitted, rl') \<Rightarrow> (if emitted then [now] else []) @ emissions key nows rl')"

fun spaced :: "int \<Rightarrow> int list \<Rightarrow> bool" where
  "spaced window (a # b # ts) = (a + window \<le> b \<and> spaced window (b # ts))"
| "spaced window ts = True"

lemma ShouldEmit_window: "rl_window (snd (ShouldEmit key now rl)) = rl_window rl"
  by (simp add: ShouldEmit_def Let_def)

lemma emissions_spaced:
  "spaced (rl_window rl) ((case fmlookup (rl_last_emissions rl) key of None \<Rightarrow> [] | Some previous \<Rightarrow> [previous]) @ emissions key nows rl)"
proof (induction nows arbitrary: rl)
  case Nil
  show ?case by (simp split: option.split)
next
  case (Cons now nows)
  obtain emitted rl' where rl': "ShouldEmit key now rl = (emitted, rl')" by force
  then have "rl_window rl' = rl_window rl" using ShouldEmit_window [of key now rl] by simp
  with Cons.IH [of rl'] rl' show ?case
    by (auto simp: ShouldEmit_def Let_def split: option.splits if_splits)
qed

text \<open>A fresh limiter lets the first attempt through and spaces the others by its window.\<close>

lemma rate_limited: "spaced window (emissions key nows (new_RateLimiter window))"
  using emissions_spaced [of "new_RateLimiter window" key nows] by (simp add: new_RateLimiter_def)

lemma first_emitted: "hd (emissions key (now # nows) (new_RateLimiter window)) = now"
  by (simp add: new_RateLimiter_def ShouldEmit_def Let_def)

end
