(* ===== verification/Ingress.thy ===== *)
theory Ingress
  imports Command_Service Rate_Limiter
begin

text \<open>
  The bridges from the MQTT client's callbacks to the two services: \<^verbatim>\<open>core/runtime/device_ingress.cpp\<close>
  and \<^verbatim>\<open>command_ingress.cpp\<close>. Both bridges can be disabled while callbacks
  are still arriving, refuse without blocking, and report refusals at a limited rate. The lemmas show which
  messages pass and that no refusal is lost from the reported numbers.
\<close>

subsection \<open>Device messages\<close>

definition SaturatingAdd :: "64 word \<Rightarrow> 64 word \<Rightarrow> 64 word" where
  "SaturatingAdd left right = (let maximum = - 1 in if right > maximum - left then maximum else left + right)"

text \<open>
  A report to the diagnostic sink: the numbers in its text, and whether the sink returned or threw.
\<close>

record rejection_report =
  rr_count :: "64 word"
  rr_bytes :: "64 word"
  rr_delivered :: bool

definition rejection_text :: "rejection_report \<Rightarrow> string" where
  "rejection_text r =
     msg_ingress_full @ decimal (unat (rr_count r)) @ msg_ingress_bytes @ decimal (unat (rr_bytes r))"

text \<open>
  The state of the bridge; \<open>di_submit\<close> and \<open>di_diagnostic\<close> tell whether the function objects are set,
  \<open>di_reports\<close> are the reports made so far.
\<close>

record DeviceIngress =
  di_submit :: bool
  di_diagnostic :: bool
  di_limiter :: RateLimiter
  di_rejected_count :: "64 word"
  di_rejected_bytes :: "64 word"
  di_enabled :: bool
  di_reports :: "rejection_report list"

definition new_DeviceIngress :: "bool \<Rightarrow> bool \<Rightarrow> int \<Rightarrow> DeviceIngress" where
  "new_DeviceIngress submit diagnostic window =
     \<lparr>di_submit = submit, di_diagnostic = diagnostic, di_limiter = new_RateLimiter window,
      di_rejected_count = 0, di_rejected_bytes = 0, di_enabled = True, di_reports = []\<rparr>"

text \<open>
  What a call of \<^verbatim>\<open>Handle\<close> meets outside of the bridge: the size of the payload, the outcome of the
  submitter, the steady clock (\<^const>\<open>None\<close> if it throws) and whether the sink returns.
\<close>

record handle_outcome =
  ho_payload_bytes :: "64 word"
  ho_submit :: call_outcome
  ho_steady_now :: "int option"
  ho_sink_returns :: bool

text \<open>The second critical section of \<^verbatim>\<open>Handle\<close>, after the submitter refused the message.\<close>

definition handle_rejected :: "handle_outcome \<Rightarrow> DeviceIngress \<Rightarrow> DeviceIngress" where
  "handle_rejected out st =
     (if \<not> di_enabled st then st
      else
        let count = SaturatingAdd (di_rejected_count st) 1;
            bytes = SaturatingAdd (di_rejected_bytes st) (ho_payload_bytes out);
            counted = st\<lparr>di_rejected_count := count, di_rejected_bytes := bytes\<rparr>
        in if \<not> di_diagnostic st then counted
           else case ho_steady_now out of
             None \<Rightarrow> counted
           | Some now \<Rightarrow>
               (case ShouldEmit ''mqtt_device_queue_full'' now (di_limiter st) of
                  (emitted, limiter) \<Rightarrow>
                    if \<not> emitted then counted\<lparr>di_limiter := limiter\<rparr>
                    else
                      let reported = counted\<lparr>di_limiter := limiter, di_reports := di_reports st @
                            [\<lparr>rr_count = count, rr_bytes = bytes, rr_delivered = ho_sink_returns out\<rparr>]\<rparr>
                      in if ho_sink_returns out then reported\<lparr>di_rejected_count := 0, di_rejected_bytes := 0\<rparr>
                         else reported))"

text \<open>
  A whole call. The submitter runs between the two critical sections, so the bridge may meanwhile have
  changed to any state \<open>later\<close>.
\<close>

definition accepted :: "bool \<Rightarrow> call_outcome \<Rightarrow> bool" where
  "accepted submit outcome \<longleftrightarrow> submit \<and> outcome = Returned True"

definition DeviceIngress_Handle :: "handle_outcome \<Rightarrow> DeviceIngress \<Rightarrow> DeviceIngress \<Rightarrow> DeviceIngress" where
  "DeviceIngress_Handle out st later =
     (if \<not> di_enabled st then later
      else if accepted (di_submit st) (ho_submit out) then later
      else handle_rejected out later)"

definition DeviceIngress_Disable :: "DeviceIngress \<Rightarrow> DeviceIngress" where
  "DeviceIngress_Disable st = st\<lparr>di_enabled := False, di_submit := False, di_diagnostic := False\<rparr>"

subsection \<open>Command messages\<close>

record CommandIngress =
  ci_service :: bool
  ci_topic_namespace :: string
  ci_diagnostic :: bool
  ci_rejection_limiter :: RateLimiter
  ci_diagnostics :: "string list"

definition new_CommandIngress :: "string \<Rightarrow> bool \<Rightarrow> CommandIngress" where
  "new_CommandIngress topic_namespace diagnostic =
     \<lparr>ci_service = True, ci_topic_namespace = topic_namespace, ci_diagnostic = diagnostic,
      ci_rejection_limiter = new_RateLimiter 30000000000, ci_diagnostics = []\<rparr>"

definition is_command_topic :: "string \<Rightarrow> string \<Rightarrow> bool" where
  "is_command_topic topic_namespace topic \<longleftrightarrow>
     has_value (ParseSourceRequestTopic topic_namespace topic) \<or>
     has_value (ParseDeviceConfigAckTopic topic_namespace topic) \<or>
     has_value (ParseSourceControlRequestTopic topic_namespace topic) \<or>
     has_value (ParseDeviceControlAckTopic topic_namespace topic)"

text \<open>An exception of the sink is ignored, so the sink leaves no trace but the message it was given.\<close>

definition CommandIngress_TryPush ::
    "service_env \<Rightarrow> int \<Rightarrow> InboundMessage \<Rightarrow> CommandIngress \<Rightarrow> CommandService \<Rightarrow>
     bool \<times> CommandIngress \<times> CommandService" where
  "CommandIngress_TryPush env now message st service =
     (if \<not> is_command_topic (ci_topic_namespace st) (im_topic message) then (False, st, service)
      else
        let (pushed, service') = (if ci_service st then CommandService_TryPush env message service
                                  else (False, service))
        in if \<not> pushed \<and> ci_diagnostic st then
             (case ShouldEmit ''command_ingress_rejected'' now (ci_rejection_limiter st) of
                (emitted, limiter) \<Rightarrow>
                  (pushed, st\<lparr>ci_rejection_limiter := limiter,
                     ci_diagnostics := ci_diagnostics st @ (if emitted then [msg_ingress_rejected] else [])\<rparr>, service'))
           else (pushed, st, service'))"

definition CommandIngress_Disable :: "CommandIngress \<Rightarrow> CommandIngress" where
  "CommandIngress_Disable st = st\<lparr>ci_service := False\<rparr>"

subsection \<open>Lemmas\<close>

lemma SaturatingAdd_unat: "unat (SaturatingAdd a b) = min (2 ^ 64 - 1) (unat a + unat b)"
proof -
  have max: "unat (- 1 :: 64 word) = 2 ^ 64 - 1" by (simp add: unsigned_minus_1_eq_mask mask_eq_exp_minus_1)
  have bound: "unat a \<le> 2 ^ 64 - 1" using unsigned_less [of a, where ?'a = nat] by simp
  have diff: "unat (- 1 - a) = 2 ^ 64 - 1 - unat a"
    using unat_sub [of a "- 1"] max by simp
  show ?thesis
  proof (cases "b > - 1 - a")
    case True
    then have "unat b > 2 ^ 64 - 1 - unat a" unfolding word_less_nat_alt diff .
    then show ?thesis using True bound max by (simp add: SaturatingAdd_def Let_def min_def)
  next
    case False
    then have le: "unat b \<le> 2 ^ 64 - 1 - unat a" unfolding word_less_nat_alt diff by simp
    then have "unat (a + b) = unat a + unat b"
      using bound by (intro unat_add_lem [THEN iffD1]) simp
    then show ?thesis using False le bound by (auto simp: SaturatingAdd_def Let_def min_def)
  qed
qed

text \<open>The rejections a sink was told of, and those that wait to be reported.\<close>

definition total_count :: "DeviceIngress \<Rightarrow> nat" where
  "total_count st = sum_list (map (\<lambda>r. unat (rr_count r)) (filter rr_delivered (di_reports st))) + unat (di_rejected_count st)"

definition total_bytes :: "DeviceIngress \<Rightarrow> nat" where
  "total_bytes st = sum_list (map (\<lambda>r. unat (rr_bytes r)) (filter rr_delivered (di_reports st))) + unat (di_rejected_bytes st)"

lemma handle_rejected_totals:
  assumes "di_enabled st"
  shows "di_enabled (handle_rejected out st)"
    "total_count st < 2 ^ 64 - 1 \<Longrightarrow> total_count (handle_rejected out st) = total_count st + 1"
    "total_bytes st + unat (ho_payload_bytes out) < 2 ^ 64 \<Longrightarrow>
       total_bytes (handle_rejected out st) = total_bytes st + unat (ho_payload_bytes out)"
  using assms
  by (auto simp: handle_rejected_def Let_def total_count_def total_bytes_def SaturatingAdd_unat split: option.split prod.split)

definition payload_total :: "handle_outcome list \<Rightarrow> nat" where
  "payload_total outs = sum_list (map (\<lambda>out. unat (ho_payload_bytes out)) outs)"

lemma fold_rejected_totals:
  assumes "di_enabled st" "total_count st + length outs < 2 ^ 64" "total_bytes st + payload_total outs < 2 ^ 64"
  shows "di_enabled (fold handle_rejected outs st) \<and>
    total_count (fold handle_rejected outs st) = total_count st + length outs \<and>
    total_bytes (fold handle_rejected outs st) = total_bytes st + payload_total outs"
  using assms
proof (induction outs arbitrary: st)
  case (Cons out outs)
  let ?st = "handle_rejected out st"
  have step: "di_enabled ?st" "total_count ?st = total_count st + 1"
      "total_bytes ?st = total_bytes st + unat (ho_payload_bytes out)"
    using handle_rejected_totals [OF Cons.prems(1), of out] Cons.prems(2,3) by (auto simp: payload_total_def)
  then show ?case using Cons.IH [OF step(1)] Cons.prems by (simp add: payload_total_def)
qed (simp add: payload_total_def)

lemma disabled_inert: "\<not> di_enabled st \<Longrightarrow> fold handle_rejected outs st = st"
  by (induction outs) (simp_all add: handle_rejected_def)

text \<open>
  No refused device message escapes the accounting. However the refusals, the clock and the sink behave,
  the numbers in the delivered reports and the numbers still waiting add up to exactly the refused messages
  and bytes, as long as these fit 64 bits; a report the sink failed to take is made again with the next one.
  An accepted message leaves no trace, and a disabled bridge counts and reports nothing any more, also for
  calls that began before it was disabled.
\<close>
theorem rejections_accounted:
  assumes "length outs < 2 ^ 64" "payload_total outs < 2 ^ 64"
  shows "total_count (fold handle_rejected outs (new_DeviceIngress submit diagnostic window)) = length outs \<and>
    total_bytes (fold handle_rejected outs (new_DeviceIngress submit diagnostic window)) = payload_total outs \<and>
    (di_submit st \<and> ho_submit out = Returned True \<longrightarrow> DeviceIngress_Handle out st later = later) \<and>
    DeviceIngress_Handle out st (DeviceIngress_Disable later) = DeviceIngress_Disable later"
proof -
  let ?new = "new_DeviceIngress submit diagnostic window"
  have "di_enabled ?new" "total_count ?new = 0" "total_bytes ?new = 0"
    by (simp_all add: new_DeviceIngress_def total_count_def total_bytes_def)
  then show ?thesis using fold_rejected_totals [of ?new outs] assms
    by (simp add: DeviceIngress_Handle_def accepted_def handle_rejected_def DeviceIngress_Disable_def)
qed

definition demo_rejection :: handle_outcome where
  "demo_rejection =
     \<lparr>ho_payload_bytes = 7, ho_submit = Returned False, ho_steady_now = Some 5, ho_sink_returns = True\<rparr>"

theorem rejections_accounted_witness:
  "total_count (fold handle_rejected [demo_rejection, demo_rejection] (new_DeviceIngress True True 30)) = 2 \<and>
   total_bytes (fold handle_rejected [demo_rejection, demo_rejection] (new_DeviceIngress True True 30)) = 14"
  using rejections_accounted [of "[demo_rejection, demo_rejection]" True True 30]
  by (simp add: payload_total_def demo_rejection_def)

text \<open>
  The command bridge takes exactly the messages meant for it. A message on another topic is left to
  others and changes nothing, not even a report. A message on a command topic reaches the service, at the end
  of its queue, exactly if the bridge is enabled and the service is open and has room; otherwise the service
  is unchanged and the refusal is reported, at most once in 30 seconds.
\<close>
theorem command_ingress_exact:
  fixes ns diagnostic nows message
  defines "topic \<equiv> im_topic message"
  assumes "CommandIngress_TryPush env now message st service = (pushed, st', service')" "ci_topic_namespace st = ns"
  shows "(\<not> is_command_topic ns topic \<longrightarrow> \<not> pushed \<and> st' = st \<and> service' = service) \<and>
    (pushed \<longleftrightarrow> is_command_topic ns topic \<and> ci_service st \<and> \<not> sv_closed service \<and>
       length (sv_messages service) < env_max_inflight_commands env) \<and>
    service' = (if pushed then service\<lparr>sv_messages := sv_messages service @ [message]\<rparr> else service) \<and>
    (is_command_topic ns topic \<and> \<not> pushed \<and> ci_diagnostic st \<longrightarrow>
       ci_diagnostics st' = ci_diagnostics st @
         (if fst (ShouldEmit ''command_ingress_rejected'' now (ci_rejection_limiter st)) then [msg_ingress_rejected] else [])) \<and>
    (pushed \<longrightarrow> st' = st) \<and>
    spaced 30000000000 (emissions ''command_ingress_rejected'' nows (ci_rejection_limiter (new_CommandIngress ns diagnostic)))"
  using assms(2,3) rate_limited [of 30000000000 "''command_ingress_rejected''" nows] unfolding topic_def
  by (auto simp: CommandIngress_TryPush_def CommandService_TryPush_def Let_def new_CommandIngress_def
      split: if_splits prod.splits)

definition demo_bridge_env :: service_env where
  "demo_bridge_env =
     \<lparr>env_lib = \<lparr>jparse = (\<lambda>_. None), jdump = (\<lambda>_. []), jeq = (=)\<rparr>, env_submit = (\<lambda>i t. True),
      env_publish = (\<lambda>i tp p. Inr ()), env_ack_returns = (\<lambda>n. True), env_draws = (\<lambda>n. []), env_order = (\<lambda>n ks. ks),
      env_topic_namespace = ''cns'', env_max_inflight_commands = 1, env_config_timeout = 1, env_control_timeout = 1,
      env_terminal_retention_days = 1, env_cleanup_interval = 1, env_cleanup_batch_size = 1\<rparr>"

definition demo_bridge_service :: CommandService where
  "demo_bridge_service = CommandService_new fmempty DeviceRegistry_new"

definition demo_ack_message :: InboundMessage where
  "demo_ack_message = \<lparr>im_topic = ''cns/d1/config/ack'', im_payload = ''{}'', im_received_at = 0\<rparr>"

lemma demo_ack_topic: "is_command_topic ''cns'' ''cns/d1/config/ack''"
  by (simp add: is_command_topic_def has_value_iff ParseDeviceConfigAckTopic_def ParseDeviceAckTopic_iff)
     (simp add: IsValidDeviceId_def device_id_char_def char_class_defs less_eq_char_def)

theorem command_ingress_exact_witness:
  "CommandIngress_TryPush demo_bridge_env 0 demo_ack_message (new_CommandIngress ''cns'' True) demo_bridge_service =
     (True, new_CommandIngress ''cns'' True, demo_bridge_service\<lparr>sv_messages := [demo_ack_message]\<rparr>)"
proof -
  obtain pushed st service where run: "CommandIngress_TryPush demo_bridge_env 0 demo_ack_message
      (new_CommandIngress ''cns'' True) demo_bridge_service = (pushed, st, service)"
    by (metis surj_pair)
  moreover have "pushed \<and> st = new_CommandIngress ''cns'' True \<and>
      service = demo_bridge_service\<lparr>sv_messages := [demo_ack_message]\<rparr>"
    using command_ingress_exact [OF run, of "''cns''"] demo_ack_topic
    by (simp add: new_CommandIngress_def demo_ack_message_def demo_bridge_env_def demo_bridge_service_def
        CommandService_new_def)
  ultimately show ?thesis by simp
qed

end
