(* ===== verification/Mqtt_Client.thy ===== *)
theory Mqtt_Client
  imports Mqtt_Port Rate_Limiter Device_Topic App_Config
begin

text \<open>
  \<^verbatim>\<open>adapters/mqtt/mqtt_client.cpp\<close>: the client around libmosquitto: connection and retries, the business
  subscriptions that have to be renewed on every connection, the bookkeeping of publications in flight, and the
  callbacks the library calls from its network thread.

  The library is a parameter: what its n-th call returns. Calls, log entries and calls of the configured
  handlers are the effects of the client, in order; an answer of the outside is indexed by the number of
  effects before it. A critical section is one step on the whole state.
\<close>

subsection \<open>The library and the state\<close>

datatype mosq_result = MosqSuccess | MosqNoConn | MosqErrno | MosqEai | MosqOther int

datatype publication = CommandPublication "64 word" | OtherPublication

text \<open>The effect of a subscription notes the connection it was made on.\<close>

datatype mqtt_effect =
    SubscribeCall nat string nat mosq_result
  | UnsubscribeCall string mosq_result
  | PublishCall publication string string nat bool mosq_result
  | ConnectAsyncCall mosq_result
  | LoopStartCall mosq_result
  | LoopStopCall mosq_result
  | DisconnectCall mosq_result
  | Logged Level string
  | Completion PublishCompletion
  | Delivered InboundMessage

record mosquitto_lib =
  ml_result :: "nat \<Rightarrow> mosq_result"
  ml_mid :: "nat \<Rightarrow> int"
  ml_code :: "mosq_result \<Rightarrow> int"
  ml_strerror :: "mosq_result \<Rightarrow> string"
  ml_steady_now :: "nat \<Rightarrow> int"
  ml_handler_returns :: "nat \<Rightarrow> bool"
  ml_order :: "nat \<Rightarrow> 64 word list \<Rightarrow> 64 word list"
  ml_log_err :: "32 word"
  ml_log_warning :: "32 word"

datatype RuntimeStatus = kDisconnectedOrRetrying | kConnected | kTerminalFailure

datatype RetryState = RetryIdle | RetryRunning | RetryFailed

record MqttClient =
  mq_logger :: bool
  mq_disconnect_warnings :: RateLimiter
  mq_library_logs :: RateLimiter
  mq_business_warnings :: RateLimiter
  mq_connected :: bool
  mq_handler :: bool
  mq_publish_handler :: bool
  mq_max_payload_bytes :: nat
  mq_publish_capacity :: nat
  mq_token_to_mid :: "(64 word, int) fmap"
  mq_mid_to_token :: "(int, 64 word) fmap"
  mq_untracked_completion_mids :: "int fset"
  mq_device_topic_namespace :: string
  mq_command_topic_namespace :: string
  mq_connection_generation :: nat
  mq_registration_generation :: "nat option"
  mq_telemetry_generation :: "nat option"
  mq_source_request_generation :: "nat option"
  mq_device_ack_generation :: "nat option"
  mq_loop_started :: bool
  mq_retry_stop_requested :: bool
  mq_retry_state :: RetryState
  mq_retry_error :: string
  mq_retry_thread :: bool
  mq_callback_stop_requested :: bool
  mq_effects :: "mqtt_effect list"

definition MqttClient_new :: MqttClient where
  "MqttClient_new =
     \<lparr>mq_logger = True, mq_disconnect_warnings = new_RateLimiter 30000000000,
      mq_library_logs = new_RateLimiter 30000000000, mq_business_warnings = new_RateLimiter 30000000000,
      mq_connected = False, mq_handler = False, mq_publish_handler = False, mq_max_payload_bytes = 0,
      mq_publish_capacity = 0, mq_token_to_mid = fmempty, mq_mid_to_token = fmempty,
      mq_untracked_completion_mids = {||}, mq_device_topic_namespace = [], mq_command_topic_namespace = [],
      mq_connection_generation = 0, mq_registration_generation = None, mq_telemetry_generation = None,
      mq_source_request_generation = None, mq_device_ack_generation = None, mq_loop_started = False,
      mq_retry_stop_requested = False, mq_retry_state = RetryIdle, mq_retry_error = [], mq_retry_thread = False,
      mq_callback_stop_requested = False, mq_effects = []\<rparr>"

definition mq_count :: "MqttClient \<Rightarrow> nat" where
  "mq_count st = length (mq_effects st)"

definition mq_emit :: "mqtt_effect \<Rightarrow> MqttClient \<Rightarrow> MqttClient" where
  "mq_emit e st = st\<lparr>mq_effects := mq_effects st @ [e]\<rparr>"

text \<open>A call of the library with its result.\<close>

definition lib_call :: "mosquitto_lib \<Rightarrow> (mosq_result \<Rightarrow> mqtt_effect) \<Rightarrow> MqttClient \<Rightarrow> mosq_result \<times> MqttClient" where
  "lib_call lib e st = (let result = ml_result lib (mq_count st) in (result, mq_emit (e result) st))"

definition MosquittoError :: "mosquitto_lib \<Rightarrow> string \<Rightarrow> mosq_result \<Rightarrow> string" where
  "MosquittoError lib operation result =
     operation @ msg_mq_failed @ int_text (ml_code lib result) @ msg_mq_reason @ ml_strerror lib result"

subsection \<open>The library lease\<close>

text \<open>\<^verbatim>\<open>LibraryState::users\<close>; the flag of the results tells whether the library is initialised or cleaned up.\<close>

definition AcquireLibrary :: "mosq_result \<Rightarrow> nat \<Rightarrow> mosq_result \<times> bool \<times> nat" where
  "AcquireLibrary init_result users =
     (if users = 0 \<and> init_result \<noteq> MosqSuccess then (init_result, True, users)
      else (MosqSuccess, users = 0, Suc users))"

definition ReleaseLibrary :: "nat \<Rightarrow> bool \<times> nat" where
  "ReleaseLibrary users = (if users = 0 then (False, users) else (users = 1, users - 1))"

subsection \<open>Logging\<close>

definition DisableLogger :: "MqttClient \<Rightarrow> MqttClient" where
  "DisableLogger st = st\<lparr>mq_logger := False\<rparr>"

definition mq_log :: "Level \<Rightarrow> string \<Rightarrow> MqttClient \<Rightarrow> MqttClient" where
  "mq_log level message st = (if mq_logger st then mq_emit (Logged level message) st else st)"

definition WarnDisconnected :: "mosquitto_lib \<Rightarrow> int \<Rightarrow> MqttClient \<Rightarrow> MqttClient" where
  "WarnDisconnected lib result st =
     (if \<not> mq_logger st then st
      else case ShouldEmit ''mqtt_disconnect'' (ml_steady_now lib (mq_count st)) (mq_disconnect_warnings st) of
        (emitted, limiter) \<Rightarrow>
          if \<not> emitted then st\<lparr>mq_disconnect_warnings := limiter\<rparr>
          else mq_log kWarn (msg_mq_disconnected @ int_text result) (st\<lparr>mq_disconnect_warnings := limiter\<rparr>))"

definition WarnLibraryEvent :: "mosquitto_lib \<Rightarrow> string \<Rightarrow> string \<Rightarrow> MqttClient \<Rightarrow> MqttClient" where
  "WarnLibraryEvent lib category message st =
     (if \<not> mq_logger st then st
      else case ShouldEmit category (ml_steady_now lib (mq_count st)) (mq_library_logs st) of
        (emitted, limiter) \<Rightarrow>
          if \<not> emitted then st\<lparr>mq_library_logs := limiter\<rparr>
          else mq_log kWarn message (st\<lparr>mq_library_logs := limiter\<rparr>))"

definition WarnBusiness :: "mosquitto_lib \<Rightarrow> string \<Rightarrow> string \<Rightarrow> MqttClient \<Rightarrow> MqttClient" where
  "WarnBusiness lib category message st =
     (if \<not> mq_logger st then st
      else case ShouldEmit category (ml_steady_now lib (mq_count st)) (mq_business_warnings st) of
        (emitted, limiter) \<Rightarrow>
          if \<not> emitted then st\<lparr>mq_business_warnings := limiter\<rparr>
          else mq_log kError message (st\<lparr>mq_business_warnings := limiter\<rparr>))"

subsection \<open>Subscriptions\<close>

definition Connected :: "MqttClient \<Rightarrow> MqttClient" where
  "Connected st =
     mq_log kInfo msg_mq_connected
       (if mq_connected st then st
        else st\<lparr>mq_connected := True, mq_connection_generation := Suc (mq_connection_generation st)\<rparr>)"

record subscription_plan =
  sp_device_namespace :: string
  sp_command_namespace :: string
  sp_generation :: nat
  sp_devices :: bool
  sp_commands :: bool

text \<open>The first critical section of \<^verbatim>\<open>SubscribeConfigured\<close>.\<close>

definition subscribe_begin :: "MqttClient \<Rightarrow> subscription_plan" where
  "subscribe_begin st =
     (let generation = mq_connection_generation st in
      \<lparr>sp_device_namespace = mq_device_topic_namespace st, sp_command_namespace = mq_command_topic_namespace st,
       sp_generation = generation,
       sp_devices = (mq_device_topic_namespace st \<noteq> [] \<and>
         (mq_registration_generation st \<noteq> Some generation \<or> mq_telemetry_generation st \<noteq> Some generation)),
       sp_commands = (mq_command_topic_namespace st \<noteq> [] \<and>
         (mq_source_request_generation st \<noteq> Some generation \<or> mq_device_ack_generation st \<noteq> Some generation))\<rparr>)"

record subscription =
  sb_filter :: string
  sb_qos :: nat
  sb_operation :: string

definition device_subscriptions :: "string \<Rightarrow> subscription list" where
  "device_subscriptions ns =
     [\<lparr>sb_filter = RegistrationFilter ns, sb_qos = 2, sb_operation = msg_mq_sub_registration\<rparr>,
      \<lparr>sb_filter = TelemetryFilter ns, sb_qos = 0, sb_operation = msg_mq_sub_telemetry\<rparr>]"

definition command_subscriptions :: "string \<Rightarrow> subscription list" where
  "command_subscriptions ns =
     [\<lparr>sb_filter = ns @ ''/sources/+/config/request'', sb_qos = 2, sb_operation = msg_mq_sub_config_request\<rparr>,
      \<lparr>sb_filter = ns @ ''/+/config/ack'', sb_qos = 2, sb_operation = msg_mq_sub_config_ack\<rparr>,
      \<lparr>sb_filter = ns @ ''/sources/+/control/request'', sb_qos = 2, sb_operation = msg_mq_sub_control_request\<rparr>,
      \<lparr>sb_filter = ns @ ''/+/control/ack'', sb_qos = 2, sb_operation = msg_mq_sub_control_ack\<rparr>]"

definition planned_subscriptions :: "subscription_plan \<Rightarrow> subscription list" where
  "planned_subscriptions plan =
     (if sp_devices plan then device_subscriptions (sp_device_namespace plan) else []) @
     (if sp_commands plan then command_subscriptions (sp_command_namespace plan) else [])"

definition subscribe_one :: "mosquitto_lib \<Rightarrow> subscription \<Rightarrow> MqttClient \<Rightarrow> (string + unit) \<times> MqttClient" where
  "subscribe_one lib s st =
     (case lib_call lib (SubscribeCall (mq_connection_generation st) (sb_filter s) (sb_qos s)) st of
        (result, st') \<Rightarrow>
          (if result = MosqSuccess then Inr () else Inl (MosquittoError lib (sb_operation s) result), st'))"

fun subscribe_all :: "mosquitto_lib \<Rightarrow> subscription list \<Rightarrow> MqttClient \<Rightarrow> (string + unit) \<times> MqttClient" where
  "subscribe_all lib [] st = (Inr (), st)"
| "subscribe_all lib (s # ss) st =
     (case subscribe_one lib s st of
        (Inl e, st') \<Rightarrow> (Inl e, st')
      | (Inr _, st') \<Rightarrow> subscribe_all lib ss st')"

text \<open>The second critical section.\<close>

definition subscribe_commit :: "subscription_plan \<Rightarrow> MqttClient \<Rightarrow> MqttClient" where
  "subscribe_commit plan st =
     (if mq_connected st \<and> mq_connection_generation st = sp_generation plan then
        let generation = Some (sp_generation plan);
            st1 = (if mq_device_topic_namespace st = sp_device_namespace plan \<and> sp_device_namespace plan \<noteq> []
                   then st\<lparr>mq_registration_generation := generation, mq_telemetry_generation := generation\<rparr> else st);
            st2 = (if mq_command_topic_namespace st1 = sp_command_namespace plan \<and> sp_command_namespace plan \<noteq> []
                   then st1\<lparr>mq_source_request_generation := generation, mq_device_ack_generation := generation\<rparr>
                   else st1)
        in if sp_devices plan \<or> sp_commands plan then mq_log kInfo msg_mq_subscribed st2 else st2
      else st)"

definition SubscribeConfigured :: "mosquitto_lib \<Rightarrow> MqttClient \<Rightarrow> (string + unit) \<times> MqttClient" where
  "SubscribeConfigured lib st =
     (let plan = subscribe_begin st in
      case subscribe_all lib (planned_subscriptions plan) st of
        (Inl e, st') \<Rightarrow> (Inl e, st')
      | (Inr _, st') \<Rightarrow> (Inr (), subscribe_commit plan st'))"

definition BusinessSubscriptionGeneration :: "MqttClient \<Rightarrow> nat option" where
  "BusinessSubscriptionGeneration st =
     (let generation = Some (mq_connection_generation st) in
      if \<not> mq_connected st then None
      else if mq_device_topic_namespace st = [] \<and> mq_command_topic_namespace st = [] then None
      else if mq_device_topic_namespace st \<noteq> [] \<and>
        (mq_registration_generation st \<noteq> generation \<or> mq_telemetry_generation st \<noteq> generation) then None
      else if mq_command_topic_namespace st \<noteq> [] \<and>
        (mq_source_request_generation st \<noteq> generation \<or> mq_device_ack_generation st \<noteq> generation) then None
      else generation)"

definition IsConnected :: "MqttClient \<Rightarrow> bool" where
  "IsConnected st \<longleftrightarrow> mq_connected st"

definition set_device_namespace :: "string \<Rightarrow> MqttClient \<Rightarrow> MqttClient" where
  "set_device_namespace ns st =
     (if mq_device_topic_namespace st \<noteq> ns
      then st\<lparr>mq_registration_generation := None, mq_telemetry_generation := None, mq_device_topic_namespace := ns\<rparr>
      else st)"

definition SubscribeDeviceMessages :: "mosquitto_lib \<Rightarrow> string \<Rightarrow> MqttClient \<Rightarrow> (string + unit) \<times> MqttClient" where
  "SubscribeDeviceMessages lib ns st =
     (if ns = [] then (Inl msg_mq_namespace, st)
      else let st' = set_device_namespace ns st in
        if IsConnected st' then SubscribeConfigured lib st' else (Inr (), st'))"

definition set_command_namespace :: "string \<Rightarrow> MqttClient \<Rightarrow> MqttClient" where
  "set_command_namespace ns st =
     (if mq_command_topic_namespace st \<noteq> ns
      then st\<lparr>mq_source_request_generation := None, mq_device_ack_generation := None, mq_command_topic_namespace := ns\<rparr>
      else st)"

definition SubscribeCommandMessages :: "mosquitto_lib \<Rightarrow> string \<Rightarrow> MqttClient \<Rightarrow> (string + unit) \<times> MqttClient" where
  "SubscribeCommandMessages lib ns st =
     (if ns = [] then (Inl msg_mq_namespace, st)
      else let st' = set_command_namespace ns st in
        if IsConnected st' then SubscribeConfigured lib st' else (Inr (), st'))"

definition EnsureBusinessSubscriptions :: "mosquitto_lib \<Rightarrow> MqttClient \<Rightarrow> (string + unit) \<times> MqttClient" where
  "EnsureBusinessSubscriptions lib st = (if IsConnected st then SubscribeConfigured lib st else (Inr (), st))"

text \<open>The library calls of a replay, and its critical section after them.\<close>

definition replay_calls :: "mosquitto_lib \<Rightarrow> string \<Rightarrow> MqttClient \<Rightarrow> (string + unit) \<times> MqttClient" where
  "replay_calls lib ns st =
     (let filter_text = RegistrationFilter ns in
      case lib_call lib (UnsubscribeCall filter_text) st of
        (unsubscribed, st1) \<Rightarrow>
          if unsubscribed \<noteq> MosqSuccess then (Inl (MosquittoError lib msg_mq_unsub_registration unsubscribed), st1)
          else subscribe_one lib \<lparr>sb_filter = filter_text, sb_qos = 2, sb_operation = msg_mq_resub_registration\<rparr> st1)"

definition replay_commit :: "string \<Rightarrow> MqttClient \<Rightarrow> MqttClient" where
  "replay_commit ns st =
     (if mq_connected st \<and> mq_device_topic_namespace st = ns
      then st\<lparr>mq_registration_generation := Some (mq_connection_generation st)\<rparr> else st)"

definition ReplayRetainedRegistrations :: "mosquitto_lib \<Rightarrow> string \<Rightarrow> MqttClient \<Rightarrow> (string + unit) \<times> MqttClient" where
  "ReplayRetainedRegistrations lib ns st =
     (if ns = [] then (Inl msg_mq_namespace, st)
      else case replay_calls lib ns st of
        (Inl e, st') \<Rightarrow> (Inl e, st')
      | (Inr _, st') \<Rightarrow> (Inr (), replay_commit ns st'))"

subsection \<open>Publishing\<close>

definition ConfigureBusinessMessages :: "bool \<Rightarrow> nat \<Rightarrow> MqttClient \<Rightarrow> (string + unit) \<times> MqttClient" where
  "ConfigureBusinessMessages handler max_payload_bytes st =
     (if max_payload_bytes = 0 then (Inl msg_mq_payload_limit, st)
      else (Inr (), st\<lparr>mq_handler := handler, mq_max_payload_bytes := max_payload_bytes\<rparr>))"

definition forget_publications :: "MqttClient \<Rightarrow> MqttClient" where
  "forget_publications st =
     st\<lparr>mq_token_to_mid := fmempty, mq_mid_to_token := fmempty, mq_untracked_completion_mids := {||}\<rparr>"

definition ConfigureCommandPublishing :: "bool \<Rightarrow> nat \<Rightarrow> MqttClient \<Rightarrow> (string + unit) \<times> MqttClient" where
  "ConfigureCommandPublishing handler capacity st =
     (if capacity = 0 then (Inl msg_mq_capacity, st)
      else (Inr (), forget_publications (st\<lparr>mq_publish_handler := handler, mq_publish_capacity := capacity\<rparr>)))"

text \<open>\<^verbatim>\<open>std::numeric_limits<int>::max()\<close>\<close>

definition int_max :: nat where
  "int_max = 2147483647"

text \<open>The message identifier is the one the library wrote.\<close>

definition PublishCommandSet ::
    "mosquitto_lib \<Rightarrow> 64 word \<Rightarrow> string \<Rightarrow> string \<Rightarrow> MqttClient \<Rightarrow> (string + unit) \<times> MqttClient" where
  "PublishCommandSet lib token topic payload st =
     (if topic = [] then (Inl msg_mq_topic, st)
      else if length payload > int_max then (Inl msg_mq_payload, st)
      else if \<not> mq_publish_handler st then (Inl msg_mq_no_handler, st)
      else if fmlookup (mq_token_to_mid st) token \<noteq> None then (Inl msg_mq_token, st)
      else if fmsize (mq_token_to_mid st) \<ge> mq_publish_capacity st then (Inl msg_mq_full, st)
      else
        let mid = ml_mid lib (mq_count st) in
        case lib_call lib (PublishCall (CommandPublication token) topic payload 2 False) st of
          (result, st') \<Rightarrow>
            if result \<noteq> MosqSuccess then (Inl (MosquittoError lib msg_mq_publish_command result), st')
            else (Inr (), st'\<lparr>mq_token_to_mid := emplace token mid (mq_token_to_mid st'),
                             mq_mid_to_token := emplace mid token (mq_mid_to_token st')\<rparr>))"

definition publish_untracked ::
    "mosquitto_lib \<Rightarrow> nat \<Rightarrow> bool \<Rightarrow> string \<Rightarrow> string \<Rightarrow> string \<Rightarrow> MqttClient \<Rightarrow> (string + unit) \<times> MqttClient" where
  "publish_untracked lib qos retain operation topic payload st =
     (if topic = [] then (Inl msg_mq_topic, st)
      else if length payload > int_max then (Inl msg_mq_payload, st)
      else
        let mid = ml_mid lib (mq_count st) in
        case lib_call lib (PublishCall OtherPublication topic payload qos retain) st of
          (result, st') \<Rightarrow>
            if result \<noteq> MosqSuccess then (Inl (MosquittoError lib operation result), st')
            else (Inr (), st'\<lparr>mq_untracked_completion_mids := finsert mid (mq_untracked_completion_mids st')\<rparr>))"

definition PublishSourceCommandAck ::
    "mosquitto_lib \<Rightarrow> string \<Rightarrow> string \<Rightarrow> MqttClient \<Rightarrow> (string + unit) \<times> MqttClient" where
  "PublishSourceCommandAck lib = publish_untracked lib 2 False msg_mq_publish_ack"

definition PublishStateEvent ::
    "mosquitto_lib \<Rightarrow> string \<Rightarrow> string \<Rightarrow> MqttClient \<Rightarrow> (string + unit) \<times> MqttClient" where
  "PublishStateEvent lib = publish_untracked lib 1 True msg_mq_publish_state"

subsection \<open>Callbacks of the library\<close>

definition HandleConnect :: "mosquitto_lib \<Rightarrow> int \<Rightarrow> MqttClient \<Rightarrow> MqttClient" where
  "HandleConnect lib result st =
     (if result = 0 then
        (case SubscribeConfigured lib (Connected st) of
           (Inr _, st') \<Rightarrow> st'
         | (Inl e, st') \<Rightarrow> WarnBusiness lib ''mqtt_business_subscribe'' (msg_mq_subscribe_failed @ e) st')
      else WarnDisconnected lib result (st\<lparr>mq_connected := False\<rparr>))"

text \<open>The handler is called for one completion after the other until it throws.\<close>

fun complete_all :: "mosquitto_lib \<Rightarrow> PublishCompletion list \<Rightarrow> MqttClient \<Rightarrow> bool \<times> MqttClient" where
  "complete_all lib [] st = (True, st)"
| "complete_all lib (c # cs) st =
     (let returns = ml_handler_returns lib (mq_count st); st' = mq_emit (Completion c) st
      in if returns then complete_all lib cs st' else (False, st'))"

definition lost_completions :: "mosquitto_lib \<Rightarrow> MqttClient \<Rightarrow> PublishCompletion list" where
  "lost_completions lib st =
     map (\<lambda>token. \<lparr>pc_token = token, pc_result = Inl msg_mq_connection_lost\<rparr>)
       (ml_order lib (mq_count st) (sorted_list_of_fset (fmdom (mq_token_to_mid st))))"

definition HandleDisconnect :: "mosquitto_lib \<Rightarrow> int \<Rightarrow> MqttClient \<Rightarrow> MqttClient" where
  "HandleDisconnect lib result st =
     (let completions = lost_completions lib st;
          st1 = forget_publications (st\<lparr>mq_connected := False\<rparr>);
          (returned, st2) = (if mq_publish_handler st then complete_all lib completions st1 else (True, st1))
      in if returned \<and> result \<noteq> ml_code lib MosqSuccess then WarnDisconnected lib result st2 else st2)"

definition HandlePublish :: "mosquitto_lib \<Rightarrow> int \<Rightarrow> MqttClient \<Rightarrow> MqttClient" where
  "HandlePublish lib mid st =
     (case fmlookup (mq_mid_to_token st) mid of
        None \<Rightarrow>
          if mid |\<in>| mq_untracked_completion_mids st
          then st\<lparr>mq_untracked_completion_mids := mq_untracked_completion_mids st |-| {|mid|}\<rparr>
          else WarnBusiness lib ''mqtt_unknown_publish_mid'' msg_mq_unknown_mid st
      | Some token \<Rightarrow>
          let st1 = st\<lparr>mq_token_to_mid := fmdrop token (mq_token_to_mid st),
                       mq_mid_to_token := fmdrop mid (mq_mid_to_token st)\<rparr>
          in if \<not> mq_publish_handler st then st1
             else (case complete_all lib [\<lparr>pc_token = token, pc_result = Inr ()\<rparr>] st1 of
                     (returned, st2) \<Rightarrow>
                       if returned then st2
                       else WarnBusiness lib ''mqtt_publish_callback'' msg_mq_publish_callback st2))"

unbundle bit_operations_syntax

definition HandleLog :: "mosquitto_lib \<Rightarrow> 32 word \<Rightarrow> MqttClient \<Rightarrow> MqttClient" where
  "HandleLog lib level st =
     (if level AND ml_log_err lib \<noteq> 0 then WarnLibraryEvent lib ''mqtt_library_error'' msg_mq_library_error st
      else if level AND ml_log_warning lib \<noteq> 0
      then WarnLibraryEvent lib ''mqtt_library_warning'' msg_mq_library_warning st
      else st)"

text \<open>A message of the library: null pointers are \<^const>\<open>None\<close>.\<close>

record mosquitto_message =
  mm_topic :: "string option"
  mm_payload :: "string option"
  mm_payloadlen :: int

definition Dispatch :: "mosquitto_lib \<Rightarrow> mosquitto_message option \<Rightarrow> int \<Rightarrow> MqttClient \<Rightarrow> MqttClient" where
  "Dispatch lib message received_at st =
     (case message of
        None \<Rightarrow> st
      | Some m \<Rightarrow>
          (case mm_topic m of
             None \<Rightarrow> st
           | Some topic \<Rightarrow>
               if \<not> mq_handler st \<or> mm_payloadlen m < 0 then st
               else if nat (mm_payloadlen m) > mq_max_payload_bytes st
               then WarnBusiness lib ''mqtt_payload_too_large'' msg_mq_too_large st
               else if mm_payloadlen m \<noteq> 0 \<and> mm_payload m = None then st
               else
                 let payload = (case mm_payload m of None \<Rightarrow> [] | Some p \<Rightarrow> take (nat (mm_payloadlen m)) p);
                     returns = ml_handler_returns lib (mq_count st);
                     st' = mq_emit (Delivered \<lparr>im_topic = topic, im_payload = payload,
                             im_received_at = received_at\<rparr>) st
                 in if returns then st' else WarnBusiness lib ''mqtt_business_handler'' msg_mq_handler st'))"

definition HandleMessage :: "mosquitto_lib \<Rightarrow> mosquitto_message option \<Rightarrow> int \<Rightarrow> MqttClient \<Rightarrow> MqttClient" where
  "HandleMessage lib message received_at st = Dispatch lib message received_at st"

definition AbandonFromCallback :: "MqttClient \<Rightarrow> MqttClient" where
  "AbandonFromCallback st =
     (forget_publications st)\<lparr>mq_logger := False, mq_handler := False, mq_publish_handler := False,
        mq_device_topic_namespace := [], mq_command_topic_namespace := []\<rparr>"

subsection \<open>Life cycle\<close>

definition FinishRetry :: "string \<Rightarrow> MqttClient \<Rightarrow> MqttClient" where
  "FinishRetry e st = st\<lparr>mq_retry_error := e, mq_retry_state := (if e = [] then RetryIdle else RetryFailed)\<rparr>"

text \<open>
  \<^verbatim>\<open>thread\<close> is the outcome of creating the retry thread: the text of the exception, or success. Where an
  earlier retry thread has ended, it is joined.
\<close>

definition Start :: "mosquitto_lib \<Rightarrow> string option \<Rightarrow> MqttClient \<Rightarrow> (string + unit) \<times> MqttClient" where
  "Start lib thread st =
     (if mq_callback_stop_requested st then (Inl msg_mq_stop_pending, st)
      else if mq_loop_started st then (Inr (), st)
      else if mq_retry_state st = RetryRunning then (Inr (), st)
      else
        let completed_error = (if mq_retry_state st = RetryFailed then mq_retry_error st else []);
            st1 = (if mq_retry_state st = RetryFailed then st\<lparr>mq_retry_state := RetryIdle, mq_retry_error := []\<rparr> else st);
            st2 = st1\<lparr>mq_retry_thread := False\<rparr>
        in if completed_error \<noteq> [] then (Inl completed_error, st2)
           else
             case lib_call lib ConnectAsyncCall (st2\<lparr>mq_retry_stop_requested := False\<rparr>) of
               (connect_result, st3) \<Rightarrow>
                 let network_failure = (connect_result = MosqErrno \<or> connect_result = MosqEai) in
                 if connect_result \<noteq> MosqSuccess \<and> \<not> network_failure
                 then (Inl (MosquittoError lib msg_mq_connect_async connect_result), st3)
                 else
                   let st4 = (if network_failure then WarnDisconnected lib (ml_code lib connect_result) st3 else st3) in
                   if connect_result = MosqEai then
                     let st5 = st4\<lparr>mq_retry_state := RetryRunning, mq_retry_error := []\<rparr> in
                     (case thread of
                        Some what \<Rightarrow> (Inl (msg_mq_retry_thread @ what), FinishRetry [] st5)
                      | None \<Rightarrow> (Inr (), st5\<lparr>mq_retry_thread := True\<rparr>))
                   else
                     case lib_call lib LoopStartCall st4 of
                       (loop_result, st5) \<Rightarrow>
                         if loop_result \<noteq> MosqSuccess
                         then (Inl (MosquittoError lib msg_mq_loop_start loop_result),
                               snd (lib_call lib DisconnectCall st5))
                         else (Inr (), st5\<lparr>mq_loop_started := True\<rparr>))"

text \<open>
  One round of the retry thread; \<open>interrupted\<close> is the result of the wait and \<open>stop_seen\<close> the flag read
  after the connection attempt. \<^const>\<open>Inl\<close> ends the thread, \<^const>\<open>Inr\<close> carries the next delay.
\<close>

definition retry_round ::
    "mosquitto_lib \<Rightarrow> int \<Rightarrow> bool \<Rightarrow> bool \<Rightarrow> int \<Rightarrow> MqttClient \<Rightarrow> MqttClient + int \<times> MqttClient" where
  "retry_round lib delay_max interrupted stop_seen delay st =
     (if interrupted then Inl (FinishRetry [] st)
      else case lib_call lib ConnectAsyncCall st of
        (connect_result, st1) \<Rightarrow>
          if connect_result = MosqEai
          then Inr (min (delay * 2) delay_max, WarnDisconnected lib (ml_code lib connect_result) st1)
          else if connect_result \<noteq> MosqSuccess \<and> connect_result \<noteq> MosqErrno then
            let e = MosquittoError lib msg_mq_retry_connect connect_result
            in Inl (FinishRetry e (mq_log kWarn e st1))
          else
            let st2 = (if connect_result = MosqErrno
                       then WarnDisconnected lib (ml_code lib connect_result) st1 else st1) in
            if stop_seen then Inl (FinishRetry [] st2)
            else case lib_call lib LoopStartCall st2 of
              (loop_result, st3) \<Rightarrow>
                if loop_result \<noteq> MosqSuccess then
                  let e = MosquittoError lib msg_mq_loop_start loop_result
                  in Inl (FinishRetry e (snd (lib_call lib DisconnectCall (mq_log kWarn e st3))))
                else Inl (FinishRetry [] (st3\<lparr>mq_loop_started := True\<rparr>)))"

text \<open>The whole thread; the answers of the outside are indexed by the round.\<close>

partial_function (option) RetryConnection ::
    "mosquitto_lib \<Rightarrow> int \<Rightarrow> (nat \<Rightarrow> bool) \<Rightarrow> (nat \<Rightarrow> bool) \<Rightarrow> nat \<Rightarrow> int \<Rightarrow> MqttClient \<Rightarrow> MqttClient option" where
  "RetryConnection lib delay_max interrupted stop_seen n delay st =
     (case retry_round lib delay_max (interrupted n) (stop_seen n) delay st of
        Inl st' \<Rightarrow> Some st'
      | Inr (delay', st') \<Rightarrow> RetryConnection lib delay_max interrupted stop_seen (Suc n) delay' st')"

text \<open>\<open>joined\<close> is what the retry thread still does before it is joined.\<close>

definition StopNow :: "mosquitto_lib \<Rightarrow> (MqttClient \<Rightarrow> MqttClient) \<Rightarrow> MqttClient \<Rightarrow> MqttClient" where
  "StopNow lib joined st =
     (let st1 = st\<lparr>mq_retry_stop_requested := True\<rparr>;
          st2 = (if mq_retry_thread st1 then (joined st1)\<lparr>mq_retry_thread := False\<rparr> else st1);
          st3 = st2\<lparr>mq_retry_state := RetryIdle, mq_retry_error := []\<rparr>
      in if \<not> mq_loop_started st3 then st3\<lparr>mq_connected := False, mq_callback_stop_requested := False\<rparr>
         else case lib_call lib DisconnectCall st3 of
           (disconnect_result, st4) \<Rightarrow>
             let st5 = (if disconnect_result \<noteq> MosqSuccess \<and> disconnect_result \<noteq> MosqNoConn
                        then mq_log kWarn (MosquittoError lib msg_mq_disconnect disconnect_result) st4 else st4) in
             case lib_call lib LoopStopCall st5 of
               (loop_stop_result, st6) \<Rightarrow>
                 let st7 = (if loop_stop_result \<noteq> MosqSuccess
                            then mq_log kWarn (MosquittoError lib msg_mq_loop_stop loop_stop_result) st6
                            else st6\<lparr>mq_loop_started := False\<rparr>);
                     st8 = st7\<lparr>mq_connected := False\<rparr>
                 in if \<not> mq_loop_started st8 then st8\<lparr>mq_callback_stop_requested := False\<rparr> else st8)"

definition Stop :: "mosquitto_lib \<Rightarrow> bool \<Rightarrow> (MqttClient \<Rightarrow> MqttClient) \<Rightarrow> MqttClient \<Rightarrow> MqttClient" where
  "Stop lib in_callback joined st =
     (if in_callback then st\<lparr>mq_callback_stop_requested := True\<rparr> else StopNow lib joined st)"

definition CallbackStopRequested :: "MqttClient \<Rightarrow> bool" where
  "CallbackStopRequested st \<longleftrightarrow> mq_callback_stop_requested st"

definition GetRuntimeStatus :: "MqttClient \<Rightarrow> RuntimeStatus" where
  "GetRuntimeStatus st =
     (if mq_retry_state st = RetryFailed then kTerminalFailure
      else if IsConnected st then kConnected else kDisconnectedOrRetrying)"

text \<open>
  The answers \<^verbatim>\<open>Create\<close> gets from the library: of its initialisation, of \<^verbatim>\<open>mosquitto_new\<close> (whether there
  is a client), of setting the credentials and the delays. A client that is not returned is destroyed.
\<close>

record create_answers =
  ca_init :: mosq_result
  ca_new :: bool
  ca_credentials :: mosq_result
  ca_reconnect_delay :: mosq_result

definition destroy_unstarted :: "nat \<Rightarrow> nat" where
  "destroy_unstarted users = snd (ReleaseLibrary users)"

definition Create ::
    "mosquitto_lib \<Rightarrow> MqttConfig \<Rightarrow> create_answers \<Rightarrow> nat \<Rightarrow> (string + MqttClient) \<times> nat" where
  "Create lib config answers users =
     (case AcquireLibrary (ca_init answers) users of
        (library_result, _, users1) \<Rightarrow>
          if library_result \<noteq> MosqSuccess then (Inl (MosquittoError lib msg_mq_init library_result), users1)
          else if \<not> ca_new answers then (Inl msg_mq_create, destroy_unstarted users1)
          else if mc_username config \<noteq> [] \<and> ca_credentials answers \<noteq> MosqSuccess
          then (Inl (MosquittoError lib msg_mq_credentials (ca_credentials answers)), destroy_unstarted users1)
          else if ca_reconnect_delay answers \<noteq> MosqSuccess
          then (Inl (MosquittoError lib msg_mq_reconnect (ca_reconnect_delay answers)), destroy_unstarted users1)
          else (Inr MqttClient_new, users1))"

text \<open>
  The destructor: from one of its own callbacks the client is only given up, with its lease; a client whose
  network loop cannot be stopped too.
\<close>

definition MqttClient_destroy ::
    "mosquitto_lib \<Rightarrow> bool \<Rightarrow> (MqttClient \<Rightarrow> MqttClient) \<Rightarrow> MqttClient \<Rightarrow> nat \<Rightarrow> MqttClient \<times> nat" where
  "MqttClient_destroy lib in_callback joined st users =
     (if in_callback then
        let st1 = AbandonFromCallback (st\<lparr>mq_retry_stop_requested := True\<rparr>);
            st2 = (if mq_retry_thread st1 then (joined st1)\<lparr>mq_retry_thread := False\<rparr> else st1)
        in (st2, users)
      else
        let st1 = Stop lib False joined st in
        if mq_loop_started st1 then (DisableLogger st1, users)
        else (st1, snd (ReleaseLibrary users)))"

end
