(* ===== verification/Mqtt_Client_Laws.thy ===== *)
theory Mqtt_Client_Laws
  imports Mqtt_Client
begin

text \<open>
  What the MQTT client promises the services: the subscriptions it reports as ready were all made on the
  current connection, whatever the interleaving of reconnections with threads that subscribe; and every
  accepted command publication is completed exactly once.
\<close>

subsection \<open>What most operations leave alone\<close>

text \<open>The fields subscriptions depend on.\<close>

definition sub_view :: "MqttClient \<Rightarrow> bool \<times> string \<times> string \<times> nat \<times> nat option \<times> nat option \<times> nat option \<times> nat option" where
  "sub_view st =
     (mq_connected st, mq_device_topic_namespace st, mq_command_topic_namespace st, mq_connection_generation st,
      mq_registration_generation st, mq_telemetry_generation st, mq_source_request_generation st,
      mq_device_ack_generation st)"

definition known :: "MqttClient \<Rightarrow> nat \<Rightarrow> string \<Rightarrow> bool" where
  "known st g f \<longleftrightarrow> (\<exists>qos. SubscribeCall g f qos MosqSuccess \<in> set (mq_effects st))"

text \<open>More was done, but nothing about subscriptions changed.\<close>

definition bystander :: "MqttClient \<Rightarrow> MqttClient \<Rightarrow> bool" where
  "bystander st st' \<longleftrightarrow> sub_view st' = sub_view st \<and> set (mq_effects st) \<subseteq> set (mq_effects st')"

lemma bystander_refl [intro!, simp]: "bystander st st"
  by (simp add: bystander_def)

lemma bystander_trans: "bystander st st' \<Longrightarrow> bystander st' st'' \<Longrightarrow> bystander st st''"
  by (auto simp: bystander_def)

lemma bystander_known: "bystander st st' \<Longrightarrow> known st g f \<Longrightarrow> known st' g f"
  by (auto simp: bystander_def known_def)

lemma mq_emit_frame [simp]:
  "sub_view (mq_emit e st) = sub_view st" "mq_effects (mq_emit e st) = mq_effects st @ [e]"
  by (simp_all add: mq_emit_def sub_view_def)

lemma bystander_emit [simp]: "bystander st (mq_emit e st)"
  by (auto simp: bystander_def)

lemma bystander_log [simp]: "bystander st (mq_log level m st)"
  by (simp add: mq_log_def)

lemma bystander_fields:
  "bystander st (st\<lparr>mq_disconnect_warnings := x1\<rparr>)" "bystander st (st\<lparr>mq_library_logs := x1\<rparr>)"
  "bystander st (st\<lparr>mq_business_warnings := x1\<rparr>)" "bystander st (st\<lparr>mq_handler := b, mq_max_payload_bytes := n\<rparr>)"
  "bystander st (st\<lparr>mq_publish_handler := b, mq_publish_capacity := n\<rparr>)"
  "bystander st (st\<lparr>mq_token_to_mid := tm, mq_mid_to_token := mt\<rparr>)"
  "bystander st (st\<lparr>mq_untracked_completion_mids := u\<rparr>)"
  "bystander st (forget_publications st)"
  by (simp_all add: bystander_def sub_view_def forget_publications_def)

lemmas bystander_step = bystander_fields bystander_trans [OF bystander_fields(1) bystander_log]
  bystander_trans [OF bystander_fields(2) bystander_log] bystander_trans [OF bystander_fields(3) bystander_log]

lemma bystander_warn [simp]:
  "bystander st (WarnDisconnected lib r st)" "bystander st (WarnLibraryEvent lib c m st)"
  "bystander st (WarnBusiness lib c m st)"
  by (auto simp: WarnDisconnected_def WarnLibraryEvent_def WarnBusiness_def bystander_step split: prod.split)

lemma bystander_complete_all: "bystander st (snd (complete_all lib cs st))"
proof (induction cs arbitrary: st)
  case (Cons c cs)
  show ?case using bystander_trans [OF bystander_emit Cons.IH] by (auto simp: Let_def)
qed simp

lemma bystander_HandlePublish: "bystander st (HandlePublish lib mid st)"
proof (cases "fmlookup (mq_mid_to_token st) mid")
  case (Some token)
  let ?st = "st\<lparr>mq_token_to_mid := fmdrop token (mq_token_to_mid st), mq_mid_to_token := fmdrop mid (mq_mid_to_token st)\<rparr>"
  let ?run = "complete_all lib [\<lparr>pc_token = token, pc_result = Inr ()\<rparr>] ?st"
  have "bystander st (snd ?run)"
    by (rule bystander_trans [OF bystander_fields(6) bystander_complete_all])
  moreover have "bystander st ?st" by (rule bystander_fields(6))
  ultimately show ?thesis
    by (auto simp: HandlePublish_def Some Let_def split: prod.split simp del: complete_all.simps
        intro: bystander_trans [OF _ bystander_warn(3)])
qed (auto simp: HandlePublish_def bystander_fields)

lemma bystander_Dispatch: "bystander st (Dispatch lib m t st)"
  by (auto simp: Dispatch_def Let_def intro: bystander_trans [OF bystander_emit bystander_warn(3)] split: option.split)

lemma bystander_publish:
  "bystander st (snd (PublishCommandSet lib token topic payload st))"
  "bystander st (snd (publish_untracked lib qos retain operation topic payload st))"
  by (auto simp: PublishCommandSet_def publish_untracked_def lib_call_def Let_def
      intro: bystander_trans [OF bystander_emit bystander_fields(6)] bystander_trans [OF bystander_emit bystander_fields(7)])

lemma bystander_HandleLog: "bystander st (HandleLog lib level st)"
  by (simp add: HandleLog_def)

lemma view_HandleDisconnect:
  "sub_view (HandleDisconnect lib r st) = sub_view (st\<lparr>mq_connected := False\<rparr>)"
  "set (mq_effects st) \<subseteq> set (mq_effects (HandleDisconnect lib r st))"
proof -
  let ?st = "forget_publications (st\<lparr>mq_connected := False\<rparr>)"
  have st: "sub_view ?st = sub_view (st\<lparr>mq_connected := False\<rparr>)" "mq_effects ?st = mq_effects st"
    by (simp_all add: sub_view_def forget_publications_def)
  have "bystander ?st (HandleDisconnect lib r st)"
    using bystander_complete_all [of ?st lib "lost_completions lib st"]
    by (auto simp: HandleDisconnect_def Let_def intro: bystander_trans [OF _ bystander_warn(1)] split: prod.split)
  then show "sub_view (HandleDisconnect lib r st) = sub_view (st\<lparr>mq_connected := False\<rparr>)"
    "set (mq_effects st) \<subseteq> set (mq_effects (HandleDisconnect lib r st))"
    using st by (simp_all add: bystander_def)
qed

subsection \<open>Threads and reconnections\<close>

text \<open>
  The holder of \<^verbatim>\<open>subscription_mutex\<close>: nobody, a thread within \<^verbatim>\<open>SubscribeConfigured\<close> with the
  subscriptions still to be made, or one within \<^verbatim>\<open>ReplayRetainedRegistrations\<close> after its calls.
\<close>

datatype subscriber = NotSubscribing | Subscribing subscription_plan "subscription list" | Replaying string

inductive mqtt_step :: "mosquitto_lib \<Rightarrow> MqttClient \<times> subscriber \<Rightarrow> MqttClient \<times> subscriber \<Rightarrow> bool" for lib where
  connected: "mqtt_step lib (st, s) (Connected st, s)"
| refused: "mqtt_step lib (st, s) (WarnDisconnected lib r (st\<lparr>mq_connected := False\<rparr>), s)"
| disconnected: "mqtt_step lib (st, s) (HandleDisconnect lib r st, s)"
| device_namespace: "mqtt_step lib (st, s) (set_device_namespace ns st, s)"
| command_namespace: "mqtt_step lib (st, s) (set_command_namespace ns st, s)"
| begin_subscribe: "mqtt_step lib (st, NotSubscribing)
    (st, Subscribing (subscribe_begin st) (planned_subscriptions (subscribe_begin st)))"
| subscribed: "subscribe_one lib x st = (Inr u, st') \<Longrightarrow>
    mqtt_step lib (st, Subscribing plan (x # xs)) (st', Subscribing plan xs)"
| subscribe_failed: "subscribe_one lib x st = (Inl e, st') \<Longrightarrow>
    mqtt_step lib (st, Subscribing plan (x # xs)) (st', NotSubscribing)"
| commit: "mqtt_step lib (st, Subscribing plan []) (subscribe_commit plan st, NotSubscribing)"
| replayed: "replay_calls lib ns st = (Inr u, st') \<Longrightarrow> mqtt_step lib (st, NotSubscribing) (st', Replaying ns)"
| replay_failed: "replay_calls lib ns st = (Inl e, st') \<Longrightarrow> mqtt_step lib (st, NotSubscribing) (st', NotSubscribing)"
| replay_commit: "mqtt_step lib (st, Replaying ns) (replay_commit ns st, NotSubscribing)"
| publish_command: "mqtt_step lib (st, s) (snd (PublishCommandSet lib token topic payload st), s)"
| publish_other: "mqtt_step lib (st, s) (snd (publish_untracked lib qos retain operation topic payload st), s)"
| published: "mqtt_step lib (st, s) (HandlePublish lib mid st, s)"
| message: "mqtt_step lib (st, s) (Dispatch lib m t st, s)"
| library_log: "mqtt_step lib (st, s) (HandleLog lib level st, s)"
| warning: "mqtt_step lib (st, s) (WarnBusiness lib category text_of st, s)"

inductive mqtt_reachable :: "mosquitto_lib \<Rightarrow> MqttClient \<times> subscriber \<Rightarrow> bool" for lib where
  start: "mqtt_reachable lib (MqttClient_new, NotSubscribing)"
| step: "mqtt_reachable lib c \<Longrightarrow> mqtt_step lib c c' \<Longrightarrow> mqtt_reachable lib c'"

text \<open>
  A recorded generation never lies in the future, and if it is the current one, all filters of that group were
  subscribed to on the current connection. The record of the registrations alone would not do: a replay
  that is overtaken by a reconnection records the new connection for a subscription made on the old one.
\<close>

definition group_ok :: "MqttClient \<Rightarrow> nat option \<Rightarrow> subscription list \<Rightarrow> bool" where
  "group_ok st recorded subs \<longleftrightarrow> (\<forall>g. recorded = Some g \<longrightarrow> g \<le> mq_connection_generation st \<and>
     (g = mq_connection_generation st \<longrightarrow> (\<forall>x \<in> set subs. known st g (sb_filter x))))"

definition client_ok :: "MqttClient \<Rightarrow> bool" where
  "client_ok st \<longleftrightarrow>
     group_ok st (mq_telemetry_generation st) (device_subscriptions (mq_device_topic_namespace st)) \<and>
     group_ok st (mq_source_request_generation st) (command_subscriptions (mq_command_topic_namespace st))"

definition on_the_way :: "MqttClient \<Rightarrow> nat \<Rightarrow> subscription list \<Rightarrow> subscription list \<Rightarrow> bool" where
  "on_the_way st g subs rest \<longleftrightarrow> (\<forall>x \<in> set subs. known st g (sb_filter x) \<or> x \<in> set rest)"

fun subscriber_ok :: "MqttClient \<Rightarrow> subscriber \<Rightarrow> bool" where
  "subscriber_ok st (Subscribing plan rest) \<longleftrightarrow>
     sp_generation plan \<le> mq_connection_generation st \<and>
     (sp_generation plan = mq_connection_generation st \<longrightarrow>
       (sp_device_namespace plan \<noteq> [] \<longrightarrow>
          on_the_way st (sp_generation plan) (device_subscriptions (sp_device_namespace plan)) rest) \<and>
       (sp_command_namespace plan \<noteq> [] \<longrightarrow>
          on_the_way st (sp_generation plan) (command_subscriptions (sp_command_namespace plan)) rest))"
| "subscriber_ok st _ = True"

text \<open>Both survive whatever keeps the generation, the namespaces and the two records, and loses no effect.\<close>

lemma ok_mono:
  assumes "set (mq_effects st) \<subseteq> set (mq_effects st')" "mq_connection_generation st' = mq_connection_generation st"
  shows "group_ok st recorded subs \<Longrightarrow> group_ok st' recorded subs" "subscriber_ok st s \<Longrightarrow> subscriber_ok st' s"
proof -
  have known: "known st g f \<Longrightarrow> known st' g f" for g f using assms(1) by (auto simp: known_def)
  show "group_ok st recorded subs \<Longrightarrow> group_ok st' recorded subs"
    using known by (auto simp: group_ok_def assms(2))
  show "subscriber_ok st s \<Longrightarrow> subscriber_ok st' s"
    using known by (cases s) (auto simp: on_the_way_def assms(2))
qed

lemma client_ok_mono:
  assumes "set (mq_effects st) \<subseteq> set (mq_effects st')" "mq_connection_generation st' = mq_connection_generation st"
    "mq_telemetry_generation st' = mq_telemetry_generation st" "mq_source_request_generation st' = mq_source_request_generation st"
    "mq_device_topic_namespace st' = mq_device_topic_namespace st" "mq_command_topic_namespace st' = mq_command_topic_namespace st"
  shows "client_ok st \<Longrightarrow> client_ok st'"
  using ok_mono(1) [OF assms(1,2)] by (simp add: client_ok_def assms(3-6))

lemma ok_bystander:
  assumes "bystander st st'"
  shows "client_ok st \<Longrightarrow> client_ok st'" "subscriber_ok st s \<Longrightarrow> subscriber_ok st' s"
  using assms ok_mono(2) [of st st' s] by (auto simp: bystander_def sub_view_def intro: client_ok_mono)

lemma ok_next_generation:
  assumes "mq_connection_generation st' = Suc (mq_connection_generation st)"
    "mq_telemetry_generation st' = mq_telemetry_generation st" "mq_source_request_generation st' = mq_source_request_generation st"
  shows "client_ok st \<Longrightarrow> client_ok st'" "subscriber_ok st s \<Longrightarrow> subscriber_ok st' s"
  using assms by (auto simp: client_ok_def group_ok_def) (cases s; auto simp: assms(1))

lemma subscribe_one_cases:
  "subscribe_one lib x st = (Inr u, st') \<longleftrightarrow> ml_result lib (mq_count st) = MosqSuccess \<and>
     st' = mq_emit (SubscribeCall (mq_connection_generation st) (sb_filter x) (sb_qos x) MosqSuccess) st"
  "subscribe_one lib x st = (Inl e, st') \<Longrightarrow> bystander st st'"
  by (auto simp: subscribe_one_def lib_call_def Let_def split: if_splits)

lemma mq_emit_fields [simp]:
  "mq_connection_generation (mq_emit e st) = mq_connection_generation st"
  by (simp add: mq_emit_def)

lemma subscriber_ok_call:
  assumes "subscribe_one lib x st = (Inr u, st')" "subscriber_ok st (Subscribing plan (x # xs))"
  shows "subscriber_ok st' (Subscribing plan xs)"
proof -
  have st': "st' = mq_emit (SubscribeCall (mq_connection_generation st) (sb_filter x) (sb_qos x) MosqSuccess) st"
    using assms(1) by (simp add: subscribe_one_cases)
  have "known st' (mq_connection_generation st) (sb_filter x)" by (auto simp: st' known_def)
  moreover have "known st g f \<Longrightarrow> known st' g f" for g f by (auto simp: st' known_def)
  ultimately show ?thesis using assms(2) by (auto simp: st' on_the_way_def)
qed

lemma begin_ok: "client_ok st \<Longrightarrow>
    subscriber_ok st (Subscribing (subscribe_begin st) (planned_subscriptions (subscribe_begin st)))"
  by (auto simp: client_ok_def group_ok_def subscribe_begin_def planned_subscriptions_def Let_def on_the_way_def)

lemma record_ok:
  assumes "client_ok st" "subscriber_ok st (Subscribing plan [])" "mq_connection_generation st = sp_generation plan"
  shows "mq_device_topic_namespace st = sp_device_namespace plan \<Longrightarrow> sp_device_namespace plan \<noteq> [] \<Longrightarrow>
      client_ok (st\<lparr>mq_registration_generation := g, mq_telemetry_generation := Some (sp_generation plan)\<rparr>)"
    "mq_command_topic_namespace st = sp_command_namespace plan \<Longrightarrow> sp_command_namespace plan \<noteq> [] \<Longrightarrow>
      client_ok (st\<lparr>mq_source_request_generation := Some (sp_generation plan), mq_device_ack_generation := g\<rparr>)"
  using assms by (simp_all add: client_ok_def group_ok_def on_the_way_def known_def)

lemma commit_ok:
  assumes "client_ok st" "subscriber_ok st (Subscribing plan [])"
  shows "client_ok (subscribe_commit plan st)"
proof (cases "mq_connected st \<and> mq_connection_generation st = sp_generation plan")
  case True
  define g where "g = Some (sp_generation plan)"
  define st1 where "st1 = (if mq_device_topic_namespace st = sp_device_namespace plan \<and> sp_device_namespace plan \<noteq> []
      then st\<lparr>mq_registration_generation := g, mq_telemetry_generation := g\<rparr> else st)"
  define st2 where "st2 = (if mq_command_topic_namespace st1 = sp_command_namespace plan \<and> sp_command_namespace plan \<noteq> []
      then st1\<lparr>mq_source_request_generation := g, mq_device_ack_generation := g\<rparr> else st1)"
  have st1: "client_ok st1" "mq_connection_generation st1 = mq_connection_generation st" "mq_effects st1 = mq_effects st"
    using record_ok(1) [OF assms] assms(1) True by (simp_all add: st1_def g_def)
  have "subscriber_ok st1 (Subscribing plan [])" by (rule ok_mono(2) [OF _ st1(2) assms(2)]) (simp add: st1(3))
  then have "client_ok st2" using record_ok(2) [OF st1(1)] st1(1,2) True by (simp add: st2_def g_def)
  then have "client_ok (mq_log level m st2)" for level m using ok_bystander(1) [OF bystander_log] by blast
  moreover have "subscribe_commit plan st =
      (if sp_devices plan \<or> sp_commands plan then mq_log kInfo msg_mq_subscribed st2 else st2)"
    unfolding subscribe_commit_def Let_def if_P [OF True] st2_def st1_def g_def ..
  ultimately show ?thesis using \<open>client_ok st2\<close> by simp
next
  case False
  show ?thesis unfolding subscribe_commit_def if_not_P [OF False] by (rule assms(1))
qed

lemma replay_calls_bystander: "bystander st (snd (replay_calls lib ns st))"
  by (auto simp: replay_calls_def lib_call_def subscribe_one_def Let_def intro: bystander_trans [OF bystander_emit bystander_emit])

lemma Connected_ok:
  assumes "client_ok st" "subscriber_ok st s"
  shows "client_ok (Connected st) \<and> subscriber_ok (Connected st) s"
proof (cases "mq_connected st")
  case True
  then show ?thesis using assms ok_bystander [OF bystander_log [of st]] by (simp add: Connected_def)
next
  case False
  let ?st = "st\<lparr>mq_connected := True, mq_connection_generation := Suc (mq_connection_generation st)\<rparr>"
  have "client_ok ?st" "subscriber_ok ?st s" using assms ok_next_generation [of ?st st] by simp_all
  then show ?thesis using False ok_bystander [OF bystander_log [of ?st]] by (simp add: Connected_def)
qed

lemma namespace_ok:
  assumes "client_ok st"
  shows "client_ok (set_device_namespace ns st)" "client_ok (set_command_namespace ns st)"
    "client_ok (replay_commit ns st)" "client_ok (st\<lparr>mq_connected := b\<rparr>)"
  using assms
  by (auto simp: set_device_namespace_def set_command_namespace_def replay_commit_def client_ok_def group_ok_def known_def)

lemma namespace_subscriber_ok:
  assumes "subscriber_ok st s"
  shows "subscriber_ok (set_device_namespace ns st) s" "subscriber_ok (set_command_namespace ns st) s"
    "subscriber_ok (replay_commit ns st) s" "subscriber_ok (st\<lparr>mq_connected := b\<rparr>) s"
proof -
  have view: "set (mq_effects st) \<subseteq> set (mq_effects st') \<and> mq_connection_generation st' = mq_connection_generation st"
    if "st' \<in> {set_device_namespace ns st, set_command_namespace ns st, replay_commit ns st, st\<lparr>mq_connected := b\<rparr>}" for st'
    using that by (auto simp: set_device_namespace_def set_command_namespace_def replay_commit_def)
  show "subscriber_ok (set_device_namespace ns st) s" "subscriber_ok (set_command_namespace ns st) s"
    "subscriber_ok (replay_commit ns st) s" "subscriber_ok (st\<lparr>mq_connected := b\<rparr>) s"
    using view by (blast intro: ok_mono(2) [OF _ _ assms])+
qed

lemma HandleDisconnect_ok:
  assumes "client_ok st" "subscriber_ok st s"
  shows "client_ok (HandleDisconnect lib r st) \<and> subscriber_ok (HandleDisconnect lib r st) s"
proof -
  have "bystander (st\<lparr>mq_connected := False\<rparr>) (HandleDisconnect lib r st)"
    by (simp add: bystander_def view_HandleDisconnect)
  then show ?thesis using ok_bystander namespace_ok(4) [OF assms(1)] namespace_subscriber_ok(4) [OF assms(2)] by blast
qed

lemma bystander_ok:
  assumes "bystander st st'" "client_ok st" "subscriber_ok st s"
  shows "client_ok st' \<and> subscriber_ok st' s"
  using ok_bystander [OF assms(1)] assms(2,3) by blast

lemma mqtt_step_ok:
  assumes "mqtt_step lib (st, s) (st', s')" "client_ok st" "subscriber_ok st s"
  shows "client_ok st' \<and> subscriber_ok st' s'"
  using assms
proof (induction "(st, s)" "(st', s')" rule: mqtt_step.induct)
  case connected then show ?case using Connected_ok by blast
next
  case (refused r)
  then show ?case using bystander_ok [OF bystander_warn(1) namespace_ok(4) namespace_subscriber_ok(4)] by blast
next
  case disconnected then show ?case using HandleDisconnect_ok by blast
next
  case device_namespace then show ?case using namespace_ok(1) namespace_subscriber_ok(1) by blast
next
  case command_namespace then show ?case using namespace_ok(2) namespace_subscriber_ok(2) by blast
next
  case begin_subscribe then show ?case using begin_ok by blast
next
  case (subscribed x u plan xs)
  then have "bystander st st'" by (simp add: subscribe_one_cases(1))
  then show ?case using subscriber_ok_call [OF subscribed(1)] ok_bystander(1) subscribed by blast
next
  case subscribe_failed then show ?case using subscribe_one_cases(2) ok_bystander(1) by (metis subscriber_ok.simps(2))
next
  case commit then show ?case using commit_ok subscriber_ok.simps(2) by blast
next
  case (replayed ns u)
  then show ?case using replay_calls_bystander [of st lib ns] ok_bystander(1) by (metis snd_conv subscriber_ok.simps(3))
next
  case (replay_failed ns e)
  then show ?case using replay_calls_bystander [of st lib ns] ok_bystander(1) by (metis snd_conv subscriber_ok.simps(2))
next
  case replay_commit then show ?case using namespace_ok(3) subscriber_ok.simps(2) by blast
next
  case publish_command then show ?case using bystander_ok [OF bystander_publish(1)] by blast
next
  case publish_other then show ?case using bystander_ok [OF bystander_publish(2)] by blast
next
  case published then show ?case using bystander_ok [OF bystander_HandlePublish] by blast
next
  case message then show ?case using bystander_ok [OF bystander_Dispatch] by blast
next
  case library_log then show ?case using bystander_ok [OF bystander_HandleLog] by blast
next
  case warning then show ?case using bystander_ok [OF bystander_warn(3)] by blast
qed

lemma mqtt_reachable_ok:
  assumes "mqtt_reachable lib c"
  shows "client_ok (fst c) \<and> subscriber_ok (fst c) (snd c)"
  using assms
proof induction
  case start
  show ?case by (simp add: client_ok_def group_ok_def MqttClient_new_def)
next
  case (step c c')
  then show ?case using mqtt_step_ok [of lib "fst c" "snd c" "fst c'" "snd c'"] by simp
qed

text \<open>
  C11. Subscriptions reported as ready are current: whatever the order in which connections come and go while
  other threads change the namespaces, subscribe or replay registrations, when
  \<^verbatim>\<open>BusinessSubscriptionGeneration\<close> returns a generation, the client is connected, it is the generation of this
  connection, and every filter of both configured namespaces was accepted by the library on this very connection.
\<close>

theorem subscriptions_current:
  assumes "mqtt_reachable lib (st, s)" "BusinessSubscriptionGeneration st = Some g"
  shows "mq_connected st \<and> g = mq_connection_generation st \<and>
    (mq_device_topic_namespace st \<noteq> [] \<longrightarrow>
       (\<forall>x \<in> set (device_subscriptions (mq_device_topic_namespace st)).
          \<exists>qos. SubscribeCall g (sb_filter x) qos MosqSuccess \<in> set (mq_effects st))) \<and>
    (mq_command_topic_namespace st \<noteq> [] \<longrightarrow>
       (\<forall>x \<in> set (command_subscriptions (mq_command_topic_namespace st)).
          \<exists>qos. SubscribeCall g (sb_filter x) qos MosqSuccess \<in> set (mq_effects st)))"
proof -
  have "client_ok st" using mqtt_reachable_ok [OF assms(1)] by simp
  then show ?thesis using assms(2)
    by (auto simp: BusinessSubscriptionGeneration_def client_ok_def group_ok_def known_def Let_def split: if_splits)
qed


definition quiet_lib :: mosquitto_lib where
  "quiet_lib =
     \<lparr>ml_result = (\<lambda>_. MosqSuccess), ml_mid = int, ml_code = (\<lambda>_. 0), ml_strerror = (\<lambda>_. []), ml_steady_now = int,
      ml_handler_returns = (\<lambda>_. True), ml_order = (\<lambda>_ xs. xs), ml_log_err = 8, ml_log_warning = 4\<rparr>"

lemma mqtt_reachable_subscribe:
  assumes "mqtt_reachable lib (st, Subscribing plan xs)" "subscribe_all lib xs st = (Inr u, st')"
  shows "mqtt_reachable lib (st', Subscribing plan [])"
  using assms
proof (induction xs arbitrary: st)
  case (Cons x xs)
  then show ?case by (auto intro: mqtt_reachable.step mqtt_step.subscribed split: prod.splits sum.splits)
qed simp

text \<open>A whole \<^verbatim>\<open>SubscribeConfigured\<close> is a run of the steps.\<close>

lemma mqtt_reachable_SubscribeConfigured:
  assumes "mqtt_reachable lib (st, NotSubscribing)" "SubscribeConfigured lib st = (Inr u, st')"
  shows "mqtt_reachable lib (st', NotSubscribing)"
proof -
  obtain v st1 where run: "subscribe_all lib (planned_subscriptions (subscribe_begin st)) st = (Inr v, st1)"
    "st' = subscribe_commit (subscribe_begin st) st1"
    using assms(2) by (auto simp: SubscribeConfigured_def Let_def split: prod.splits sum.splits)
  show ?thesis unfolding run(2)
    by (rule mqtt_reachable.step [OF mqtt_reachable_subscribe [OF mqtt_reachable.step [OF assms(1) mqtt_step.begin_subscribe] run(1)]
          mqtt_step.commit])
qed

definition ready_client :: MqttClient where
  "ready_client =
     snd (SubscribeConfigured quiet_lib (set_command_namespace ''c'' (set_device_namespace ''d'' (Connected MqttClient_new))))"

lemmas subscription_run = SubscribeConfigured_def subscribe_begin_def planned_subscriptions_def device_subscriptions_def
  command_subscriptions_def subscribe_one_def lib_call_def mq_emit_def mq_log_def subscribe_commit_def Connected_def
  set_device_namespace_def set_command_namespace_def MqttClient_new_def quiet_lib_def

theorem subscriptions_current_witness:
  "BusinessSubscriptionGeneration ready_client = Some 1 \<and> mq_connected ready_client \<and>
   (\<exists>qos. SubscribeCall 1 ''c/+/control/ack'' qos MosqSuccess \<in> set (mq_effects ready_client))"
proof -
  have "mqtt_reachable quiet_lib (set_command_namespace ''c'' (set_device_namespace ''d'' (Connected MqttClient_new)), NotSubscribing)"
    by (rule mqtt_reachable.step [OF mqtt_reachable.step [OF mqtt_reachable.step [OF mqtt_reachable.start]]])
      (rule mqtt_step.connected mqtt_step.device_namespace mqtt_step.command_namespace)+
  moreover have "fst (SubscribeConfigured quiet_lib
      (set_command_namespace ''c'' (set_device_namespace ''d'' (Connected MqttClient_new)))) = Inr ()"
    by (simp add: subscription_run Let_def)
  ultimately have reached: "mqtt_reachable quiet_lib (ready_client, NotSubscribing)"
    unfolding ready_client_def by (metis mqtt_reachable_SubscribeConfigured prod.collapse)
  have ready: "BusinessSubscriptionGeneration ready_client = Some 1" "mq_command_topic_namespace ready_client = ''c''"
    by (simp_all add: ready_client_def BusinessSubscriptionGeneration_def subscription_run Let_def)
  note current = subscriptions_current [OF reached ready(1)]
  then have "\<forall>x \<in> set (command_subscriptions ''c''). \<exists>qos. SubscribeCall 1 (sb_filter x) qos MosqSuccess \<in> set (mq_effects ready_client)"
    unfolding ready(2) by blast
  then have "\<exists>qos. SubscribeCall 1 ''c/+/control/ack'' qos MosqSuccess \<in> set (mq_effects ready_client)"
    by (simp add: command_subscriptions_def)
  then show ?thesis using current ready(1) by blast
qed

end
