(* ===== verification/Mqtt_Publishing.thy ===== *)
theory Mqtt_Publishing
  imports Mqtt_Client_Laws
begin

text \<open>
  The bookkeeping of command publications by the MQTT client: the two tables of the publications in flight are
  inverse to each other and bounded, and every publication the library accepted is reported to the command service
  exactly once, by the acknowledgement of the broker or by the loss of the connection.
\<close>

subsection \<open>Accepted and completed publications\<close>

fun is_accepted :: "64 word \<Rightarrow> mqtt_effect \<Rightarrow> bool" where
  "is_accepted t (PublishCall (CommandPublication token) topic payload qos retain result) \<longleftrightarrow>
     token = t \<and> result = MosqSuccess"
| "is_accepted t _ = False"

fun is_completed :: "64 word \<Rightarrow> mqtt_effect \<Rightarrow> bool" where
  "is_completed t (Completion c) \<longleftrightarrow> pc_token c = t"
| "is_completed t _ = False"

definition accepted :: "64 word \<Rightarrow> MqttClient \<Rightarrow> nat" where
  "accepted t st = length (filter (is_accepted t) (mq_effects st))"

definition completed :: "64 word \<Rightarrow> MqttClient \<Rightarrow> nat" where
  "completed t st = length (filter (is_completed t) (mq_effects st))"

definition inverse_maps :: "('a, 'b) fmap \<Rightarrow> ('b, 'a) fmap \<Rightarrow> bool" where
  "inverse_maps m n \<longleftrightarrow> (\<forall>x y. fmlookup m x = Some y \<longleftrightarrow> fmlookup n y = Some x)"

definition publications_ok :: "nat \<Rightarrow> MqttClient \<Rightarrow> bool" where
  "publications_ok capacity st \<longleftrightarrow>
     mq_publish_handler st \<and> mq_publish_capacity st = capacity \<and>
     fmsize (mq_token_to_mid st) \<le> capacity \<and> inverse_maps (mq_token_to_mid st) (mq_mid_to_token st) \<and>
     (\<forall>t. accepted t st = completed t st + (if t |\<in>| fmdom (mq_token_to_mid st) then 1 else 0))"

text \<open>The books of publications stay as they are.\<close>

definition aside :: "MqttClient \<Rightarrow> MqttClient \<Rightarrow> bool" where
  "aside st st' \<longleftrightarrow>
     mq_publish_handler st' = mq_publish_handler st \<and> mq_publish_capacity st' = mq_publish_capacity st \<and>
     mq_token_to_mid st' = mq_token_to_mid st \<and> mq_mid_to_token st' = mq_mid_to_token st \<and>
     (\<forall>t. accepted t st' = accepted t st \<and> completed t st' = completed t st)"

lemma aside_ok: "aside st st' \<Longrightarrow> publications_ok capacity st \<Longrightarrow> publications_ok capacity st'"
  by (simp add: aside_def publications_ok_def)

lemma aside_refl [simp]: "aside st st"
  by (simp add: aside_def)

lemma aside_trans: "aside st st' \<Longrightarrow> aside st' st'' \<Longrightarrow> aside st st''"
  by (simp add: aside_def)

lemma count_emit [simp]:
  "accepted t (mq_emit e st) = accepted t st + (if is_accepted t e then 1 else 0)"
  "completed t (mq_emit e st) = completed t st + (if is_completed t e then 1 else 0)"
  by (simp_all add: accepted_def completed_def mq_emit_def)

lemma aside_emit: "(\<And>t. \<not> is_accepted t e \<and> \<not> is_completed t e) \<Longrightarrow> aside st (mq_emit e st)"
  by (simp add: aside_def) (simp add: mq_emit_def)

lemma aside_log [simp]: "aside st (mq_log level m st)"
  by (simp add: mq_log_def aside_emit)

lemma aside_fields [simp]:
  "aside st (st\<lparr>mq_disconnect_warnings := l\<rparr>)" "aside st (st\<lparr>mq_library_logs := l\<rparr>)"
  "aside st (st\<lparr>mq_business_warnings := l\<rparr>)" "aside st (st\<lparr>mq_connected := b\<rparr>)"
  "aside st (st\<lparr>mq_connected := b, mq_connection_generation := n\<rparr>)"
  "aside st (st\<lparr>mq_registration_generation := r\<rparr>)"
  "aside st (st\<lparr>mq_registration_generation := r, mq_telemetry_generation := t\<rparr>)"
  "aside st (st\<lparr>mq_source_request_generation := r, mq_device_ack_generation := t\<rparr>)"
  "aside st (st\<lparr>mq_registration_generation := r, mq_telemetry_generation := t, mq_device_topic_namespace := ns\<rparr>)"
  "aside st (st\<lparr>mq_source_request_generation := r, mq_device_ack_generation := t, mq_command_topic_namespace := ns\<rparr>)"
  "aside st (st\<lparr>mq_untracked_completion_mids := u\<rparr>)"
  by (simp_all add: aside_def accepted_def completed_def)

lemmas aside_logged = aside_trans [OF _ aside_log]

lemma aside_warn [simp]:
  "aside st (WarnDisconnected lib r st)" "aside st (WarnLibraryEvent lib c m st)" "aside st (WarnBusiness lib c m st)"
  by (auto simp: WarnDisconnected_def WarnLibraryEvent_def WarnBusiness_def intro: aside_logged split: prod.split)

lemma aside_connection:
  "aside st (Connected st)" "aside st (WarnDisconnected lib r (st\<lparr>mq_connected := False\<rparr>))"
  "aside st (set_device_namespace ns st)" "aside st (set_command_namespace ns st)" "aside st (replay_commit ns st)"
  by (auto simp: Connected_def set_device_namespace_def set_command_namespace_def replay_commit_def
      intro: aside_logged aside_trans [OF aside_fields(4) aside_warn(1)])

lemma aside_commit: "aside st (subscribe_commit plan st)"
  unfolding subscribe_commit_def Let_def
  by (auto intro!: aside_logged intro: aside_trans [OF aside_fields(7) aside_fields(8)])

lemma aside_calls:
  "aside st (snd (subscribe_one lib x st))" "aside st (snd (replay_calls lib ns st))"
  "aside st (snd (publish_untracked lib qos retain operation topic payload st))"
  by (auto simp: subscribe_one_def replay_calls_def publish_untracked_def lib_call_def Let_def
      intro!: aside_emit aside_trans [OF aside_emit aside_emit] aside_trans [OF aside_emit aside_fields(11)])

lemma aside_Dispatch: "aside st (Dispatch lib m t st)"
  by (auto simp: Dispatch_def Let_def intro!: aside_emit aside_trans [OF aside_emit aside_warn(3)] split: option.split)

lemma aside_HandleLog: "aside st (HandleLog lib level st)"
  by (simp add: HandleLog_def)

subsection \<open>What the operations on publications do to the books\<close>

lemma accepted_fields [simp]:
  "accepted t (st\<lparr>mq_token_to_mid := m, mq_mid_to_token := n\<rparr>) = accepted t st"
  "completed t (st\<lparr>mq_token_to_mid := m, mq_mid_to_token := n\<rparr>) = completed t st"
  by (simp_all add: accepted_def completed_def)

lemma inverse_maps_upd:
  assumes "inverse_maps m n" "fmlookup m x = None" "fmlookup n y = None"
  shows "inverse_maps (fmupd x y m) (fmupd y x n)"
  using assms unfolding inverse_maps_def by (metis fmupd_lookup option.distinct(1) option.inject)

lemma inverse_maps_drop:
  assumes "inverse_maps m n" "fmlookup n y = Some x"
  shows "inverse_maps (fmdrop x m) (fmdrop y n)"
  using assms unfolding inverse_maps_def by (metis fmlookup_drop option.distinct(1) option.inject)

lemma PublishCommandSet_ok:
  assumes "publications_ok capacity st" "fmlookup (mq_mid_to_token st) (ml_mid lib (mq_count st)) = None"
  shows "publications_ok capacity (snd (PublishCommandSet lib token topic payload st))"
proof -
  let ?mid = "ml_mid lib (mq_count st)"
  let ?call = "\<lambda>r. mq_emit (PublishCall (CommandPublication token) topic payload 2 False r) st"
  let ?st = "(?call MosqSuccess)\<lparr>mq_token_to_mid := fmupd token ?mid (mq_token_to_mid st),
      mq_mid_to_token := fmupd ?mid token (mq_mid_to_token st)\<rparr>"
  have refused: "publications_ok capacity (?call r)" if "r \<noteq> MosqSuccess" for r
    using that by (intro aside_ok [OF aside_emit assms(1)]) simp
  have booked: "publications_ok capacity ?st" if "fmlookup (mq_token_to_mid st) token = None"
    "fmsize (mq_token_to_mid st) < mq_publish_capacity st"
    using assms that inverse_maps_upd [of "mq_token_to_mid st" "mq_mid_to_token st" token ?mid]
    by (auto simp: publications_ok_def fmsize_upd fmlookup_dom_iff mq_emit_def accepted_def completed_def)
  have fields: "mq_token_to_mid (?call r) = mq_token_to_mid st" "mq_mid_to_token (?call r) = mq_mid_to_token st" for r
    by (simp_all add: mq_emit_def)
  show ?thesis using refused booked assms
    by (auto simp: PublishCommandSet_def lib_call_def Let_def emplace_def fields)
qed

lemma complete_all_returns:
  assumes "\<And>n. ml_handler_returns lib n"
  shows "fst (complete_all lib cs st)"
    "completed t (snd (complete_all lib cs st)) = completed t st + length (filter (\<lambda>c. pc_token c = t) cs)"
    "accepted t (snd (complete_all lib cs st)) = accepted t st"
    "mq_publish_handler (snd (complete_all lib cs st)) = mq_publish_handler st"
    "mq_publish_capacity (snd (complete_all lib cs st)) = mq_publish_capacity st"
    "mq_token_to_mid (snd (complete_all lib cs st)) = mq_token_to_mid st"
    "mq_mid_to_token (snd (complete_all lib cs st)) = mq_mid_to_token st"
  by (induction cs arbitrary: st) (simp_all add: assms Let_def, simp_all add: mq_emit_def)

lemma HandlePublish_ok:
  assumes "publications_ok capacity st" "\<And>n. ml_handler_returns lib n"
  shows "publications_ok capacity (HandlePublish lib mid st)"
proof (cases "fmlookup (mq_mid_to_token st) mid")
  case None
  then show ?thesis using aside_ok [OF _ assms(1)] by (simp add: HandlePublish_def)
next
  case (Some token)
  let ?st = "st\<lparr>mq_token_to_mid := fmdrop token (mq_token_to_mid st), mq_mid_to_token := fmdrop mid (mq_mid_to_token st)\<rparr>"
  let ?run = "complete_all lib [\<lparr>pc_token = token, pc_result = Inr ()\<rparr>] ?st"
  have inv: "inverse_maps (mq_token_to_mid st) (mq_mid_to_token st)"
    and counts: "\<And>t. accepted t st = completed t st + (if t |\<in>| fmdom (mq_token_to_mid st) then 1 else 0)"
    and bound: "mq_publish_handler st" "mq_publish_capacity st = capacity" "fmsize (mq_token_to_mid st) \<le> capacity"
    using assms(1) by (auto simp: publications_ok_def)
  have "token |\<in>| fmdom (mq_token_to_mid st)"
    using inv Some by (auto simp: inverse_maps_def fmlookup_dom_iff)
  then have "publications_ok capacity (snd ?run)"
    using inverse_maps_drop [OF inv Some] counts bound fmsize_drop_le [of token "mq_token_to_mid st"]
    by (auto simp: publications_ok_def complete_all_returns [OF assms(2)] simp del: complete_all.simps)
  moreover have "HandlePublish lib mid st = snd ?run"
    using complete_all_returns(1) [OF assms(2)] bound(1)
    by (simp add: HandlePublish_def Some Let_def split: prod.split del: complete_all.simps) (metis fst_conv snd_conv)
  ultimately show ?thesis by simp
qed

lemma count_one:
  assumes "mset (f xs) = mset (xs :: 'a list)" "distinct xs"
  shows "length (filter (\<lambda>x. x = t) (f xs)) = (if t \<in> set xs then 1 else 0)"
proof -
  have "length (filter (\<lambda>x. x = t) (f xs)) = count (mset (f xs)) t"
    by (simp add: count_mset count_list_eq_length_filter) (metis (full_types))
  then show ?thesis using assms distinct_count_atmost_1 [of xs] by (simp add: assms(1))
qed

lemma HandleDisconnect_publications_ok:
  assumes "publications_ok capacity st" "\<And>n. ml_handler_returns lib n" "\<And>n xs. mset (ml_order lib n xs) = mset xs"
  shows "publications_ok capacity (HandleDisconnect lib r st)"
proof -
  let ?st = "forget_publications (st\<lparr>mq_connected := False\<rparr>)"
  let ?cs = "lost_completions lib st"
  have lost: "length (filter (\<lambda>c. pc_token c = t) ?cs) = (if t |\<in>| fmdom (mq_token_to_mid st) then 1 else 0)" for t
    using count_one [of "ml_order lib (mq_count st)", OF assms(3), of "sorted_list_of_fset (fmdom (mq_token_to_mid st))" t]
    by (simp add: lost_completions_def filter_map comp_def sorted_list_of_fset.rep_eq)
  have "publications_ok capacity (snd (complete_all lib ?cs ?st))"
    using assms(1) lost
    by (simp add: publications_ok_def complete_all_returns [OF assms(2)] inverse_maps_def)
       (simp add: forget_publications_def accepted_def completed_def)
  moreover have "aside (snd (complete_all lib ?cs ?st)) (HandleDisconnect lib r st)"
    using assms(1) by (auto simp: HandleDisconnect_def Let_def publications_ok_def split: prod.split)
  ultimately show ?thesis using aside_ok by blast
qed

subsection \<open>Runs\<close>

text \<open>
  Runs of the steps of the client after \<^verbatim>\<open>ConfigureCommandPublishing\<close>. The library does not hand out
  the identifier of a message that is still in flight.
\<close>

inductive publishing :: "mosquitto_lib \<Rightarrow> nat \<Rightarrow> MqttClient \<times> subscriber \<Rightarrow> bool" for lib capacity where
  configured: "ConfigureCommandPublishing True capacity MqttClient_new = (Inr u, st) \<Longrightarrow>
    publishing lib capacity (st, NotSubscribing)"
| step: "publishing lib capacity (st, s) \<Longrightarrow> mqtt_step lib (st, s) c' \<Longrightarrow>
    fmlookup (mq_mid_to_token st) (ml_mid lib (mq_count st)) = None \<Longrightarrow> publishing lib capacity c'"

lemma mqtt_step_publications_ok:
  assumes "mqtt_step lib (st, s) (st', s')" "publications_ok capacity st"
    "fmlookup (mq_mid_to_token st) (ml_mid lib (mq_count st)) = None"
    "\<And>n. ml_handler_returns lib n" "\<And>n xs. mset (ml_order lib n xs) = mset xs"
  shows "publications_ok capacity st'"
proof -
  note keep = aside_ok [OF _ assms(2)]
  show ?thesis using assms(1)
  proof cases
    case disconnected then show ?thesis using HandleDisconnect_publications_ok assms by blast
  next
    case publish_command then show ?thesis using PublishCommandSet_ok assms by blast
  next
    case published then show ?thesis using HandlePublish_ok assms by blast
  next
    case (subscribed x)
    then show ?thesis using keep [OF aside_calls(1), of lib x] by simp
  next
    case (subscribe_failed x)
    then show ?thesis using keep [OF aside_calls(1), of lib x] by simp
  next
    case (replayed ns)
    then show ?thesis using keep [OF aside_calls(2), of lib ns] by simp
  next
    case (replay_failed ns)
    then show ?thesis using keep [OF aside_calls(2), of lib ns] by simp
  qed (simp_all add: keep aside_connection aside_commit aside_calls aside_Dispatch aside_HandleLog)
qed


lemma publishing_ok:
  assumes "publishing lib capacity c" "\<And>n. ml_handler_returns lib n" "\<And>n xs. mset (ml_order lib n xs) = mset xs"
  shows "publications_ok capacity (fst c)"
  using assms(1)
proof induction
  case (configured u st)
  then show ?case
    by (auto simp: ConfigureCommandPublishing_def forget_publications_def MqttClient_new_def publications_ok_def
        inverse_maps_def accepted_def completed_def split: if_splits)
next
  case (step st s c')
  then show ?case using mqtt_step_publications_ok [of lib st s "fst c'" "snd c'"] assms(2,3) by simp
qed

text \<open>
  C16. Every publication of a command is reported exactly once: along every run, for every token the number of
  publications the library accepted equals the number of completions reported, plus one while it is in flight;
  the tables of tokens and of message identifiers are inverse to each other and never exceed the
  configured capacity. The library is assumed not to reuse an identifier in flight, and the handler to return.
\<close>

theorem publications_completed_once:
  assumes "publishing lib capacity (st, s)" "\<And>n. ml_handler_returns lib n" "\<And>n xs. mset (ml_order lib n xs) = mset xs"
  shows "accepted token st = completed token st + (if fmlookup (mq_token_to_mid st) token \<noteq> None then 1 else 0) \<and>
    (fmlookup (mq_token_to_mid st) token = Some mid \<longleftrightarrow> fmlookup (mq_mid_to_token st) mid = Some token) \<and>
    fmsize (mq_token_to_mid st) \<le> capacity"
  using publishing_ok [OF assms]
  by (auto simp: publications_ok_def inverse_maps_def fmlookup_dom_iff)

definition publishing_client :: MqttClient where
  "publishing_client = snd (ConfigureCommandPublishing True 2 MqttClient_new)"

definition acknowledged_client :: MqttClient where
  "acknowledged_client = HandlePublish quiet_lib 0 (snd (PublishCommandSet quiet_lib 7 ''t'' ''p'' publishing_client))"

lemmas publishing_run = acknowledged_client_def publishing_client_def ConfigureCommandPublishing_def MqttClient_new_def
  forget_publications_def PublishCommandSet_def HandlePublish_def lib_call_def mq_emit_def mq_count_def
  quiet_lib_def emplace_def int_max_def accepted_def completed_def

theorem publications_completed_once_witness:
  "accepted 7 acknowledged_client = 1 \<and> completed 7 acknowledged_client = 1 \<and>
   fmlookup (mq_token_to_mid acknowledged_client) 7 = None"
proof -
  let ?st = "snd (PublishCommandSet quiet_lib 7 ''t'' ''p'' publishing_client)"
  have "publishing quiet_lib 2 (publishing_client, NotSubscribing)"
    by (rule publishing.configured [of 2 "()"]) (simp add: publishing_client_def ConfigureCommandPublishing_def)
  then have "publishing quiet_lib 2 (?st, NotSubscribing)"
    by (rule publishing.step [OF _ mqtt_step.publish_command]) (simp add: publishing_run)
  then have "publishing quiet_lib 2 (acknowledged_client, NotSubscribing)"
    unfolding acknowledged_client_def by (rule publishing.step [OF _ mqtt_step.published]) (simp add: publishing_run Let_def)
  from publications_completed_once [OF this]
  have "accepted 7 acknowledged_client =
      completed 7 acknowledged_client + (if fmlookup (mq_token_to_mid acknowledged_client) 7 \<noteq> None then 1 else 0)"
    by (simp add: quiet_lib_def)
  moreover have "accepted 7 acknowledged_client = 1" "fmlookup (mq_token_to_mid acknowledged_client) 7 = None"
    by (simp_all add: publishing_run Let_def)
  ultimately show ?thesis by simp
qed

subsection \<open>The retry thread\<close>

lemma FinishRetry_idle: "mq_retry_state (FinishRetry e st) \<noteq> RetryRunning"
  by (simp add: FinishRetry_def)

lemma retry_round_ends: "retry_round lib delay_max interrupted stop_seen delay st = Inl st' \<Longrightarrow> mq_retry_state st' \<noteq> RetryRunning"
  by (auto simp: retry_round_def Let_def FinishRetry_idle split: if_splits prod.splits)

lemma retry_round_interrupted: "retry_round lib delay_max True stop_seen delay st = Inl (FinishRetry [] st)"
  by (simp add: retry_round_def)

lemma retry_round_delay:
  "retry_round lib delay_max interrupted stop_seen delay st = Inr (delay', st') \<Longrightarrow> delay' = min (delay * 2) delay_max"
  by (auto simp: retry_round_def Let_def split: if_splits prod.splits)

text \<open>
  C37. The retry thread ends once it is told to: if the wait of some round is interrupted, the thread returns,
  whatever the library answered in the rounds before, and the state it leaves is not \<^verbatim>\<open>kRunning\<close>: a later
  \<^verbatim>\<open>Start\<close> is not blocked by it.
\<close>

theorem retry_thread_ends:
  assumes "interrupted k" "n \<le> k"
  shows "\<exists>st'. RetryConnection lib delay_max interrupted stop_seen n delay st = Some st' \<and> mq_retry_state st' \<noteq> RetryRunning"
  using assms(2)
proof (induction "k - n" arbitrary: n delay st)
  case 0
  then have "interrupted n" using assms(1) by simp
  then show ?case by (subst RetryConnection.simps) (simp add: retry_round_interrupted FinishRetry_idle)
next
  case (Suc d)
  then have IH: "\<exists>st'. RetryConnection lib delay_max interrupted stop_seen (Suc n) delay st = Some st' \<and>
      mq_retry_state st' \<noteq> RetryRunning" for delay st
    by (intro Suc.hyps(1)) simp_all
  show ?case
    using IH by (subst RetryConnection.simps) (auto dest: retry_round_ends split: sum.split prod.split)
qed

definition offline_lib :: mosquitto_lib where
  "offline_lib = quiet_lib\<lparr>ml_result := (\<lambda>_. MosqEai)\<rparr>"

theorem retry_thread_ends_witness:
  "\<exists>st'. RetryConnection offline_lib 60 (\<lambda>n. n = 5) (\<lambda>_. False) 0 1 MqttClient_new = Some st' \<and>
     mq_retry_state st' \<noteq> RetryRunning"
  by (rule retry_thread_ends [of "\<lambda>n. n = 5" 5 0]) simp_all

text \<open>A client stopped from outside the callbacks is at rest once the library has stopped its loop, and may be started again.\<close>

lemma mq_emit_life [simp]:
  "mq_loop_started (mq_emit e st) = mq_loop_started st" "mq_retry_state (mq_emit e st) = mq_retry_state st"
  "mq_retry_thread (mq_emit e st) = mq_retry_thread st" "mq_retry_error (mq_emit e st) = mq_retry_error st"
  by (simp_all add: mq_emit_def)

lemma mq_log_life [simp]:
  "mq_loop_started (mq_log l m st) = mq_loop_started st" "mq_retry_state (mq_log l m st) = mq_retry_state st"
  "mq_retry_thread (mq_log l m st) = mq_retry_thread st" "mq_retry_error (mq_log l m st) = mq_retry_error st"
  by (simp_all add: mq_log_def)

lemma StopNow_rest:
  "\<not> mq_connected (StopNow lib joined st)" "mq_retry_state (StopNow lib joined st) = RetryIdle"
  "\<not> mq_retry_thread (StopNow lib joined st)"
  "\<not> mq_loop_started (StopNow lib joined st) \<Longrightarrow> \<not> mq_callback_stop_requested (StopNow lib joined st)"
  by (auto simp: StopNow_def lib_call_def Let_def)

text \<open>
  The lease of the library is balanced: a failed creation leaves the number of users as it was, and the
  destruction of a client that came to rest gives back what its creation took.
\<close>

lemma Create_lease:
  "Create lib config answers users = (Inl e, users') \<Longrightarrow> users' = users"
  "Create lib config answers users = (Inr st, users') \<Longrightarrow> users' = Suc users \<and> st = MqttClient_new"
  by (auto simp: Create_def AcquireLibrary_def ReleaseLibrary_def destroy_unstarted_def split: if_splits)

lemma MqttClient_destroy_lease:
  assumes "\<not> mq_loop_started (StopNow lib joined st)"
  shows "MqttClient_destroy lib False joined st (Suc users) = (StopNow lib joined st, users)"
  using assms by (simp add: MqttClient_destroy_def Stop_def ReleaseLibrary_def)

end
