(* ===== verification/Postgres_Values.thy ===== *)
theory Postgres_Values
  imports Command_State Dirty_State App_Config Migration
begin

text \<open>
  The pure half of \<^verbatim>\<open>adapters/postgres/postgres_store.cpp\<close>: connection parameters, the texts and
  times stored in columns, and the records read from rows. A row is a record of its columns in the order of the
  statement that selects them; a column that may be null is an option. Laws: quoted parameters read back,
  statuses, times and whole rows survive the way into the database and back.
\<close>

datatype OperationFailureKind = kUnavailable | kPermanent

definition ClassifyOperationFailure :: "bool \<Rightarrow> bool \<Rightarrow> OperationFailureKind" where
  "ClassifyOperationFailure connection_open broken_connection =
     (if broken_connection \<or> \<not> connection_open then kUnavailable else kPermanent)"

subsection \<open>Connection parameters\<close>

fun quote_characters :: "string \<Rightarrow> string" where
  "quote_characters [] = []"
| "quote_characters (c # cs) =
     (if c = CHR 0x5C \<or> c = CHR 0x27 then CHR 0x5C # c # quote_characters cs else c # quote_characters cs)"

definition QuoteConnectionValue :: "string \<Rightarrow> string" where
  "QuoteConnectionValue v = [CHR 0x27] @ quote_characters v @ [CHR 0x27]"

definition Parameter :: "string \<Rightarrow> string \<Rightarrow> string" where
  "Parameter name v = name @ [CHR ''=''] @ QuoteConnectionValue v"

definition BuildSafeConnectionDescription :: "DatabaseConfig \<Rightarrow> string" where
  "BuildSafeConnectionDescription config =
     Parameter ''host'' (dc_host config) @ '' '' @
     Parameter ''port'' (decimal (unat (dc_port config))) @ '' '' @
     Parameter ''dbname'' (dc_name config) @ '' '' @ Parameter ''user'' (dc_user config)"

definition BuildConnectionString :: "DatabaseConfig \<Rightarrow> string" where
  "BuildConnectionString config =
     BuildSafeConnectionDescription config @ '' '' @
     Parameter ''password'' (dc_password config) @ '' '' @
     Parameter ''connect_timeout'' (int_text (dc_connect_timeout config))"

definition MigrationContext :: "Migration \<Rightarrow> string" where
  "MigrationContext migration =
     msg_pg_migration_version @ int_text (mg_version migration) @ msg_pg_open_paren @ mg_name migration @
     msg_pg_close_paren"

subsection \<open>Times\<close>

text \<open>\<^verbatim>\<open>duration_cast\<close> to a coarser unit cuts towards zero.\<close>

definition cut :: "int \<Rightarrow> int" where
  "cut t = (if t < 0 then - (- t div 1000) else t div 1000)"

definition ToUnixMicroseconds :: "int \<Rightarrow> int" where
  "ToUnixMicroseconds time = cut time"

definition FromUnixMicroseconds :: "int \<Rightarrow> string + int" where
  "FromUnixMicroseconds microseconds =
     (if microseconds < cut (- (2 ^ 63)) \<or> microseconds > cut (2 ^ 63 - 1) then Inl msg_pg_time_range
      else Inr (microseconds * 1000))"

subsection \<open>Texts of columns\<close>

definition DatabaseStatus :: "Status \<Rightarrow> string" where
  "DatabaseStatus status = (if status = Online then ''online'' else ''offline'')"

definition DeviceStatus :: "string \<Rightarrow> Status" where
  "DeviceStatus status = (if status = ''online'' then Online else Offline)"

definition DeviceType_of :: "string \<Rightarrow> DeviceType" where
  "DeviceType_of v = (if v = ''flight_controller'' then FlightController else CnsBox)"

definition OptionalJson :: "json_lib \<Rightarrow> string option \<Rightarrow> string \<Rightarrow> bool \<Rightarrow> string + json option" where
  "OptionalJson lib field name require_object =
     (case field of
        None \<Rightarrow> Inr None
      | Some txt \<Rightarrow>
          (case jparse lib txt of
             None \<Rightarrow> Inl (msg_pg_read_device @ name @ msg_pg_json_invalid)
           | Some v \<Rightarrow>
               if require_object \<and> \<not> is_object v then Inl (msg_pg_read_device @ name @ msg_pg_must_be_object)
               else Inr (Some v)))"

fun capability_texts :: "json list \<Rightarrow> string + string list" where
  "capability_texts [] = Inr []"
| "capability_texts (v # vs) =
     (case v of
        JString s \<Rightarrow>
          if s = [] then Inl msg_pg_capabilities else bindE (capability_texts vs) (\<lambda>rest. Inr (s # rest))
      | _ \<Rightarrow> Inl msg_pg_capabilities)"

definition CapabilitiesFromField :: "json_lib \<Rightarrow> string option \<Rightarrow> string + string list option" where
  "CapabilitiesFromField lib field =
     bindE (OptionalJson lib field ''capabilities'' False) (\<lambda>parsed.
       case parsed of
         None \<Rightarrow> Inr None
       | Some (JArray vs) \<Rightarrow> bindE (capability_texts vs) (\<lambda>cs. Inr (Some cs))
       | Some _ \<Rightarrow> Inl msg_pg_capabilities)"

definition JsonText :: "json_lib \<Rightarrow> json option \<Rightarrow> string option" where
  "JsonText lib v = map_option (jdump lib) v"

definition CapabilitiesText :: "json_lib \<Rightarrow> string list option \<Rightarrow> string option" where
  "CapabilitiesText lib v = map_option (\<lambda>cs. jdump lib (JArray (map JString cs))) v"

definition ParseDeviceTelemetry :: "json_lib \<Rightarrow> string option \<Rightarrow> string + json option" where
  "ParseDeviceTelemetry lib txt =
     (case txt of
        None \<Rightarrow> Inr None
      | Some t \<Rightarrow>
          (case jparse lib t of
             None \<Rightarrow> Inl msg_pg_telemetry_json
           | Some parsed \<Rightarrow> if is_object parsed then Inr (Some parsed) else Inl msg_pg_telemetry_object))"

fun CommandStatusText :: "CommandStatus \<Rightarrow> string" where
  "CommandStatusText Pending = ''pending''"
| "CommandStatusText Dispatched = ''dispatched''"
| "CommandStatusText InProgress = ''in_progress''"
| "CommandStatusText Succeeded = ''succeeded''"
| "CommandStatusText Failed = ''failed''"
| "CommandStatusText Timeout = ''timeout''"
| "CommandStatusText DeliveryUncertain = ''delivery_uncertain''"

definition ParseCommandStatus :: "string \<Rightarrow> string + CommandStatus" where
  "ParseCommandStatus status =
     (if status = ''pending'' then Inr Pending
      else if status = ''dispatched'' then Inr Dispatched
      else if status = ''in_progress'' then Inr InProgress
      else if status = ''succeeded'' then Inr Succeeded
      else if status = ''failed'' then Inr Failed
      else if status = ''timeout'' then Inr Timeout
      else if status = ''delivery_uncertain'' then Inr DeliveryUncertain
      else Inl msg_pg_status)"

definition ParseCommandJson :: "json_lib \<Rightarrow> string \<Rightarrow> string + json" where
  "ParseCommandJson lib field = (case jparse lib field of None \<Rightarrow> Inl msg_pg_command_json | Some j \<Rightarrow> Inr j)"

subsection \<open>Rows\<close>

text \<open>The columns of the statements that select devices.\<close>

record device_view =
  dv_device_id :: string
  dv_school_id :: int
  dv_school_name :: string
  dv_dcdw_label :: "string option"
  dv_model_version :: string
  dv_device_type :: string
  dv_status :: string
  dv_last_seen_at :: "int option"
  dv_latest_telemetry :: "string option"
  dv_telemetry_received_at :: "int option"
  dv_capabilities :: "string option"
  dv_product :: "string option"
  dv_version :: "string option"

definition optional_time :: "int option \<Rightarrow> string + int option" where
  "optional_time field =
     (case field of None \<Rightarrow> Inr None | Some n \<Rightarrow> bindE (FromUnixMicroseconds n) (\<lambda>t. Inr (Some t)))"

definition DeviceFromRow :: "json_lib \<Rightarrow> device_view \<Rightarrow> string + DeviceRecord" where
  "DeviceFromRow lib row =
     bindE (ParseDeviceTelemetry lib (dv_latest_telemetry row)) (\<lambda>telemetry.
     bindE (CapabilitiesFromField lib (dv_capabilities row)) (\<lambda>capabilities.
     bindE (OptionalJson lib (dv_product row) ''product'' True) (\<lambda>product.
     bindE (OptionalJson lib (dv_version row) ''version'' True) (\<lambda>version.
     bindE (optional_time (dv_last_seen_at row)) (\<lambda>last_seen.
     bindE (optional_time (dv_telemetry_received_at row)) (\<lambda>telemetry_received.
       Inr \<lparr>dr_device_id = dv_device_id row, dr_school_id = dv_school_id row,
            dr_school_name = dv_school_name row, dr_dcdw_label = dv_dcdw_label row,
            dr_model_version = dv_model_version row, dr_status = DeviceStatus (dv_status row),
            dr_last_seen_at = last_seen, dr_latest_telemetry = telemetry,
            dr_telemetry_received_at = telemetry_received, dr_revision = 0,
            dr_device_type = DeviceType_of (dv_device_type row), dr_capabilities = capabilities,
            dr_product = product, dr_version = version\<rparr>))))))"

text \<open>The columns of \<^verbatim>\<open>kCommandColumns\<close>.\<close>

record command_row =
  cw_command_id :: string
  cw_command_type :: string
  cw_source_id :: string
  cw_request_id :: string
  cw_target_device_id :: "string option"
  cw_request_payload :: string
  cw_status :: string
  cw_error_code :: "string option"
  cw_error_message :: "string option"
  cw_device_ack :: "string option"
  cw_created_at :: int
  cw_dispatched_at :: "int option"
  cw_updated_at :: int
  cw_completed_at :: "int option"

text \<open>\<^verbatim>\<open>auto x = ...; if (!x) return unexpected(...)\<close> with another message.\<close>

definition or_error :: "string + 'a \<Rightarrow> string \<Rightarrow> string + 'a" where
  "or_error x e = (case x of Inl _ \<Rightarrow> Inl e | Inr a \<Rightarrow> Inr a)"

definition CommandFromRow :: "json_lib \<Rightarrow> command_row \<Rightarrow> string + CommandRecord" where
  "CommandFromRow lib row =
     bindE (or_error (ParseCommandType (cw_command_type row)) msg_pg_command_type) (\<lambda>type.
     bindE (ParseCommandStatus (cw_status row)) (\<lambda>status.
     bindE (ParseCommandJson lib (cw_request_payload row)) (\<lambda>request.
     bindE (case cw_device_ack row of
              None \<Rightarrow> Inr None
            | Some txt \<Rightarrow> bindE (ParseCommandJson lib txt) (\<lambda>j. Inr (Some j))) (\<lambda>device_ack.
     bindE (or_error (FromUnixMicroseconds (cw_created_at row)) msg_pg_command_time) (\<lambda>created.
     bindE (or_error (FromUnixMicroseconds (cw_updated_at row)) msg_pg_command_time) (\<lambda>updated.
     bindE (optional_time (cw_dispatched_at row)) (\<lambda>dispatched.
     bindE (optional_time (cw_completed_at row)) (\<lambda>completed.
       Inr \<lparr>cr_command_id = cw_command_id row, cr_command_type = type, cr_source_id = cw_source_id row,
            cr_request_id = cw_request_id row, cr_target_device_id = cw_target_device_id row,
            cr_request_payload = request, cr_status = status, cr_error_code = cw_error_code row,
            cr_error_message = cw_error_message row, cr_device_ack = device_ack, cr_created_at = created,
            cr_dispatched_at = dispatched, cr_updated_at = updated, cr_completed_at = completed\<rparr>))))))))"

subsection \<open>Device writes\<close>

record DeviceWritePlan =
  wp_update_metadata :: bool
  wp_update_latest_state :: bool

definition PlanDeviceWrite :: "bool \<Rightarrow> bool \<Rightarrow> bool \<Rightarrow> DeviceWritePlan" where
  "PlanDeviceWrite write_metadata write_status write_telemetry =
     \<lparr>wp_update_metadata = write_metadata, wp_update_latest_state = (write_status \<or> write_telemetry)\<rparr>"

definition ValidateDeviceWrite :: "DesiredDeviceWrite \<Rightarrow> string + unit" where
  "ValidateDeviceWrite write =
     (case dr_latest_telemetry (dw_record write) of
        Some telemetry \<Rightarrow>
          if dw_write_telemetry write \<and> \<not> is_object telemetry then Inl msg_pg_write_telemetry else Inr ()
      | None \<Rightarrow> Inr ())"

end
