(* ===== verification/Postgres_Values_Laws.thy ===== *)
theory Postgres_Values_Laws
  imports Postgres_Values
begin

text \<open>
  What goes into the database comes back: quoted connection parameters, statuses, times up to microseconds.
\<close>

subsection \<open>Connection parameters\<close>

text \<open>
  How libpq documents a quoted value: it ends at the next quote, and a backslash takes the character after it
  literally. \<^const>\<open>None\<close> for an unterminated value.
\<close>

fun read_quoted :: "string \<Rightarrow> (string \<times> string) option" where
  "read_quoted [] = None"
| "read_quoted (c # cs) =
     (if c = CHR 0x27 then Some ([], cs)
      else if c = CHR 0x5C then
        (case cs of
           [] \<Rightarrow> None
         | d # ds \<Rightarrow> map_option (\<lambda>(v, rest). (d # v, rest)) (read_quoted ds))
      else map_option (\<lambda>(v, rest). (c # v, rest)) (read_quoted cs))"

lemma read_quoted_quote: "read_quoted (quote_characters v @ CHR 0x27 # rest) = Some (v, rest)"
  by (induction v) auto

text \<open>A list of \<^verbatim>\<open>name='value'\<close>, separated by blanks, whose names are given.\<close>

fun read_parameters :: "string list \<Rightarrow> string \<Rightarrow> (string \<times> string) list option" where
  "read_parameters [] txt = (if txt = [] then Some [] else None)"
| "read_parameters (name # names) txt =
     (if starts_with txt (name @ [CHR ''='', CHR 0x27]) then
        (case read_quoted (drop (length name + 2) txt) of
           None \<Rightarrow> None
         | Some (v, rest) \<Rightarrow>
             if names = [] then (if rest = [] then Some [(name, v)] else None)
             else (case rest of
                     [] \<Rightarrow> None
                   | c # after \<Rightarrow> if c = CHR '' '' then map_option (\<lambda>ps. (name, v) # ps) (read_parameters names after) else None))
      else None)"

lemma Parameter_append: "Parameter name v @ rest = name @ [CHR ''='', CHR 0x27] @ (quote_characters v @ CHR 0x27 # rest)"
  by (simp add: Parameter_def QuoteConnectionValue_def)

lemma read_parameters_last: "read_parameters [name] (Parameter name v) = Some [(name, v)]"
  using Parameter_append [of name v "[]"] by (simp add: starts_with_def read_quoted_quote)

lemma read_parameters_Cons:
  assumes "names \<noteq> []" "read_parameters names rest = Some ps"
  shows "read_parameters (name # names) (Parameter name v @ CHR '' '' # rest) = Some ((name, v) # ps)"
  using assms by (simp add: Parameter_append starts_with_def read_quoted_quote del: append_assoc)

text \<open>
  Connection parameters cannot break out of their quotes: read by the rules of libpq, the connection string
  gives back exactly the six configured values, whatever characters host, database, user and password contain.
\<close>

theorem connection_string_roundtrip:
  "read_parameters [''host'', ''port'', ''dbname'', ''user'', ''password'', ''connect_timeout''] (BuildConnectionString config) =
     Some [(''host'', dc_host config), (''port'', decimal (unat (dc_port config))), (''dbname'', dc_name config),
           (''user'', dc_user config), (''password'', dc_password config),
           (''connect_timeout'', int_text (dc_connect_timeout config))]"
  unfolding BuildConnectionString_def BuildSafeConnectionDescription_def append_assoc append_Cons append_Nil
  by (intro read_parameters_Cons read_parameters_last) simp_all

text \<open>The description that is logged does not depend on the password.\<close>

lemma safe_description_hides_password:
  "BuildSafeConnectionDescription (config\<lparr>dc_password := p\<rparr>) = BuildSafeConnectionDescription config"
  by (simp add: BuildSafeConnectionDescription_def)

subsection \<open>Statuses and times\<close>

lemma ParseCommandStatus_text [simp]: "ParseCommandStatus (CommandStatusText s) = Inr s"
  by (cases s) (simp_all add: ParseCommandStatus_def)

lemma ParseCommandStatus_eq_Inr: "ParseCommandStatus txt = Inr s \<longleftrightarrow> txt = CommandStatusText s"
  by (cases s) (auto simp: ParseCommandStatus_def)

lemma CommandStatusText_inject [simp]: "CommandStatusText s = CommandStatusText s' \<longleftrightarrow> s = s'"
  by (metis ParseCommandStatus_text sum.inject(2))

lemma DeviceStatus_text [simp]: "DeviceStatus (DatabaseStatus s) = s"
  by (cases s) (simp_all add: DeviceStatus_def DatabaseStatus_def)

lemma DeviceType_of_text [simp]: "DeviceType_of (DeviceType_ToString t) = t"
  by (cases t) (simp_all add: DeviceType_of_def DeviceType_ToString_def)

definition clock_range :: "int \<Rightarrow> bool" where
  "clock_range t \<longleftrightarrow> - (2 ^ 63) \<le> t \<and> t < 2 ^ 63"

lemma cut_mono:
  assumes "s \<le> t"
  shows "cut s \<le> cut t"
proof -
  have "- t div 1000 \<le> - s div 1000" "s div 1000 \<le> t div 1000"
    using assms by (intro zdiv_mono1; simp)+
  moreover have "s < 0 \<Longrightarrow> 0 \<le> - s div 1000" "0 \<le> t \<Longrightarrow> 0 \<le> t div 1000"
    by (simp_all add: pos_imp_zdiv_nonneg_iff del: zdiv_zminus1_eq_if)
  ultimately show ?thesis using assms by (auto simp: cut_def simp del: zdiv_zminus1_eq_if)
qed

lemma cut_error: "\<bar>cut t * 1000 - t\<bar> < 1000"
proof -
  have div: "x div 1000 * 1000 = x - x mod 1000 \<and> 0 \<le> x mod 1000 \<and> x mod 1000 < 1000" for x :: int
    by (simp add: minus_mod_eq_div_mult)
  show ?thesis using div [of t] div [of "- t"] unfolding cut_def abs_less_iff by (simp split: if_split; linarith)
qed

lemma FromUnixMicroseconds_cut: "clock_range t \<Longrightarrow> FromUnixMicroseconds (ToUnixMicroseconds t) = Inr (cut t * 1000)"
  using cut_mono [of "- (2 ^ 63)" t] cut_mono [of t "2 ^ 63 - 1"]
  by (simp add: FromUnixMicroseconds_def ToUnixMicroseconds_def clock_range_def)

lemma cut_stable: "cut (cut t * 1000) = cut t"
  by (simp add: cut_def)

end
