(* ===== verification/Postgres_Store.thy ===== *)
theory Postgres_Store
  imports Postgres_Values Command_Router "HOL-Library.Product_Lexorder"
begin

text \<open>
  The store of \<^verbatim>\<open>adapters/postgres/postgres_store.cpp\<close>. The tables are those of the migrations,
  each a finite map from its primary key; a statement is a function on them, with its conflict clauses, the keys and
  references the migrations declare and the order it asks for. What PostgreSQL itself decides is the record
  \<open>postgres\<close>: how it reads \<^verbatim>\<open>jsonb\<close> and \<^verbatim>\<open>uuid\<close> texts, the rows its column types and checks accept, the
  next number of a sequence, the collation, and what the script of a migration does.

  A method runs one transaction. It may fail before the commit, or during it, with or without effect, and may
  lose the connection; \<open>fault\<close> is that choice. Times are kept in microseconds, as \<^verbatim>\<open>TIMESTAMPTZ\<close> does.
\<close>

subsection \<open>Tables\<close>

record device_row =
  dd_school_id :: "int option"
  dd_dcdw_label :: "string option"
  dd_model_version :: string
  dd_device_type :: string
  dd_capabilities :: "string option"
  dd_product :: "string option"
  dd_version :: "string option"

record state_row =
  ds_status :: string
  ds_last_seen_at :: "int option"
  ds_latest_telemetry :: "string option"
  ds_telemetry_received_at :: "int option"

record source_row =
  so_source_kind :: string
  so_device_id :: "string option"
  so_enabled :: bool

record database =
  db_schools :: "(int, string) fmap"
  db_devices :: "(string, device_row) fmap"
  db_states :: "(string, state_row) fmap"
  db_sources :: "(string, source_row) fmap"
  db_commands :: "(string, command_row) fmap"
  db_migrations :: "(int, string) fmap option"

record postgres =
  pg_jsonb :: "string \<Rightarrow> string option"
  pg_uuid :: "string \<Rightarrow> string option"
  pg_micros :: "int \<Rightarrow> int"  \<comment> \<open>\<^verbatim>\<open>epoch + n * INTERVAL '1 microsecond'\<close>\<close>
  pg_accepts_school :: "string \<Rightarrow> bool"
  pg_accepts_device :: "string \<Rightarrow> device_row \<Rightarrow> bool"
  pg_accepts_source :: "string \<Rightarrow> source_row \<Rightarrow> bool"
  pg_accepts_command :: "command_row \<Rightarrow> bool"
  pg_next_school :: "database \<Rightarrow> int"
  pg_text_order :: "string list \<Rightarrow> string list"
  pg_script :: "string \<Rightarrow> database \<Rightarrow> database option"

subsection \<open>Transactions\<close>

datatype fault =
    NoFault
  | Fails bool bool             \<comment> \<open>\<^verbatim>\<open>broken_connection\<close>?, connection still open?\<close>
  | CommitFails bool bool bool  \<comment> \<open>committed nevertheless?, then as above\<close>

datatype 'a tx =
    Throws
  | Aborts string "OperationFailureKind option"
  | Commits 'a database

record PostgresStore =
  ps_db :: database
  ps_open :: bool
  ps_info_sink :: bool
  ps_last_failure_kind :: OperationFailureKind
  ps_info :: "string list"

text \<open>The two \<^verbatim>\<open>catch\<close> clauses; some methods do not classify the failure.\<close>

definition caught :: "bool \<Rightarrow> string \<Rightarrow> bool \<Rightarrow> bool \<Rightarrow> PostgresStore \<Rightarrow> (string + 'a) \<times> PostgresStore" where
  "caught classify failed broken still_open st =
     (Inl failed, st\<lparr>ps_open := still_open,
        ps_last_failure_kind :=
          (if classify then ClassifyOperationFailure still_open broken else ps_last_failure_kind st)\<rparr>)"

definition run_work ::
    "bool \<Rightarrow> fault \<Rightarrow> string \<Rightarrow> (database \<Rightarrow> 'a tx) \<Rightarrow> PostgresStore \<Rightarrow> (string + 'a) \<times> PostgresStore" where
  "run_work classify fault failed body st =
     (if \<not> ps_open st then caught classify failed True False st
      else case fault of
        Fails broken still_open \<Rightarrow> caught classify failed broken still_open st
      | _ \<Rightarrow>
          (case body (ps_db st) of
             Throws \<Rightarrow> caught classify failed False True st
           | Aborts e kind \<Rightarrow>
               (Inl e, case kind of None \<Rightarrow> st | Some k \<Rightarrow> st\<lparr>ps_last_failure_kind := k\<rparr>)
           | Commits a db \<Rightarrow>
               (case fault of
                  CommitFails applied broken still_open \<Rightarrow>
                    caught classify failed broken still_open (if applied then st\<lparr>ps_db := db\<rparr> else st)
                | _ \<Rightarrow> (Inr a, st\<lparr>ps_db := db\<rparr>))))"

text \<open>A read transaction is not committed.\<close>

definition run_read ::
    "bool \<Rightarrow> fault \<Rightarrow> string \<Rightarrow> (database \<Rightarrow> 'a tx) \<Rightarrow> PostgresStore \<Rightarrow> (string + 'a) \<times> PostgresStore" where
  "run_read classify fault =
     run_work classify (case fault of CommitFails _ _ _ \<Rightarrow> NoFault | _ \<Rightarrow> fault)"

fun from_rows :: "('r \<Rightarrow> string + 'a) \<Rightarrow> 'r list \<Rightarrow> string + 'a list" where
  "from_rows f [] = Inr []"
| "from_rows f (r # rs) = bindE (f r) (\<lambda>a. bindE (from_rows f rs) (\<lambda>as. Inr (a # as)))"

definition commit_rows :: "string + 'a \<Rightarrow> database \<Rightarrow> 'a tx" where
  "commit_rows result db = (case result of Inl e \<Rightarrow> Aborts e None | Inr a \<Rightarrow> Commits a db)"

definition IsOpen :: "PostgresStore \<Rightarrow> bool" where
  "IsOpen st \<longleftrightarrow> ps_open st"

definition LastOperationFailureKind :: "PostgresStore \<Rightarrow> OperationFailureKind" where
  "LastOperationFailureKind st = ps_last_failure_kind st"

definition SetInfoSink :: "bool \<Rightarrow> PostgresStore \<Rightarrow> PostgresStore" where
  "SetInfoSink info_sink st = st\<lparr>ps_info_sink := info_sink\<rparr>"

text \<open>\<open>connects\<close>: whether the constructor of the connection returns.\<close>

definition Connect :: "DatabaseConfig \<Rightarrow> bool \<Rightarrow> bool \<Rightarrow> database \<Rightarrow> string + PostgresStore" where
  "Connect config info_sink connects db =
     (let safe_description = BuildSafeConnectionDescription config in
      if connects
      then Inr \<lparr>ps_db = db, ps_open = True, ps_info_sink = info_sink, ps_last_failure_kind = kPermanent,
                ps_info = (if info_sink then [msg_pg_connected @ safe_description] else [])\<rparr>
      else Inl (msg_pg_connect_failed @ safe_description))"

subsection \<open>Migrations\<close>

definition ReadAppliedMigrations :: "fault \<Rightarrow> PostgresStore \<Rightarrow> (string + AppliedMigration list) \<times> PostgresStore" where
  "ReadAppliedMigrations fault =
     run_read True fault msg_pg_read_migrations (\<lambda>db.
       case db_migrations db of
         None \<Rightarrow> Commits [] db
       | Some m \<Rightarrow>
           Commits (map (\<lambda>v. \<lparr>am_version = v, am_name = the (fmlookup m v)\<rparr>) (sorted_list_of_fset (fmdom m))) db)"

text \<open>\<open>content\<close> is what the file holds, \<^const>\<open>None\<close> if it cannot be read.\<close>

definition ApplyMigration ::
    "postgres \<Rightarrow> string option \<Rightarrow> Migration \<Rightarrow> fault \<Rightarrow> PostgresStore \<Rightarrow> (string + unit) \<times> PostgresStore" where
  "ApplyMigration pg content migration fault st =
     (case content of
        None \<Rightarrow> (Inl (msg_pg_read_prefix @ MigrationContext migration @ msg_pg_file_failed), st)
      | Some script \<Rightarrow>
          (case run_work False fault (msg_pg_execute @ MigrationContext migration @ msg_pg_failed) (\<lambda>db.
             case pg_script pg script db of
               None \<Rightarrow> Throws
             | Some db1 \<Rightarrow>
                 (case db_migrations db1 of
                    None \<Rightarrow> Throws
                  | Some m \<Rightarrow>
                      if mg_version migration \<le> 0 \<or> fmlookup m (mg_version migration) \<noteq> None then Throws
                      else Commits () (db1\<lparr>db_migrations := Some (fmupd (mg_version migration) (mg_name migration) m)\<rparr>))) st of
             (Inl e, st') \<Rightarrow> (Inl e, st')
           | (Inr u, st') \<Rightarrow>
               (Inr u, if ps_info_sink st' then st'\<lparr>ps_info := ps_info st' @ [msg_pg_applied @ MigrationContext migration]\<rparr>
                       else st')))"

subsection \<open>Devices\<close>

text \<open>\<^verbatim>\<open>devices LEFT JOIN schools JOIN device_latest_states\<close> for one device.\<close>

definition device_view_of :: "database \<Rightarrow> string \<Rightarrow> device_view option" where
  "device_view_of db device_id =
     (case (fmlookup (db_devices db) device_id, fmlookup (db_states db) device_id) of
        (Some d, Some s) \<Rightarrow>
          Some \<lparr>dv_device_id = device_id,
                dv_school_id = (case dd_school_id d of None \<Rightarrow> 0 | Some i \<Rightarrow> i),
                dv_school_name =
                  (case dd_school_id d of
                     None \<Rightarrow> []
                   | Some i \<Rightarrow> (case fmlookup (db_schools db) i of None \<Rightarrow> [] | Some name \<Rightarrow> name)),
                dv_dcdw_label = dd_dcdw_label d, dv_model_version = dd_model_version d,
                dv_device_type = dd_device_type d, dv_status = ds_status s, dv_last_seen_at = ds_last_seen_at s,
                dv_latest_telemetry = ds_latest_telemetry s,
                dv_telemetry_received_at = ds_telemetry_received_at s, dv_capabilities = dd_capabilities d,
                dv_product = dd_product d, dv_version = dd_version d\<rparr>
      | _ \<Rightarrow> None)"

definition LoadDevices ::
    "postgres \<Rightarrow> json_lib \<Rightarrow> fault \<Rightarrow> PostgresStore \<Rightarrow> (string + DeviceRecord list) \<times> PostgresStore" where
  "LoadDevices pg lib fault =
     run_read False fault msg_pg_load_devices (\<lambda>db.
       commit_rows
         (from_rows (DeviceFromRow lib)
            (List.map_filter (device_view_of db) (pg_text_order pg (sorted_list_of_fset (fmdom (db_devices db))))))
         db)"

definition school_named :: "(int, string) fmap \<Rightarrow> string \<Rightarrow> int option" where
  "school_named schools name = find (\<lambda>i. fmlookup schools i = Some name) (sorted_list_of_fset (fmdom schools))"

text \<open>\<^verbatim>\<open>INSERT INTO schools ... ON CONFLICT (school_name) DO UPDATE ... RETURNING school_id\<close>\<close>

definition upsert_school :: "postgres \<Rightarrow> string option \<Rightarrow> database \<Rightarrow> (int option \<times> database) option" where
  "upsert_school pg name db =
     (case name of
        None \<Rightarrow> Some (None, db)
      | Some n \<Rightarrow>
          if \<not> pg_accepts_school pg n then None
          else (case school_named (db_schools db) n of
                  Some i \<Rightarrow> Some (Some i, db)
                | None \<Rightarrow>
                    let i = pg_next_school pg db
                    in Some (Some i, db\<lparr>db_schools := fmupd i n (db_schools db)\<rparr>)))"

definition jsonb_column :: "postgres \<Rightarrow> string option \<Rightarrow> string option option" where
  "jsonb_column pg txt = (case txt of None \<Rightarrow> Some None | Some t \<Rightarrow> map_option Some (pg_jsonb pg t))"

text \<open>\<^verbatim>\<open>UNIQUE (school_id, dcdw_label)\<close>: null values are never equal.\<close>

definition label_taken :: "database \<Rightarrow> string \<Rightarrow> device_row \<Rightarrow> bool" where
  "label_taken db device_id row \<longleftrightarrow>
     dd_school_id row \<noteq> None \<and> dd_dcdw_label row \<noteq> None \<and>
     list_ex (\<lambda>other. other \<noteq> device_id \<and>
         (case fmlookup (db_devices db) other of
            None \<Rightarrow> False
          | Some r \<Rightarrow> dd_school_id r = dd_school_id row \<and> dd_dcdw_label r = dd_dcdw_label row))
       (sorted_list_of_fset (fmdom (db_devices db)))"

definition insert_device :: "postgres \<Rightarrow> json_lib \<Rightarrow> Registration \<Rightarrow> int option \<Rightarrow> database \<Rightarrow> database option" where
  "insert_device pg lib r school_id db =
     (case (jsonb_column pg (CapabilitiesText lib (reg_capabilities r)), jsonb_column pg (JsonText lib (reg_product r)),
            jsonb_column pg (JsonText lib (reg_version r))) of
        (Some capabilities, Some product, Some version) \<Rightarrow>
          let row = \<lparr>dd_school_id = school_id, dd_dcdw_label = reg_dcdw_label r,
                     dd_model_version = (if reg_device_type r = FlightController then ''PX4'' else ''CNS v1.0''),
                     dd_device_type = DeviceType_ToString (reg_device_type r), dd_capabilities = capabilities,
                     dd_product = product, dd_version = version\<rparr>
          in if \<not> pg_accepts_device pg (reg_device_id r) row then None
             else if fmlookup (db_devices db) (reg_device_id r) \<noteq> None then Some db
             else if label_taken db (reg_device_id r) row then None
             else Some (db\<lparr>db_devices := fmupd (reg_device_id r) row (db_devices db)\<rparr>)
      | _ \<Rightarrow> None)"

definition insert_state :: "Registration \<Rightarrow> int \<Rightarrow> database \<Rightarrow> database" where
  "insert_state r received_at db =
     (let online = (reg_status r = RegOnline);
          row = \<lparr>ds_status = (if online then ''online'' else ''offline''),
                 ds_last_seen_at = (if online then Some (ToUnixMicroseconds received_at) else None),
                 ds_latest_telemetry = None, ds_telemetry_received_at = None\<rparr>
      in db\<lparr>db_states := emplace (reg_device_id r) row (db_states db)\<rparr>)"

definition insert_device_source :: "postgres \<Rightarrow> string \<Rightarrow> database \<Rightarrow> database option" where
  "insert_device_source pg device_id db =
     (let row = \<lparr>so_source_kind = ''device'', so_device_id = Some device_id, so_enabled = True\<rparr>
      in if \<not> pg_accepts_source pg device_id row then None
         else Some (db\<lparr>db_sources := emplace device_id row (db_sources db)\<rparr>))"

definition ProvisionDevice ::
    "postgres \<Rightarrow> json_lib \<Rightarrow> Registration \<Rightarrow> int \<Rightarrow> fault \<Rightarrow> PostgresStore \<Rightarrow> (string + DeviceRecord) \<times> PostgresStore" where
  "ProvisionDevice pg lib registration received_at fault st =
     (if reg_device_type registration = CnsBox \<and> reg_school_name registration = None
      then (Inl msg_pg_no_school, st\<lparr>ps_last_failure_kind := kPermanent\<rparr>)
      else run_work True fault msg_pg_provision (\<lambda>db.
        case upsert_school pg (reg_school_name registration) db of
          None \<Rightarrow> Throws
        | Some (school_id, db1) \<Rightarrow>
            (case insert_device pg lib registration school_id db1 of
               None \<Rightarrow> Throws
             | Some db2 \<Rightarrow>
                 (case insert_device_source pg (reg_device_id registration) (insert_state registration received_at db2) of
                    None \<Rightarrow> Throws
                  | Some db3 \<Rightarrow>
                      (case device_view_of db3 (reg_device_id registration) of
                         None \<Rightarrow> Throws
                       | Some actual \<Rightarrow> commit_rows (DeviceFromRow lib actual) db3)))) st)"

definition update_metadata :: "postgres \<Rightarrow> json_lib \<Rightarrow> DeviceRecord \<Rightarrow> database \<Rightarrow> database option" where
  "update_metadata pg lib r db =
     (case (jsonb_column pg (CapabilitiesText lib (dr_capabilities r)), jsonb_column pg (JsonText lib (dr_product r)),
            jsonb_column pg (JsonText lib (dr_version r))) of
        (Some capabilities, Some product, Some version) \<Rightarrow>
          (case fmlookup (db_devices db) (dr_device_id r) of
             None \<Rightarrow> Some db
           | Some d \<Rightarrow>
               let row = d\<lparr>dd_dcdw_label := dr_dcdw_label r, dd_capabilities := capabilities, dd_product := product,
                           dd_version := version\<rparr>
               in if \<not> pg_accepts_device pg (dr_device_id r) row \<or> label_taken db (dr_device_id r) row then None
                  else Some (db\<lparr>db_devices := fmupd (dr_device_id r) row (db_devices db)\<rparr>))
      | _ \<Rightarrow> None)"

definition update_state :: "postgres \<Rightarrow> json_lib \<Rightarrow> DesiredDeviceWrite \<Rightarrow> database \<Rightarrow> database option" where
  "update_state pg lib write db =
     (let r = dw_record write in
      case jsonb_column pg (JsonText lib (dr_latest_telemetry r)) of
        None \<Rightarrow> None
      | Some telemetry \<Rightarrow>
          (case fmlookup (db_states db) (dr_device_id r) of
             None \<Rightarrow> Some db
           | Some s \<Rightarrow>
               let s1 = (if dw_write_status write
                         then s\<lparr>ds_status := DatabaseStatus (dr_status r),
                                ds_last_seen_at := map_option ToUnixMicroseconds (dr_last_seen_at r)\<rparr> else s);
                   s2 = (if dw_write_telemetry write
                         then s1\<lparr>ds_latest_telemetry := telemetry,
                                 ds_telemetry_received_at := map_option ToUnixMicroseconds (dr_telemetry_received_at r)\<rparr>
                         else s1)
               in Some (db\<lparr>db_states := fmupd (dr_device_id r) s2 (db_states db)\<rparr>)))"

definition WriteDeviceState ::
    "postgres \<Rightarrow> json_lib \<Rightarrow> DesiredDeviceWrite \<Rightarrow> fault \<Rightarrow> PostgresStore \<Rightarrow> (string + unit) \<times> PostgresStore" where
  "WriteDeviceState pg lib write fault st =
     (case ValidateDeviceWrite write of
        Inl e \<Rightarrow> (Inl e, st\<lparr>ps_last_failure_kind := kPermanent\<rparr>)
      | Inr _ \<Rightarrow>
          let plan = PlanDeviceWrite (dw_write_metadata write) (dw_write_status write) (dw_write_telemetry write) in
          if \<not> wp_update_metadata plan \<and> \<not> wp_update_latest_state plan then (Inr (), st)
          else run_work True fault msg_pg_write (\<lambda>db.
            case (if wp_update_metadata plan then update_metadata pg lib (dw_record write) db else Some db) of
              None \<Rightarrow> Throws
            | Some db1 \<Rightarrow>
                (case (if wp_update_latest_state plan then update_state pg lib write db1 else Some db1) of
                   None \<Rightarrow> Throws
                 | Some db2 \<Rightarrow> Commits () db2)) st)"

end
