(* ===== verification/Postgres_Commands.thy ===== *)
theory Postgres_Commands
  imports Postgres_Store
begin

text \<open>
  The methods of the store for command sources and commands
  (\<^verbatim>\<open>adapters/postgres/postgres_store.cpp\<close>).
\<close>

subsection \<open>Command sources\<close>

definition fixed_kind_text :: "FixedSourceKind \<Rightarrow> string" where
  "fixed_kind_text kind = (if kind = FixedHostApp then ''host_app'' else ''control_center'')"

definition kind_conflict :: "(string, source_row) fmap \<Rightarrow> FixedSourceConfig \<Rightarrow> bool" where
  "kind_conflict sources s =
     (case fmlookup sources (fs_source_id s) of
        None \<Rightarrow> False
      | Some row \<Rightarrow> so_source_kind row \<noteq> fixed_kind_text (fs_source_kind s))"

text \<open>Sources that are no devices and no longer configured are disabled.\<close>

definition disable_unconfigured :: "string list \<Rightarrow> (string, source_row) fmap \<Rightarrow> (string, source_row) fmap" where
  "disable_unconfigured configured_ids sources =
     fmmap_keys (\<lambda>source_id row.
       if so_source_kind row \<noteq> ''device'' \<and> source_id \<notin> set configured_ids then row\<lparr>so_enabled := False\<rparr> else row) sources"

definition enable_source ::
    "postgres \<Rightarrow> FixedSourceConfig \<Rightarrow> (string, source_row) fmap \<Rightarrow> (string, source_row) fmap option" where
  "enable_source pg s sources =
     (let row = \<lparr>so_source_kind = fixed_kind_text (fs_source_kind s), so_device_id = None, so_enabled = True\<rparr>
      in if \<not> pg_accepts_source pg (fs_source_id s) row then None
         else Some (case fmlookup sources (fs_source_id s) of
                      None \<Rightarrow> fmupd (fs_source_id s) row sources
                    | Some old \<Rightarrow> fmupd (fs_source_id s) (old\<lparr>so_enabled := True\<rparr>) sources))"

fun enable_sources ::
    "postgres \<Rightarrow> FixedSourceConfig list \<Rightarrow> (string, source_row) fmap \<Rightarrow> (string, source_row) fmap option" where
  "enable_sources pg [] sources = Some sources"
| "enable_sources pg (s # ss) sources =
     (case enable_source pg s sources of None \<Rightarrow> None | Some sources' \<Rightarrow> enable_sources pg ss sources')"

fun read_sources :: "(string \<times> source_row) list \<Rightarrow> CommandSource list option" where
  "read_sources [] = Some []"
| "read_sources ((source_id, row) # rest) =
     (case (if so_source_kind row = ''device'' then Some SrcDevice
            else if so_source_kind row = ''host_app'' then Some SrcHostApp
            else if so_source_kind row = ''control_center'' then Some SrcControlCenter
            else None) of
        None \<Rightarrow> None
      | Some kind \<Rightarrow>
          map_option (\<lambda>more. \<lparr>cs_source_id = source_id, cs_kind = kind, cs_device_id = so_device_id row,
                              cs_enabled = so_enabled row\<rparr> # more) (read_sources rest))"

definition source_rows :: "postgres \<Rightarrow> (string, source_row) fmap \<Rightarrow> (string \<times> source_row) list" where
  "source_rows pg sources =
     map (\<lambda>source_id. (source_id, the (fmlookup sources source_id)))
       (pg_text_order pg (sorted_list_of_fset (fmdom sources)))"

definition SyncAndLoadCommandSources ::
    "postgres \<Rightarrow> FixedSourceConfig list \<Rightarrow> fault \<Rightarrow> PostgresStore \<Rightarrow> (string + CommandSource list) \<times> PostgresStore" where
  "SyncAndLoadCommandSources pg configured_sources fault =
     run_work True fault msg_pg_sync_sources (\<lambda>db.
       if list_ex (kind_conflict (db_sources db)) configured_sources
       then Aborts msg_pg_source_conflict (Some kPermanent)
       else case enable_sources pg configured_sources
                   (disable_unconfigured (map fs_source_id configured_sources) (db_sources db)) of
              None \<Rightarrow> Throws
            | Some sources \<Rightarrow>
                (case read_sources (source_rows pg sources) of
                   None \<Rightarrow> Aborts msg_pg_source_kind (Some kPermanent)
                 | Some result \<Rightarrow> Commits result (db\<lparr>db_sources := sources\<rparr>)))"

subsection \<open>Selecting commands\<close>

definition int64_limit :: nat where
  "int64_limit = 2 ^ 63 - 1"

definition command_rows :: "database \<Rightarrow> command_row list" where
  "command_rows db = map (\<lambda>i. the (fmlookup (db_commands db) i)) (sorted_list_of_fset (fmdom (db_commands db)))"

text \<open>\<^verbatim>\<open>ORDER BY updated_at, command_id LIMIT\<close>\<close>

definition oldest_first :: "nat \<Rightarrow> (command_row \<Rightarrow> bool) \<Rightarrow> database \<Rightarrow> command_row list" where
  "oldest_first limit P db =
     take limit (sort_key (\<lambda>row. (cw_updated_at row, cw_command_id row)) (filter P (command_rows db)))"

definition active_row :: "command_row \<Rightarrow> bool" where
  "active_row row \<longleftrightarrow> cw_status row = ''pending'' \<or> cw_status row = ''dispatched'' \<or> cw_status row = ''in_progress''"

definition LoadActiveCommands ::
    "json_lib \<Rightarrow> nat \<Rightarrow> fault \<Rightarrow> PostgresStore \<Rightarrow> (string + CommandRecord list) \<times> PostgresStore" where
  "LoadActiveCommands lib limit fault st =
     (if limit > int64_limit then (Inl msg_pg_active_range, st)
      else run_read True fault msg_pg_active (\<lambda>db.
        commit_rows (from_rows (CommandFromRow lib) (oldest_first limit active_row db)) db) st)"

definition active_config_row :: "command_row \<Rightarrow> bool" where
  "active_config_row row \<longleftrightarrow>
     cw_command_type row = ''config'' \<and> (cw_status row = ''pending'' \<or> cw_status row = ''dispatched'')"

definition LoadActiveConfigCommands ::
    "json_lib \<Rightarrow> nat \<Rightarrow> fault \<Rightarrow> PostgresStore \<Rightarrow> (string + CommandRecord list) \<times> PostgresStore" where
  "LoadActiveConfigCommands lib limit fault st =
     (if limit > int64_limit then (Inl msg_pg_active_range, st)
      else run_read True fault msg_pg_active (\<lambda>db.
        commit_rows (from_rows (CommandFromRow lib) (oldest_first limit active_config_row db)) db) st)"

definition FindCommand ::
    "json_lib \<Rightarrow> string \<Rightarrow> string \<Rightarrow> fault \<Rightarrow> PostgresStore \<Rightarrow> (string + CommandRecord option) \<times> PostgresStore" where
  "FindCommand lib source_id request_id fault =
     run_read True fault msg_pg_find (\<lambda>db.
       case filter (\<lambda>row. cw_source_id row = source_id \<and> cw_request_id row = request_id) (command_rows db) of
         [] \<Rightarrow> Commits None db
       | row # _ \<Rightarrow> commit_rows (map_sum (\<lambda>e. e) Some (CommandFromRow lib row)) db)"

definition FindCommandById ::
    "postgres \<Rightarrow> json_lib \<Rightarrow> string \<Rightarrow> fault \<Rightarrow> PostgresStore \<Rightarrow> (string + CommandRecord option) \<times> PostgresStore" where
  "FindCommandById pg lib command_id fault =
     run_read True fault msg_pg_find (\<lambda>db.
       case pg_uuid pg command_id of
         None \<Rightarrow> Throws
       | Some i \<Rightarrow>
           (case fmlookup (db_commands db) i of
              None \<Rightarrow> Commits None db
            | Some row \<Rightarrow> commit_rows (map_sum (\<lambda>e. e) Some (CommandFromRow lib row)) db))"

subsection \<open>Changing commands\<close>

definition control_active_row :: "command_row \<Rightarrow> bool" where
  "control_active_row row \<longleftrightarrow> cw_command_type row = ''control'' \<and> active_row row"

definition recover_row :: "int \<Rightarrow> command_row \<Rightarrow> command_row" where
  "recover_row at row =
     row\<lparr>cw_status := ''delivery_uncertain'', cw_error_code := Some ''control_delivery_uncertain'',
         cw_error_message := Some msg_pg_recovered, cw_updated_at := at, cw_completed_at := Some at\<rparr>"

fun set_rows :: "command_row list \<Rightarrow> (string, command_row) fmap \<Rightarrow> (string, command_row) fmap" where
  "set_rows [] m = m"
| "set_rows (row # rows) m = set_rows rows (fmupd (cw_command_id row) row m)"

text \<open>The order in which \<^verbatim>\<open>RETURNING\<close> lists the rows is not specified; here it is that of the update.\<close>

definition RecoverActiveControlCommands ::
    "postgres \<Rightarrow> json_lib \<Rightarrow> int \<Rightarrow> nat \<Rightarrow> fault \<Rightarrow> PostgresStore \<Rightarrow> (string + CommandRecord list) \<times> PostgresStore" where
  "RecoverActiveControlCommands pg lib recovered_at limit fault st =
     (if limit > int64_limit then (Inl msg_pg_recover_range, st)
      else run_work True fault msg_pg_recover (\<lambda>db.
        let rows = map (recover_row (pg_micros pg (ToUnixMicroseconds recovered_at)))
                     (oldest_first limit control_active_row db)
        in commit_rows (from_rows (CommandFromRow lib) rows) (db\<lparr>db_commands := set_rows rows (db_commands db)\<rparr>)) st)"

definition stored_time :: "postgres \<Rightarrow> int \<Rightarrow> int" where
  "stored_time pg t = pg_micros pg (ToUnixMicroseconds t)"

text \<open>The values of the \<^verbatim>\<open>INSERT\<close>; \<^const>\<open>None\<close> if one cannot be converted.\<close>

definition row_of_command :: "postgres \<Rightarrow> json_lib \<Rightarrow> CommandRecord \<Rightarrow> command_row option" where
  "row_of_command pg lib command =
     (case (pg_uuid pg (cr_command_id command), pg_jsonb pg (jdump lib (cr_request_payload command)),
            jsonb_column pg (JsonText lib (cr_device_ack command))) of
        (Some command_id, Some request_payload, Some device_ack) \<Rightarrow>
          Some \<lparr>cw_command_id = command_id, cw_command_type = CommandType_ToString (cr_command_type command),
                cw_source_id = cr_source_id command, cw_request_id = cr_request_id command,
                cw_target_device_id = cr_target_device_id command, cw_request_payload = request_payload,
                cw_status = CommandStatusText (cr_status command), cw_error_code = cr_error_code command,
                cw_error_message = cr_error_message command, cw_device_ack = device_ack,
                cw_created_at = stored_time pg (cr_created_at command),
                cw_dispatched_at = map_option (stored_time pg) (cr_dispatched_at command),
                cw_updated_at = stored_time pg (cr_updated_at command),
                cw_completed_at = map_option (stored_time pg) (cr_completed_at command)\<rparr>
      | _ \<Rightarrow> None)"

text \<open>The foreign keys and the primary key of \<^verbatim>\<open>commands\<close>.\<close>

definition references_ok :: "database \<Rightarrow> command_row \<Rightarrow> bool" where
  "references_ok db row \<longleftrightarrow>
     fmlookup (db_sources db) (cw_source_id row) \<noteq> None \<and>
     (case cw_target_device_id row of None \<Rightarrow> True | Some d \<Rightarrow> fmlookup (db_devices db) d \<noteq> None)"

definition InsertCommand ::
    "postgres \<Rightarrow> json_lib \<Rightarrow> CommandRecord \<Rightarrow> fault \<Rightarrow> PostgresStore \<Rightarrow> (string + CommandRecord) \<times> PostgresStore" where
  "InsertCommand pg lib command fault =
     run_work True fault msg_pg_insert (\<lambda>db.
       case row_of_command pg lib command of
         None \<Rightarrow> Throws
       | Some row \<Rightarrow>
           if \<not> pg_accepts_command pg row then Throws
           else
             (case filter (\<lambda>r. cw_source_id r = cw_source_id row \<and> cw_request_id r = cw_request_id row) (command_rows db) of
                stored # _ \<Rightarrow> commit_rows (CommandFromRow lib stored) db
              | [] \<Rightarrow>
                  if fmlookup (db_commands db) (cw_command_id row) \<noteq> None \<or> \<not> references_ok db row then Throws
                  else commit_rows (CommandFromRow lib row)
                         (db\<lparr>db_commands := fmupd (cw_command_id row) row (db_commands db)\<rparr>)))"

definition TransitionCommand ::
    "postgres \<Rightarrow> json_lib \<Rightarrow> string \<Rightarrow> CommandStatus \<Rightarrow> CommandStatus \<Rightarrow> CommandUpdate \<Rightarrow> fault \<Rightarrow> PostgresStore \<Rightarrow>
     (string + CommandRecord) \<times> PostgresStore" where
  "TransitionCommand pg lib command_id expected desired update fault st =
     (if \<not> CanTransition expected desired
      then (Inl msg_pg_illegal, st\<lparr>ps_last_failure_kind := kPermanent\<rparr>)
      else run_work True fault msg_pg_transition (\<lambda>db.
        case (pg_uuid pg command_id, jsonb_column pg (JsonText lib (cu_device_ack update))) of
          (Some i, Some device_ack) \<Rightarrow>
            (case fmlookup (db_commands db) i of
               None \<Rightarrow> Aborts msg_pg_changed None
             | Some old \<Rightarrow>
                 if cw_status old \<noteq> CommandStatusText expected then Aborts msg_pg_changed None
                 else
                   let row = old\<lparr>cw_status := CommandStatusText desired, cw_error_code := cu_error_code update,
                                 cw_error_message := cu_error_message update, cw_device_ack := device_ack,
                                 cw_dispatched_at := map_option (stored_time pg) (cu_dispatched_at update),
                                 cw_completed_at := map_option (stored_time pg) (cu_completed_at update),
                                 cw_updated_at := stored_time pg (cu_updated_at update)\<rparr>
                   in if \<not> pg_accepts_command pg row then Throws
                      else commit_rows (CommandFromRow lib row) (db\<lparr>db_commands := fmupd i row (db_commands db)\<rparr>))
        | _ \<Rightarrow> Throws) st)"

definition expired_row :: "int \<Rightarrow> command_row \<Rightarrow> bool" where
  "expired_row before row \<longleftrightarrow>
     (cw_status row = ''succeeded'' \<or> cw_status row = ''failed'' \<or> cw_status row = ''timeout'' \<or>
      cw_status row = ''delivery_uncertain'') \<and>
     (case cw_completed_at row of None \<Rightarrow> False | Some t \<Rightarrow> t < before)"

definition expired_first :: "nat \<Rightarrow> int \<Rightarrow> database \<Rightarrow> command_row list" where
  "expired_first limit before db =
     take limit
       (sort_key (\<lambda>row. (the (cw_completed_at row), cw_command_id row)) (filter (expired_row before) (command_rows db)))"

definition DeleteExpiredTerminalCommands ::
    "postgres \<Rightarrow> int \<Rightarrow> nat \<Rightarrow> fault \<Rightarrow> PostgresStore \<Rightarrow> (string + nat) \<times> PostgresStore" where
  "DeleteExpiredTerminalCommands pg before batch_size fault st =
     (if batch_size > int64_limit then (Inl msg_pg_cleanup_range, st)
      else run_work True fault msg_pg_cleanup (\<lambda>db.
        let rows = expired_first batch_size (stored_time pg before) db
        in Commits (length rows)
             (db\<lparr>db_commands := fmdrop_set (set (map cw_command_id rows)) (db_commands db)\<rparr>)) st)"

end
