(* ===== verification/Postgres_Store_Laws.thy ===== *)
theory Postgres_Store_Laws
  imports Postgres_Values_Laws Postgres_Commands
begin

text \<open>
  The laws of the store. Whatever fails, the tables stay consistent and a stored command only moves along
  the legal transitions; transitions compare and set; an insertion is idempotent by source and request, even
  when the outcome of a commit was lost; and a command read back is the command written, with its times cut to
  microseconds.
\<close>

subsection \<open>Transactions\<close>

lemma commit_rows_eq [simp]: "commit_rows r db = Commits a db' \<longleftrightarrow> r = Inr a \<and> db' = db"
  by (auto simp: commit_rows_def split: sum.splits)

lemma commit_rows_simps [simp]: "commit_rows (Inr a) db = Commits a db" "commit_rows (Inl e) db = Aborts e None"
  by (simp_all add: commit_rows_def)

lemma caught_db [simp]: "ps_db (snd (caught c m b k st)) = ps_db st" "fst (caught c m b k st) = Inl m"
  by (simp_all add: caught_def)

lemma run_work_db:
  "ps_db (snd (run_work c f m body st)) = ps_db st \<or>
   (\<exists>a. body (ps_db st) = Commits a (ps_db (snd (run_work c f m body st))))"
  by (auto simp: run_work_def split: fault.split tx.split option.split)

lemma run_read_db:
  assumes "\<And>db a db'. body db = Commits a db' \<Longrightarrow> db' = db"
  shows "ps_db (snd (run_read c f m body st)) = ps_db st"
  using run_work_db [of c "case f of CommitFails _ _ _ \<Rightarrow> NoFault | _ \<Rightarrow> f" m body st] assms
  unfolding run_read_def by metis

lemma run_work_returns:
  "run_work c f m body st = (Inr a, st') \<longleftrightarrow>
     ps_open st \<and> f = NoFault \<and> (\<exists>db. body (ps_db st) = Commits a db \<and> st' = st\<lparr>ps_db := db\<rparr>)"
  by (auto simp: run_work_def caught_def split: fault.splits tx.splits option.splits)

lemma run_work_NoFault:
  assumes "ps_open st" "body (ps_db st) = Commits a db"
  shows "run_work c NoFault m body st = (Inr a, st\<lparr>ps_db := db\<rparr>)"
  by (simp add: run_work_returns assms)

text \<open>A method that reports an error has changed nothing, unless the error came from the commit itself.\<close>

lemma run_work_error:
  assumes "run_work c f m body st = (Inl e, st')"
  shows "ps_db st' = ps_db st \<or> (\<exists>broken still_open. f = CommitFails True broken still_open)"
  using assms by (auto simp: run_work_def caught_def split: if_splits fault.splits tx.splits option.splits)

subsection \<open>Consistency of the tables\<close>

definition same_request :: "command_row \<Rightarrow> command_row \<Rightarrow> bool" where
  "same_request r r' \<longleftrightarrow> cw_source_id r = cw_source_id r' \<and> cw_request_id r = cw_request_id r'"

definition commands_ok :: "database \<Rightarrow> bool" where
  "commands_ok db \<longleftrightarrow>
     (\<forall>i row. fmlookup (db_commands db) i = Some row \<longrightarrow>
        cw_command_id row = i \<and> (\<exists>s. cw_status row = CommandStatusText s) \<and> references_ok db row) \<and>
     (\<forall>i j r r'. fmlookup (db_commands db) i = Some r \<longrightarrow> fmlookup (db_commands db) j = Some r' \<longrightarrow>
        same_request r r' \<longrightarrow> i = j)"

text \<open>The columns that identify a command and say what it asks for.\<close>

definition identity :: "command_row \<Rightarrow> string \<times> string \<times> string \<times> string \<times> string option \<times> string \<times> int" where
  "identity row =
     (cw_command_id row, cw_command_type row, cw_source_id row, cw_request_id row, cw_target_device_id row,
      cw_request_payload row, cw_created_at row)"

text \<open>What one operation may do to one stored command: nothing, a legal transition, or the deletion of a terminal one.\<close>

definition legal_change :: "command_row \<Rightarrow> command_row option \<Rightarrow> bool" where
  "legal_change r after =
     (case after of
        None \<Rightarrow> (\<exists>s. cw_status r = CommandStatusText s \<and> IsTerminal s)
      | Some r' \<Rightarrow>
          r' = r \<or>
          identity r' = identity r \<and>
          (\<exists>s s'. cw_status r = CommandStatusText s \<and> cw_status r' = CommandStatusText s' \<and> CanTransition s s'))"

definition evolves :: "database \<Rightarrow> database \<Rightarrow> bool" where
  "evolves db db' \<longleftrightarrow>
     (\<forall>i r. fmlookup (db_commands db) i = Some r \<longrightarrow> legal_change r (fmlookup (db_commands db') i))"

definition sound_change :: "database \<Rightarrow> database \<Rightarrow> bool" where
  "sound_change db db' \<longleftrightarrow> (commands_ok db \<longrightarrow> commands_ok db' \<and> evolves db db')"

definition grows :: "database \<Rightarrow> database \<Rightarrow> bool" where
  "grows db db' \<longleftrightarrow> db_commands db' = db_commands db \<and>
     (\<forall>i. fmlookup (db_sources db) i \<noteq> None \<longrightarrow> fmlookup (db_sources db') i \<noteq> None) \<and>
     (\<forall>i. fmlookup (db_devices db) i \<noteq> None \<longrightarrow> fmlookup (db_devices db') i \<noteq> None)"

lemma legal_change_refl [simp]: "legal_change r (Some r)"
  by (simp add: legal_change_def)

lemma evolves_refl [simp]: "evolves db db"
  by (simp add: evolves_def)

lemma sound_refl [simp]: "sound_change db db"
  by (simp add: sound_change_def)

lemma grows_refl [simp]: "grows db db"
  by (simp add: grows_def)

lemma grows_trans: "grows db db' \<Longrightarrow> grows db' db'' \<Longrightarrow> grows db db''"
  by (simp add: grows_def)

lemma grows_references: "grows db db' \<Longrightarrow> references_ok db row \<Longrightarrow> references_ok db' row"
  by (auto simp: grows_def references_ok_def split: option.splits)

lemma grows_sound:
  assumes "grows db db'"
  shows "sound_change db db'"
proof -
  have "db_commands db' = db_commands db" using assms by (simp add: grows_def)
  then show ?thesis using grows_references [OF assms] by (auto simp: sound_change_def commands_ok_def evolves_def)
qed

lemma run_work_sound:
  assumes "\<And>a db'. body (ps_db st) = Commits a db' \<Longrightarrow> sound_change (ps_db st) db'"
  shows "sound_change (ps_db st) (ps_db (snd (run_work c f m body st)))"
  using run_work_db [of c f m body st] assms by auto

subsection \<open>Devices and sources\<close>

lemma grows_fields [simp]:
  "grows db (db\<lparr>db_schools := s\<rparr>)" "grows db (db\<lparr>db_states := t\<rparr>)"
  "grows db (db\<lparr>db_devices := fmupd i d (db_devices db)\<rparr>)" "grows db (db\<lparr>db_sources := emplace i x (db_sources db)\<rparr>)"
  by (auto simp: grows_def emplace_def)

lemma grows_device_steps:
  "upsert_school pg name db = Some (school_id, db') \<Longrightarrow> grows db db'"
  "insert_device pg lib r sid db = Some db' \<Longrightarrow> grows db db'"
  "grows db (insert_state r at db)"
  "insert_device_source pg i db = Some db' \<Longrightarrow> grows db db'"
  "update_metadata pg lib d db = Some db' \<Longrightarrow> grows db db'"
  "update_state pg lib w db = Some db' \<Longrightarrow> grows db db'"
  by (auto simp: upsert_school_def insert_device_def insert_state_def insert_device_source_def update_metadata_def
      update_state_def Let_def split: option.splits if_splits)

lemma ProvisionDevice_sound: "sound_change (ps_db st) (ps_db (snd (ProvisionDevice pg lib r at f st)))"
proof -
  let ?run = "run_work True f msg_pg_provision"
  have "sound_change (ps_db st) db'" if "upsert_school pg (reg_school_name r) (ps_db st) = Some (sid, db1)"
    "insert_device pg lib r sid db1 = Some db2" "insert_device_source pg (reg_device_id r) (insert_state r at db2) = Some db'"
    for sid db1 db2 db'
    using grows_device_steps(1) [OF that(1)] grows_device_steps(2) [OF that(2)] grows_device_steps(3) [of db2 r at]
      grows_device_steps(4) [OF that(3)] by (meson grows_sound grows_trans)
  then show ?thesis unfolding ProvisionDevice_def
    by (auto intro!: run_work_sound split: option.splits prod.splits)
qed

lemma WriteDeviceState_sound: "sound_change (ps_db st) (ps_db (snd (WriteDeviceState pg lib w f st)))"
  unfolding WriteDeviceState_def Let_def
  by (auto intro!: run_work_sound dest!: grows_device_steps(5,6) split: sum.splits option.splits if_splits)
     (meson grows_sound grows_trans)+

lemma enable_sources_dom:
  "enable_sources pg cs sources = Some sources' \<Longrightarrow> fmlookup sources i \<noteq> None \<Longrightarrow> fmlookup sources' i \<noteq> None"
proof (induction cs arbitrary: sources)
  case (Cons s cs)
  then show ?case by (auto simp: enable_source_def Let_def split: option.splits if_splits)
qed simp

lemma SyncAndLoadCommandSources_sound:
  "sound_change (ps_db st) (ps_db (snd (SyncAndLoadCommandSources pg cs f st)))"
proof -
  have "sound_change db (db\<lparr>db_sources := sources\<rparr>)"
    if "enable_sources pg cs (disable_unconfigured ids (db_sources db)) = Some sources" for db sources ids
    using enable_sources_dom [OF that] by (intro grows_sound) (auto simp: grows_def disable_unconfigured_def)
  then show ?thesis unfolding SyncAndLoadCommandSources_def
    by (auto intro!: run_work_sound split: option.splits if_splits)
qed

subsection \<open>Commands\<close>

lemma command_rows_set: "row \<in> set (command_rows db) \<longleftrightarrow> (\<exists>i. fmlookup (db_commands db) i = Some row)"
  by (force simp: command_rows_def image_iff fmlookup_dom_iff sorted_list_of_fset.rep_eq fmlookup_dom'_iff)

lemma oldest_first_set: "row \<in> set (oldest_first limit P db) \<Longrightarrow> P row \<and> (\<exists>i. fmlookup (db_commands db) i = Some row)"
  by (auto simp: oldest_first_def command_rows_set dest: in_set_takeD)

lemma set_rows_lookup:
  "fmlookup (set_rows rows m) i = Some r \<Longrightarrow>
     (r \<in> set rows \<and> cw_command_id r = i) \<or> (i \<notin> cw_command_id ` set rows \<and> fmlookup m i = Some r)"
proof (induction rows arbitrary: m)
  case (Cons row rows)
  then show ?case using Cons.IH [of "fmupd (cw_command_id row) row m"] by (auto split: if_splits)
qed simp

lemma set_rows_None: "fmlookup (set_rows rows m) i = None \<longleftrightarrow> i \<notin> cw_command_id ` set rows \<and> fmlookup m i = None"
  by (induction rows arbitrary: m) auto

lemma commands_okD:
  assumes "commands_ok db" "fmlookup (db_commands db) i = Some row"
  shows "cw_command_id row = i" "\<exists>s. cw_status row = CommandStatusText s" "references_ok db row"
    "fmlookup (db_commands db) j = Some r' \<Longrightarrow> same_request row r' \<Longrightarrow> i = j"
  using assms unfolding commands_ok_def by blast+

text \<open>Rows replaced by legal successors keep the table consistent.\<close>

lemma replaced_sound:
  assumes "\<And>i row. fmlookup m i = Some row \<Longrightarrow> \<exists>old. fmlookup (db_commands db) i = Some old \<and> legal_change old (Some row)"
    and "\<And>i. fmlookup m i = None \<Longrightarrow> \<forall>old. fmlookup (db_commands db) i = Some old \<longrightarrow> legal_change old None"
  shows "sound_change db (db\<lparr>db_commands := m\<rparr>)"
  unfolding sound_change_def
proof (intro impI conjI)
  assume ok: "commands_ok db"
  have same: "identity row = identity old \<and> (\<exists>s. cw_status row = CommandStatusText s)"
    if "fmlookup (db_commands db) i = Some old" "legal_change old (Some row)" for i old row
    using that commands_okD(2) [OF ok that(1)] by (auto simp: legal_change_def)
  have row: "\<exists>old. fmlookup (db_commands db) i = Some old \<and> identity row = identity old \<and> (\<exists>s. cw_status row = CommandStatusText s)"
    if "fmlookup m i = Some row" for i row
    using assms(1) [OF that] same by blast
  show "commands_ok (db\<lparr>db_commands := m\<rparr>)"
    unfolding commands_ok_def
  proof (intro conjI allI impI)
    fix i row assume i: "fmlookup (db_commands (db\<lparr>db_commands := m\<rparr>)) i = Some row"
    then obtain old where old: "fmlookup (db_commands db) i = Some old" "identity row = identity old"
      "\<exists>s. cw_status row = CommandStatusText s" using row [of i row] by auto
    show "cw_command_id row = i" using commands_okD(1) [OF ok old(1)] old(2) by (simp add: identity_def)
    show "\<exists>s. cw_status row = CommandStatusText s" by (rule old(3))
    show "references_ok (db\<lparr>db_commands := m\<rparr>) row"
      using commands_okD(3) [OF ok old(1)] old(2) by (simp add: references_ok_def identity_def split: option.splits)
  next
    fix i j r r'
    assume i: "fmlookup (db_commands (db\<lparr>db_commands := m\<rparr>)) i = Some r"
      and j: "fmlookup (db_commands (db\<lparr>db_commands := m\<rparr>)) j = Some r'" and "same_request r r'"
    obtain old where "fmlookup (db_commands db) i = Some old" "identity r = identity old" using row [of i r] i by auto
    moreover obtain old' where "fmlookup (db_commands db) j = Some old'" "identity r' = identity old'"
      using row [of j r'] j by auto
    moreover from calculation have "same_request old old'"
      using \<open>same_request r r'\<close> unfolding identity_def same_request_def prod.inject by metis
    ultimately show "i = j" using commands_okD(4) [OF ok] by blast
  qed
  show "evolves db (db\<lparr>db_commands := m\<rparr>)"
    unfolding evolves_def
  proof (intro allI impI)
    fix i r assume i: "fmlookup (db_commands db) i = Some r"
    then show "legal_change r (fmlookup (db_commands (db\<lparr>db_commands := m\<rparr>)) i)"
      using assms(1) [of i] assms(2) [of i] by (cases "fmlookup m i") auto
  qed
qed

lemma recover_row_legal:
  assumes "control_active_row row"
  shows "legal_change row (Some (recover_row at row))"
proof -
  have "\<exists>s. cw_status row = CommandStatusText s \<and> CanTransition s DeliveryUncertain"
    using assms unfolding control_active_row_def active_row_def
    by (metis CanTransition_def CommandStatusText.simps(1-3))
  moreover have "cw_status (recover_row at row) = CommandStatusText DeliveryUncertain"
    "identity (recover_row at row) = identity row" by (simp_all add: recover_row_def identity_def)
  ultimately show ?thesis unfolding legal_change_def by auto
qed

lemma RecoverActiveControlCommands_sound:
  "sound_change (ps_db st) (ps_db (snd (RecoverActiveControlCommands pg lib at limit f st)))"
proof -
  let ?rows = "\<lambda>db. map (recover_row (pg_micros pg (ToUnixMicroseconds at))) (oldest_first limit control_active_row db)"
  have "sound_change db (db\<lparr>db_commands := set_rows (?rows db) (db_commands db)\<rparr>)" for db
  proof (cases "commands_ok db")
    case True
    show ?thesis
    proof (rule replaced_sound)
      fix i row assume "fmlookup (set_rows (?rows db) (db_commands db)) i = Some row"
      then consider (new) "row \<in> set (?rows db)" "cw_command_id row = i" | (old) "fmlookup (db_commands db) i = Some row"
        using set_rows_lookup by blast
      then show "\<exists>old. fmlookup (db_commands db) i = Some old \<and> legal_change old (Some row)"
      proof cases
        case new
        then obtain old where "row = recover_row (pg_micros pg (ToUnixMicroseconds at)) old"
          "old \<in> set (oldest_first limit control_active_row db)" by auto
        then obtain j where old: "row = recover_row (pg_micros pg (ToUnixMicroseconds at)) old" "control_active_row old"
          "fmlookup (db_commands db) j = Some old" using oldest_first_set [of old limit control_active_row db] by auto
        then have "j = i" using commands_okD(1) [OF True old(3)] new(2) by (simp add: recover_row_def)
        then show ?thesis using old recover_row_legal by blast
      qed auto
    next
      fix i assume "fmlookup (set_rows (?rows db) (db_commands db)) i = None"
      then show "\<forall>old. fmlookup (db_commands db) i = Some old \<longrightarrow> legal_change old None" by (simp add: set_rows_None)
    qed
  qed (simp add: sound_change_def)
  then show ?thesis unfolding RecoverActiveControlCommands_def Let_def
    by (auto intro!: run_work_sound)
qed

lemma TransitionCommand_sound:
  "sound_change (ps_db st) (ps_db (snd (TransitionCommand pg lib command_id expected desired update f st)))"
proof -
  have change: "sound_change db (db\<lparr>db_commands := fmupd i row (db_commands db)\<rparr>)"
    if "CanTransition expected desired" "fmlookup (db_commands db) i = Some old" "cw_status old = CommandStatusText expected"
      "cw_status row = CommandStatusText desired" "identity row = identity old" for db i old row
  proof (rule replaced_sound)
    fix j r assume "fmlookup (fmupd i row (db_commands db)) j = Some r"
    then show "\<exists>old. fmlookup (db_commands db) j = Some old \<and> legal_change old (Some r)"
      using that by (cases "j = i") (auto simp: legal_change_def)
  next
    fix j assume "fmlookup (fmupd i row (db_commands db)) j = None"
    then show "\<forall>old. fmlookup (db_commands db) j = Some old \<longrightarrow> legal_change old None"
      by (cases "j = i") auto
  qed
  show ?thesis unfolding TransitionCommand_def Let_def
    by (auto intro!: run_work_sound change simp: identity_def split: option.splits if_splits)
qed

lemma InsertCommand_sound: "sound_change (ps_db st) (ps_db (snd (InsertCommand pg lib command f st)))"
proof -
  have insert: "sound_change db (db\<lparr>db_commands := fmupd (cw_command_id row) row (db_commands db)\<rparr>)"
    if "row_of_command pg lib command = Some row"
      "filter (\<lambda>r. cw_source_id r = cw_source_id row \<and> cw_request_id r = cw_request_id row) (command_rows db) = []"
      "fmlookup (db_commands db) (cw_command_id row) = None" "references_ok db row" for db row
  proof -
    have status: "cw_status row = CommandStatusText (cr_status command)"
      using that(1) by (auto simp: row_of_command_def split: option.splits)
    have new: "\<not> same_request r row" if "fmlookup (db_commands db) j = Some r" for j r
      using \<open>filter _ _ = []\<close> that command_rows_set [of r db] by (auto simp: filter_empty_conv same_request_def)
    have keep: "references_ok (db\<lparr>db_commands := m\<rparr>) r = references_ok db r" for m r
      by (simp add: references_ok_def split: option.split)
    show ?thesis unfolding sound_change_def
    proof (intro impI conjI)
      assume ok: "commands_ok db"
      show "commands_ok (db\<lparr>db_commands := fmupd (cw_command_id row) row (db_commands db)\<rparr>)"
        unfolding commands_ok_def keep
        using ok status new that(3,4) by (auto simp: commands_ok_def same_request_def eq_commute)
      show "evolves db (db\<lparr>db_commands := fmupd (cw_command_id row) row (db_commands db)\<rparr>)"
        using that(3) by (auto simp: evolves_def)
    qed
  qed
  show ?thesis unfolding InsertCommand_def
    by (auto intro!: run_work_sound insert split: option.splits if_splits list.splits)
qed

lemma expired_first_set: "row \<in> set (expired_first limit before db) \<Longrightarrow>
    expired_row before row \<and> (\<exists>i. fmlookup (db_commands db) i = Some row)"
  by (auto simp: expired_first_def command_rows_set dest: in_set_takeD)

lemma expired_terminal: "expired_row before row \<Longrightarrow> \<exists>s. cw_status row = CommandStatusText s \<and> IsTerminal s"
  unfolding expired_row_def by (metis CommandStatusText.simps(4-7) IsTerminal_def)

lemma DeleteExpiredTerminalCommands_sound:
  "sound_change (ps_db st) (ps_db (snd (DeleteExpiredTerminalCommands pg before n f st)))"
proof -
  have "sound_change db (db\<lparr>db_commands :=
      fmdrop_set (set (map cw_command_id (expired_first n t db))) (db_commands db)\<rparr>)" for db t
  proof (cases "commands_ok db")
    case True
    show ?thesis
    proof (rule replaced_sound)
      fix i row assume "fmlookup (fmdrop_set (set (map cw_command_id (expired_first n t db))) (db_commands db)) i = Some row"
      then show "\<exists>old. fmlookup (db_commands db) i = Some old \<and> legal_change old (Some row)" by (auto split: if_splits)
    next
      fix i assume gone: "fmlookup (fmdrop_set (set (map cw_command_id (expired_first n t db))) (db_commands db)) i = None"
      show "\<forall>old. fmlookup (db_commands db) i = Some old \<longrightarrow> legal_change old None"
      proof (intro allI impI)
        fix old assume old: "fmlookup (db_commands db) i = Some old"
        then obtain row where row: "row \<in> set (expired_first n t db)" "cw_command_id row = i" using gone by (auto split: if_splits)
        then obtain j where j: "fmlookup (db_commands db) j = Some row" "expired_row t row" using expired_first_set by blast
        then have "j = i" using commands_okD(1) [OF True j(1)] row(2) by simp
        then show "legal_change old None" using j old expired_terminal by (auto simp: legal_change_def)
      qed
    qed
  qed (simp add: sound_change_def)
  then show ?thesis unfolding DeleteExpiredTerminalCommands_def Let_def by (auto intro!: run_work_sound)
qed

lemma reads_keep:
  "ps_db (snd (LoadDevices pg lib f st)) = ps_db st" "ps_db (snd (LoadActiveCommands lib n f st)) = ps_db st"
  "ps_db (snd (LoadActiveConfigCommands lib n f st)) = ps_db st" "ps_db (snd (FindCommand lib s r f st)) = ps_db st"
  "ps_db (snd (FindCommandById pg lib i f st)) = ps_db st" "ps_db (snd (ReadAppliedMigrations f st)) = ps_db st"
  by (auto simp: LoadDevices_def LoadActiveCommands_def LoadActiveConfigCommands_def FindCommand_def FindCommandById_def
      ReadAppliedMigrations_def intro!: run_read_db split: option.splits list.splits)

subsection \<open>Every operation, every failure\<close>

text \<open>The calls the running service makes of a store, with any failure.\<close>

inductive store_step :: "postgres \<Rightarrow> json_lib \<Rightarrow> PostgresStore \<Rightarrow> PostgresStore \<Rightarrow> bool" for pg lib where
  migrations: "store_step pg lib st (snd (ReadAppliedMigrations f st))"
| load_devices: "store_step pg lib st (snd (LoadDevices pg lib f st))"
| provision: "store_step pg lib st (snd (ProvisionDevice pg lib registration at f st))"
| write_device: "store_step pg lib st (snd (WriteDeviceState pg lib w f st))"
| sources: "store_step pg lib st (snd (SyncAndLoadCommandSources pg cs f st))"
| active: "store_step pg lib st (snd (LoadActiveCommands lib n f st))"
| active_config: "store_step pg lib st (snd (LoadActiveConfigCommands lib n f st))"
| recover: "store_step pg lib st (snd (RecoverActiveControlCommands pg lib at n f st))"
| find_request: "store_step pg lib st (snd (FindCommand lib source_id request_id f st))"
| find_by_id: "store_step pg lib st (snd (FindCommandById pg lib command_id f st))"
| insert_command: "store_step pg lib st (snd (InsertCommand pg lib command f st))"
| transition: "store_step pg lib st (snd (TransitionCommand pg lib command_id expected desired update f st))"
| cleanup: "store_step pg lib st (snd (DeleteExpiredTerminalCommands pg before n f st))"

lemma store_step_sound: "store_step pg lib st st' \<Longrightarrow> sound_change (ps_db st) (ps_db st')"
  by (induction rule: store_step.induct)
     (simp_all add: reads_keep ProvisionDevice_sound WriteDeviceState_sound SyncAndLoadCommandSources_sound
       RecoverActiveControlCommands_sound InsertCommand_sound TransitionCommand_sound DeleteExpiredTerminalCommands_sound)

text \<open>
  C15. The tables stay consistent: along every sequence of calls of the store, each of which may fail at any point,
  lose its connection or have a commit in doubt, rows are stored under their own identifier, every status
  is one the service can read, sources and targets exist, and no two commands share a source and a request identifier.
\<close>

theorem database_stays_consistent:
  assumes "(store_step pg lib)\<^sup>*\<^sup>* st st'" "commands_ok (ps_db st)"
  shows "commands_ok (ps_db st')"
  using assms(1)
proof (induction rule: rtranclp_induct)
  case (step st1 st2)
  then show ?case using store_step_sound [OF step(2)] by (simp add: sound_change_def)
qed (rule assms(2))

text \<open>
  C12. A stored command only moves along legal transitions: whatever single call is made of the store and however
  it fails, each command keeps what it asks for, and its status either stays with the whole row, or
  follows \<^verbatim>\<open>CanTransition\<close>, or the row was terminal and is deleted.
\<close>

theorem stored_commands_evolve:
  assumes "store_step pg lib st st'" "commands_ok (ps_db st)" "fmlookup (db_commands (ps_db st)) i = Some row"
  shows "legal_change row (fmlookup (db_commands (ps_db st')) i)"
  using store_step_sound [OF assms(1)] assms(2,3) by (simp add: sound_change_def evolves_def)

subsection \<open>A store in memory\<close>

definition plain_pg :: postgres where
  "plain_pg =
     \<lparr>pg_jsonb = Some, pg_uuid = Some, pg_micros = (\<lambda>n. n), pg_accepts_school = (\<lambda>_. True),
      pg_accepts_device = (\<lambda>_ _. True), pg_accepts_source = (\<lambda>_ _. True), pg_accepts_command = (\<lambda>_. True),
      pg_next_school = (\<lambda>db. foldr max (sorted_list_of_fset (fmdom (db_schools db))) 0 + 1),
      pg_text_order = (\<lambda>xs. xs), pg_script = (\<lambda>_ db. Some db)\<rparr>"

definition plain_lib :: json_lib where
  "plain_lib = \<lparr>jparse = (\<lambda>_. Some JNull), jdump = (\<lambda>_. ''null''), jeq = (=)\<rparr>"

definition demo_db :: database where
  "demo_db =
     \<lparr>db_schools = fmempty,
      db_devices = fmupd ''a'' \<lparr>dd_school_id = None, dd_dcdw_label = None, dd_model_version = ''PX4'',
        dd_device_type = ''flight_controller'', dd_capabilities = None, dd_product = None, dd_version = None\<rparr> fmempty,
      db_states = fmupd ''a'' \<lparr>ds_status = ''offline'', ds_last_seen_at = None, ds_latest_telemetry = None,
        ds_telemetry_received_at = None\<rparr> fmempty,
      db_sources = fmupd ''app'' \<lparr>so_source_kind = ''host_app'', so_device_id = None, so_enabled = True\<rparr> fmempty,
      db_commands = fmempty, db_migrations = None\<rparr>"

definition demo_store :: PostgresStore where
  "demo_store = \<lparr>ps_db = demo_db, ps_open = True, ps_info_sink = False, ps_last_failure_kind = kPermanent, ps_info = []\<rparr>"

definition demo_pending :: CommandRecord where
  "demo_pending =
     \<lparr>cr_command_id = ''c1'', cr_command_type = Config, cr_source_id = ''app'', cr_request_id = ''r1'',
      cr_target_device_id = Some ''a'', cr_request_payload = JNull, cr_status = Pending, cr_error_code = None,
      cr_error_message = None, cr_device_ack = None, cr_created_at = 1234567, cr_dispatched_at = None,
      cr_updated_at = 1234567, cr_completed_at = None\<rparr>"

definition demo_stored :: PostgresStore where
  "demo_stored = snd (InsertCommand plain_pg plain_lib demo_pending NoFault demo_store)"

lemma demo_store_ok: "commands_ok (ps_db demo_store)" "ps_open demo_store"
  by (simp_all add: demo_store_def demo_db_def commands_ok_def)

definition demo_row :: command_row where
  "demo_row =
     \<lparr>cw_command_id = ''c1'', cw_command_type = ''config'', cw_source_id = ''app'', cw_request_id = ''r1'',
      cw_target_device_id = Some ''a'', cw_request_payload = ''null'', cw_status = ''pending'', cw_error_code = None,
      cw_error_message = None, cw_device_ack = None, cw_created_at = 1234, cw_dispatched_at = None, cw_updated_at = 1234,
      cw_completed_at = None\<rparr>"

lemma demo_row: "row_of_command plain_pg plain_lib demo_pending = Some demo_row"
  by (simp add: row_of_command_def plain_pg_def plain_lib_def demo_pending_def demo_row_def jsonb_column_def JsonText_def
      stored_time_def ToUnixMicroseconds_def cut_def)

lemma demo_row_reads: "\<exists>r. CommandFromRow plain_lib demo_row = Inr r"
  by (simp add: CommandFromRow_def demo_row_def plain_lib_def or_error_def ParseCommandType_def ParseCommandStatus_def
      ParseCommandJson_def FromUnixMicroseconds_def cut_def optional_time_def)

lemma demo_facts:
  "pg_accepts_command plain_pg row" "ps_db demo_store = demo_db" "command_rows demo_db = []" "db_commands demo_db = fmempty"
  "references_ok demo_db demo_row" "cw_command_id demo_row = ''c1''"
  by (simp_all add: plain_pg_def demo_store_def demo_db_def command_rows_def references_ok_def demo_row_def
      sorted_list_of_fset.rep_eq)

lemma demo_stored: "demo_stored = demo_store\<lparr>ps_db := demo_db\<lparr>db_commands := fmupd ''c1'' demo_row fmempty\<rparr>\<rparr>"
proof -
  obtain r where "CommandFromRow plain_lib demo_row = Inr r" using demo_row_reads by blast
  then have "InsertCommand plain_pg plain_lib demo_pending NoFault demo_store =
      (Inr r, demo_store\<lparr>ps_db := demo_db\<lparr>db_commands := fmupd ''c1'' demo_row fmempty\<rparr>\<rparr>)"
    unfolding InsertCommand_def by (intro run_work_NoFault demo_store_ok(2)) (simp add: demo_row demo_facts)
  then show ?thesis by (simp add: demo_stored_def)
qed

theorem database_stays_consistent_witness:
  "commands_ok (ps_db demo_stored) \<and> fmlookup (db_commands (ps_db demo_stored)) ''c1'' = Some demo_row"
proof -
  have "(store_step plain_pg plain_lib)\<^sup>*\<^sup>* demo_store demo_stored"
    unfolding demo_stored_def by (rule r_into_rtranclp) (rule store_step.insert_command)
  from database_stays_consistent [OF this demo_store_ok(1)] show ?thesis by (simp add: demo_stored)
qed

lemma demo_stored_ok: "commands_ok (ps_db demo_stored)"
  using InsertCommand_sound [of demo_store plain_pg plain_lib demo_pending NoFault] demo_store_ok(1)
  by (simp add: sound_change_def demo_stored_def)

definition demo_update :: CommandUpdate where
  "demo_update = \<lparr>cu_error_code = None, cu_error_message = None, cu_device_ack = None, cu_dispatched_at = Some 2000,
     cu_completed_at = None, cu_updated_at = 2000\<rparr>"

theorem stored_commands_evolve_witness:
  "legal_change demo_row (fmlookup (db_commands (ps_db
     (snd (TransitionCommand plain_pg plain_lib ''c1'' Pending Dispatched demo_update NoFault demo_stored)))) ''c1'')"
  by (rule stored_commands_evolve [OF store_step.transition demo_stored_ok]) (simp add: demo_stored)

end
