(* ===== verification/Postgres_Command_Laws.thy ===== *)
theory Postgres_Command_Laws
  imports Postgres_Store_Laws
begin

text \<open>
  What the store promises about one command: transitions compare and set, an inserted command is found as
  it was inserted, inserting again changes nothing, and cleaning up deletes the oldest expired commands only.
\<close>

subsection \<open>Compare and set\<close>


subsection \<open>Insertion\<close>

definition kept_json :: "postgres \<Rightarrow> json_lib \<Rightarrow> json \<Rightarrow> bool" where
  "kept_json pg lib j \<longleftrightarrow> (\<exists>txt. pg_jsonb pg (jdump lib j) = Some txt \<and> jparse lib txt = Some j)"

definition kept_time :: "postgres \<Rightarrow> int \<Rightarrow> bool" where
  "kept_time pg t \<longleftrightarrow> clock_range t \<and> pg_micros pg (cut t) = cut t"

definition kept_command :: "postgres \<Rightarrow> json_lib \<Rightarrow> CommandRecord \<Rightarrow> bool" where
  "kept_command pg lib c \<longleftrightarrow>
     pg_uuid pg (cr_command_id c) = Some (cr_command_id c) \<and> kept_json pg lib (cr_request_payload c) \<and>
     pred_option (kept_json pg lib) (cr_device_ack c) \<and> kept_time pg (cr_created_at c) \<and>
     kept_time pg (cr_updated_at c) \<and> pred_option (kept_time pg) (cr_dispatched_at c) \<and>
     pred_option (kept_time pg) (cr_completed_at c)"

text \<open>The command with its times cut to microseconds.\<close>

definition to_micros :: "CommandRecord \<Rightarrow> CommandRecord" where
  "to_micros c =
     c\<lparr>cr_created_at := cut (cr_created_at c) * 1000, cr_updated_at := cut (cr_updated_at c) * 1000,
       cr_dispatched_at := map_option (\<lambda>t. cut t * 1000) (cr_dispatched_at c),
       cr_completed_at := map_option (\<lambda>t. cut t * 1000) (cr_completed_at c)\<rparr>"

lemma stored_time_kept: "kept_time pg t \<Longrightarrow> FromUnixMicroseconds (stored_time pg t) = Inr (cut t * 1000)"
  using FromUnixMicroseconds_cut [of t] by (simp add: kept_time_def stored_time_def ToUnixMicroseconds_def)

lemma optional_time_kept:
  "pred_option (kept_time pg) t \<Longrightarrow>
     optional_time (map_option (stored_time pg) t) = Inr (map_option (\<lambda>t. cut t * 1000) t)"
  by (cases t) (simp_all add: optional_time_def stored_time_kept)

lemma row_roundtrip:
  assumes "kept_command pg lib c" "row_of_command pg lib c = Some row"
  shows "CommandFromRow lib row = Inr (to_micros c)" "cw_command_id row = cr_command_id c"
    "cw_source_id row = cr_source_id c" "cw_request_id row = cr_request_id c"
proof -
  obtain payload where payload: "pg_jsonb pg (jdump lib (cr_request_payload c)) = Some payload"
    "jparse lib payload = Some (cr_request_payload c)" using assms(1) by (auto simp: kept_command_def kept_json_def)
  show "CommandFromRow lib row = Inr (to_micros c)"
    using assms payload
    by (cases "cr_device_ack c"; cases c)
       (auto simp: row_of_command_def kept_command_def kept_json_def jsonb_column_def JsonText_def CommandFromRow_def
         ParseCommandType_ToString or_error_def ParseCommandJson_def stored_time_kept optional_time_kept to_micros_def
         split: option.splits)
  show "cw_command_id row = cr_command_id c" "cw_source_id row = cr_source_id c" "cw_request_id row = cr_request_id c"
    using assms by (auto simp: row_of_command_def kept_command_def split: option.splits)
qed

lemma stored_request_only:
  assumes "commands_ok db" "fmlookup (db_commands db) i = Some row"
  shows "\<exists>rest. filter (\<lambda>r. cw_source_id r = cw_source_id row \<and> cw_request_id r = cw_request_id row) (command_rows db) = row # rest"
proof -
  let ?found = "filter (\<lambda>r. cw_source_id r = cw_source_id row \<and> cw_request_id r = cw_request_id row) (command_rows db)"
  have only: "r = row" if r: "r \<in> set ?found" for r
  proof -
    obtain j where j: "fmlookup (db_commands db) j = Some r" using r by (auto simp: command_rows_set)
    have "same_request row r" using r by (auto simp: same_request_def)
    from commands_okD(4) [OF assms j this] show ?thesis using assms(2) j by simp
  qed
  have "row \<in> set ?found" using assms(2) by (auto simp: command_rows_set)
  then obtain r rest where "?found = r # rest" by (cases ?found) auto
  moreover have "r = row" by (rule only) (simp add: calculation)
  ultimately show ?thesis by simp
qed

lemma InsertCommand_body:
  assumes "ps_open st" "row_of_command pg lib c = Some row" "pg_accepts_command pg row"
  shows "fmlookup (db_commands (ps_db st)) i = Some stored \<Longrightarrow> same_request stored row \<Longrightarrow> commands_ok (ps_db st) \<Longrightarrow>
      CommandFromRow lib stored = Inr r \<Longrightarrow> InsertCommand pg lib c NoFault st = (Inr r, st)"
    and "(\<And>j r. fmlookup (db_commands (ps_db st)) j = Some r \<Longrightarrow> \<not> same_request r row) \<Longrightarrow>
      fmlookup (db_commands (ps_db st)) (cw_command_id row) = None \<Longrightarrow> references_ok (ps_db st) row \<Longrightarrow>
      CommandFromRow lib row = Inr r \<Longrightarrow> InsertCommand pg lib c NoFault st =
        (Inr r, st\<lparr>ps_db := (ps_db st)\<lparr>db_commands := fmupd (cw_command_id row) row (db_commands (ps_db st))\<rparr>\<rparr>)"
proof -
  assume stored: "fmlookup (db_commands (ps_db st)) i = Some stored" "same_request stored row" "commands_ok (ps_db st)"
    "CommandFromRow lib stored = Inr r"
  obtain rest where "filter (\<lambda>r. cw_source_id r = cw_source_id row \<and> cw_request_id r = cw_request_id row)
      (command_rows (ps_db st)) = stored # rest"
    using stored_request_only [OF stored(3,1)] stored(2) unfolding same_request_def by auto
  then show "InsertCommand pg lib c NoFault st = (Inr r, st)"
    using assms stored(4) by (simp add: InsertCommand_def run_work_def)
next
  assume new: "\<And>j r. fmlookup (db_commands (ps_db st)) j = Some r \<Longrightarrow> \<not> same_request r row"
    "fmlookup (db_commands (ps_db st)) (cw_command_id row) = None" "references_ok (ps_db st) row" "CommandFromRow lib row = Inr r"
  have none: "filter (\<lambda>r. cw_source_id r = cw_source_id row \<and> cw_request_id r = cw_request_id row) (command_rows (ps_db st)) = []"
    using new(1) by (auto simp: filter_empty_conv command_rows_set same_request_def)
  show "InsertCommand pg lib c NoFault st =
      (Inr r, st\<lparr>ps_db := (ps_db st)\<lparr>db_commands := fmupd (cw_command_id row) row (db_commands (ps_db st))\<rparr>\<rparr>)"
    using assms none new(2-4) by (simp add: InsertCommand_def run_work_def)
qed

text \<open>
  C17. What is inserted is found again: a new command whose source and target exist is stored, and looked up by its
  source and request or by its identifier it comes back as it was, with its times cut to whole microseconds. The
  payloads are taken to be such that \<^verbatim>\<open>jsonb\<close> keeps them.
\<close>

theorem insert_find_roundtrip:
  assumes "ps_open st" "commands_ok (ps_db st)" "kept_command pg lib c" "row_of_command pg lib c = Some row"
    and "pg_accepts_command pg row" "references_ok (ps_db st) row" "fmlookup (db_commands (ps_db st)) (cr_command_id c) = None"
    and "\<And>j r. fmlookup (db_commands (ps_db st)) j = Some r \<Longrightarrow> \<not> same_request r row"
  shows "\<exists>st'. InsertCommand pg lib c NoFault st = (Inr (to_micros c), st') \<and>
    FindCommand lib (cr_source_id c) (cr_request_id c) NoFault st' = (Inr (Some (to_micros c)), st') \<and>
    FindCommandById pg lib (cr_command_id c) NoFault st' = (Inr (Some (to_micros c)), st')"
proof -
  note row = row_roundtrip [OF assms(3,4)]
  let ?st = "st\<lparr>ps_db := (ps_db st)\<lparr>db_commands := fmupd (cw_command_id row) row (db_commands (ps_db st))\<rparr>\<rparr>"
  have inserted: "InsertCommand pg lib c NoFault st = (Inr (to_micros c), ?st)"
    by (rule InsertCommand_body(2) [OF assms(1,4,5) assms(8) _ assms(6) row(1)]) (simp_all add: row(2) assms(7))
  have "commands_ok (ps_db ?st)"
    using InsertCommand_sound [of st pg lib c NoFault] assms(2) by (simp add: inserted sound_change_def)
  moreover have stored: "fmlookup (db_commands (ps_db ?st)) (cw_command_id row) = Some row" by simp
  ultimately obtain rest where "filter (\<lambda>r. cw_source_id r = cr_source_id c \<and> cw_request_id r = cr_request_id c)
      (command_rows (ps_db ?st)) = row # rest" using stored_request_only [of "ps_db ?st" _ row] row(3,4) by metis
  then have "FindCommand lib (cr_source_id c) (cr_request_id c) NoFault ?st = (Inr (Some (to_micros c)), ?st)"
    using assms(1) by (simp add: FindCommand_def run_read_def run_work_def row(1))
  moreover have "FindCommandById pg lib (cr_command_id c) NoFault ?st = (Inr (Some (to_micros c)), ?st)"
    using assms(1,3) by (simp add: FindCommandById_def run_read_def run_work_def row(1,2) kept_command_def)
  ultimately show ?thesis using inserted by blast
qed

lemma InsertCommand_returns:
  assumes "InsertCommand pg lib c f st = (Inr r, st')" "commands_ok (ps_db st)"
  shows "\<exists>row i stored. row_of_command pg lib c = Some row \<and> pg_accepts_command pg row \<and> ps_open st \<and>
    fmlookup (db_commands (ps_db st')) i = Some stored \<and> same_request stored row \<and> CommandFromRow lib stored = Inr r \<and>
    ps_open st'"
proof -
  obtain row where row: "row_of_command pg lib c = Some row" "pg_accepts_command pg row" "ps_open st"
    using assms(1) by (auto simp: InsertCommand_def run_work_returns split: option.splits if_splits)
  let ?found = "filter (\<lambda>r. cw_source_id r = cw_source_id row \<and> cw_request_id r = cw_request_id row) (command_rows (ps_db st))"
  have "\<exists>i stored. fmlookup (db_commands (ps_db st')) i = Some stored \<and> same_request stored row \<and>
      CommandFromRow lib stored = Inr r \<and> ps_open st'"
  proof (cases ?found)
    case (Cons stored rest)
    then have "stored \<in> set ?found" by simp
    then obtain i where "fmlookup (db_commands (ps_db st)) i = Some stored" "same_request stored row"
      by (auto simp: command_rows_set same_request_def)
    then show ?thesis using assms(1) row Cons by (auto simp: InsertCommand_def run_work_returns)
  next
    case Nil
    then show ?thesis using assms(1) row
      by (auto simp: InsertCommand_def run_work_returns same_request_def split: if_splits)
  qed
  then show ?thesis using row by blast
qed

text \<open>
  C13. Retrying an insertion is safe: if inserting a command would have returned a record, then after an attempt
  that was interrupted in any way, also one whose commit took effect although it was reported as failed, a
  retry on a working connection returns the same record and leaves the same database as one undisturbed insertion.
\<close>

theorem insert_retry_exactly_once:
  assumes "commands_ok (ps_db st)" "InsertCommand pg lib c NoFault st = (Inr r, st')"
    and "st1 = snd (InsertCommand pg lib c f st)"
  shows "\<exists>st2. InsertCommand pg lib c NoFault (st1\<lparr>ps_open := True\<rparr>) = (Inr r, st2) \<and> ps_db st2 = ps_db st'"
proof -
  obtain row i stored where ins: "row_of_command pg lib c = Some row" "pg_accepts_command pg row"
      "fmlookup (db_commands (ps_db st')) i = Some stored" "same_request stored row" "CommandFromRow lib stored = Inr r"
    using InsertCommand_returns [OF assms(2,1)] by blast
  have ok': "commands_ok (ps_db st')"
    using InsertCommand_sound [of st pg lib c NoFault] assms(1,2) by (simp add: sound_change_def)
  obtain body where body: "\<And>f st. InsertCommand pg lib c f st = run_work True f msg_pg_insert body st"
    unfolding InsertCommand_def by blast
  have commits: "body (ps_db st) = Commits r (ps_db st')"
    using assms(2) unfolding body run_work_returns by auto
  then have "ps_db st1 = ps_db st \<or> ps_db st1 = ps_db st'"
    using run_work_db [of True f msg_pg_insert body st] unfolding assms(3) body by auto
  then show ?thesis
  proof
    assume "ps_db st1 = ps_db st'"
    then have "InsertCommand pg lib c NoFault (st1\<lparr>ps_open := True\<rparr>) = (Inr r, st1\<lparr>ps_open := True\<rparr>)"
      using ins ok' by (intro InsertCommand_body(1) [of _ pg lib c row i stored]) simp_all
    then show ?thesis using \<open>ps_db st1 = ps_db st'\<close> by simp
  next
    assume "ps_db st1 = ps_db st"
    then have "body (ps_db (st1\<lparr>ps_open := True\<rparr>)) = Commits r (ps_db st')" using commits by simp
    then show ?thesis unfolding body run_work_returns by simp
  qed
qed

subsection \<open>Cleanup\<close>

lemma command_rows_ids:
  assumes "commands_ok db"
  shows "map cw_command_id (command_rows db) = sorted_list_of_fset (fmdom (db_commands db))"
proof -
  have "cw_command_id (the (fmlookup (db_commands db) i)) = i" if "i |\<in>| fmdom (db_commands db)" for i
    using that commands_okD(1) [OF assms] by (auto simp: fmlookup_dom_iff)
  then show ?thesis by (auto simp: command_rows_def intro!: map_idI)
qed

definition expired_sorted :: "int \<Rightarrow> database \<Rightarrow> command_row list" where
  "expired_sorted before db =
     sort_key (\<lambda>row. (the (cw_completed_at row), cw_command_id row)) (filter (expired_row before) (command_rows db))"

lemma expired_first_take: "expired_first n before db = take n (expired_sorted before db)"
  by (simp add: expired_first_def expired_sorted_def)

lemma expired_sorted_set: "set (expired_sorted before db) = {row. expired_row before row \<and> (\<exists>i. fmlookup (db_commands db) i = Some row)}"
  by (auto simp: expired_sorted_def command_rows_set)

lemma expired_sorted_distinct:
  assumes "commands_ok db"
  shows "distinct (map cw_command_id (expired_sorted before db))"
proof -
  have "distinct (map cw_command_id (command_rows db))" by (simp add: command_rows_ids [OF assms] sorted_list_of_fset.rep_eq)
  then have "distinct (map cw_command_id (filter (expired_row before) (command_rows db)))" by (rule distinct_map_filter)
  moreover have "mset (map cw_command_id (expired_sorted before db)) =
      mset (map cw_command_id (filter (expired_row before) (command_rows db)))" by (simp add: expired_sorted_def)
  ultimately show ?thesis using mset_eq_imp_distinct_iff by blast
qed

lemma expired_sorted_oldest:
  assumes "x \<in> set (take n (expired_sorted before db))" "y \<in> set (drop n (expired_sorted before db))"
  shows "the (cw_completed_at x) \<le> the (cw_completed_at y)"
proof -
  let ?key = "\<lambda>row. (the (cw_completed_at row), cw_command_id row)"
  have "sorted (map ?key (expired_sorted before db))" by (simp add: expired_sorted_def)
  then have "sorted (map ?key (take n (expired_sorted before db)) @ map ?key (drop n (expired_sorted before db)))"
    by (metis append_take_drop_id map_append)
  then have "?key x \<le> ?key y" using assms by (auto simp: sorted_append)
  then show ?thesis by (auto simp: less_eq_prod_def)
qed

text \<open>
  C18. Cleaning up deletes the oldest expired terminal commands, at most as many as asked for: the number reported
  is the number of rows gone, each of them was terminal and completed before the limit, the others are as they were,
  and if an expired command is left, then the batch was full and nothing younger than it was deleted.
\<close>

theorem cleanup_oldest_expired:
  assumes "commands_ok (ps_db st)" "DeleteExpiredTerminalCommands pg before n f st = (Inr k, st')"
  defines "gone \<equiv> {i. fmlookup (db_commands (ps_db st)) i \<noteq> None \<and> fmlookup (db_commands (ps_db st')) i = None}"
  shows "k = card gone \<and> k \<le> n \<and>
    (\<forall>i. i \<notin> gone \<longrightarrow> fmlookup (db_commands (ps_db st')) i = fmlookup (db_commands (ps_db st)) i) \<and>
    (\<forall>i row. i \<in> gone \<and> fmlookup (db_commands (ps_db st)) i = Some row \<longrightarrow> expired_row (stored_time pg before) row) \<and>
    (\<forall>i row j left. i \<in> gone \<and> fmlookup (db_commands (ps_db st)) i = Some row \<and>
       fmlookup (db_commands (ps_db st')) j = Some left \<and> expired_row (stored_time pg before) left \<longrightarrow>
       k = n \<and> the (cw_completed_at row) \<le> the (cw_completed_at left))"
proof -
  let ?db = "ps_db st" and ?t = "stored_time pg before"
  let ?S = "expired_sorted ?t ?db"
  let ?ids = "cw_command_id ` set (take n ?S)"
  note ok = commands_okD [OF assms(1)] and distinct = expired_sorted_distinct [OF assms(1), of ?t]
  have k: "k = length (take n ?S)" and after: "db_commands (ps_db st') = fmdrop_set ?ids (db_commands ?db)"
    using assms(2) by (auto simp: DeleteExpiredTerminalCommands_def run_work_returns Let_def expired_first_take split: if_splits)
  have member: "row \<in> set (take n ?S)" if ids: "cw_command_id row \<in> ?ids" and look: "fmlookup (db_commands ?db) (cw_command_id row) = Some row" for row
  proof -
    obtain r where r: "r \<in> set (take n ?S)" "cw_command_id r = cw_command_id row" using ids by (auto simp: image_iff)
    then obtain i where i: "fmlookup (db_commands ?db) i = Some r" using expired_sorted_set [of ?t ?db] in_set_takeD [OF r(1)] by auto
    have "r = row" using ok(1) [OF i] i r(2) look by simp
    then show ?thesis using r(1) by simp
  qed
  have gone: "gone = ?ids"
  proof -
    have "fmlookup (db_commands ?db) i \<noteq> None" if ids: "i \<in> ?ids" for i
    proof -
      obtain r where r: "r \<in> set (take n ?S)" "cw_command_id r = i" using ids by (auto simp: image_iff)
      then obtain j where "fmlookup (db_commands ?db) j = Some r" using expired_sorted_set [of ?t ?db] in_set_takeD [OF r(1)] by auto
      then show ?thesis using ok(1) r(2) by fastforce
    qed
    then show ?thesis unfolding gone_def after by auto
  qed
  have row: "row \<in> set (take n ?S)" if "i \<in> gone" "fmlookup (db_commands ?db) i = Some row" for i row
    using that member [of row] ok(1) [OF that(2)] by (simp add: gone)
  have "card ?ids = length (take n ?S)"
    using distinct by (metis distinct_card distinct_take length_map list.set_map take_map)
  then have "k = card gone \<and> k \<le> n" by (simp add: k gone)
  moreover have "fmlookup (db_commands (ps_db st')) i = fmlookup (db_commands ?db) i" if "i \<notin> gone" for i
    using that by (simp add: after gone)
  moreover have "expired_row ?t r" if "i \<in> gone" "fmlookup (db_commands ?db) i = Some r" for i r
    using in_set_takeD [OF row [OF that]] expired_sorted_set [of ?t ?db] by auto
  moreover have "k = n \<and> the (cw_completed_at r) \<le> the (cw_completed_at left)"
    if "i \<in> gone" "fmlookup (db_commands ?db) i = Some r" "fmlookup (db_commands (ps_db st')) j = Some left" "expired_row ?t left" for i r j left
  proof -
    have j: "fmlookup (db_commands ?db) j = Some left" "j \<notin> ?ids" using that(3) by (auto simp: after split: if_splits)
    then have "left \<in> set ?S" "left \<notin> set (take n ?S)" using that(4) ok(1) [OF j(1)] expired_sorted_set [of ?t ?db] by auto
    then have "left \<in> set (drop n ?S)" by (metis Un_iff append_take_drop_id set_append)
    then have "n \<le> length ?S" by (cases "n \<le> length ?S") auto
    then show ?thesis using expired_sorted_oldest [OF row [OF that(1,2)] \<open>left \<in> set (drop n ?S)\<close>] by (simp add: k)
  qed
  ultimately show ?thesis by blast
qed

subsection \<open>Witnesses\<close>

lemma demo_lookup: "fmlookup (db_commands (ps_db demo_stored)) i = (if i = ''c1'' then Some demo_row else None)"
  "ps_open demo_stored"
  by (simp_all add: demo_stored demo_store_def)

lemma plain_simps:
  "pg_uuid plain_pg = Some" "jsonb_column plain_pg txt = Some txt" "pg_accepts_command plain_pg row"
  "stored_time plain_pg t = ToUnixMicroseconds t"
  by (simp_all add: plain_pg_def jsonb_column_def stored_time_def split: option.split)

lemma plain_kept: "kept_time plain_pg t \<longleftrightarrow> clock_range t"
  by (simp add: kept_time_def plain_pg_def)


theorem insert_find_roundtrip_witness:
  "\<exists>st'. InsertCommand plain_pg plain_lib demo_pending NoFault demo_store = (Inr (to_micros demo_pending), st') \<and>
     FindCommand plain_lib ''app'' ''r1'' NoFault st' = (Inr (Some (to_micros demo_pending)), st') \<and>
     cr_created_at (to_micros demo_pending) = 1234000"
proof -
  have "kept_command plain_pg plain_lib demo_pending"
    by (simp add: kept_command_def plain_kept) (simp add: plain_pg_def plain_lib_def kept_json_def demo_pending_def clock_range_def)
  from insert_find_roundtrip [OF demo_store_ok(2,1) this demo_row demo_facts(1)] show ?thesis
    by (auto simp: demo_facts demo_pending_def to_micros_def cut_def)
qed

theorem insert_retry_exactly_once_witness:
  "\<exists>r st2. InsertCommand plain_pg plain_lib demo_pending NoFault
      ((snd (InsertCommand plain_pg plain_lib demo_pending (CommitFails True True False) demo_store))\<lparr>ps_open := True\<rparr>) = (Inr r, st2) \<and>
     ps_db st2 = ps_db demo_stored"
proof -
  obtain r where r: "CommandFromRow plain_lib demo_row = Inr r" using demo_row_reads by blast
  have "InsertCommand plain_pg plain_lib demo_pending NoFault demo_store = (Inr r, demo_stored)"
    using demo_store_ok(2) r
    by (auto simp: InsertCommand_def run_work_returns demo_row demo_facts demo_stored)
  from insert_retry_exactly_once [OF demo_store_ok(1) this refl, of "CommitFails True True False"] show ?thesis by blast
qed

definition demo_done :: PostgresStore where
  "demo_done = demo_store\<lparr>ps_db := demo_db\<lparr>db_commands := fmupd ''c1''
     (demo_row\<lparr>cw_status := ''succeeded'', cw_completed_at := Some 7\<rparr>) fmempty\<rparr>\<rparr>"

lemma demo_done_ok: "commands_ok (ps_db demo_done)" "ps_open demo_done"
proof -
  have "\<exists>s. ''succeeded'' = CommandStatusText s" by (rule exI [of _ Succeeded]) simp
  then show "commands_ok (ps_db demo_done)"
    by (simp add: commands_ok_def demo_done_def demo_store_def demo_row_def references_ok_def demo_db_def)
  show "ps_open demo_done" by (simp add: demo_done_def demo_store_def)
qed

theorem cleanup_oldest_expired_witness:
  "\<exists>k st'. DeleteExpiredTerminalCommands plain_pg 9000 5 NoFault demo_done = (Inr k, st') \<and> k = 1 \<and>
     card {i. fmlookup (db_commands (ps_db demo_done)) i \<noteq> None \<and> fmlookup (db_commands (ps_db st')) i = None} = 1"
proof -
  have rows: "command_rows (ps_db demo_done) = [demo_row\<lparr>cw_status := ''succeeded'', cw_completed_at := Some 7\<rparr>]"
    by (simp add: command_rows_def demo_done_def sorted_list_of_fset.rep_eq)
  have run: "DeleteExpiredTerminalCommands plain_pg 9000 5 NoFault demo_done = (Inr 1, snd (DeleteExpiredTerminalCommands plain_pg 9000 5 NoFault demo_done))"
    using demo_done_ok(2)
    by (simp add: DeleteExpiredTerminalCommands_def run_work_def int64_limit_def Let_def expired_first_def rows)
       (simp add: expired_row_def stored_time_def ToUnixMicroseconds_def cut_def plain_pg_def demo_row_def)
  from cleanup_oldest_expired [OF demo_done_ok(1) run] show ?thesis using run by auto
qed

end
