(* ===== verification/Postgres_Device_Laws.thy ===== *)
theory Postgres_Device_Laws
  imports Postgres_Store_Laws
begin

text \<open>
  What the store promises about devices: a write changes exactly what it is asked to, and a device is created once.
\<close>

subsection \<open>Devices\<close>

lemma WriteDeviceState_returns:
  assumes "WriteDeviceState pg lib w f st = (Inr u, st')"
  shows "\<exists>db1. (if dw_write_metadata w then update_metadata pg lib (dw_record w) (ps_db st) else Some (ps_db st)) = Some db1 \<and>
    (if dw_write_status w \<or> dw_write_telemetry w then update_state pg lib w db1 else Some db1) = Some (ps_db st')"
  using assms
  by (auto simp: WriteDeviceState_def PlanDeviceWrite_def run_work_returns Let_def split: sum.splits if_splits option.splits)


lemma device_view_cong:
  assumes "fmlookup (db_devices db') i = fmlookup (db_devices db) i" "fmlookup (db_states db') i = fmlookup (db_states db) i"
    and "\<And>j name. fmlookup (db_schools db) j = Some name \<Longrightarrow> fmlookup (db_schools db') j = Some name"
    and "\<And>d j. fmlookup (db_devices db) i = Some d \<Longrightarrow> dd_school_id d = Some j \<Longrightarrow> fmlookup (db_schools db) j \<noteq> None"
  shows "device_view_of db' i = device_view_of db i"
proof (cases "fmlookup (db_devices db) i")
  case (Some d)
  show ?thesis
  proof (cases "dd_school_id d")
    case (Some j)
    then obtain name where "fmlookup (db_schools db) j = Some name" using assms(4) \<open>fmlookup (db_devices db) i = Some d\<close> by blast
    then show ?thesis using assms(3) \<open>fmlookup (db_devices db) i = Some d\<close> Some
      by (simp add: device_view_of_def assms(1,2) split: option.split)
  qed (simp add: device_view_of_def assms(1,2) Some split: option.split)
qed (simp add: device_view_of_def assms(1,2))

lemma insert_device_source_Some:
  "insert_device_source pg i db = Some db' \<Longrightarrow>
     db' = db\<lparr>db_sources := emplace i \<lparr>so_source_kind = ''device'', so_device_id = Some i, so_enabled = True\<rparr> (db_sources db)\<rparr>"
  by (auto simp: insert_device_source_def Let_def split: if_splits)

lemma ProvisionDevice_returns:
  assumes "ProvisionDevice pg lib r at f st = (Inr d, st')"
  shows "\<exists>sid db1 db2 view. upsert_school pg (reg_school_name r) (ps_db st) = Some (sid, db1) \<and>
    insert_device pg lib r sid db1 = Some db2 \<and>
    insert_device_source pg (reg_device_id r) (insert_state r at db2) = Some (ps_db st') \<and>
    device_view_of (ps_db st') (reg_device_id r) = Some view \<and> DeviceFromRow lib view = Inr d"
  using assms by (auto simp: ProvisionDevice_def run_work_returns split: if_splits option.splits prod.splits)

text \<open>
  Creating a device twice is creating it once: once a device is stored, a further registration with the same
  identifier, whatever it contains, leaves its row and its latest state untouched, and the record returned is
  the stored one. New schools get unused numbers, as a sequence gives them.
\<close>

theorem provision_idempotent:
  assumes "ProvisionDevice pg lib r at f st = (Inr d, st')" "fmlookup (db_devices (ps_db st)) (reg_device_id r) = Some row"
    and "fmlookup (db_states (ps_db st)) (reg_device_id r) = Some s" "device_view_of (ps_db st) (reg_device_id r) = Some view"
    and "\<And>j. dd_school_id row = Some j \<Longrightarrow> fmlookup (db_schools (ps_db st)) j \<noteq> None"
    and "\<And>db. fmlookup (db_schools db) (pg_next_school pg db) = None"
  shows "db_devices (ps_db st') = db_devices (ps_db st) \<and> db_states (ps_db st') = db_states (ps_db st) \<and>
    db_commands (ps_db st') = db_commands (ps_db st) \<and> DeviceFromRow lib view = Inr d"
proof -
  obtain sid db1 db2 view' where steps: "upsert_school pg (reg_school_name r) (ps_db st) = Some (sid, db1)"
    "insert_device pg lib r sid db1 = Some db2" "insert_device_source pg (reg_device_id r) (insert_state r at db2) = Some (ps_db st')"
    and view': "device_view_of (ps_db st') (reg_device_id r) = Some view'" "DeviceFromRow lib view' = Inr d"
    using ProvisionDevice_returns [OF assms(1)] by blast
  have school: "db_devices db1 = db_devices (ps_db st)" "db_states db1 = db_states (ps_db st)" "db_commands db1 = db_commands (ps_db st)"
    "fmlookup (db_schools (ps_db st)) j = Some name \<Longrightarrow> fmlookup (db_schools db1) j = Some name" for j name
    using steps(1) assms(6) [of "ps_db st"] by (auto simp: upsert_school_def Let_def split: option.splits if_splits)
  have "db2 = db1" using steps(2) assms(2) by (auto simp: insert_device_def school(1) Let_def split: option.splits if_splits)
  then have after: "db_devices (ps_db st') = db_devices (ps_db st)" "db_states (ps_db st') = db_states (ps_db st)"
      "db_commands (ps_db st') = db_commands (ps_db st)" "db_schools (ps_db st') = db_schools db1"
    using insert_device_source_Some [OF steps(3)] assms(3) by (simp_all add: insert_state_def emplace_def school Let_def)
  have "view' = view"
    using device_view_cong [of "ps_db st'" "reg_device_id r" "ps_db st"] view'(1) assms(2,4,5) school(4) by (simp add: after)
  then show ?thesis using after view'(2) by simp
qed

subsection \<open>Witnesses\<close>

definition demo_device :: DeviceRecord where
  "demo_device =
     \<lparr>dr_device_id = ''a'', dr_school_id = 0, dr_school_name = [], dr_dcdw_label = None, dr_model_version = ''PX4'',
      dr_status = Online, dr_last_seen_at = Some 5000, dr_latest_telemetry = None, dr_telemetry_received_at = None,
      dr_revision = 1, dr_device_type = FlightController, dr_capabilities = None, dr_product = None, dr_version = None\<rparr>"

definition demo_write :: DesiredDeviceWrite where
  "demo_write = \<lparr>dw_record = demo_device, dw_revision = 1, dw_write_metadata = False, dw_write_status = True,
     dw_write_telemetry = False, dw_urgency = Immediate\<rparr>"


definition demo_registration :: Registration where
  "demo_registration =
     \<lparr>reg_device_id = ''a'', reg_status = RegOnline, reg_school_name = None, reg_dcdw_label = Some ''x'',
      reg_device_type = FlightController, reg_capabilities = None, reg_product = None, reg_version = None\<rparr>"

lemma plain_next_school: "fmlookup (db_schools db) (pg_next_school plain_pg db) = None"
proof -
  have "i \<le> foldr max xs 0" if "i \<in> set xs" for i :: int and xs using that by (induction xs) auto
  then have "i \<le> foldr max (sorted_list_of_fset (fmdom (db_schools db))) 0" if "i |\<in>| fmdom (db_schools db)" for i
    using that by simp
  then show ?thesis by (force simp: plain_pg_def fmlookup_dom_iff)
qed

theorem provision_idempotent_witness:
  "\<exists>d st'. ProvisionDevice plain_pg plain_lib demo_registration 9 NoFault demo_store = (Inr d, st') \<and>
     db_devices (ps_db st') = db_devices demo_db \<and> db_states (ps_db st') = db_states demo_db"
proof -
  have "\<exists>d st'. ProvisionDevice plain_pg plain_lib demo_registration 9 NoFault demo_store = (Inr d, st')"
    by (simp add: ProvisionDevice_def run_work_returns demo_registration_def upsert_school_def insert_device_def
        jsonb_column_def CapabilitiesText_def JsonText_def plain_pg_def demo_store_def demo_db_def insert_device_source_def
        insert_state_def device_view_of_def emplace_def Let_def DeviceFromRow_def ParseDeviceTelemetry_def
        CapabilitiesFromField_def OptionalJson_def optional_time_def)
  then obtain d st' where run: "ProvisionDevice plain_pg plain_lib demo_registration 9 NoFault demo_store = (Inr d, st')" by blast
  let ?row = "\<lparr>dd_school_id = None, dd_dcdw_label = None, dd_model_version = ''PX4'', dd_device_type = ''flight_controller'',
      dd_capabilities = None, dd_product = None, dd_version = None\<rparr>"
  let ?state = "\<lparr>ds_status = ''offline'', ds_last_seen_at = None, ds_latest_telemetry = None, ds_telemetry_received_at = None\<rparr>"
  have rows: "fmlookup (db_devices (ps_db demo_store)) (reg_device_id demo_registration) = Some ?row"
    "fmlookup (db_states (ps_db demo_store)) (reg_device_id demo_registration) = Some ?state"
    "device_view_of (ps_db demo_store) (reg_device_id demo_registration) = Some (the (device_view_of (ps_db demo_store) ''a''))"
    by (simp_all add: demo_store_def demo_db_def demo_registration_def device_view_of_def)
  from provision_idempotent [OF run rows _ plain_next_school] show ?thesis
    using run by (auto simp: demo_store_def)
qed

end
