(* ===== verification/External_Bridge.thy ===== *)
theory External_Bridge
  imports Mqtt_Client Device_Service
begin

text \<open>
  \<^verbatim>\<open>RuntimeExternalBridge\<close> of \<^verbatim>\<open>service_environment.cpp\<close>: what the device service shows to the outside, as
  retained MQTT messages. The pointers of the bridge to the MQTT client and to the log are flags; the client itself is
  the second component of the state. The methods hold the mutex of the bridge and are single steps.

  The clock is read at the number of effects so far. Serialising a document throws where a text in it is not UTF-8;
  \<open>xe_dumps\<close> tells which documents can be serialised. The log does not throw.
\<close>

record external_env =
  xe_mosq :: mosquitto_lib
  xe_json :: json_lib
  xe_dumps :: "json \<Rightarrow> bool"
  xe_now :: "nat \<Rightarrow> int"

record RuntimeExternalBridge =
  xb_mqtt :: bool
  xb_logger :: bool
  xb_topic_namespace :: string
  xb_device_directory :: DeviceDirectory
  xb_enabled :: bool
  xb_log :: "(Level \<times> string) list"

type_synonym external = "RuntimeExternalBridge \<times> MqttClient"

definition RuntimeExternalBridge_new :: RuntimeExternalBridge where
  "RuntimeExternalBridge_new =
     \<lparr>xb_mqtt = False, xb_logger = False, xb_topic_namespace = [], xb_device_directory = DeviceDirectory_new,
      xb_enabled = True, xb_log = []\<rparr>"

definition xb_write :: "Level \<Rightarrow> string \<Rightarrow> RuntimeExternalBridge \<Rightarrow> RuntimeExternalBridge" where
  "xb_write level message b = b\<lparr>xb_log := xb_log b @ [(level, message)]\<rparr>"

definition xe_time :: "external_env \<Rightarrow> external \<Rightarrow> int" where
  "xe_time env s = xe_now env (length (xb_log (fst s)) + mq_count (snd s))"

definition External_Disable :: "RuntimeExternalBridge \<Rightarrow> RuntimeExternalBridge" where
  "External_Disable b = b\<lparr>xb_enabled := False, xb_mqtt := False, xb_logger := False\<rparr>"

definition External_Diagnose :: "string \<Rightarrow> RuntimeExternalBridge \<Rightarrow> RuntimeExternalBridge" where
  "External_Diagnose message b = (if \<not> xb_enabled b \<or> \<not> xb_logger b then b else xb_write kError message b)"

definition External_Inform :: "string \<Rightarrow> RuntimeExternalBridge \<Rightarrow> RuntimeExternalBridge" where
  "External_Inform message b = (if \<not> xb_enabled b \<or> \<not> xb_logger b then b else xb_write kInfo message b)"

definition SnapshotFor :: "PublishedState \<Rightarrow> Snapshot" where
  "SnapshotFor published = (let r = ps_record published in
     \<lparr>sn_device_id = dr_device_id r, sn_revision = dr_revision r, sn_school_id = dr_school_id r,
      sn_school_name = dr_school_name r, sn_dcdw_label = dr_dcdw_label r, sn_model_version = dr_model_version r,
      sn_online = (dr_status r = Online), sn_last_seen_at = dr_last_seen_at r,
      sn_telemetry_received_at = dr_telemetry_received_at r, sn_latest_telemetry = dr_latest_telemetry r,
      sn_degraded = ps_degraded published, sn_device_type = DeviceType_ToString (dr_device_type r),
      sn_capabilities = dr_capabilities r, sn_product = dr_product r, sn_version = dr_version r\<rparr>)"

definition DirectoryEntryFor :: "PublishedState \<Rightarrow> DirectoryEntry" where
  "DirectoryEntryFor published = (let r = ps_record published in
     \<lparr>de_device_id = dr_device_id r, de_school_name = dr_school_name r, de_dcdw_label = dr_dcdw_label r,
      de_model_version = dr_model_version r, de_online = (dr_status r = Online),
      de_device_type = DeviceType_ToString (dr_device_type r), de_capabilities = dr_capabilities r,
      de_product = dr_product r, de_version = dr_version r\<rparr>)"

text \<open>Serialising and publishing a document: False if an exception left the method.\<close>

definition publish_document :: "external_env \<Rightarrow> string \<Rightarrow> string \<Rightarrow> json \<Rightarrow> external \<Rightarrow> bool \<times> external" where
  "publish_document env topic failure document s =
     (if \<not> xe_dumps env document then (False, s)
      else case PublishStateEvent (xe_mosq env) topic (jdump (xe_json env) document) (snd s) of
             (Inr _, c) \<Rightarrow> (True, fst s, c)
           | (Inl _, c) \<Rightarrow> (True, xb_write kError failure (fst s), c))"

definition PublishStateLocked :: "external_env \<Rightarrow> PublishedState \<Rightarrow> external \<Rightarrow> bool \<times> external" where
  "PublishStateLocked env published s =
     publish_document env
       (StateEventTopic (xb_topic_namespace (fst s)) (dr_device_id (ps_record published))) msg_env_publish_state
       (BuildStateEvent (SnapshotFor published) (ps_reason published) (xe_time env s)) s"

definition PublishDirectoryLocked :: "external_env \<Rightarrow> external \<Rightarrow> bool \<times> external" where
  "PublishDirectoryLocked env s =
     publish_document env (DeviceDirectoryTopic (xb_topic_namespace (fst s))) msg_env_publish_directory
       (BuildDeviceDirectorySnapshot (DeviceDirectory_Entries (xb_device_directory (fst s)))
          (DeviceDirectory_Revision (xb_device_directory (fst s))) (xe_time env s)) s"

text \<open>The handler around the body of a publication.\<close>

definition report_exception :: "string \<Rightarrow> bool \<times> external \<Rightarrow> external" where
  "report_exception message outcome =
     (case outcome of
        (True, s) \<Rightarrow> s
      | (False, b, c) \<Rightarrow> (if xb_logger b then xb_write kError message b else b, c))"

definition External_Publish :: "external_env \<Rightarrow> PublishedState \<Rightarrow> external \<Rightarrow> external" where
  "External_Publish env published s =
     (case s of (b, c) \<Rightarrow>
        if \<not> xb_enabled b then s
        else case DeviceDirectory_Update (xe_json env) (DirectoryEntryFor published) (xb_device_directory b) of
          (directory_changed, directory) \<Rightarrow>
            let s1 = (b\<lparr>xb_device_directory := directory\<rparr>, c) in
            if \<not> xb_mqtt b \<or> \<not> xb_logger b then s1
            else report_exception msg_env_publish_exception
              (case PublishStateLocked env published s1 of
                 (False, s2) \<Rightarrow> (False, s2)
               | (True, s2) \<Rightarrow> if directory_changed then PublishDirectoryLocked env s2 else (True, s2)))"

fun publish_states :: "external_env \<Rightarrow> PublishedState list \<Rightarrow> external \<Rightarrow> bool \<times> external" where
  "publish_states env [] s = (True, s)"
| "publish_states env (p # ps) s =
     (case PublishStateLocked env p s of (False, s') \<Rightarrow> (False, s') | (True, s') \<Rightarrow> publish_states env ps s')"

definition PublishFullSnapshot :: "external_env \<Rightarrow> PublishedState list \<Rightarrow> external \<Rightarrow> external" where
  "PublishFullSnapshot env published_states s =
     (case s of (b, c) \<Rightarrow>
        if \<not> xb_enabled b then s
        else
          let directory = snd (DeviceDirectory_Replace (xe_json env) (map DirectoryEntryFor published_states) (xb_device_directory b));
              s1 = (b\<lparr>xb_device_directory := directory\<rparr>, c)
          in if \<not> xb_mqtt b \<or> \<not> xb_logger b then s1
             else report_exception msg_env_snapshot_exception
               (case PublishDirectoryLocked env s1 of
                  (False, s2) \<Rightarrow> (False, s2)
                | (True, s2) \<Rightarrow> publish_states env published_states s2))"

subsection \<open>What the broker retains\<close>

text \<open>The retained message of each topic after the publications the client library accepted.\<close>

fun retain :: "mqtt_effect \<Rightarrow> (string \<rightharpoonup> string) \<Rightarrow> (string \<rightharpoonup> string)" where
  "retain (PublishCall kind topic payload qos True MosqSuccess) m = m(topic \<mapsto> payload)"
| "retain _ m = m"

definition retained :: "MqttClient \<Rightarrow> string \<rightharpoonup> string" where
  "retained c = fold retain (mq_effects c) Map.empty"

definition retains :: "mqtt_effect \<Rightarrow> bool" where
  "retains e \<longleftrightarrow> (\<exists>kind topic payload qos. e = PublishCall kind topic payload qos True MosqSuccess)"

lemma retain_other: "\<not> retains e \<Longrightarrow> retain e m = m"
  by (cases "(e, m)" rule: retain.cases) (auto simp: retains_def)

lemma fold_others: "\<forall>e\<in>set es. \<not> retains e \<Longrightarrow> fold retain es m = m"
  by (induction es) (simp_all add: retain_other)

lemma retained_others:
  "mq_effects c' = mq_effects c @ es \<Longrightarrow> \<forall>e\<in>set es. \<not> retains e \<Longrightarrow> retained c' = retained c"
  by (simp add: retained_def fold_others)

text \<open>From its n-th effect on the library accepts every publication, and every document can be serialised.\<close>

definition accepting :: "external_env \<Rightarrow> nat \<Rightarrow> bool" where
  "accepting env n \<longleftrightarrow>
     (\<forall>m\<ge>n. ml_result (xe_mosq env) m = MosqSuccess) \<and>
     (\<forall>d. xe_dumps env d \<and> length (jdump (xe_json env) d) \<le> int_max)"

definition attached :: "RuntimeExternalBridge \<Rightarrow> bool" where
  "attached b \<longleftrightarrow> xb_enabled b \<and> xb_mqtt b \<and> xb_logger b"

lemma publish_document_accepted:
  assumes "accepting env n" "n \<le> mq_count (snd s)" "topic \<noteq> []"
  obtains c where "publish_document env topic failure d s = (True, fst s, c)" "n \<le> mq_count c"
    "retained c = (retained (snd s))(topic \<mapsto> jdump (xe_json env) d)"
proof -
  have result: "ml_result (xe_mosq env) (mq_count (snd s)) = MosqSuccess" "xe_dumps env d"
    "\<not> int_max < length (jdump (xe_json env) d)"
    using assms(1,2) by (auto simp: accepting_def not_less)
  show thesis
    using assms(2,3)
    by (intro that [of "snd (snd (publish_document env topic failure d s))"])
       (simp_all add: publish_document_def PublishStateEvent_def publish_untracked_def lib_call_def Let_def result
        mq_emit_def retained_def, simp add: mq_count_def)
qed

text \<open>The topics of the bridge are not empty and pairwise different.\<close>

lemma topics_distinct [simp]:
  "StateEventTopic ns i \<noteq> []" "DeviceDirectoryTopic ns \<noteq> []" "StateEventTopic ns i \<noteq> DeviceDirectoryTopic ns"
  "DeviceDirectoryTopic ns \<noteq> StateEventTopic ns i" "StateEventTopic ns i = StateEventTopic ns j \<longleftrightarrow> i = j"
proof -
  have "i @ ''/state'' \<noteq> ''directory''"
    by (auto simp: append_eq_Cons_conv)
  then show "StateEventTopic ns i \<noteq> DeviceDirectoryTopic ns" "DeviceDirectoryTopic ns \<noteq> StateEventTopic ns i"
    unfolding StateEventTopic_def DeviceDirectoryTopic_def by auto
qed (simp_all add: StateEventTopic_def DeviceDirectoryTopic_def)

subsection \<open>The view from outside\<close>

definition last_state :: "PublishedState list \<Rightarrow> string \<Rightarrow> PublishedState option" where
  "last_state ps device_id = List.find (\<lambda>p. dr_device_id (ps_record p) = device_id) (rev ps)"

lemma last_state_snoc [simp]:
  "last_state [] i = None"
  "last_state (ps @ [p]) i = (if dr_device_id (ps_record p) = i then Some p else last_state ps i)"
  by (simp_all add: last_state_def)

text \<open>An entry of the directory shows a published state if they agree, or compare as equal.\<close>

definition shows_state :: "json_lib \<Rightarrow> DirectoryEntry \<Rightarrow> PublishedState \<Rightarrow> bool" where
  "shows_state lib e p \<longleftrightarrow>
     e = DirectoryEntryFor p \<or> DirectoryEntry_eq lib e (DirectoryEntryFor p) \<or> DirectoryEntry_eq lib (DirectoryEntryFor p) e"

definition directory_shows :: "json_lib \<Rightarrow> DeviceDirectory \<Rightarrow> PublishedState list \<Rightarrow> bool" where
  "directory_shows lib dir ps \<longleftrightarrow>
     (\<forall>i. rel_option (shows_state lib) (fmlookup (dd_entries dir) i) (last_state ps i))"

definition states_retained :: "external_env \<Rightarrow> string \<Rightarrow> PublishedState list \<Rightarrow> MqttClient \<Rightarrow> bool" where
  "states_retained env ns ps c \<longleftrightarrow>
     (\<forall>i p. last_state ps i = Some p \<longrightarrow>
        (\<exists>t. retained c (StateEventTopic ns i) =
           Some (jdump (xe_json env) (BuildStateEvent (SnapshotFor p) (ps_reason p) t))))"

definition directory_retained :: "external_env \<Rightarrow> RuntimeExternalBridge \<Rightarrow> MqttClient \<Rightarrow> bool" where
  "directory_retained env b c \<longleftrightarrow>
     (\<exists>t. retained c (DeviceDirectoryTopic (xb_topic_namespace b)) =
        Some (jdump (xe_json env) (BuildDeviceDirectorySnapshot (DeviceDirectory_Entries (xb_device_directory b))
          (DeviceDirectory_Revision (xb_device_directory b)) t)))"

definition view_current :: "external_env \<Rightarrow> nat \<Rightarrow> PublishedState list \<Rightarrow> external \<Rightarrow> bool" where
  "view_current env n ps s \<longleftrightarrow>
     attached (fst s) \<and> n \<le> mq_count (snd s) \<and> directory_retained env (fst s) (snd s) \<and>
     states_retained env (xb_topic_namespace (fst s)) ps (snd s) \<and>
     directory_shows (xe_json env) (xb_device_directory (fst s)) ps"

lemma entry_id [simp]: "de_device_id (DirectoryEntryFor p) = dr_device_id (ps_record p)"
  by (simp add: DirectoryEntryFor_def Let_def)

lemma directory_of_states:
  "fmlookup (directory_of (map DirectoryEntryFor ps)) i = map_option DirectoryEntryFor (last_state ps i)"
  by (induction ps rule: rev_induct) (simp_all add: directory_of_def)

lemma Update_shows:
  assumes "directory_shows lib dir ps" "DeviceDirectory_Update lib (DirectoryEntryFor p) dir = (changed, dir')"
  shows "directory_shows lib dir' (ps @ [p])" "\<not> changed \<Longrightarrow> dir' = dir"
  using assms
  by (auto simp: DeviceDirectory_Update_def Let_def directory_shows_def shows_state_def split: if_splits option.splits)

lemma Replace_shows:
  "directory_shows lib (snd (DeviceDirectory_Replace lib (map DirectoryEntryFor ps) dir)) ps"
proof (cases "map_eq (DirectoryEntry_eq lib) (directory_of (map DirectoryEntryFor ps)) (dd_entries dir)")
  case True
  have kept: "rel_option (shows_state lib) (fmlookup (dd_entries dir) i) (last_state ps i)" for i
  proof (cases "fmlookup (directory_of (map DirectoryEntryFor ps)) i")
    case None
    then have "i |\<notin>| fmdom (dd_entries dir)" using True by (metis map_eq_def fmdomE option.simps(3))
    with None show ?thesis by (simp add: fmdom_notD directory_of_states)
  next
    case (Some e)
    then have "opt_eq (DirectoryEntry_eq lib) (Some e) (fmlookup (dd_entries dir) i)"
      using True unfolding map_eq_def by (metis (no_types, lifting) fBallE fmdomI)
    with Some show ?thesis
      by (cases "fmlookup (dd_entries dir) i") (auto simp: directory_of_states shows_state_def)
  qed
  have "rel_option (shows_state lib) (map_option DirectoryEntryFor (last_state ps i)) (last_state ps i)" for i
    by (cases "last_state ps i") (auto simp: shows_state_def)
  with kept True show ?thesis
    by (simp add: directory_shows_def DeviceDirectory_Replace_def Let_def directory_of_states)
next
  case False
  have "rel_option (shows_state lib) (map_option DirectoryEntryFor (last_state ps i)) (last_state ps i)" for i
    by (cases "last_state ps i") (auto simp: shows_state_def)
  with False show ?thesis
    by (simp add: directory_shows_def DeviceDirectory_Replace_def Let_def directory_of_states)
qed
lemma publish_state_view:
  assumes "accepting env n" "n \<le> mq_count (snd s)"
    "states_retained env (xb_topic_namespace (fst s)) ps (snd s)"
  obtains c where "PublishStateLocked env p s = (True, fst s, c)" "n \<le> mq_count c"
    "states_retained env (xb_topic_namespace (fst s)) (ps @ [p]) c"
    "retained c (DeviceDirectoryTopic (xb_topic_namespace (fst s))) =
       retained (snd s) (DeviceDirectoryTopic (xb_topic_namespace (fst s)))"
proof -
  obtain c where c: "PublishStateLocked env p s = (True, fst s, c)" "n \<le> mq_count c"
    "retained c = (retained (snd s))(StateEventTopic (xb_topic_namespace (fst s)) (dr_device_id (ps_record p)) \<mapsto>
       jdump (xe_json env) (BuildStateEvent (SnapshotFor p) (ps_reason p) (xe_time env s)))"
    unfolding PublishStateLocked_def using publish_document_accepted [OF assms(1,2)] topics_distinct(1) by metis
  show thesis by (rule that [OF c(1,2)]) (use assms(3) in \<open>auto simp: c(3) states_retained_def\<close>)
qed

lemma publish_directory_view:
  assumes "accepting env n" "n \<le> mq_count (snd s)"
    "states_retained env (xb_topic_namespace (fst s)) ps (snd s)"
  obtains c where "PublishDirectoryLocked env s = (True, fst s, c)" "n \<le> mq_count c"
    "states_retained env (xb_topic_namespace (fst s)) ps c" "directory_retained env (fst s) c"
proof -
  obtain c where c: "PublishDirectoryLocked env s = (True, fst s, c)" "n \<le> mq_count c"
    "retained c = (retained (snd s))(DeviceDirectoryTopic (xb_topic_namespace (fst s)) \<mapsto>
       jdump (xe_json env) (BuildDeviceDirectorySnapshot (DeviceDirectory_Entries (xb_device_directory (fst s)))
          (DeviceDirectory_Revision (xb_device_directory (fst s))) (xe_time env s)))"
    unfolding PublishDirectoryLocked_def using publish_document_accepted [OF assms(1,2)] topics_distinct(2) by metis
  show thesis by (rule that [OF c(1,2)]) (use assms(3) in \<open>auto simp: c(3) states_retained_def directory_retained_def\<close>)
qed

lemma publish_states_view:
  assumes "accepting env n" "n \<le> mq_count (snd s)" "directory_retained env (fst s) (snd s)"
    "states_retained env (xb_topic_namespace (fst s)) ps (snd s)"
  shows "\<exists>c. publish_states env qs s = (True, fst s, c) \<and> n \<le> mq_count c \<and> directory_retained env (fst s) c \<and>
    states_retained env (xb_topic_namespace (fst s)) (ps @ qs) c"
  using assms
proof (induction qs arbitrary: s ps)
  case Nil
  then show ?case by (cases s) simp
next
  case (Cons q qs)
  obtain c where c: "PublishStateLocked env q s = (True, fst s, c)" "n \<le> mq_count c"
    "states_retained env (xb_topic_namespace (fst s)) (ps @ [q]) c" "directory_retained env (fst s) c"
    using publish_state_view [OF Cons.prems(1,2,4)] Cons.prems(3) by (metis directory_retained_def)
  then show ?case using Cons.IH [where s = "(fst s, c)" and ps = "ps @ [q]"] Cons.prems(1) by simp
qed

lemma PublishFullSnapshot_view:
  assumes "accepting env n" "n \<le> mq_count (snd s)" "attached (fst s)"
  shows "view_current env n ps (PublishFullSnapshot env ps s)"
proof -
  obtain b c where s: "s = (b, c)" by (cases s)
  let ?dir = "snd (DeviceDirectory_Replace (xe_json env) (map DirectoryEntryFor ps) (xb_device_directory b))"
  let ?b = "b\<lparr>xb_device_directory := ?dir\<rparr>"
  have "states_retained env (xb_topic_namespace ?b) [] c" by (simp add: states_retained_def)
  then obtain c1 where c1: "PublishDirectoryLocked env (?b, c) = (True, ?b, c1)" "n \<le> mq_count c1"
    "states_retained env (xb_topic_namespace ?b) [] c1" "directory_retained env ?b c1"
    using publish_directory_view [where s = "(?b, c)", OF assms(1)] assms(2) s by auto
  obtain c2 where c2: "publish_states env ps (?b, c1) = (True, ?b, c2)" "n \<le> mq_count c2" "directory_retained env ?b c2"
    "states_retained env (xb_topic_namespace ?b) ps c2"
    using publish_states_view [where s = "(?b, c1)" and qs = ps and ps = "[]", OF assms(1)] c1 by auto
  have "PublishFullSnapshot env ps s = (?b, c2)"
    using assms(3) c1(1) c2(1) by (simp add: s PublishFullSnapshot_def attached_def Let_def report_exception_def)
  then show ?thesis using c2 assms(3) Replace_shows by (simp add: view_current_def attached_def s)
qed

lemma External_Publish_view:
  assumes "accepting env n" "view_current env n ps s"
  shows "view_current env n (ps @ [p]) (External_Publish env p s)"
proof -
  obtain b c where s: "s = (b, c)" by (cases s)
  have current: "attached b" "n \<le> mq_count c" "directory_retained env b c" "states_retained env (xb_topic_namespace b) ps c"
    "directory_shows (xe_json env) (xb_device_directory b) ps"
    using assms(2) by (simp_all add: view_current_def s)
  obtain changed dir where update:
      "DeviceDirectory_Update (xe_json env) (DirectoryEntryFor p) (xb_device_directory b) = (changed, dir)"
    by (cases "DeviceDirectory_Update (xe_json env) (DirectoryEntryFor p) (xb_device_directory b)")
  let ?b = "b\<lparr>xb_device_directory := dir\<rparr>"
  obtain c1 where c1: "PublishStateLocked env p (?b, c) = (True, ?b, c1)" "n \<le> mq_count c1"
    "states_retained env (xb_topic_namespace b) (ps @ [p]) c1"
    "retained c1 (DeviceDirectoryTopic (xb_topic_namespace b)) = retained c (DeviceDirectoryTopic (xb_topic_namespace b))"
    using publish_state_view [where s = "(?b, c)" and p = p, OF assms(1)] current by auto
  obtain c2 where c2: "PublishDirectoryLocked env (?b, c1) = (True, ?b, c2)" "n \<le> mq_count c2"
    "states_retained env (xb_topic_namespace b) (ps @ [p]) c2" "directory_retained env ?b c2"
    using publish_directory_view [where s = "(?b, c1)", OF assms(1)] c1 by auto
  have run: "External_Publish env p s = (?b, if changed then c2 else c1)"
    using current(1) c1(1) c2(1)
    by (simp add: s External_Publish_def attached_def Let_def update report_exception_def)
  have "directory_retained env ?b c1" if "\<not> changed"
    using current(3) c1(4) Update_shows(2) [OF current(5) update that] by (simp add: directory_retained_def)
  then show ?thesis
    using c1 c2 current(1) Update_shows(1) [OF current(5) update]
    by (simp add: run view_current_def attached_def)
qed

text \<open>
  A full snapshot and everything after it: states the device service publishes one by one, entries in the log, and
  steps of the other users of the client, which publish no retained messages. The list holds the states published
  since the snapshot, those of the snapshot included.
\<close>

inductive external_run :: "external_env \<Rightarrow> external \<Rightarrow> PublishedState list \<Rightarrow> external \<Rightarrow> bool" for env s\<^sub>0 where
  snapshot: "external_run env s\<^sub>0 ps (PublishFullSnapshot env ps s\<^sub>0)"
| publish: "external_run env s\<^sub>0 ps s \<Longrightarrow> external_run env s\<^sub>0 (ps @ [p]) (External_Publish env p s)"
| diagnose: "external_run env s\<^sub>0 ps (b, c) \<Longrightarrow> external_run env s\<^sub>0 ps (External_Diagnose m b, c)"
| inform: "external_run env s\<^sub>0 ps (b, c) \<Longrightarrow> external_run env s\<^sub>0 ps (External_Inform m b, c)"
| client: "external_run env s\<^sub>0 ps (b, c) \<Longrightarrow> mq_effects c' = mq_effects c @ es \<Longrightarrow> \<forall>e\<in>set es. \<not> retains e \<Longrightarrow>
    external_run env s\<^sub>0 ps (b, c')"

lemma view_log: "view_current env n ps (b, c) \<Longrightarrow> view_current env n ps (xb_write level m b, c)"
  by (simp add: view_current_def xb_write_def attached_def directory_retained_def)

text \<open>
  C10. What the broker retains is current: once a full snapshot has been published, and as long as the client library
  accepts the publications, the retained directory is the current directory of the bridge with its revision, the
  retained event of every device is that of the state published last, and the directory lists exactly the devices
  published, each as it was published last; whatever failed before the snapshot.
\<close>

theorem external_view_current:
  assumes "external_run env (b\<^sub>0, c\<^sub>0) ps (b, c)" "accepting env (mq_count c\<^sub>0)" "attached b\<^sub>0"
  shows "directory_retained env b c \<and> states_retained env (xb_topic_namespace b) ps c \<and>
    directory_shows (xe_json env) (xb_device_directory b) ps"
proof -
  have "view_current env (mq_count c\<^sub>0) ps s" if "external_run env (b\<^sub>0, c\<^sub>0) ps s" for ps s
    using that
  proof induction
    case (snapshot ps)
    then show ?case using PublishFullSnapshot_view [OF assms(2)] assms(3) by simp
  next
    case (publish ps s p)
    from publish.IH show ?case by (rule External_Publish_view [OF assms(2)])
  next
    case (diagnose ps b c m)
    then show ?case by (simp add: External_Diagnose_def view_log)
  next
    case (inform ps b c m)
    then show ?case by (simp add: External_Inform_def view_log)
  next
    case (client ps b c c' es)
    then have "retained c' = retained c" "mq_count c \<le> mq_count c'" by (simp_all add: retained_others mq_count_def)
    with client.IH show ?case by (simp add: view_current_def directory_retained_def states_retained_def)
  qed
  from this [OF assms(1)] show ?thesis by (simp add: view_current_def)
qed

text \<open>The namespace of the bridge is fixed.\<close>

lemma publish_document_namespace [simp]:
  "xb_topic_namespace (fst (snd (publish_document env topic failure d s))) = xb_topic_namespace (fst s)"
  by (simp add: publish_document_def xb_write_def split: prod.split sum.split)

lemma publish_states_namespace [simp]:
  "xb_topic_namespace (fst (snd (publish_states env ps s))) = xb_topic_namespace (fst s)"
proof (induction ps arbitrary: s)
  case (Cons p ps)
  have "xb_topic_namespace (fst (snd (PublishStateLocked env p s))) = xb_topic_namespace (fst s)"
    by (simp add: PublishStateLocked_def)
  with Cons.IH show ?case by (auto split: prod.split bool.split)
qed simp

lemma report_exception_namespace [simp]:
  "xb_topic_namespace (fst (report_exception m outcome)) = xb_topic_namespace (fst (snd outcome))"
  by (auto simp: report_exception_def xb_write_def split: prod.split bool.split)

lemma publish_namespace [simp]:
  "xb_topic_namespace (fst (External_Publish env p s)) = xb_topic_namespace (fst s)"
  "xb_topic_namespace (fst (PublishFullSnapshot env ps s)) = xb_topic_namespace (fst s)"
proof -
  have state: "xb_topic_namespace (fst (snd (PublishStateLocked env p s))) = xb_topic_namespace (fst s)" for p s
    by (simp add: PublishStateLocked_def)
  have directory: "xb_topic_namespace (fst (snd (PublishDirectoryLocked env s))) = xb_topic_namespace (fst s)" for s
    by (simp add: PublishDirectoryLocked_def)
  show "xb_topic_namespace (fst (External_Publish env p s)) = xb_topic_namespace (fst s)"
    by (cases s) (auto simp: External_Publish_def Let_def directory split: prod.split bool.split dest!: arg_cong [where f = "\<lambda>x. xb_topic_namespace (fst (snd x))"]
        simp: state)
  show "xb_topic_namespace (fst (PublishFullSnapshot env ps s)) = xb_topic_namespace (fst s)"
    by (cases s) (auto simp: PublishFullSnapshot_def Let_def split: prod.split bool.split dest!: arg_cong [where f = "\<lambda>x. xb_topic_namespace (fst (snd x))"]
        simp: directory)
qed

text \<open>A bridge that is disabled does nothing any more.\<close>

lemma External_Disable_inert:
  "External_Publish env p (External_Disable b, c) = (External_Disable b, c)"
  "PublishFullSnapshot env ps (External_Disable b, c) = (External_Disable b, c)"
  "External_Diagnose m (External_Disable b) = External_Disable b" "External_Inform m (External_Disable b) = External_Disable b"
  by (simp_all add: External_Disable_def External_Publish_def PublishFullSnapshot_def External_Diagnose_def External_Inform_def)

definition demo_external :: external_env where
  "demo_external =
     \<lparr>xe_mosq = \<lparr>ml_result = (\<lambda>n. if n = 0 then MosqNoConn else MosqSuccess), ml_mid = int, ml_code = (\<lambda>_. 0), ml_strerror = (\<lambda>_. []),
        ml_steady_now = int, ml_handler_returns = (\<lambda>_. True), ml_order = (\<lambda>_ ts. ts), ml_log_err = 8, ml_log_warning = 4\<rparr>,
      xe_json = \<lparr>jparse = (\<lambda>_. None), jdump = (\<lambda>_. ''{}''), jeq = (=)\<rparr>, xe_dumps = (\<lambda>_. True), xe_now = int\<rparr>"

definition demo_published :: PublishedState where
  "demo_published =
     \<lparr>ps_record = \<lparr>dr_device_id = ''d1'', dr_school_id = 1, dr_school_name = ''s'', dr_dcdw_label = None, dr_model_version = ''m'',
        dr_status = Online, dr_last_seen_at = Some 1, dr_latest_telemetry = None, dr_telemetry_received_at = None, dr_revision = 1,
        dr_device_type = CnsBox, dr_capabilities = None, dr_product = None, dr_version = None\<rparr>,
      ps_reason = RegistrationOnline, ps_degraded = False\<rparr>"

theorem external_view_current_witness:
  "let b = RuntimeExternalBridge_new\<lparr>xb_mqtt := True, xb_logger := True, xb_topic_namespace := ''cns''\<rparr>;
       s = External_Publish demo_external demo_published
         (PublishFullSnapshot demo_external [demo_published] (b, MqttClient_new\<lparr>mq_effects := [ConnectAsyncCall MosqSuccess]\<rparr>))
   in retained (snd s) ''cns/events/devices/d1/state'' = Some ''{}'' \<and> retained (snd s) ''cns/events/devices/directory'' = Some ''{}''"
proof -
  let ?b = "RuntimeExternalBridge_new\<lparr>xb_mqtt := True, xb_logger := True, xb_topic_namespace := ''cns''\<rparr>"
  let ?c = "MqttClient_new\<lparr>mq_effects := [ConnectAsyncCall MosqSuccess]\<rparr>"
  let ?s = "External_Publish demo_external demo_published (PublishFullSnapshot demo_external [demo_published] (?b, ?c))"
  have run: "external_run demo_external (?b, ?c) ([demo_published] @ [demo_published]) (fst ?s, snd ?s)"
    unfolding prod.collapse by (intro external_run.publish external_run.snapshot)
  have "accepting demo_external (mq_count ?c)" "attached ?b"
    by (simp_all add: accepting_def demo_external_def mq_count_def int_max_def attached_def RuntimeExternalBridge_new_def)
  note current = external_view_current [OF run this]
  have ns: "xb_topic_namespace (fst ?s) = ''cns''"
    by (simp add: RuntimeExternalBridge_new_def)
  have last: "last_state ([demo_published] @ [demo_published]) ''d1'' = Some demo_published"
    by (simp add: last_state_def demo_published_def)
  show ?thesis using current last unfolding states_retained_def directory_retained_def ns Let_def
    by (auto simp: StateEventTopic_def DeviceDirectoryTopic_def demo_external_def)
qed

end
