(* ===== verification/Store_Bridge.thy ===== *)
theory Store_Bridge
  imports Postgres_Store_Laws Database_Port
begin

text \<open>
  \<^verbatim>\<open>RuntimePostgresBridge\<close> of \<^verbatim>\<open>service_environment.cpp\<close>: the store as the database worker sees it. It turns
  errors of the store into the two kinds the worker distinguishes, and replaces the store after a lost
  connection once the new one has the expected migrations.
\<close>

record RuntimePostgresBridge =
  rb_store :: PostgresStore
  rb_config :: DatabaseConfig
  rb_info_sink :: bool
  rb_migrations :: "Migration list"

definition Classify :: "string \<Rightarrow> RuntimePostgresBridge \<Rightarrow> DatabaseError" where
  "Classify context b =
     \<lparr>dbe_kind = (if LastOperationFailureKind (rb_store b) = kPermanent then Permanent else Unavailable), dbe_message = context\<rparr>"

definition ClassifyWithDetail :: "string \<Rightarrow> string \<Rightarrow> RuntimePostgresBridge \<Rightarrow> DatabaseError" where
  "ClassifyWithDetail context detail b =
     (let e = Classify context b in if detail \<noteq> [] then e\<lparr>dbe_message := detail\<rparr> else e)"

text \<open>A call of the store, with the result handed on or the error classified.\<close>

definition classified ::
    "string \<Rightarrow> (PostgresStore \<Rightarrow> (string + 'a) \<times> PostgresStore) \<Rightarrow> RuntimePostgresBridge \<Rightarrow> (DatabaseError + 'a) \<times> RuntimePostgresBridge" where
  "classified context call b =
     (case call (rb_store b) of
        (Inr a, store) \<Rightarrow> (Inr a, b\<lparr>rb_store := store\<rparr>)
      | (Inl e, store) \<Rightarrow> (Inl (Classify context (b\<lparr>rb_store := store\<rparr>)), b\<lparr>rb_store := store\<rparr>))"

definition classified_with_detail ::
    "string \<Rightarrow> (PostgresStore \<Rightarrow> (string + 'a) \<times> PostgresStore) \<Rightarrow> RuntimePostgresBridge \<Rightarrow> (DatabaseError + 'a) \<times> RuntimePostgresBridge" where
  "classified_with_detail context call b =
     (case call (rb_store b) of
        (Inr a, store) \<Rightarrow> (Inr a, b\<lparr>rb_store := store\<rparr>)
      | (Inl e, store) \<Rightarrow> (Inl (ClassifyWithDetail context e (b\<lparr>rb_store := store\<rparr>)), b\<lparr>rb_store := store\<rparr>))"

definition Bridge_Provision ::
    "postgres \<Rightarrow> json_lib \<Rightarrow> Registration \<Rightarrow> int \<Rightarrow> fault \<Rightarrow> RuntimePostgresBridge \<Rightarrow> (DatabaseError + DeviceRecord) \<times> RuntimePostgresBridge" where
  "Bridge_Provision pg lib registration received_at f =
     classified msg_env_provision (ProvisionDevice pg lib registration received_at f)"

definition Bridge_Write ::
    "postgres \<Rightarrow> json_lib \<Rightarrow> DesiredDeviceWrite \<Rightarrow> fault \<Rightarrow> RuntimePostgresBridge \<Rightarrow> (DatabaseError + unit) \<times> RuntimePostgresBridge" where
  "Bridge_Write pg lib w f = classified msg_env_write (WriteDeviceState pg lib w f)"

definition Bridge_FindCommand ::
    "json_lib \<Rightarrow> string \<Rightarrow> string \<Rightarrow> fault \<Rightarrow> RuntimePostgresBridge \<Rightarrow> (DatabaseError + CommandRecord option) \<times> RuntimePostgresBridge" where
  "Bridge_FindCommand lib source_id request_id f =
     classified_with_detail msg_env_find (FindCommand lib source_id request_id f)"

definition Bridge_FindCommandById ::
    "postgres \<Rightarrow> json_lib \<Rightarrow> string \<Rightarrow> fault \<Rightarrow> RuntimePostgresBridge \<Rightarrow> (DatabaseError + CommandRecord option) \<times> RuntimePostgresBridge" where
  "Bridge_FindCommandById pg lib command_id f =
     classified_with_detail msg_env_find (FindCommandById pg lib command_id f)"

definition Bridge_InsertCommand ::
    "postgres \<Rightarrow> json_lib \<Rightarrow> CommandRecord \<Rightarrow> fault \<Rightarrow> RuntimePostgresBridge \<Rightarrow> (DatabaseError + CommandRecord) \<times> RuntimePostgresBridge" where
  "Bridge_InsertCommand pg lib command f =
     classified_with_detail msg_env_insert (InsertCommand pg lib command f)"

definition Bridge_TransitionCommand ::
    "postgres \<Rightarrow> json_lib \<Rightarrow> string \<Rightarrow> CommandStatus \<Rightarrow> CommandStatus \<Rightarrow> CommandUpdate \<Rightarrow> fault \<Rightarrow> RuntimePostgresBridge \<Rightarrow>
     (DatabaseError + CommandRecord) \<times> RuntimePostgresBridge" where
  "Bridge_TransitionCommand pg lib command_id expected desired update f =
     classified_with_detail msg_env_transition (TransitionCommand pg lib command_id expected desired update f)"

definition Bridge_CleanupCommands ::
    "postgres \<Rightarrow> int \<Rightarrow> nat \<Rightarrow> fault \<Rightarrow> RuntimePostgresBridge \<Rightarrow> (DatabaseError + nat) \<times> RuntimePostgresBridge" where
  "Bridge_CleanupCommands pg before batch_size f =
     classified msg_env_cleanup (DeleteExpiredTerminalCommands pg before batch_size f)"

definition Bridge_RecoverControlCommands ::
    "postgres \<Rightarrow> json_lib \<Rightarrow> int \<Rightarrow> nat \<Rightarrow> fault \<Rightarrow> RuntimePostgresBridge \<Rightarrow> (DatabaseError + CommandRecord list) \<times> RuntimePostgresBridge" where
  "Bridge_RecoverControlCommands pg lib recovered_at batch_size f =
     classified msg_env_recover (RecoverActiveControlCommands pg lib recovered_at batch_size f)"

text \<open>
  \<open>connects\<close>: whether the new connection is established; the database is the one the old store worked on.
\<close>

definition ReconnectAndValidate ::
    "bool \<Rightarrow> fault \<Rightarrow> RuntimePostgresBridge \<Rightarrow> (DatabaseError + unit) \<times> RuntimePostgresBridge" where
  "ReconnectAndValidate connects f b =
     (case Connect (rb_config b) (rb_info_sink b) connects (ps_db (rb_store b)) of
        Inl _ \<Rightarrow> (Inl \<lparr>dbe_kind = Unavailable, dbe_message = msg_env_reconnect\<rparr>, b)
      | Inr connected \<Rightarrow>
          (case ReadAppliedMigrations f connected of
             (Inl _, failed) \<Rightarrow>
               (Inl \<lparr>dbe_kind = (if LastOperationFailureKind failed = kUnavailable then Unavailable else Permanent),
                     dbe_message = msg_env_reconnect_read\<rparr>, b)
           | (Inr applied, validated) \<Rightarrow>
               (case BuildMigrationPlan (rb_migrations b) applied kCheckOnly of
                  Inl _ \<Rightarrow> (Inl \<lparr>dbe_kind = Permanent, dbe_message = msg_env_reconnect_plan\<rparr>, b)
                | Inr _ \<Rightarrow> (Inr (), b\<lparr>rb_store := validated\<rparr>))))"

subsection \<open>Classification\<close>

text \<open>The connection was lost: the exception says so, or the connection is closed afterwards.\<close>

fun loses_connection :: "fault \<Rightarrow> bool" where
  "loses_connection NoFault = False"
| "loses_connection (Fails broken still_open) = (broken \<or> \<not> still_open)"
| "loses_connection (CommitFails applied broken still_open) = (broken \<or> \<not> still_open)"

definition healthy :: "PostgresStore \<Rightarrow> bool" where
  "healthy st \<longleftrightarrow> ps_open st \<and> ps_last_failure_kind st = kPermanent"

text \<open>
  What a call of a working store may do: succeed or fail for good and leave the store working, or lose the
  connection and say so.
\<close>

definition well_classified :: "fault \<Rightarrow> PostgresStore \<Rightarrow> (string + 'a) \<times> PostgresStore \<Rightarrow> bool" where
  "well_classified f st outcome \<longleftrightarrow>
     (healthy st \<longrightarrow>
        (healthy (snd outcome) \<or>
         loses_connection f \<and> (\<exists>e. fst outcome = Inl e) \<and> ps_last_failure_kind (snd outcome) = kUnavailable))"

lemma run_work_classified:
  assumes "\<And>db e k. body db = Aborts e k \<Longrightarrow> k \<noteq> Some kUnavailable"
  shows "well_classified f st (run_work True f m body st)"
  using assms
  by (auto simp: well_classified_def healthy_def run_work_def caught_def ClassifyOperationFailure_def
      split: fault.split tx.split option.split) (metis OperationFailureKind.exhaust option.inject)+

lemma run_read_classified:
  assumes "\<And>db e k. body db = Aborts e k \<Longrightarrow> k \<noteq> Some kUnavailable"
  shows "well_classified f st (run_read True f m body st)"
  using run_work_classified [where body = body and st = st and m = m and f = "case f of CommitFails _ _ _ \<Rightarrow> NoFault | _ \<Rightarrow> f"] assms
  by (auto simp: run_read_def well_classified_def split: fault.splits)

lemma well_classified_refused [simp]: "well_classified f st (Inl e, st)" "well_classified f st (Inr a, st)"
    "well_classified f st (Inl e, st\<lparr>ps_last_failure_kind := kPermanent\<rparr>)"
  by (simp_all add: well_classified_def healthy_def)

lemma commit_rows_aborts [simp]: "commit_rows r db = Aborts e k \<longleftrightarrow> r = Inl e \<and> k = None"
  by (auto simp: commit_rows_def split: sum.splits)

lemma methods_classified:
  "well_classified f st (ProvisionDevice pg lib r at f st)" "well_classified f st (WriteDeviceState pg lib w f st)"
  "well_classified f st (FindCommand lib s q f st)" "well_classified f st (FindCommandById pg lib i f st)"
  "well_classified f st (InsertCommand pg lib c f st)" "well_classified f st (TransitionCommand pg lib i x y u f st)"
  "well_classified f st (DeleteExpiredTerminalCommands pg at n f st)" "well_classified f st (RecoverActiveControlCommands pg lib at n f st)"
  "well_classified f st (ReadAppliedMigrations f st)"
  by (auto simp: ProvisionDevice_def WriteDeviceState_def FindCommand_def FindCommandById_def InsertCommand_def TransitionCommand_def
      DeleteExpiredTerminalCommands_def RecoverActiveControlCommands_def ReadAppliedMigrations_def Let_def
      intro!: run_work_classified run_read_classified split: option.splits sum.splits list.splits if_splits prod.splits)

lemma Classify_kind:
  "dbe_kind (Classify context b) = Permanent \<longleftrightarrow> ps_last_failure_kind (rb_store b) = kPermanent"
  "dbe_kind (ClassifyWithDetail context detail b) = dbe_kind (Classify context b)"
  by (simp_all add: Classify_def ClassifyWithDetail_def LastOperationFailureKind_def Let_def)

subsection \<open>The bridge and the worker\<close>

text \<open>The kind of error a call of the bridge reports, if any.\<close>

definition reported :: "DatabaseError + 'a \<Rightarrow> DatabaseErrorKind option" where
  "reported result = (case result of Inl e \<Rightarrow> Some (dbe_kind e) | Inr _ \<Rightarrow> None)"

inductive bridge_call ::
    "postgres \<Rightarrow> json_lib \<Rightarrow> fault \<Rightarrow> RuntimePostgresBridge \<Rightarrow> DatabaseErrorKind option \<Rightarrow> RuntimePostgresBridge \<Rightarrow> bool" for pg lib f b where
  provision: "Bridge_Provision pg lib r at f b = (x, b') \<Longrightarrow> bridge_call pg lib f b (reported x) b'"
| write_state: "Bridge_Write pg lib w f b = (x, b') \<Longrightarrow> bridge_call pg lib f b (reported x) b'"
| find_command: "Bridge_FindCommand lib s q f b = (x, b') \<Longrightarrow> bridge_call pg lib f b (reported x) b'"
| find_by_id: "Bridge_FindCommandById pg lib i f b = (x, b') \<Longrightarrow> bridge_call pg lib f b (reported x) b'"
| insert_command: "Bridge_InsertCommand pg lib c f b = (x, b') \<Longrightarrow> bridge_call pg lib f b (reported x) b'"
| transition: "Bridge_TransitionCommand pg lib i s s' u f b = (x, b') \<Longrightarrow> bridge_call pg lib f b (reported x) b'"
| cleanup: "Bridge_CleanupCommands pg at n f b = (x, b') \<Longrightarrow> bridge_call pg lib f b (reported x) b'"
| recover: "Bridge_RecoverControlCommands pg lib at n f b = (x, b') \<Longrightarrow> bridge_call pg lib f b (reported x) b'"

lemma classified_healthy:
  assumes "classified context call b = (x, b') \<or> classified_with_detail context call b = (x, b')"
    and "\<And>st. well_classified f st (call st)" "healthy (rb_store b)"
  shows "(reported x = Some Unavailable \<longrightarrow> loses_connection f) \<and> (reported x \<noteq> Some Unavailable \<longrightarrow> healthy (rb_store b'))"
proof -
  obtain result store where call: "call (rb_store b) = (result, store)" by (cases "call (rb_store b)")
  show ?thesis
  proof (cases result)
    case (Inr a)
    then have "healthy store" using assms(2) [of "rb_store b"] assms(3) by (simp add: call well_classified_def)
    then show ?thesis using assms(1) by (auto simp: classified_def classified_with_detail_def call Inr reported_def)
  next
    case (Inl e)
    have kind: "reported x = Some (if ps_last_failure_kind store = kPermanent then Permanent else Unavailable)" "rb_store b' = store"
      using assms(1) by (auto simp: classified_def classified_with_detail_def call Inl reported_def Classify_kind Classify_def
          LastOperationFailureKind_def)
    show ?thesis using assms(2) [of "rb_store b"] assms(3) unfolding kind by (auto simp: call Inl well_classified_def healthy_def)
  qed
qed

lemmas bridge_defs = Bridge_Provision_def Bridge_Write_def Bridge_FindCommand_def Bridge_FindCommandById_def
  Bridge_InsertCommand_def Bridge_TransitionCommand_def Bridge_CleanupCommands_def Bridge_RecoverControlCommands_def

lemma bridge_call_healthy:
  assumes "bridge_call pg lib f b kind b'" "healthy (rb_store b)"
  shows "(kind = Some Unavailable \<longrightarrow> loses_connection f) \<and> (kind \<noteq> Some Unavailable \<longrightarrow> healthy (rb_store b'))"
proof -
  show ?thesis using assms(1)
  proof cases
    case (provision r at)
    then show ?thesis unfolding bridge_defs
      using classified_healthy [where call = "ProvisionDevice pg lib r at f" and f = f, OF disjI1 methods_classified(1) assms(2)] by metis
  next
    case (write_state w)
    then show ?thesis unfolding bridge_defs
      using classified_healthy [where call = "WriteDeviceState pg lib w f" and f = f, OF disjI1 methods_classified(2) assms(2)] by metis
  next
    case (find_command s q)
    then show ?thesis unfolding bridge_defs
      using classified_healthy [where call = "FindCommand lib s q f" and f = f, OF disjI2 methods_classified(3) assms(2)] by metis
  next
    case (find_by_id i)
    then show ?thesis unfolding bridge_defs
      using classified_healthy [where call = "FindCommandById pg lib i f" and f = f, OF disjI2 methods_classified(4) assms(2)] by metis
  next
    case (insert_command c)
    then show ?thesis unfolding bridge_defs
      using classified_healthy [where call = "InsertCommand pg lib c f" and f = f, OF disjI2 methods_classified(5) assms(2)] by metis
  next
    case (transition i s s' u)
    then show ?thesis unfolding bridge_defs
      using classified_healthy [where call = "TransitionCommand pg lib i s s' u f" and f = f, OF disjI2 methods_classified(6) assms(2)] by metis
  next
    case (cleanup at n)
    then show ?thesis unfolding bridge_defs
      using classified_healthy [where call = "DeleteExpiredTerminalCommands pg at n f" and f = f, OF disjI1 methods_classified(7) assms(2)] by metis
  next
    case (recover at n)
    then show ?thesis unfolding bridge_defs
      using classified_healthy [where call = "RecoverActiveControlCommands pg lib at n f" and f = f, OF disjI1 methods_classified(8) assms(2)] by metis
  qed
qed

text \<open>
  The worker calls the bridge until it is told that the database is unavailable, and from then on only reconnects
  until that succeeds. The flag is what the worker knows.
\<close>

inductive bridge_run :: "postgres \<Rightarrow> json_lib \<Rightarrow> RuntimePostgresBridge \<Rightarrow> bool \<Rightarrow> bool" for pg lib where
  connected: "healthy (rb_store b) \<Longrightarrow> bridge_run pg lib b True"
| call: "bridge_run pg lib b True \<Longrightarrow> bridge_call pg lib f b kind b' \<Longrightarrow> bridge_run pg lib b' (kind \<noteq> Some Unavailable)"
| refused: "bridge_run pg lib b False \<Longrightarrow> ReconnectAndValidate connects f b = (Inl e, b') \<Longrightarrow> bridge_run pg lib b' False"
| reconnected: "bridge_run pg lib b False \<Longrightarrow> ReconnectAndValidate connects f b = (Inr u, b') \<Longrightarrow> bridge_run pg lib b' True"

lemma ReconnectAndValidate_outcome:
  "ReconnectAndValidate connects f b = (Inl e, b') \<Longrightarrow> b' = b"
  "ReconnectAndValidate connects f b = (Inr u, b') \<Longrightarrow> healthy (rb_store b') \<and> ps_db (rb_store b') = ps_db (rb_store b) \<and>
     rb_migrations b' = rb_migrations b \<and> (\<exists>applied plan. fst (ReadAppliedMigrations NoFault (rb_store b')) = Inr applied \<and>
       BuildMigrationPlan (rb_migrations b) applied kCheckOnly = Inr plan)"
proof -
  show "ReconnectAndValidate connects f b = (Inl e, b') \<Longrightarrow> b' = b"
    by (auto simp: ReconnectAndValidate_def split: sum.splits prod.splits)
  assume run: "ReconnectAndValidate connects f b = (Inr u, b')"
  let ?new = "\<lparr>ps_db = ps_db (rb_store b), ps_open = True, ps_info_sink = rb_info_sink b, ps_last_failure_kind = kPermanent,
      ps_info = (if rb_info_sink b then [msg_pg_connected @ BuildSafeConnectionDescription (rb_config b)] else [])\<rparr>"
  obtain applied validated plan where read: "ReadAppliedMigrations f ?new = (Inr applied, validated)"
    "BuildMigrationPlan (rb_migrations b) applied kCheckOnly = Inr plan" "b' = b\<lparr>rb_store := validated\<rparr>"
    using run by (auto simp: ReconnectAndValidate_def Connect_def Let_def split: sum.splits prod.splits if_splits)
  have same: "validated = ?new"
    using read(1) by (auto simp: ReadAppliedMigrations_def run_read_def run_work_returns split: option.splits)
  have "fst (ReadAppliedMigrations NoFault ?new) = Inr applied"
    using read(1) by (auto simp: ReadAppliedMigrations_def run_read_def run_work_returns split: option.splits intro: arg_cong [where f = fst])
       (auto simp: run_work_def)
  then show "healthy (rb_store b') \<and> ps_db (rb_store b') = ps_db (rb_store b) \<and> rb_migrations b' = rb_migrations b \<and>
      (\<exists>applied plan. fst (ReadAppliedMigrations NoFault (rb_store b')) = Inr applied \<and>
        BuildMigrationPlan (rb_migrations b) applied kCheckOnly = Inr plan)"
    using read(2) by (auto simp: read(3) same healthy_def)
qed

text \<open>
  C21. The worker is never left with a dead connection: as long as it believes the database to be available, the
  store it works on is open and its failures are classified afresh; a call of it reports that the database is
  unavailable only if the connection really was lost.
\<close>

theorem worker_knows_connection:
  assumes "bridge_run pg lib b True"
  shows "ps_open (rb_store b) \<and> ps_last_failure_kind (rb_store b) = kPermanent \<and>
    (bridge_call pg lib f b (Some Unavailable) b' \<longrightarrow> loses_connection f)"
proof -
  have "available \<longrightarrow> healthy (rb_store b)" if "bridge_run pg lib b available" for b available
    using that
  proof induction
    case (call b f kind b')
    then show ?case using bridge_call_healthy by blast
  next
    case (reconnected b connects f u b')
    then show ?case using ReconnectAndValidate_outcome(2) by blast
  qed auto
  then have "healthy (rb_store b)" using assms by blast
  then show ?thesis using bridge_call_healthy [of pg lib f b "Some Unavailable" b'] by (auto simp: healthy_def)
qed

definition demo_bridge :: RuntimePostgresBridge where
  "demo_bridge =
     \<lparr>rb_store = demo_store,
      rb_config = \<lparr>dc_host = ''h'', dc_port = 5432, dc_name = ''n'', dc_user = ''u'', dc_password = ''p'', dc_connect_timeout = 5,
        dc_reconnect_interval = 1\<rparr>, rb_info_sink = False, rb_migrations = []\<rparr>"

theorem worker_knows_connection_witness:
  "\<exists>b'. bridge_call plain_pg plain_lib (Fails True False) demo_bridge (Some Unavailable) b' \<and>
     ps_open (rb_store demo_bridge) \<and> loses_connection (Fails True False)"
proof -
  have run: "bridge_run plain_pg plain_lib demo_bridge True"
    by (rule bridge_run.connected) (simp add: healthy_def demo_bridge_def demo_store_def)
  obtain x b' where call: "Bridge_FindCommand plain_lib ''app'' ''r1'' (Fails True False) demo_bridge = (x, b')"
    by (cases "Bridge_FindCommand plain_lib ''app'' ''r1'' (Fails True False) demo_bridge")
  then have "reported x = Some Unavailable"
    by (auto simp: Bridge_FindCommand_def classified_with_detail_def FindCommand_def run_read_def run_work_def caught_def demo_bridge_def
        demo_store_def reported_def Classify_kind Classify_def ClassifyOperationFailure_def LastOperationFailureKind_def)
  then have "bridge_call plain_pg plain_lib (Fails True False) demo_bridge (Some Unavailable) b'"
    using bridge_call.find_command [OF call, of plain_pg] by simp
  then show ?thesis using worker_knows_connection [OF run, of "Fails True False" b'] by blast
qed

end
