(* ===== verification/Runtime_Bundle.thy ===== *)
theory Runtime_Bundle
  imports External_Bridge Store_Bridge Postgres_Worker Command_Service_Run Ingress Service_Runner
begin

text \<open>
  \<^verbatim>\<open>RuntimeBundle\<close> of \<^verbatim>\<open>service_environment.cpp\<close>: the objects the two threads of the service share, and the
  callbacks that connect them. A callback is a function on the bundle and, where it reaches the outside, on the
  bridge with the MQTT client; \<open>alive\<close> tells whether the weak pointer it holds to the bridge still
  has an object; the bundle itself exists whenever one of its own objects calls.

  The registry is one object that both services refer to: it is the one of the device service, and
  \<open>with_registry\<close> shows it to the command service.
\<close>

record RuntimeBundle =
  bu_config :: AppConfig
  bu_startup_writes :: "DesiredDeviceWrite list"
  bu_store :: RuntimePostgresBridge
  bu_worker :: PostgresWorker
  bu_service :: DeviceService
  bu_command_service :: CommandService
  bu_ingress :: DeviceIngress
  bu_command_ingress :: CommandIngress
  bu_database_thread :: SelfOwnedRuntimeThread
  bu_business_thread :: SelfOwnedRuntimeThread

subsection \<open>Construction\<close>

text \<open>The parameters of the configuration in the environments of the three components.\<close>

definition worker_env_of :: "AppConfig \<Rightarrow> worker_env \<Rightarrow> worker_env" where
  "worker_env_of config env =
     env\<lparr>wk_reconnect_interval := seconds (dc_reconnect_interval (ac_database config)),
         wk_max_inflight_commands := unat (cc_max_inflight_commands (ac_command config))\<rparr>"

definition device_env_of :: "AppConfig \<Rightarrow> device_env \<Rightarrow> device_env" where
  "device_env_of config env =
     env\<lparr>dv_topic_namespace := mc_topic_namespace (ac_mqtt config),
         dv_telemetry_interval := sc_telemetry_flush_interval (ac_device_state config),
         dv_offline_timeout := sc_offline_timeout (ac_device_state config)\<rparr>"

definition command_env_of :: "AppConfig \<Rightarrow> service_env \<Rightarrow> service_env" where
  "command_env_of config env =
     (let command = ac_command config in
      env\<lparr>env_topic_namespace := mc_topic_namespace (ac_mqtt config),
          env_max_inflight_commands := unat (cc_max_inflight_commands command),
          env_config_timeout := cc_config_timeout command, env_control_timeout := cc_control_timeout command,
          env_terminal_retention_days := cc_terminal_retention command,
          env_cleanup_interval := cc_cleanup_interval command,
          env_cleanup_batch_size := unat (cc_cleanup_batch_size command)\<rparr>)"

definition fresh_thread :: SelfOwnedRuntimeThread where
  "fresh_thread = \<lparr>ot_joinable = False, ot_stop_requested = False\<rparr>"

text \<open>
  The members the environment moves in, and \<^verbatim>\<open>Initialize\<close>. The constructor of the device service throws if the
  capacity of its queue is 0; \<open>now\<close> is what it reads from the steady clock.
\<close>

definition Initialize ::
    "service_env \<Rightarrow> int \<Rightarrow> AppConfig \<Rightarrow> DeviceRegistry \<Rightarrow> DesiredDeviceWrite list \<Rightarrow> SourceCatalog \<Rightarrow> CommandRecord list \<Rightarrow>
     RuntimePostgresBridge \<Rightarrow> queue_error + RuntimeBundle" where
  "Initialize env now config registry startup_writes command_sources active_commands store =
     (case BoundedQueue_new (unat (qc_mqtt_inbound_capacity (ac_queues config))) of
        Inl e \<Rightarrow> Inl e
      | Inr queue \<Rightarrow>
          Inr \<lparr>bu_config = config, bu_startup_writes = startup_writes, bu_store = store, bu_worker = PostgresWorker_new,
               bu_service = DeviceService_new registry queue (Inr now),
               bu_command_service =
                 SetMqttAvailable False
                   (LoadActive (command_env_of config env) active_commands (CommandService_new command_sources registry)),
               bu_ingress = new_DeviceIngress True True 30000000000,
               bu_command_ingress = new_CommandIngress (mc_topic_namespace (ac_mqtt config)) True,
               bu_database_thread = fresh_thread, bu_business_thread = fresh_thread\<rparr>)"

definition with_registry :: "RuntimeBundle \<Rightarrow> CommandService" where
  "with_registry b = (bu_command_service b)\<lparr>sv_devices := ds_registry (bu_service b)\<rparr>"

subsection \<open>Callbacks\<close>

definition on_database_result :: "DatabaseResult \<Rightarrow> RuntimeBundle \<Rightarrow> RuntimeBundle" where
  "on_database_result result b = b\<lparr>bu_service := DeviceService_PushDatabaseResult result (bu_service b)\<rparr>"

definition on_replay :: "external_env \<Rightarrow> bool \<Rightarrow> RuntimeBundle \<Rightarrow> external \<Rightarrow> external" where
  "on_replay env alive b s =
     (case s of (x, c) \<Rightarrow>
        if \<not> alive \<or> \<not> xb_enabled x \<or> \<not> xb_mqtt x then s
        else case ReplayRetainedRegistrations (xe_mosq env) (mc_topic_namespace (ac_mqtt (bu_config b))) c of
               (Inr _, c') \<Rightarrow> (x, c')
             | (Inl _, c') \<Rightarrow> (if xb_logger x then xb_write kError msg_env_replay x else x, c'))"

definition on_command_result :: "CommandDatabaseResult \<Rightarrow> RuntimeBundle \<Rightarrow> RuntimeBundle" where
  "on_command_result result b = b\<lparr>bu_command_service := PushDatabaseResult result (bu_command_service b)\<rparr>"

definition on_provision :: "Registration \<Rightarrow> int \<Rightarrow> RuntimeBundle \<Rightarrow> bool \<times> RuntimeBundle" where
  "on_provision registration at b =
     (case SubmitProvision registration at (bu_worker b) of (ok, worker) \<Rightarrow> (ok, b\<lparr>bu_worker := worker\<rparr>))"

definition on_write :: "DesiredDeviceWrite \<Rightarrow> RuntimeBundle \<Rightarrow> bool \<times> RuntimeBundle" where
  "on_write w b = (case Worker_SubmitWrite w (bu_worker b) of (ok, worker) \<Rightarrow> (ok, b\<lparr>bu_worker := worker\<rparr>))"

definition on_event ::
    "external_env \<Rightarrow> service_env \<Rightarrow> bool \<Rightarrow> int \<Rightarrow> PublishedState \<Rightarrow> RuntimeBundle \<Rightarrow> external \<Rightarrow> RuntimeBundle \<times> external" where
  "on_event xenv env alive now published b s =
     (if dr_status (ps_record published) = Online
      then b\<lparr>bu_command_service :=
               OnTargetOnline (command_env_of (bu_config b) env) (dr_device_id (ps_record published)) now (with_registry b)\<rparr>
      else b,
      if alive then External_Publish xenv published s else s)"

definition on_diagnostic :: "bool \<Rightarrow> string \<Rightarrow> RuntimeExternalBridge \<Rightarrow> RuntimeExternalBridge" where
  "on_diagnostic alive message x = (if alive then External_Diagnose message x else x)"

definition on_information :: "bool \<Rightarrow> string \<Rightarrow> RuntimeExternalBridge \<Rightarrow> RuntimeExternalBridge" where
  "on_information alive message x = (if alive then External_Inform message x else x)"

definition on_snapshot :: "external_env \<Rightarrow> bool \<Rightarrow> PublishedState list \<Rightarrow> external \<Rightarrow> external" where
  "on_snapshot env alive published_states s = (if alive then PublishFullSnapshot env published_states s else s)"

definition on_device_message :: "InboundMessage \<Rightarrow> RuntimeBundle \<Rightarrow> bool \<times> RuntimeBundle" where
  "on_device_message message b =
     (case DeviceService_TryPush message (bu_service b) of (ok, service) \<Rightarrow> (ok, b\<lparr>bu_service := service\<rparr>))"

definition on_command_task :: "worker_env \<Rightarrow> 64 word \<Rightarrow> CommandDatabaseTask \<Rightarrow> RuntimeBundle \<Rightarrow> bool \<times> RuntimeBundle" where
  "on_command_task env i task b =
     (case SubmitCommand (worker_env_of (bu_config b) env) i task (bu_worker b) of
        (ok, worker) \<Rightarrow> (ok, b\<lparr>bu_worker := worker\<rparr>))"

definition on_command_publish ::
    "external_env \<Rightarrow> bool \<Rightarrow> 64 word \<Rightarrow> string \<Rightarrow> string \<Rightarrow> external \<Rightarrow> (string + unit) \<times> external" where
  "on_command_publish env alive token topic payload s =
     (case s of (x, c) \<Rightarrow>
        if \<not> alive then (Inl msg_env_bridge, s)
        else if \<not> xb_enabled x \<or> \<not> xb_mqtt x then (Inl msg_env_bridge, s)
        else case PublishCommandSet (xe_mosq env) token topic payload c of (result, c') \<Rightarrow> (result, x, c'))"

definition on_source_ack :: "external_env \<Rightarrow> bool \<Rightarrow> string \<Rightarrow> string \<Rightarrow> external \<Rightarrow> external" where
  "on_source_ack env alive topic payload s =
     (case s of (x, c) \<Rightarrow>
        if \<not> alive then s
        else if xb_enabled x \<and> xb_mqtt x then (x, snd (PublishSourceCommandAck (xe_mosq env) topic payload c))
        else s)"

subsection \<open>Threads\<close>

text \<open>\<open>created\<close>: whether the operating system creates the thread; otherwise the constructor throws.\<close>

definition start_thread :: "bool \<Rightarrow> SelfOwnedRuntimeThread \<Rightarrow> step_outcome \<times> SelfOwnedRuntimeThread" where
  "start_thread created t =
     (case Thread_Start t of
        Inl _ \<Rightarrow> (StepThrewException, t)
      | Inr started \<Rightarrow> if created then (step_outcome.Succeeded, started) else (StepThrewException, t\<lparr>ot_stop_requested := False\<rparr>))"

definition StartDatabaseThread :: "bool \<Rightarrow> RuntimeBundle \<Rightarrow> step_outcome \<times> RuntimeBundle" where
  "StartDatabaseThread created b =
     (case start_thread created (bu_database_thread b) of (outcome, t) \<Rightarrow> (outcome, b\<lparr>bu_database_thread := t\<rparr>))"

text \<open>What the business thread does after each round of the device service.\<close>

definition cycle_hook :: "service_env \<Rightarrow> int \<Rightarrow> RuntimeBundle \<Rightarrow> RuntimeBundle" where
  "cycle_hook env now b =
     b\<lparr>bu_command_service := ProcessReady (command_env_of (bu_config b) env) now (with_registry b)\<rparr>"

definition StartBusinessThread :: "bool \<Rightarrow> RuntimeBundle \<Rightarrow> step_outcome \<times> RuntimeBundle" where
  "StartBusinessThread created b =
     (case start_thread created (bu_business_thread b) of
        (outcome, t) \<Rightarrow>
          let b1 = b\<lparr>bu_business_thread := t\<rparr> in
          if outcome \<noteq> step_outcome.Succeeded then (outcome, b1)
          else (outcome, (fold (\<lambda>w s. snd (on_write w s)) (bu_startup_writes b1) b1)\<lparr>bu_startup_writes := []\<rparr>))"

definition Bundle_RequestStop :: "RuntimeBundle \<Rightarrow> RuntimeBundle" where
  "Bundle_RequestStop b =
     b\<lparr>bu_business_thread := Thread_RequestStop (bu_business_thread b),
       bu_database_thread := Thread_RequestStop (bu_database_thread b),
       bu_service := CancelOutstandingDatabaseWork (bu_service b),
       bu_command_service := CancelOutstandingWork (bu_command_service b)\<rparr>"

definition Bundle_Join :: "RuntimeBundle \<Rightarrow> RuntimeBundle" where
  "Bundle_Join b =
     b\<lparr>bu_database_thread := Thread_Join (bu_database_thread b), bu_business_thread := Thread_Join (bu_business_thread b)\<rparr>"

definition Bundle_Detach :: "RuntimeBundle \<Rightarrow> RuntimeBundle" where
  "Bundle_Detach b =
     b\<lparr>bu_database_thread := Thread_Detach (bu_database_thread b), bu_business_thread := Thread_Detach (bu_business_thread b)\<rparr>"

end
