(* ===== verification/Service_Environment.thy ===== *)
theory Service_Environment
  imports Runtime_Bundle Migration
begin

text \<open>
  \<^verbatim>\<open>service_environment.cpp\<close>: the operations the runner calls, on the state that owns the adapters and the
  runtime. Each method is a function on the whole state; what it learns from the outside while it runs is an argument:
  files, faults of the database, answers of the MQTT library, clocks, whether threads could be created.

  Dereferencing an empty pointer or optional is undefined in the program; \<^const>\<open>the\<close> stands for it, and
  \<open>defined_for\<close> in \<open>Service_Environment_Laws\<close> names what each method dereferences. Objects that are moved from are empty.
\<close>

record ServiceEnvironment =
  se_config_path :: string
  se_migrations_path :: string
  se_config :: "AppConfig option"
  se_logger :: "Level option"
  se_available :: "Migration list"
  se_store :: "PostgresStore option"
  se_applied :: "AppliedMigration list"
  se_plan :: "MigrationPlan option"
  se_mqtt :: "MqttClient option"
  se_registry :: DeviceRegistry
  se_startup_writes :: "DesiredDeviceWrite list"
  se_command_sources :: SourceCatalog
  se_active_commands :: "CommandRecord list"
  se_external_bridge :: "RuntimeExternalBridge option"
  se_runtime_bundle :: "RuntimeBundle option"
  se_next_mqtt_subscription_retry :: int
  se_last_external_snapshot_generation :: "nat option"
  se_accepting_device_messages :: bool
  se_device_runtime_stopped :: bool
  se_log :: "(Level \<times> string) list"

definition ServiceEnvironment_new :: "string \<Rightarrow> string \<Rightarrow> ServiceEnvironment" where
  "ServiceEnvironment_new config_path migrations_path =
     \<lparr>se_config_path = config_path, se_migrations_path = migrations_path, se_config = None, se_logger = None,
      se_available = [], se_store = None, se_applied = [], se_plan = None, se_mqtt = None,
      se_registry = DeviceRegistry_new, se_startup_writes = [], se_command_sources = fmempty, se_active_commands = [],
      se_external_bridge = None, se_runtime_bundle = None, se_next_mqtt_subscription_retry = 0,
      se_last_external_snapshot_generation = None, se_accepting_device_messages = False,
      se_device_runtime_stopped = True, se_log = []\<rparr>"

definition se_write :: "Level \<Rightarrow> string \<Rightarrow> ServiceEnvironment \<Rightarrow> ServiceEnvironment" where
  "se_write level message st = st\<lparr>se_log := se_log st @ [(level, message)]\<rparr>"

subsection \<open>Start\<close>

definition Env_LoadConfig ::
    "json_lib \<Rightarrow> (string \<Rightarrow> file_read) \<Rightarrow> ServiceEnvironment \<Rightarrow> (string + unit) \<times> ServiceEnvironment" where
  "Env_LoadConfig lib files st =
     (case LoadAppConfig lib files (se_config_path st) of
        Inl e \<Rightarrow> (Inl e, st)
      | Inr config \<Rightarrow> (Inr (), st\<lparr>se_config := Some config\<rparr>))"

definition Env_InitializeLogger :: "ServiceEnvironment \<Rightarrow> ServiceEnvironment" where
  "Env_InitializeLogger st = st\<lparr>se_logger := Some (lc_level (ac_logging (the (se_config st))))\<rparr>"

definition Env_DiscoverMigrations ::
    "(string \<Rightarrow> directory_listing) \<Rightarrow> ServiceEnvironment \<Rightarrow> (string + unit) \<times> ServiceEnvironment" where
  "Env_DiscoverMigrations listing st =
     (case DiscoverMigrations listing (se_migrations_path st) of
        Inl e \<Rightarrow> (Inl e, st)
      | Inr available \<Rightarrow> (Inr (), st\<lparr>se_available := available\<rparr>))"

text \<open>\<open>connects\<close>: whether the connection is established, to the database \<open>db\<close>.\<close>

definition Env_ConnectPostgres :: "bool \<Rightarrow> database \<Rightarrow> ServiceEnvironment \<Rightarrow> (string + unit) \<times> ServiceEnvironment" where
  "Env_ConnectPostgres connects db st =
     (case Connect (ac_database (the (se_config st))) True connects db of
        Inl e \<Rightarrow> (Inl e, st)
      | Inr store \<Rightarrow> (Inr (), st\<lparr>se_store := Some store\<rparr>))"

text \<open>A call of the store, which is updated also if the call fails.\<close>

definition store_call ::
    "(PostgresStore \<Rightarrow> (string + 'a) \<times> PostgresStore) \<Rightarrow> ServiceEnvironment \<Rightarrow> (string + 'a) \<times> ServiceEnvironment" where
  "store_call call st = (case call (the (se_store st)) of (result, store) \<Rightarrow> (result, st\<lparr>se_store := Some store\<rparr>))"

definition Env_ReadAppliedMigrations :: "fault \<Rightarrow> ServiceEnvironment \<Rightarrow> (string + unit) \<times> ServiceEnvironment" where
  "Env_ReadAppliedMigrations f st =
     (case store_call (Postgres_Store.ReadAppliedMigrations f) st of
        (Inl e, st1) \<Rightarrow> (Inl e, st1)
      | (Inr applied, st1) \<Rightarrow> (Inr (), st1\<lparr>se_applied := applied\<rparr>))"

definition Env_PlanMigrations :: "bool \<Rightarrow> ServiceEnvironment \<Rightarrow> (string + unit) \<times> ServiceEnvironment" where
  "Env_PlanMigrations execute st =
     (case BuildMigrationPlan (se_available st) (se_applied st) (if execute then kApply else kCheckOnly) of
        Inl e \<Rightarrow> (Inl e, st)
      | Inr plan \<Rightarrow> (Inr (), st\<lparr>se_plan := Some plan\<rparr>))"

definition Env_PendingMigrationCount :: "ServiceEnvironment \<Rightarrow> nat" where
  "Env_PendingMigrationCount st = length (pl_pending (the (se_plan st)))"

text \<open>\<^const>\<open>None\<close>: \<^verbatim>\<open>at\<close> throws because the index is out of range.\<close>

definition Env_ApplyMigration ::
    "postgres \<Rightarrow> (Migration \<Rightarrow> string option) \<Rightarrow> fault \<Rightarrow> nat \<Rightarrow> ServiceEnvironment \<Rightarrow> ((string + unit) \<times> ServiceEnvironment) option" where
  "Env_ApplyMigration pg content f index st =
     (let pending = pl_pending (the (se_plan st)) in
      if index < length pending
      then Some (store_call (Postgres_Store.ApplyMigration pg (content (pending ! index)) (pending ! index) f) st)
      else None)"

text \<open>The write that stores the status of a device that was found inactive at the start.\<close>

definition startup_write :: "Mutation \<Rightarrow> DesiredDeviceWrite" where
  "startup_write mutation =
     \<lparr>dw_record = mu_record mutation, dw_revision = dr_revision (mu_record mutation), dw_write_metadata = False,
      dw_write_status = True, dw_write_telemetry = False, dw_urgency = Immediate\<rparr>"

text \<open>\<open>order\<close>: the order in which the registry iterates over the identifiers of its records.\<close>

definition Env_LoadDeviceSnapshot ::
    "postgres \<Rightarrow> json_lib \<Rightarrow> (string list \<Rightarrow> string list) \<Rightarrow> fault \<Rightarrow> int \<Rightarrow> ServiceEnvironment \<Rightarrow> (string + unit) \<times> ServiceEnvironment" where
  "Env_LoadDeviceSnapshot pg lib order f now st =
     (case store_call (LoadDevices pg lib f) st of
        (Inl e, st1) \<Rightarrow> (Inl e, st1)
      | (Inr records, st1) \<Rightarrow>
          (case Load records (se_registry st1) of
             (Inl e, registry) \<Rightarrow> (Inl e, st1\<lparr>se_registry := registry\<rparr>)
           | (Inr _, registry) \<Rightarrow>
               (case ExpireInactive (order (sorted_list_of_fset (fmdom (rg_records registry)))) now
                       (sc_offline_timeout (ac_device_state (the (se_config st1)))) registry of
                  (mutations, registry1) \<Rightarrow>
                    (Inr (), st1\<lparr>se_registry := registry1, se_startup_writes := map startup_write mutations\<rparr>))))"

definition Env_LoadCommandState ::
    "postgres \<Rightarrow> json_lib \<Rightarrow> fault \<Rightarrow> fault \<Rightarrow> fault \<Rightarrow> int \<Rightarrow> ServiceEnvironment \<Rightarrow> (string + unit) \<times> ServiceEnvironment" where
  "Env_LoadCommandState pg lib f1 f2 f3 now st =
     (let command = ac_command (the (se_config st)); limit = unat (cc_max_inflight_commands command);
          fetched = unat (cc_max_inflight_commands command + 1) in
      case store_call (SyncAndLoadCommandSources pg (cc_fixed_sources command) f1) st of
        (Inl e, st1) \<Rightarrow> (Inl e, st1)
      | (Inr sources, st1) \<Rightarrow>
          (case SourceCatalog_Load sources (se_command_sources st1) of
             (Inl e, catalog) \<Rightarrow> (Inl e, st1\<lparr>se_command_sources := catalog\<rparr>)
           | (Inr _, catalog) \<Rightarrow>
               (case store_call (LoadActiveCommands lib fetched f2) (st1\<lparr>se_command_sources := catalog\<rparr>) of
                  (Inl e, st2) \<Rightarrow> (Inl e, st2)
                | (Inr commands, st2) \<Rightarrow>
                    if length commands > limit then (Inl msg_env_active_limit, st2)
                    else case store_call (RecoverActiveControlCommands pg lib now fetched f3) st2 of
                           (Inl e, st3) \<Rightarrow> (Inl e, st3)
                         | (Inr _, st3) \<Rightarrow>
                             (Inr (), st3\<lparr>se_active_commands := filter (\<lambda>r. cr_command_type r = Config) commands\<rparr>))))"

text \<open>The shutdown flag is global; the two arguments tell whether the handlers could be installed.\<close>

definition Env_InstallSignalHandlers :: "bool \<Rightarrow> bool \<Rightarrow> ShutdownFlag \<Rightarrow> (string + unit) \<times> ShutdownFlag" where
  "Env_InstallSignalHandlers sigint sigterm requested =
     (if \<not> sigint \<or> \<not> sigterm then Inl msg_env_signals else Inr (), ResetForTesting requested)"

definition HandleShutdownSignal :: "ShutdownFlag \<Rightarrow> ShutdownFlag" where
  "HandleShutdownSignal requested = Request requested"

definition Env_ShutdownRequested :: "ShutdownFlag \<Rightarrow> bool" where
  "Env_ShutdownRequested requested = Requested requested"

definition Env_CreateMqtt ::
    "mosquitto_lib \<Rightarrow> create_answers \<Rightarrow> nat \<Rightarrow> ServiceEnvironment \<Rightarrow> (string + unit) \<times> ServiceEnvironment" where
  "Env_CreateMqtt lib answers users st =
     (case fst (Create lib (ac_mqtt (the (se_config st))) answers users) of
        Inl e \<Rightarrow> (Inl e, st)
      | Inr client \<Rightarrow> (Inr (), st\<lparr>se_mqtt := Some client\<rparr>))"

subsection \<open>The runtime\<close>

definition disable_bridge :: "ServiceEnvironment \<Rightarrow> ServiceEnvironment" where
  "disable_bridge st = st\<lparr>se_external_bridge := map_option External_Disable (se_external_bridge st)\<rparr>"

text \<open>
  The end of a start that failed. The threads of the bundle are stopped and joined before the bundle is given up, so
  nothing of it is left.
\<close>

definition give_up_runtime :: "ServiceEnvironment \<Rightarrow> ServiceEnvironment" where
  "give_up_runtime st =
     (disable_bridge st)\<lparr>se_runtime_bundle := None, se_device_runtime_stopped := True, se_accepting_device_messages := False\<rparr>"

text \<open>What the members of the environment are moved into, or copied.\<close>

definition make_bridge :: "ServiceEnvironment \<Rightarrow> RuntimeExternalBridge" where
  "make_bridge st =
     RuntimeExternalBridge_new\<lparr>xb_logger := (se_logger st \<noteq> None),
       xb_topic_namespace := mc_topic_namespace (ac_mqtt (the (se_config st)))\<rparr>"

definition make_store_bridge :: "ServiceEnvironment \<Rightarrow> RuntimePostgresBridge" where
  "make_store_bridge st =
     \<lparr>rb_store = SetInfoSink True (the (se_store st)), rb_config = ac_database (the (se_config st)), rb_info_sink = True,
      rb_migrations = se_available st\<rparr>"

definition move_out :: "ServiceEnvironment \<Rightarrow> ServiceEnvironment" where
  "move_out st =
     st\<lparr>se_external_bridge := Some (make_bridge st), se_registry := DeviceRegistry_new, se_startup_writes := [],
        se_command_sources := fmempty, se_active_commands := [], se_store := None\<rparr>"

text \<open>The outcomes of the start operations; each starts where the one before it ended.\<close>

fun start_outcome :: "bool \<Rightarrow> bool \<Rightarrow> RuntimeBundle \<Rightarrow> runtime_call \<Rightarrow> step_outcome" where
  "start_outcome database_created business_created b StartPostgresThread = fst (StartDatabaseThread database_created b)"
| "start_outcome database_created business_created b StartDeviceThread =
     fst (StartBusinessThread business_created (snd (StartDatabaseThread database_created b)))"
| "start_outcome database_created business_created b _ = step_outcome.Succeeded"

definition Env_StartDeviceRuntime ::
    "service_env \<Rightarrow> int \<Rightarrow> bool \<Rightarrow> bool \<Rightarrow> ServiceEnvironment \<Rightarrow> (string + unit) \<times> ServiceEnvironment" where
  "Env_StartDeviceRuntime env now database_created business_created st =
     (case Initialize env now (the (se_config st)) (se_registry st) (se_startup_writes st) (se_command_sources st)
             (se_active_commands st) (make_store_bridge st) of
        Inl _ \<Rightarrow> (Inl msg_env_runtime, give_up_runtime (move_out st))
      | Inr bundle \<Rightarrow>
          let running = snd (StartBusinessThread business_created (snd (StartDatabaseThread database_created bundle)));
              started = (move_out st)\<lparr>se_runtime_bundle := Some running, se_device_runtime_stopped := False,
                          se_accepting_device_messages := True\<rparr>;
              (result, trace) = StartDeviceRuntimeTransaction (start_outcome database_created business_created bundle)
          in (result, if Rollback \<in> set trace then give_up_runtime started else started))"

definition Env_StartMqtt ::
    "mosquitto_lib \<Rightarrow> string option \<Rightarrow> ServiceEnvironment \<Rightarrow> (string + unit) \<times> ServiceEnvironment" where
  "Env_StartMqtt lib thread st =
     (if se_runtime_bundle st = None then (Inl msg_env_not_started, st)
      else
        let config = the (se_config st); ns = mc_topic_namespace (ac_mqtt config);
            st1 = st\<lparr>se_external_bridge := map_option (\<lambda>x. x\<lparr>xb_mqtt := (se_mqtt st \<noteq> None)\<rparr>) (se_external_bridge st)\<rparr>;
            put = (\<lambda>outcome. (fst outcome, st1\<lparr>se_mqtt := Some (snd outcome)\<rparr>))
        in case ConfigureBusinessMessages True (unat (mc_max_payload_bytes (ac_mqtt config))) (the (se_mqtt st)) of
             (Inl e, c) \<Rightarrow> put (Inl e, c)
           | (Inr _, c1) \<Rightarrow>
               (case ConfigureCommandPublishing True (unat (cc_max_inflight_commands (ac_command config))) c1 of
                  (Inl e, c) \<Rightarrow> put (Inl e, c)
                | (Inr _, c2) \<Rightarrow>
                    (case SubscribeDeviceMessages lib ns c2 of
                       (Inl e, c) \<Rightarrow> put (Inl e, c)
                     | (Inr _, c3) \<Rightarrow>
                         (case SubscribeCommandMessages lib ns c3 of
                            (Inl e, c) \<Rightarrow> put (Inl e, c)
                          | (Inr _, c4) \<Rightarrow> put (Mqtt_Client.Start lib thread c4)))))"

text \<open>The handler \<^verbatim>\<open>StartMqtt\<close> installs: first the commands, then the devices; the outcomes are those of the bridges.\<close>

definition on_inbound_message ::
    "service_env \<Rightarrow> int \<Rightarrow> handle_outcome \<Rightarrow> InboundMessage \<Rightarrow> RuntimeBundle \<Rightarrow> RuntimeBundle" where
  "on_inbound_message env now out message b =
     (case CommandIngress_TryPush (command_env_of (bu_config b) env) now message (bu_command_ingress b) (bu_command_service b) of
        (_, command_ingress, command_service) \<Rightarrow>
          let b1 = b\<lparr>bu_command_ingress := command_ingress, bu_command_service := command_service\<rparr>;
              (pushed, b2) = (if di_enabled (bu_ingress b1) \<and> di_submit (bu_ingress b1) then on_device_message message b1
                              else (False, b1))
          in b2\<lparr>bu_ingress := DeviceIngress_Handle (out\<lparr>ho_submit := Returned pushed\<rparr>) (bu_ingress b2) (bu_ingress b2)\<rparr>)"

definition on_publish_completion :: "PublishCompletion \<Rightarrow> RuntimeBundle \<Rightarrow> RuntimeBundle" where
  "on_publish_completion completion b =
     b\<lparr>bu_command_service := PushPublishCompletion completion (bu_command_service b)\<rparr>"

definition Env_MqttHasTerminalFailure :: "ServiceEnvironment \<Rightarrow> bool" where
  "Env_MqttHasTerminalFailure st \<longleftrightarrow> GetRuntimeStatus (the (se_mqtt st)) = kTerminalFailure"

definition Env_MqttCallbackStopRequested :: "ServiceEnvironment \<Rightarrow> bool" where
  "Env_MqttCallbackStopRequested st \<longleftrightarrow> CallbackStopRequested (the (se_mqtt st))"

text \<open>The check between two rounds of the runner; \<open>now\<close> is the steady clock. The pause of 100 ms changes no state.\<close>

definition renew_subscriptions :: "mosquitto_lib \<Rightarrow> MqttClient \<Rightarrow> RuntimeBundle \<Rightarrow> ServiceEnvironment \<Rightarrow> ServiceEnvironment" where
  "renew_subscriptions lib c b st =
     (case EnsureBusinessSubscriptions lib c of
        (subscribed, c1) \<Rightarrow>
          let st1 = st\<lparr>se_mqtt := Some c1\<rparr>;
              st2 = (case subscribed of
                       Inl e \<Rightarrow> if se_logger st1 \<noteq> None then se_write kWarn (msg_env_subscribe_retry @ e) st1 else st1
                     | Inr _ \<Rightarrow> st1);
              generation = BusinessSubscriptionGeneration c1
          in if has_value subscribed \<and> generation \<noteq> None \<and> generation \<noteq> se_last_external_snapshot_generation st2
             then st2\<lparr>se_runtime_bundle := Some (b\<lparr>bu_service := RequestExternalSnapshot (bu_service b)\<rparr>),
                      se_last_external_snapshot_generation := generation\<rparr>
             else st2\<lparr>se_runtime_bundle := Some b\<rparr>)"

definition Env_WaitForNextCheck :: "mosquitto_lib \<Rightarrow> int \<Rightarrow> ServiceEnvironment \<Rightarrow> ServiceEnvironment" where
  "Env_WaitForNextCheck lib now st =
     (case (se_runtime_bundle st, se_mqtt st) of
        (Some b, Some c) \<Rightarrow>
          let mqtt_connected = IsConnected c;
              b1 = b\<lparr>bu_command_service :=
                       SetMqttAvailable mqtt_connected
                         (SetDatabaseAvailable (IsDatabaseAvailable (bu_worker b)) (bu_command_service b))\<rparr>
          in if mqtt_connected \<and> now \<ge> se_next_mqtt_subscription_retry st
             then renew_subscriptions lib c b1 (st\<lparr>se_next_mqtt_subscription_retry := now + seconds 5\<rparr>)
             else st\<lparr>se_runtime_bundle := Some b1\<rparr>
      | _ \<Rightarrow> st)"

subsection \<open>Shutdown\<close>

definition Env_StopAcceptingDeviceMessages :: "ServiceEnvironment \<Rightarrow> ServiceEnvironment" where
  "Env_StopAcceptingDeviceMessages st =
     (if \<not> se_accepting_device_messages st then st
      else
        let disable = (\<lambda>b. b\<lparr>bu_ingress := DeviceIngress_Disable (bu_ingress b),
                             bu_command_ingress := CommandIngress_Disable (bu_command_ingress b)\<rparr>);
            close = (\<lambda>b. b\<lparr>bu_service := DeviceService_Close (bu_service b),
                           bu_command_service := CommandService_Close (bu_command_service b)\<rparr>);
            st1 = st\<lparr>se_accepting_device_messages := False, se_runtime_bundle := map_option disable (se_runtime_bundle st)\<rparr>;
            st2 = (case se_mqtt st1 of
                     None \<Rightarrow> st1
                   | Some c \<Rightarrow>
                       (case ConfigureBusinessMessages False (unat (mc_max_payload_bytes (ac_mqtt (the (se_config st1))))) c of
                          (Inr _, c') \<Rightarrow> st1\<lparr>se_mqtt := Some c'\<rparr>
                        | (Inl _, c') \<Rightarrow>
                            let st' = st1\<lparr>se_mqtt := Some c'\<rparr>
                            in if se_logger st' \<noteq> None then se_write kError msg_env_stop_accepting st' else st'))
        in st2\<lparr>se_runtime_bundle := map_option close (se_runtime_bundle st2)\<rparr>)"

text \<open>
  The operation \<^verbatim>\<open>wait_database_idle\<close> of the drain: the states are those of the two services when the waits end.
\<close>

definition wait_database_idle :: "DeviceService \<Rightarrow> CommandService \<Rightarrow> bool" where
  "wait_database_idle service command_service =
     (if \<not> device_database_idle service then False else database_idle command_service)"

fun drain_log :: "runtime_call \<Rightarrow> (Level \<times> string) list" where
  "drain_log (ReportTimeout devices) = [(kError, msg_env_drain_timeout @ decimal devices)]"
| "drain_log _ = []"

text \<open>
  The drain is given the answers of its operations and the clock. The bundle is released at the end; a thread that was
  detached keeps its own reference to it.
\<close>

definition Env_StopDeviceRuntime ::
    "int \<Rightarrow> drain_operations \<Rightarrow> int \<Rightarrow> ServiceEnvironment \<Rightarrow> bool \<times> ServiceEnvironment" where
  "Env_StopDeviceRuntime now ops timeout st =
     (if se_device_runtime_stopped st then (True, st)
      else if se_runtime_bundle st = None then (True, st\<lparr>se_device_runtime_stopped := True\<rparr>)
      else case DrainDeviceRuntime now timeout ops of
        (drained, trace) \<Rightarrow>
          let st1 = (if DisableExternalBridge \<in> set trace then disable_bridge st else st)
          in (drained, st1\<lparr>se_device_runtime_stopped := True, se_runtime_bundle := None,
                           se_log := se_log st1 @ concat (map drain_log trace)\<rparr>))"

definition Env_StopMqtt :: "mosquitto_lib \<Rightarrow> (MqttClient \<Rightarrow> MqttClient) \<Rightarrow> ServiceEnvironment \<Rightarrow> ServiceEnvironment" where
  "Env_StopMqtt lib joined st = st\<lparr>se_mqtt := map_option (Stop lib False joined) (se_mqtt st)\<rparr>"

definition Env_Info :: "string \<Rightarrow> ServiceEnvironment \<Rightarrow> ServiceEnvironment" where
  "Env_Info message st = se_write kInfo message st"

text \<open>Without a log the message goes to the error stream, with a prefix.\<close>

definition Env_Error :: "string \<Rightarrow> ServiceEnvironment \<Rightarrow> ServiceEnvironment" where
  "Env_Error message st =
     (if se_logger st \<noteq> None then se_write kError message st else se_write kError (msg_env_error @ message) st)"

definition ServiceEnvironment_destroy ::
    "mosquitto_lib \<Rightarrow> (MqttClient \<Rightarrow> MqttClient) \<Rightarrow> int \<Rightarrow> drain_operations \<Rightarrow> ServiceEnvironment \<Rightarrow> ServiceEnvironment" where
  "ServiceEnvironment_destroy lib joined now ops st =
     Env_StopMqtt lib joined (snd (Env_StopDeviceRuntime now ops 5000 (Env_StopAcceptingDeviceMessages st)))"

end
