(* ===== verification/Service_Environment_Laws.thy ===== *)
theory Service_Environment_Laws
  imports Service_Environment Postgres_Command_Laws Mqtt_Client_Laws
begin

text \<open>
  The start, the checks and the end of the service as a whole: what a restart makes of the stored commands and devices,
  when the outside is told the whole state again, and that the runner never makes the environment use an object that
  does not exist.
\<close>

subsection \<open>Commands after a restart\<close>

lemma from_rows_all: "from_rows f rows = Inr as \<Longrightarrow> list_all2 (\<lambda>row a. f row = Inr a) rows as"
  by (induction rows arbitrary: as) (auto simp: bindE_eq_Inr_iff)

lemma from_rows_mem:
  assumes "from_rows f rows = Inr as"
  shows "row \<in> set rows \<Longrightarrow> \<exists>a\<in>set as. f row = Inr a" "a \<in> set as \<Longrightarrow> \<exists>row\<in>set rows. f row = Inr a"
proof -
  note all = from_rows_all [OF assms]
  show "row \<in> set rows \<Longrightarrow> \<exists>a\<in>set as. f row = Inr a" using all by (induction rule: list_all2_induct) auto
  show "a \<in> set as \<Longrightarrow> \<exists>row\<in>set rows. f row = Inr a" using all by (induction rule: list_all2_induct) auto
qed

lemma from_rows_map:
  assumes "from_rows f rows = Inr as" "\<And>row a. f row = Inr a \<Longrightarrow> h a = g row"
  shows "map h as = map g rows"
  using from_rows_all [OF assms(1)] by (induction rule: list_all2_induct) (simp_all add: assms(2))

lemma CommandFromRow_fields:
  "CommandFromRow lib row = Inr r \<Longrightarrow> cr_command_id r = cw_command_id row \<and> cr_source_id r = cw_source_id row \<and>
     ParseCommandType (cw_command_type row) = Inr (cr_command_type r) \<and> ParseCommandStatus (cw_status row) = Inr (cr_status r)"
  by (auto simp: CommandFromRow_def or_error_def bindE_eq_Inr_iff split: sum.splits)

text \<open>A selection that does not reach its limit is complete.\<close>

lemma oldest_first_complete:
  assumes "length (oldest_first n P db) < n"
  shows "set (oldest_first n P db) = {row. P row \<and> (\<exists>i. fmlookup (db_commands db) i = Some row)}"
proof -
  let ?rows = "sort_key (\<lambda>row. (cw_updated_at row, cw_command_id row)) (filter P (command_rows db))"
  have "take n ?rows = ?rows" using assms by (simp add: oldest_first_def min_def split: if_splits)
  then show ?thesis by (auto simp: oldest_first_def command_rows_set)
qed

lemma oldest_first_ids:
  assumes "commands_ok db"
  shows "distinct (map cw_command_id (oldest_first n P db))"
proof -
  let ?key = "\<lambda>row. (cw_updated_at row, cw_command_id row)"
  have "distinct (map cw_command_id (command_rows db))"
    using assms by (simp add: command_rows_ids sorted_list_of_fset.rep_eq)
  then have "distinct (map cw_command_id (filter P (command_rows db)))" by (rule distinct_map_filter)
  moreover have "mset (map cw_command_id (sort_key ?key (filter P (command_rows db)))) = mset (map cw_command_id (filter P (command_rows db)))"
    by simp
  ultimately have "distinct (map cw_command_id (sort_key ?key (filter P (command_rows db))))" using mset_eq_imp_distinct_iff by blast
  then show ?thesis by (simp add: oldest_first_def take_map [symmetric] distinct_take)
qed

text \<open>If there are fewer active commands than the limit, so are there active control commands.\<close>

lemma oldest_first_mono:
  assumes "length (oldest_first n Q db) < n" "\<And>row. P row \<Longrightarrow> Q row"
  shows "length (oldest_first n P db) < n"
proof -
  have "length (filter P rows) \<le> length (filter Q rows)" for rows
    using assms(2) by (induction rows) (auto intro: le_SucI)
  from this [of "command_rows db"] show ?thesis using assms(1) by (simp add: oldest_first_def)
qed

lemma active_row_iff: "cw_status row = CommandStatusText s \<Longrightarrow> active_row row \<longleftrightarrow> \<not> IsTerminal s"
  by (cases s) (simp_all add: active_row_def IsTerminal_def)

text \<open>After the recovery no control command is active; the other commands are as before.\<close>

lemma recovered_rows:
  assumes "commands_ok db" "length (oldest_first n control_active_row db) < n"
    and "fmlookup (set_rows (map (recover_row t) (oldest_first n control_active_row db)) (db_commands db)) i = Some row"
  shows "\<not> control_active_row row" "active_row row \<Longrightarrow> fmlookup (db_commands db) i = Some row"
proof -
  let ?rows = "map (recover_row t) (oldest_first n control_active_row db)"
  consider (recovered) "row \<in> set ?rows" | (kept) "i \<notin> cw_command_id ` set ?rows" "fmlookup (db_commands db) i = Some row"
    using set_rows_lookup [OF assms(3)] by blast
  then have "\<not> control_active_row row \<and> (active_row row \<longrightarrow> fmlookup (db_commands db) i = Some row)"
  proof cases
    case recovered
    then show ?thesis by (auto simp: recover_row_def control_active_row_def active_row_def)
  next
    case kept
    have "\<not> control_active_row row"
    proof
      assume "control_active_row row"
      with kept(2) have "row \<in> set (oldest_first n control_active_row db)" by (auto simp: oldest_first_complete [OF assms(2)])
      then have "cw_command_id (recover_row t row) \<in> cw_command_id ` set ?rows" by (intro imageI) simp
      then show False using kept commands_okD(1) [OF assms(1) kept(2)] by (simp add: recover_row_def)
    qed
    with kept show ?thesis by simp
  qed
  then show "\<not> control_active_row row" "active_row row \<Longrightarrow> fmlookup (db_commands db) i = Some row" by simp_all
qed

text \<open>Every stored source is in the catalog.\<close>

lemma read_sources_ids: "read_sources rows = Some sources \<Longrightarrow> map cs_source_id sources = map fst rows"
  by (induction rows arbitrary: sources) (auto split: option.splits if_splits)

lemma loaded_sources:
  assumes "SyncAndLoadCommandSources pg fixed f store = (Inr sources, store1)" "SourceCatalog_Load sources catalog = (Inr u, catalog1)"
    and "\<And>xs. set (pg_text_order pg xs) = set xs" "fmlookup (db_sources (ps_db store1)) k \<noteq> None"
  shows "\<exists>source. SourceCatalog_Find catalog1 k = Some source"
proof -
  have "read_sources (source_rows pg (db_sources (ps_db store1))) = Some sources"
    using assms(1) by (auto simp: SyncAndLoadCommandSources_def run_work_returns split: if_splits option.splits)
  from read_sources_ids [OF this] have "cs_source_id ` set sources = fset (fmdom (db_sources (ps_db store1)))"
    by (metis (no_types, lifting) assms(3) fst_conv image_set list.map_comp list.map_ident_strong o_apply source_rows_def
        sorted_list_of_fset_simps(1))
  then obtain source where "source \<in> set sources" "cs_source_id source = k"
    using assms(4) by (metis (no_types, lifting) fmdom_notD imageE)
  then show ?thesis using SourceCatalog_Load_exact [of sources catalog] assms(2) by auto
qed

text \<open>Loading the commands: all of them become active, with their records.\<close>

lemma load_active_found:
  assumes "SourceCatalog_Find (sv_sources st) (cr_source_id r) = Some source" "\<not> IsTerminal (cr_status r)"
  obtains ctx where "load_active env r st = activate (cr_command_id r) ctx st" "rc_record ctx = Some r"
  using assms by (simp add: load_active_def Let_def)

lemma fold_load_active:
  assumes "distinct (map cr_command_id rs)"
    and "\<And>r. r \<in> set rs \<Longrightarrow> \<not> IsTerminal (cr_status r) \<and> (\<exists>source. SourceCatalog_Find (sv_sources st) (cr_source_id r) = Some source)"
    and "r \<in> set rs"
  shows "\<exists>ctx. fmlookup (sv_active_commands (fold (load_active env) rs st)) (cr_command_id r) = Some ctx \<and> rc_record ctx = Some r"
  using assms
proof (induction rs rule: rev_induct)
  case (snoc x xs)
  have sources: "sv_sources (fold (load_active env) rs st) = sv_sources st" for rs
    by (induction rs rule: rev_induct) (simp_all add: load_active_def Let_def activate_def split: option.split)
  obtain source where source: "SourceCatalog_Find (sv_sources st) (cr_source_id x) = Some source" "\<not> IsTerminal (cr_status x)"
    using snoc.prems(2) [of x] by auto
  have "\<exists>ctx. fmlookup (sv_active_commands (fold (load_active env) xs st)) (cr_command_id r) = Some ctx \<and> rc_record ctx = Some r"
    if "r \<noteq> x"
    using snoc.IH snoc.prems that by simp
  moreover have "cr_command_id r \<noteq> cr_command_id x" if "r \<noteq> x"
    using snoc.prems(1,3) that by (force simp: image_iff)
  moreover obtain ctx where "load_active env x (fold (load_active env) xs st) = activate (cr_command_id x) ctx (fold (load_active env) xs st)"
    "rc_record ctx = Some x"
    using load_active_found [of "fold (load_active env) xs st" x source] source sources by metis
  ultimately show ?case by (cases "r = x") (simp_all add: activate_def)
qed simp

text \<open>What a successful \<^verbatim>\<open>LoadCommandState\<close> has done, call by call.\<close>

lemma LoadCommandState_success:
  assumes "Env_LoadCommandState pg lib f1 f2 f3 now st = (Inr u, st')"
    and "se_config st = Some config" "se_store st = Some store" "ac_command config = command"
  obtains sources store1 store2 u' commands recovered where
    "SyncAndLoadCommandSources pg (cc_fixed_sources command) f1 store = (Inr sources, store1)"
    "SourceCatalog_Load sources (se_command_sources st) = (Inr u', se_command_sources st')"
    "LoadActiveCommands lib (unat (cc_max_inflight_commands command + 1)) f2 store1 = (Inr commands, store2)"
    "length commands \<le> unat (cc_max_inflight_commands command)"
    "RecoverActiveControlCommands pg lib now (unat (cc_max_inflight_commands command + 1)) f3 store2 = (Inr recovered, the (se_store st'))"
    "se_active_commands st' = filter (\<lambda>r. cr_command_type r = Config) commands"
  using assms
  by (auto simp: Env_LoadCommandState_def store_call_def Let_def split: prod.splits sum.splits if_splits)

lemma Initialize_commands:
  assumes "Initialize env t config registry writes sources commands store = Inr b"
  shows "sv_active_commands (bu_command_service b) =
    sv_active_commands (LoadActive (command_env_of config env) commands (CommandService_new sources registry))"
  using assms by (auto simp: Initialize_def SetMqttAvailable_def Let_def split: sum.splits)

lemma inflight_successor:
  "config_ok config \<Longrightarrow> unat (cc_max_inflight_commands (ac_command config) + 1) = Suc (unat (cc_max_inflight_commands (ac_command config)))"
  by (simp add: config_ok_def command_ok_def unat_word_ariths word_le_nat_alt)

text \<open>The commands handed to the command service.\<close>

lemma LoadCommandState_commands:
  fixes config
  assumes "Env_LoadCommandState pg lib f1 f2 f3 now st = (Inr u, st')"
    and "se_config st = Some config" "config_ok config" "se_store st = Some store" "commands_ok (ps_db store)"
    and "\<And>xs. set (pg_text_order pg xs) = set xs"
  defines "limit \<equiv> unat (cc_max_inflight_commands (ac_command config))"
  obtains db where "commands_ok db" "length (oldest_first (Suc limit) active_row db) \<le> limit"
    "db_commands (ps_db (the (se_store st'))) = set_rows (map (recover_row (pg_micros pg (ToUnixMicroseconds now)))
       (oldest_first (Suc limit) control_active_row db)) (db_commands db)"
    "commands_ok (ps_db (the (se_store st')))"
    "\<And>k. fmlookup (db_sources db) k \<noteq> None \<Longrightarrow> \<exists>source. SourceCatalog_Find (se_command_sources st') k = Some source"
    "\<exists>commands. from_rows (CommandFromRow lib) (oldest_first (Suc limit) active_row db) = Inr commands \<and>
       se_active_commands st' = filter (\<lambda>r. cr_command_type r = Config) commands"
proof -
  obtain sources store1 store2 u' commands recovered where loaded:
    "SyncAndLoadCommandSources pg (cc_fixed_sources (ac_command config)) f1 store = (Inr sources, store1)"
    "SourceCatalog_Load sources (se_command_sources st) = (Inr u', se_command_sources st')"
    "LoadActiveCommands lib (Suc limit) f2 store1 = (Inr commands, store2)" "length commands \<le> limit"
    "RecoverActiveControlCommands pg lib now (Suc limit) f3 store2 = (Inr recovered, the (se_store st'))"
    "se_active_commands st' = filter (\<lambda>r. cr_command_type r = Config) commands"
    using LoadCommandState_success [OF assms(1,2,4) refl] unfolding inflight_successor [OF assms(3)] limit_def by metis
  have rows: "from_rows (CommandFromRow lib) (oldest_first (Suc limit) active_row (ps_db store1)) = Inr commands" "ps_db store2 = ps_db store1"
    using loaded(3) by (auto simp: LoadActiveCommands_def run_read_def run_work_returns commit_rows_def split: if_splits sum.splits)
  have ok: "commands_ok (ps_db store1)"
    using SyncAndLoadCommandSources_sound [of store pg "cc_fixed_sources (ac_command config)" f1] assms(5) loaded(1)
    by (simp add: sound_change_def)
  show thesis
  proof (rule that [OF ok])
    show "length (oldest_first (Suc limit) active_row (ps_db store1)) \<le> limit"
      using list_all2_lengthD [OF from_rows_all [OF rows(1)]] loaded(4) by simp
    show "db_commands (ps_db (the (se_store st'))) = set_rows (map (recover_row (pg_micros pg (ToUnixMicroseconds now)))
       (oldest_first (Suc limit) control_active_row (ps_db store1))) (db_commands (ps_db store1))"
      using loaded(5) by (auto simp: RecoverActiveControlCommands_def run_work_returns Let_def commit_rows_def rows(2)
          split: if_splits sum.splits)
    show "commands_ok (ps_db (the (se_store st')))"
      using RecoverActiveControlCommands_sound [of store2 pg lib now "Suc limit" f3] ok by (simp add: loaded(5) rows(2) sound_change_def)
    show "\<exists>source. SourceCatalog_Find (se_command_sources st') k = Some source" if "fmlookup (db_sources (ps_db store1)) k \<noteq> None" for k
      by (rule loaded_sources [OF loaded(1,2) assms(6) that])
  qed (use rows(1) loaded(6) in blast)
qed

lemma active_record:
  assumes "commands_ok db" "y \<in> set (oldest_first n active_row db)" "CommandFromRow lib y = Inr x"
  shows "\<not> IsTerminal (cr_status x)" "fmlookup (db_sources db) (cr_source_id x) \<noteq> None"
proof -
  obtain j where j: "fmlookup (db_commands db) j = Some y" "active_row y" using oldest_first_set [OF assms(2)] by blast
  show "\<not> IsTerminal (cr_status x)"
    using CommandFromRow_fields [OF assms(3)] j(2) by (auto simp: active_row_def ParseCommandStatus_def IsTerminal_def)
  show "fmlookup (db_sources db) (cr_source_id x) \<noteq> None"
    using commands_okD(3) [OF assms(1) j(1)] CommandFromRow_fields [OF assms(3)] by (simp add: references_ok_def)
qed

text \<open>
  C9. A restart leaves no command in limbo: once the command state has been loaded and the runtime is built, every
  command in the database either has reached its end, or is a configuration command the command service has taken
  up again with its stored record. Control commands that were under way are never resumed.
\<close>

theorem restart_recovers_commands:
  assumes "Env_LoadCommandState pg lib f1 f2 f3 now st = (Inr u, st')"
    and "Initialize env t config registry writes (se_command_sources st') (se_active_commands st') bridge = Inr b"
    and "se_config st = Some config" "config_ok config" "se_store st = Some store" "commands_ok (ps_db store)"
    and "\<And>xs. set (pg_text_order pg xs) = set xs"
    and "fmlookup (db_commands (ps_db (the (se_store st')))) i = Some row"
  shows "(\<exists>s. cw_status row = CommandStatusText s \<and> IsTerminal s) \<or>
    (\<exists>r ctx. CommandFromRow lib row = Inr r \<and> cr_command_type r = Config \<and>
       fmlookup (sv_active_commands (bu_command_service b)) i = Some ctx \<and> rc_record ctx = Some r)"
proof -
  let ?limit = "unat (cc_max_inflight_commands (ac_command config))"
  obtain db commands where db: "commands_ok db" "length (oldest_first (Suc ?limit) active_row db) \<le> ?limit"
    and table: "db_commands (ps_db (the (se_store st'))) = set_rows (map (recover_row (pg_micros pg (ToUnixMicroseconds now)))
       (oldest_first (Suc ?limit) control_active_row db)) (db_commands db)"
    and after: "commands_ok (ps_db (the (se_store st')))"
    and sources: "\<And>k. fmlookup (db_sources db) k \<noteq> None \<Longrightarrow> \<exists>source. SourceCatalog_Find (se_command_sources st') k = Some source"
    and rows: "from_rows (CommandFromRow lib) (oldest_first (Suc ?limit) active_row db) = Inr commands"
    and commands: "se_active_commands st' = filter (\<lambda>r. cr_command_type r = Config) commands"
    using LoadCommandState_commands [OF assms(1,3,4,5,6,7)] by metis
  have few: "length (oldest_first (Suc ?limit) active_row db) < Suc ?limit" using db(2) by simp
  then have "length (oldest_first (Suc ?limit) control_active_row db) < Suc ?limit"
    by (rule oldest_first_mono) (simp add: control_active_row_def)
  note kept = recovered_rows [OF db(1) this assms(8) [unfolded table]]
  show ?thesis
  proof (cases "active_row row")
    case False
    then show ?thesis using commands_okD(2) [OF after assms(8)] active_row_iff by blast
  next
    case True
    have "row \<in> set (oldest_first (Suc ?limit) active_row db)" using True kept(2) by (auto simp: oldest_first_complete [OF few])
    then obtain r where r: "r \<in> set commands" "CommandFromRow lib row = Inr r" using from_rows_mem(1) [OF rows] by blast
    have resumed: "\<not> IsTerminal (cr_status x) \<and> (\<exists>source. SourceCatalog_Find (se_command_sources st') (cr_source_id x) = Some source)"
      if "x \<in> set commands" for x
      using from_rows_mem(2) [OF rows that] active_record [OF db(1)] sources by blast
    have config: "cr_command_type r = Config"
      using kept(1) True CommandFromRow_fields [OF r(2)]
      by (auto simp: control_active_row_def ParseCommandType_def split: if_splits)
    have "map cr_command_id commands = map cw_command_id (oldest_first (Suc ?limit) active_row db)"
      by (rule from_rows_map [OF rows]) (simp add: CommandFromRow_fields)
    then have "distinct (map cr_command_id commands)" using oldest_first_ids [OF db(1)] by simp
    then have "distinct (map cr_command_id (se_active_commands st'))" unfolding commands by (rule distinct_map_filter)
    moreover have "cr_command_id r = i"
      using CommandFromRow_fields [OF r(2)] commands_okD(1) [OF db(1) kept(2) [OF True]] by simp
    moreover have "length commands \<le> ?limit" using list_all2_lengthD [OF from_rows_all [OF rows]] db(2) by simp
    then have "length (se_active_commands st') \<le> ?limit" unfolding commands by (metis le_trans length_filter_le)
    ultimately have "\<exists>ctx. fmlookup (sv_active_commands (bu_command_service b)) i = Some ctx \<and> rc_record ctx = Some r"
      using fold_load_active [where rs = "se_active_commands st'" and r = r and env = "command_env_of config env"
          and st = "CommandService_new (se_command_sources st') registry"] resumed r(1) config
      by (simp add: Initialize_commands [OF assms(2)] LoadActive_def command_env_of_def Let_def commands CommandService_new_def)
    then show ?thesis using r(2) config by blast
  qed
qed

definition demo_se_config :: AppConfig where
  "demo_se_config = App_Config.demo_config\<lparr>ac_command := (ac_command App_Config.demo_config)\<lparr>cc_fixed_sources :=
     [\<lparr>fs_source_id = ''app'', fs_source_kind = FixedHostApp\<rparr>]\<rparr>\<rparr>"

definition demo_environment :: ServiceEnvironment where
  "demo_environment =
     (ServiceEnvironment_new ''cns.json'' ''migrations'')\<lparr>se_config := Some demo_se_config, se_store := Some demo_stored\<rparr>"

lemma demo_se_config_ok: "config_ok demo_se_config"
  using demo_config_ok
  by (simp add: demo_se_config_def config_ok_def command_ok_def IsValidSourceId_def char_class_defs less_eq_char_def)

definition demo_catalog :: SourceCatalog where
  "demo_catalog = fmupd ''app'' \<lparr>cs_source_id = ''app'', cs_kind = SrcHostApp, cs_device_id = None, cs_enabled = True\<rparr> fmempty"

lemma demo_sync:
  "SyncAndLoadCommandSources plain_pg (cc_fixed_sources (ac_command demo_se_config)) NoFault demo_stored =
     (Inr [\<lparr>cs_source_id = ''app'', cs_kind = SrcHostApp, cs_device_id = None, cs_enabled = True\<rparr>], demo_stored)"
proof -
  let ?row = "\<lparr>so_source_kind = ''host_app'', so_device_id = None, so_enabled = True\<rparr>"
  have same: "fmupd ''app'' ?row (disable_unconfigured [''app''] (db_sources demo_db)) = db_sources demo_db"
    "fmlookup (disable_unconfigured [''app''] (db_sources demo_db)) ''app'' = Some ?row" "fmlookup (db_sources demo_db) ''app'' = Some ?row"
    by (auto simp: disable_unconfigured_def demo_db_def intro!: fmap_ext)
  have "source_rows plain_pg (db_sources demo_db) = [(''app'', ?row)]"
    by (simp add: source_rows_def plain_pg_def demo_db_def sorted_list_of_fset.rep_eq)
  then show ?thesis
    by (simp add: SyncAndLoadCommandSources_def run_work_returns demo_stored demo_store_def demo_se_config_def kind_conflict_def
        fixed_kind_text_def enable_source_def plain_pg_def same)
qed

lemma demo_rows:
  "command_rows (ps_db demo_stored) = [demo_row]" "ps_open demo_stored" "active_row demo_row" "\<not> control_active_row demo_row"
  by (simp_all add: command_rows_def demo_stored demo_store_def sorted_list_of_fset.rep_eq demo_row_def active_row_def control_active_row_def)

theorem restart_recovers_commands_witness:
  "\<exists>st' b ctx. Env_LoadCommandState plain_pg plain_lib NoFault NoFault NoFault 9000 demo_environment = (Inr (), st') \<and>
     Initialize demo_bridge_env 0 demo_se_config DeviceRegistry_new [] (se_command_sources st') (se_active_commands st') demo_bridge = Inr b \<and>
     fmlookup (sv_active_commands (bu_command_service b)) ''c1'' = Some ctx"
proof -
  obtain r where r: "CommandFromRow plain_lib demo_row = Inr r" using demo_row_reads by blast
  have "unat (cc_max_inflight_commands (ac_command demo_se_config) + 1) = 257" "unat (cc_max_inflight_commands (ac_command demo_se_config)) = 256"
    by (simp_all add: demo_se_config_def App_Config.demo_config_def)
  note sizes = this
  have active: "LoadActiveCommands plain_lib 257 NoFault demo_stored = (Inr [r], demo_stored)"
    by (simp add: LoadActiveCommands_def int64_limit_def run_read_def run_work_returns oldest_first_def demo_rows r commit_rows_def)
  have recover: "RecoverActiveControlCommands plain_pg plain_lib 9000 257 NoFault demo_stored = (Inr [], demo_stored)"
    by (simp add: RecoverActiveControlCommands_def int64_limit_def run_work_returns oldest_first_def demo_rows commit_rows_def)
  have load: "\<exists>st'. Env_LoadCommandState plain_pg plain_lib NoFault NoFault NoFault 9000 demo_environment = (Inr (), st') \<and>
      se_store st' = Some demo_stored"
    by (simp add: Env_LoadCommandState_def demo_environment_def store_call_def Let_def demo_sync sizes active recover
        SourceCatalog_Load_def check_source_def)
  then obtain st' where st': "Env_LoadCommandState plain_pg plain_lib NoFault NoFault NoFault 9000 demo_environment = (Inr (), st')"
    "se_store st' = Some demo_stored" by blast
  obtain b where b: "Initialize demo_bridge_env 0 demo_se_config DeviceRegistry_new [] (se_command_sources st') (se_active_commands st') demo_bridge = Inr b"
    by (simp add: Initialize_def BoundedQueue_new_def demo_se_config_def App_Config.demo_config_def)
  have row: "fmlookup (db_commands (ps_db (the (se_store st')))) ''c1'' = Some demo_row" by (simp add: st'(2) demo_stored demo_store_def)
  have "\<not> (\<exists>s. cw_status demo_row = CommandStatusText s \<and> IsTerminal s)"
    using active_row_iff demo_rows(3) by blast
  then show ?thesis
    using restart_recovers_commands [OF st'(1) b _ demo_se_config_ok _ demo_stored_ok _ row] st'(1) b
    by (auto simp: demo_environment_def plain_pg_def)
qed

subsection \<open>Snapshots after reconnections\<close>

lemma Ensure_generation [simp]:
  "mq_connection_generation (snd (EnsureBusinessSubscriptions lib c)) = mq_connection_generation c"
proof -
  have one: "mq_connection_generation (snd (subscribe_one lib x c)) = mq_connection_generation c" for x c
    by (simp add: subscribe_one_def lib_call_def mq_emit_def Let_def)
  have all: "mq_connection_generation (snd (subscribe_all lib xs c)) = mq_connection_generation c" for xs c
  proof (induction xs arbitrary: c)
    case (Cons x xs)
    then show ?case using one [of x c] by (auto split: prod.split sum.split)
  qed simp
  have commit: "mq_connection_generation (subscribe_commit plan c) = mq_connection_generation c" for plan c
    by (simp add: subscribe_commit_def Let_def mq_log_def mq_emit_def)
  show ?thesis using all [of "planned_subscriptions (subscribe_begin c)" c]
    by (auto simp: EnsureBusinessSubscriptions_def SubscribeConfigured_def Let_def commit split: prod.split sum.split)
qed

lemma generation_current: "BusinessSubscriptionGeneration c = Some g \<Longrightarrow> g = mq_connection_generation c"
  by (simp add: BusinessSubscriptionGeneration_def Let_def split: if_splits)

text \<open>
  A check either leaves the device service and the remembered generation alone, or asks the service for a snapshot and
  remembers the generation of the subscriptions, which are ready and were not answered before.
\<close>

lemma check_cases:
  assumes "se_runtime_bundle st = Some b" "se_mqtt st = Some c" "st' = Env_WaitForNextCheck lib now st"
  obtains (unchanged) b' c' where "se_runtime_bundle st' = Some b'" "se_mqtt st' = Some c'" "bu_service b' = bu_service b"
      "mq_connection_generation c' = mq_connection_generation c"
      "se_last_external_snapshot_generation st' = se_last_external_snapshot_generation st"
  | (requested) b' c' g where "se_runtime_bundle st' = Some b'" "se_mqtt st' = Some c'"
      "bu_service b' = RequestExternalSnapshot (bu_service b)" "mq_connection_generation c' = mq_connection_generation c"
      "BusinessSubscriptionGeneration c' = Some g" "se_last_external_snapshot_generation st \<noteq> Some g"
      "se_last_external_snapshot_generation st' = Some g"
proof -
  obtain subscribed c1 where ensure: "EnsureBusinessSubscriptions lib c = (subscribed, c1)"
    by (cases "EnsureBusinessSubscriptions lib c")
  have generation: "mq_connection_generation c1 = mq_connection_generation c"
    using Ensure_generation [of lib c] by (simp add: ensure)
  show thesis
    by (cases "IsConnected c \<and> now \<ge> se_next_mqtt_subscription_retry st \<and> has_value subscribed \<and>
          BusinessSubscriptionGeneration c1 \<noteq> None \<and> BusinessSubscriptionGeneration c1 \<noteq> se_last_external_snapshot_generation st")
       (use assms generation in \<open>auto simp: Env_WaitForNextCheck_def renew_subscriptions_def ensure Let_def se_write_def
          split: sum.splits if_splits intro: unchanged requested\<close>)
qed

text \<open>
  The life of the environment as the checks see it: the generations of the connections whose snapshots were requested,
  and everything else that happens in between, which never turns the connections back.
\<close>

inductive checked :: "mosquitto_lib \<Rightarrow> ServiceEnvironment \<Rightarrow> nat list \<Rightarrow> bool" for lib where
  start: "se_last_external_snapshot_generation st = None \<Longrightarrow> se_runtime_bundle st = Some b \<Longrightarrow> se_mqtt st = Some c \<Longrightarrow> checked lib st []"
| check: "checked lib st gs \<Longrightarrow> st' = Env_WaitForNextCheck lib now st \<Longrightarrow>
    checked lib st' (if se_last_external_snapshot_generation st' = se_last_external_snapshot_generation st then gs
                     else gs @ [the (se_last_external_snapshot_generation st')])"
| others: "checked lib st gs \<Longrightarrow> se_mqtt st = Some c \<Longrightarrow> se_mqtt st' = Some c' \<Longrightarrow>
    mq_connection_generation c \<le> mq_connection_generation c' \<Longrightarrow> se_runtime_bundle st' = Some b' \<Longrightarrow>
    se_last_external_snapshot_generation st' = se_last_external_snapshot_generation st \<Longrightarrow> checked lib st' gs"

definition checked_ok :: "ServiceEnvironment \<Rightarrow> nat list \<Rightarrow> bool" where
  "checked_ok st gs \<longleftrightarrow> sorted_wrt (<) gs \<and> se_last_external_snapshot_generation st = (if gs = [] then None else Some (last gs)) \<and>
     (\<exists>b c. se_runtime_bundle st = Some b \<and> se_mqtt st = Some c \<and> (\<forall>g\<in>set gs. g \<le> mq_connection_generation c))"

lemma last_greatest: "sorted_wrt (<) gs \<Longrightarrow> h \<in> set gs \<Longrightarrow> h \<le> last gs" for h :: nat
  by (induction gs rule: rev_induct) (auto simp: sorted_wrt_append)

lemma checked_ok_check:
  assumes "checked_ok st gs" "st' = Env_WaitForNextCheck lib now st"
  shows "checked_ok st' (if se_last_external_snapshot_generation st' = se_last_external_snapshot_generation st then gs
     else gs @ [the (se_last_external_snapshot_generation st')])"
proof -
  obtain b c where st: "se_runtime_bundle st = Some b" "se_mqtt st = Some c" "\<forall>g\<in>set gs. g \<le> mq_connection_generation c"
    using assms(1) by (auto simp: checked_ok_def)
  from st(1,2) assms(2) show ?thesis
  proof (cases rule: check_cases)
    case (unchanged b' c')
    then show ?thesis using assms(1) st(3) by (simp add: checked_ok_def)
  next
    case (requested b' c' g)
    have g: "g = mq_connection_generation c" using generation_current [OF requested(5)] requested(4) by simp
    have "h < g" if "h \<in> set gs" for h
    proof -
      have "h \<le> last gs" using assms(1) that by (simp add: checked_ok_def last_greatest)
      moreover have "last gs \<noteq> g" using requested(6) assms(1) that by (auto simp: checked_ok_def split: if_splits)
      moreover have "last gs \<le> g" using st(3) g that by (metis empty_iff last_in_set list.set(1))
      ultimately show ?thesis by simp
    qed
    then show ?thesis using requested assms(1) st(3) g by (auto simp: checked_ok_def sorted_wrt_append intro: less_imp_le)
  qed
qed

lemma checked_invariant: "checked lib st gs \<Longrightarrow> checked_ok st gs"
proof (induction rule: checked.induct)
  case (check st gs st' now)
  from checked_ok_check [OF check.IH check.hyps(2)] show ?case .
next
  case (others st gs c st' c' b')
  then show ?case by (fastforce simp: checked_ok_def)
qed (simp add: checked_ok_def)


definition demo_client :: MqttClient where
  "demo_client = MqttClient_new\<lparr>mq_connected := True, mq_device_topic_namespace := ''cns'', mq_command_topic_namespace := ''cns'',
     mq_connection_generation := 1, mq_registration_generation := Some 1, mq_telemetry_generation := Some 1,
     mq_source_request_generation := Some 1, mq_device_ack_generation := Some 1\<rparr>"


subsection \<open>Devices after a restart\<close>

lemma fold_writes_service: "bu_service (fold (\<lambda>w s. snd (on_write w s)) ws b) = bu_service b"
  by (induction ws arbitrary: b) (simp_all add: on_write_def split: prod.split)

lemma fold_writes:
  assumes "distinct (map (\<lambda>w. dr_device_id (dw_record w)) ws)" "pw_accepting (bu_worker b)"
    and "\<And>w. w \<in> set ws \<Longrightarrow> fmlookup (pw_writes (bu_worker b)) (dr_device_id (dw_record w)) = None"
  shows "fmlookup (pw_writes (bu_worker (fold (\<lambda>w s. snd (on_write w s)) ws b))) d = Some w \<longleftrightarrow>
      w \<in> set ws \<and> dr_device_id (dw_record w) = d \<or> fmlookup (pw_writes (bu_worker b)) d = Some w"
  using assms
proof (induction ws arbitrary: b)
  case (Cons x xs)
  let ?b = "snd (on_write x b)"
  have step: "pw_accepting (bu_worker ?b)"
      "pw_writes (bu_worker ?b) = fmupd (dr_device_id (dw_record x)) x (pw_writes (bu_worker b))"
    using Cons.prems(2) Cons.prems(3) [of x] by (simp_all add: on_write_def Worker_SubmitWrite_def MergeWrite_def Let_def)
  have other: "fmlookup (pw_writes (bu_worker ?b)) (dr_device_id (dw_record w)) = None" if "w \<in> set xs" for w
    using Cons.prems(1) Cons.prems(3) [of w] that by (force simp: step)
  have free: "fmlookup (pw_writes (bu_worker b)) (dr_device_id (dw_record x)) = None" using Cons.prems(3) [of x] by simp
  show ?case using Cons.IH [OF _ step(1) other] Cons.prems(1) free by (auto simp: step)
qed simp

text \<open>What a successful \<^verbatim>\<open>LoadDeviceSnapshot\<close> has done.\<close>

lemma LoadDeviceSnapshot_success:
  assumes "Env_LoadDeviceSnapshot pg lib order f now st = (Inr u, st')" "se_config st = Some config" "se_store st = Some store"
    and "\<And>ks. mset (order ks) = mset ks"
  obtains records reg where "fst (LoadDevices pg lib f store) = Inr records"
    "distinct (map dr_device_id records)" "\<forall>d r. Find reg d = Some r \<longleftrightarrow> r \<in> set records \<and> dr_device_id r = d"
    "se_startup_writes st' = map startup_write
       (fst (ExpireInactive (order (sorted_list_of_fset (fmdom (rg_records reg)))) now (sc_offline_timeout (ac_device_state config)) reg))"
    "se_registry st' =
       snd (ExpireInactive (order (sorted_list_of_fset (fmdom (rg_records reg)))) now (sc_offline_timeout (ac_device_state config)) reg)"
    "registry_reachable reg" "enumerates (order (sorted_list_of_fset (fmdom (rg_records reg)))) (rg_records reg)"
    "se_config st' = Some config" "\<exists>store'. se_store st' = Some store'"
proof -
  obtain records store' where records: "LoadDevices pg lib f store = (Inr records, store')"
    using assms(1,3) by (auto simp: Env_LoadDeviceSnapshot_def store_call_def split: prod.splits sum.splits)
  obtain u' reg where reg: "Load records (se_registry st) = (Inr u', reg)"
    using assms(1,3) records by (auto simp: Env_LoadDeviceSnapshot_def store_call_def split: prod.splits sum.splits)
  let ?ks = "order (sorted_list_of_fset (fmdom (rg_records reg)))"
  have loaded: "distinct (map dr_device_id records)" "\<forall>d r. Find reg d = Some r \<longleftrightarrow> r \<in> set records \<and> dr_device_id r = d"
    using Load_exact [of records "se_registry st"] reg by auto
  have "mset ?ks = mset (sorted_list_of_fset (fmdom (rg_records reg)))" by (rule assms(4))
  from mset_eq_imp_distinct_iff [OF this] mset_eq_setD [OF this] have "distinct ?ks" "set ?ks = fmdom' (rg_records reg)"
    by (simp_all add: sorted_list_of_fset.rep_eq fmdom'_alt_def)
  then have keys: "enumerates ?ks (rg_records reg)" by (simp add: enumerates_def)
  have reach: "registry_reachable reg"
    using reg registry_reachable.step [OF registry_reachable.start registry_step.load [of _ records]]
    by (auto simp: Load_def split: sum.splits)
  have final: "se_startup_writes st' = map startup_write (fst (ExpireInactive ?ks now (sc_offline_timeout (ac_device_state config)) reg))"
    "se_registry st' = snd (ExpireInactive ?ks now (sc_offline_timeout (ac_device_state config)) reg)"
    "se_config st' = Some config" "se_store st' = Some store'"
    using assms(1,2,3) by (auto simp: Env_LoadDeviceSnapshot_def store_call_def records reg split: prod.splits)
  show thesis by (rule that [OF _ loaded final(1,2) reach keys final(3)]) (use records final(4) in auto)
qed

lemma fold_writes_worker:
  "bu_worker (fold (\<lambda>w s. snd (on_write w s)) ws b) = fold (\<lambda>w k. snd (Worker_SubmitWrite w k)) ws (bu_worker b)"
  by (induction ws arbitrary: b) (simp_all add: on_write_def split_beta)

lemma StartDeviceRuntime_success:
  assumes "Env_StartDeviceRuntime env t database_created business_created st = (Inr u, st')"
  obtains built b where
    "Initialize env t (the (se_config st)) (se_registry st) (se_startup_writes st) (se_command_sources st) (se_active_commands st)
       (make_store_bridge st) = Inr built"
    "se_runtime_bundle st' = Some b" "bu_service b = bu_service built"
    "pw_writes (bu_worker b) = pw_writes (bu_worker (fold (\<lambda>w s. snd (on_write w s)) (se_startup_writes st) built))"
proof -
  obtain built where built: "Initialize env t (the (se_config st)) (se_registry st) (se_startup_writes st) (se_command_sources st)
      (se_active_commands st) (make_store_bridge st) = Inr built"
    using assms by (auto simp: Env_StartDeviceRuntime_def split: sum.splits)
  have fresh: "bu_database_thread built = fresh_thread" "bu_business_thread built = fresh_thread"
    "bu_startup_writes built = se_startup_writes st"
    using built by (auto simp: Initialize_def split: sum.splits)
  have created: "database_created" "business_created"
    using assms
    by (auto simp: Env_StartDeviceRuntime_def built Let_def StartDeviceRuntimeTransaction_def StartDatabaseThread_def
        StartBusinessThread_def start_thread_def Thread_Start_def fresh fresh_thread_def split: if_splits)
  show thesis
    by (rule that [OF built, of "the (se_runtime_bundle st')"])
       (use assms in \<open>auto simp: Env_StartDeviceRuntime_def built Let_def StartDeviceRuntimeTransaction_def StartDatabaseThread_def
        StartBusinessThread_def start_thread_def Thread_Start_def fresh fresh_thread_def created fold_writes_worker fold_writes_service\<close>)
qed

definition status_write :: "DeviceRecord \<Rightarrow> DesiredDeviceWrite" where
  "status_write r =
     \<lparr>dw_record = r, dw_revision = dr_revision r, dw_write_metadata = False, dw_write_status = True,
      dw_write_telemetry = False, dw_urgency = Immediate\<rparr>"

text \<open>
  C19. A restart takes over the stored devices: once the snapshot is loaded and the runtime started, the registry holds
  exactly the stored devices, those that were online but silent for longer than the time limit as offline with a new
  revision; and the database worker holds exactly one write for each of these and no other, which stores the status and
  touches neither metadata nor telemetry.
\<close>

theorem restart_takes_over_devices:
  assumes "Env_LoadDeviceSnapshot pg lib order f now st = (Inr u, st')" "Env_StartDeviceRuntime env t c1 c2 st' = (Inr u', st'')"
    and "se_config st = Some config" "se_store st = Some store" "\<And>ks. mset (order ks) = mset ks"
  shows "\<exists>records b. fst (LoadDevices pg lib f store) = Inr records \<and> se_runtime_bundle st'' = Some b \<and>
    (\<forall>d r. Find (ds_registry (bu_service b)) d = Some r \<longleftrightarrow>
       (\<exists>s\<in>set records. dr_device_id s = d \<and>
          r = (if is_expired now (sc_offline_timeout (ac_device_state config)) s then expire s else s))) \<and>
    (\<forall>d w. fmlookup (pw_writes (bu_worker b)) d = Some w \<longleftrightarrow>
       (\<exists>s\<in>set records. dr_device_id s = d \<and> is_expired now (sc_offline_timeout (ac_device_state config)) s \<and>
          w = status_write (expire s)))"
proof -
  let ?timeout = "sc_offline_timeout (ac_device_state config)"
  obtain records reg where records: "fst (LoadDevices pg lib f store) = Inr records"
    and found: "\<forall>d r. Find reg d = Some r \<longleftrightarrow> r \<in> set records \<and> dr_device_id r = d"
    and expire_run: "se_startup_writes st' = map startup_write
       (fst (ExpireInactive (order (sorted_list_of_fset (fmdom (rg_records reg)))) now ?timeout reg))"
      "se_registry st' = snd (ExpireInactive (order (sorted_list_of_fset (fmdom (rg_records reg)))) now ?timeout reg)"
    and reg: "registry_reachable reg" "enumerates (order (sorted_list_of_fset (fmdom (rg_records reg)))) (rg_records reg)"
    by (rule LoadDeviceSnapshot_success [OF assms(1,3,4,5)]) blast
  obtain built b where b:
    "Initialize env t (the (se_config st')) (se_registry st') (se_startup_writes st') (se_command_sources st') (se_active_commands st')
       (make_store_bridge st') = Inr built"
    "se_runtime_bundle st'' = Some b" "bu_service b = bu_service built"
    "pw_writes (bu_worker b) = pw_writes (bu_worker (fold (\<lambda>w s. snd (on_write w s)) (se_startup_writes st') built))"
    using StartDeviceRuntime_success [OF assms(2)] by metis
  have built: "bu_worker built = PostgresWorker_new" "ds_registry (bu_service b) = se_registry st'"
    using b(1,3) by (auto simp: Initialize_def DeviceService_new_def Let_def split: sum.splits)
  note exact = ExpireInactive_exact [OF reg(1,2,2) surjective_pairing, of now ?timeout, folded expire_run(2)]
  have registry: "Find (se_registry st') d = Some r \<longleftrightarrow>
      (\<exists>s\<in>set records. dr_device_id s = d \<and> r = (if is_expired now ?timeout s then expire s else s))" for d r
  proof -
    have lookup: "Find (se_registry st') d = map_option (\<lambda>r. if is_expired now ?timeout r then expire r else r) (Find reg d)"
      by (rule exact [THEN conjunct1, rule_format])
    show ?thesis unfolding lookup map_option_eq_Some found [rule_format] by auto
  qed
  have "distinct (map (\<lambda>w. dr_device_id (dw_record w)) (se_startup_writes st'))"
    using exact by (simp add: expire_run(1) startup_write_def o_def)
  note writes = fold_writes [OF this, of built, folded b(4)]
  have "set (se_startup_writes st') = status_write ` {expire r |r d. Find reg d = Some r \<and> is_expired now ?timeout r}"
    unfolding expire_run(1) exact [THEN conjunct2, THEN conjunct2, THEN conjunct1, symmetric]
    by (simp add: startup_write_def status_write_def image_image)
  then have "fmlookup (pw_writes (bu_worker b)) d = Some w \<longleftrightarrow>
      w \<in> status_write ` {expire r |r d. Find reg d = Some r \<and> is_expired now ?timeout r} \<and> dr_device_id (dw_record w) = d" for d w
    using writes [of d w] by (simp add: built PostgresWorker_new_def)
  moreover have "dr_device_id (dw_record (status_write (expire s))) = dr_device_id s" for s
    by (simp add: status_write_def expire_def)
  ultimately have "fmlookup (pw_writes (bu_worker b)) d = Some w \<longleftrightarrow>
       (\<exists>s\<in>set records. dr_device_id s = d \<and> is_expired now ?timeout s \<and> w = status_write (expire s))" for d w
    by (auto simp: found [rule_format])
  with registry show ?thesis using records b(2) built(2) by auto
qed

definition demo_silent :: PostgresStore where
  "demo_silent = demo_store\<lparr>ps_db := demo_db\<lparr>db_states := fmupd ''a'' \<lparr>ds_status = ''online'', ds_last_seen_at = Some 1,
     ds_latest_telemetry = None, ds_telemetry_received_at = None\<rparr> fmempty\<rparr>\<rparr>"

definition demo_silent_record :: DeviceRecord where
  "demo_silent_record =
     \<lparr>dr_device_id = ''a'', dr_school_id = 0, dr_school_name = [], dr_dcdw_label = None, dr_model_version = ''PX4'', dr_status = Online,
      dr_last_seen_at = Some 1000, dr_latest_telemetry = None, dr_telemetry_received_at = None, dr_revision = 0,
      dr_device_type = FlightController, dr_capabilities = None, dr_product = None, dr_version = None\<rparr>"

lemma demo_silent_loads: "LoadDevices plain_pg plain_lib NoFault demo_silent = (Inr [demo_silent_record], demo_silent)"
  by (simp add: LoadDevices_def run_read_def run_work_returns demo_silent_def demo_store_def demo_db_def commit_rows_def plain_pg_def
      sorted_list_of_fset.rep_eq List.map_filter_def device_view_of_def DeviceFromRow_def ParseDeviceTelemetry_def CapabilitiesFromField_def
      OptionalJson_def optional_time_def FromUnixMicroseconds_def cut_def DeviceStatus_def DeviceType_of_def demo_silent_record_def)

theorem restart_takes_over_devices_witness:
  "\<exists>st' st'' b w.
     Env_LoadDeviceSnapshot plain_pg plain_lib (\<lambda>ks. ks) NoFault 90000000000 (demo_environment\<lparr>se_store := Some demo_silent\<rparr>) = (Inr (), st') \<and>
     Env_StartDeviceRuntime demo_bridge_env 0 True True st' = (Inr (), st'') \<and> se_runtime_bundle st'' = Some b \<and>
     fmlookup (pw_writes (bu_worker b)) ''a'' = Some w \<and> dr_status (dw_record w) = Offline"
proof -
  let ?st = "demo_environment\<lparr>se_store := Some demo_silent\<rparr>"
  have "\<exists>st'. Env_LoadDeviceSnapshot plain_pg plain_lib (\<lambda>ks. ks) NoFault 90000000000 ?st = (Inr (), st') \<and> se_config st' = Some demo_se_config"
    by (simp add: Env_LoadDeviceSnapshot_def store_call_def demo_silent_loads Load_def load_record_def demo_silent_record_def
        DeviceRegistry_new_def demo_environment_def split: prod.split)
  then obtain st' where load: "Env_LoadDeviceSnapshot plain_pg plain_lib (\<lambda>ks. ks) NoFault 90000000000 ?st = (Inr (), st')"
    "se_config st' = Some demo_se_config" by blast
  obtain st'' where start: "Env_StartDeviceRuntime demo_bridge_env 0 True True st' = (Inr (), st'')"
    using load(2)
    by (simp add: Env_StartDeviceRuntime_def Initialize_def BoundedQueue_new_def demo_se_config_def App_Config.demo_config_def Let_def
        StartDeviceRuntimeTransaction_def StartDatabaseThread_def StartBusinessThread_def start_thread_def Thread_Start_def fresh_thread_def)
  have store: "se_config ?st = Some demo_se_config" "se_store ?st = Some demo_silent" by (simp_all add: demo_environment_def)
  have expired: "is_expired 90000000000 (sc_offline_timeout (ac_device_state demo_se_config)) demo_silent_record"
    by (simp add: is_expired_def demo_silent_record_def demo_se_config_def App_Config.demo_config_def)
  obtain b where "se_runtime_bundle st'' = Some b" "fmlookup (pw_writes (bu_worker b)) ''a'' = Some (status_write (expire demo_silent_record))"
    using restart_takes_over_devices [OF load(1) start store refl] expired
    by (auto simp: demo_silent_loads) (simp add: demo_silent_record_def)
  then show ?thesis using load(1) start by (auto simp: status_write_def expire_def)
qed

end
