(* ===== verification/Command_Service_Shutdown.thy ===== *)
theory Command_Service_Shutdown
  imports Command_Service_Laws
begin

text \<open>
  The command service during the shutdown: \<^verbatim>\<open>StopAcceptingDeviceMessages\<close> closes it, and then
  \<^verbatim>\<open>StopDeviceRuntime\<close> waits until no database operation is pending.
\<close>

text \<open>What the threads still do with a closed service while the shutdown waits.\<close>

inductive closing_step :: "service_env \<Rightarrow> CommandService \<Rightarrow> CommandService \<Rightarrow> bool" for env st where
  process: "closing_step env st (ProcessReady env now st)"
| database_result: "closing_step env st (PushDatabaseResult result st)"
| publish_completion: "closing_step env st (PushPublishCompletion completion st)"
| message: "closing_step env st (snd (CommandService_TryPush env msg st))"
| target_online: "closing_step env st (OnTargetOnline env device_id now st)"
| mqtt: "closing_step env st (SetMqttAvailable available st)"
| database: "closing_step env st (SetDatabaseAvailable available st)"
| directories: "closing_step env st (st\<lparr>sv_sources := sources, sv_devices := devices\<rparr>)"

inductive_cases closing_stepE: "closing_step env st st'"

text \<open>A pending operation whose result has not been delivered.\<close>

definition awaited :: "64 word \<Rightarrow> CommandService \<Rightarrow> bool" where
  "awaited k st \<longleftrightarrow> fmlookup (sv_operations st) k \<noteq> None \<and> k \<notin> cdr_operation_id ` set (sv_database_results st)"

definition stranded :: "64 word \<Rightarrow> CommandService \<Rightarrow> bool" where
  "stranded k st \<longleftrightarrow> sv_closed st \<and> awaited k st"

lemmas stranded_defs = stranded_def awaited_def

interpretation keep_stranded: task_contract "stranded k" env for k env
  by unfold_locales (auto simp: stranded_defs emit_def Submit_def Let_def emplace_def)

lemma process_one_stranded:
  assumes "process_one env now st = Some st'" "stranded k st"
  shows "stranded k st'"
proof (cases "sv_database_results st")
  case (Cons result rest)
  let ?st = "st\<lparr>sv_database_results := rest\<rparr>"
  have "stranded k (HandleDatabaseResult env result now ?st)"
    using assms(2) Cons by (intro keep_stranded.HandleDatabaseResult_taken) (auto simp: stranded_defs)
  then show ?thesis using assms(1) Cons by (simp add: process_one_def)
next
  case Nil
  have "stranded k (st\<lparr>sv_publish_completions := cs\<rparr>)" "stranded k (st\<lparr>sv_messages := ms\<rparr>)" for cs ms
    using assms(2) by (simp_all add: stranded_defs)
  then show ?thesis
    using assms(1) Nil
    by (auto simp: process_one_def keep_stranded.HandlePublishCompletion keep_stranded.HandleMessage split: list.splits)
qed

lemma ProcessReady_stranded: "stranded k st \<Longrightarrow> stranded k (ProcessReady env now st)"
proof -
  have "stranded k st \<Longrightarrow> stranded k (ProcessReady_loop env now st)"
  proof (induction env now st rule: ProcessReady_loop.induct)
    case (1 env now st)
    then show ?case by (subst ProcessReady_loop.simps) (auto split: option.split dest: process_one_stranded)
  qed
  then show "stranded k st \<Longrightarrow> ?thesis"
    by (simp add: ProcessReady_def keep_stranded.ProcessTimeoutsAndRecovery keep_stranded.RetryDeferredTransitions)
qed

lemma ProcessReady_book: "book_ok st \<Longrightarrow> book_ok (ProcessReady env now st)"
proof -
  have one: "book_ok st'" if "process_one env now st = Some st'" "book_ok st" for env now st st'
  proof -
    have "book_ok (st\<lparr>sv_database_results := rs\<rparr>)" "book_ok (st\<lparr>sv_publish_completions := cs\<rparr>)" "book_ok (st\<lparr>sv_messages := ms\<rparr>)"
      for rs cs ms using that(2) by (simp_all add: book_ok_def submits_def)
    then show ?thesis using that(1)
      by (auto simp: process_one_def keep_book.HandleDatabaseResult keep_book.HandlePublishCompletion keep_book.HandleMessage
          split: list.splits)
  qed
  have "book_ok st \<Longrightarrow> book_ok (ProcessReady_loop env now st)"
  proof (induction env now st rule: ProcessReady_loop.induct)
    case (1 env now st)
    then show ?case by (subst ProcessReady_loop.simps) (auto split: option.split dest: one)
  qed
  then show "book_ok st \<Longrightarrow> ?thesis"
    by (simp add: ProcessReady_def keep_book.ProcessTimeoutsAndRecovery keep_book.RetryDeferredTransitions)
qed

lemma closing_step_stranded:
  assumes "closing_step env st st'" "stranded k st" "book_ok st"
  shows "stranded k st' \<and> book_ok st'"
  using assms
  by (auto elim!: closing_stepE simp: ProcessReady_stranded ProcessReady_book keep_stranded.OnTargetOnline keep_book.OnTargetOnline)
     (auto simp: stranded_defs book_ok_def submits_def PushDatabaseResult_def PushPublishCompletion_def CommandService_TryPush_def
       SetMqttAvailable_def SetDatabaseAvailable_def Let_def)

text \<open>
  C40. A database operation in flight when the service is closed is never drained: the result is thrown away, the
  operation stays pending, and what \<^verbatim>\<open>WaitForDatabaseIdle\<close> waits for never holds again, whatever the
  worker answers and however often the business thread runs. The shutdown then always ends by its time limit.
\<close>

theorem closed_service_never_idle:
  assumes "service_reachable env st" "fmlookup (sv_operations st) k \<noteq> None" "k \<notin> cdr_operation_id ` set (sv_database_results st)"
    and "(closing_step env)\<^sup>*\<^sup>* (CommandService_Close st) st'" "submits st' < 2 ^ 64 - 1"
  shows "\<not> database_idle st' \<and> fmlookup (sv_operations st') k \<noteq> None"
proof -
  have start: "stranded k (CommandService_Close st)" "book_ok (CommandService_Close st)"
    using assms(2,3) book_ok_reachable [OF assms(1)]
    by (simp_all add: stranded_defs CommandService_Close_def book_ok_def submits_def)
  have "stranded k st' \<and> book_ok st'"
    using assms(4) by (induction rule: rtranclp_induct) (use start closing_step_stranded in blast)+
  then show ?thesis using book_ok_idle assms(5) by (auto simp: stranded_defs)
qed

text \<open>The state of the demonstration has the transition of a timed-out command in flight.\<close>

theorem closed_service_never_idle_witness:
  "\<not> database_idle (PushDatabaseResult \<lparr>cdr_operation_id = 1, cdr_value = Inr (RecordCount 0)\<rparr>
     (CommandService_Close (ProcessTimeoutsAndRecovery demo_env 100000000000 demo_service)))"
proof -
  let ?st = "ProcessTimeoutsAndRecovery demo_env 100000000000 demo_service"
  let ?result = "\<lparr>cdr_operation_id = 1, cdr_value = Inr (RecordCount 0)\<rparr>"
  have reachable: "service_reachable demo_env ?st"
    using demo_service_reachable service_step.timeouts by (rule service_reachable.step)
  have pending: "fmlookup (sv_operations ?st) 1 \<noteq> None" "1 \<notin> cdr_operation_id ` set (sv_database_results ?st)"
    by (simp_all add: demo_run_simps SubmitTransitionOrDefer_def Submit_def emit_def emplace_def)
  have run: "(closing_step demo_env)\<^sup>*\<^sup>* (CommandService_Close ?st) (PushDatabaseResult ?result (CommandService_Close ?st))"
    by (rule r_into_rtranclp) (rule closing_step.database_result)
  have "submits (PushDatabaseResult ?result (CommandService_Close ?st)) < 2 ^ 64 - 1"
    by (simp add: PushDatabaseResult_def CommandService_Close_def demo_run_simps submits_def)
  from closed_service_never_idle [OF reachable pending run this] show ?thesis by blast
qed

end
