(* ===== verification/Spec2Isabelle.thy ===== *)
theory Spec2Isabelle
  imports Json_Value Bounded_Queue Device_Registry Dirty_State Command_Service_Laws Device_Service_Laws Postgres_Worker_Laws
    App_Config Migration Program Ingress Mqtt_Publishing Postgres_Command_Laws Postgres_Device_Laws Service_Environment_Laws
    Command_Service_Shutdown
begin

text \<open>
  A verification development for the CNS route service, the C++ program under
  \<^verbatim>\<open>src/route_service/src\<close>. Paths below are relative to that directory.

  \<^bold>\<open>The program.\<close> Devices (drones, flight controllers, ground equipment) publish registrations and
  telemetry over MQTT. The route service keeps their state in memory, writes it to PostgreSQL, publishes
  state events, and routes configuration and control commands from sources to devices. Its parts are:

  \<^item> the process: \<^verbatim>\<open>main.cpp\<close> reads the command line (\<^verbatim>\<open>core/cli\<close>) and runs
    \<^verbatim>\<open>RunService\<close> (\<^verbatim>\<open>core/runtime/service_runner.cpp\<close>), which loads the configuration
    (\<^verbatim>\<open>core/config\<close>), checks or executes the migrations (\<^verbatim>\<open>core/migration\<close>), starts the services
    and stops them in order; \<^verbatim>\<open>core/logging\<close> is the log;
  \<^item> the device side: the bridge \<^verbatim>\<open>device_ingress.cpp\<close> pushes messages into a bounded queue
    (\<^verbatim>\<open>core/queue\<close>); the device service (\<^verbatim>\<open>device_service.cpp\<close>) parses them (\<^verbatim>\<open>core/mqtt_topic\<close>,
    \<^verbatim>\<open>core/protocol\<close>), feeds the registry (\<^verbatim>\<open>core/device\<close>), marks what has to be stored
    (\<^verbatim>\<open>core/persistence\<close>) and publishes events (\<^verbatim>\<open>core/state_event\<close>);
  \<^item> the command side: the bridge \<^verbatim>\<open>command_ingress.cpp\<close> pushes messages to the command service
    (\<^verbatim>\<open>command_service.cpp\<close>), which uses the pure functions of \<^verbatim>\<open>core/command\<close>;
  \<^item> the database worker (\<^verbatim>\<open>postgres_worker.cpp\<close>) executes the work of both services and answers
    through callbacks;
  \<^item> the adapters: \<^verbatim>\<open>adapters/mqtt\<close> around libmosquitto and \<^verbatim>\<open>adapters/postgres\<close> around libpqxx.

  \<^bold>\<open>Theories.\<close>

  \<^item> \<open>Prelude\<close>: results of fallible operations (a sum for \<^verbatim>\<open>std::expected\<close>), byte strings, finite maps;
    \<open>Json_Value\<close>: the JSON documents; \<open>Messages\<close>: the non-ASCII literals.
  \<^item> \<open>Bounded_Queue\<close>, \<open>Device_Topic\<close>, \<open>Device_Message\<close>, \<open>Time_Format\<close>, \<open>State_Event\<close>: the
    components of these names, one definition per method or function.
  \<^item> \<open>Device_Registry\<close>: the registry with its two role indexes. Every reachable registry keeps the
    indexes in step with the records; look-ups are exact; each operation is described on all branches. The
    locale \<open>device_directory\<close> is the interface the router relies on.
  \<^item> \<open>Dirty_State\<close>: no marked change is lost under any order of marks, dispatches, confirmations and
    failures.
  \<^item> \<open>Command_Types\<close>, \<open>Command_Router\<close>, \<open>Command_State\<close>, \<open>Source_Request\<close>, \<open>Command_Policy\<close>: the
    command protocol: routing, life cycle, parsing of requests and acknowledgements with exact bounds and
    round trips.
  \<^item> \<open>Database_Port\<close>, \<open>Mqtt_Port\<close>: what the services exchange with the adapters.
  \<^item> \<open>Command_Service\<close> (all handlers on the whole state), \<open>Command_Service_Run\<close> (the main loop, the
    step relation, the contracts \<open>task_contract\<close> and \<open>handler_contract\<close> the handlers fulfil and their interpretations),
    \<open>Command_Service_Laws\<close> (legality of all transitions, idempotence, admission, recovery).
  \<^item> \<open>Device_Service\<close>, \<open>Device_Service_Laws\<close>: the device service refines the registry, forgets no
    change, and keeps its counter of outstanding work exact as long as no provisioned record is refused.
  \<^item> \<open>Postgres_Worker\<close>, \<open>Postgres_Worker_Laws\<close>: both halves of a round of the worker thread in any
    interleaving with submissions; order of answers, carried writes, end of a drain.
  \<^item> \<open>Mqtt_Client\<close>, \<open>Mqtt_Client_Laws\<close>, \<open>Mqtt_Publishing\<close>: the MQTT adapter as steps of its threads and of
    the callbacks of the library. Subscriptions reported as ready are current in every interleaving; every
    accepted publication is reported exactly once; the retry thread ends.
  \<^item> \<open>Postgres_Values\<close>, \<open>Postgres_Store\<close>, \<open>Postgres_Commands\<close> with \<open>Postgres_Values_Laws\<close>,
    \<open>Postgres_Store_Laws\<close>, \<open>Postgres_Command_Laws\<close>, \<open>Postgres_Device_Laws\<close>: the database adapter. A table is a
    finite map, a statement a function on the tables, a method one transaction that may fail at any point. The tables
    stay consistent, commands follow the state machine, insertion is idempotent, rows are read back as written.
  \<^item> \<open>Store_Bridge\<close>, \<open>External_Bridge\<close>, \<open>Runtime_Bundle\<close>, \<open>Service_Environment\<close>, \<open>Service_Environment_Laws\<close>:
    \<^verbatim>\<open>service_environment.cpp\<close>, which puts the parts together: the store as the worker sees it, the retained messages
    the outside sees, the objects and callbacks the threads share, and the operations of the runner on all of them. A restart
    finishes or resumes every stored command and takes over the stored devices; what the broker retains is current; every
    connection gets one full snapshot. \<open>Command_Service_Shutdown\<close>: the command service while the shutdown waits for it.
  \<^item> \<open>Rate_Limiter\<close>, \<open>Ingress\<close>: rate limiter and bridges. \<open>Logger\<close>, \<open>App_Config\<close>, \<open>Migration\<close>, \<open>Command_Line\<close>,
    \<open>Service_Runner\<close>, \<open>Program\<close>: the process; accepted configurations, command lines and migration
    plans are characterised exactly, and every run that returns has stopped what it started.

  \<^bold>\<open>Conventions.\<close> A method that runs under a mutex is one atomic step; threads are interleavings of such
  steps, as lists of actions or \<open>inductive\<close> step relations. A class is a record of its fields, its methods
  are functions on it. What a component does to the outside is appended to a list in its state; the answers
  of callbacks are parameters indexed by the number of such effects. The iteration order of an unordered map
  is a parameter, constrained to be a permutation where a theorem needs it. Time points are integers in
  nanoseconds; machine integers are words where their width matters. Caught exceptions are values.

  \<^bold>\<open>Parameters.\<close> The JSON library (parsing, printing and equality), the random numbers, the clocks, the
  file system, the time zone, libmosquitto, PostgreSQL and all callbacks are arguments of the
  definitions. Properties with assumptions about them come with a witness in which they hold.

  \<^bold>\<open>Loops.\<close> The loops of \<^verbatim>\<open>ProcessReady\<close> are functions with a termination proof (the queues shrink).
  The main loop and the migration loop of the process may run for ever and are partial functions into
  \<^typ>\<open>'a option\<close>; when they return is a theorem of its own. The worker's drain is stated for a number of
  rounds that is one more than the jobs that wait.

  \<^bold>\<open>What the model showed.\<close> Six defects are proved as theorems: an integer range check that unsigned
  numbers above the signed range pass (\<open>result_param2_wraps\<close>), published commands that never time out
  (\<open>published_never_times_out\<close>), a counter of outstanding work that wraps after a refused provisioning
  (\<open>refused_provision_wraps\<close>), registrations lost with a connection (\<open>lost_provisions\<close>), acknowledgements
  that erase the recorded time of the dispatch (\<open>ack_erases_dispatch_time\<close>), and a shutdown that throws away the results
  it then waits for (\<open>closed_service_never_idle\<close>).

  \<^bold>\<open>Not modelled.\<close> The runner is proved over arbitrary answers of its operations, of which those of the environment are
  one case. Exceptions of the logger and of allocations inside the MQTT callbacks are not considered, nor is the
  blocking of condition variables, for which the condition waited for stands. Memory exhaustion and the overflow of
  64-bit clocks are left out. The TypeScript programs under \<^verbatim>\<open>src/backend_service\<close> and \<^verbatim>\<open>src/frontend\<close> are
  separate programs.
\<close>

subsection \<open>The command service and the store\<close>

lemma CommandFromRow_dispatched:
  "CommandFromRow lib row = Inr r \<Longrightarrow> cw_dispatched_at row = None \<Longrightarrow> cr_dispatched_at r = None"
  by (auto simp: CommandFromRow_def optional_time_def bindE_eq_Inr_iff)

text \<open>
  C39. The acknowledgement of a device erases the time of the dispatch: the update the command service builds for an
  acknowledgement carries no dispatch time, the store writes the column unconditionally, and so a command that was
  stored with the time of its dispatch has none afterwards.
\<close>

theorem ack_erases_dispatch_time:
  assumes "TransitionCommand pg lib command_id expected desired (ack_update record now) f st = (Inr r, st')"
    and "pg_uuid pg command_id = Some i" "fmlookup (db_commands (ps_db st)) i = Some old" "cw_dispatched_at old = Some t"
  shows "cr_dispatched_at r = None \<and>
    (\<exists>new. fmlookup (db_commands (ps_db st')) i = Some new \<and> identity new = identity old \<and> cw_dispatched_at new = None)"
  using assms(1-3)
  by (auto simp: TransitionCommand_def run_work_returns ack_update_def Let_def identity_def CommandFromRow_dispatched
      split: if_splits option.splits)

definition dispatched_store :: PostgresStore where
  "dispatched_store = demo_store\<lparr>ps_db := demo_db\<lparr>db_commands := fmupd ''c1''
     (demo_row\<lparr>cw_status := ''dispatched'', cw_dispatched_at := Some 5\<rparr>) fmempty\<rparr>\<rparr>"

theorem ack_erases_dispatch_time_witness:
  "\<exists>r st'. TransitionCommand plain_pg plain_lib ''c1'' Dispatched CommandStatus.Succeeded
      (ack_update (acked_record (demo_pending\<lparr>cr_status := Dispatched, cr_dispatched_at := Some 5000\<rparr>) CommandStatus.Succeeded JNull Config 9000) 9000)
      NoFault dispatched_store = (Inr r, st') \<and> cr_dispatched_at r = None"
proof -
  let ?row = "demo_row\<lparr>cw_status := ''dispatched'', cw_dispatched_at := Some 5\<rparr>"
  let ?run = "TransitionCommand plain_pg plain_lib ''c1'' Dispatched CommandStatus.Succeeded
      (ack_update (acked_record (demo_pending\<lparr>cr_status := Dispatched, cr_dispatched_at := Some 5000\<rparr>) CommandStatus.Succeeded JNull Config 9000) 9000)
      NoFault dispatched_store"
  have stored: "fmlookup (db_commands (ps_db dispatched_store)) ''c1'' = Some ?row" "ps_open dispatched_store"
    by (simp_all add: dispatched_store_def demo_store_def)
  have "\<exists>r st'. ?run = (Inr r, st')"
    by (simp add: TransitionCommand_def run_work_returns stored plain_simps CanTransition_def Let_def)
       (simp add: ack_update_def acked_record_def IsTerminal_def demo_row_def CommandFromRow_def plain_lib_def or_error_def
         ParseCommandType_def ParseCommandStatus_def ParseCommandJson_def FromUnixMicroseconds_def cut_def optional_time_def
         ToUnixMicroseconds_def JsonText_def plain_simps)
  then obtain r st' where run: "?run = (Inr r, st')" by blast
  from ack_erases_dispatch_time [OF run _ stored(1)] show ?thesis using run by (simp add: plain_simps)
qed

end
